(* ===== verification/Prelude.thy ===== *)
theory Prelude
  imports Complex_Main "HOL-Library.Char_ord" "HOL-Library.List_Lexorder" "HOL-Library.Sublist"
begin

text \<open>
  Shared vocabulary of the development: the exceptions the program raises, the two small
  effect types every component is written in (a pure \<open>result\<close> and a state-passing
  \<open>action\<close>), and the Python text operations the source uses, with the generic lemmas that
  carry the component proofs.

  Python text is modelled by \<^typ>\<open>string\<close>: one \<^typ>\<open>char\<close> is one code point in
  U+0000..U+00FF. The predicates below (\<open>isspace\<close>, \<open>isalnum\<close>, \<open>lower\<close>, \<dots>) are
  Python's, exactly, on that range; text with code points above U+00FF is outside the model.
\<close>

named_theorems result_simps \<open>equations and outcome rules of \<open>result\<close>\<close>
named_theorems action_simps \<open>equations and outcome rules of \<open>action\<close>\<close>
named_theorems keepsA_rules \<open>actions that leave a part of the state alone\<close>
named_theorems text_simps \<open>unfolding rules of the Python text operations\<close>

section \<open>Lists\<close>

lemma find_SomeD: "find P xs = Some x \<Longrightarrow> x \<in> set xs \<and> P x"
  by (induction xs) (auto split: if_splits)

lemma find_NoneD: "find P xs = None \<longleftrightarrow> (\<forall>x\<in>set xs. \<not> P x)"
  by (induction xs) auto

section \<open>Exceptions\<close>

text \<open>
  One constructor per exception class the program raises or tells apart. The argument is the
  message (for \<open>HTTPException\<close> and \<open>ScimHttpException\<close> the status code and the detail text;
  for \<open>HTTPStatusError\<close>, httpx's error, the response's status code). \<open>OtherError\<close> stands for
  every exception of an external service that the program does not distinguish.
\<close>

datatype exn =
    KeyError string
  | TypeError string
  | AttributeError string
  | ValueError string
  | RuntimeError string
  | ValidationError string
  | InvalidIdentifierError string
  | UserNotFoundError string
  | SameUserError string
  | UnverifiedEmailMergeError string
  | NoMatchError string
  | InactiveAccountError string
  | UserOperationLockTimeout string
  | OperationalError string
  | HTTPStatusError nat
  | HTTPException nat string
  | ScimHttpException nat string
  | ScimPathValidationError string
  | UnsupportedAlgorithm string
  | Rejected string
  | ProxyConfigurationError string
  | UpstreamProxyError string
  | BoundaryError string
  | OtherError string

section \<open>Results: values or exceptions\<close>

type_synonym 'a result = "exn + 'a"

definition bindR :: "'a result \<Rightarrow> ('a \<Rightarrow> 'b result) \<Rightarrow> 'b result" where
  "bindR r f = (case r of Inl e \<Rightarrow> Inl e | Inr x \<Rightarrow> f x)"

definition requireR :: "bool \<Rightarrow> exn \<Rightarrow> unit result" where
  "requireR b e = (if b then Inr () else Inl e)"

primrec mapR :: "('a \<Rightarrow> 'b result) \<Rightarrow> 'a list \<Rightarrow> 'b list result" where
  "mapR f [] = Inr []"
| "mapR f (x # xs) = bindR (f x) (\<lambda>y. bindR (mapR f xs) (\<lambda>ys. Inr (y # ys)))"

primrec forR :: "'a list \<Rightarrow> ('a \<Rightarrow> unit result) \<Rightarrow> unit result" where
  "forR [] f = Inr ()"
| "forR (x # xs) f = bindR (f x) (\<lambda>_. forR xs f)"

definition okR :: "'a result \<Rightarrow> bool" where
  "okR r = (case r of Inl _ \<Rightarrow> False | Inr _ \<Rightarrow> True)"

lemma bindR_simps [simp, result_simps]:
  "bindR (Inl e) f = Inl e" "bindR (Inr x) f = f x"
  by (simp_all add: bindR_def)

lemma requireR_simps [simp, result_simps]:
  "requireR True e = Inr ()" "requireR False e = Inl e"
  by (simp_all add: requireR_def)

lemma okR_simps [simp, result_simps]: "okR (Inl e) = False" "okR (Inr x) = True"
  by (simp_all add: okR_def)

lemma bindR_eq_Inr [result_simps]:
  "bindR r f = Inr y \<longleftrightarrow> (\<exists>x. r = Inr x \<and> f x = Inr y)"
  by (cases r) simp_all

lemma bindR_eq_Inl [result_simps]:
  "bindR r f = Inl e \<longleftrightarrow> r = Inl e \<or> (\<exists>x. r = Inr x \<and> f x = Inl e)"
  by (cases r) simp_all

lemma requireR_eq_Inr [simp, result_simps]: "requireR b e = Inr u \<longleftrightarrow> b"
  by (cases b) simp_all

lemma requireR_eq_Inl [simp, result_simps]: "requireR b e = Inl e' \<longleftrightarrow> \<not> b \<and> e' = e"
  by (cases b) auto

lemma okR_iff: "okR r \<longleftrightarrow> (\<exists>x. r = Inr x)"
  by (cases r) simp_all

lemma okR_bindR: "okR (bindR r f) \<longleftrightarrow> (\<exists>x. r = Inr x \<and> okR (f x))"
  by (cases r) simp_all

lemma okR_requireR [simp]: "okR (requireR b e) \<longleftrightarrow> b"
  by (cases b) simp_all

lemma okR_bind_unit: "okR (bindR r (\<lambda>_. q)) \<longleftrightarrow> okR r \<and> okR q"
  by (cases r) simp_all

lemma bindR_assoc: "bindR (bindR r f) g = bindR r (\<lambda>x. bindR (f x) g)"
  by (cases r) simp_all

lemma forR_ok: "forR xs f = Inr u \<longleftrightarrow> (\<forall>x\<in>set xs. okR (f x))"
  by (induction xs) (auto simp: bindR_eq_Inr okR_iff)

lemma okR_forR: "okR (forR xs f) \<longleftrightarrow> (\<forall>x\<in>set xs. okR (f x))"
  by (simp add: okR_iff forR_ok)

lemma forR_cong [fundef_cong]:
  "xs = ys \<Longrightarrow> (\<And>x. x \<in> set ys \<Longrightarrow> f x = g x) \<Longrightarrow> forR xs f = forR ys g"
  by (induction ys arbitrary: xs) auto

lemma mapR_Inr_iff: "mapR f xs = Inr ys \<longleftrightarrow> list_all2 (\<lambda>x y. f x = Inr y) xs ys"
  by (induction xs arbitrary: ys) (auto simp: bindR_eq_Inr list_all2_Cons1)

lemma mapR_Inr_length: "mapR f xs = Inr ys \<Longrightarrow> length ys = length xs"
  by (simp add: mapR_Inr_iff list_all2_lengthD)

lemma mapR_pure [simp]: "mapR (\<lambda>x. Inr (f x)) xs = Inr (map f xs)"
  by (induction xs) simp_all

section \<open>Actions: state passing with exceptions\<close>

text \<open>
  An action takes the state, and gives an outcome and the next state: an exception does not
  undo the writes made before it, as in the source.
\<close>

type_synonym ('s, 'a) action = "'s \<Rightarrow> 'a result \<times> 's"

definition returnA :: "'a \<Rightarrow> ('s, 'a) action" where
  "returnA x = (\<lambda>s. (Inr x, s))"

definition raiseA :: "exn \<Rightarrow> ('s, 'a) action" where
  "raiseA e = (\<lambda>s. (Inl e, s))"

definition liftA :: "'a result \<Rightarrow> ('s, 'a) action" where
  "liftA r = (\<lambda>s. (r, s))"

definition bindA :: "('s, 'a) action \<Rightarrow> ('a \<Rightarrow> ('s, 'b) action) \<Rightarrow> ('s, 'b) action" where
  "bindA m f = (\<lambda>s. case m s of (r, s') \<Rightarrow> (case r of Inl e \<Rightarrow> (Inl e, s') | Inr x \<Rightarrow> f x s'))"

definition catchA :: "('s, 'a) action \<Rightarrow> (exn \<Rightarrow> ('s, 'a) action) \<Rightarrow> ('s, 'a) action" where
  "catchA m h = (\<lambda>s. case m s of (r, s') \<Rightarrow> (case r of Inl e \<Rightarrow> h e s' | Inr x \<Rightarrow> (Inr x, s')))"

definition finallyA :: "('s, 'a) action \<Rightarrow> ('s \<Rightarrow> 's) \<Rightarrow> ('s, 'a) action" where
  "finallyA m cleanup = (\<lambda>s. case m s of (r, s') \<Rightarrow> (r, cleanup s'))"

definition modifyA :: "('s \<Rightarrow> 's) \<Rightarrow> ('s, unit) action" where
  "modifyA f = (\<lambda>s. (Inr (), f s))"

definition readA :: "('s \<Rightarrow> 'a) \<Rightarrow> ('s, 'a) action" where
  "readA f = (\<lambda>s. (Inr (f s), s))"

text \<open>Run an action on a part of a larger state, given the part's selector and update.\<close>

definition zoomA :: "('s \<Rightarrow> 'w) \<Rightarrow> (('w \<Rightarrow> 'w) \<Rightarrow> 's \<Rightarrow> 's) \<Rightarrow> ('w, 'a) action \<Rightarrow> ('s, 'a) action" where
  "zoomA sel upd m = (\<lambda>s. case m (sel s) of (r, w') \<Rightarrow> (r, upd (\<lambda>_. w') s))"

primrec forA :: "'a list \<Rightarrow> ('a \<Rightarrow> ('s, unit) action) \<Rightarrow> ('s, unit) action" where
  "forA [] f = returnA ()"
| "forA (x # xs) f = bindA (f x) (\<lambda>_. forA xs f)"

primrec mapA :: "('a \<Rightarrow> ('s, 'b) action) \<Rightarrow> 'a list \<Rightarrow> ('s, 'b list) action" where
  "mapA f [] = returnA []"
| "mapA f (x # xs) = bindA (f x) (\<lambda>y. bindA (mapA f xs) (\<lambda>ys. returnA (y # ys)))"

primrec foldA :: "('x \<Rightarrow> 'a \<Rightarrow> ('s, 'a) action) \<Rightarrow> 'x list \<Rightarrow> 'a \<Rightarrow> ('s, 'a) action" where
  "foldA f [] acc = returnA acc"
| "foldA f (x # xs) acc = bindA (f x acc) (foldA f xs)"

lemma returnA_run [simp, action_simps]: "returnA x s = (Inr x, s)"
  by (simp add: returnA_def)

lemma raiseA_run [simp, action_simps]: "raiseA e s = (Inl e, s)"
  by (simp add: raiseA_def)

lemma liftA_run [simp, action_simps]: "liftA r s = (r, s)"
  by (simp add: liftA_def)

lemma modifyA_run [simp, action_simps]: "modifyA f s = (Inr (), f s)"
  by (simp add: modifyA_def)

lemma readA_run [simp, action_simps]: "readA f s = (Inr (f s), s)"
  by (simp add: readA_def)

lemma bindA_run: "m s = (r, s') \<Longrightarrow>
    bindA m f s = (case r of Inl e \<Rightarrow> (Inl e, s') | Inr x \<Rightarrow> f x s')"
  by (simp add: bindA_def)

lemma bindA_Inr_run [simp, action_simps]: "m s = (Inr x, s') \<Longrightarrow> bindA m f s = f x s'"
  by (simp add: bindA_def)

lemma bindA_Inl_run [simp, action_simps]: "m s = (Inl e, s') \<Longrightarrow> bindA m f s = (Inl e, s')"
  by (simp add: bindA_def)

lemma bindA_basic [simp]:
  "bindA (returnA x) f s = f x s"
  "bindA (raiseA e) f s = (Inl e, s)"
  "bindA (liftA r) f s = (case r of Inl e \<Rightarrow> (Inl e, s) | Inr x \<Rightarrow> f x s)"
  "bindA (modifyA g) h s = h () (g s)"
  "bindA (readA k) f s = f (k s) s"
  by (simp_all add: bindA_def split: sum.splits)

lemma bindA_Inr:
  "bindA m f s = (Inr y, s'') \<longleftrightarrow> (\<exists>x s'. m s = (Inr x, s') \<and> f x s' = (Inr y, s''))"
  by (cases "m s") (auto simp: bindA_def split: sum.splits)

lemma bindA_Inl:
  "bindA m f s = (Inl e, s'') \<longleftrightarrow>
     m s = (Inl e, s'') \<or> (\<exists>x s'. m s = (Inr x, s') \<and> f x s' = (Inl e, s''))"
  by (cases "m s") (auto simp: bindA_def split: sum.splits)

lemma bindA_cases:
  assumes "bindA m f s = (r, t)"
  obtains (fail) e where "m s = (Inl e, t)" "r = Inl e"
    | (ok) x s' where "m s = (Inr x, s')" "f x s' = (r, t)"
  using assms by (cases "m s") (auto simp: bindA_def split: sum.splits)

lemma catchA_run [simp, action_simps]:
  "m s = (Inr x, s') \<Longrightarrow> catchA m h s = (Inr x, s')"
  "m s = (Inl e, s') \<Longrightarrow> catchA m h s = h e s'"
  by (simp_all add: catchA_def)

lemma catchA_cases:
  assumes "catchA m h s = (r, t)"
  obtains (ok) x where "m s = (Inr x, t)" "r = Inr x"
    | (handled) e s' where "m s = (Inl e, s')" "h e s' = (r, t)"
  using assms by (cases "m s") (auto simp: catchA_def split: sum.splits)

lemma finallyA_run [simp, action_simps]: "m s = (r, s') \<Longrightarrow> finallyA m c s = (r, c s')"
  by (simp add: finallyA_def)

lemma zoomA_run [simp, action_simps]:
  "m (sel s) = (r, w) \<Longrightarrow> zoomA sel upd m s = (r, upd (\<lambda>_. w) s)"
  by (simp add: zoomA_def)

lemma zoomA_cases:
  assumes "zoomA sel upd m s = (r, t)"
  obtains w where "m (sel s) = (r, w)" "t = upd (\<lambda>_. w) s"
  using assms by (cases "m (sel s)") (auto simp: zoomA_def)

lemma bindA_assoc: "bindA (bindA m f) g = bindA m (\<lambda>x. bindA (f x) g)"
  by (rule ext) (simp add: bindA_def split: prod.splits sum.splits)

text \<open>
  A judgement on every outcome of an action: from a state that satisfies \<open>P\<close>, a returned value
  and the final state satisfy \<open>Q\<close>, a raised exception and the final state satisfy \<open>R\<close>. One
  rule per combinator.
\<close>

definition hoareA ::
  "('s \<Rightarrow> bool) \<Rightarrow> ('s, 'a) action \<Rightarrow> ('a \<Rightarrow> 's \<Rightarrow> bool) \<Rightarrow> (exn \<Rightarrow> 's \<Rightarrow> bool) \<Rightarrow> bool" where
  "hoareA P m Q R \<longleftrightarrow>
     (\<forall>s. P s \<longrightarrow> (case m s of (r, t) \<Rightarrow> (case r of Inl e \<Rightarrow> R e t | Inr x \<Rightarrow> Q x t)))"

lemma hoareAI:
  assumes "\<And>s x t. P s \<Longrightarrow> m s = (Inr x, t) \<Longrightarrow> Q x t"
    and "\<And>s e t. P s \<Longrightarrow> m s = (Inl e, t) \<Longrightarrow> R e t"
  shows "hoareA P m Q R"
  using assms by (auto simp: hoareA_def split: prod.splits sum.splits)

lemma hoareA_Inr: "hoareA P m Q R \<Longrightarrow> P s \<Longrightarrow> m s = (Inr x, t) \<Longrightarrow> Q x t"
  by (fastforce simp: hoareA_def)

lemma hoareA_Inl: "hoareA P m Q R \<Longrightarrow> P s \<Longrightarrow> m s = (Inl e, t) \<Longrightarrow> R e t"
  by (fastforce simp: hoareA_def)

lemma hoareA_snd: "hoareA P m (\<lambda>_. S) (\<lambda>_. S) \<Longrightarrow> P s \<Longrightarrow> S (snd (m s))"
  by (cases "m s", cases "fst (m s)") (auto simp: hoareA_def)

lemma hoareA_conseq:
  assumes "hoareA P m Q R" and "\<And>s. P' s \<Longrightarrow> P s"
    and "\<And>x t. Q x t \<Longrightarrow> Q' x t" and "\<And>e t. R e t \<Longrightarrow> R' e t"
  shows "hoareA P' m Q' R'"
  using assms by (intro hoareAI) (blast dest: hoareA_Inr hoareA_Inl)+

lemma hoareA_conj:
  assumes "hoareA P m Q R" and "hoareA P' m Q' R'"
  shows "hoareA (\<lambda>s. P s \<and> P' s) m (\<lambda>x t. Q x t \<and> Q' x t) (\<lambda>e t. R e t \<and> R' e t)"
  using assms by (intro hoareAI) (blast dest: hoareA_Inr hoareA_Inl)+

lemma hoareA_pure: "(\<And>s. P s \<Longrightarrow> b) \<Longrightarrow> (b \<Longrightarrow> hoareA P m Q R) \<Longrightarrow> hoareA P m Q R"
  by (auto simp: hoareA_def)

lemma hoareA_return: "(\<And>s. P s \<Longrightarrow> Q x s) \<Longrightarrow> hoareA P (returnA x) Q R"
  by (simp add: hoareA_def)

lemma hoareA_raise: "(\<And>s. P s \<Longrightarrow> R e s) \<Longrightarrow> hoareA P (raiseA e) Q R"
  by (simp add: hoareA_def)

lemma hoareA_lift:
  "(\<And>s e. P s \<Longrightarrow> r = Inl e \<Longrightarrow> R e s) \<Longrightarrow> (\<And>s x. P s \<Longrightarrow> r = Inr x \<Longrightarrow> Q x s) \<Longrightarrow> hoareA P (liftA r) Q R"
  by (simp add: hoareA_def split: sum.splits)

lemma hoareA_bind:
  assumes "hoareA P m S R" and "\<And>x. hoareA (S x) (f x) Q R"
  shows "hoareA P (bindA m f) Q R"
  using assms by (intro hoareAI) (auto simp: bindA_Inr bindA_Inl dest: hoareA_Inr hoareA_Inl)

lemma hoareA_if:
  "(c \<Longrightarrow> hoareA P m Q R) \<Longrightarrow> (\<not> c \<Longrightarrow> hoareA P m' Q R) \<Longrightarrow> hoareA P (if c then m else m') Q R"
  by simp

lemma hoareA_catch:
  assumes "hoareA P m Q S" and "\<And>e. hoareA (S e) (h e) Q R"
  shows "hoareA P (catchA m h) Q R"
  using assms by (intro hoareAI; elim catchA_cases) (auto dest: hoareA_Inr hoareA_Inl)

lemma hoareA_finally:
  assumes "hoareA P m (\<lambda>x s. Q x (c s)) (\<lambda>e s. R e (c s))"
  shows "hoareA P (finallyA m c) Q R"
  using assms by (auto simp: hoareA_def finallyA_def split: prod.splits sum.splits)

lemma hoareA_fold:
  assumes "\<And>x xs acc. hoareA (I (x # xs) acc) (f x acc) (I xs) R"
  shows "hoareA (I xs acc) (foldA f xs acc) (I []) R"
proof (induction xs arbitrary: acc)
  case Nil
  show ?case unfolding foldA.simps by (rule hoareA_return)
next
  case (Cons x xs)
  show ?case unfolding foldA.simps by (rule hoareA_bind [OF assms Cons.IH])
qed

lemma hoareA_for:
  assumes "\<And>x. x \<in> set xs \<Longrightarrow> hoareA I (f x) (\<lambda>_. I) R"
  shows "hoareA I (forA xs f) (\<lambda>_. I) R"
  using assms
proof (induction xs)
  case Nil
  show ?case unfolding forA.simps by (rule hoareA_return)
next
  case (Cons x xs)
  then show ?case unfolding forA.simps by (intro hoareA_bind [where S = "\<lambda>_. I"]) auto
qed

text \<open>An action that leaves a part of the state alone, whatever its outcome.\<close>

definition keepsA :: "('s \<Rightarrow> 'p) \<Rightarrow> ('s, 'a) action \<Rightarrow> bool" where
  "keepsA sel m \<longleftrightarrow> (\<forall>s r t. m s = (r, t) \<longrightarrow> sel t = sel s)"

lemma keepsA_D: "keepsA sel m \<Longrightarrow> m s = (r, t) \<Longrightarrow> sel t = sel s"
  by (simp add: keepsA_def)

lemma keepsA_return [keepsA_rules]: "keepsA sel (returnA x)"
  by (simp add: keepsA_def)

lemma keepsA_raise [keepsA_rules]: "keepsA sel (raiseA e)"
  by (simp add: keepsA_def)

lemma keepsA_lift [keepsA_rules]: "keepsA sel (liftA r)"
  by (simp add: keepsA_def)

lemma keepsA_read [keepsA_rules]: "keepsA sel (readA f)"
  by (simp add: keepsA_def)

lemma keepsA_bind [keepsA_rules]: "keepsA sel m \<Longrightarrow> (\<And>x. keepsA sel (f x)) \<Longrightarrow> keepsA sel (bindA m f)"
  unfolding keepsA_def by (auto simp: bindA_def split: prod.splits sum.splits)

lemma keepsA_catch: "keepsA sel m \<Longrightarrow> (\<And>e. keepsA sel (h e)) \<Longrightarrow> keepsA sel (catchA m h)"
  unfolding keepsA_def by (auto simp: catchA_def split: prod.splits sum.splits)

lemma keepsA_if [keepsA_rules]: "keepsA sel m \<Longrightarrow> keepsA sel m' \<Longrightarrow> keepsA sel (if c then m else m')"
  by simp

lemma keepsA_fold [keepsA_rules]: "(\<And>x acc. keepsA sel (f x acc)) \<Longrightarrow> keepsA sel (foldA f xs acc)"
proof (induction xs arbitrary: acc)
  case (Cons x xs)
  then show ?case unfolding foldA.simps by (blast intro: keepsA_bind)
qed (simp add: keepsA_def)

section \<open>The process environment\<close>

text \<open>
  What the standard library reads from outside the program: wall-clock and monotonic time and
  random identifiers. The environment is a tape of values; each read takes the next one, so a
  theorem about all tapes is a theorem about all clocks and all identifier sequences. A time is
  a rational number of seconds.
\<close>

record env =
  env_time :: "nat \<Rightarrow> rat"
  env_uuid :: "nat \<Rightarrow> string"
  env_tick :: nat

definition tick :: "env \<Rightarrow> env" where
  "tick v = v\<lparr>env_tick := Suc (env_tick v)\<rparr>"

definition time_now :: "(env, rat) action" where
  "time_now v = (Inr (env_time v (env_tick v)), tick v)"

definition uuid4_hex :: "(env, string) action" where
  "uuid4_hex v = (Inr (env_uuid v (env_tick v)), tick v)"

section \<open>Python text\<close>

definition ord :: "char \<Rightarrow> nat" where
  "ord c = of_char c"

definition isascii_char :: "char \<Rightarrow> bool" where
  "isascii_char c = (ord c < 128)"

definition isascii :: "string \<Rightarrow> bool" where
  "isascii s = list_all isascii_char s"

definition isspace_char :: "char \<Rightarrow> bool" where
  "isspace_char c = (let n = ord c in
     (9 \<le> n \<and> n \<le> 13) \<or> (28 \<le> n \<and> n \<le> 32) \<or> n = 133 \<or> n = 160)"

definition is_control_char :: "char \<Rightarrow> bool" where
  "is_control_char c = (ord c < 32 \<or> ord c = 127)"

definition isdecimal_char :: "char \<Rightarrow> bool" where
  "isdecimal_char c = (48 \<le> ord c \<and> ord c \<le> 57)"

definition is_ascii_lower :: "char \<Rightarrow> bool" where
  "is_ascii_lower c = (97 \<le> ord c \<and> ord c \<le> 122)"

definition is_ascii_upper :: "char \<Rightarrow> bool" where
  "is_ascii_upper c = (65 \<le> ord c \<and> ord c \<le> 90)"

definition is_ascii_alpha :: "char \<Rightarrow> bool" where
  "is_ascii_alpha c = (is_ascii_lower c \<or> is_ascii_upper c)"

definition is_ascii_alnum :: "char \<Rightarrow> bool" where
  "is_ascii_alnum c = (is_ascii_alpha c \<or> isdecimal_char c)"

definition isalnum_char :: "char \<Rightarrow> bool" where
  "isalnum_char c = (is_ascii_alnum c \<or>
     (let n = ord c in n \<in> {170, 178, 179, 181, 185, 186, 188, 189, 190} \<or>
        (192 \<le> n \<and> n \<le> 214) \<or> (216 \<le> n \<and> n \<le> 246) \<or> 248 \<le> n))"

definition lower_char :: "char \<Rightarrow> char" where
  "lower_char c = (if is_ascii_upper c \<or> (192 \<le> ord c \<and> ord c \<le> 222 \<and> ord c \<noteq> 215)
     then char_of (ord c + 32) else c)"

definition lower :: "string \<Rightarrow> string" where
  "lower s = map lower_char s"

definition lstrip :: "string \<Rightarrow> string" where
  "lstrip s = dropWhile isspace_char s"

definition rstrip :: "string \<Rightarrow> string" where
  "rstrip s = rev (dropWhile isspace_char (rev s))"

definition strip :: "string \<Rightarrow> string" where
  "strip s = rstrip (lstrip s)"

definition startswith :: "string \<Rightarrow> string \<Rightarrow> bool" where
  "startswith s p = prefix p s"

definition endswith :: "string \<Rightarrow> string \<Rightarrow> bool" where
  "endswith s p = suffix p s"

text \<open>\<open>sub in s\<close> on text.\<close>

primrec contains :: "string \<Rightarrow> string \<Rightarrow> bool" where
  "contains sub [] = (sub = [])"
| "contains sub (c # cs) = (prefix sub (c # cs) \<or> contains sub cs)"

text \<open>\<open>s.split(d)\<close> for a one-character separator, and the inverse \<open>d.join(parts)\<close>.\<close>

primrec split_char :: "char \<Rightarrow> string \<Rightarrow> string list" where
  "split_char d [] = [[]]"
| "split_char d (c # cs) =
     (if c = d then [] # split_char d cs
      else (c # hd (split_char d cs)) # tl (split_char d cs))"

fun join_char :: "char \<Rightarrow> string list \<Rightarrow> string" where
  "join_char d [] = []"
| "join_char d [p] = p"
| "join_char d (p # q # ps) = p @ d # join_char d (q # ps)"

text \<open>The truth value of optional text, and \<open>x or default\<close>.\<close>

definition truthy_text :: "string option \<Rightarrow> bool" where
  "truthy_text s = (case s of None \<Rightarrow> False | Some t \<Rightarrow> t \<noteq> [])"

definition text_or :: "string option \<Rightarrow> string \<Rightarrow> string" where
  "text_or s d = (case s of None \<Rightarrow> d | Some t \<Rightarrow> if t = [] then d else t)"

lemmas text_predicate_defs [text_simps] =
  isascii_def isascii_char_def isspace_char_def is_control_char_def isdecimal_char_def
  is_ascii_lower_def is_ascii_upper_def is_ascii_alpha_def is_ascii_alnum_def isalnum_char_def
  ord_def

lemma ord_less_256 [simp]: "ord c < 256"
  by (simp add: ord_def)

lemma ord_inject [simp]: "ord c = ord d \<longleftrightarrow> c = d"
  by (simp add: ord_def)

lemma ord_char_of [simp]: "n < 256 \<Longrightarrow> ord (char_of n) = n"
  by (simp add: ord_def)

lemma ord_lower_char:
  "ord (lower_char c) =
     (if (65 \<le> ord c \<and> ord c \<le> 90) \<or> (192 \<le> ord c \<and> ord c \<le> 222 \<and> ord c \<noteq> 215)
      then ord c + 32 else ord c)"
  by (simp add: lower_char_def is_ascii_upper_def)

lemma lower_char_idem [simp]: "lower_char (lower_char c) = lower_char c"
proof -
  have "ord (lower_char (lower_char c)) = ord (lower_char c)"
    unfolding ord_lower_char [of "lower_char c"] by (auto simp: ord_lower_char)
  then show ?thesis by (simp only: ord_inject)
qed

lemma lower_idem [simp]: "lower (lower s) = lower s"
  by (simp add: lower_def)

lemma length_lower [simp]: "length (lower s) = length s"
  by (simp add: lower_def)

lemma lower_Nil [simp]: "lower s = [] \<longleftrightarrow> s = []" "lower [] = []"
  by (simp_all add: lower_def)

lemma isspace_lower_char [simp]: "isspace_char (lower_char c) = isspace_char c"
  by (auto simp: isspace_char_def ord_lower_char Let_def)

lemma strip_Nil [simp]: "strip [] = []"
  by (simp add: strip_def lstrip_def rstrip_def)

lemma dropWhile_all: "(dropWhile P xs = []) = (\<forall>x\<in>set xs. P x)"
  by (rule dropWhile_eq_Nil_conv)

lemma strip_Nil_iff: "strip s = [] \<longleftrightarrow> (\<forall>c\<in>set s. isspace_char c)"
proof
  assume "strip s = []"
  then have "\<forall>c\<in>set (lstrip s). isspace_char c"
    by (simp add: strip_def rstrip_def)
  moreover have "lstrip s \<noteq> [] \<Longrightarrow> \<not> isspace_char (hd (lstrip s))"
    unfolding lstrip_def by (rule hd_dropWhile)
  ultimately have "lstrip s = []"
    by (metis list.set_sel(1))
  then show "\<forall>c\<in>set s. isspace_char c" by (simp add: lstrip_def)
next
  assume "\<forall>c\<in>set s. isspace_char c"
  then have "lstrip s = []" by (simp add: lstrip_def)
  then show "strip s = []" by (simp add: strip_def rstrip_def)
qed

lemma hd_lstrip: "lstrip s \<noteq> [] \<Longrightarrow> \<not> isspace_char (hd (lstrip s))"
  unfolding lstrip_def by (rule hd_dropWhile)

lemma rstrip_append_nonspace:
  "\<not> isspace_char c \<Longrightarrow> rstrip (xs @ [c]) = xs @ [c]"
  by (simp add: rstrip_def)

lemma last_rstrip: "rstrip s \<noteq> [] \<Longrightarrow> \<not> isspace_char (last (rstrip s))"
  using hd_dropWhile [of isspace_char "rev s"] by (auto simp: rstrip_def last_rev)

lemma rstrip_prefix: "\<exists>ys. s = rstrip s @ ys"
proof -
  have "rev s = takeWhile isspace_char (rev s) @ dropWhile isspace_char (rev s)" by simp
  then have "s = rev (dropWhile isspace_char (rev s)) @ rev (takeWhile isspace_char (rev s))"
    by (metis rev_append rev_rev_ident)
  then show ?thesis by (auto simp: rstrip_def)
qed

lemma hd_rstrip: "rstrip s \<noteq> [] \<Longrightarrow> hd (rstrip s) = hd s"
  using rstrip_prefix [of s] by (metis hd_append2)

lemma hd_strip: "strip s \<noteq> [] \<Longrightarrow> \<not> isspace_char (hd (strip s))"
  unfolding strip_def using hd_rstrip [of "lstrip s"] hd_lstrip [of s]
  by (metis rev.simps(1) rstrip_def dropWhile.simps(1) rev_is_Nil_conv)

lemma last_strip: "strip s \<noteq> [] \<Longrightarrow> \<not> isspace_char (last (strip s))"
  unfolding strip_def by (rule last_rstrip)

lemma lstrip_id: "s = [] \<or> \<not> isspace_char (hd s) \<Longrightarrow> lstrip s = s"
  by (cases s) (auto simp: lstrip_def)

lemma rstrip_id: "s = [] \<or> \<not> isspace_char (last s) \<Longrightarrow> rstrip s = s"
  by (cases s rule: rev_cases) (auto simp: rstrip_def)

lemma strip_id: "s = [] \<or> (\<not> isspace_char (hd s) \<and> \<not> isspace_char (last s)) \<Longrightarrow> strip s = s"
  by (auto simp: strip_def lstrip_id rstrip_id)

lemma strip_idem [simp]: "strip (strip s) = strip s"
  using hd_strip [of s] last_strip [of s] by (intro strip_id) blast

lemma strip_eq_iff: "strip s = s \<longleftrightarrow> s = [] \<or> (\<not> isspace_char (hd s) \<and> \<not> isspace_char (last s))"
  using hd_strip [of s] last_strip [of s] strip_id [of s] by metis

lemma set_strip: "set (strip s) \<subseteq> set s"
  by (auto simp: strip_def lstrip_def rstrip_def dest!: set_dropWhileD)

lemma lower_strip: "lower (strip s) = strip (lower s)"
proof -
  have "(isspace_char \<circ> lower_char) = isspace_char" by (simp add: fun_eq_iff)
  then show ?thesis
    by (simp add: lower_def strip_def lstrip_def rstrip_def dropWhile_map rev_map)
qed

lemma split_char_not_Nil [simp]: "split_char d s \<noteq> []"
  by (induction s) auto

lemma join_char_Cons: "ps \<noteq> [] \<Longrightarrow> join_char d (p # ps) = p @ d # join_char d ps"
  by (cases ps) simp_all

lemma split_char_code [code]:
  "split_char d [] = [[]]"
  "split_char d (c # cs) =
     (case split_char d cs of
        [] \<Rightarrow> [[c]]
      | p # ps \<Rightarrow> if c = d then [] # p # ps else (c # p) # ps)"
  by (auto split: list.split)

lemma join_split_char [simp]: "join_char d (split_char d s) = s"
proof (induction s)
  case Nil
  then show ?case by simp
next
  case (Cons c s)
  obtain p ps where split: "split_char d s = p # ps"
    by (cases "split_char d s") auto
  show ?case
    using Cons.IH by (cases ps) (auto simp: split join_char_Cons)
qed

lemma split_char_free: "p \<in> set (split_char d s) \<Longrightarrow> d \<notin> set p"
proof (induction s arbitrary: p)
  case Nil
  then show ?case by simp
next
  case (Cons c s)
  obtain q qs where split: "split_char d s = q # qs"
    by (cases "split_char d s") auto
  show ?case
    using Cons by (auto simp: split split: if_splits)
qed

lemma split_char_no_sep: "d \<notin> set s \<Longrightarrow> split_char d s = [s]"
  by (induction s) auto

lemma split_char_append_sep: "d \<notin> set p \<Longrightarrow> split_char d (p @ d # s) = p # split_char d s"
  by (induction p) auto

lemma split_join_char:
  "ps \<noteq> [] \<Longrightarrow> (\<And>p. p \<in> set ps \<Longrightarrow> d \<notin> set p) \<Longrightarrow> split_char d (join_char d ps) = ps"
proof (induction d ps rule: join_char.induct)
  case (1 d)
  then show ?case by simp
next
  case (2 d p)
  then show ?case by (simp add: split_char_no_sep)
next
  case (3 d p q ps)
  then show ?case by (simp add: split_char_append_sep)
qed

lemma set_join_char: "set (join_char d ps) \<subseteq> insert d (\<Union> (set ` set ps))"
  by (induction d ps rule: join_char.induct) auto

lemma set_split_char: "p \<in> set (split_char d s) \<Longrightarrow> set p \<subseteq> set s"
proof (induction s arbitrary: p)
  case Nil
  then show ?case by simp
next
  case (Cons c s)
  obtain q qs where split: "split_char d s = q # qs"
    by (cases "split_char d s") auto
  show ?case
    using Cons.IH Cons.prems by (force simp: split split: if_splits)
qed

lemma contains_iff: "contains sub s \<longleftrightarrow> (\<exists>xs ys. s = xs @ sub @ ys)"
proof (induction s)
  case Nil
  then show ?case by auto
next
  case (Cons c s)
  have "(\<exists>xs ys. c # s = xs @ sub @ ys) \<longleftrightarrow>
      prefix sub (c # s) \<or> (\<exists>xs ys. s = xs @ sub @ ys)"
    by (metis append_Cons append_eq_Cons_conv append_Nil prefix_def)
  with Cons show ?case by simp
qed

lemma contains_single [simp]: "contains [d] s \<longleftrightarrow> d \<in> set s"
  by (auto simp: contains_iff in_set_conv_decomp)

end
