(* ===== verification/UserLocks.thy ===== *)
theory UserLocks
  imports Prelude
begin

text \<open>
  The user-operation locks of \<open>app/user_locks.py\<close> as one caller sees them: the normalised
  acquisition order and the SQLite mutex (\<open>BEGIN IMMEDIATE\<close> on a sidecar database, rolled back
  on the way out). The locale \<open>user_operation_locks\<close> is the \<open>UserOperationLocks\<close> protocol;
  its client lemma says that \<open>hold\<close> gives the lock back on every exit. The interleaved
  behaviour of the keyed in-memory manager is in \<open>Lock_Protocol\<close>.
\<close>

definition normalise_user_ids :: "string list \<Rightarrow> string list result" where
  "normalise_user_ids user_ids =
     (let ordered = sort (remdups user_ids) in
      if ordered = [] \<or> [] \<in> set ordered
      then Inl (ValueError ''at least one non-empty user ID is required'')
      else Inr ordered)"

lemma normalise_user_ids_ok:
  "normalise_user_ids ids = Inr ordered \<longleftrightarrow>
     ordered = sort (remdups ids) \<and> ids \<noteq> [] \<and> [] \<notin> set ids"
  by (auto simp: normalise_user_ids_def Let_def) (metis set_empty set_remdups set_sort)+

lemma normalise_user_ids_sorted:
  assumes "normalise_user_ids ids = Inr ordered"
  shows "sorted ordered" "distinct ordered" "set ordered = set ids" "ordered \<noteq> []"
  using assms by (auto simp: normalise_user_ids_ok) (metis set_empty set_remdups set_sort)

section \<open>The SQLite mutex\<close>

text \<open>
  The sidecar database: the committed content of the single row, the connection that has an open
  write transaction (with the row it wrote), and the error that \<open>BEGIN IMMEDIATE\<close> would raise for
  a reason other than contention (chosen by the environment).
\<close>

record sqlite_lock_db =
  committed_user_ids :: "string option"
  writer :: "(nat \<times> string) option"
  next_connection :: nat
  begin_failure :: "string option"

definition lock_begin_error :: "string \<Rightarrow> exn" where
  "lock_begin_error message =
     (if contains ''locked'' (lower message)
      then UserOperationLockTimeout ''timed out waiting for another user mutation to finish''
      else OperationalError message)"

definition sqlite_lock_acquire :: "string list \<Rightarrow> (sqlite_lock_db, nat) action" where
  "sqlite_lock_acquire user_ids = (\<lambda>db.
     case normalise_user_ids user_ids of
       Inl e \<Rightarrow> (Inl e, db)
     | Inr ordered \<Rightarrow>
         (let connection = next_connection db;
              db' = db\<lparr>next_connection := Suc connection\<rparr>
          in case begin_failure db of
               Some message \<Rightarrow> (Inl (lock_begin_error message), db')
             | None \<Rightarrow>
                 (if writer db \<noteq> None
                  then (Inl (lock_begin_error ''database is locked''), db')
                  else (Inr connection,
                        db'\<lparr>writer := Some (connection, join_char (CHR '','') ordered)\<rparr>))))"

text \<open>The \<open>finally\<close> block: roll back if the connection is in a transaction, then close it.\<close>

definition sqlite_lock_release :: "nat \<Rightarrow> sqlite_lock_db \<Rightarrow> sqlite_lock_db" where
  "sqlite_lock_release connection db =
     (case writer db of
        Some (c, _) \<Rightarrow> if c = connection then db\<lparr>writer := None\<rparr> else db
      | None \<Rightarrow> db)"

section \<open>Holding a lock around an action\<close>

record 'l lock_ops =
  lk_acquire :: "string list \<Rightarrow> ('l, nat) action"
  lk_release :: "nat \<Rightarrow> 'l \<Rightarrow> 'l"

definition sqlite_lock_ops :: "sqlite_lock_db lock_ops" where
  "sqlite_lock_ops = \<lparr>lk_acquire = sqlite_lock_acquire, lk_release = sqlite_lock_release\<rparr>"

text \<open>\<open>with locks.hold(*ids): body\<close>, over a state of which the lock database is a part.\<close>

definition hold ::
  "'l lock_ops \<Rightarrow> ('s \<Rightarrow> 'l) \<Rightarrow> (('l \<Rightarrow> 'l) \<Rightarrow> 's \<Rightarrow> 's) \<Rightarrow> string list
     \<Rightarrow> ('s, 'a) action \<Rightarrow> ('s, 'a) action" where
  "hold ops sel upd user_ids body =
     bindA (zoomA sel upd (lk_acquire ops user_ids))
       (\<lambda>token. finallyA body (upd (lk_release ops token)))"

locale user_operation_locks =
  fixes ops :: "'l lock_ops"
    and held :: "'l \<Rightarrow> bool"
  assumes acquire_free: "lk_acquire ops ids l = (Inr token, l') \<Longrightarrow> \<not> held l \<and> held l'"
    and acquire_fails: "lk_acquire ops ids l = (Inl e, l') \<Longrightarrow> held l' = held l"
    and acquire_release: "lk_acquire ops ids l = (Inr token, l') \<Longrightarrow> \<not> held (lk_release ops token l')"
    and acquire_ids: "lk_acquire ops ids l = (Inr token, l') \<Longrightarrow> okR (normalise_user_ids ids)"
begin

text \<open>
  Whatever the body does, \<open>hold\<close> leaves the lock as it found it, provided the body itself does
  not touch the lock; and a body that ran, ran with the lock held.
\<close>

lemma hold_restores:
  assumes "\<And>f s. sel (upd f s) = f (sel s)"
    and "\<And>s r t. body s = (r, t) \<Longrightarrow> sel t = sel s"
    and "hold ops sel upd ids body s = (r, t)"
  shows "held (sel t) = held (sel s)"
  using assms(3) unfolding hold_def
proof (cases rule: bindA_cases)
  case (fail e)
  then show ?thesis
    using assms(1) acquire_fails by (auto elim!: zoomA_cases)
next
  case (ok token s')
  from ok(1) obtain l where acq: "lk_acquire ops ids (sel s) = (Inr token, l)"
    and s': "s' = upd (\<lambda>_. l) s"
    by (auto elim!: zoomA_cases)
  obtain r' t' where body: "body s' = (r', t')" by (cases "body s'")
  have "sel t' = l" using assms(2) [OF body] by (simp add: s' assms(1))
  with ok(2) body show ?thesis
    using acquire_release [OF acq] acquire_free [OF acq] by (auto simp: assms(1))
qed

lemma hold_cases:
  assumes "hold ops sel upd ids body s = (r, t)"
  obtains (refused) e l where "lk_acquire ops ids (sel s) = (Inl e, l)" "r = Inl e"
      "t = upd (\<lambda>_. l) s"
    | (ran) token l t' where "lk_acquire ops ids (sel s) = (Inr token, l)"
      "body (upd (\<lambda>_. l) s) = (r, t')" "t = upd (lk_release ops token) t'"
proof -
  obtain a l where acq: "lk_acquire ops ids (sel s) = (a, l)"
    by (cases "lk_acquire ops ids (sel s)")
  show ?thesis
  proof (cases a)
    case (Inl e)
    with acq assms show ?thesis
      by (intro refused) (auto simp: hold_def)
  next
    case (Inr token)
    obtain r' t' where body: "body (upd (\<lambda>_. l) s) = (r', t')"
      by (cases "body (upd (\<lambda>_. l) s)")
    with acq Inr assms show ?thesis
      by (intro ran) (auto simp: hold_def)
  qed
qed

end

interpretation sqlite_lock: user_operation_locks sqlite_lock_ops "\<lambda>db. writer db \<noteq> None"
  by unfold_locales
    (auto simp: sqlite_lock_ops_def sqlite_lock_acquire_def sqlite_lock_release_def Let_def
      split: sum.splits option.splits if_splits)

lemma sqlite_lock_acquire_committed:
  "sqlite_lock_acquire ids db = (r, db') \<Longrightarrow> committed_user_ids db' = committed_user_ids db"
  by (auto simp: sqlite_lock_acquire_def Let_def split: sum.splits option.splits if_splits)

lemma sqlite_lock_release_committed [simp]:
  "committed_user_ids (sqlite_lock_release c db) = committed_user_ids db"
  by (simp add: sqlite_lock_release_def split: option.splits)

text \<open>
  Holding the SQLite mutex around any action that does not touch the lock itself releases it
  on every exit, normal or by an exception, and never commits the sidecar row; a refused
  acquisition runs nothing: the rest of the state is as it was.
\<close>

theorem sqlite_hold_releases:
  assumes "\<And>s r t. body s = (r, t) \<Longrightarrow> snd t = snd s"
    and "hold sqlite_lock_ops snd (map_prod id) ids body s = (r, t)"
  shows "(writer (snd s) = None \<longrightarrow> writer (snd t) = None)
    \<and> committed_user_ids (snd t) = committed_user_ids (snd s)
    \<and> (writer (snd s) \<noteq> None \<longrightarrow> fst t = fst s \<and> \<not> okR r)"
proof -
  have restored: "writer (snd s) = None \<longrightarrow> writer (snd t) = None"
    using sqlite_lock.hold_restores [of snd "map_prod id" body ids s r t] assms by fastforce
  from assms(2) show ?thesis
  proof (cases rule: sqlite_lock.hold_cases)
    case (refused e l)
    with restored show ?thesis
      by (auto simp: sqlite_lock_ops_def dest: sqlite_lock_acquire_committed)
  next
    case (ran token l t')
    have "writer (snd s) = None"
      using sqlite_lock.acquire_free [OF ran(1)] by blast
    moreover have "committed_user_ids l = committed_user_ids (snd s)"
      using ran(1) by (simp add: sqlite_lock_ops_def sqlite_lock_acquire_committed)
    ultimately show ?thesis
      using restored ran assms(1) [OF ran(2)] by (simp add: sqlite_lock_ops_def)
  qed
qed

definition sample_lock_db :: sqlite_lock_db where
  "sample_lock_db =
     \<lparr>committed_user_ids = None, writer = None, next_connection = 0, begin_failure = None\<rparr>"

theorem sqlite_hold_releases_witness:
  "hold sqlite_lock_ops snd (map_prod id) [''b'', ''a''] (raiseA (KeyError ''x'')) (7 :: nat, sample_lock_db)
     = (Inl (KeyError ''x'') :: unit result, (7, sample_lock_db\<lparr>next_connection := 1\<rparr>))
   \<and> writer (snd (7 :: nat, sample_lock_db\<lparr>next_connection := 1\<rparr>)) = None"
proof -
  let ?t = "(7 :: nat, sample_lock_db\<lparr>next_connection := 1\<rparr>)"
  have run: "hold sqlite_lock_ops snd (map_prod id) [''b'', ''a''] (raiseA (KeyError ''x''))
      (7 :: nat, sample_lock_db) = (Inl (KeyError ''x'') :: unit result, ?t)"
    by code_simp
  have "writer (snd (7 :: nat, sample_lock_db)) = None"
    by (simp add: sample_lock_db_def)
  with sqlite_hold_releases [OF _ run] run show ?thesis by simp
qed

end
