(* ===== verification/Lock_Protocol.thy ===== *)
theory Lock_Protocol
  imports UserLocks
begin

text \<open>
  Threads competing for the keyed re-entrant locks of \<open>InMemoryUserOperationLocks\<close>
  (\<open>app/user_locks.py\<close>). A step is one statement of one thread's \<open>hold\<close>: normalise the
  identifiers, acquire the next lock, enter the body, leave it, release the locks in reverse
  order. The scheduler is arbitrary. Reachable states satisfy mutual exclusion per user id, and
  some thread that is inside \<open>hold\<close> can always move: acquiring in sorted order excludes deadlock.
\<close>

datatype phase =
    Idle
  | Acquiring "string list" "string list"
  | Critical "string list"
  | Releasing "string list"

primrec held_ids :: "phase \<Rightarrow> string set" where
  "held_ids Idle = {}"
| "held_ids (Acquiring got wanted) = set got"
| "held_ids (Critical got) = set got"
| "held_ids (Releasing got) = set got"

text \<open>\<open>owner\<close> is the lock registry: which thread owns the lock of a user id, if any.\<close>

record lock_system =
  phase_of :: "nat \<Rightarrow> phase"
  owner :: "string \<Rightarrow> nat option"

definition initial_locks :: lock_system where
  "initial_locks = \<lparr>phase_of = (\<lambda>_. Idle), owner = (\<lambda>_. None)\<rparr>"

definition set_phase :: "nat \<Rightarrow> phase \<Rightarrow> lock_system \<Rightarrow> lock_system" where
  "set_phase t p s = s\<lparr>phase_of := (phase_of s)(t := p)\<rparr>"

inductive lock_step :: "nat \<Rightarrow> lock_system \<Rightarrow> lock_system \<Rightarrow> bool" where
  request: "phase_of s t = Idle \<Longrightarrow> normalise_user_ids ids = Inr ordered \<Longrightarrow>
     lock_step t s (set_phase t (Acquiring [] ordered) s)"
| acquire: "phase_of s t = Acquiring got (x # wanted) \<Longrightarrow> owner s x = None \<Longrightarrow>
     lock_step t s ((set_phase t (Acquiring (got @ [x]) wanted) s)\<lparr>owner := (owner s)(x \<mapsto> t)\<rparr>)"
| enter: "phase_of s t = Acquiring got [] \<Longrightarrow> lock_step t s (set_phase t (Critical got) s)"
| leave: "phase_of s t = Critical got \<Longrightarrow> lock_step t s (set_phase t (Releasing (rev got)) s)"
| release: "phase_of s t = Releasing (x # got) \<Longrightarrow>
     lock_step t s ((set_phase t (Releasing got) s)\<lparr>owner := (owner s)(x := None)\<rparr>)"
| finish: "phase_of s t = Releasing [] \<Longrightarrow> lock_step t s (set_phase t Idle s)"

inductive lock_reachable :: "lock_system \<Rightarrow> bool" where
  start: "lock_reachable initial_locks"
| step: "lock_reachable s \<Longrightarrow> lock_step t s s' \<Longrightarrow> lock_reachable s'"

primrec phase_ok :: "phase \<Rightarrow> bool" where
  "phase_ok Idle = True"
| "phase_ok (Acquiring got wanted) = (sorted (got @ wanted) \<and> distinct (got @ wanted))"
| "phase_ok (Critical got) = distinct got"
| "phase_ok (Releasing got) = distinct got"

text \<open>The registry and the threads agree, every thread is in acquisition order, and only
  finitely many threads are inside \<open>hold\<close>.\<close>

definition lock_inv :: "lock_system \<Rightarrow> bool" where
  "lock_inv s \<longleftrightarrow>
     (\<forall>x t. owner s x = Some t \<longleftrightarrow> x \<in> held_ids (phase_of s t)) \<and>
     (\<forall>t. phase_ok (phase_of s t)) \<and> finite {t. phase_of s t \<noteq> Idle}"

lemma set_phase_simps [simp]:
  "phase_of (set_phase t p s) = (phase_of s)(t := p)" "owner (set_phase t p s) = owner s"
  by (simp_all add: set_phase_def)

lemma lock_inv_initial: "lock_inv initial_locks"
  by (simp add: lock_inv_def initial_locks_def)

lemma finite_phase_update:
  "finite {t. f t \<noteq> Idle} \<Longrightarrow> finite {u. (f(t := p)) u \<noteq> Idle}"
  by (rule finite_subset [of _ "insert t {t. f t \<noteq> Idle}"]) auto

lemma lock_inv_update:
  assumes "lock_inv s" and "phase_ok p"
    and "\<And>x. own x = Some t \<longleftrightarrow> x \<in> held_ids p"
    and "\<And>x u. u \<noteq> t \<Longrightarrow> own x = Some u \<longleftrightarrow> owner s x = Some u"
  shows "lock_inv ((set_phase t p s)\<lparr>owner := own\<rparr>)"
proof -
  have "finite {u. ((phase_of s)(t := p)) u \<noteq> Idle}"
    using assms(1) by (intro finite_phase_update) (simp add: lock_inv_def)
  then show ?thesis
    using assms by (simp add: lock_inv_def)
qed

lemma lock_inv_phase:
  assumes "lock_inv s" and "phase_ok p" and "held_ids p = held_ids (phase_of s t)"
  shows "lock_inv (set_phase t p s)"
proof -
  have "lock_inv ((set_phase t p s)\<lparr>owner := owner s\<rparr>)"
    using assms by (intro lock_inv_update) (auto simp: lock_inv_def)
  then show ?thesis by (simp add: set_phase_def)
qed

lemma lock_inv_step:
  assumes "lock_step t s s'" and inv: "lock_inv s"
  shows "lock_inv s'"
proof -
  have own: "\<And>x u. owner s x = Some u \<longleftrightarrow> x \<in> held_ids (phase_of s u)"
    and ok: "phase_ok (phase_of s t)"
    using inv by (auto simp: lock_inv_def)
  show ?thesis
    using assms(1)
  proof cases
    case (request ids ordered)
    then show ?thesis
      using normalise_user_ids_sorted(1,2) by (auto intro!: lock_inv_phase [OF inv])
  next
    case (acquire got x wanted)
    then show ?thesis
      using own [of _ t] ok by (auto intro!: lock_inv_update [OF inv] split: if_splits)
  next
    case (enter got)
    then show ?thesis using ok by (auto intro!: lock_inv_phase [OF inv])
  next
    case (leave got)
    then show ?thesis using ok by (auto intro!: lock_inv_phase [OF inv])
  next
    case (release x got)
    then have "owner s x = Some t" using own by simp
    then have "((owner s)(x := None)) y = Some u \<longleftrightarrow> owner s y = Some u" if "u \<noteq> t" for y u
      using that by simp
    moreover have "((owner s)(x := None)) y = Some t \<longleftrightarrow> y \<in> set got" for y
      using own [of y t] ok release by auto
    ultimately show ?thesis
      using ok release by (auto simp del: fun_upd_apply intro!: lock_inv_update [OF inv])
  next
    case finish
    then show ?thesis by (auto intro!: lock_inv_phase [OF inv])
  qed
qed

lemma lock_reachable_inv: "lock_reachable s \<Longrightarrow> lock_inv s"
  by (induction rule: lock_reachable.induct) (auto intro: lock_inv_initial lock_inv_step)


section \<open>Deadlock freedom\<close>

text \<open>A thread that waits for a lock, and the lock it waits for.\<close>

definition waits_for :: "lock_system \<Rightarrow> nat \<Rightarrow> string \<Rightarrow> bool" where
  "waits_for s t x \<longleftrightarrow> (\<exists>got wanted. phase_of s t = Acquiring got (x # wanted))"

lemma step_or_blocked:
  assumes "phase_of s t \<noteq> Idle"
  shows "(\<exists>s'. lock_step t s s') \<or> (\<exists>x u. waits_for s t x \<and> owner s x = Some u)"
proof (cases "phase_of s t")
  case (Acquiring got wanted)
  show ?thesis
  proof (cases wanted)
    case Nil
    with Acquiring show ?thesis using lock_step.enter by blast
  next
    case (Cons x rest)
    with Acquiring show ?thesis
      by (cases "owner s x") (blast intro: lock_step.acquire, auto simp: waits_for_def)
  qed
next
  case (Releasing got)
  then show ?thesis by (cases got) (auto intro: lock_step.intros)
qed (use assms in \<open>auto intro: lock_step.intros\<close>)

lemma waiting_above_held:
  assumes "lock_inv s" and "waits_for s u y" and "owner s x = Some u"
  shows "x < y"
proof -
  from assms(2) obtain got wanted where ph: "phase_of s u = Acquiring got (y # wanted)"
    by (auto simp: waits_for_def)
  have "x \<in> set got" using assms(1,3) ph by (simp add: lock_inv_def)
  moreover have "sorted (got @ y # wanted)" "distinct (got @ y # wanted)"
    using assms(1) ph unfolding lock_inv_def by (metis phase_ok.simps(2))+
  ultimately show ?thesis
    by (auto simp: sorted_append order.strict_iff_order)
qed

definition wanted_lock :: "lock_system \<Rightarrow> nat \<Rightarrow> string" where
  "wanted_lock s t = (case phase_of s t of Acquiring got wanted \<Rightarrow> hd wanted | _ \<Rightarrow> [])"

lemma waits_for_wanted: "waits_for s t x \<Longrightarrow> phase_of s t \<noteq> Idle \<and> x = wanted_lock s t"
  by (auto simp: waits_for_def wanted_lock_def)

lemma progress_if_blocked:
  assumes inv: "lock_inv s" and blocked: "waits_for s t x" "owner s x = Some u"
  shows "\<exists>t' s'. phase_of s t' \<noteq> Idle \<and> lock_step t' s s'"
proof -
  let ?B = "{y. \<exists>v. waits_for s v y}"
  have "y \<in> wanted_lock s ` {v. phase_of s v \<noteq> Idle}" if "waits_for s v y" for v y
    using waits_for_wanted [OF that] by blast
  then have "?B \<subseteq> wanted_lock s ` {v. phase_of s v \<noteq> Idle}" by blast
  moreover have "finite {v. phase_of s v \<noteq> Idle}" using inv by (simp add: lock_inv_def)
  ultimately have "finite ?B" by (rule finite_surj [rotated])
  moreover have "?B \<noteq> {}" using blocked by auto
  ultimately have maxB: "Max ?B \<in> ?B" by (rule Max_in)
  have above: "y \<le> Max ?B" if "y \<in> ?B" for y
    using \<open>finite ?B\<close> that by (rule Max_ge)
  from maxB obtain v where v: "waits_for s v (Max ?B)" by blast
  then have active: "phase_of s v \<noteq> Idle" by (auto simp: waits_for_def)
  show ?thesis
  proof (cases "owner s (Max ?B)")
    case None
    then show ?thesis using v active by (auto simp: waits_for_def intro: lock_step.acquire)
  next
    case (Some w)
    then have "phase_of s w \<noteq> Idle" using inv by (auto simp: lock_inv_def)
    moreover have "\<not> waits_for s w y" for y
      using waiting_above_held [OF inv _ Some, of y] above [of y] leD by blast
    ultimately show ?thesis using step_or_blocked [of s w] by blast
  qed
qed

text \<open>
  C13. Deadlock freedom: in every reachable state in which some thread is inside \<open>hold\<close> (waiting,
  working or releasing), some thread that is inside \<open>hold\<close> can take a step.
\<close>

theorem lock_deadlock_free:
  assumes "lock_reachable s" and "phase_of s t \<noteq> Idle"
  shows "\<exists>t' s'. phase_of s t' \<noteq> Idle \<and> lock_step t' s s'"
  using step_or_blocked [OF assms(2)] progress_if_blocked [OF lock_reachable_inv [OF assms(1)]]
    assms(2) by blast

section \<open>A run in which two threads compete\<close>

definition contended_locks :: lock_system where
  "contended_locks =
     \<lparr>phase_of = (\<lambda>_. Idle)(0 := Critical [''a''], 1 := Acquiring [] [''a'', ''b'']),
      owner = (\<lambda>_. None)(''a'' \<mapsto> 0)\<rparr>"

lemma contended_reachable: "lock_reachable contended_locks"
proof -
  let ?s1 = "set_phase 0 (Acquiring [] [''a'']) initial_locks"
  let ?s2 = "(set_phase 0 (Acquiring [''a''] []) ?s1)\<lparr>owner := (owner ?s1)(''a'' \<mapsto> 0)\<rparr>"
  let ?s3 = "set_phase 0 (Critical [''a'']) ?s2"
  let ?s4 = "set_phase 1 (Acquiring [] [''a'', ''b'']) ?s3"
  have "normalise_user_ids [''a''] = Inr [''a'']" by code_simp
  then have "lock_step 0 initial_locks ?s1"
    by (rule lock_step.request [rotated]) (simp add: initial_locks_def)
  then have "lock_reachable ?s1" by (rule lock_reachable.step [OF lock_reachable.start])
  moreover have "lock_step 0 ?s1 ?s2"
    using lock_step.acquire [of ?s1 0 "[]" "''a''" "[]"] by (simp add: initial_locks_def)
  moreover have "lock_step 0 ?s2 ?s3" by (rule lock_step.enter) simp
  moreover have "normalise_user_ids [''b'', ''a''] = Inr [''a'', ''b'']" by code_simp
  then have "lock_step 1 ?s3 ?s4"
    by (intro lock_step.request) (simp_all add: initial_locks_def)
  ultimately have "lock_reachable ?s4" by (blast intro: lock_reachable.step)
  moreover have "?s4 = contended_locks"
    by (simp add: contended_locks_def set_phase_def initial_locks_def fun_upd_twist)
  ultimately show ?thesis by simp
qed

theorem lock_deadlock_free_witness:
  "phase_of contended_locks 1 = Acquiring [] [''a'', ''b''] \<and>
   (\<exists>t' s'. phase_of contended_locks t' \<noteq> Idle \<and> lock_step t' contended_locks s')"
  using lock_deadlock_free [OF contended_reachable, of 1] by (simp add: contended_locks_def)


end
