(* ===== verification/Models.thy ===== *)
theory Models
  imports Prelude
begin

text \<open>
  The domain model of \<open>app/models.py\<close>: one record per pydantic model with the source's
  fields (prefixed where two models share a field name), the match-reason enumeration and its
  wire values, and the attribute key that marks a merged account (\<open>app/service.py\<close>).
\<close>

datatype match_reason = EXACT_IDP_SUBJECT | VERIFIED_EMAIL | EXPLICIT_LINK | NO_MATCH

primrec reason_value :: "match_reason \<Rightarrow> string" where
  "reason_value EXACT_IDP_SUBJECT = ''exact_idp_subject''"
| "reason_value VERIFIED_EMAIL = ''verified_email''"
| "reason_value EXPLICIT_LINK = ''explicit_link''"
| "reason_value NO_MATCH = ''no_match''"

record federated_identity =
  identity_provider :: string
  external_user_id :: string
  external_user_name :: "string option"

record role_mapping =
  role_id :: string
  role_name :: string
  role_client_id :: "string option"

record group_membership =
  group_id :: string
  group_path :: string
  group_name :: "string option"

record user_account =
  user_id :: string
  user_name :: "string option"
  email :: "string option"
  is_email_verified :: bool
  state :: string
  first_name :: "string option"
  last_name :: "string option"
  external_id :: "string option"
  federated_identities :: "federated_identity list"

record match_decision =
  matched :: bool
  decision_reason :: match_reason
  decision_detail :: "string option"

record merge_request =
  req_survivor_user_id :: string
  req_duplicate_user_id :: string
  explicit_link :: bool
  reason_note :: "string option"
  req_actor :: string

record merge_conflict =
  conflict_kind :: string
  conflict_identifier :: string
  conflict_resolution :: string

record merge_result =
  res_survivor_user_id :: string
  res_duplicate_user_id :: string
  res_match_reason :: match_reason
  moved_federated_identities :: "string list"
  moved_role_mappings :: "string list"
  moved_group_memberships :: "string list"
  res_conflicts :: "merge_conflict list"
  duplicate_tombstoned :: bool
  res_audit_id :: "string option"

text \<open>The pydantic defaults of a conflict and of a user.\<close>

definition mk_conflict :: "string \<Rightarrow> string \<Rightarrow> merge_conflict" where
  "mk_conflict kind identifier =
     \<lparr>conflict_kind = kind, conflict_identifier = identifier,
      conflict_resolution = ''survivor_wins''\<rparr>"

definition TOMBSTONE_ATTRIBUTE_KEY :: string where
  "TOMBSTONE_ATTRIBUTE_KEY = ''merged_into_user_id''"

definition active_states :: "string list" where
  "active_states = [''active'', ''enabled'']"

text \<open>The keys under which the merge compares links, roles and groups.\<close>

definition link_key :: "federated_identity \<Rightarrow> string \<times> string" where
  "link_key l = (identity_provider l, external_user_id l)"

definition role_key :: "role_mapping \<Rightarrow> string option \<times> string" where
  "role_key r = (role_client_id r, role_name r)"

lemma reason_value_inject [simp]: "reason_value a = reason_value b \<longleftrightarrow> a = b"
  by (cases a; cases b) simp_all

lemma fst_link_key [simp]: "fst (link_key l) = identity_provider l"
  by (simp add: link_key_def)

end
