(* ===== verification/Matching.thy ===== *)
theory Matching
  imports Models
begin

text \<open>
  The identity matching rules of \<open>app/matching.py\<close>. Two accounts are the same human by, in
  order, a shared (provider, subject) link, a verified email equal on both sides, or an
  operator's explicit link. The properties: the decision is exactly this precedence, it does
  not depend on which account is called the survivor, and an unverified address never decides.
\<close>

definition normalize_email :: "string option \<Rightarrow> string option" where
  "normalize_email mail =
     (if \<not> truthy_text mail then None
      else (let n = lower (strip (the mail)) in if n = [] then None else Some n))"

text \<open>The loop over the first account's links: the first one that the other account has too.\<close>

definition shares_exact_idp_subject :: "user_account \<Rightarrow> user_account \<Rightarrow> string option" where
  "shares_exact_idp_subject a b =
     (let b_pairs = map link_key (federated_identities b) in
      map_option (\<lambda>link. identity_provider link @ '':'' @ external_user_id link)
        (find (\<lambda>link. link_key link \<in> set b_pairs) (federated_identities a)))"

definition have_matching_verified_email :: "user_account \<Rightarrow> user_account \<Rightarrow> bool" where
  "have_matching_verified_email a b =
     (let email_a = normalize_email (email a); email_b = normalize_email (email b) in
      if email_a = None \<or> email_b = None then False
      else if email_a \<noteq> email_b then False
      else is_email_verified a \<and> is_email_verified b)"

definition decide_match :: "user_account \<Rightarrow> user_account \<Rightarrow> bool \<Rightarrow> match_decision" where
  "decide_match survivor duplicate explicit =
     (case shares_exact_idp_subject survivor duplicate of
        Some shared \<Rightarrow>
          \<lparr>matched = True, decision_reason = EXACT_IDP_SUBJECT,
           decision_detail = Some (''shared idp subject '' @ shared)\<rparr>
      | None \<Rightarrow>
          if have_matching_verified_email survivor duplicate then
            \<lparr>matched = True, decision_reason = VERIFIED_EMAIL,
             decision_detail = Some (''verified email '' @
               (case normalize_email (email survivor) of None \<Rightarrow> ''None'' | Some m \<Rightarrow> m))\<rparr>
          else if explicit then
            \<lparr>matched = True, decision_reason = EXPLICIT_LINK,
             decision_detail = Some ''operator-asserted explicit link''\<rparr>
          else
            \<lparr>matched = False, decision_reason = NO_MATCH,
             decision_detail =
               Some ''no exact idp subject, no matching verified email, no explicit link''\<rparr>)"

definition common_link :: "user_account \<Rightarrow> user_account \<Rightarrow> bool" where
  "common_link a b \<longleftrightarrow>
     (\<exists>l\<in>set (federated_identities a). link_key l \<in> link_key ` set (federated_identities b))"

lemma common_link_sym: "common_link a b = common_link b a"
  unfolding common_link_def image_iff by metis

lemma shares_exact_None: "shares_exact_idp_subject a b = None \<longleftrightarrow> \<not> common_link a b"
  by (simp add: shares_exact_idp_subject_def find_NoneD common_link_def Let_def)

lemma shares_exact_Some:
  assumes "shares_exact_idp_subject a b = Some i"
  shows "\<exists>l\<in>set (federated_identities a). link_key l \<in> link_key ` set (federated_identities b) \<and>
     i = identity_provider l @ '':'' @ external_user_id l"
  using assms by (auto simp: shares_exact_idp_subject_def Let_def dest!: find_SomeD)

lemma verified_email_sym: "have_matching_verified_email a b = have_matching_verified_email b a"
  by (auto simp: have_matching_verified_email_def Let_def)

lemma verified_email_iff:
  "have_matching_verified_email a b \<longleftrightarrow> is_email_verified a \<and> is_email_verified b \<and>
     normalize_email (email a) = normalize_email (email b) \<and> normalize_email (email a) \<noteq> None"
  by (auto simp: have_matching_verified_email_def Let_def)

lemma decide_match_reason:
  "decision_reason (decide_match a b x) =
     (if common_link a b then EXACT_IDP_SUBJECT
      else if have_matching_verified_email a b then VERIFIED_EMAIL
      else if x then EXPLICIT_LINK else NO_MATCH)"
  using shares_exact_None [of a b]
  by (cases "shares_exact_idp_subject a b") (simp_all add: decide_match_def)

lemma decide_match_matched:
  "matched (decide_match a b x) \<longleftrightarrow> decision_reason (decide_match a b x) \<noteq> NO_MATCH"
  by (simp add: decide_match_def split: option.splits)

text \<open>
  C9. The decision is exactly the documented precedence, and it is the same whichever of the two
  accounts is named the survivor: a shared (provider, subject) link decides first, then an equal
  normalised email verified on both accounts, then the operator's explicit link, else no match.
\<close>

theorem decide_match_precedence:
  "decision_reason (decide_match a b x) =
     (if common_link a b then EXACT_IDP_SUBJECT
      else if is_email_verified a \<and> is_email_verified b \<and>
        normalize_email (email a) = normalize_email (email b) \<and> normalize_email (email a) \<noteq> None
      then VERIFIED_EMAIL
      else if x then EXPLICIT_LINK else NO_MATCH)
   \<and> (matched (decide_match a b x) \<longleftrightarrow> decision_reason (decide_match a b x) \<noteq> NO_MATCH)
   \<and> decision_reason (decide_match a b x) = decision_reason (decide_match b a x)"
proof (intro conjI)
  show "decision_reason (decide_match a b x) = decision_reason (decide_match b a x)"
    using common_link_sym [of a b] verified_email_sym [of a b] by (simp add: decide_match_reason)
qed (simp_all add: decide_match_reason decide_match_matched verified_email_iff)

end
