(* ===== verification/Json.thy ===== *)
theory Json
  imports Prelude
begin

text \<open>
  JSON values as Python sees them after \<open>json.loads\<close>, with the operations the source applies
  to them: truth value, \<open>dict.get\<close>, \<open>==\<close>, and \<open>json.dumps\<close> with the options the source
  passes. A dict is an association list in insertion order (its keys are distinct). A float is
  kept as its \<open>repr\<close>, which determines it.
\<close>

datatype json =
    JNull
  | JBool bool
  | JInt int
  | JFloat string
  | JStr string
  | JArr "json list"
  | JObj "(string \<times> json) list"

type_synonym dict = "(string \<times> json) list"

definition truthy :: "json \<Rightarrow> bool" where
  "truthy j = (case j of
      JNull \<Rightarrow> False
    | JBool b \<Rightarrow> b
    | JInt n \<Rightarrow> n \<noteq> 0
    | JFloat r \<Rightarrow> r \<noteq> ''0.0'' \<and> r \<noteq> ''-0.0''
    | JStr s \<Rightarrow> s \<noteq> []
    | JArr xs \<Rightarrow> xs \<noteq> []
    | JObj kvs \<Rightarrow> kvs \<noteq> [])"

definition dict_get :: "dict \<Rightarrow> string \<Rightarrow> json" where
  "dict_get d k = (case map_of d k of None \<Rightarrow> JNull | Some v \<Rightarrow> v)"

definition dict_get_or :: "dict \<Rightarrow> string \<Rightarrow> json \<Rightarrow> json" where
  "dict_get_or d k dflt = (case map_of d k of None \<Rightarrow> dflt | Some v \<Rightarrow> v)"

definition dict_has :: "dict \<Rightarrow> string \<Rightarrow> bool" where
  "dict_has d k = (map_of d k \<noteq> None)"

text \<open>\<open>d[k] = v\<close>: an existing key keeps its place, a new key goes to the end.\<close>

primrec dict_set :: "dict \<Rightarrow> string \<Rightarrow> json \<Rightarrow> dict" where
  "dict_set [] k v = [(k, v)]"
| "dict_set (p # d) k v = (if fst p = k then (k, v) # d else p # dict_set d k v)"

definition opt_str :: "string option \<Rightarrow> json" where
  "opt_str s = (case s of None \<Rightarrow> JNull | Some t \<Rightarrow> JStr t)"

section \<open>Access that may fail\<close>

text \<open>\<open>x.get(key)\<close> on a value that may not be a dict.\<close>

definition json_get :: "json \<Rightarrow> string \<Rightarrow> json result" where
  "json_get j key = (case j of JObj d \<Rightarrow> Inr (dict_get d key) | _ \<Rightarrow> Inl (AttributeError ''get''))"

text \<open>A field of a pydantic model declared \<open>str | None\<close>.\<close>

definition optional_text :: "string \<Rightarrow> json \<Rightarrow> string option result" where
  "optional_text field j =
     (case j of JNull \<Rightarrow> Inr None | JStr s \<Rightarrow> Inr (Some s) | _ \<Rightarrow> Inl (ValidationError field))"

text \<open>What \<open>for x in j\<close> goes through.\<close>

definition json_iter :: "json \<Rightarrow> json list result" where
  "json_iter j = (case j of
      JArr xs \<Rightarrow> Inr xs
    | JObj d \<Rightarrow> Inr (map (\<lambda>p. JStr (fst p)) d)
    | JStr s \<Rightarrow> Inr (map (\<lambda>c. JStr [c]) s)
    | _ \<Rightarrow> Inl (TypeError ''not iterable''))"

text \<open>\<open>x[key]\<close>, and a field of a pydantic model declared \<open>str\<close>.\<close>

definition json_index :: "json \<Rightarrow> string \<Rightarrow> json result" where
  "json_index j key = (case j of
      JObj d \<Rightarrow> (case map_of d key of None \<Rightarrow> Inl (KeyError key) | Some v \<Rightarrow> Inr v)
    | _ \<Rightarrow> Inl (TypeError ''indices must be integers''))"

definition json_get_or :: "json \<Rightarrow> string \<Rightarrow> json \<Rightarrow> json result" where
  "json_get_or j key dflt = (case j of JObj d \<Rightarrow> Inr (dict_get_or d key dflt) | _ \<Rightarrow> Inl (AttributeError ''get''))"

definition required_text :: "string \<Rightarrow> json \<Rightarrow> string result" where
  "required_text field j = (case j of JStr s \<Rightarrow> Inr s | _ \<Rightarrow> Inl (ValidationError field))"

definition json_items :: "json \<Rightarrow> dict result" where
  "json_items j = (case j of JObj d \<Rightarrow> Inr d | _ \<Rightarrow> Inl (AttributeError ''items''))"

definition json_or :: "json \<Rightarrow> json \<Rightarrow> json" where
  "json_or j dflt = (if truthy j then j else dflt)"

section \<open>Equality\<close>

text \<open>
  Python's \<open>==\<close>: a boolean equals the number it stands for, a dict compares without order. A
  float is compared with a boolean or another float only, which is all the source needs.
\<close>

lemma zip_left_size [termination_simp]:
  "(a, b) \<in> set (zip xs ys) \<Longrightarrow> f a < Suc (size_list f xs)"
  by (meson less_Suc_eq_le set_zip_leftD size_list_estimation' order_refl)

fun py_eq :: "json \<Rightarrow> json \<Rightarrow> bool" where
  "py_eq JNull JNull = True"
| "py_eq (JBool a) (JBool b) = (a = b)"
| "py_eq (JBool a) (JInt n) = (n = (if a then 1 else 0))"
| "py_eq (JInt n) (JBool a) = (n = (if a then 1 else 0))"
| "py_eq (JBool a) (JFloat r) = (if a then r = ''1.0'' else r \<in> {''0.0'', ''-0.0''})"
| "py_eq (JFloat r) (JBool a) = (if a then r = ''1.0'' else r \<in> {''0.0'', ''-0.0''})"
| "py_eq (JInt m) (JInt n) = (m = n)"
| "py_eq (JFloat r) (JFloat q) = (r = q \<or> {r, q} = {''0.0'', ''-0.0''})"
| "py_eq (JStr s) (JStr t) = (s = t)"
| "py_eq (JArr xs) (JArr ys) = (length xs = length ys \<and> (\<forall>(x, y)\<in>set (zip xs ys). py_eq x y))"
| "py_eq (JObj a) (JObj b) = (length a = length b \<and>
     (\<forall>(k, v)\<in>set a. case map_of b k of None \<Rightarrow> False | Some w \<Rightarrow> py_eq v w))"
| "py_eq _ _ = False"

lemma py_eq_JStr [simp]: "py_eq j (JStr t) \<longleftrightarrow> j = JStr t"
  by (cases j) simp_all

lemma py_eq_JStr_left [simp]: "py_eq (JStr t) j \<longleftrightarrow> j = JStr t"
  by (cases j) auto

lemma py_eq_JArr_Cons [simp]:
  "py_eq (JArr (x # xs)) (JArr (y # ys)) \<longleftrightarrow> py_eq x y \<and> py_eq (JArr xs) (JArr ys)"
  by auto

lemma py_eq_JArr_strs: "py_eq (JArr xs) (JArr (map JStr ys)) \<longleftrightarrow> xs = map JStr ys"
proof (induction xs arbitrary: ys)
  case Nil
  then show ?case by auto
next
  case (Cons x xs)
  show ?case
    by (cases ys) (simp_all add: Cons.IH del: py_eq.simps(10), simp)
qed

lemma py_eq_strs: "py_eq j (JArr (map JStr ys)) \<longleftrightarrow> j = JArr (map JStr ys)"
  by (cases j) (simp_all add: py_eq_JArr_strs del: py_eq.simps(10))

section \<open>Rendering\<close>

fun show_nat :: "nat \<Rightarrow> string" where
  "show_nat n = (if n < 10 then [char_of (48 + n)]
     else show_nat (n div 10) @ [char_of (48 + n mod 10)])"

declare show_nat.simps [simp del]

definition show_int :: "int \<Rightarrow> string" where
  "show_int n = (if n < 0 then CHR ''-'' # show_nat (nat (- n)) else show_nat (nat n))"

definition hex_digit :: "nat \<Rightarrow> char" where
  "hex_digit n = (if n < 10 then char_of (48 + n) else char_of (87 + n))"

definition escape_char :: "bool \<Rightarrow> char \<Rightarrow> string" where
  "escape_char ensure_ascii c =
     (if c = CHR 0x22 then [CHR 0x5C, CHR 0x22]
      else if c = CHR 0x5C then [CHR 0x5C, CHR 0x5C]
      else if ord c = 10 then [CHR 0x5C, CHR ''n'']
      else if ord c = 13 then [CHR 0x5C, CHR ''r'']
      else if ord c = 9 then [CHR 0x5C, CHR ''t'']
      else if ord c = 12 then [CHR 0x5C, CHR ''f'']
      else if ord c = 8 then [CHR 0x5C, CHR ''b'']
      else if ord c < 32 \<or> (ensure_ascii \<and> 126 < ord c)
      then [CHR 0x5C, CHR ''u'', CHR ''0'', CHR ''0'',
            hex_digit (ord c div 16), hex_digit (ord c mod 16)]
      else [c])"

definition json_string :: "bool \<Rightarrow> string \<Rightarrow> string" where
  "json_string ensure_ascii s =
     CHR 0x22 # concat (map (escape_char ensure_ascii) s) @ [CHR 0x22]"

fun join_text :: "string \<Rightarrow> string list \<Rightarrow> string" where
  "join_text sep [] = []"
| "join_text sep [p] = p"
| "join_text sep (p # q # ps) = p @ sep @ join_text sep (q # ps)"

record dumps_options =
  ensure_ascii :: bool
  item_separator :: string
  key_separator :: string
  sort_keys :: bool

fun json_dumps :: "dumps_options \<Rightarrow> json \<Rightarrow> string" where
  "json_dumps opts JNull = ''null''"
| "json_dumps opts (JBool b) = (if b then ''true'' else ''false'')"
| "json_dumps opts (JInt n) = show_int n"
| "json_dumps opts (JFloat r) = r"
| "json_dumps opts (JStr s) = json_string (ensure_ascii opts) s"
| "json_dumps opts (JArr xs) =
     ''['' @ join_text (item_separator opts) (map (json_dumps opts) xs) @ '']''"
| "json_dumps opts (JObj kvs) =
     (let rendered = map (\<lambda>(k, v). (k, json_dumps opts v)) kvs;
          ordered = (if sort_keys opts then sort_key fst rendered else rendered)
      in ''{'' @ join_text (item_separator opts)
           (map (\<lambda>(k, v). json_string (ensure_ascii opts) k @ key_separator opts @ v) ordered)
         @ ''}'')"

definition default_dumps :: dumps_options where
  "default_dumps =
     \<lparr>ensure_ascii = True, item_separator = '', '', key_separator = '': '', sort_keys = False\<rparr>"

lemma show_nat_nonempty [simp]: "show_nat n \<noteq> []"
  by (subst show_nat.simps) simp

text \<open>Decimal numerals read back, so they are injective.\<close>

definition read_nat :: "string \<Rightarrow> nat" where
  "read_nat s = foldl (\<lambda>n c. n * 10 + (ord c - 48)) 0 s"

lemma read_show_nat [simp]: "read_nat (show_nat n) = n"
proof (induction n rule: show_nat.induct)
  case (1 n)
  then show ?case by (subst show_nat.simps) (simp add: read_nat_def)
qed

lemma show_nat_inject [simp]: "show_nat m = show_nat n \<longleftrightarrow> m = n"
  by (metis read_show_nat)

end
