(* ===== verification/Audit_Trail.thy ===== *)
theory Audit_Trail
  imports Json
begin

text \<open>
  The append-only audit trail of \<open>app/audit.py\<close>: the event record, the two sinks (a list, and
  the SQLite table \<open>account_merge_audit\<close> with its autoincrement sequence) and the logger that
  builds events. The locale \<open>audit_sink\<close> is the \<open>AuditSink\<close> protocol: what a client may rely
  on. Both sinks are interpretations of it, so what is proved of the trail in the locale holds
  for the in-memory and for the SQLite backend.
\<close>

record audit_event =
  ev_audit_id :: string
  ev_event_type :: string
  ev_actor :: string
  ev_survivor_user_id :: "string option"
  ev_duplicate_user_id :: "string option"
  ev_payload_json :: string
  ev_created_at :: rat

section \<open>The in-memory sink\<close>

type_synonym memory_sink = "audit_event list"

definition memory_record :: "audit_event \<Rightarrow> memory_sink \<Rightarrow> memory_sink" where
  "memory_record event events = events @ [event]"

definition memory_events_for :: "string \<Rightarrow> memory_sink \<Rightarrow> audit_event list" where
  "memory_events_for audit_id events = filter (\<lambda>event. ev_audit_id event = audit_id) events"

section \<open>The SQLite sink\<close>

text \<open>
  The table's rows carry \<open>event_sequence INTEGER PRIMARY KEY AUTOINCREMENT\<close>: SQLite gives every
  inserted row a number above all numbers ever used. The order in which the rows are stored is
  not relied on; \<open>events_for\<close> orders by the sequence.
\<close>

record sqlite_sink =
  audit_rows :: "(nat \<times> audit_event) list"
  last_sequence :: nat

definition sqlite_record :: "audit_event \<Rightarrow> sqlite_sink \<Rightarrow> sqlite_sink" where
  "sqlite_record event db =
     \<lparr>audit_rows = (Suc (last_sequence db), event) # audit_rows db,
      last_sequence = Suc (last_sequence db)\<rparr>"

definition sqlite_events_for :: "string \<Rightarrow> sqlite_sink \<Rightarrow> audit_event list" where
  "sqlite_events_for audit_id db =
     map snd (sort_key fst (filter (\<lambda>row. ev_audit_id (snd row) = audit_id) (audit_rows db)))"

definition sqlite_trail :: "sqlite_sink \<Rightarrow> audit_event list" where
  "sqlite_trail db = map snd (sort_key fst (audit_rows db))"

definition sqlite_sink_inv :: "sqlite_sink \<Rightarrow> bool" where
  "sqlite_sink_inv db \<longleftrightarrow>
     distinct (map fst (audit_rows db)) \<and> (\<forall>row\<in>set (audit_rows db). fst row \<le> last_sequence db)"

definition empty_sqlite_sink :: sqlite_sink where
  "empty_sqlite_sink = \<lparr>audit_rows = [], last_sequence = 0\<rparr>"

section \<open>The sink contract\<close>

locale audit_sink =
  fixes record_event :: "audit_event \<Rightarrow> 'k \<Rightarrow> 'k"
    and events_for :: "string \<Rightarrow> 'k \<Rightarrow> audit_event list"
    and trail :: "'k \<Rightarrow> audit_event list"
    and sink_inv :: "'k \<Rightarrow> bool"
  assumes trail_record: "sink_inv k \<Longrightarrow> trail (record_event e k) = trail k @ [e]"
    and inv_record: "sink_inv k \<Longrightarrow> sink_inv (record_event e k)"
    and events_for_trail: "sink_inv k \<Longrightarrow> events_for i k = filter (\<lambda>e. ev_audit_id e = i) (trail k)"
begin

lemma record_all:
  assumes "sink_inv k"
  shows "sink_inv (fold record_event es k) \<and> trail (fold record_event es k) = trail k @ es"
  using assms by (induction es arbitrary: k) (auto simp: inv_record trail_record)

lemma events_for_record_all:
  assumes "sink_inv k"
  shows "events_for i (fold record_event es k) =
           events_for i k @ filter (\<lambda>e. ev_audit_id e = i) es"
  using record_all [OF assms, of es] assms by (simp add: events_for_trail)

lemma append_only:
  assumes "sink_inv k"
  shows "prefix (events_for i k) (events_for i (fold record_event es k))"
  using events_for_record_all [OF assms] by simp

end

interpretation memory: audit_sink memory_record memory_events_for "\<lambda>k. k" "\<lambda>_. True"
  by unfold_locales (simp_all add: memory_record_def memory_events_for_def)

lemma sort_key_insert_largest:
  fixes rows :: "(nat \<times> 'e) list"
  assumes "\<forall>row\<in>set rows. fst row \<le> n"
  shows "sort_key fst ((Suc n, e) # rows) = sort_key fst rows @ [(Suc n, e)]"
proof -
  have "insort_key fst (Suc n, e) rs = rs @ [(Suc n, e)]"
    if "\<forall>row\<in>set rs. fst row \<le> n" for rs :: "(nat \<times> 'e) list"
    using that by (induction rs) auto
  then show ?thesis using assms by simp
qed

lemma sqlite_record_inv: "sqlite_sink_inv db \<Longrightarrow> sqlite_sink_inv (sqlite_record e db)"
  by (force simp: sqlite_sink_inv_def sqlite_record_def)

lemma sqlite_record_trail:
  "sqlite_sink_inv db \<Longrightarrow> sqlite_trail (sqlite_record e db) = sqlite_trail db @ [e]"
  using sort_key_insert_largest [of "audit_rows db" "last_sequence db" e]
  by (simp add: sqlite_trail_def sqlite_record_def sqlite_sink_inv_def del: sort_key_simps)

lemma sqlite_events_for_trail:
  "sqlite_events_for i db = filter (\<lambda>e. ev_audit_id e = i) (sqlite_trail db)"
  by (simp add: sqlite_events_for_def sqlite_trail_def filter_map o_def filter_sort)

interpretation sqlite: audit_sink sqlite_record sqlite_events_for sqlite_trail sqlite_sink_inv
  by unfold_locales
    (simp_all add: sqlite_record_inv sqlite_record_trail sqlite_events_for_trail)

section \<open>The logger\<close>

text \<open>
  \<open>AuditLogger.emit\<close>: the payload is rendered with sorted keys and the event is stamped with the
  current time; \<open>new_correlation_id\<close> is a random identifier.
\<close>

definition payload_text :: "dict \<Rightarrow> string" where
  "payload_text payload = json_dumps (default_dumps\<lparr>sort_keys := True\<rparr>) (JObj payload)"

definition mk_event ::
  "string \<Rightarrow> string \<Rightarrow> string \<Rightarrow> string option \<Rightarrow> string option \<Rightarrow> dict \<Rightarrow> rat \<Rightarrow> audit_event" where
  "mk_event audit_id event_type actor survivor duplicate payload now =
     \<lparr>ev_audit_id = audit_id, ev_event_type = event_type, ev_actor = actor,
      ev_survivor_user_id = survivor, ev_duplicate_user_id = duplicate,
      ev_payload_json = payload_text payload, ev_created_at = now\<rparr>"

definition new_correlation_id :: "(env, string) action" where
  "new_correlation_id = uuid4_hex"

definition emit ::
  "(audit_event \<Rightarrow> 'k \<Rightarrow> 'k) \<Rightarrow> string \<Rightarrow> string \<Rightarrow> string \<Rightarrow> string option \<Rightarrow> string option \<Rightarrow> dict
     \<Rightarrow> ('k \<times> env, audit_event) action" where
  "emit record_event audit_id event_type actor survivor duplicate payload = (\<lambda>(k, v).
     case time_now v of
       (Inl e, v') \<Rightarrow> (Inl e, (k, v'))
     | (Inr now, v') \<Rightarrow>
         (let event = mk_event audit_id event_type actor survivor duplicate payload now
          in (Inr event, (record_event event k, v'))))"

text \<open>
  The SQLite sink and the in-memory sink agree: after any sequence of recorded events both
  return, for every correlation id, the same events in the order in which they were recorded.
\<close>

theorem audit_sinks_agree:
  "sqlite_events_for i (fold sqlite_record es empty_sqlite_sink)
     = memory_events_for i (fold memory_record es [])
   \<and> memory_events_for i (fold memory_record es []) = filter (\<lambda>e. ev_audit_id e = i) es"
proof -
  have inv: "sqlite_sink_inv empty_sqlite_sink"
    by (simp add: sqlite_sink_inv_def empty_sqlite_sink_def)
  have "sqlite_events_for i empty_sqlite_sink = []"
    by (simp add: sqlite_events_for_def empty_sqlite_sink_def)
  then show ?thesis
    using sqlite.events_for_record_all [OF inv, of i es]
      memory.events_for_record_all [of i es "[]"]
    by (simp add: memory_events_for_def)
qed

end
