(* ===== verification/KeycloakApi.thy ===== *)
theory KeycloakApi
  imports Models
begin

text \<open>
  The \<open>AdminApi\<close> protocol of \<open>app/keycloak_client.py\<close>: the operations through which the
  service talks to Keycloak, as a record of actions on an abstract world \<open>'w\<close>. Keycloak itself
  is not part of the program. What the program relies on is the locale \<open>keycloak_admin\<close>, stated
  over an observation of the world, the users with their links, roles, groups and attributes:
  a read changes nothing that is observed and reports it truly; a write that returns has changed
  one user in the documented way; a write that raises may or may not have taken effect (the
  response can be lost after Keycloak committed), but has done nothing else.
\<close>

record 'w admin_api =
  api_get_user :: "string \<Rightarrow> ('w, user_account) action"
  api_find_users_by_email :: "string \<Rightarrow> ('w, user_account list) action"
  api_find_user_by_username :: "string \<Rightarrow> ('w, user_account option) action"
  api_create_user :: "user_account \<Rightarrow> ('w, string) action"
  api_replace_user :: "string \<Rightarrow> user_account \<Rightarrow> ('w, unit) action"
  api_list_federated_identities :: "string \<Rightarrow> ('w, federated_identity list) action"
  api_add_federated_identity :: "string \<Rightarrow> federated_identity \<Rightarrow> ('w, unit) action"
  api_remove_federated_identity :: "string \<Rightarrow> string \<Rightarrow> ('w, unit) action"
  api_list_role_mappings :: "string \<Rightarrow> ('w, role_mapping list) action"
  api_add_role_mapping :: "string \<Rightarrow> role_mapping \<Rightarrow> ('w, unit) action"
  api_remove_role_mapping :: "string \<Rightarrow> role_mapping \<Rightarrow> ('w, unit) action"
  api_list_group_memberships :: "string \<Rightarrow> ('w, group_membership list) action"
  api_add_group_membership :: "string \<Rightarrow> group_membership \<Rightarrow> ('w, unit) action"
  api_remove_group_membership :: "string \<Rightarrow> group_membership \<Rightarrow> ('w, unit) action"
  api_deactivate_user :: "string \<Rightarrow> ('w, unit) action"
  api_set_user_attribute :: "string \<Rightarrow> string \<Rightarrow> string \<Rightarrow> ('w, unit) action"
  api_get_user_attribute :: "string \<Rightarrow> string \<Rightarrow> ('w, string option) action"

section \<open>What is observed of Keycloak\<close>

record kc_user =
  kc_enabled :: bool
  kc_email :: "string option"
  kc_verified :: bool
  kc_attrs :: "string \<Rightarrow> string option"
  kc_links :: "(string \<times> string) set"
  kc_roles :: "(string option \<times> string) set"
  kc_groups :: "string set"

type_synonym kc_view = "string \<Rightarrow> kc_user option"

definition change_user :: "string \<Rightarrow> (kc_user \<Rightarrow> kc_user) \<Rightarrow> kc_view \<Rightarrow> kc_view" where
  "change_user u f V = V(u := map_option f (V u))"

lemma change_user_simps [simp]:
  "V u = Some k \<Longrightarrow> change_user u f V u = Some (f k)"
  "u \<noteq> v \<Longrightarrow> change_user u f V v = V v"
  "V u = None \<Longrightarrow> change_user u f V = V"
  by (auto simp: change_user_def)

text \<open>What an account record says of the observed user.\<close>

definition reports_user :: "user_account \<Rightarrow> kc_user \<Rightarrow> bool" where
  "reports_user a k \<longleftrightarrow>
     (state a \<in> set active_states) = kc_enabled k \<and> email a = kc_email k \<and>
     is_email_verified a = kc_verified k"

text \<open>The two shapes of law: an operation that only reads, and one that changes a single user.\<close>

definition reads_only ::
  "('w \<Rightarrow> bool) \<Rightarrow> ('w \<Rightarrow> kc_view) \<Rightarrow> ('w, 'a) action \<Rightarrow> (kc_view \<Rightarrow> 'a \<Rightarrow> bool) \<Rightarrow> bool" where
  "reads_only winv view act P \<longleftrightarrow> (\<forall>w r w'. winv w \<longrightarrow> act w = (r, w') \<longrightarrow>
     winv w' \<and> view w' = view w \<and> (\<forall>x. r = Inr x \<longrightarrow> P (view w) x))"

definition changes_user ::
  "('w \<Rightarrow> bool) \<Rightarrow> ('w \<Rightarrow> kc_view) \<Rightarrow> ('w, unit) action \<Rightarrow> string \<Rightarrow> (kc_user \<Rightarrow> kc_user) \<Rightarrow> bool" where
  "changes_user winv view act u f \<longleftrightarrow> (\<forall>w r w'. winv w \<longrightarrow> act w = (r, w') \<longrightarrow>
     winv w' \<and> (view w' = change_user u f (view w) \<or> view w' = view w \<and> \<not> okR r))"

lemma reads_onlyD:
  assumes "reads_only winv view act P" and "winv w" and "act w = (r, w')"
  shows "winv w'" "view w' = view w" "r = Inr x \<Longrightarrow> P (view w) x"
  using assms by (auto simp: reads_only_def)

lemma changes_userD:
  assumes "changes_user winv view act u f" and "winv w" and "act w = (r, w')"
  shows "winv w'" "view w' = change_user u f (view w) \<or> view w' = view w \<and> \<not> okR r"
    "r = Inr () \<Longrightarrow> view w' = change_user u f (view w)"
  using assms by (fastforce simp: changes_user_def)+

section \<open>The contract\<close>

locale keycloak_admin =
  fixes api :: "'w admin_api"
    and view :: "'w \<Rightarrow> kc_view"
    and winv :: "'w \<Rightarrow> bool"
  assumes get_user: "reads_only winv view (api_get_user api u)
      (\<lambda>V a. user_id a = u \<and> (\<exists>k. V u = Some k \<and> reports_user a k))"
    and list_links: "reads_only winv view (api_list_federated_identities api u)
      (\<lambda>V ls. \<forall>k. V u = Some k \<longrightarrow> link_key ` set ls = kc_links k)"
    and list_roles: "reads_only winv view (api_list_role_mappings api u)
      (\<lambda>V rs. \<forall>k. V u = Some k \<longrightarrow> role_key ` set rs = kc_roles k)"
    and list_groups: "reads_only winv view (api_list_group_memberships api u)
      (\<lambda>V gs. \<forall>k. V u = Some k \<longrightarrow> group_id ` set gs = kc_groups k)"
    and get_attribute: "reads_only winv view (api_get_user_attribute api u key)
      (\<lambda>V x. \<forall>k. V u = Some k \<longrightarrow> x = kc_attrs k key)"
    and find_by_email: "reads_only winv view (api_find_users_by_email api e) (\<lambda>_ _. True)"
    and find_by_username: "reads_only winv view (api_find_user_by_username api n) (\<lambda>_ _. True)"
    and add_link: "changes_user winv view (api_add_federated_identity api u l) u
      (kc_links_update (insert (link_key l)))"
    and remove_link: "changes_user winv view (api_remove_federated_identity api u p) u
      (kc_links_update (\<lambda>L. {x \<in> L. fst x \<noteq> p}))"
    and add_role: "changes_user winv view (api_add_role_mapping api u r) u
      (kc_roles_update (insert (role_key r)))"
    and remove_role: "changes_user winv view (api_remove_role_mapping api u r) u
      (kc_roles_update (\<lambda>R. R - {role_key r}))"
    and add_group: "changes_user winv view (api_add_group_membership api u g) u
      (kc_groups_update (insert (group_id g)))"
    and remove_group: "changes_user winv view (api_remove_group_membership api u g) u
      (kc_groups_update (\<lambda>G. G - {group_id g}))"
    and deactivate: "changes_user winv view (api_deactivate_user api u) u
      (kc_enabled_update (\<lambda>_. False))"
    and set_attribute: "changes_user winv view (api_set_user_attribute api u key x) u
      (kc_attrs_update (\<lambda>m. m(key \<mapsto> x)))"

text \<open>
  The contract of the provisioning calls: a replacement overwrites the representation of one
  existing user (it may drop attributes) and leaves links, roles and groups alone; a creation
  without a chosen id adds at most one user, under a new id that it returns, and touches no other.
\<close>

definition represents :: "user_account \<Rightarrow> kc_user \<Rightarrow> kc_user \<Rightarrow> bool" where
  "represents a k k' \<longleftrightarrow> reports_user a k' \<and>
     kc_links k' = kc_links k \<and> kc_roles k' = kc_roles k \<and> kc_groups k' = kc_groups k"

locale keycloak_provisioning = keycloak_admin +
  assumes replace_user: "winv w \<Longrightarrow> api_replace_user api u a w = (r, w') \<Longrightarrow>
      winv w' \<and> (view w' = view w \<and> \<not> okR r \<or>
        (\<exists>k k'. view w u = Some k \<and> represents a k k' \<and> view w' = (view w)(u \<mapsto> k')))"
    and create_user: "winv w \<Longrightarrow> user_id a = [] \<Longrightarrow> api_create_user api a w = (Inr u, w') \<Longrightarrow>
      winv w' \<and> view w u = None \<and> (\<exists>k. reports_user a k \<and> view w' = (view w)(u \<mapsto> k))"
    and create_user_fails: "winv w \<Longrightarrow> user_id a = [] \<Longrightarrow> api_create_user api a w = (Inl e, w') \<Longrightarrow>
      winv w' \<and> (\<forall>u. view w u \<noteq> None \<longrightarrow> view w' u = view w u)"

text \<open>
  Availability: a call about an existing user returns. No safety theorem assumes it; it is what the
  service needs to finish a merge.
\<close>

definition answers :: "('w \<Rightarrow> bool) \<Rightarrow> ('w \<Rightarrow> kc_view) \<Rightarrow> ('w, 'a) action \<Rightarrow> string \<Rightarrow> bool" where
  "answers winv view act u \<longleftrightarrow> (\<forall>w. winv w \<longrightarrow> view w u \<noteq> None \<longrightarrow> okR (fst (act w)))"

locale keycloak_available = keycloak_admin +
  assumes get_user_answers: "answers winv view (api_get_user api u) u"
    and list_links_answers: "answers winv view (api_list_federated_identities api u) u"
    and list_roles_answers: "answers winv view (api_list_role_mappings api u) u"
    and list_groups_answers: "answers winv view (api_list_group_memberships api u) u"
    and add_link_answers: "answers winv view (api_add_federated_identity api u l) u"
    and remove_link_answers: "answers winv view (api_remove_federated_identity api u p) u"
    and add_role_answers: "answers winv view (api_add_role_mapping api u r) u"
    and remove_role_answers: "answers winv view (api_remove_role_mapping api u r) u"
    and add_group_answers: "answers winv view (api_add_group_membership api u g) u"
    and remove_group_answers: "answers winv view (api_remove_group_membership api u g) u"
    and deactivate_answers: "answers winv view (api_deactivate_user api u) u"
    and set_attribute_answers: "answers winv view (api_set_user_attribute api u key x) u"

end
