(* ===== verification/Service.thy ===== *)
theory Service
  imports Matching Audit_Trail UserLocks KeycloakApi
begin

text \<open>
  The account-unification orchestrator of \<open>app/service.py\<close>. The service is a record of its
  collaborators (admin API, audit sink, lock manager, configured conflict policy); its state is
  the world behind the admin API, the audit sink, the lock database and the process environment.
  Every method is an action on that state, statement by statement as in the source.
\<close>

record ('w, 'k, 'l) service =
  api_of :: "'w admin_api"
  record_of :: "audit_event \<Rightarrow> 'k \<Rightarrow> 'k"
  locks_of :: "'l lock_ops"
  merge_conflict_policy :: string

record ('w, 'k, 'l) svc_state =
  kc :: 'w
  sink :: 'k
  lock_db :: 'l
  senv :: env

type_synonym ('w, 'k, 'l, 'a) svc_action = "(('w, 'k, 'l) svc_state, 'a) action"

text \<open>Run an admin-API call, an audit emission, or a draw of a correlation id.\<close>

definition kcA :: "('w, 'a) action \<Rightarrow> ('w, 'k, 'l, 'a) svc_action" where
  "kcA m = zoomA kc kc_update m"

definition emitA ::
  "('w, 'k, 'l) service \<Rightarrow> string \<Rightarrow> string \<Rightarrow> string \<Rightarrow> string \<Rightarrow> string \<Rightarrow> dict
     \<Rightarrow> ('w, 'k, 'l, unit) svc_action" where
  "emitA svc audit_id event_type actor survivor duplicate payload = (\<lambda>s.
     case emit (record_of svc) audit_id event_type actor (Some survivor) (Some duplicate) payload
            (sink s, senv s) of
       (Inl e, (k, v)) \<Rightarrow> (Inl e, s\<lparr>sink := k, senv := v\<rparr>)
     | (Inr _, (k, v)) \<Rightarrow> (Inr (), s\<lparr>sink := k, senv := v\<rparr>))"

definition correlationA :: "('w, 'k, 'l, string) svc_action" where
  "correlationA = zoomA senv senv_update new_correlation_id"

section \<open>Reading accounts\<close>

definition load_user :: "('w, 'k, 'l) service \<Rightarrow> string \<Rightarrow> ('w, 'k, 'l, user_account) svc_action" where
  "load_user svc uid =
     catchA (kcA (api_get_user (api_of svc) uid))
       (\<lambda>e. case e of KeyError _ \<Rightarrow> raiseA (UserNotFoundError uid) | _ \<Rightarrow> raiseA e)"

definition get_account :: "('w, 'k, 'l) service \<Rightarrow> string \<Rightarrow> ('w, 'k, 'l, user_account) svc_action" where
  "get_account svc uid =
     bindA (load_user svc uid) (\<lambda>user.
     bindA (kcA (api_list_federated_identities (api_of svc) uid)) (\<lambda>links.
     returnA (user\<lparr>federated_identities := links\<rparr>)))"

definition list_identities ::
  "('w, 'k, 'l) service \<Rightarrow> string \<Rightarrow> ('w, 'k, 'l, federated_identity list) svc_action" where
  "list_identities svc uid =
     bindA (load_user svc uid) (\<lambda>_.
     kcA (api_list_federated_identities (api_of svc) uid))"

section \<open>The guards of a merge\<close>

definition assert_active :: "user_account \<Rightarrow> unit result" where
  "assert_active user = requireR (state user \<in> set active_states)
     (InactiveAccountError (''user '' @ user_id user @ '' is not active ('' @ state user @ '')''))"

definition stripped_email :: "user_account \<Rightarrow> string" where
  "stripped_email user = strip (text_or (email user) [])"

definition shares_unverified_email :: "user_account \<Rightarrow> user_account \<Rightarrow> bool" where
  "shares_unverified_email survivor duplicate \<longleftrightarrow>
     stripped_email survivor \<noteq> [] \<and>
     lower (stripped_email survivor) = lower (stripped_email duplicate) \<and>
     \<not> have_matching_verified_email survivor duplicate"

definition strong_tie :: "match_decision \<Rightarrow> bool" where
  "strong_tie decision \<longleftrightarrow> decision_reason decision \<in> {EXACT_IDP_SUBJECT, VERIFIED_EMAIL}"

text \<open>The checks between loading the two accounts and the first write, in the source's order.\<close>

definition merge_decision :: "user_account \<Rightarrow> user_account \<Rightarrow> bool \<Rightarrow> match_decision result" where
  "merge_decision survivor duplicate explicit =
     bindR (assert_active survivor) (\<lambda>_.
     bindR (assert_active duplicate) (\<lambda>_.
     let decision = decide_match survivor duplicate explicit in
     bindR (requireR (\<not> (shares_unverified_email survivor duplicate \<and> \<not> strong_tie decision))
       (UnverifiedEmailMergeError ''refusing merge: accounts share only an UNVERIFIED email'')) (\<lambda>_.
     bindR (requireR (matched decision)
       (NoMatchError (text_or (decision_detail decision) ''no matching rule satisfied''))) (\<lambda>_.
     Inr decision))))"

section \<open>Moving links, roles and groups (survivor wins)\<close>

text \<open>A loop's accumulator: the identifiers moved so far and the conflicts recorded so far.\<close>

type_synonym move_acc = "string list \<times> merge_conflict list"

definition link_identifier :: "federated_identity \<Rightarrow> string" where
  "link_identifier link = identity_provider link @ '':'' @ external_user_id link"

definition resolution_payload :: "string \<Rightarrow> dict" where
  "resolution_payload identifier =
     [(''identifier'', JStr identifier), (''resolution'', JStr ''survivor_wins'')]"

definition move_link ::
  "('w, 'k, 'l) service \<Rightarrow> user_account \<Rightarrow> user_account \<Rightarrow> string \<Rightarrow> string
     \<Rightarrow> federated_identity \<Rightarrow> move_acc \<Rightarrow> ('w, 'k, 'l, move_acc) svc_action" where
  "move_link svc survivor duplicate audit_id actor link = (\<lambda>(moved, conflicts).
     let existing = map link_key (federated_identities survivor);
         identifier = link_identifier link;
         provider_taken = (\<exists>s\<in>set (federated_identities survivor).
           identity_provider s = identity_provider link)
     in if link_key link \<in> set existing \<or> provider_taken
        then
          bindA (kcA (api_remove_federated_identity (api_of svc) (user_id duplicate)
            (identity_provider link))) (\<lambda>_.
          bindA (emitA svc audit_id ''federated_identity_conflict'' actor (user_id survivor)
            (user_id duplicate) (resolution_payload identifier)) (\<lambda>_.
          returnA (moved, conflicts @ [mk_conflict ''federated_identity'' identifier])))
        else
          bindA (kcA (api_add_federated_identity (api_of svc) (user_id survivor) link)) (\<lambda>_.
          bindA (kcA (api_remove_federated_identity (api_of svc) (user_id duplicate)
            (identity_provider link))) (\<lambda>_.
          bindA (emitA svc audit_id ''federated_identity_moved'' actor (user_id survivor)
            (user_id duplicate) [(''identifier'', JStr identifier)]) (\<lambda>_.
          returnA (moved @ [identifier], conflicts)))))"

definition move_federated_identities ::
  "('w, 'k, 'l) service \<Rightarrow> user_account \<Rightarrow> user_account \<Rightarrow> string \<Rightarrow> string
     \<Rightarrow> merge_conflict list \<Rightarrow> ('w, 'k, 'l, move_acc) svc_action" where
  "move_federated_identities svc survivor duplicate audit_id actor conflicts =
     foldA (move_link svc survivor duplicate audit_id actor) (federated_identities duplicate)
       ([], conflicts)"

definition role_identifier :: "role_mapping \<Rightarrow> string" where
  "role_identifier role = text_or (role_client_id role) ''realm'' @ '':'' @ role_name role"

definition move_role ::
  "('w, 'k, 'l) service \<Rightarrow> user_account \<Rightarrow> user_account \<Rightarrow> string \<Rightarrow> string
     \<Rightarrow> (string option \<times> string) list \<Rightarrow> role_mapping \<Rightarrow> move_acc
     \<Rightarrow> ('w, 'k, 'l, move_acc) svc_action" where
  "move_role svc survivor duplicate audit_id actor survivor_roles role = (\<lambda>(moved, conflicts).
     let identifier = role_identifier role
     in if role_key role \<in> set survivor_roles
        then
          bindA (kcA (api_remove_role_mapping (api_of svc) (user_id duplicate) role)) (\<lambda>_.
          bindA (emitA svc audit_id ''role_mapping_conflict'' actor (user_id survivor)
            (user_id duplicate) (resolution_payload identifier)) (\<lambda>_.
          returnA (moved, conflicts @ [mk_conflict ''role_mapping'' identifier])))
        else
          bindA (kcA (api_add_role_mapping (api_of svc) (user_id survivor) role)) (\<lambda>_.
          bindA (kcA (api_remove_role_mapping (api_of svc) (user_id duplicate) role)) (\<lambda>_.
          bindA (emitA svc audit_id ''role_mapping_moved'' actor (user_id survivor)
            (user_id duplicate)
            [(''identifier'', JStr identifier), (''role_name'', JStr (role_name role)),
             (''client_id'', opt_str (role_client_id role))]) (\<lambda>_.
          returnA (moved @ [identifier], conflicts)))))"

definition move_role_mappings ::
  "('w, 'k, 'l) service \<Rightarrow> user_account \<Rightarrow> user_account \<Rightarrow> string \<Rightarrow> string
     \<Rightarrow> merge_conflict list \<Rightarrow> ('w, 'k, 'l, move_acc) svc_action" where
  "move_role_mappings svc survivor duplicate audit_id actor conflicts =
     bindA (kcA (api_list_role_mappings (api_of svc) (user_id survivor))) (\<lambda>held.
     bindA (kcA (api_list_role_mappings (api_of svc) (user_id duplicate))) (\<lambda>roles.
     foldA (move_role svc survivor duplicate audit_id actor (map role_key held)) roles
       ([], conflicts)))"

definition group_identifier :: "group_membership \<Rightarrow> string" where
  "group_identifier grp = (if group_path grp = [] then group_id grp else group_path grp)"

definition move_group ::
  "('w, 'k, 'l) service \<Rightarrow> user_account \<Rightarrow> user_account \<Rightarrow> string \<Rightarrow> string
     \<Rightarrow> string list \<Rightarrow> group_membership \<Rightarrow> move_acc \<Rightarrow> ('w, 'k, 'l, move_acc) svc_action" where
  "move_group svc survivor duplicate audit_id actor survivor_groups grp = (\<lambda>(moved, conflicts).
     let identifier = group_identifier grp
     in if group_id grp \<in> set survivor_groups
        then
          bindA (kcA (api_remove_group_membership (api_of svc) (user_id duplicate) grp)) (\<lambda>_.
          bindA (emitA svc audit_id ''group_membership_conflict'' actor (user_id survivor)
            (user_id duplicate) (resolution_payload identifier)) (\<lambda>_.
          returnA (moved, conflicts @ [mk_conflict ''group_membership'' identifier])))
        else
          bindA (kcA (api_add_group_membership (api_of svc) (user_id survivor) grp)) (\<lambda>_.
          bindA (kcA (api_remove_group_membership (api_of svc) (user_id duplicate) grp)) (\<lambda>_.
          bindA (emitA svc audit_id ''group_membership_moved'' actor (user_id survivor)
            (user_id duplicate) [(''identifier'', JStr identifier)]) (\<lambda>_.
          returnA (moved @ [identifier], conflicts)))))"

definition move_group_memberships ::
  "('w, 'k, 'l) service \<Rightarrow> user_account \<Rightarrow> user_account \<Rightarrow> string \<Rightarrow> string
     \<Rightarrow> merge_conflict list \<Rightarrow> ('w, 'k, 'l, move_acc) svc_action" where
  "move_group_memberships svc survivor duplicate audit_id actor conflicts =
     bindA (kcA (api_list_group_memberships (api_of svc) (user_id survivor))) (\<lambda>held.
     bindA (kcA (api_list_group_memberships (api_of svc) (user_id duplicate))) (\<lambda>groups.
     foldA (move_group svc survivor duplicate audit_id actor (map group_id held)) groups
       ([], conflicts)))"

definition tombstone ::
  "('w, 'k, 'l) service \<Rightarrow> user_account \<Rightarrow> user_account \<Rightarrow> string \<Rightarrow> string
     \<Rightarrow> ('w, 'k, 'l, unit) svc_action" where
  "tombstone svc duplicate survivor audit_id actor =
     bindA (kcA (api_set_user_attribute (api_of svc) (user_id duplicate)
       TOMBSTONE_ATTRIBUTE_KEY (user_id survivor))) (\<lambda>_.
     bindA (kcA (api_deactivate_user (api_of svc) (user_id duplicate))) (\<lambda>_.
     emitA svc audit_id ''duplicate_tombstoned'' actor (user_id survivor) (user_id duplicate)
       [(''attribute_key'', JStr TOMBSTONE_ATTRIBUTE_KEY)]))"

section \<open>Merging\<close>

definition conflict_json :: "merge_conflict \<Rightarrow> json" where
  "conflict_json c = JObj
     [(''kind'', JStr (conflict_kind c)), (''identifier'', JStr (conflict_identifier c)),
      (''resolution'', JStr (conflict_resolution c))]"

definition started_payload :: "('w, 'k, 'l) service \<Rightarrow> merge_request \<Rightarrow> match_decision \<Rightarrow> dict" where
  "started_payload svc request decision =
     [(''match_reason'', JStr (reason_value (decision_reason decision))),
      (''match_detail'', opt_str (decision_detail decision)),
      (''reason_note'', opt_str (reason_note request)),
      (''conflict_policy'', JStr (merge_conflict_policy svc))]"

definition completed_payload ::
  "string list \<Rightarrow> string list \<Rightarrow> string list \<Rightarrow> merge_conflict list \<Rightarrow> dict" where
  "completed_payload links roles groups conflicts =
     [(''moved_federated_identities'', JArr (map JStr links)),
      (''moved_role_mappings'', JArr (map JStr roles)),
      (''moved_group_memberships'', JArr (map JStr groups)),
      (''conflicts'', JArr (map conflict_json conflicts))]"

text \<open>The writing part of a merge, from the \<open>merge_started\<close> event on.\<close>

definition merge_writes ::
  "('w, 'k, 'l) service \<Rightarrow> merge_request \<Rightarrow> user_account \<Rightarrow> user_account \<Rightarrow> match_decision
     \<Rightarrow> string \<Rightarrow> ('w, 'k, 'l, merge_result) svc_action" where
  "merge_writes svc request survivor duplicate decision audit_id =
     bindA (emitA svc audit_id ''merge_started'' (req_actor request) (user_id survivor)
       (user_id duplicate) (started_payload svc request decision)) (\<lambda>_.
     bindA (move_federated_identities svc survivor duplicate audit_id (req_actor request) [])
       (\<lambda>(moved_links, conflicts1).
     bindA (move_role_mappings svc survivor duplicate audit_id (req_actor request) conflicts1)
       (\<lambda>(moved_roles, conflicts2).
     bindA (move_group_memberships svc survivor duplicate audit_id (req_actor request) conflicts2)
       (\<lambda>(moved_groups, conflicts).
     bindA (tombstone svc duplicate survivor audit_id (req_actor request)) (\<lambda>_.
     bindA (emitA svc audit_id ''merge_completed'' (req_actor request) (user_id survivor)
       (user_id duplicate) (completed_payload moved_links moved_roles moved_groups conflicts)) (\<lambda>_.
     returnA \<lparr>res_survivor_user_id = user_id survivor, res_duplicate_user_id = user_id duplicate,
        res_match_reason = decision_reason decision,
        moved_federated_identities = moved_links, moved_role_mappings = moved_roles,
        moved_group_memberships = moved_groups, res_conflicts = conflicts,
        duplicate_tombstoned = True, res_audit_id = Some audit_id\<rparr>))))))"

definition merge_accounts_locked ::
  "('w, 'k, 'l) service \<Rightarrow> merge_request \<Rightarrow> ('w, 'k, 'l, merge_result) svc_action" where
  "merge_accounts_locked svc request =
     bindA (load_user svc (req_survivor_user_id request)) (\<lambda>survivor0.
     bindA (load_user svc (req_duplicate_user_id request)) (\<lambda>duplicate0.
     bindA (kcA (api_list_federated_identities (api_of svc) (user_id survivor0))) (\<lambda>survivor_links.
     bindA (kcA (api_list_federated_identities (api_of svc) (user_id duplicate0))) (\<lambda>duplicate_links.
     let survivor = survivor0\<lparr>federated_identities := survivor_links\<rparr>;
         duplicate = duplicate0\<lparr>federated_identities := duplicate_links\<rparr>
     in bindA (liftA (merge_decision survivor duplicate (explicit_link request))) (\<lambda>decision.
        bindA correlationA (\<lambda>audit_id.
        merge_writes svc request survivor duplicate decision audit_id))))))"

definition merge_accounts ::
  "('w, 'k, 'l) service \<Rightarrow> merge_request \<Rightarrow> ('w, 'k, 'l, merge_result) svc_action" where
  "merge_accounts svc request =
     (if req_survivor_user_id request = req_duplicate_user_id request
      then raiseA (SameUserError ''survivor and duplicate are the same account'')
      else hold (locks_of svc) lock_db lock_db_update
             [req_survivor_user_id request, req_duplicate_user_id request]
             (merge_accounts_locked svc request))"

end
