(* ===== verification/Merge.thy ===== *)
theory Merge
  imports Service
begin

text \<open>
  What a merge does to Keycloak and to the audit trail. The locale \<open>unification\<close> assembles the
  contracts of the service's collaborators; inside it the merge is verified once, for every
  admin API, sink and lock manager that meets them. The central notion is \<open>merge_progress\<close>: what
  is true of the two accounts at every moment of a merge, so also when a call raises half-way.
\<close>

section \<open>Progress of a merge, as observed in Keycloak\<close>

definition movable_links :: "kc_user \<Rightarrow> kc_user \<Rightarrow> (string \<times> string) set" where
  "movable_links ks kd = {l \<in> kc_links kd. fst l \<notin> fst ` kc_links ks}"

text \<open>\<open>ks0\<close>, \<open>kd0\<close> are survivor and duplicate before the merge, \<open>ks\<close>, \<open>kd\<close> at some later moment.\<close>

definition progress :: "kc_user \<Rightarrow> kc_user \<Rightarrow> kc_user \<Rightarrow> kc_user \<Rightarrow> bool" where
  "progress ks0 kd0 ks kd \<longleftrightarrow>
     kc_enabled ks = kc_enabled ks0 \<and> kc_email ks = kc_email ks0 \<and>
     kc_verified ks = kc_verified ks0 \<and> kc_attrs ks = kc_attrs ks0 \<and>
     kc_email kd = kc_email kd0 \<and> kc_verified kd = kc_verified kd0 \<and>
     kc_links ks0 \<subseteq> kc_links ks \<and> kc_links ks \<subseteq> kc_links ks0 \<union> movable_links ks0 kd0 \<and>
     kc_links kd \<subseteq> kc_links kd0 \<and> movable_links ks0 kd0 \<subseteq> kc_links ks \<union> kc_links kd \<and>
     kc_roles ks0 \<subseteq> kc_roles ks \<and> kc_roles kd \<subseteq> kc_roles kd0 \<and>
     kc_roles ks \<union> kc_roles kd = kc_roles ks0 \<union> kc_roles kd0 \<and>
     kc_groups ks0 \<subseteq> kc_groups ks \<and> kc_groups kd \<subseteq> kc_groups kd0 \<and>
     kc_groups ks \<union> kc_groups kd = kc_groups ks0 \<union> kc_groups kd0"

text \<open>While links, roles and groups move, the duplicate is not yet marked; \<open>A\<close>, \<open>B\<close>, \<open>C\<close> bound
  what is still on it.\<close>

definition moving ::
  "kc_view \<Rightarrow> string \<Rightarrow> string \<Rightarrow> kc_user \<Rightarrow> kc_user \<Rightarrow> (string \<times> string) set
     \<Rightarrow> (string option \<times> string) set \<Rightarrow> string set \<Rightarrow> kc_view \<Rightarrow> bool" where
  "moving V0 s d ks0 kd0 A B C V \<longleftrightarrow> (\<exists>ks kd. V = V0(s \<mapsto> ks, d \<mapsto> kd) \<and> progress ks0 kd0 ks kd \<and>
     kc_enabled kd = kc_enabled kd0 \<and> kc_attrs kd = kc_attrs kd0 \<and>
     kc_links kd \<subseteq> A \<and> kc_roles kd \<subseteq> B \<and> kc_groups kd \<subseteq> C)"

text \<open>
  At every moment: nothing the two accounts had is lost and nothing else is given to them, no
  other user changes, and the duplicate is marked or disabled only after everything on it is moved.
\<close>

definition merge_progress :: "kc_view \<Rightarrow> string \<Rightarrow> string \<Rightarrow> kc_user \<Rightarrow> kc_user \<Rightarrow> kc_view \<Rightarrow> bool" where
  "merge_progress V0 s d ks0 kd0 V \<longleftrightarrow> (\<exists>ks kd. V = V0(s \<mapsto> ks, d \<mapsto> kd) \<and> progress ks0 kd0 ks kd \<and>
     (kc_enabled kd = kc_enabled kd0 \<and> kc_attrs kd = kc_attrs kd0 \<or>
      kc_links kd = {} \<and> kc_roles kd = {} \<and> kc_groups kd = {} \<and>
      kc_attrs kd = (kc_attrs kd0)(TOMBSTONE_ATTRIBUTE_KEY \<mapsto> s) \<and>
      (kc_enabled kd \<longrightarrow> kc_enabled kd0)))"

text \<open>The finished merge, as a function on what is observed.\<close>

definition merged_survivor :: "kc_user \<Rightarrow> kc_user \<Rightarrow> kc_user" where
  "merged_survivor ks kd = ks\<lparr>kc_links := kc_links ks \<union> movable_links ks kd,
     kc_roles := kc_roles ks \<union> kc_roles kd, kc_groups := kc_groups ks \<union> kc_groups kd\<rparr>"

definition tombstoned :: "string \<Rightarrow> kc_user \<Rightarrow> kc_user" where
  "tombstoned s kd = kd\<lparr>kc_enabled := False,
     kc_attrs := (kc_attrs kd)(TOMBSTONE_ATTRIBUTE_KEY \<mapsto> s),
     kc_links := {}, kc_roles := {}, kc_groups := {}\<rparr>"

definition merge_spec :: "string \<Rightarrow> string \<Rightarrow> kc_user \<Rightarrow> kc_user \<Rightarrow> kc_view \<Rightarrow> kc_view" where
  "merge_spec s d ks kd V = V(s \<mapsto> merged_survivor ks kd, d \<mapsto> tombstoned s kd)"

lemma moving_start:
  "V0 s = Some ks0 \<Longrightarrow> V0 d = Some kd0 \<Longrightarrow> s \<noteq> d \<Longrightarrow>
     moving V0 s d ks0 kd0 (kc_links kd0) UNIV UNIV V0"
  unfolding moving_def
  by (intro exI [of _ ks0] exI [of _ kd0]) (auto simp: progress_def movable_links_def fun_upd_idem)

lemma moving_weaken:
  "moving V0 s d ks0 kd0 A B C V \<Longrightarrow> A \<subseteq> A' \<Longrightarrow> B \<subseteq> B' \<Longrightarrow> C \<subseteq> C' \<Longrightarrow>
     moving V0 s d ks0 kd0 A' B' C' V"
  unfolding moving_def by blast

lemma moving_progress: "moving V0 s d ks0 kd0 A B C V \<Longrightarrow> merge_progress V0 s d ks0 kd0 V"
  unfolding moving_def merge_progress_def by blast

lemma change_survivor:
  "s \<noteq> d \<Longrightarrow> change_user s f (V0(s \<mapsto> ks, d \<mapsto> kd)) = V0(s \<mapsto> f ks, d \<mapsto> kd)"
  by (auto simp: change_user_def)

lemma change_duplicate:
  "s \<noteq> d \<Longrightarrow> change_user d f (V0(s \<mapsto> ks, d \<mapsto> kd)) = V0(s \<mapsto> ks, d \<mapsto> f kd)"
  by (auto simp: change_user_def)

lemma movingE:
  assumes "moving V0 s d ks0 kd0 A B C V" and "s \<noteq> d"
  obtains ks kd where "V = V0(s \<mapsto> ks, d \<mapsto> kd)" "V s = Some ks" "V d = Some kd"
    "progress ks0 kd0 ks kd" "kc_enabled kd = kc_enabled kd0" "kc_attrs kd = kc_attrs kd0"
    "kc_links kd \<subseteq> A" "kc_roles kd \<subseteq> B" "kc_groups kd \<subseteq> C"
  using assms unfolding moving_def by auto

lemma moving_survivor:
  assumes "moving V0 s d ks0 kd0 A B C V" and "s \<noteq> d"
    and "\<And>ks kd. V s = Some ks \<Longrightarrow> progress ks0 kd0 ks kd \<Longrightarrow> progress ks0 kd0 (f ks) kd"
  shows "moving V0 s d ks0 kd0 A B C (change_user s f V)"
  using assms(1,2)
proof (rule movingE)
  fix ks kd
  assume V: "V = V0(s \<mapsto> ks, d \<mapsto> kd)" "V s = Some ks" and p: "progress ks0 kd0 ks kd"
    "kc_enabled kd = kc_enabled kd0" "kc_attrs kd = kc_attrs kd0"
    "kc_links kd \<subseteq> A" "kc_roles kd \<subseteq> B" "kc_groups kd \<subseteq> C"
  have "change_user s f V = V0(s \<mapsto> f ks, d \<mapsto> kd)"
    using assms(2) V(1) by (simp add: change_survivor)
  with assms(3) [OF V(2) p(1)] p(2-) show ?thesis unfolding moving_def by blast
qed

lemma moving_duplicate:
  assumes "moving V0 s d ks0 kd0 A B C V" and "s \<noteq> d"
    and "\<And>ks kd. V s = Some ks \<Longrightarrow> progress ks0 kd0 ks kd \<Longrightarrow>
      kc_links kd \<subseteq> A \<Longrightarrow> kc_roles kd \<subseteq> B \<Longrightarrow> kc_groups kd \<subseteq> C \<Longrightarrow>
      progress ks0 kd0 ks (f kd) \<and> kc_enabled (f kd) = kc_enabled kd \<and> kc_attrs (f kd) = kc_attrs kd \<and>
      kc_links (f kd) \<subseteq> A' \<and> kc_roles (f kd) \<subseteq> B' \<and> kc_groups (f kd) \<subseteq> C'"
  shows "moving V0 s d ks0 kd0 A' B' C' (change_user d f V)"
  using assms(1,2)
proof (rule movingE)
  fix ks kd
  assume V: "V = V0(s \<mapsto> ks, d \<mapsto> kd)" "V s = Some ks" and p: "progress ks0 kd0 ks kd"
    "kc_enabled kd = kc_enabled kd0" "kc_attrs kd = kc_attrs kd0"
    and b: "kc_links kd \<subseteq> A" "kc_roles kd \<subseteq> B" "kc_groups kd \<subseteq> C"
  have "change_user d f V = V0(s \<mapsto> ks, d \<mapsto> f kd)"
    using assms(2) V(1) by (simp add: change_duplicate)
  with assms(3) [OF V(2) p(1) b] p(2,3) show ?thesis unfolding moving_def by auto
qed

lemma moving_restrict:
  assumes "moving V0 s d ks0 kd0 A B C V" and "s \<noteq> d" and "V d = Some kd"
  shows "moving V0 s d ks0 kd0 (A \<inter> kc_links kd) (B \<inter> kc_roles kd) (C \<inter> kc_groups kd) V"
  using assms(1,2)
proof (rule movingE)
  fix ks kd'
  assume "V = V0(s \<mapsto> ks, d \<mapsto> kd')" "V d = Some kd'" "progress ks0 kd0 ks kd'"
    "kc_enabled kd' = kc_enabled kd0" "kc_attrs kd' = kc_attrs kd0"
    "kc_links kd' \<subseteq> A" "kc_roles kd' \<subseteq> B" "kc_groups kd' \<subseteq> C"
  moreover from this assms(3) have "kd' = kd" by simp
  ultimately show ?thesis unfolding moving_def by blast
qed

definition survivor_has :: "(kc_user \<Rightarrow> 'x set) \<Rightarrow> string \<Rightarrow> 'x \<Rightarrow> kc_view \<Rightarrow> bool" where
  "survivor_has sel s x V \<longleftrightarrow> (\<exists>ks. V s = Some ks \<and> x \<in> sel ks)"

lemma survivor_given:
  assumes "moving V0 s d ks0 kd0 A B C V" and "s \<noteq> d" and "\<And>ks. x \<in> sel (f ks)"
  shows "survivor_has sel s x (change_user s f V)"
  using assms(1,2) by (rule movingE) (auto simp: survivor_has_def assms(3))

lemma survivor_hasD: "survivor_has sel s x V \<Longrightarrow> V s = Some ks \<Longrightarrow> x \<in> sel ks"
  by (auto simp: survivor_has_def)

lemma survivor_has_other:
  "s \<noteq> d \<Longrightarrow> survivor_has sel s x (change_user d f V) = survivor_has sel s x V"
  by (simp add: survivor_has_def)

lemma survivor_keeps:
  "survivor_has sel s x V \<Longrightarrow> (\<And>ks. sel ks \<subseteq> sel (f ks)) \<Longrightarrow> survivor_has sel s x (change_user s f V)"
  by (auto simp: survivor_has_def subset_iff)

text \<open>One lemma per write: give to the survivor, then take from the duplicate.\<close>

lemma moving_add_link:
  assumes "moving V0 s d ks0 kd0 A B C V" and "s \<noteq> d" and "l \<in> movable_links ks0 kd0"
  shows "moving V0 s d ks0 kd0 A B C (change_user s (kc_links_update (insert l)) V)"
  using assms by (intro moving_survivor) (auto simp: progress_def)

lemma moving_remove_link:
  assumes "moving V0 s d ks0 kd0 (insert (p, x) A) B C V" and "s \<noteq> d"
    and "inj_on fst (kc_links kd0)" and "(p, x) \<in> kc_links kd0"
    and "\<And>ks. V s = Some ks \<Longrightarrow> (p, x) \<in> kc_links ks \<or> p \<in> fst ` kc_links ks0"
  shows "moving V0 s d ks0 kd0 A B C (change_user d (kc_links_update (\<lambda>L. {y \<in> L. fst y \<noteq> p})) V)"
  using assms(1,2)
proof (rule moving_duplicate)
  fix ks kd
  assume ks: "V s = Some ks" and pr: "progress ks0 kd0 ks kd"
    and b: "kc_links kd \<subseteq> insert (p, x) A" "kc_roles kd \<subseteq> B" "kc_groups kd \<subseteq> C"
  have only: "y = (p, x)" if "y \<in> kc_links kd0" "fst y = p" for y
    using inj_onD [OF assms(3) _ that(1) assms(4)] that(2) by simp
  have "movable_links ks0 kd0 \<subseteq> kc_links ks \<union> {y \<in> kc_links kd. fst y \<noteq> p}"
  proof
    fix y assume y: "y \<in> movable_links ks0 kd0"
    with pr have "y \<in> kc_links ks \<or> y \<in> kc_links kd" by (auto simp: progress_def)
    with y only [of y] assms(5) [OF ks] show "y \<in> kc_links ks \<union> {y \<in> kc_links kd. fst y \<noteq> p}"
      by (auto simp: movable_links_def)
  qed
  with pr b show "progress ks0 kd0 ks (kc_links_update (\<lambda>L. {y \<in> L. fst y \<noteq> p}) kd) \<and>
      kc_enabled (kc_links_update (\<lambda>L. {y \<in> L. fst y \<noteq> p}) kd) = kc_enabled kd \<and>
      kc_attrs (kc_links_update (\<lambda>L. {y \<in> L. fst y \<noteq> p}) kd) = kc_attrs kd \<and>
      kc_links (kc_links_update (\<lambda>L. {y \<in> L. fst y \<noteq> p}) kd) \<subseteq> A \<and>
      kc_roles (kc_links_update (\<lambda>L. {y \<in> L. fst y \<noteq> p}) kd) \<subseteq> B \<and>
      kc_groups (kc_links_update (\<lambda>L. {y \<in> L. fst y \<noteq> p}) kd) \<subseteq> C"
    by (auto simp: progress_def)
qed

lemma moving_add_role:
  assumes "moving V0 s d ks0 kd0 A B C V" and "s \<noteq> d" and "r \<in> kc_roles kd0"
  shows "moving V0 s d ks0 kd0 A B C (change_user s (kc_roles_update (insert r)) V)"
  using assms by (intro moving_survivor) (auto simp: progress_def)

lemma moving_remove_role:
  assumes "moving V0 s d ks0 kd0 A (insert r B) C V" and "s \<noteq> d"
    and "\<And>ks. V s = Some ks \<Longrightarrow> r \<in> kc_roles ks"
  shows "moving V0 s d ks0 kd0 A B C (change_user d (kc_roles_update (\<lambda>R. R - {r})) V)"
  using assms by (elim moving_duplicate) (auto simp: progress_def)

lemma moving_add_group:
  assumes "moving V0 s d ks0 kd0 A B C V" and "s \<noteq> d" and "g \<in> kc_groups kd0"
  shows "moving V0 s d ks0 kd0 A B C (change_user s (kc_groups_update (insert g)) V)"
  using assms by (intro moving_survivor) (auto simp: progress_def)

lemma moving_remove_group:
  assumes "moving V0 s d ks0 kd0 A B (insert g C) V" and "s \<noteq> d"
    and "\<And>ks. V s = Some ks \<Longrightarrow> g \<in> kc_groups ks"
  shows "moving V0 s d ks0 kd0 A B C (change_user d (kc_groups_update (\<lambda>G. G - {g})) V)"
  using assms by (elim moving_duplicate) (auto simp: progress_def)

text \<open>The roles (or groups) the survivor was found to own when the loop began, it still owns.\<close>

definition moving_owned ::
  "(kc_user \<Rightarrow> 'x set) \<Rightarrow> 'x list \<Rightarrow> kc_view \<Rightarrow> string \<Rightarrow> string \<Rightarrow> kc_user \<Rightarrow> kc_user
     \<Rightarrow> (string \<times> string) set \<Rightarrow> (string option \<times> string) set \<Rightarrow> string set \<Rightarrow> kc_view \<Rightarrow> bool" where
  "moving_owned sel owned V0 s d ks0 kd0 A B C V \<longleftrightarrow>
     moving V0 s d ks0 kd0 A B C V \<and> (\<forall>x\<in>set owned. survivor_has sel s x V)"

lemma moving_ownedD: "moving_owned sel owned V0 s d ks0 kd0 A B C V \<Longrightarrow> moving V0 s d ks0 kd0 A B C V"
  by (simp add: moving_owned_def)

lemma moving_owned_progress:
  "moving_owned sel owned V0 s d ks0 kd0 A B C V \<Longrightarrow> merge_progress V0 s d ks0 kd0 V"
  by (blast dest: moving_ownedD moving_progress)

lemma moving_owned_add_role:
  assumes "moving_owned kc_roles owned V0 s d ks0 kd0 A B C V" and "s \<noteq> d" and "r \<in> kc_roles kd0"
  shows "moving_owned kc_roles (r # owned) V0 s d ks0 kd0 A B C
    (change_user s (kc_roles_update (insert r)) V)"
  using assms unfolding moving_owned_def
  by (auto intro: moving_add_role survivor_given [where f = "kc_roles_update (insert r)"] survivor_keeps)

lemma moving_owned_remove_role:
  assumes "moving_owned kc_roles owned V0 s d ks0 kd0 A (insert r B) C V" and "s \<noteq> d"
    and "r \<in> set owned"
  shows "moving_owned kc_roles owned V0 s d ks0 kd0 A B C
    (change_user d (kc_roles_update (\<lambda>R. R - {r})) V)"
  using assms unfolding moving_owned_def
  by (auto intro: moving_remove_role dest: survivor_hasD simp: survivor_has_other)

lemma moving_owned_add_group:
  assumes "moving_owned kc_groups owned V0 s d ks0 kd0 A B C V" and "s \<noteq> d" and "g \<in> kc_groups kd0"
  shows "moving_owned kc_groups (g # owned) V0 s d ks0 kd0 A B C
    (change_user s (kc_groups_update (insert g)) V)"
  using assms unfolding moving_owned_def
  by (auto intro: moving_add_group survivor_given [where f = "kc_groups_update (insert g)"] survivor_keeps)

lemma moving_owned_remove_group:
  assumes "moving_owned kc_groups owned V0 s d ks0 kd0 A B (insert g C) V" and "s \<noteq> d"
    and "g \<in> set owned"
  shows "moving_owned kc_groups owned V0 s d ks0 kd0 A B C
    (change_user d (kc_groups_update (\<lambda>G. G - {g})) V)"
  using assms unfolding moving_owned_def
  by (auto intro: moving_remove_group dest: survivor_hasD simp: survivor_has_other)

lemma moving_owned_fewer:
  "moving_owned sel (x # owned) V0 s d ks0 kd0 A B C V \<Longrightarrow> moving_owned sel owned V0 s d ks0 kd0 A B C V"
  by (simp add: moving_owned_def)

lemma moving_read_roles:
  assumes "moving V0 s d ks0 kd0 A B C V" and "s \<noteq> d"
    and "\<forall>k. V s = Some k \<longrightarrow> set owned = kc_roles k" and "\<forall>k. V d = Some k \<longrightarrow> X = kc_roles k"
  shows "moving_owned kc_roles owned V0 s d ks0 kd0 A X C V \<and> X \<subseteq> kc_roles kd0"
  using assms(1,2)
proof (rule movingE)
  fix ks kd
  assume V: "V s = Some ks" "V d = Some kd" and p: "progress ks0 kd0 ks kd"
  have "moving V0 s d ks0 kd0 A X C V"
    using moving_restrict [OF assms(1,2) V(2)] assms(4) V(2) by (auto intro: moving_weaken)
  with V p assms(3,4) show ?thesis
    by (simp add: moving_owned_def survivor_has_def progress_def)
qed

lemma moving_read_groups:
  assumes "moving V0 s d ks0 kd0 A B C V" and "s \<noteq> d"
    and "\<forall>k. V s = Some k \<longrightarrow> set owned = kc_groups k" and "\<forall>k. V d = Some k \<longrightarrow> X = kc_groups k"
  shows "moving_owned kc_groups owned V0 s d ks0 kd0 A B X V \<and> X \<subseteq> kc_groups kd0"
  using assms(1,2)
proof (rule movingE)
  fix ks kd
  assume V: "V s = Some ks" "V d = Some kd" and p: "progress ks0 kd0 ks kd"
  have "moving V0 s d ks0 kd0 A B X V"
    using moving_restrict [OF assms(1,2) V(2)] assms(4) V(2) by (auto intro: moving_weaken)
  with V p assms(3,4) show ?thesis
    by (simp add: moving_owned_def survivor_has_def progress_def)
qed

text \<open>With everything moved, marking and disabling the duplicate gives the finished merge.\<close>

definition mark_duplicate :: "string \<Rightarrow> kc_user \<Rightarrow> kc_user" where
  "mark_duplicate s = kc_attrs_update (\<lambda>m. m(TOMBSTONE_ATTRIBUTE_KEY \<mapsto> s))"

lemma emptied_survivor:
  assumes "progress ks0 kd0 ks kd" and "kc_links kd = {}" "kc_roles kd = {}" "kc_groups kd = {}"
  shows "ks = merged_survivor ks0 kd0"
proof -
  have "kc_links ks = kc_links ks0 \<union> movable_links ks0 kd0"
    "kc_roles ks = kc_roles ks0 \<union> kc_roles kd0" "kc_groups ks = kc_groups ks0 \<union> kc_groups kd0"
    using assms by (auto simp: progress_def)
  then show ?thesis
    using assms(1) by (simp add: merged_survivor_def progress_def)
qed

lemma moving_tombstone:
  assumes "moving V0 s d ks0 kd0 {} {} {} V" and "s \<noteq> d"
  shows "merge_progress V0 s d ks0 kd0 (change_user d (mark_duplicate s) V)"
    "change_user d (kc_enabled_update (\<lambda>_. False)) (change_user d (mark_duplicate s) V)
       = merge_spec s d ks0 kd0 V0"
proof -
  from assms obtain ks kd where V: "V = V0(s \<mapsto> ks, d \<mapsto> kd)" and p: "progress ks0 kd0 ks kd"
    "kc_enabled kd = kc_enabled kd0" "kc_attrs kd = kc_attrs kd0"
    "kc_links kd = {}" "kc_roles kd = {}" "kc_groups kd = {}"
    by (auto elim!: movingE)
  have m: "change_user d (mark_duplicate s) V = V0(s \<mapsto> ks, d \<mapsto> mark_duplicate s kd)"
    using V assms(2) by (simp add: change_duplicate)
  have "progress ks0 kd0 ks (mark_duplicate s kd)"
    using p(1) by (simp add: progress_def mark_duplicate_def)
  with p m show "merge_progress V0 s d ks0 kd0 (change_user d (mark_duplicate s) V)"
    unfolding merge_progress_def
    by (intro exI [of _ ks] exI [of _ "mark_duplicate s kd"]) (simp add: mark_duplicate_def)
  have "kc_enabled_update (\<lambda>_. False) (mark_duplicate s kd) = tombstoned s kd0"
    using p by (simp add: mark_duplicate_def tombstoned_def progress_def)
  then show "change_user d (kc_enabled_update (\<lambda>_. False)) (change_user d (mark_duplicate s) V)
       = merge_spec s d ks0 kd0 V0"
    using assms(2) emptied_survivor [OF p(1,4,5,6)]
    by (simp add: m change_duplicate merge_spec_def)
qed

lemma merge_spec_progress:
  assumes "V0 s = Some ks0" and "V0 d = Some kd0"
  shows "merge_progress V0 s d ks0 kd0 (merge_spec s d ks0 kd0 V0)"
  unfolding merge_progress_def merge_spec_def
  by (intro exI [of _ "merged_survivor ks0 kd0"] exI [of _ "tombstoned s kd0"])
    (auto simp: progress_def merged_survivor_def tombstoned_def)

section \<open>When a merge may go ahead\<close>

definition same_email :: "string option \<Rightarrow> string option \<Rightarrow> bool" where
  "same_email x y \<longleftrightarrow> normalize_email x \<noteq> None \<and> normalize_email x = normalize_email y"

text \<open>
  The policy, stated on what Keycloak holds: both users enabled, and a common link, or the same
  email verified on both sides, or an explicit link between users that do not share an email.
\<close>

definition may_merge :: "kc_user \<Rightarrow> kc_user \<Rightarrow> bool \<Rightarrow> bool" where
  "may_merge ks kd explicit \<longleftrightarrow> kc_enabled ks \<and> kc_enabled kd \<and>
     (kc_links ks \<inter> kc_links kd \<noteq> {} \<or>
      same_email (kc_email ks) (kc_email kd) \<and> kc_verified ks \<and> kc_verified kd \<or>
      explicit \<and> \<not> same_email (kc_email ks) (kc_email kd))"

lemma normalize_email_stripped:
  "normalize_email (email a) =
     (if stripped_email a = [] then None else Some (lower (stripped_email a)))"
  by (simp add: normalize_email_def stripped_email_def text_or_def truthy_text_def Let_def
      split: option.splits)

lemma shares_unverified_iff:
  "shares_unverified_email a b \<longleftrightarrow>
     same_email (email a) (email b) \<and> \<not> (is_email_verified a \<and> is_email_verified b)"
proof -
  have "same_email (email a) (email b) \<longleftrightarrow>
      stripped_email a \<noteq> [] \<and> lower (stripped_email a) = lower (stripped_email b)"
    unfolding same_email_def normalize_email_stripped
    by (auto split: if_splits)
  then show ?thesis
    unfolding shares_unverified_email_def verified_email_iff by (auto simp: same_email_def)
qed

lemma merge_decision_cases:
  "merge_decision a b x =
     (if state a \<notin> {''active'', ''enabled''}
      then Inl (InactiveAccountError (''user '' @ user_id a @ '' is not active ('' @ state a @ '')''))
      else if state b \<notin> {''active'', ''enabled''}
      then Inl (InactiveAccountError (''user '' @ user_id b @ '' is not active ('' @ state b @ '')''))
      else if \<not> common_link a b \<and> same_email (email a) (email b) \<and> \<not> (is_email_verified a \<and> is_email_verified b)
      then Inl (UnverifiedEmailMergeError ''refusing merge: accounts share only an UNVERIFIED email'')
      else if \<not> common_link a b \<and> \<not> same_email (email a) (email b) \<and> \<not> x
      then Inl (NoMatchError ''no exact idp subject, no matching verified email, no explicit link'')
      else Inr (decide_match a b x))"
proof -
  have none: "text_or (decision_detail (decide_match a b x)) ''no matching rule satisfied''
      = ''no exact idp subject, no matching verified email, no explicit link''"
    if "\<not> matched (decide_match a b x)"
    using that by (auto simp: decide_match_def text_or_def split: option.splits if_splits)
  have ver: "have_matching_verified_email a b \<longleftrightarrow>
      same_email (email a) (email b) \<and> is_email_verified a \<and> is_email_verified b"
    by (auto simp: verified_email_iff same_email_def)
  have act: "state u \<in> set active_states \<longleftrightarrow> state u \<in> {''active'', ''enabled''}" for u
    by (simp add: active_states_def)
  have reason: "strong_tie (decide_match a b x) \<longleftrightarrow> common_link a b \<or> have_matching_verified_email a b"
    "matched (decide_match a b x) \<longleftrightarrow> common_link a b \<or> have_matching_verified_email a b \<or> x"
    by (simp_all add: strong_tie_def decide_match_matched decide_match_reason)
  show ?thesis
    unfolding merge_decision_def assert_active_def shares_unverified_iff act Let_def reason ver
    using none unfolding reason ver requireR_def
    by (cases "common_link a b"; cases "same_email (email a) (email b)"; cases x;
        cases "is_email_verified a \<and> is_email_verified b"; simp)
qed

lemma merge_decision_ok:
  "okR (merge_decision a b x) \<longleftrightarrow>
     state a \<in> set active_states \<and> state b \<in> set active_states \<and>
     (common_link a b \<or> same_email (email a) (email b) \<and> is_email_verified a \<and> is_email_verified b \<or>
      x \<and> \<not> same_email (email a) (email b))"
  unfolding merge_decision_def Let_def okR_bind_unit okR_requireR assert_active_def strong_tie_def
    decide_match_matched decide_match_reason shares_unverified_iff verified_email_iff
  by (auto simp: same_email_def okR_def)

lemma merge_decision_policy:
  assumes "reports_user a ks" and "reports_user b kd"
    and "link_key ` set (federated_identities a) = kc_links ks"
    and "link_key ` set (federated_identities b) = kc_links kd"
  shows "okR (merge_decision a b x) \<longleftrightarrow> may_merge ks kd x"
proof -
  have "common_link a b \<longleftrightarrow> kc_links ks \<inter> kc_links kd \<noteq> {}"
    unfolding common_link_def assms(3,4) [symmetric] by blast
  with assms(1,2) show ?thesis
    by (simp add: merge_decision_ok may_merge_def reports_user_def)
qed

text \<open>What the four reads at the start of a merge establish.\<close>

definition loaded ::
  "kc_view \<Rightarrow> string \<Rightarrow> string \<Rightarrow> user_account \<Rightarrow> user_account \<Rightarrow> bool" where
  "loaded V s d x y \<longleftrightarrow> user_id x = s \<and> user_id y = d \<and> (\<exists>ks kd. V s = Some ks \<and> V d = Some kd \<and>
     reports_user x ks \<and> reports_user y kd \<and>
     link_key ` set (federated_identities x) = kc_links ks \<and>
     link_key ` set (federated_identities y) = kc_links kd)"

text \<open>What may be observed of Keycloak when a merge has returned, and when it has raised.\<close>

definition merge_returned :: "kc_view \<Rightarrow> string \<Rightarrow> string \<Rightarrow> bool \<Rightarrow> kc_view \<Rightarrow> bool" where
  "merge_returned V0 s d explicit V \<longleftrightarrow> (\<exists>ks kd. V0 s = Some ks \<and> V0 d = Some kd \<and>
     may_merge ks kd explicit \<and> V = merge_spec s d ks kd V0)"

definition merge_raised :: "kc_view \<Rightarrow> string \<Rightarrow> string \<Rightarrow> bool \<Rightarrow> kc_view \<Rightarrow> bool" where
  "merge_raised V0 s d explicit V \<longleftrightarrow> V = V0 \<or> (\<exists>ks kd. V0 s = Some ks \<and> V0 d = Some kd \<and>
     may_merge ks kd explicit \<and> merge_progress V0 s d ks kd V)"

section \<open>The effect of each step\<close>

text \<open>A predicate on what is observed, lifted to the service state.\<close>

definition sat :: "('w \<Rightarrow> bool) \<Rightarrow> ('w \<Rightarrow> kc_view) \<Rightarrow> (kc_view \<Rightarrow> bool) \<Rightarrow> ('w, 'k, 'l) svc_state \<Rightarrow> bool" where
  "sat winv view P s \<longleftrightarrow> winv (kc s) \<and> P (view (kc s))"

lemma kcA_cases:
  assumes "kcA m s = (r, t)"
  obtains w where "m (kc s) = (r, w)" "t = s\<lparr>kc := w\<rparr>"
  using assms by (auto simp: kcA_def elim!: zoomA_cases)

lemma emitA_run:
  "emitA svc i ty a x y p s = (Inr (), s\<lparr>
     sink := record_of svc (mk_event i ty a (Some x) (Some y) p (env_time (senv s) (env_tick (senv s)))) (sink s),
     senv := tick (senv s)\<rparr>)"
  by (simp add: emitA_def emit_def time_now_def Let_def)

lemma hoare_change:
  assumes "changes_user winv view act u f"
    and "\<And>V. P V \<Longrightarrow> Q (change_user u f V)" and "\<And>V. P V \<Longrightarrow> R V" and "\<And>V. Q V \<Longrightarrow> R V"
  shows "hoareA (sat winv view P) (kcA act) (\<lambda>_. sat winv view Q) (\<lambda>_. sat winv view R)"
proof (intro hoareAI; elim kcA_cases)
  fix s t x w assume "sat winv view P s" "act (kc s) = (Inr x, w)" "t = s\<lparr>kc := w\<rparr>"
  then show "sat winv view Q t"
    using changes_userD [OF assms(1), of "kc s" "Inr ()" w] assms(2) by (auto simp: sat_def)
next
  fix s t e w assume "sat winv view P s" "act (kc s) = (Inl e, w)" "t = s\<lparr>kc := w\<rparr>"
  then show "sat winv view R t"
    using changes_userD(1,2) [OF assms(1), of "kc s" "Inl e" w] assms(2-4) by (auto simp: sat_def)
qed

lemma hoare_read:
  assumes "reads_only winv view act T" and "\<And>V. P V \<Longrightarrow> R V"
  shows "hoareA (sat winv view P) (kcA act) (\<lambda>x. sat winv view (\<lambda>V. P V \<and> T V x)) (\<lambda>_. sat winv view R)"
proof (intro hoareAI; elim kcA_cases)
  fix s t x w assume "sat winv view P s" "act (kc s) = (Inr x, w)" "t = s\<lparr>kc := w\<rparr>"
  then show "sat winv view (\<lambda>V. P V \<and> T V x) t"
    using reads_onlyD(1,2) [OF assms(1), of "kc s" "Inr x" w]
      reads_onlyD(3) [OF assms(1), of "kc s" "Inr x" w x] by (auto simp: sat_def)
next
  fix s t e w assume "sat winv view P s" "act (kc s) = (Inl e, w)" "t = s\<lparr>kc := w\<rparr>"
  then show "sat winv view R t"
    using reads_onlyD(1,2) [OF assms(1), of "kc s" "Inl e" w] assms(2) by (auto simp: sat_def)
qed

lemma hoare_emit:
  "hoareA (sat winv view P) (emitA svc i ty a x y p) (\<lambda>_. sat winv view P) R"
  by (intro hoareAI) (auto simp: emitA_run sat_def)

lemma hoare_correlation:
  "hoareA (sat winv view P) correlationA (\<lambda>_. sat winv view P) R"
  by (intro hoareAI)
    (auto simp: correlationA_def new_correlation_id_def uuid4_hex_def sat_def elim!: zoomA_cases)

text \<open>The two shapes a loop body has: detach from the duplicate; or attach to the survivor first.\<close>

lemma hoare_take:
  assumes "changes_user winv view rem d f"
    and "\<And>V. P V \<Longrightarrow> Q (change_user d f V)" and "\<And>V. P V \<Longrightarrow> R V" and "\<And>V. Q V \<Longrightarrow> R V"
  shows "hoareA (sat winv view P)
    (bindA (kcA rem) (\<lambda>_. bindA (emitA svc i ty a x y p) (\<lambda>_. returnA z)))
    (\<lambda>_. sat winv view Q) (\<lambda>_. sat winv view R)"
  by (intro hoareA_bind [OF hoare_change [where P = P and Q = Q and R = R, OF assms(1)]]
      hoareA_bind [OF hoare_emit] hoareA_return assms(2-4))

lemma hoare_give_take:
  assumes "changes_user winv view add s g" and "changes_user winv view rem d f"
    and "\<And>V. P V \<Longrightarrow> P' (change_user s g V)" and "\<And>V. P' V \<Longrightarrow> Q (change_user d f V)"
    and "\<And>V. P V \<Longrightarrow> R V" and "\<And>V. P' V \<Longrightarrow> R V" and "\<And>V. Q V \<Longrightarrow> R V"
  shows "hoareA (sat winv view P)
    (bindA (kcA add) (\<lambda>_. bindA (kcA rem) (\<lambda>_. bindA (emitA svc i ty a x y p) (\<lambda>_. returnA z))))
    (\<lambda>_. sat winv view Q) (\<lambda>_. sat winv view R)"
  by (intro hoareA_bind [OF hoare_change [where P = P and Q = P' and R = R, OF assms(1)]]
      hoare_take [where P = P' and Q = Q and R = R, OF assms(2)] assms(3-7))

text \<open>A loop over items, each of which takes its key off what is left on the duplicate.\<close>

lemma hoare_fold_items:
  fixes key :: "'x \<Rightarrow> 'y"
  assumes "\<And>x acc A. x \<in> set xs \<Longrightarrow>
      hoareA (sat winv view (M (insert (key x) A))) (f x acc) (\<lambda>_. sat winv view (M A)) R"
  shows "hoareA (sat winv view (M (key ` set xs))) (foldA f xs acc) (\<lambda>_. sat winv view (M {})) R"
  using assms
proof (induction xs arbitrary: acc)
  case Nil
  show ?case by (simp only: foldA.simps, rule hoareA_return) simp
next
  case (Cons x xs)
  show ?case unfolding foldA.simps
    by (rule hoareA_bind [where S = "\<lambda>_. sat winv view (M (key ` set xs))"])
      (use Cons.prems [of x "key ` set xs"] Cons.IH Cons.prems in \<open>auto simp del: foldA.simps\<close>)
qed

text \<open>Read what survivor and duplicate hold, then run a body that works on what was read.\<close>

lemma hoare_read_both:
  assumes "reads_only winv view read_s T" and "reads_only winv view read_d T'"
    and "\<And>V owned xs. P V \<Longrightarrow> T V owned \<Longrightarrow> T' V xs \<Longrightarrow> M owned xs V \<and> sub xs"
    and "\<And>owned xs. sub xs \<Longrightarrow> hoareA (sat winv view (M owned xs)) (body owned xs) Q (\<lambda>_. sat winv view R)"
    and "\<And>V. P V \<Longrightarrow> R V"
  shows "hoareA (sat winv view P) (bindA (kcA read_s) (\<lambda>owned. bindA (kcA read_d) (body owned))) Q
    (\<lambda>_. sat winv view R)"
proof (rule hoareA_bind [OF hoare_read [OF assms(1)] hoareA_bind [OF hoare_read [OF assms(2)]]])
  fix owned xs
  show "hoareA (sat winv view (\<lambda>V. (P V \<and> T V owned) \<and> T' V xs)) (body owned xs) Q (\<lambda>_. sat winv view R)"
  proof (rule hoareA_pure [where b = "sub xs"])
    assume "sub xs"
    from assms(4) [OF this] show "hoareA (sat winv view (\<lambda>V. (P V \<and> T V owned) \<and> T' V xs))
        (body owned xs) Q (\<lambda>_. sat winv view R)"
      by (rule hoareA_conseq) (use assms(3) in \<open>auto simp: sat_def\<close>)
  qed (use assms(3) in \<open>auto simp: sat_def\<close>)
qed (auto intro: assms(5))

text \<open>
  The service with its collaborators' contracts: an admin API that behaves like Keycloak, an audit
  sink, and a lock manager.
\<close>

locale unification =
  keycloak_admin "api_of svc" view winv +
  audit_sink "record_of svc" events_for trail sink_inv +
  user_operation_locks "locks_of svc" held
  for svc :: "('w, 'k, 'l) service" and view winv events_for trail sink_inv held
begin

lemma hoare_move_link:
  assumes "user_id survivor \<noteq> user_id duplicate"
    and links: "link_key ` set (federated_identities survivor) = kc_links ks0"
    and inj: "inj_on fst (kc_links kd0)" and mem: "link_key link \<in> kc_links kd0"
  shows "hoareA
    (sat winv view (moving V0 (user_id survivor) (user_id duplicate) ks0 kd0 (insert (link_key link) A) B C))
    (move_link svc survivor duplicate i a link acc)
    (\<lambda>_. sat winv view (moving V0 (user_id survivor) (user_id duplicate) ks0 kd0 A B C))
    (\<lambda>_. sat winv view (merge_progress V0 (user_id survivor) (user_id duplicate) ks0 kd0))"
proof -
  obtain p x where key: "link_key link = (p, x)" and p: "identity_provider link = p"
    by (simp add: link_key_def)
  have taken: "link_key link \<in> set (map link_key (federated_identities survivor)) \<or>
      (\<exists>l\<in>set (federated_identities survivor). identity_provider l = identity_provider link)
      \<longleftrightarrow> p \<in> fst ` kc_links ks0"
    unfolding links [symmetric] image_image fst_link_key p [symmetric]
    unfolding image_iff set_map bex_simps by (metis fst_link_key)
  let ?M = "moving V0 (user_id survivor) (user_id duplicate) ks0 kd0 (insert (p, x) A) B C"
  show ?thesis
  proof (cases "p \<in> fst ` kc_links ks0")
    case True
    then show ?thesis
      unfolding move_link_def Let_def split_def taken
      unfolding key p if_P [OF True]
      by (intro hoare_take [OF remove_link])
        (use assms(1) inj mem key in \<open>auto intro: moving_remove_link moving_progress\<close>)
  next
    case False
    with mem key have "(p, x) \<in> movable_links ks0 kd0" by (auto simp: movable_links_def)
    then show ?thesis
      unfolding move_link_def Let_def split_def taken
      unfolding key p if_not_P [OF False]
      by (intro hoare_give_take [OF add_link remove_link,
            where P' = "\<lambda>V. ?M V \<and> survivor_has kc_links (user_id survivor) (p, x) V"])
        (use assms(1) inj mem key in
          \<open>auto intro: moving_remove_link moving_progress moving_add_link survivor_given dest: survivor_hasD\<close>)
  qed
qed

lemma hoare_move_links:
  assumes "user_id survivor \<noteq> user_id duplicate"
    and "link_key ` set (federated_identities survivor) = kc_links ks0"
    and "link_key ` set (federated_identities duplicate) = kc_links kd0"
    and "inj_on fst (kc_links kd0)"
  shows "hoareA
    (sat winv view (moving V0 (user_id survivor) (user_id duplicate) ks0 kd0 (kc_links kd0) B C))
    (move_federated_identities svc survivor duplicate i a cs)
    (\<lambda>_. sat winv view (moving V0 (user_id survivor) (user_id duplicate) ks0 kd0 {} B C))
    (\<lambda>_. sat winv view (merge_progress V0 (user_id survivor) (user_id duplicate) ks0 kd0))"
  unfolding move_federated_identities_def assms(3) [symmetric]
  by (rule hoare_fold_items) (use hoare_move_link [OF assms(1,2,4)] assms(3) in blast)

lemma hoare_move_role:
  assumes "user_id survivor \<noteq> user_id duplicate" and "role_key role \<in> kc_roles kd0"
  shows "hoareA
    (sat winv view (moving_owned kc_roles owned V0 (user_id survivor) (user_id duplicate) ks0 kd0
       A (insert (role_key role) B) C))
    (move_role svc survivor duplicate i a owned role acc)
    (\<lambda>_. sat winv view (moving_owned kc_roles owned V0 (user_id survivor) (user_id duplicate) ks0 kd0 A B C))
    (\<lambda>_. sat winv view (merge_progress V0 (user_id survivor) (user_id duplicate) ks0 kd0))"
proof (cases "role_key role \<in> set owned")
  case True
  then show ?thesis
    unfolding move_role_def Let_def split_def if_P [OF True]
    by (intro hoare_take [OF remove_role])
      (use assms in \<open>auto intro: moving_owned_remove_role moving_owned_progress\<close>)
next
  case False
  show ?thesis
    unfolding move_role_def Let_def split_def if_not_P [OF False]
    by (intro hoare_give_take [OF add_role remove_role, where P' = "moving_owned kc_roles
        (role_key role # owned) V0 (user_id survivor) (user_id duplicate) ks0 kd0 A (insert (role_key role) B) C"])
      (use assms in \<open>auto intro: moving_owned_add_role moving_owned_progress
        intro!: moving_owned_fewer [OF moving_owned_remove_role]\<close>)
qed

lemma hoare_move_group:
  assumes "user_id survivor \<noteq> user_id duplicate" and "group_id g \<in> kc_groups kd0"
  shows "hoareA
    (sat winv view (moving_owned kc_groups owned V0 (user_id survivor) (user_id duplicate) ks0 kd0
       A B (insert (group_id g) C)))
    (move_group svc survivor duplicate i a owned g acc)
    (\<lambda>_. sat winv view (moving_owned kc_groups owned V0 (user_id survivor) (user_id duplicate) ks0 kd0 A B C))
    (\<lambda>_. sat winv view (merge_progress V0 (user_id survivor) (user_id duplicate) ks0 kd0))"
proof (cases "group_id g \<in> set owned")
  case True
  then show ?thesis
    unfolding move_group_def Let_def split_def if_P [OF True]
    by (intro hoare_take [OF remove_group])
      (use assms in \<open>auto intro: moving_owned_remove_group moving_owned_progress\<close>)
next
  case False
  show ?thesis
    unfolding move_group_def Let_def split_def if_not_P [OF False]
    by (intro hoare_give_take [OF add_group remove_group, where P' = "moving_owned kc_groups
        (group_id g # owned) V0 (user_id survivor) (user_id duplicate) ks0 kd0 A B (insert (group_id g) C)"])
      (use assms in \<open>auto intro: moving_owned_add_group moving_owned_progress
        intro!: moving_owned_fewer [OF moving_owned_remove_group]\<close>)
qed

lemma hoare_move_roles:
  assumes ne: "user_id survivor \<noteq> user_id duplicate"
  shows "hoareA
    (sat winv view (moving V0 (user_id survivor) (user_id duplicate) ks0 kd0 A B C))
    (move_role_mappings svc survivor duplicate i a cs)
    (\<lambda>_. sat winv view (moving V0 (user_id survivor) (user_id duplicate) ks0 kd0 A {} C))
    (\<lambda>_. sat winv view (merge_progress V0 (user_id survivor) (user_id duplicate) ks0 kd0))"
  unfolding move_role_mappings_def
proof (rule hoare_read_both [OF list_roles list_roles])
  fix V owned roles
  assume "moving V0 (user_id survivor) (user_id duplicate) ks0 kd0 A B C V"
    "\<forall>k. V (user_id survivor) = Some k \<longrightarrow> role_key ` set owned = kc_roles k"
    "\<forall>k. V (user_id duplicate) = Some k \<longrightarrow> role_key ` set roles = kc_roles k"
  then show "moving_owned kc_roles (map role_key owned) V0 (user_id survivor) (user_id duplicate)
      ks0 kd0 A (role_key ` set roles) C V \<and> role_key ` set roles \<subseteq> kc_roles kd0"
    using ne by (intro moving_read_roles) auto
next
  fix owned roles assume sub: "role_key ` set roles \<subseteq> kc_roles kd0"
  show "hoareA (sat winv view (moving_owned kc_roles (map role_key owned) V0 (user_id survivor)
      (user_id duplicate) ks0 kd0 A (role_key ` set roles) C))
    (foldA (move_role svc survivor duplicate i a (map role_key owned)) roles ([], cs))
    (\<lambda>_. sat winv view (moving V0 (user_id survivor) (user_id duplicate) ks0 kd0 A {} C))
    (\<lambda>_. sat winv view (merge_progress V0 (user_id survivor) (user_id duplicate) ks0 kd0))"
    by (rule hoareA_conseq [OF hoare_fold_items [where key = role_key and
          M = "\<lambda>B. moving_owned kc_roles (map role_key owned) V0 (user_id survivor) (user_id duplicate) ks0 kd0 A B C",
          OF hoare_move_role [OF ne]]])
      (use sub in \<open>auto simp: sat_def dest: moving_ownedD\<close>)
qed (rule moving_progress)

lemma hoare_move_groups:
  assumes ne: "user_id survivor \<noteq> user_id duplicate"
  shows "hoareA
    (sat winv view (moving V0 (user_id survivor) (user_id duplicate) ks0 kd0 A B C))
    (move_group_memberships svc survivor duplicate i a cs)
    (\<lambda>_. sat winv view (moving V0 (user_id survivor) (user_id duplicate) ks0 kd0 A B {}))
    (\<lambda>_. sat winv view (merge_progress V0 (user_id survivor) (user_id duplicate) ks0 kd0))"
  unfolding move_group_memberships_def
proof (rule hoare_read_both [OF list_groups list_groups])
  fix V and owned groups :: "group_membership list"
  assume "moving V0 (user_id survivor) (user_id duplicate) ks0 kd0 A B C V"
    "\<forall>k. V (user_id survivor) = Some k \<longrightarrow> group_id ` set owned = kc_groups k"
    "\<forall>k. V (user_id duplicate) = Some k \<longrightarrow> group_id ` set groups = kc_groups k"
  then show "moving_owned kc_groups (map group_id owned) V0 (user_id survivor) (user_id duplicate)
      ks0 kd0 A B (group_id ` set groups) V \<and> group_id ` set groups \<subseteq> kc_groups kd0"
    using ne by (intro moving_read_groups) auto
next
  fix owned groups :: "group_membership list" assume sub: "group_id ` set groups \<subseteq> kc_groups kd0"
  show "hoareA (sat winv view (moving_owned kc_groups (map group_id owned) V0 (user_id survivor)
      (user_id duplicate) ks0 kd0 A B (group_id ` set groups)))
    (foldA (move_group svc survivor duplicate i a (map group_id owned)) groups ([], cs))
    (\<lambda>_. sat winv view (moving V0 (user_id survivor) (user_id duplicate) ks0 kd0 A B {}))
    (\<lambda>_. sat winv view (merge_progress V0 (user_id survivor) (user_id duplicate) ks0 kd0))"
    by (rule hoareA_conseq [OF hoare_fold_items [where key = group_id and
          M = "moving_owned kc_groups (map group_id owned) V0 (user_id survivor) (user_id duplicate) ks0 kd0 A B",
          OF hoare_move_group [OF ne]]])
      (use sub in \<open>auto simp: sat_def dest: moving_ownedD\<close>)
qed (rule moving_progress)

lemma hoare_tombstone:
  assumes ne: "user_id survivor \<noteq> user_id duplicate"
    and V0: "V0 (user_id survivor) = Some ks0" "V0 (user_id duplicate) = Some kd0"
  shows "hoareA
    (sat winv view (moving V0 (user_id survivor) (user_id duplicate) ks0 kd0 {} {} {}))
    (tombstone svc duplicate survivor i a)
    (\<lambda>_. sat winv view (\<lambda>V. V = merge_spec (user_id survivor) (user_id duplicate) ks0 kd0 V0))
    (\<lambda>_. sat winv view (merge_progress V0 (user_id survivor) (user_id duplicate) ks0 kd0))"
  unfolding tombstone_def
proof (rule hoareA_bind [OF hoare_change [OF set_attribute]])
  let ?P = "\<lambda>V. merge_progress V0 (user_id survivor) (user_id duplicate) ks0 kd0 V \<and>
    change_user (user_id duplicate) (kc_enabled_update (\<lambda>_. False)) V
      = merge_spec (user_id survivor) (user_id duplicate) ks0 kd0 V0"
  fix V assume "moving V0 (user_id survivor) (user_id duplicate) ks0 kd0 {} {} {} V"
  then show "?P (change_user (user_id duplicate)
      (kc_attrs_update (\<lambda>m. m(TOMBSTONE_ATTRIBUTE_KEY \<mapsto> user_id survivor))) V)"
    using moving_tombstone [OF _ ne] by (simp add: mark_duplicate_def)
next
  show "hoareA (sat winv view (\<lambda>V. merge_progress V0 (user_id survivor) (user_id duplicate) ks0 kd0 V \<and>
      change_user (user_id duplicate) (kc_enabled_update (\<lambda>_. False)) V
        = merge_spec (user_id survivor) (user_id duplicate) ks0 kd0 V0))
    (bindA (kcA (api_deactivate_user (api_of svc) (user_id duplicate))) (\<lambda>_.
       emitA svc i ''duplicate_tombstoned'' a (user_id survivor) (user_id duplicate)
         [(''attribute_key'', JStr TOMBSTONE_ATTRIBUTE_KEY)]))
    (\<lambda>_. sat winv view (\<lambda>V. V = merge_spec (user_id survivor) (user_id duplicate) ks0 kd0 V0))
    (\<lambda>_. sat winv view (merge_progress V0 (user_id survivor) (user_id duplicate) ks0 kd0))"
    by (rule hoareA_bind [OF hoare_change [OF deactivate] hoare_emit])
      (auto simp: merge_spec_progress [OF V0])
qed (auto intro: moving_progress)

lemma hoare_merge_writes:
  assumes ne: "user_id survivor \<noteq> user_id duplicate"
    and V0: "V0 (user_id survivor) = Some ks0" "V0 (user_id duplicate) = Some kd0"
    and links: "link_key ` set (federated_identities survivor) = kc_links ks0"
      "link_key ` set (federated_identities duplicate) = kc_links kd0"
    and inj: "inj_on fst (kc_links kd0)"
  shows "hoareA (sat winv view (\<lambda>V. V = V0))
    (merge_writes svc request survivor duplicate decision i)
    (\<lambda>_. sat winv view (\<lambda>V. V = merge_spec (user_id survivor) (user_id duplicate) ks0 kd0 V0))
    (\<lambda>_. sat winv view (merge_progress V0 (user_id survivor) (user_id duplicate) ks0 kd0))"
proof -
  have start: "moving V0 (user_id survivor) (user_id duplicate) ks0 kd0 (kc_links kd0) UNIV UNIV V0"
    using V0 ne by (rule moving_start)
  have "hoareA
    (sat winv view (moving V0 (user_id survivor) (user_id duplicate) ks0 kd0 (kc_links kd0) UNIV UNIV))
    (merge_writes svc request survivor duplicate decision i)
    (\<lambda>_. sat winv view (\<lambda>V. V = merge_spec (user_id survivor) (user_id duplicate) ks0 kd0 V0))
    (\<lambda>_. sat winv view (merge_progress V0 (user_id survivor) (user_id duplicate) ks0 kd0))"
    unfolding merge_writes_def split_def
    by (intro hoareA_bind [OF hoare_emit] hoareA_bind [OF hoare_move_links [OF ne links inj]]
      hoareA_bind [OF hoare_move_roles [OF ne]] hoareA_bind [OF hoare_move_groups [OF ne]]
      hoareA_bind [OF hoare_tombstone [OF ne V0]] hoareA_return)
  then show ?thesis
    by (rule hoareA_conseq) (use start in \<open>auto simp: sat_def\<close>)
qed

lemma hoare_load_user:
  assumes "\<And>V. P V \<Longrightarrow> R V"
  shows "hoareA (sat winv view P) (load_user svc u)
    (\<lambda>x. sat winv view (\<lambda>V. P V \<and> user_id x = u \<and> (\<exists>k. V u = Some k \<and> reports_user x k)))
    (\<lambda>_. sat winv view R)"
  unfolding load_user_def
proof (rule hoareA_catch [OF hoare_read [where R = R, OF get_user]])
  fix e
  show "hoareA (sat winv view R)
    (case e of KeyError x \<Rightarrow> raiseA (UserNotFoundError u) | _ \<Rightarrow> raiseA e)
    (\<lambda>x. sat winv view (\<lambda>V. P V \<and> user_id x = u \<and> (\<exists>k. V u = Some k \<and> reports_user x k)))
    (\<lambda>_. sat winv view R)"
    by (cases e) (simp_all only: exn.case, (rule hoareA_raise, assumption)+)
qed (rule assms)

lemma hoare_merge_decided:
  assumes ne: "s \<noteq> d" and ld: "loaded V0 s d x y" and inj: "\<And>kd. V0 d = Some kd \<Longrightarrow> inj_on fst (kc_links kd)"
  shows "hoareA (sat winv view (\<lambda>V. V = V0))
    (bindA (liftA (merge_decision x y (explicit_link request))) (\<lambda>decision.
       bindA correlationA (\<lambda>i. merge_writes svc request x y decision i)))
    (\<lambda>_. sat winv view (merge_returned V0 s d (explicit_link request)))
    (\<lambda>_. sat winv view (merge_raised V0 s d (explicit_link request)))"
proof -
  from ld obtain ks kd where ids: "user_id x = s" "user_id y = d" and V0: "V0 s = Some ks" "V0 d = Some kd"
    and rep: "reports_user x ks" "reports_user y kd"
    and links: "link_key ` set (federated_identities x) = kc_links ks"
      "link_key ` set (federated_identities y) = kc_links kd"
    unfolding loaded_def by blast
  note writes = hoare_merge_writes [of x y V0 ks kd, unfolded ids, OF ne V0 links inj [OF V0(2)]]
  show ?thesis
  proof (cases "merge_decision x y (explicit_link request)")
    case (Inl e)
    then show ?thesis by (auto simp: hoareA_def bindA_def sat_def merge_raised_def)
  next
    case (Inr decision)
    then have "may_merge ks kd (explicit_link request)"
      using merge_decision_policy [OF rep links, of "explicit_link request"] by simp
    then have "hoareA (sat winv view (\<lambda>V. V = V0))
      (bindA correlationA (\<lambda>i. merge_writes svc request x y decision i))
      (\<lambda>_. sat winv view (merge_returned V0 s d (explicit_link request)))
      (\<lambda>_. sat winv view (merge_raised V0 s d (explicit_link request)))"
      using V0 by (intro hoareA_bind [OF hoare_correlation] hoareA_conseq [OF writes])
        (auto simp: sat_def merge_returned_def merge_raised_def)
    then show ?thesis
      unfolding Inr by (simp add: hoareA_def)
  qed
qed

lemma hoare_merge_locked:
  assumes ne: "req_survivor_user_id request \<noteq> req_duplicate_user_id request"
    and inj: "\<And>kd. V0 (req_duplicate_user_id request) = Some kd \<Longrightarrow> inj_on fst (kc_links kd)"
  shows "hoareA (sat winv view (\<lambda>V. V = V0)) (merge_accounts_locked svc request)
    (\<lambda>_. sat winv view (merge_returned V0 (req_survivor_user_id request) (req_duplicate_user_id request)
       (explicit_link request)))
    (\<lambda>_. sat winv view (merge_raised V0 (req_survivor_user_id request) (req_duplicate_user_id request)
       (explicit_link request)))"
  unfolding merge_accounts_locked_def Let_def
proof (intro hoareA_bind [OF hoare_load_user] hoareA_bind [OF hoare_read [OF list_links]])
  fix x y :: user_account and xs ys
  let ?s = "req_survivor_user_id request" and ?d = "req_duplicate_user_id request"
  let ?x = "x\<lparr>federated_identities := xs\<rparr>" and ?y = "y\<lparr>federated_identities := ys\<rparr>"
  let ?P = "\<lambda>V. (((V = V0 \<and> user_id x = ?s \<and> (\<exists>k. V ?s = Some k \<and> reports_user x k)) \<and>
    user_id y = ?d \<and> (\<exists>k. V ?d = Some k \<and> reports_user y k)) \<and>
    (\<forall>k. V (user_id x) = Some k \<longrightarrow> link_key ` set xs = kc_links k)) \<and>
    (\<forall>k. V (user_id y) = Some k \<longrightarrow> link_key ` set ys = kc_links k)"
  have P: "V = V0 \<and> loaded V0 ?s ?d ?x ?y" if "?P V" for V
    using that by (auto simp: loaded_def reports_user_def)
  show "hoareA (sat winv view ?P)
    (bindA (liftA (merge_decision ?x ?y (explicit_link request))) (\<lambda>decision.
       bindA correlationA (\<lambda>i. merge_writes svc request ?x ?y decision i)))
    (\<lambda>_. sat winv view (merge_returned V0 ?s ?d (explicit_link request)))
    (\<lambda>_. sat winv view (merge_raised V0 ?s ?d (explicit_link request)))"
  proof (rule hoareA_pure [where b = "loaded V0 ?s ?d ?x ?y"])
    assume "loaded V0 ?s ?d ?x ?y"
    from hoare_merge_decided [OF ne this inj] show "hoareA (sat winv view ?P)
      (bindA (liftA (merge_decision ?x ?y (explicit_link request))) (\<lambda>decision.
         bindA correlationA (\<lambda>i. merge_writes svc request ?x ?y decision i)))
      (\<lambda>_. sat winv view (merge_returned V0 ?s ?d (explicit_link request)))
      (\<lambda>_. sat winv view (merge_raised V0 ?s ?d (explicit_link request)))"
      by (rule hoareA_conseq) (use P in \<open>auto simp: sat_def\<close>)
  qed (use P in \<open>auto simp: sat_def\<close>)
qed (auto simp: merge_raised_def)

lemma merge_accounts_view:
  assumes "merge_accounts svc request \<sigma> = (r, \<tau>)" and "winv (kc \<sigma>)"
    and "\<And>kd. view (kc \<sigma>) (req_duplicate_user_id request) = Some kd \<Longrightarrow> inj_on fst (kc_links kd)"
  shows "winv (kc \<tau>) \<and>
    (if okR r then merge_returned else merge_raised) (view (kc \<sigma>)) (req_survivor_user_id request)
      (req_duplicate_user_id request) (explicit_link request) (view (kc \<tau>))"
proof (cases "req_survivor_user_id request = req_duplicate_user_id request")
  case True
  with assms(1,2) show ?thesis by (auto simp: merge_accounts_def merge_raised_def)
next
  case False
  with assms(1) have "hold (locks_of svc) lock_db lock_db_update
      [req_survivor_user_id request, req_duplicate_user_id request]
      (merge_accounts_locked svc request) \<sigma> = (r, \<tau>)"
    by (simp add: merge_accounts_def)
  then show ?thesis
  proof (cases rule: hold_cases)
    case (refused e l)
    with assms(2) show ?thesis by (auto simp: merge_raised_def)
  next
    case (ran token l t')
    let ?\<sigma> = "\<sigma>\<lparr>lock_db := l\<rparr>"
    have "sat winv view (\<lambda>V. V = view (kc \<sigma>)) ?\<sigma>" using assms(2) by (simp add: sat_def)
    from hoareA_Inr [OF hoare_merge_locked [OF False assms(3)] this]
      hoareA_Inl [OF hoare_merge_locked [OF False assms(3)] this]
    show ?thesis using ran(2,3) by (cases r) (auto simp: sat_def)
  qed
qed

lemma merge_accounts_ids:
  assumes "merge_accounts svc request \<sigma> = (Inr res, \<tau>)"
  shows "req_survivor_user_id request \<noteq> []" "req_duplicate_user_id request \<noteq> []"
proof -
  have "hold (locks_of svc) lock_db lock_db_update
      [req_survivor_user_id request, req_duplicate_user_id request]
      (merge_accounts_locked svc request) \<sigma> = (Inr res, \<tau>)"
    using assms by (auto simp: merge_accounts_def split: if_splits)
  then have "okR (normalise_user_ids [req_survivor_user_id request, req_duplicate_user_id request])"
    by (cases rule: hold_cases) (auto dest: acquire_ids)
  then show "req_survivor_user_id request \<noteq> []" "req_duplicate_user_id request \<noteq> []"
    by (auto simp: okR_iff normalise_user_ids_ok)
qed

end

end
