(* ===== verification/Merge_Total.thy ===== *)
theory Merge_Total
  imports Merge
begin

text \<open>
  A merge that the policy allows finishes: if the two users exist, the admin API answers and the
  lock can be taken, \<open>merge_accounts\<close> returns a result.
\<close>

definition present :: "string \<Rightarrow> string \<Rightarrow> kc_view \<Rightarrow> bool" where
  "present s d V \<longleftrightarrow> V s \<noteq> None \<and> V d \<noteq> None"

text \<open>An action that returns as long as both users exist, and keeps them.\<close>

definition live ::
  "('w \<Rightarrow> bool) \<Rightarrow> ('w \<Rightarrow> kc_view) \<Rightarrow> string \<Rightarrow> string \<Rightarrow> ('w, 'k, 'l, 'a) svc_action \<Rightarrow> bool" where
  "live winv view s d m \<longleftrightarrow>
     hoareA (sat winv view (present s d)) m (\<lambda>_. sat winv view (present s d)) (\<lambda>_ _. False)"

named_theorems live_rules \<open>actions that return\<close>

lemma live_bind [live_rules]:
  "live winv view s d m \<Longrightarrow> (\<And>x. live winv view s d (f x)) \<Longrightarrow> live winv view s d (bindA m f)"
  unfolding live_def by (rule hoareA_bind)

lemma live_if [live_rules]:
  "live winv view s d m \<Longrightarrow> live winv view s d m' \<Longrightarrow> live winv view s d (if c then m else m')"
  by simp

lemma live_return [live_rules]: "live winv view s d (returnA x)"
  unfolding live_def by (rule hoareA_return)

lemma live_fold [live_rules]: "(\<And>x acc. live winv view s d (f x acc)) \<Longrightarrow> live winv view s d (foldA f xs acc)"
  unfolding live_def by (rule hoareA_fold [where I = "\<lambda>_ _. sat winv view (present s d)"])

lemma live_emit [live_rules]: "live winv view s d (emitA svc i ty a x y p)"
  unfolding live_def by (rule hoare_emit)

lemma live_correlation [live_rules]: "live winv view s d correlationA"
  unfolding live_def by (rule hoare_correlation)

lemma answersD: "answers winv view act u \<Longrightarrow> winv w \<Longrightarrow> view w u \<noteq> None \<Longrightarrow> act w \<noteq> (Inl e, w')"
  by (fastforce simp: answers_def)

lemma live_read:
  assumes "reads_only winv view act T" and "answers winv view act u" and "u = s \<or> u = d"
  shows "live winv view s d (kcA act)"
  unfolding live_def
proof (intro hoareAI; elim kcA_cases)
  fix \<sigma> \<tau> x w assume "sat winv view (present s d) \<sigma>" "act (kc \<sigma>) = (Inr x, w)" "\<tau> = \<sigma>\<lparr>kc := w\<rparr>"
  then show "sat winv view (present s d) \<tau>"
    using reads_onlyD(1,2) [OF assms(1), of "kc \<sigma>" "Inr x" w] by (auto simp: sat_def)
next
  fix \<sigma> \<tau> e w assume "sat winv view (present s d) \<sigma>" "act (kc \<sigma>) = (Inl e, w)"
  then show False
    using answersD [OF assms(2), of "kc \<sigma>" e w] assms(3) by (auto simp: sat_def present_def)
qed

lemma live_change:
  assumes "changes_user winv view act u f" and "answers winv view act u" and "u = s \<or> u = d"
  shows "live winv view s d (kcA act)"
  unfolding live_def
proof (intro hoareAI; elim kcA_cases)
  fix \<sigma> \<tau> x w assume "sat winv view (present s d) \<sigma>" "act (kc \<sigma>) = (Inr x, w)" "\<tau> = \<sigma>\<lparr>kc := w\<rparr>"
  then show "sat winv view (present s d) \<tau>"
    using changes_userD(1,3) [OF assms(1), of "kc \<sigma>" "Inr ()" w]
    by (auto simp: sat_def present_def change_user_def)
next
  fix \<sigma> \<tau> e w assume "sat winv view (present s d) \<sigma>" "act (kc \<sigma>) = (Inl e, w)"
  then show False
    using answersD [OF assms(2), of "kc \<sigma>" e w] assms(3) by (auto simp: sat_def present_def)
qed

lemma hoare_read_total:
  fixes R :: "exn \<Rightarrow> ('w, 'k, 'l) svc_state \<Rightarrow> bool"
  assumes "reads_only winv view act T" and "answers winv view act u" and "\<And>V. P V \<Longrightarrow> V u \<noteq> None"
  shows "hoareA (sat winv view P) (kcA act) (\<lambda>x. sat winv view (\<lambda>V. P V \<and> T V x)) R"
proof (rule hoareAI)
  fix \<sigma> \<tau> :: "('w, 'k, 'l) svc_state" and x
  assume "sat winv view P \<sigma>" "kcA act \<sigma> = (Inr x, \<tau>)"
  then show "sat winv view (\<lambda>V. P V \<and> T V x) \<tau>"
    by (rule hoareA_Inr [OF hoare_read [where R = "\<lambda>_. True", OF assms(1)], rotated]) simp
next
  fix \<sigma> \<tau> :: "('w, 'k, 'l) svc_state" and e
  assume "sat winv view P \<sigma>" "kcA act \<sigma> = (Inl e, \<tau>)"
  then show "R e \<tau>"
    using answersD [OF assms(2), of "kc \<sigma>" e] assms(3) by (auto simp: sat_def elim!: kcA_cases)
qed

text \<open>Which guard refuses, in terms of what Keycloak holds.\<close>

definition refusal_of :: "kc_user \<Rightarrow> kc_user \<Rightarrow> exn \<Rightarrow> bool" where
  "refusal_of ks kd e = (case e of
      InactiveAccountError _ \<Rightarrow> \<not> (kc_enabled ks \<and> kc_enabled kd)
    | UnverifiedEmailMergeError _ \<Rightarrow> kc_enabled ks \<and> kc_enabled kd \<and> same_email (kc_email ks) (kc_email kd)
    | NoMatchError _ \<Rightarrow> kc_enabled ks \<and> kc_enabled kd \<and> \<not> same_email (kc_email ks) (kc_email kd)
    | _ \<Rightarrow> False)"

lemma merge_decision_refusal:
  assumes "reports_user a ks" and "reports_user b kd" and "merge_decision a b x = Inl e"
  shows "refusal_of ks kd e"
  using assms unfolding merge_decision_cases
  by (auto simp: refusal_of_def reports_user_def active_states_def split: if_splits)

locale available_unification =
  unification svc view winv events_for trail sink_inv held +
  keycloak_available "api_of svc" view winv
  for svc :: "('w, 'k, 'l) service" and view winv events_for trail sink_inv held
begin

lemmas live_reads =
  live_read [OF list_roles list_roles_answers] live_read [OF list_groups list_groups_answers]

lemmas live_writes =
  live_change [OF add_link add_link_answers] live_change [OF remove_link remove_link_answers]
  live_change [OF add_role add_role_answers] live_change [OF remove_role remove_role_answers]
  live_change [OF add_group add_group_answers] live_change [OF remove_group remove_group_answers]
  live_change [OF deactivate deactivate_answers] live_change [OF set_attribute set_attribute_answers]

lemma live_merge_writes:
  "live winv view (user_id x) (user_id y) (merge_writes svc request x y decision i)"
  unfolding merge_writes_def move_federated_identities_def move_role_mappings_def
    move_group_memberships_def move_link_def move_role_def move_group_def tombstone_def
    Let_def split_def
  by (intro live_rules live_reads live_writes) simp_all

lemma hoare_load_total:
  assumes "\<And>V. P V \<Longrightarrow> V u \<noteq> None"
  shows "hoareA (sat winv view P) (load_user svc u)
    (\<lambda>x. sat winv view (\<lambda>V. P V \<and> user_id x = u \<and> (\<exists>k. V u = Some k \<and> reports_user x k))) R"
  unfolding load_user_def
  by (rule hoareA_catch [OF hoare_read_total [where R = "\<lambda>_ _. False", OF get_user get_user_answers]])
    (use assms in \<open>auto simp: hoareA_def\<close>)

lemma locked_returns:
  assumes V0: "V0 (req_survivor_user_id request) = Some ks" "V0 (req_duplicate_user_id request) = Some kd"
    and may: "may_merge ks kd (explicit_link request)"
  shows "hoareA (sat winv view (\<lambda>V. V = V0)) (merge_accounts_locked svc request) (\<lambda>_ _. True) (\<lambda>_ _. False)"
  unfolding merge_accounts_locked_def Let_def
proof (intro hoareA_bind [OF hoare_load_total]
    hoareA_bind [OF hoare_read_total [OF list_links list_links_answers]])
  fix x y :: user_account and xs ys
  let ?s = "req_survivor_user_id request" and ?d = "req_duplicate_user_id request"
  let ?x = "x\<lparr>federated_identities := xs\<rparr>" and ?y = "y\<lparr>federated_identities := ys\<rparr>"
  let ?P = "\<lambda>V. (((V = V0 \<and> user_id x = ?s \<and> (\<exists>k. V ?s = Some k \<and> reports_user x k)) \<and>
    user_id y = ?d \<and> (\<exists>k. V ?d = Some k \<and> reports_user y k)) \<and>
    (\<forall>k. V (user_id x) = Some k \<longrightarrow> link_key ` set xs = kc_links k)) \<and>
    (\<forall>k. V (user_id y) = Some k \<longrightarrow> link_key ` set ys = kc_links k)"
  let ?rest = "bindA (liftA (merge_decision ?x ?y (explicit_link request))) (\<lambda>decision.
    bindA correlationA (\<lambda>i. merge_writes svc request ?x ?y decision i))"
  show "hoareA (sat winv view ?P) ?rest (\<lambda>_ _. True) (\<lambda>_ _. False)"
  proof (rule hoareA_pure [where b = "?P V0"])
    assume P: "?P V0"
    then have "okR (merge_decision ?x ?y (explicit_link request))"
      using merge_decision_policy [of ?x ks ?y kd "explicit_link request"] V0 may
      by (auto simp: reports_user_def)
    then obtain decision where "merge_decision ?x ?y (explicit_link request) = Inr decision"
      by (auto simp: okR_iff)
    moreover have "live winv view (user_id ?x) (user_id ?y)
        (bindA correlationA (\<lambda>i. merge_writes svc request ?x ?y decision i))"
      by (intro live_rules live_merge_writes)
    ultimately have "hoareA (sat winv view (present ?s ?d)) ?rest
        (\<lambda>_. sat winv view (present ?s ?d)) (\<lambda>_ _. False)"
      using P by (simp add: live_def hoareA_def)
    then show "hoareA (sat winv view ?P) ?rest (\<lambda>_ _. True) (\<lambda>_ _. False)"
      by (rule hoareA_conseq) (use V0 in \<open>auto simp: sat_def present_def\<close>)
  qed (auto simp: sat_def)
qed (use V0 in auto)

lemma merge_accounts_returns:
  assumes "winv (kc \<sigma>)" and "view (kc \<sigma>) (req_survivor_user_id request) = Some ks"
    "view (kc \<sigma>) (req_duplicate_user_id request) = Some kd"
    and "may_merge ks kd (explicit_link request)"
    and ne: "req_survivor_user_id request \<noteq> req_duplicate_user_id request"
    and lock: "lk_acquire (locks_of svc) [req_survivor_user_id request, req_duplicate_user_id request]
      (lock_db \<sigma>) = (Inr token, l)"
  shows "\<exists>res \<tau>. merge_accounts svc request \<sigma> = (Inr res, \<tau>)"
proof -
  obtain r \<tau> where run: "merge_accounts_locked svc request (\<sigma>\<lparr>lock_db := l\<rparr>) = (r, \<tau>)"
    by (cases "merge_accounts_locked svc request (\<sigma>\<lparr>lock_db := l\<rparr>)")
  have "sat winv view (\<lambda>V. V = view (kc \<sigma>)) (\<sigma>\<lparr>lock_db := l\<rparr>)" using assms(1) by (simp add: sat_def)
  from hoareA_Inl [OF locked_returns [OF assms(2-4)] this] run obtain res where "r = Inr res"
    by (cases r) auto
  with run lock ne show ?thesis
    by (simp add: merge_accounts_def hold_def)
qed

text \<open>With both users present and the API answering, a refusal is raised by the guard that applies.\<close>

lemma locked_refuses:
  assumes V0: "V0 (req_survivor_user_id request) = Some ks" "V0 (req_duplicate_user_id request) = Some kd"
    and may: "\<not> may_merge ks kd (explicit_link request)"
  shows "hoareA (sat winv view (\<lambda>V. V = V0)) (merge_accounts_locked svc request) (\<lambda>_ _. False)
    (\<lambda>e _. refusal_of ks kd e)"
  unfolding merge_accounts_locked_def Let_def
proof (intro hoareA_bind [OF hoare_load_total]
    hoareA_bind [OF hoare_read_total [OF list_links list_links_answers]])
  fix x y :: user_account and xs ys
  let ?s = "req_survivor_user_id request" and ?d = "req_duplicate_user_id request"
  let ?x = "x\<lparr>federated_identities := xs\<rparr>" and ?y = "y\<lparr>federated_identities := ys\<rparr>"
  let ?P = "\<lambda>V. (((V = V0 \<and> user_id x = ?s \<and> (\<exists>k. V ?s = Some k \<and> reports_user x k)) \<and>
    user_id y = ?d \<and> (\<exists>k. V ?d = Some k \<and> reports_user y k)) \<and>
    (\<forall>k. V (user_id x) = Some k \<longrightarrow> link_key ` set xs = kc_links k)) \<and>
    (\<forall>k. V (user_id y) = Some k \<longrightarrow> link_key ` set ys = kc_links k)"
  let ?rest = "bindA (liftA (merge_decision ?x ?y (explicit_link request))) (\<lambda>decision.
    bindA correlationA (\<lambda>i. merge_writes svc request ?x ?y decision i))"
  show "hoareA (sat winv view ?P) ?rest (\<lambda>_ _. False) (\<lambda>e _. refusal_of ks kd e)"
  proof (rule hoareA_pure [where b = "?P V0"])
    assume "?P V0"
    then have rep: "reports_user ?x ks" "reports_user ?y kd"
      "link_key ` set (federated_identities ?x) = kc_links ks"
      "link_key ` set (federated_identities ?y) = kc_links kd"
      using V0 by (auto simp: reports_user_def)
    then obtain e where e: "merge_decision ?x ?y (explicit_link request) = Inl e"
      using merge_decision_policy [OF rep, of "explicit_link request"] may
      by (cases "merge_decision ?x ?y (explicit_link request)") auto
    then have "refusal_of ks kd e"
      using rep by (intro merge_decision_refusal [OF rep(1,2) e])
    with e show "hoareA (sat winv view ?P) ?rest (\<lambda>_ _. False) (\<lambda>e _. refusal_of ks kd e)"
      by (simp add: hoareA_def)
  qed (auto simp: sat_def)
qed (use V0 in auto)

lemma merge_accounts_refusal:
  assumes "winv (kc \<sigma>)" and "view (kc \<sigma>) (req_survivor_user_id request) = Some ks"
    "view (kc \<sigma>) (req_duplicate_user_id request) = Some kd"
    and "\<not> may_merge ks kd (explicit_link request)"
    and ne: "req_survivor_user_id request \<noteq> req_duplicate_user_id request"
    and lock: "lk_acquire (locks_of svc) [req_survivor_user_id request, req_duplicate_user_id request]
      (lock_db \<sigma>) = (Inr token, l)"
  shows "\<exists>e \<tau>. merge_accounts svc request \<sigma> = (Inl e, \<tau>) \<and> refusal_of ks kd e"
proof -
  obtain r \<tau> where run: "merge_accounts_locked svc request (\<sigma>\<lparr>lock_db := l\<rparr>) = (r, \<tau>)"
    by (cases "merge_accounts_locked svc request (\<sigma>\<lparr>lock_db := l\<rparr>)")
  have st: "sat winv view (\<lambda>V. V = view (kc \<sigma>)) (\<sigma>\<lparr>lock_db := l\<rparr>)" using assms(1) by (simp add: sat_def)
  from hoareA_Inr [OF locked_refuses [OF assms(2-4)] st] hoareA_Inl [OF locked_refuses [OF assms(2-4)] st] run
  obtain e where "r = Inl e" "refusal_of ks kd e" by (cases r) auto
  with run lock ne show ?thesis
    by (simp add: merge_accounts_def hold_def)
qed

end

end
