(* ===== verification/Merge_Audit.thy ===== *)
theory Merge_Audit
  imports Merge
begin

text \<open>
  What a merge leaves in the audit trail. A run that returns has appended one \<open>merge_started\<close>
  event, one event per link, role and group it met, the tombstone event and \<open>merge_completed\<close>,
  all under the correlation id it returns; a run that raises has appended a part of that and
  never \<open>merge_completed\<close>; a run that a guard stopped has appended nothing.
\<close>

definition merge_event :: "string \<Rightarrow> string \<Rightarrow> string \<Rightarrow> string \<Rightarrow> audit_event \<Rightarrow> bool" where
  "merge_event i a s d e \<longleftrightarrow> ev_audit_id e = i \<and> ev_actor e = a \<and>
     ev_survivor_user_id e = Some s \<and> ev_duplicate_user_id e = Some d"

text \<open>The trail has grown by events of the given types, all of this merge.\<close>

definition grown ::
  "('k \<Rightarrow> bool) \<Rightarrow> ('k \<Rightarrow> audit_event list) \<Rightarrow> audit_event list \<Rightarrow> string \<Rightarrow> string \<Rightarrow> string
     \<Rightarrow> string \<Rightarrow> string list \<Rightarrow> ('w, 'k, 'l) svc_state \<Rightarrow> bool" where
  "grown sink_inv trail t0 i a s d tys \<sigma> \<longleftrightarrow> sink_inv (sink \<sigma>) \<and>
     (\<exists>es. trail (sink \<sigma>) = t0 @ es \<and> map ev_event_type es = tys \<and> (\<forall>e\<in>set es. merge_event i a s d e))"

text \<open>The types that a run which raised may have logged.\<close>

definition partial_log :: "string list \<Rightarrow> bool" where
  "partial_log tys \<longleftrightarrow> (tys = [] \<or> hd tys = ''merge_started'') \<and> ''merge_completed'' \<notin> set tys"

text \<open>What a loop has logged: one event of type \<open>mv\<close> per move, one of type \<open>cf\<close> per conflict.\<close>

definition loop_log :: "string \<Rightarrow> string \<Rightarrow> string list \<Rightarrow> 'm list \<Rightarrow> 'c list \<Rightarrow> bool" where
  "loop_log mv cf tys moved conflicts \<longleftrightarrow> set tys \<subseteq> {mv, cf} \<and>
     count_list tys mv = length moved \<and> count_list tys cf = length conflicts"

text \<open>The trail is unchanged; and what it may be after a merge has returned or raised.\<close>

definition quiet :: "('k \<Rightarrow> bool) \<Rightarrow> ('k \<Rightarrow> audit_event list) \<Rightarrow> audit_event list
     \<Rightarrow> ('w, 'k, 'l) svc_state \<Rightarrow> bool" where
  "quiet sink_inv trail t0 \<sigma> \<longleftrightarrow> sink_inv (sink \<sigma>) \<and> trail (sink \<sigma>) = t0"

lemma count_list_snoc: "count_list (xs @ [y]) x = count_list xs x + (if y = x then 1 else 0)"
  by (induction xs) auto

lemma loop_log_moved:
  "mv \<noteq> cf \<Longrightarrow> loop_log mv cf tys moved conflicts \<Longrightarrow> loop_log mv cf (tys @ [mv]) (moved @ [x]) conflicts"
  by (simp add: loop_log_def count_list_snoc)

lemma loop_log_conflict:
  "mv \<noteq> cf \<Longrightarrow> loop_log mv cf tys moved conflicts \<Longrightarrow> loop_log mv cf (tys @ [cf]) moved (conflicts @ [x])"
  by (simp add: loop_log_def count_list_snoc)

lemma hoare_kc_grown: "hoareA (grown sink_inv trail t0 i a s d tys) (kcA m)
    (\<lambda>_. grown sink_inv trail t0 i a s d tys) (\<lambda>_. grown sink_inv trail t0 i a s d tys)"
  by (intro hoareAI) (auto simp: grown_def elim!: kcA_cases)

text \<open>A loop's invariant: after \<open>pre\<close>, the loop's own log \<open>tys\<close> matches its accumulator.\<close>

definition loop_grown ::
  "('k \<Rightarrow> bool) \<Rightarrow> ('k \<Rightarrow> audit_event list) \<Rightarrow> audit_event list \<Rightarrow> string \<Rightarrow> string \<Rightarrow> string
     \<Rightarrow> string \<Rightarrow> string list \<Rightarrow> string \<Rightarrow> string \<Rightarrow> merge_conflict list \<Rightarrow> move_acc
     \<Rightarrow> ('w, 'k, 'l) svc_state \<Rightarrow> bool" where
  "loop_grown sink_inv trail t0 i a s d pre mv cf cs acc \<sigma> \<longleftrightarrow>
     (\<exists>tys new. snd acc = cs @ new \<and> loop_log mv cf tys (fst acc) new \<and>
        grown sink_inv trail t0 i a s d (pre @ tys) \<sigma>)"

definition raised_log ::
  "('k \<Rightarrow> bool) \<Rightarrow> ('k \<Rightarrow> audit_event list) \<Rightarrow> audit_event list \<Rightarrow> string \<Rightarrow> string \<Rightarrow> string
     \<Rightarrow> string \<Rightarrow> ('w, 'k, 'l) svc_state \<Rightarrow> bool" where
  "raised_log sink_inv trail t0 i a s d \<sigma> \<longleftrightarrow>
     (\<exists>tys. partial_log tys \<and> grown sink_inv trail t0 i a s d tys \<sigma>)"

lemma loop_grown_raised:
  assumes "loop_grown sink_inv trail t0 i a s d pre mv cf cs acc \<sigma>"
    and "partial_log pre" "pre \<noteq> []" "mv \<noteq> ''merge_completed''" "cf \<noteq> ''merge_completed''"
  shows "raised_log sink_inv trail t0 i a s d \<sigma>"
proof -
  from assms(1) obtain tys where "set tys \<subseteq> {mv, cf}"
    and g: "grown sink_inv trail t0 i a s d (pre @ tys) \<sigma>"
    by (auto simp: loop_grown_def loop_log_def)
  then have "partial_log (pre @ tys)" using assms(2-5) by (auto simp: partial_log_def)
  with g show ?thesis by (auto simp: raised_log_def)
qed

lemma loop_grown_start:
  "grown sink_inv trail t0 i a s d pre \<sigma> \<Longrightarrow> loop_grown sink_inv trail t0 i a s d pre mv cf cs ([], cs) \<sigma>"
  unfolding loop_grown_def by (intro exI [of _ "[]"]) (simp add: loop_log_def)

lemma hoare_after_loop:
  assumes "\<And>tys new. snd acc = cs @ new \<Longrightarrow> loop_log mv cf tys (fst acc) new \<Longrightarrow>
      hoareA (grown sink_inv trail t0 i a s d (pre @ tys)) m Q R"
  shows "hoareA (loop_grown sink_inv trail t0 i a s d pre mv cf cs acc) m Q R"
  using assms by (intro hoareAI) (auto simp: loop_grown_def dest: hoareA_Inr hoareA_Inl)

lemma partial_log_loop:
  "partial_log pre \<Longrightarrow> pre \<noteq> [] \<Longrightarrow> loop_log mv cf tys ms cs \<Longrightarrow> mv \<noteq> ''merge_completed'' \<Longrightarrow>
     cf \<noteq> ''merge_completed'' \<Longrightarrow> partial_log (pre @ tys) \<and> pre @ tys \<noteq> []"
  by (auto simp: partial_log_def loop_log_def)

lemma partial_log_start: "partial_log [''merge_started'']"
  by (simp add: partial_log_def)

text \<open>The whole log of a merge that returned \<open>res\<close>.\<close>

definition complete_log :: "merge_result \<Rightarrow> string list \<Rightarrow> bool" where
  "complete_log res tys \<longleftrightarrow> (\<exists>L R G cl cr cg.
     tys = [''merge_started''] @ L @ R @ G @ [''duplicate_tombstoned'', ''merge_completed''] \<and>
     loop_log ''federated_identity_moved'' ''federated_identity_conflict'' L
       (moved_federated_identities res) cl \<and>
     loop_log ''role_mapping_moved'' ''role_mapping_conflict'' R (moved_role_mappings res) cr \<and>
     loop_log ''group_membership_moved'' ''group_membership_conflict'' G
       (moved_group_memberships res) cg \<and>
     res_conflicts res = cl @ cr @ cg)"

definition logged_returned ::
  "('k \<Rightarrow> bool) \<Rightarrow> ('k \<Rightarrow> audit_event list) \<Rightarrow> audit_event list \<Rightarrow> merge_request
     \<Rightarrow> string \<Rightarrow> string \<Rightarrow> merge_result \<Rightarrow> ('w, 'k, 'l) svc_state \<Rightarrow> bool" where
  "logged_returned sink_inv trail t0 request s d res \<sigma> \<longleftrightarrow>
     (\<exists>i tys. res_audit_id res = Some i \<and> complete_log res tys \<and>
        grown sink_inv trail t0 i (req_actor request) s d tys \<sigma>)"

definition logged_raised ::
  "('k \<Rightarrow> bool) \<Rightarrow> ('k \<Rightarrow> audit_event list) \<Rightarrow> audit_event list \<Rightarrow> merge_request \<Rightarrow> kc_view
     \<Rightarrow> string \<Rightarrow> string \<Rightarrow> ('w, 'k, 'l) svc_state \<Rightarrow> bool" where
  "logged_raised sink_inv trail t0 request V0 s d \<sigma> \<longleftrightarrow> quiet sink_inv trail t0 \<sigma> \<or>
     (\<exists>ks kd. V0 s = Some ks \<and> V0 d = Some kd \<and> may_merge ks kd (explicit_link request)) \<and>
     (\<exists>i. raised_log sink_inv trail t0 i (req_actor request) s d \<sigma>)"

lemma complete_logI:
  assumes "loop_log ''federated_identity_moved'' ''federated_identity_conflict'' L
      (moved_federated_identities res) cl"
    and "loop_log ''role_mapping_moved'' ''role_mapping_conflict'' R (moved_role_mappings res) cr"
    and "loop_log ''group_membership_moved'' ''group_membership_conflict'' G
      (moved_group_memberships res) cg"
    and "res_conflicts res = cl @ cr @ cg"
  shows "complete_log res
    (''merge_started'' # L @ R @ G @ [''duplicate_tombstoned'', ''merge_completed''])"
  using assms unfolding complete_log_def by (intro exI [of _ L] exI [of _ R] exI [of _ G]) auto

lemma hoare_loop_then:
  assumes "hoareA (grown sink_inv trail t0 i a s d pre) m
      (loop_grown sink_inv trail t0 i a s d pre mv cf cs) (\<lambda>_. raised_log sink_inv trail t0 i a s d)"
    and "partial_log pre" "pre \<noteq> []" "mv \<noteq> ''merge_completed''" "cf \<noteq> ''merge_completed''"
    and "\<And>acc tys new. snd acc = cs @ new \<Longrightarrow> loop_log mv cf tys (fst acc) new \<Longrightarrow>
      partial_log (pre @ tys) \<Longrightarrow> pre @ tys \<noteq> [] \<Longrightarrow>
      hoareA (grown sink_inv trail t0 i a s d (pre @ tys)) (f acc) Q (\<lambda>_. raised_log sink_inv trail t0 i a s d)"
  shows "hoareA (grown sink_inv trail t0 i a s d pre) (bindA m f) Q (\<lambda>_. raised_log sink_inv trail t0 i a s d)"
  using partial_log_loop [OF assms(2,3) _ assms(4,5)]
  by (intro hoareA_bind [OF assms(1)] hoare_after_loop assms(6)) auto

lemma hoare_kc_loop: "hoareA (loop_grown sink_inv trail t0 i a s d pre mv cf cs acc) (kcA m)
    (\<lambda>_. loop_grown sink_inv trail t0 i a s d pre mv cf cs acc)
    (\<lambda>_. loop_grown sink_inv trail t0 i a s d pre mv cf cs acc)"
  by (intro hoareAI) (auto simp: loop_grown_def grown_def elim!: kcA_cases)

context unification
begin

lemma hoare_emit_grown: "hoareA (grown sink_inv trail t0 i a s d tys) (emitA svc i ty a s d p)
    (\<lambda>_. grown sink_inv trail t0 i a s d (tys @ [ty])) R"
proof (intro hoareAI)
  fix \<sigma> x \<tau>
  assume "grown sink_inv trail t0 i a s d tys \<sigma>" "emitA svc i ty a s d p \<sigma> = (Inr x, \<tau>)"
  then show "grown sink_inv trail t0 i a s d (tys @ [ty]) \<tau>"
    by (auto simp: grown_def emitA_run trail_record inv_record merge_event_def mk_event_def)
qed (simp add: emitA_run)

lemma hoare_emit_moved:
  assumes "mv \<noteq> cf"
  shows "hoareA (loop_grown sink_inv trail t0 i a s d pre mv cf cs (moved, conflicts))
    (emitA svc i mv a s d p)
    (\<lambda>_. loop_grown sink_inv trail t0 i a s d pre mv cf cs (moved @ [x], conflicts)) R"
proof (intro hoareAI)
  fix \<sigma> y \<tau>
  assume "loop_grown sink_inv trail t0 i a s d pre mv cf cs (moved, conflicts) \<sigma>"
    and run: "emitA svc i mv a s d p \<sigma> = (Inr y, \<tau>)"
  then obtain tys new where "conflicts = cs @ new" "loop_log mv cf tys moved new"
    and g: "grown sink_inv trail t0 i a s d (pre @ tys) \<sigma>"
    by (auto simp: loop_grown_def)
  with hoareA_Inr [OF hoare_emit_grown g run] loop_log_moved [OF assms, of tys moved new x]
  show "loop_grown sink_inv trail t0 i a s d pre mv cf cs (moved @ [x], conflicts) \<tau>"
    unfolding loop_grown_def by auto
qed (simp add: emitA_run)

lemma hoare_emit_conflict:
  assumes "mv \<noteq> cf"
  shows "hoareA (loop_grown sink_inv trail t0 i a s d pre mv cf cs (moved, conflicts))
    (emitA svc i cf a s d p)
    (\<lambda>_. loop_grown sink_inv trail t0 i a s d pre mv cf cs (moved, conflicts @ [x])) R"
proof (intro hoareAI)
  fix \<sigma> y \<tau>
  assume "loop_grown sink_inv trail t0 i a s d pre mv cf cs (moved, conflicts) \<sigma>"
    and run: "emitA svc i cf a s d p \<sigma> = (Inr y, \<tau>)"
  then obtain tys new where "conflicts = cs @ new" "loop_log mv cf tys moved new"
    and g: "grown sink_inv trail t0 i a s d (pre @ tys) \<sigma>"
    by (auto simp: loop_grown_def)
  with hoareA_Inr [OF hoare_emit_grown g run] loop_log_conflict [OF assms, of tys moved new x]
  show "loop_grown sink_inv trail t0 i a s d pre mv cf cs (moved, conflicts @ [x]) \<tau>"
    unfolding loop_grown_def by auto
qed (simp add: emitA_run)

text \<open>The common shape of the three loop bodies.\<close>

lemma hoare_item_log:
  assumes "mv \<noteq> cf" and "partial_log pre" "pre \<noteq> []" "mv \<noteq> ''merge_completed''" "cf \<noteq> ''merge_completed''"
  shows "hoareA (loop_grown sink_inv trail t0 i a s d pre mv cf cs acc)
    (if c
     then bindA (kcA m1) (\<lambda>_. bindA (emitA svc i cf a s d p) (\<lambda>_. returnA (fst acc, snd acc @ [x])))
     else bindA (kcA m2) (\<lambda>_. bindA (kcA m3) (\<lambda>_. bindA (emitA svc i mv a s d q) (\<lambda>_.
            returnA (fst acc @ [y], snd acc)))))
    (loop_grown sink_inv trail t0 i a s d pre mv cf cs)
    (\<lambda>_. raised_log sink_inv trail t0 i a s d)"
proof -
  have kc: "hoareA (loop_grown sink_inv trail t0 i a s d pre mv cf cs acc) (kcA m)
      (\<lambda>_. loop_grown sink_inv trail t0 i a s d pre mv cf cs acc) (\<lambda>_. raised_log sink_inv trail t0 i a s d)"
    for m :: "('w, 'z) action"
    by (rule hoareA_conseq [OF hoare_kc_loop]) (use loop_grown_raised assms(2-5) in blast)+
  obtain moved conflicts where acc: "acc = (moved, conflicts)" by (cases acc)
  show ?thesis
    unfolding acc fst_conv snd_conv
    by (cases c; simp only: if_True if_False,
        intro hoareA_bind [OF kc [unfolded acc]] hoareA_bind [OF hoare_emit_moved [OF assms(1)]]
          hoareA_bind [OF hoare_emit_conflict [OF assms(1)]] hoareA_return)
qed

lemma hoare_links_log:
  assumes "partial_log pre" "pre \<noteq> []"
  shows "hoareA (grown sink_inv trail t0 i a (user_id x) (user_id y) pre)
    (move_federated_identities svc x y i a cs)
    (loop_grown sink_inv trail t0 i a (user_id x) (user_id y) pre
       ''federated_identity_moved'' ''federated_identity_conflict'' cs)
    (\<lambda>_. raised_log sink_inv trail t0 i a (user_id x) (user_id y))"
  unfolding move_federated_identities_def
  by (rule hoareA_conseq [OF hoareA_fold [where I = "\<lambda>_. loop_grown sink_inv trail t0 i a (user_id x)
        (user_id y) pre ''federated_identity_moved'' ''federated_identity_conflict'' cs"]])
    (unfold move_link_def Let_def split_def, rule hoare_item_log,
      use assms in \<open>auto intro: loop_grown_start\<close>)

lemma hoare_kc_grown_raised:
  assumes "partial_log tys"
  shows "hoareA (grown sink_inv trail t0 i a s d tys) (kcA m)
    (\<lambda>_. grown sink_inv trail t0 i a s d tys) (\<lambda>_. raised_log sink_inv trail t0 i a s d)"
  by (rule hoareA_conseq [OF hoare_kc_grown]) (use assms in \<open>auto simp: raised_log_def\<close>)

lemma hoare_roles_log:
  assumes "partial_log pre" "pre \<noteq> []"
  shows "hoareA (grown sink_inv trail t0 i a (user_id x) (user_id y) pre)
    (move_role_mappings svc x y i a cs)
    (loop_grown sink_inv trail t0 i a (user_id x) (user_id y) pre
       ''role_mapping_moved'' ''role_mapping_conflict'' cs)
    (\<lambda>_. raised_log sink_inv trail t0 i a (user_id x) (user_id y))"
  unfolding move_role_mappings_def
  by (intro hoareA_bind [OF hoare_kc_grown_raised [OF assms(1)]]
      hoareA_conseq [OF hoareA_fold [where I = "\<lambda>_. loop_grown sink_inv trail t0 i a (user_id x)
        (user_id y) pre ''role_mapping_moved'' ''role_mapping_conflict'' cs"]])
    (unfold move_role_def Let_def split_def, rule hoare_item_log,
      use assms in \<open>auto intro: loop_grown_start\<close>)

lemma hoare_groups_log:
  assumes "partial_log pre" "pre \<noteq> []"
  shows "hoareA (grown sink_inv trail t0 i a (user_id x) (user_id y) pre)
    (move_group_memberships svc x y i a cs)
    (loop_grown sink_inv trail t0 i a (user_id x) (user_id y) pre
       ''group_membership_moved'' ''group_membership_conflict'' cs)
    (\<lambda>_. raised_log sink_inv trail t0 i a (user_id x) (user_id y))"
  unfolding move_group_memberships_def
  by (intro hoareA_bind [OF hoare_kc_grown_raised [OF assms(1)]]
      hoareA_conseq [OF hoareA_fold [where I = "\<lambda>_. loop_grown sink_inv trail t0 i a (user_id x)
        (user_id y) pre ''group_membership_moved'' ''group_membership_conflict'' cs"]])
    (unfold move_group_def Let_def split_def, rule hoare_item_log,
      use assms in \<open>auto intro: loop_grown_start\<close>)

lemma hoare_tombstone_log:
  assumes "partial_log tys"
  shows "hoareA (grown sink_inv trail t0 i a (user_id x) (user_id y) tys) (tombstone svc y x i a)
    (\<lambda>_. grown sink_inv trail t0 i a (user_id x) (user_id y) (tys @ [''duplicate_tombstoned'']))
    (\<lambda>_. raised_log sink_inv trail t0 i a (user_id x) (user_id y))"
  unfolding tombstone_def
  by (intro hoareA_bind [OF hoare_kc_grown_raised [OF assms]] hoare_emit_grown)

lemma hoare_completed_log:
  assumes "partial_log tys" and "complete_log res ((tys @ [''duplicate_tombstoned'']) @ [''merge_completed''])"
    and "res_audit_id res = Some i"
  shows "hoareA (grown sink_inv trail t0 i a (user_id x) (user_id y) tys)
    (bindA (tombstone svc y x i a) (\<lambda>_.
     bindA (emitA svc i ''merge_completed'' a (user_id x) (user_id y) p) (\<lambda>_. returnA res)))
    (\<lambda>res \<sigma>. \<exists>tys. complete_log res tys \<and> res_audit_id res = Some i \<and>
       grown sink_inv trail t0 i a (user_id x) (user_id y) tys \<sigma>)
    (\<lambda>_. raised_log sink_inv trail t0 i a (user_id x) (user_id y))"
  by (intro hoareA_bind [OF hoare_tombstone_log [OF assms(1)]] hoareA_bind [OF hoare_emit_grown]
      hoareA_return) (use assms(2,3) in blast)

lemma hoare_writes_log:
  "hoareA (grown sink_inv trail t0 i (req_actor request) (user_id x) (user_id y) [])
    (merge_writes svc request x y decision i)
    (\<lambda>res \<sigma>. \<exists>tys. complete_log res tys \<and> res_audit_id res = Some i \<and>
       grown sink_inv trail t0 i (req_actor request) (user_id x) (user_id y) tys \<sigma>)
    (\<lambda>_. raised_log sink_inv trail t0 i (req_actor request) (user_id x) (user_id y))"
  unfolding merge_writes_def split_def
  by (rule hoareA_bind [OF hoare_emit_grown], unfold append_Nil,
      intro hoare_loop_then [OF hoare_links_log] hoare_loop_then [OF hoare_roles_log]
        hoare_loop_then [OF hoare_groups_log] hoare_completed_log)
    (auto simp: partial_log_start intro: complete_logI)

text \<open>Before the first event the trail is as it was.\<close>

lemma hoare_kc_quiet: "hoareA (quiet sink_inv trail t0) (kcA m)
    (\<lambda>_. quiet sink_inv trail t0) (\<lambda>_. quiet sink_inv trail t0)"
  by (intro hoareAI) (auto simp: quiet_def elim!: kcA_cases)

lemma hoare_load_quiet: "hoareA (quiet sink_inv trail t0) (load_user svc u)
    (\<lambda>_. quiet sink_inv trail t0) (\<lambda>_. quiet sink_inv trail t0)"
  unfolding load_user_def
proof (rule hoareA_catch [OF hoare_kc_quiet])
  fix e
  show "hoareA (quiet sink_inv trail t0)
    (case e of KeyError x \<Rightarrow> raiseA (UserNotFoundError u) | _ \<Rightarrow> raiseA e)
    (\<lambda>_. quiet sink_inv trail t0) (\<lambda>_. quiet sink_inv trail t0)"
    by (cases e) (simp_all only: exn.case, (rule hoareA_raise, assumption)+)
qed

lemma hoare_decided_log:
  assumes ld: "loaded V0 s d x y"
  shows "hoareA (quiet sink_inv trail t0)
    (bindA (liftA (merge_decision x y (explicit_link request))) (\<lambda>decision.
       bindA correlationA (\<lambda>i. merge_writes svc request x y decision i)))
    (logged_returned sink_inv trail t0 request s d)
    (\<lambda>_. logged_raised sink_inv trail t0 request V0 s d)"
proof (cases "merge_decision x y (explicit_link request)")
  case (Inl e)
  then show ?thesis by (auto simp: hoareA_def bindA_def logged_raised_def)
next
  case (Inr decision)
  from ld obtain ks kd where ids: "user_id x = s" "user_id y = d" and V0: "V0 s = Some ks" "V0 d = Some kd"
    and rep: "reports_user x ks" "reports_user y kd"
      "link_key ` set (federated_identities x) = kc_links ks"
      "link_key ` set (federated_identities y) = kc_links kd"
    unfolding loaded_def by blast
  note policy = merge_decision_policy [OF rep, of "explicit_link request"]
  have draw: "hoareA (quiet sink_inv trail t0) correlationA
      (\<lambda>i. grown sink_inv trail t0 i (req_actor request) s d []) R"
    for R :: "exn \<Rightarrow> ('w, 'k, 'l) svc_state \<Rightarrow> bool"
    by (intro hoareAI) (auto simp: correlationA_def new_correlation_id_def uuid4_hex_def quiet_def
        grown_def elim!: zoomA_cases)
  have "hoareA (grown sink_inv trail t0 i (req_actor request) s d [])
      (merge_writes svc request x y decision i)
      (logged_returned sink_inv trail t0 request s d)
      (\<lambda>_. logged_raised sink_inv trail t0 request V0 s d)" for i
    by (rule hoareA_conseq [OF hoare_writes_log [where x = x and y = y, unfolded ids]])
      (use V0 policy Inr in \<open>auto simp: logged_raised_def logged_returned_def\<close>)
  then have "hoareA (quiet sink_inv trail t0)
      (bindA correlationA (\<lambda>i. merge_writes svc request x y decision i))
      (logged_returned sink_inv trail t0 request s d)
      (\<lambda>_. logged_raised sink_inv trail t0 request V0 s d)"
    by (rule hoareA_bind [OF draw])
  then show ?thesis unfolding Inr by (simp add: hoareA_def)
qed

lemma hoare_locked_log:
  "hoareA (\<lambda>\<sigma>. sat winv view (\<lambda>V. V = V0) \<sigma> \<and> quiet sink_inv trail t0 \<sigma>)
    (merge_accounts_locked svc request)
    (logged_returned sink_inv trail t0 request (req_survivor_user_id request) (req_duplicate_user_id request))
    (\<lambda>_. logged_raised sink_inv trail t0 request V0 (req_survivor_user_id request)
       (req_duplicate_user_id request))"
proof -
  let ?s = "req_survivor_user_id request" and ?d = "req_duplicate_user_id request"
  let ?R = "\<lambda>_. logged_raised sink_inv trail t0 request V0 ?s ?d"
  have quiet: "hoareA P m Q (\<lambda>_ \<sigma>. sat winv view (\<lambda>_. True) \<sigma> \<and> quiet sink_inv trail t0 \<sigma>) \<Longrightarrow> hoareA P m Q ?R"
    for P m and Q :: "'z \<Rightarrow> _"
    by (erule hoareA_conseq) (auto simp: logged_raised_def)
  note load = quiet [OF hoareA_conj [OF hoare_load_user [where R = "\<lambda>_. True"] hoare_load_quiet]]
  note read = quiet [OF hoareA_conj [OF hoare_read [where R = "\<lambda>_. True", OF list_links] hoare_kc_quiet]]
  show ?thesis
    unfolding merge_accounts_locked_def Let_def
  proof (intro hoareA_bind [OF load] hoareA_bind [OF read])
    fix x y :: user_account and xs ys
    let ?x = "x\<lparr>federated_identities := xs\<rparr>" and ?y = "y\<lparr>federated_identities := ys\<rparr>"
    let ?P = "\<lambda>\<sigma>. sat winv view (\<lambda>V. (((V = V0 \<and> user_id x = ?s \<and> (\<exists>k. V ?s = Some k \<and> reports_user x k)) \<and>
      user_id y = ?d \<and> (\<exists>k. V ?d = Some k \<and> reports_user y k)) \<and>
      (\<forall>k. V (user_id x) = Some k \<longrightarrow> link_key ` set xs = kc_links k)) \<and>
      (\<forall>k. V (user_id y) = Some k \<longrightarrow> link_key ` set ys = kc_links k)) \<sigma> \<and> quiet sink_inv trail t0 \<sigma>"
    have P: "loaded V0 ?s ?d ?x ?y" if "?P \<sigma>" for \<sigma> :: "('w, 'k, 'l) svc_state"
      using that by (auto simp: loaded_def reports_user_def sat_def)
    show "hoareA ?P
      (bindA (liftA (merge_decision ?x ?y (explicit_link request))) (\<lambda>decision.
         bindA correlationA (\<lambda>i. merge_writes svc request ?x ?y decision i)))
      (logged_returned sink_inv trail t0 request ?s ?d) ?R"
      by (rule hoareA_pure [OF P], assumption, rule hoareA_conseq [OF hoare_decided_log]) auto
  qed simp_all
qed

lemma merge_accounts_log:
  assumes "merge_accounts svc request \<sigma> = (r, \<tau>)" and "winv (kc \<sigma>)" and "sink_inv (sink \<sigma>)"
  shows "case r of
      Inr res \<Rightarrow> logged_returned sink_inv trail (trail (sink \<sigma>)) request (req_survivor_user_id request)
        (req_duplicate_user_id request) res \<tau>
    | Inl e \<Rightarrow> logged_raised sink_inv trail (trail (sink \<sigma>)) request (view (kc \<sigma>))
        (req_survivor_user_id request) (req_duplicate_user_id request) \<tau>"
proof (cases "req_survivor_user_id request = req_duplicate_user_id request")
  case True
  with assms show ?thesis by (auto simp: merge_accounts_def logged_raised_def quiet_def)
next
  case False
  with assms(1) have "hold (locks_of svc) lock_db lock_db_update
      [req_survivor_user_id request, req_duplicate_user_id request]
      (merge_accounts_locked svc request) \<sigma> = (r, \<tau>)"
    by (simp add: merge_accounts_def)
  then show ?thesis
  proof (cases rule: hold_cases)
    case (refused e l)
    with assms(3) show ?thesis by (auto simp: logged_raised_def quiet_def)
  next
    case (ran token l t')
    have "sat winv view (\<lambda>V. V = view (kc \<sigma>)) (\<sigma>\<lparr>lock_db := l\<rparr>) \<and>
        quiet sink_inv trail (trail (sink \<sigma>)) (\<sigma>\<lparr>lock_db := l\<rparr>)"
      using assms(2,3) by (simp add: sat_def quiet_def)
    from hoareA_Inr [OF hoare_locked_log this] hoareA_Inl [OF hoare_locked_log this]
    show ?thesis using ran(2,3)
      by (cases r) (auto simp: logged_raised_def logged_returned_def quiet_def grown_def raised_log_def)
  qed
qed

text \<open>The merge itself never touches the lock database, so the lock is given back.\<close>

lemma keepsA_lock [keepsA_rules]:
  "keepsA lock_db (kcA m)" "keepsA lock_db (emitA svc i ty a x y p)" "keepsA lock_db correlationA"
  by (auto simp: keepsA_def emitA_run correlationA_def elim!: kcA_cases zoomA_cases)

lemma keepsA_load_user [keepsA_rules]: "keepsA lock_db (load_user svc u)"
  unfolding load_user_def
proof (rule keepsA_catch [OF keepsA_lock(1)])
  show "keepsA lock_db (case e of KeyError x \<Rightarrow> raiseA (UserNotFoundError u) | _ \<Rightarrow> raiseA e)" for e
    by (cases e) (simp_all only: exn.case, (rule keepsA_raise)+)
qed

lemma locked_keeps_lock: "keepsA lock_db (merge_accounts_locked svc request)"
  unfolding merge_accounts_locked_def merge_writes_def move_federated_identities_def
    move_role_mappings_def move_group_memberships_def move_link_def move_role_def move_group_def
    tombstone_def Let_def split_def
  by (intro keepsA_rules)

lemma merge_accounts_releases:
  assumes "merge_accounts svc request \<sigma> = (r, \<tau>)"
  shows "held (lock_db \<tau>) = held (lock_db \<sigma>)"
proof (cases "req_survivor_user_id request = req_duplicate_user_id request")
  case False
  with assms have "hold (locks_of svc) lock_db lock_db_update
      [req_survivor_user_id request, req_duplicate_user_id request]
      (merge_accounts_locked svc request) \<sigma> = (r, \<tau>)"
    by (simp add: merge_accounts_def)
  moreover have "lock_db (lock_db_update f s) = f (lock_db s)" for f and s :: "('w, 'k, 'l) svc_state"
    by simp
  ultimately show ?thesis
    using keepsA_D [OF locked_keeps_lock] by (rule hold_restores [rotated 2])
qed (use assms in \<open>auto simp: merge_accounts_def\<close>)

end

end
