(* ===== verification/Scim.thy ===== *)
theory Scim
  imports Merge_Total Merge_Audit
begin

text \<open>
  The SCIM 2.0 provisioning shim of \<open>app/scim.py\<close>: translation between SCIM resources (JSON) and
  accounts, and the seven handlers, over the same state as the unification service: they call the
  same admin API and take the same user-operation locks. A body that the source would index or call
  methods on without checking raises the exception Python raises there.
\<close>

definition SCIM_USER_SCHEMA :: string where
  "SCIM_USER_SCHEMA = ''urn:ietf:params:scim:schemas:core:2.0:User''"

definition SCIM_LIST_SCHEMA :: string where
  "SCIM_LIST_SCHEMA = ''urn:ietf:params:scim:api:messages:2.0:ListResponse''"

definition SCIM_SPC_SCHEMA :: string where
  "SCIM_SPC_SCHEMA = ''urn:ietf:params:scim:schemas:core:2.0:ServiceProviderConfig''"

record http_response =
  resp_status :: nat
  resp_body :: string

definition scim_error :: "nat \<Rightarrow> string \<Rightarrow> exn" where
  "scim_error status detail = ScimHttpException status detail"

definition scim_response :: "dict \<Rightarrow> nat \<Rightarrow> http_response" where
  "scim_response body status = \<lparr>resp_status = status, resp_body = json_dumps default_dumps (JObj body)\<rparr>"

definition quoted_user :: "string \<Rightarrow> string" where
  "quoted_user uid = ''user '' @ CHR 0x27 # uid @ [CHR 0x27]"

section \<open>Translating resources\<close>

primrec first_primary :: "json list \<Rightarrow> json option result" where
  "first_primary [] = Inr None"
| "first_primary (entry # rest) =
     bindR (json_get entry ''primary'') (\<lambda>primary.
     if truthy primary then bindR (json_get entry ''value'') (\<lambda>v. Inr (Some v))
     else first_primary rest)"

definition primary_email :: "dict \<Rightarrow> json result" where
  "primary_email resource =
     (let emails = dict_get resource ''emails'' in
      if \<not> truthy emails then Inr JNull
      else bindR (json_iter emails) (\<lambda>entries.
           bindR (first_primary entries) (\<lambda>found.
           case found of Some v \<Rightarrow> Inr v | None \<Rightarrow> json_get (hd entries) ''value'')))"

definition to_user_account :: "dict \<Rightarrow> string \<Rightarrow> user_account result" where
  "to_user_account resource uid =
     (let name = dict_get resource ''name''; name = (if truthy name then name else JObj []) in
      bindR (primary_email resource) (\<lambda>mail.
      bindR (json_get name ''givenName'') (\<lambda>given.
      bindR (json_get name ''familyName'') (\<lambda>family.
      bindR (optional_text ''user_name'' (dict_get resource ''userName'')) (\<lambda>user_name'.
      bindR (optional_text ''email'' mail) (\<lambda>email'.
      bindR (optional_text ''first_name'' given) (\<lambda>first.
      bindR (optional_text ''last_name'' family) (\<lambda>last'.
      bindR (optional_text ''external_id'' (dict_get resource ''externalId'')) (\<lambda>ext.
      Inr \<lparr>user_id = uid, user_name = user_name', email = email', is_email_verified = True,
        state = (if truthy (dict_get_or resource ''active'' (JBool True)) then ''active'' else ''disabled''),
        first_name = first, last_name = last', external_id = ext, federated_identities = []\<rparr>)))))))))"

definition to_scim_resource :: "user_account \<Rightarrow> dict" where
  "to_scim_resource user =
     [(''schemas'', JArr [JStr SCIM_USER_SCHEMA]),
      (''id'', JStr (user_id user)),
      (''userName'', opt_str (user_name user)),
      (''active'', JBool (state user \<in> set active_states)),
      (''name'', JObj [(''givenName'', opt_str (first_name user)), (''familyName'', opt_str (last_name user))]),
      (''meta'', JObj [(''resourceType'', JStr ''User''),
         (''location'', JStr (''/scim/v2/Users/'' @ user_id user))])]
     @ (if truthy_text (external_id user) then [(''externalId'', opt_str (external_id user))] else [])
     @ (if truthy_text (email user)
        then [(''emails'', JArr [JObj [(''value'', opt_str (email user)), (''primary'', JBool True)]])]
        else [])"

definition service_provider_config :: http_response where
  "service_provider_config = scim_response
     [(''schemas'', JArr [JStr SCIM_SPC_SCHEMA]),
      (''patch'', JObj [(''supported'', JBool True)]),
      (''bulk'', JObj [(''supported'', JBool False), (''maxOperations'', JInt 0), (''maxPayloadSize'', JInt 0)]),
      (''filter'', JObj [(''supported'', JBool True), (''maxResults'', JInt 200)]),
      (''changePassword'', JObj [(''supported'', JBool False)]),
      (''sort'', JObj [(''supported'', JBool False)]),
      (''etag'', JObj [(''supported'', JBool False)]),
      (''authenticationSchemes'', JArr [JObj
         [(''type'', JStr ''oauthbearertoken''), (''name'', JStr ''OAuth Bearer Token''),
          (''description'', JStr ''Authentication via OAuth2 bearer token at the WAF edge.'')]])] 200"

section \<open>Handlers\<close>

text \<open>
  \<open>try: get_user(...) except KeyError: raise _scim_error(404, ...)\<close>, shared by four handlers.
\<close>

definition get_user_or_404 :: "('w, 'k, 'l) service \<Rightarrow> string \<Rightarrow> ('w, 'k, 'l, user_account) svc_action" where
  "get_user_or_404 svc uid =
     catchA (kcA (api_get_user (api_of svc) uid))
       (\<lambda>e. case e of KeyError _ \<Rightarrow> raiseA (scim_error 404 (quoted_user uid @ '' not found'')) | _ \<Rightarrow> raiseA e)"

text \<open>\<open>with locks.hold(user_id): ... except UserOperationLockTimeout\<close>, shared by three handlers.\<close>

definition scim_locked ::
  "('w, 'k, 'l) service \<Rightarrow> string \<Rightarrow> ('w, 'k, 'l, 'a) svc_action \<Rightarrow> ('w, 'k, 'l, 'a) svc_action" where
  "scim_locked svc uid body =
     catchA (hold (locks_of svc) lock_db lock_db_update [uid] body)
       (\<lambda>e. case e of
          UserOperationLockTimeout _ \<Rightarrow>
            raiseA (scim_error 503 (quoted_user uid @ '' is being modified; retry the request''))
        | _ \<Rightarrow> raiseA e)"

text \<open>
  A \<open>userName\<close> that is not text never becomes an account: it is refused when the account model is
  validated, and the lookup before that changes nothing.
\<close>

definition scim_create_user :: "('w, 'k, 'l) service \<Rightarrow> dict \<Rightarrow> ('w, 'k, 'l, http_response) svc_action" where
  "scim_create_user svc resource =
     (if \<not> truthy (dict_get resource ''userName'') then raiseA (scim_error 400 ''userName is required'')
      else case dict_get resource ''userName'' of
        JStr username \<Rightarrow>
          bindA (kcA (api_find_user_by_username (api_of svc) username)) (\<lambda>existing.
          if existing \<noteq> None then raiseA (scim_error 409 (quoted_user username @ '' already exists''))
          else
            bindA (liftA (to_user_account resource [])) (\<lambda>account.
            bindA (kcA (api_create_user (api_of svc) account)) (\<lambda>uid.
            bindA (kcA (api_get_user (api_of svc) uid)) (\<lambda>created.
            returnA (scim_response (to_scim_resource created) 201)))))
      | _ \<Rightarrow> raiseA (ValidationError ''user_name''))"

definition scim_get_user :: "('w, 'k, 'l) service \<Rightarrow> string \<Rightarrow> ('w, 'k, 'l, http_response) svc_action" where
  "scim_get_user svc uid =
     bindA (get_user_or_404 svc uid) (\<lambda>user.
     returnA (scim_response (to_scim_resource user) 200))"

text \<open>\<open>s.split(" ", 2)\<close> and \<open>s.strip('"')\<close>.\<close>

definition split_space_2 :: "string \<Rightarrow> string list" where
  "split_space_2 s =
     (case split_char (CHR '' '') s of
        a # b # c # rest \<Rightarrow> [a, b, join_char (CHR '' '') (c # rest)]
      | parts \<Rightarrow> parts)"

definition strip_quotes :: "string \<Rightarrow> string" where
  "strip_quotes s = rev (dropWhile (\<lambda>c. c = CHR 0x22) (rev (dropWhile (\<lambda>c. c = CHR 0x22) s)))"

definition scim_list_body :: "user_account list \<Rightarrow> dict" where
  "scim_list_body results =
     [(''schemas'', JArr [JStr SCIM_LIST_SCHEMA]),
      (''totalResults'', JInt (int (length results))),
      (''startIndex'', JInt 1),
      (''itemsPerPage'', JInt (int (length results))),
      (''Resources'', JArr (map (\<lambda>u. JObj (to_scim_resource u)) results))]"

definition scim_search_users ::
  "('w, 'k, 'l) service \<Rightarrow> string option \<Rightarrow> ('w, 'k, 'l, http_response) svc_action" where
  "scim_search_users svc scim_filter =
     bindA
       (if truthy_text scim_filter then
          (case split_space_2 (the scim_filter) of
             [attribute, operator, operand] \<Rightarrow>
               if attribute = ''userName'' \<and> lower operator = ''eq''
               then bindA (kcA (api_find_user_by_username (api_of svc) (strip_quotes (strip operand))))
                      (\<lambda>found. returnA (case found of None \<Rightarrow> [] | Some u \<Rightarrow> [u]))
               else raiseA (scim_error 400 (''only '' @ CHR 0x27 # ''userName eq'' @ CHR 0x27 # '' filter is supported''))
           | _ \<Rightarrow> raiseA (scim_error 400 (''only '' @ CHR 0x27 # ''userName eq'' @ CHR 0x27 # '' filter is supported'')))
        else returnA [])
       (\<lambda>results. returnA (scim_response (scim_list_body results) 200))"

definition scim_replace_body ::
  "('w, 'k, 'l) service \<Rightarrow> string \<Rightarrow> dict \<Rightarrow> ('w, 'k, 'l, user_account) svc_action" where
  "scim_replace_body svc uid resource =
     bindA (get_user_or_404 svc uid) (\<lambda>_.
     bindA (kcA (api_get_user_attribute (api_of svc) uid TOMBSTONE_ATTRIBUTE_KEY)) (\<lambda>merged_into.
     if truthy_text merged_into
     then raiseA (scim_error 409 (quoted_user uid @
            '' has been merged into another account and cannot be modified''))
     else
       bindA (liftA (to_user_account resource uid)) (\<lambda>account.
       bindA (kcA (api_replace_user (api_of svc) uid account)) (\<lambda>_.
       kcA (api_get_user (api_of svc) uid)))))"

definition scim_replace_user ::
  "('w, 'k, 'l) service \<Rightarrow> string \<Rightarrow> dict \<Rightarrow> ('w, 'k, 'l, http_response) svc_action" where
  "scim_replace_user svc uid resource =
     bindA (scim_locked svc uid (scim_replace_body svc uid resource)) (\<lambda>replaced.
     returnA (scim_response (to_scim_resource replaced) 200))"

text \<open>\<open>"active" in (value or {})\<close>.\<close>

definition mentions_active :: "json \<Rightarrow> bool result" where
  "mentions_active v =
     (if \<not> truthy v then Inr False
      else case v of
        JObj d \<Rightarrow> Inr (dict_has d ''active'')
      | JArr xs \<Rightarrow> Inr (\<exists>x\<in>set xs. py_eq x (JStr ''active''))
      | JStr s \<Rightarrow> Inr (contains ''active'' s)
      | _ \<Rightarrow> Inl (TypeError ''argument is not iterable''))"

text \<open>One PATCH operation: whether it asks to deactivate the user.\<close>

definition patch_operation :: "json \<Rightarrow> bool result" where
  "patch_operation operation =
     (case operation of
        JObj d \<Rightarrow>
          (case dict_get_or d ''op'' (JStr []) of
             JStr op \<Rightarrow>
               if lower op \<notin> {''replace'', ''add''} then Inr False
               else
                 bindR (if py_eq (dict_get d ''path'') (JStr ''active'') then Inr True
                        else mentions_active (dict_get d ''value'')) (\<lambda>relevant.
                 if relevant then
                   (let active = (case dict_get d ''value'' of JObj v \<Rightarrow> dict_get v ''active'' | v \<Rightarrow> v)
                    in Inr (py_eq active (JBool False) \<or> py_eq active (JStr ''false'') \<or> py_eq active (JStr ''False'')))
                 else Inr False)
           | _ \<Rightarrow> Inl (AttributeError ''lower''))
      | _ \<Rightarrow> Inl (AttributeError ''get''))"

definition scim_patch_user ::
  "('w, 'k, 'l) service \<Rightarrow> string \<Rightarrow> dict \<Rightarrow> ('w, 'k, 'l, http_response) svc_action" where
  "scim_patch_user svc uid body =
     scim_locked svc uid
       (bindA (get_user_or_404 svc uid) (\<lambda>_.
        bindA (liftA (json_iter (dict_get_or body ''Operations'' (JArr [])))) (\<lambda>operations.
        bindA (forA operations (\<lambda>operation.
          bindA (liftA (patch_operation operation)) (\<lambda>off.
          if off then kcA (api_deactivate_user (api_of svc) uid) else returnA ()))) (\<lambda>_.
        bindA (kcA (api_get_user (api_of svc) uid)) (\<lambda>user.
        returnA (scim_response (to_scim_resource user) 200))))))"

definition scim_delete_user :: "('w, 'k, 'l) service \<Rightarrow> string \<Rightarrow> ('w, 'k, 'l, http_response) svc_action" where
  "scim_delete_user svc uid =
     bindA
       (scim_locked svc uid
          (bindA (get_user_or_404 svc uid) (\<lambda>_. kcA (api_deactivate_user (api_of svc) uid))))
       (\<lambda>_. returnA \<lparr>resp_status = 204, resp_body = []\<rparr>)"

section \<open>Resources round trip\<close>

text \<open>
  Rendering an account as a SCIM resource and reading it back gives the account again, up to
  what SCIM does not carry: empty texts become absent, the state is reduced to active or disabled,
  the email counts as verified and the links are not part of the resource.
\<close>

theorem scim_resource_roundtrip:
  "to_user_account (to_scim_resource u) (user_id u) =
     Inr (u\<lparr>email := (if truthy_text (email u) then email u else None),
            external_id := (if truthy_text (external_id u) then external_id u else None),
            is_email_verified := True,
            state := (if state u \<in> {''active'', ''enabled''} then ''active'' else ''disabled''),
            federated_identities := []\<rparr>)"
  by (cases "external_id u"; cases "email u")
    (simp_all add: to_user_account_def to_scim_resource_def primary_email_def json_iter_def json_get_def
      dict_get_def dict_get_or_def opt_str_def truthy_def truthy_text_def optional_text_def
      active_states_def Let_def split: option.splits)

end
