(* ===== verification/KvStore.thy ===== *)
theory KvStore
  imports Prelude
begin

text \<open>
  The configuration and secret store of \<open>app/kv_store.py\<close>: the dict-of-dicts backend and the
  SQLite table \<open>idp_config_entries\<close> with its primary key (namespace, key). The locale
  \<open>kv_store\<close> is the \<open>KvStore\<close> protocol; both backends are interpretations of it, over the
  abstract store \<open>namespace \<Rightarrow> key \<Rightarrow> value option\<close>. Clients (the configuration loader and the
  federation, directory and relying-party registries) reason through the locale only.
\<close>

section \<open>Dicts as association lists\<close>

text \<open>A Python dict in insertion order: assignment keeps the place of an existing key.\<close>

primrec al_set :: "('k \<times> 'v) list \<Rightarrow> 'k \<Rightarrow> 'v \<Rightarrow> ('k \<times> 'v) list" where
  "al_set [] k v = [(k, v)]"
| "al_set (p # d) k v = (if fst p = k then (k, v) # d else p # al_set d k v)"

definition al_pop :: "('k \<times> 'v) list \<Rightarrow> 'k \<Rightarrow> ('k \<times> 'v) list" where
  "al_pop d k = filter (\<lambda>p. fst p \<noteq> k) d"

lemma map_of_al_set [simp]: "map_of (al_set d k v) = (map_of d)(k \<mapsto> v)"
  by (induction d) auto

lemma map_of_al_pop [simp]: "map_of (al_pop d k) = (map_of d)(k := None)"
  by (induction d) (auto simp: al_pop_def)

lemma fst_al_set: "fst ` set (al_set d k v) = insert k (fst ` set d)"
  by (induction d) auto

lemma al_set_new: "k \<notin> fst ` set d \<Longrightarrow> al_set d k v = d @ [(k, v)]"
  by (induction d) auto

lemma al_set_replace:
  "distinct (map fst d) \<Longrightarrow> k \<in> fst ` set d \<Longrightarrow> al_set d k v = map (\<lambda>(k', v'). if k' = k then (k, v) else (k', v')) d"
proof (induction d)
  case (Cons p d)
  have "map (\<lambda>(k', v'). if k' = k then (k, v) else (k', v')) d = d" if "k \<notin> fst ` set d"
    using that by (force intro: map_idI)
  with Cons show ?case by (cases p) auto
qed simp

lemma distinct_al_set: "distinct (map fst d) \<Longrightarrow> distinct (map fst (al_set d k v))"
proof (induction d)
  case Nil
  then show ?case by simp
next
  case (Cons p d)
  have "fst ` set (al_set d k v) = insert k (fst ` set d)" by (rule fst_al_set)
  with Cons show ?case by (auto simp: image_iff)
qed

lemma distinct_al_pop: "distinct (map fst d) \<Longrightarrow> distinct (map fst (al_pop d k))"
  by (simp add: al_pop_def distinct_map_filter)

section \<open>The in-memory backend\<close>

type_synonym memory_kv = "(string \<times> (string \<times> string) list) list"

definition memory_namespace :: "memory_kv \<Rightarrow> string \<Rightarrow> (string \<times> string) list" where
  "memory_namespace m ns = (case map_of m ns of None \<Rightarrow> [] | Some d \<Rightarrow> d)"

definition memory_put :: "string \<Rightarrow> string \<Rightarrow> string \<Rightarrow> memory_kv \<Rightarrow> memory_kv" where
  "memory_put ns k v m = al_set m ns (al_set (memory_namespace m ns) k v)"

definition memory_get :: "string \<Rightarrow> string \<Rightarrow> memory_kv \<Rightarrow> string option" where
  "memory_get ns k m = map_of (memory_namespace m ns) k"

definition memory_get_all :: "string \<Rightarrow> memory_kv \<Rightarrow> (string \<times> string) list" where
  "memory_get_all ns m = memory_namespace m ns"

text \<open>\<open>self._data.get(namespace, {}).pop(key, None)\<close>: a missing namespace stays missing.\<close>

definition memory_delete :: "string \<Rightarrow> string \<Rightarrow> memory_kv \<Rightarrow> memory_kv" where
  "memory_delete ns k m =
     (case map_of m ns of None \<Rightarrow> m | Some d \<Rightarrow> al_set m ns (al_pop d k))"

definition memory_kv_inv :: "memory_kv \<Rightarrow> bool" where
  "memory_kv_inv m \<longleftrightarrow> (\<forall>ns d. map_of m ns = Some d \<longrightarrow> distinct (map fst d))"

definition memory_abs :: "memory_kv \<Rightarrow> string \<Rightarrow> string \<Rightarrow> string option" where
  "memory_abs m ns k = map_of (memory_namespace m ns) k"

section \<open>The SQLite backend\<close>

text \<open>Rows (namespace, key, value); the upsert keeps (namespace, key) unique.\<close>

type_synonym sqlite_kv = "((string \<times> string) \<times> string) list"

definition sqlite_put :: "string \<Rightarrow> string \<Rightarrow> string \<Rightarrow> sqlite_kv \<Rightarrow> sqlite_kv" where
  "sqlite_put ns k v rows =
     (if \<exists>row\<in>set rows. fst row = (ns, k)
      then map (\<lambda>row. if fst row = (ns, k) then ((ns, k), v) else row) rows
      else rows @ [((ns, k), v)])"

definition sqlite_get :: "string \<Rightarrow> string \<Rightarrow> sqlite_kv \<Rightarrow> string option" where
  "sqlite_get ns k rows = map_option snd (find (\<lambda>row. fst row = (ns, k)) rows)"

definition sqlite_get_all :: "string \<Rightarrow> sqlite_kv \<Rightarrow> (string \<times> string) list" where
  "sqlite_get_all ns rows =
     map (\<lambda>row. (snd (fst row), snd row)) (filter (\<lambda>row. fst (fst row) = ns) rows)"

definition sqlite_delete :: "string \<Rightarrow> string \<Rightarrow> sqlite_kv \<Rightarrow> sqlite_kv" where
  "sqlite_delete ns k rows = filter (\<lambda>row. fst row \<noteq> (ns, k)) rows"

definition sqlite_kv_inv :: "sqlite_kv \<Rightarrow> bool" where
  "sqlite_kv_inv rows \<longleftrightarrow> distinct (map fst rows)"

definition sqlite_abs :: "sqlite_kv \<Rightarrow> string \<Rightarrow> string \<Rightarrow> string option" where
  "sqlite_abs rows ns k = map_of rows (ns, k)"

section \<open>The store contract\<close>

text \<open>The operations of one backend, as its clients take them.\<close>

record 'st kv_ops =
  kv_put :: "string \<Rightarrow> string \<Rightarrow> string \<Rightarrow> 'st \<Rightarrow> 'st"
  kv_get :: "string \<Rightarrow> string \<Rightarrow> 'st \<Rightarrow> string option"
  kv_get_all :: "string \<Rightarrow> 'st \<Rightarrow> (string \<times> string) list"
  kv_delete :: "string \<Rightarrow> string \<Rightarrow> 'st \<Rightarrow> 'st"

definition memory_kv_ops :: "memory_kv kv_ops" where
  "memory_kv_ops = \<lparr>kv_put = memory_put, kv_get = memory_get, kv_get_all = memory_get_all,
     kv_delete = memory_delete\<rparr>"

definition sqlite_kv_ops :: "sqlite_kv kv_ops" where
  "sqlite_kv_ops = \<lparr>kv_put = sqlite_put, kv_get = sqlite_get, kv_get_all = sqlite_get_all,
     kv_delete = sqlite_delete\<rparr>"

locale kv_store =
  fixes kv :: "'st kv_ops"
    and kv_abs :: "'st \<Rightarrow> string \<Rightarrow> string \<Rightarrow> string option"
    and kv_inv :: "'st \<Rightarrow> bool"
  assumes get_abs: "kv_inv st \<Longrightarrow> kv_get kv ns k st = kv_abs st ns k"
    and get_all_abs: "kv_inv st \<Longrightarrow> map_of (kv_get_all kv ns st) = kv_abs st ns"
    and get_all_distinct: "kv_inv st \<Longrightarrow> distinct (map fst (kv_get_all kv ns st))"
    and put_abs: "kv_inv st \<Longrightarrow>
      kv_abs (kv_put kv ns k v st) = (kv_abs st)(ns := (kv_abs st ns)(k \<mapsto> v))"
    and delete_abs: "kv_inv st \<Longrightarrow>
      kv_abs (kv_delete kv ns k st) = (kv_abs st)(ns := (kv_abs st ns)(k := None))"
    and put_inv: "kv_inv st \<Longrightarrow> kv_inv (kv_put kv ns k v st)"
    and delete_inv: "kv_inv st \<Longrightarrow> kv_inv (kv_delete kv ns k st)"
begin

lemmas kv_laws = get_abs put_abs delete_abs put_inv delete_inv

lemma get_put:
  "kv_inv st \<Longrightarrow> kv_get kv ns' k' (kv_put kv ns k v st) =
     (if ns' = ns \<and> k' = k then Some v else kv_get kv ns' k' st)"
  by (simp add: kv_laws)

lemma get_delete:
  "kv_inv st \<Longrightarrow> kv_get kv ns' k' (kv_delete kv ns k st) =
     (if ns' = ns \<and> k' = k then None else kv_get kv ns' k' st)"
  by (simp add: kv_laws)

lemma get_all_iff:
  "kv_inv st \<Longrightarrow> (k, v) \<in> set (kv_get_all kv ns st) \<longleftrightarrow> kv_get kv ns k st = Some v"
  using get_all_abs [of st ns] get_all_distinct [of st ns] map_of_eq_Some_iff
  by (metis get_abs)

end

interpretation memory_kv: kv_store memory_kv_ops memory_abs memory_kv_inv
proof unfold_locales
  fix st :: memory_kv and ns k v
  assume inv: "memory_kv_inv st"
  show "kv_get memory_kv_ops ns k st = memory_abs st ns k"
    by (simp add: memory_kv_ops_def memory_get_def memory_abs_def)
  show "map_of (kv_get_all memory_kv_ops ns st) = memory_abs st ns"
    by (simp add: memory_kv_ops_def memory_get_all_def memory_abs_def fun_eq_iff)
  show "distinct (map fst (kv_get_all memory_kv_ops ns st))"
    using inv by (auto simp: memory_kv_ops_def memory_get_all_def memory_kv_inv_def
        memory_namespace_def split: option.splits)
  show "memory_abs (kv_put memory_kv_ops ns k v st)
      = (memory_abs st)(ns := (memory_abs st ns)(k \<mapsto> v))"
    by (simp add: memory_kv_ops_def memory_put_def memory_abs_def memory_namespace_def fun_eq_iff)
  show "memory_abs (kv_delete memory_kv_ops ns k st)
      = (memory_abs st)(ns := (memory_abs st ns)(k := None))"
    by (auto simp: memory_kv_ops_def memory_delete_def memory_abs_def memory_namespace_def
        fun_eq_iff split: option.splits)
  show "memory_kv_inv (kv_put memory_kv_ops ns k v st)"
    using inv by (auto simp: memory_kv_ops_def memory_put_def memory_kv_inv_def
        memory_namespace_def split: option.splits intro!: distinct_al_set)
  show "memory_kv_inv (kv_delete memory_kv_ops ns k st)"
    using inv by (auto simp: memory_kv_ops_def memory_delete_def memory_kv_inv_def
        split: option.splits intro!: distinct_al_pop)
qed

lemma find_map_of:
  "map_option snd (find (\<lambda>row. fst row = k) rows) = map_of rows k"
  by (induction rows) auto

lemma map_of_update_in_place:
  "k \<in> fst ` set rows \<Longrightarrow>
     map_of (map (\<lambda>row. if fst row = k then (k, v) else row) rows) = (map_of rows)(k \<mapsto> v)"
proof (induction rows)
  case Nil
  then show ?case by simp
next
  case (Cons row rows)
  show ?case
  proof (cases "k \<in> fst ` set rows")
    case True
    with Cons show ?thesis by (auto simp: fun_eq_iff)
  next
    case False
    then have "map (\<lambda>row. if fst row = k then (k, v) else row) rows = rows"
      by (force intro: map_idI)
    with Cons.prems False show ?thesis by (auto simp: fun_eq_iff)
  qed
qed

lemma sqlite_put_abs:
  "map_of (sqlite_put ns k v rows) = (map_of rows)((ns, k) \<mapsto> v)"
proof (cases "(ns, k) \<in> fst ` set rows")
  case True
  then show ?thesis
    using map_of_update_in_place [OF True, of v] by (auto simp: sqlite_put_def)
next
  case False
  then show ?thesis
    by (auto simp: sqlite_put_def fun_eq_iff map_add_def dest!: map_of_SomeD
        split: option.splits intro: rev_image_eqI)
qed

lemma sqlite_put_inv: "sqlite_kv_inv rows \<Longrightarrow> sqlite_kv_inv (sqlite_put ns k v rows)"
proof -
  have "map (fst \<circ> (\<lambda>row. if fst row = key then (key, v) else row)) rows = map fst rows" for key
    by (induction rows) auto
  then show "sqlite_kv_inv rows \<Longrightarrow> ?thesis"
    by (auto simp: sqlite_kv_inv_def sqlite_put_def simp del: map_eq_conv)
qed

lemma map_of_namespace:
  "map_of (sqlite_get_all ns rows) k = map_of rows (ns, k)"
  by (induction rows) (auto simp: sqlite_get_all_def)

lemma distinct_namespace:
  "distinct (map fst rows) \<Longrightarrow> distinct (map fst (sqlite_get_all ns rows))"
  by (induction rows) (force simp: sqlite_get_all_def)+

interpretation sqlite_kv: kv_store sqlite_kv_ops sqlite_abs sqlite_kv_inv
proof unfold_locales
  fix st :: sqlite_kv and ns k v
  assume inv: "sqlite_kv_inv st"
  show "kv_get sqlite_kv_ops ns k st = sqlite_abs st ns k"
    by (simp add: sqlite_kv_ops_def sqlite_get_def sqlite_abs_def find_map_of)
  show "map_of (kv_get_all sqlite_kv_ops ns st) = sqlite_abs st ns"
    by (simp add: sqlite_kv_ops_def sqlite_abs_def map_of_namespace fun_eq_iff)
  show "distinct (map fst (kv_get_all sqlite_kv_ops ns st))"
    using inv by (simp add: sqlite_kv_ops_def sqlite_kv_inv_def distinct_namespace)
  show "sqlite_abs (kv_put sqlite_kv_ops ns k v st)
      = (sqlite_abs st)(ns := (sqlite_abs st ns)(k \<mapsto> v))"
    by (simp add: sqlite_kv_ops_def sqlite_abs_def sqlite_put_abs fun_eq_iff)
  show "sqlite_abs (kv_delete sqlite_kv_ops ns k st)
      = (sqlite_abs st)(ns := (sqlite_abs st ns)(k := None))"
    using map_of_al_pop [of st "(ns, k)"]
    by (simp add: sqlite_kv_ops_def sqlite_abs_def sqlite_delete_def al_pop_def fun_eq_iff)
  show "sqlite_kv_inv (kv_put sqlite_kv_ops ns k v st)"
    using inv by (simp add: sqlite_kv_ops_def sqlite_put_inv)
  show "sqlite_kv_inv (kv_delete sqlite_kv_ops ns k st)"
    using inv by (simp add: sqlite_kv_ops_def sqlite_kv_inv_def sqlite_delete_def
        distinct_map_filter)
qed

section \<open>The backends agree\<close>

datatype kv_command = KvPut string string string | KvDelete string string

fun kv_run :: "'st kv_ops \<Rightarrow> kv_command list \<Rightarrow> 'st \<Rightarrow> 'st" where
  "kv_run kv [] st = st"
| "kv_run kv (KvPut ns k v # cs) st = kv_run kv cs (kv_put kv ns k v st)"
| "kv_run kv (KvDelete ns k # cs) st = kv_run kv cs (kv_delete kv ns k st)"

fun kv_spec :: "kv_command list \<Rightarrow> (string \<Rightarrow> string \<Rightarrow> string option) \<Rightarrow> string \<Rightarrow> string \<Rightarrow> string option"
where
  "kv_spec [] f = f"
| "kv_spec (KvPut ns k v # cs) f = kv_spec cs (f(ns := (f ns)(k \<mapsto> v)))"
| "kv_spec (KvDelete ns k # cs) f = kv_spec cs (f(ns := (f ns)(k := None)))"

context kv_store begin

lemma run_refines_spec:
  "kv_inv st \<Longrightarrow> kv_inv (kv_run kv cs st) \<and> kv_abs (kv_run kv cs st) = kv_spec cs (kv_abs st)"
proof (induction cs arbitrary: st)
  case Nil
  then show ?case by simp
next
  case (Cons c cs)
  then show ?case by (cases c) (simp_all add: kv_laws fun_upd_def)
qed

end

text \<open>
  Both key-value backends implement the same abstract store: after any sequence of writes and
  deletes from the empty store, the in-memory and the SQLite backend answer every read alike, and
  the answer is that of the two-level map (last write wins, a delete removes only its own key).
\<close>

theorem kv_backends_agree:
  "kv_get memory_kv_ops ns k (kv_run memory_kv_ops cs [])
     = kv_get sqlite_kv_ops ns k (kv_run sqlite_kv_ops cs [])
   \<and> kv_get sqlite_kv_ops ns k (kv_run sqlite_kv_ops cs []) = kv_spec cs (\<lambda>_ _. None) ns k
   \<and> map_of (kv_get_all memory_kv_ops ns (kv_run memory_kv_ops cs []))
     = map_of (kv_get_all sqlite_kv_ops ns (kv_run sqlite_kv_ops cs []))"
proof -
  have empty: "memory_kv_inv []" "sqlite_kv_inv []" "memory_abs [] = (\<lambda>_ _. None)"
    "sqlite_abs [] = (\<lambda>_ _. None)"
    by (simp_all add: memory_kv_inv_def sqlite_kv_inv_def memory_abs_def sqlite_abs_def
        memory_namespace_def fun_eq_iff)
  show ?thesis
    using memory_kv.run_refines_spec [OF empty(1), of cs]
      sqlite_kv.run_refines_spec [OF empty(2), of cs]
    by (simp add: empty memory_kv.get_abs sqlite_kv.get_abs memory_kv.get_all_abs
        sqlite_kv.get_all_abs)
qed

end
