(* ===== verification/MockKeycloak.thy ===== *)
theory MockKeycloak
  imports Merge_Audit Merge_Total KvStore
begin

text \<open>
  The in-memory admin API of \<open>tests/mock_keycloak.py\<close>, against which the repository exercises the
  merge engine and the SCIM shim. It meets the contract the service relies on, so the locales of
  \<open>KeycloakApi\<close> and \<open>Merge\<close> are interpreted on it together with the SQLite audit sink and the
  SQLite lock.
\<close>

record mock_kc =
  mk_users :: "(string \<times> user_account) list"
  mk_federated :: "string \<Rightarrow> federated_identity list"
  mk_roles :: "string \<Rightarrow> role_mapping list"
  mk_groups :: "string \<Rightarrow> group_membership list"
  mk_attributes :: "string \<times> string \<Rightarrow> string option"
  mk_deactivated :: "string list"
  mk_next_id :: nat
  mk_calls :: "string list"

definition empty_mock :: mock_kc where
  "empty_mock = \<lparr>mk_users = [], mk_federated = (\<lambda>_. []), mk_roles = (\<lambda>_. []), mk_groups = (\<lambda>_. []),
     mk_attributes = (\<lambda>_. None), mk_deactivated = [], mk_next_id = 1, mk_calls = []\<rparr>"

definition mock_user :: "string \<Rightarrow> string option \<Rightarrow> bool \<Rightarrow> user_account" where
  "mock_user uid mail verified = \<lparr>user_id = uid, user_name = Some uid, email = mail,
     is_email_verified = verified, state = ''active'', first_name = None, last_name = None,
     external_id = None, federated_identities = []\<rparr>"

definition create_test_user ::
  "string \<Rightarrow> string option \<Rightarrow> bool \<Rightarrow> federated_identity list \<Rightarrow> role_mapping list
     \<Rightarrow> group_membership list \<Rightarrow> mock_kc \<Rightarrow> mock_kc" where
  "create_test_user uid mail verified links roles groups m =
     m\<lparr>mk_users := al_set (mk_users m) uid (mock_user uid mail verified),
       mk_federated := (mk_federated m)(uid := links), mk_roles := (mk_roles m)(uid := roles),
       mk_groups := (mk_groups m)(uid := groups)\<rparr>"

definition called :: "string \<Rightarrow> mock_kc \<Rightarrow> mock_kc" where
  "called c m = m\<lparr>mk_calls := mk_calls m @ [c]\<rparr>"

section \<open>Reads\<close>

definition mock_get_user :: "string \<Rightarrow> (mock_kc, user_account) action" where
  "mock_get_user uid m =
     (case map_of (mk_users m) uid of
        None \<Rightarrow> (Inl (KeyError uid), called (''get_user:'' @ uid) m)
      | Some a \<Rightarrow> (Inr a, called (''get_user:'' @ uid) m))"

definition mock_find_users_by_email :: "string \<Rightarrow> (mock_kc, user_account list) action" where
  "mock_find_users_by_email mail m =
     (Inr (filter (\<lambda>a. lower (strip (text_or (email a) [])) = lower (strip mail))
        (map snd (mk_users m))), m)"

definition mock_find_user_by_username :: "string \<Rightarrow> (mock_kc, user_account option) action" where
  "mock_find_user_by_username name m =
     (Inr (find (\<lambda>a. lower (text_or (user_name a) []) = lower name) (map snd (mk_users m))), m)"

definition mock_list_federated_identities :: "string \<Rightarrow> (mock_kc, federated_identity list) action" where
  "mock_list_federated_identities uid m = (Inr (mk_federated m uid), m)"

definition mock_list_role_mappings :: "string \<Rightarrow> (mock_kc, role_mapping list) action" where
  "mock_list_role_mappings uid m = (Inr (mk_roles m uid), m)"

definition mock_list_group_memberships :: "string \<Rightarrow> (mock_kc, group_membership list) action" where
  "mock_list_group_memberships uid m = (Inr (mk_groups m uid), m)"

definition mock_get_user_attribute :: "string \<Rightarrow> string \<Rightarrow> (mock_kc, string option) action" where
  "mock_get_user_attribute uid key m =
     (Inr (mk_attributes m (uid, key)), called (''get_user_attribute:'' @ uid @ '':'' @ key) m)"

section \<open>Provisioning\<close>

definition mock_create_user :: "user_account \<Rightarrow> (mock_kc, string) action" where
  "mock_create_user a m =
     (let fresh = user_id a = [];
          uid = (if fresh then ''kc-'' @ show_nat (mk_next_id m) else user_id a)
      in (Inr uid, (called (''create_user:'' @ text_or (user_name a) ''None'')
            (if fresh then m\<lparr>mk_next_id := Suc (mk_next_id m)\<rparr> else m))
            \<lparr>mk_users := al_set (mk_users m) uid (a\<lparr>user_id := uid\<rparr>)\<rparr>))"

definition mock_replace_user :: "string \<Rightarrow> user_account \<Rightarrow> (mock_kc, unit) action" where
  "mock_replace_user uid a m =
     (let m' = called (''replace_user:'' @ uid) m in
      if map_of (mk_users m) uid = None then (Inl (KeyError uid), m')
      else (Inr (), m'\<lparr>mk_users := al_set (mk_users m) uid (a\<lparr>user_id := uid\<rparr>)\<rparr>))"

section \<open>Writes\<close>

definition mock_add_federated_identity :: "string \<Rightarrow> federated_identity \<Rightarrow> (mock_kc, unit) action" where
  "mock_add_federated_identity uid link m =
     (Inr (), (called (''add_federated_identity:'' @ uid @ '':'' @ identity_provider link @ '':''
        @ external_user_id link) m)
        \<lparr>mk_federated := (mk_federated m)(uid := mk_federated m uid @ [link])\<rparr>)"

definition mock_remove_federated_identity :: "string \<Rightarrow> string \<Rightarrow> (mock_kc, unit) action" where
  "mock_remove_federated_identity uid provider m =
     (Inr (), (called (''remove_federated_identity:'' @ uid @ '':'' @ provider) m)
        \<lparr>mk_federated := (mk_federated m)
           (uid := filter (\<lambda>f. identity_provider f \<noteq> provider) (mk_federated m uid))\<rparr>)"

definition mock_add_role_mapping :: "string \<Rightarrow> role_mapping \<Rightarrow> (mock_kc, unit) action" where
  "mock_add_role_mapping uid role m =
     (Inr (), (called (''add_role_mapping:'' @ uid @ '':'' @
        (case role_client_id role of None \<Rightarrow> ''None'' | Some c \<Rightarrow> c) @ '':'' @ role_name role) m)
        \<lparr>mk_roles := (mk_roles m)(uid := mk_roles m uid @ [role])\<rparr>)"

definition mock_remove_role_mapping :: "string \<Rightarrow> role_mapping \<Rightarrow> (mock_kc, unit) action" where
  "mock_remove_role_mapping uid role m =
     (Inr (), (called (''remove_role_mapping:'' @ uid @ '':'' @
        (case role_client_id role of None \<Rightarrow> ''None'' | Some c \<Rightarrow> c) @ '':'' @ role_name role) m)
        \<lparr>mk_roles := (mk_roles m)(uid := filter (\<lambda>r. \<not> (role_client_id r = role_client_id role \<and>
           role_name r = role_name role)) (mk_roles m uid))\<rparr>)"

definition mock_add_group_membership :: "string \<Rightarrow> group_membership \<Rightarrow> (mock_kc, unit) action" where
  "mock_add_group_membership uid g m =
     (Inr (), (called (''add_group_membership:'' @ uid @ '':'' @ group_id g) m)
        \<lparr>mk_groups := (mk_groups m)(uid := mk_groups m uid @ [g])\<rparr>)"

definition mock_remove_group_membership :: "string \<Rightarrow> group_membership \<Rightarrow> (mock_kc, unit) action" where
  "mock_remove_group_membership uid g m =
     (Inr (), (called (''remove_group_membership:'' @ uid @ '':'' @ group_id g) m)
        \<lparr>mk_groups := (mk_groups m)
           (uid := filter (\<lambda>h. group_id h \<noteq> group_id g) (mk_groups m uid))\<rparr>)"

definition mock_deactivate_user :: "string \<Rightarrow> (mock_kc, unit) action" where
  "mock_deactivate_user uid m =
     (let m' = (called (''deactivate_user:'' @ uid) m)\<lparr>mk_deactivated := uid # mk_deactivated m\<rparr> in
      case map_of (mk_users m) uid of
        None \<Rightarrow> (Inr (), m')
      | Some a \<Rightarrow> (Inr (), m'\<lparr>mk_users := al_set (mk_users m) uid (a\<lparr>state := ''disabled''\<rparr>)\<rparr>))"

definition mock_set_user_attribute :: "string \<Rightarrow> string \<Rightarrow> string \<Rightarrow> (mock_kc, unit) action" where
  "mock_set_user_attribute uid key x m =
     (let m' = (called (''set_user_attribute:'' @ uid @ '':'' @ key) m)
          \<lparr>mk_attributes := (mk_attributes m)((uid, key) \<mapsto> x)\<rparr> in
      case map_of (mk_users m) uid of
        None \<Rightarrow> (Inr (), m')
      | Some a \<Rightarrow> (Inr (), if key = ''scim_external_id''
          then m'\<lparr>mk_users := al_set (mk_users m) uid (a\<lparr>external_id := Some x\<rparr>)\<rparr> else m'))"

definition mock_api :: "mock_kc admin_api" where
  "mock_api = \<lparr>api_get_user = mock_get_user, api_find_users_by_email = mock_find_users_by_email,
     api_find_user_by_username = mock_find_user_by_username, api_create_user = mock_create_user,
     api_replace_user = mock_replace_user,
     api_list_federated_identities = mock_list_federated_identities,
     api_add_federated_identity = mock_add_federated_identity,
     api_remove_federated_identity = mock_remove_federated_identity,
     api_list_role_mappings = mock_list_role_mappings, api_add_role_mapping = mock_add_role_mapping,
     api_remove_role_mapping = mock_remove_role_mapping,
     api_list_group_memberships = mock_list_group_memberships,
     api_add_group_membership = mock_add_group_membership,
     api_remove_group_membership = mock_remove_group_membership,
     api_deactivate_user = mock_deactivate_user, api_set_user_attribute = mock_set_user_attribute,
     api_get_user_attribute = mock_get_user_attribute\<rparr>"

section \<open>The contract holds\<close>

definition mock_view :: "mock_kc \<Rightarrow> kc_view" where
  "mock_view m u = map_option (\<lambda>a. \<lparr>kc_enabled = (state a \<in> set active_states), kc_email = email a,
     kc_verified = is_email_verified a, kc_attrs = (\<lambda>key. mk_attributes m (u, key)),
     kc_links = link_key ` set (mk_federated m u), kc_roles = role_key ` set (mk_roles m u),
     kc_groups = group_id ` set (mk_groups m u)\<rparr>) (map_of (mk_users m) u)"

definition mock_inv :: "mock_kc \<Rightarrow> bool" where
  "mock_inv m \<longleftrightarrow> (\<forall>u a. map_of (mk_users m) u = Some a \<longrightarrow> user_id a = u) \<and>
     (\<forall>n \<ge> mk_next_id m. map_of (mk_users m) (''kc-'' @ show_nat n) = None)"

lemmas mock_defs = mock_get_user_def mock_find_users_by_email_def mock_find_user_by_username_def
  mock_list_federated_identities_def mock_list_role_mappings_def mock_list_group_memberships_def
  mock_get_user_attribute_def mock_create_user_def mock_replace_user_def
  mock_add_federated_identity_def mock_remove_federated_identity_def mock_add_role_mapping_def
  mock_remove_role_mapping_def mock_add_group_membership_def mock_remove_group_membership_def
  mock_deactivate_user_def mock_set_user_attribute_def

lemma kept_links: "link_key ` {f \<in> S. identity_provider f \<noteq> p} = {y \<in> link_key ` S. fst y \<noteq> p}"
  by auto

lemma kept_roles:
  "role_key ` {r \<in> S. role_client_id r = role_client_id x \<longrightarrow> role_name r \<noteq> role_name x} = role_key ` S - {role_key x}"
  by (auto simp: role_key_def)

lemma kept_groups: "group_id ` {h \<in> S. group_id h \<noteq> g} = group_id ` S - {g}"
  by auto

lemmas mock_law_simps = mock_api_def mock_defs reads_only_def changes_user_def mock_view_def
  mock_inv_def called_def change_user_def fun_eq_iff reports_user_def Let_def option.map_comp o_def
  kept_links kept_roles kept_groups active_states_def

interpretation mock: keycloak_admin mock_api mock_view mock_inv
proof unfold_locales
qed (auto simp: mock_law_simps split: option.splits if_splits)

interpretation mock: keycloak_provisioning mock_api mock_view mock_inv
proof unfold_locales
  fix w w' a and r :: "unit result" and u
  assume "mock_inv w" "api_replace_user mock_api u a w = (r, w')"
  then show "mock_inv w' \<and> (mock_view w' = mock_view w \<and> \<not> okR r \<or>
      (\<exists>k k'. mock_view w u = Some k \<and> represents a k k' \<and> mock_view w' = (mock_view w)(u \<mapsto> k')))"
    by (auto simp: mock_law_simps represents_def split: option.splits if_splits)
next
  fix w w' a u
  assume "mock_inv w" "user_id a = []" "api_create_user mock_api a w = (Inr u, w')"
  then show "mock_inv w' \<and> mock_view w u = None \<and> (\<exists>k. reports_user a k \<and> mock_view w' = (mock_view w)(u \<mapsto> k))"
    by (auto simp: mock_law_simps split: option.splits if_splits)
qed (auto simp: mock_law_simps)

interpretation mock: keycloak_available mock_api mock_view mock_inv
proof unfold_locales
qed (auto simp: mock_api_def mock_defs answers_def mock_view_def Let_def split: option.splits)

section \<open>The service as the repository's tests assemble it, over SQLite\<close>

definition demo_service :: "(mock_kc, sqlite_sink, sqlite_lock_db) service" where
  "demo_service = \<lparr>api_of = mock_api, record_of = sqlite_record, locks_of = sqlite_lock_ops,
     merge_conflict_policy = ''survivor_wins''\<rparr>"

interpretation demo: available_unification demo_service mock_view mock_inv sqlite_events_for
  sqlite_trail sqlite_sink_inv "\<lambda>db. writer db \<noteq> None"
  unfolding available_unification_def unification_def
  unfolding demo_service_def service.simps
  by (intro conjI mock.keycloak_admin_axioms mock.keycloak_available_axioms
      sqlite.audit_sink_axioms sqlite_lock.user_operation_locks_axioms)

text \<open>Two users with a common verified email; the duplicate has a link, a role and a group of its own.\<close>

definition demo_link :: "string \<Rightarrow> string \<Rightarrow> federated_identity" where
  "demo_link p x = \<lparr>identity_provider = p, external_user_id = x, external_user_name = None\<rparr>"

definition demo_role :: "string \<Rightarrow> role_mapping" where
  "demo_role n = \<lparr>role_id = n, role_name = n, role_client_id = None\<rparr>"

definition demo_group :: "string \<Rightarrow> group_membership" where
  "demo_group n = \<lparr>group_id = n, group_path = ''/'' @ n, group_name = None\<rparr>"

definition demo_kc :: mock_kc where
  "demo_kc = create_test_user ''s'' (Some ''A@x'') True [demo_link ''p'' ''1''] [demo_role ''r''] []
     (create_test_user ''d'' (Some ''a@x'') True [demo_link ''q'' ''2''] [demo_role ''w''] [demo_group ''g'']
        empty_mock)"

definition demo_env :: env where
  "demo_env = \<lparr>env_time = (\<lambda>n. of_nat n), env_uuid = (\<lambda>_. ''c0''), env_tick = 0\<rparr>"

definition demo_state :: "(mock_kc, sqlite_sink, sqlite_lock_db) svc_state" where
  "demo_state = \<lparr>kc = demo_kc, sink = empty_sqlite_sink, lock_db = sample_lock_db, senv = demo_env\<rparr>"

definition demo_request :: "string \<Rightarrow> string \<Rightarrow> bool \<Rightarrow> merge_request" where
  "demo_request s d x = \<lparr>req_survivor_user_id = s, req_duplicate_user_id = d, explicit_link = x,
     reason_note = None, req_actor = ''op''\<rparr>"

text \<open>
  The same API behind a connection that loses the response to every role removal: the role is
  gone, but the caller sees an exception. It still meets the contract.
\<close>

definition lossy_remove_role :: "string \<Rightarrow> role_mapping \<Rightarrow> (mock_kc, unit) action" where
  "lossy_remove_role u r m = (Inl (OtherError ''timeout''), snd (mock_remove_role_mapping u r m))"

definition lossy_api :: "mock_kc admin_api" where
  "lossy_api = mock_api\<lparr>api_remove_role_mapping := lossy_remove_role\<rparr>"

lemma lossy_laws: "keycloak_admin lossy_api mock_view mock_inv"
proof -
  have "changes_user mock_inv mock_view (api_remove_role_mapping lossy_api u r) u
      (kc_roles_update (\<lambda>R. R - {role_key r}))" for u r
    using mock.remove_role [of u r]
    unfolding changes_user_def lossy_api_def lossy_remove_role_def mock_api_def
    by (auto simp: mock_remove_role_mapping_def)
  then show ?thesis
    using mock.keycloak_admin_axioms unfolding keycloak_admin_def by (simp add: lossy_api_def)
qed

definition lossy_service :: "(mock_kc, sqlite_sink, sqlite_lock_db) service" where
  "lossy_service = demo_service\<lparr>api_of := lossy_api\<rparr>"

interpretation lossy: unification lossy_service mock_view mock_inv sqlite_events_for
  sqlite_trail sqlite_sink_inv "\<lambda>db. writer db \<noteq> None"
  unfolding unification_def lossy_service_def demo_service_def service.simps
  by (intro conjI lossy_laws sqlite.audit_sink_axioms sqlite_lock.user_operation_locks_axioms)

lemma demo_state_ok:
  "mock_inv (kc demo_state)" "sqlite_sink_inv (sink demo_state)"
  "writer (lock_db demo_state) = None"
  by (auto simp: demo_state_def demo_kc_def create_test_user_def mock_inv_def mock_user_def empty_mock_def
      sqlite_sink_inv_def empty_sqlite_sink_def sample_lock_db_def split: if_splits)

definition demo_survivor :: kc_user where
  "demo_survivor = \<lparr>kc_enabled = True, kc_email = Some ''A@x'', kc_verified = True,
     kc_attrs = (\<lambda>_. None), kc_links = {(''p'', ''1'')}, kc_roles = {(None, ''r'')}, kc_groups = {}\<rparr>"

definition demo_duplicate :: kc_user where
  "demo_duplicate = \<lparr>kc_enabled = True, kc_email = Some ''a@x'', kc_verified = True,
     kc_attrs = (\<lambda>_. None), kc_links = {(''q'', ''2'')}, kc_roles = {(None, ''w'')}, kc_groups = {''g''}\<rparr>"

lemma demo_view:
  "mock_view (kc demo_state) ''s'' = Some demo_survivor"
  "mock_view (kc demo_state) ''d'' = Some demo_duplicate"
  by (simp_all add: mock_view_def demo_state_def demo_kc_def create_test_user_def mock_user_def
      empty_mock_def demo_survivor_def demo_duplicate_def active_states_def demo_link_def link_key_def
      demo_role_def role_key_def demo_group_def)

lemma demo_may_merge: "may_merge demo_survivor demo_duplicate False"
proof -
  have "normalize_email (Some ''A@x'') = Some ''a@x''" "normalize_email (Some ''a@x'') = Some ''a@x''"
    by code_simp+
  then show ?thesis by (simp add: may_merge_def same_email_def demo_survivor_def demo_duplicate_def)
qed

end
