(* ===== verification/Retirement.thy ===== *)
theory Retirement
  imports Scim MockKeycloak
begin

text \<open>
  A merged-away account stays dead. The service's operations, merges and SCIM calls, run one after
  the other (they share the user-operation lock); whatever sequence of them runs, an account that
  carries the tombstone attribute and is disabled is never enabled again, keeps its pointer to the
  survivor and regains nothing.
\<close>

definition retired :: "string \<Rightarrow> kc_user \<Rightarrow> bool" where
  "retired survivor k \<longleftrightarrow> \<not> kc_enabled k \<and> kc_attrs k TOMBSTONE_ATTRIBUTE_KEY = Some survivor"

section \<open>Frames: an action that leaves one user alone\<close>

definition frames ::
  "('w \<Rightarrow> bool) \<Rightarrow> ('w \<Rightarrow> kc_view) \<Rightarrow> string \<Rightarrow> kc_user \<Rightarrow> ('w, 'k, 'l, 'a) svc_action \<Rightarrow> bool" where
  "frames winv view u k m \<longleftrightarrow> hoareA (sat winv view (\<lambda>V. V u = Some k)) m
     (\<lambda>_. sat winv view (\<lambda>V. V u = Some k)) (\<lambda>_. sat winv view (\<lambda>V. V u = Some k))"

named_theorems frame_rules \<open>actions that leave one user alone\<close>

lemma frames_basic [frame_rules]:
  "frames winv view u k (returnA x)" "frames winv view u k (raiseA e)" "frames winv view u k (liftA r)"
  unfolding frames_def by (auto simp: hoareA_def split: sum.splits)

lemma frames_bind [frame_rules]:
  "frames winv view u k m \<Longrightarrow> (\<And>x. frames winv view u k (f x)) \<Longrightarrow> frames winv view u k (bindA m f)"
  unfolding frames_def by (rule hoareA_bind)

lemma frames_catch:
  "frames winv view u k m \<Longrightarrow> (\<And>e. frames winv view u k (h e)) \<Longrightarrow> frames winv view u k (catchA m h)"
  unfolding frames_def by (rule hoareA_catch)

lemma frames_if [frame_rules]:
  "frames winv view u k m \<Longrightarrow> frames winv view u k m' \<Longrightarrow> frames winv view u k (if c then m else m')"
  by simp

lemma frames_fold [frame_rules]:
  "(\<And>x acc. frames winv view u k (f x acc)) \<Longrightarrow> frames winv view u k (foldA f xs acc)"
  unfolding frames_def by (rule hoareA_fold [where I = "\<lambda>_ _. sat winv view (\<lambda>V. V u = Some k)"])

lemma frames_for [frame_rules]:
  "(\<And>x. frames winv view u k (f x)) \<Longrightarrow> frames winv view u k (forA xs f)"
  unfolding frames_def by (rule hoareA_for)

lemma frames_emit [frame_rules]:
  "frames winv view u k (emitA svc i ty a x y p)" "frames winv view u k correlationA"
  unfolding frames_def by (rule hoare_emit hoare_correlation)+

lemma frames_read:
  assumes "reads_only winv view act T"
  shows "frames winv view u k (kcA act)"
  unfolding frames_def
  by (rule hoareA_conseq [OF hoare_read [where P = "\<lambda>V. V u = Some k" and R = "\<lambda>V. V u = Some k", OF assms]])
    (auto simp: sat_def)

lemma frames_change:
  assumes "changes_user winv view act v f" and "u = v \<Longrightarrow> f k = k"
  shows "frames winv view u k (kcA act)"
  unfolding frames_def
  by (rule hoare_change [OF assms(1)]) (use assms(2) in \<open>auto simp: change_user_def\<close>)

lemma frames_snd:
  assumes "frames winv view u k m" and "winv (kc \<sigma>)" and "view (kc \<sigma>) u = Some k"
  shows "winv (kc (snd (m \<sigma>))) \<and> view (kc (snd (m \<sigma>))) u = Some k"
  using hoareA_snd [OF assms(1) [unfolded frames_def], of \<sigma>] assms(2,3) by (simp add: sat_def)

lemma hoare_hold:
  assumes "hoareA (sat winv view P) body (\<lambda>_. sat winv view Q) (\<lambda>_. sat winv view R)" and "\<And>V. P V \<Longrightarrow> R V"
  shows "hoareA (sat winv view P) (hold ops lock_db lock_db_update ids body)
    (\<lambda>_. sat winv view Q) (\<lambda>_. sat winv view R)"
  unfolding hold_def
proof (rule hoareA_bind)
  show "hoareA (sat winv view P) (zoomA lock_db lock_db_update (lk_acquire ops ids))
      (\<lambda>_. sat winv view P) (\<lambda>_. sat winv view R)"
    by (intro hoareAI) (auto simp: sat_def assms(2) elim!: zoomA_cases)
  show "hoareA (sat winv view P) (finallyA body (lock_db_update (lk_release ops token)))
      (\<lambda>_. sat winv view Q) (\<lambda>_. sat winv view R)" for token
    by (intro hoareA_finally hoareA_conseq [OF assms(1)]) (simp_all add: sat_def)
qed

lemma frames_hold [frame_rules]:
  "frames winv view u k body \<Longrightarrow> frames winv view u k (hold ops lock_db lock_db_update ids body)"
  unfolding frames_def by (rule hoare_hold)

lemma frames_scim_locked [frame_rules]:
  assumes "frames winv view u k body"
  shows "frames winv view u k (scim_locked svc v body)"
  unfolding scim_locked_def
proof (rule frames_catch [OF frames_hold [OF assms]])
  show "frames winv view u k (case e of UserOperationLockTimeout _ \<Rightarrow>
      raiseA (scim_error 503 (quoted_user v @ '' is being modified; retry the request'')) | _ \<Rightarrow> raiseA e)" for e
    by (cases e) (simp_all only: exn.case frames_basic)
qed

section \<open>Every operation leaves a retired account alone\<close>

datatype service_op =
    OpMerge merge_request
  | OpCreate dict
  | OpGet string
  | OpSearch "string option"
  | OpReplace string dict
  | OpPatch string dict
  | OpDelete string

primrec run_op :: "('w, 'k, 'l) service \<Rightarrow> service_op \<Rightarrow> ('w, 'k, 'l) svc_state \<Rightarrow> ('w, 'k, 'l) svc_state" where
  "run_op svc (OpMerge request) \<sigma> = snd (merge_accounts svc request \<sigma>)"
| "run_op svc (OpCreate resource) \<sigma> = snd (scim_create_user svc resource \<sigma>)"
| "run_op svc (OpGet uid) \<sigma> = snd (scim_get_user svc uid \<sigma>)"
| "run_op svc (OpSearch scim_filter) \<sigma> = snd (scim_search_users svc scim_filter \<sigma>)"
| "run_op svc (OpReplace uid resource) \<sigma> = snd (scim_replace_user svc uid resource \<sigma>)"
| "run_op svc (OpPatch uid body) \<sigma> = snd (scim_patch_user svc uid body \<sigma>)"
| "run_op svc (OpDelete uid) \<sigma> = snd (scim_delete_user svc uid \<sigma>)"

locale provisioned_unification =
  unification svc view winv events_for trail sink_inv held +
  keycloak_provisioning "api_of svc" view winv
  for svc :: "('w, 'k, 'l) service" and view winv events_for trail sink_inv held
begin

lemmas frames_reads = frames_read [OF get_user] frames_read [OF list_links] frames_read [OF list_roles]
  frames_read [OF list_groups] frames_read [OF get_attribute] frames_read [OF find_by_username]

lemmas frames_writes = frames_change [OF add_link] frames_change [OF remove_link]
  frames_change [OF add_role] frames_change [OF remove_role] frames_change [OF add_group]
  frames_change [OF remove_group] frames_change [OF deactivate] frames_change [OF set_attribute]

lemma frames_get_or_404: "frames winv view u k (get_user_or_404 svc v)"
  unfolding get_user_or_404_def
proof (rule frames_catch [OF frames_reads(1)])
  show "frames winv view u k (case e of
      KeyError _ \<Rightarrow> raiseA (scim_error 404 (quoted_user v @ '' not found'')) | _ \<Rightarrow> raiseA e)" for e
    by (cases e) (simp_all only: exn.case frames_basic)
qed

lemma frames_merge_writes:
  assumes "u \<noteq> user_id x" and "u \<noteq> user_id y"
  shows "frames winv view u k (merge_writes svc request x y decision i)"
  unfolding merge_writes_def move_federated_identities_def move_role_mappings_def
    move_group_memberships_def move_link_def move_role_def move_group_def tombstone_def
    Let_def split_def
  by (intro frame_rules frames_reads frames_writes) (use assms in auto)

lemma frames_patch:
  assumes "\<not> kc_enabled k"
  shows "frames winv view u k (scim_patch_user svc v body)"
  unfolding scim_patch_user_def
  by (intro frame_rules frames_get_or_404 frames_reads frames_writes) (use assms in simp)

lemma frames_delete:
  assumes "\<not> kc_enabled k"
  shows "frames winv view u k (scim_delete_user svc v)"
  unfolding scim_delete_user_def
  by (intro frame_rules frames_get_or_404 frames_writes) (use assms in simp)

lemma frames_get: "frames winv view u k (scim_get_user svc v)"
  unfolding scim_get_user_def by (intro frame_rules frames_get_or_404)

lemma frames_search: "frames winv view u k (scim_search_users svc f)"
  unfolding scim_search_users_def
  by (intro frame_rules frames_reads; cases "split_space_2 (the f)" rule: list.exhaust)
    (auto intro!: frame_rules frames_reads split: list.splits)

lemma to_user_account_id: "to_user_account resource uid = Inr a \<Longrightarrow> user_id a = uid"
  by (auto simp: to_user_account_def Let_def bindR_eq_Inr)

lemma frames_create: "frames winv view u k (scim_create_user svc resource)"
proof -
  have create: "frames winv view u k (kcA (api_create_user (api_of svc) a))" if "user_id a = []" for a
    unfolding frames_def
  proof (intro hoareAI; elim kcA_cases)
    fix \<sigma> \<tau> x w
    assume "sat winv view (\<lambda>V. V u = Some k) \<sigma>" "api_create_user (api_of svc) a (kc \<sigma>) = (Inr x, w)"
      "\<tau> = \<sigma>\<lparr>kc := w\<rparr>"
    then show "sat winv view (\<lambda>V. V u = Some k) \<tau>"
      using create_user [of "kc \<sigma>" a x w] that by (auto simp: sat_def)
  next
    fix \<sigma> \<tau> e w
    assume "sat winv view (\<lambda>V. V u = Some k) \<sigma>" "api_create_user (api_of svc) a (kc \<sigma>) = (Inl e, w)"
      "\<tau> = \<sigma>\<lparr>kc := w\<rparr>"
    then show "sat winv view (\<lambda>V. V u = Some k) \<tau>"
      using create_user_fails [of "kc \<sigma>" a e w] that by (auto simp: sat_def)
  qed
  have "frames winv view u k (bindA (liftA (to_user_account resource [])) (\<lambda>account.
      bindA (kcA (api_create_user (api_of svc) account)) (\<lambda>uid.
      bindA (kcA (api_get_user (api_of svc) uid)) (\<lambda>created.
      returnA (scim_response (to_scim_resource created) 201)))))"
  proof (cases "to_user_account resource []")
    case (Inl e)
    then show ?thesis unfolding frames_def hoareA_def by simp
  next
    case (Inr a)
    then have "frames winv view u k (bindA (kcA (api_create_user (api_of svc) a)) (\<lambda>uid.
        bindA (kcA (api_get_user (api_of svc) uid)) (\<lambda>created.
        returnA (scim_response (to_scim_resource created) 201))))"
      by (intro frame_rules frames_reads create to_user_account_id)
    with Inr show ?thesis unfolding frames_def hoareA_def by simp
  qed
  then have "frames winv view u k (bindA (kcA (api_find_user_by_username (api_of svc) n)) (\<lambda>existing.
      if existing \<noteq> None then raiseA (scim_error 409 (quoted_user n @ '' already exists''))
      else bindA (liftA (to_user_account resource [])) (\<lambda>account.
        bindA (kcA (api_create_user (api_of svc) account)) (\<lambda>uid.
        bindA (kcA (api_get_user (api_of svc) uid)) (\<lambda>created.
        returnA (scim_response (to_scim_resource created) 201))))))" for n
    by (intro frames_bind [OF frames_reads(6)] frames_if frames_basic)
  then show ?thesis
    unfolding scim_create_user_def
    by (cases "dict_get resource ''userName''"; simp only: json.case) (intro frames_if frames_basic; assumption)+
qed

lemma frames_replace_other:
  assumes "u \<noteq> v"
  shows "frames winv view u k (kcA (api_replace_user (api_of svc) v a))"
  unfolding frames_def
proof (intro hoareAI; elim kcA_cases)
  show "sat winv view (\<lambda>V. V u = Some k) \<tau>"
    if "sat winv view (\<lambda>V. V u = Some k) \<sigma>" "api_replace_user (api_of svc) v a (kc \<sigma>) = (Inr x, w)"
      "\<tau> = \<sigma>\<lparr>kc := w\<rparr>" for \<sigma> \<tau> x w
    using replace_user [of "kc \<sigma>" v a "Inr x" w] that assms by (auto simp: sat_def)
  show "sat winv view (\<lambda>V. V u = Some k) \<tau>"
    if "sat winv view (\<lambda>V. V u = Some k) \<sigma>" "api_replace_user (api_of svc) v a (kc \<sigma>) = (Inl e, w)"
      "\<tau> = \<sigma>\<lparr>kc := w\<rparr>" for \<sigma> \<tau> e w
    using replace_user [of "kc \<sigma>" v a "Inl e" w] that assms by (auto simp: sat_def)
qed

text \<open>A replacement of a merged-away user is refused before anything is written.\<close>

lemma hoare_replace_refused:
  assumes "kc_attrs k TOMBSTONE_ATTRIBUTE_KEY = Some s" and "s \<noteq> []"
  shows "hoareA (sat winv view (\<lambda>V. V u = Some k)) (scim_replace_body svc u resource)
    (\<lambda>_ _. False) (\<lambda>_. sat winv view (\<lambda>V. V u = Some k))"
  unfolding scim_replace_body_def
proof (rule hoareA_bind [OF frames_get_or_404 [unfolded frames_def]],
    rule hoareA_bind [OF hoare_read [where R = "\<lambda>V. V u = Some k", OF get_attribute]])
  fix merged_into
  show "hoareA (sat winv view (\<lambda>V. V u = Some k \<and>
      (\<forall>k. V u = Some k \<longrightarrow> merged_into = kc_attrs k TOMBSTONE_ATTRIBUTE_KEY)))
    (if truthy_text merged_into
     then raiseA (scim_error 409 (quoted_user u @ '' has been merged into another account and cannot be modified''))
     else bindA (liftA (to_user_account resource u)) (\<lambda>account.
       bindA (kcA (api_replace_user (api_of svc) u account)) (\<lambda>_. kcA (api_get_user (api_of svc) u))))
    (\<lambda>_ _. False) (\<lambda>_. sat winv view (\<lambda>V. V u = Some k))"
    using assms
    by (cases "truthy_text merged_into")
      (auto simp: hoareA_def sat_def truthy_text_def)
qed simp

lemma frames_replace:
  assumes "kc_attrs k TOMBSTONE_ATTRIBUTE_KEY = Some s" and "s \<noteq> []"
  shows "frames winv view u k (scim_replace_user svc v resource)"
proof -
  have "frames winv view u k (scim_replace_body svc v resource)"
  proof (cases "v = u")
    case True
    show ?thesis
      unfolding frames_def True by (rule hoareA_conseq [OF hoare_replace_refused [OF assms]]) auto
  next
    case False
    then show ?thesis
      unfolding scim_replace_body_def
      by (intro frame_rules frames_get_or_404 frames_reads frames_replace_other) simp
  qed
  then show ?thesis
    unfolding scim_replace_user_def by (intro frame_rules)
qed

lemma hoare_merge_retired:
  assumes "V0 u = Some k" and "\<not> kc_enabled k"
  shows "hoareA (sat winv view (\<lambda>V. V = V0)) (merge_accounts_locked svc request)
    (\<lambda>_. sat winv view (\<lambda>V. V u = Some k)) (\<lambda>_. sat winv view (\<lambda>V. V u = Some k))"
  unfolding merge_accounts_locked_def Let_def
proof (intro hoareA_bind [OF hoare_load_user] hoareA_bind [OF hoare_read [OF list_links]])
  fix x y :: user_account and xs ys
  let ?s = "req_survivor_user_id request" and ?d = "req_duplicate_user_id request"
  let ?x = "x\<lparr>federated_identities := xs\<rparr>" and ?y = "y\<lparr>federated_identities := ys\<rparr>"
  let ?P = "\<lambda>V. (((V = V0 \<and> user_id x = ?s \<and> (\<exists>k. V ?s = Some k \<and> reports_user x k)) \<and>
    user_id y = ?d \<and> (\<exists>k. V ?d = Some k \<and> reports_user y k)) \<and>
    (\<forall>k. V (user_id x) = Some k \<longrightarrow> link_key ` set xs = kc_links k)) \<and>
    (\<forall>k. V (user_id y) = Some k \<longrightarrow> link_key ` set ys = kc_links k)"
  let ?rest = "bindA (liftA (merge_decision ?x ?y (explicit_link request))) (\<lambda>decision.
    bindA correlationA (\<lambda>i. merge_writes svc request ?x ?y decision i))"
  show "hoareA (sat winv view ?P) ?rest
    (\<lambda>_. sat winv view (\<lambda>V. V u = Some k)) (\<lambda>_. sat winv view (\<lambda>V. V u = Some k))"
  proof (rule hoareA_pure [where b = "?P V0"])
    assume P: "?P V0"
    have "frames winv view u k ?rest"
    proof (cases "merge_decision ?x ?y (explicit_link request)")
      case (Inl e)
      then show ?thesis unfolding frames_def hoareA_def by simp
    next
      case (Inr decision)
      then have "state x \<in> set active_states" "state y \<in> set active_states"
        using merge_decision_ok [of ?x ?y "explicit_link request"] by auto
      with P assms have "u \<noteq> user_id ?x" "u \<noteq> user_id ?y" by (auto simp: reports_user_def)
      then have "frames winv view u k (bindA correlationA (\<lambda>i. merge_writes svc request ?x ?y decision i))"
        by (intro frame_rules frames_merge_writes)
      with Inr show ?thesis unfolding frames_def hoareA_def by simp
    qed
    then show "hoareA (sat winv view ?P) ?rest
      (\<lambda>_. sat winv view (\<lambda>V. V u = Some k)) (\<lambda>_. sat winv view (\<lambda>V. V u = Some k))"
      unfolding frames_def by (rule hoareA_conseq) (use assms(1) in \<open>auto simp: sat_def\<close>)
  qed (auto simp: sat_def)
qed (use assms(1) in auto)

lemma merge_keeps_retired:
  assumes "view (kc \<sigma>) u = Some k" and "\<not> kc_enabled k" and "winv (kc \<sigma>)"
  shows "winv (kc (snd (merge_accounts svc request \<sigma>))) \<and>
    view (kc (snd (merge_accounts svc request \<sigma>))) u = Some k"
proof -
  have "sat winv view (\<lambda>V. V = view (kc \<sigma>)) \<sigma>" using assms(3) by (simp add: sat_def)
  moreover have "hoareA (sat winv view (\<lambda>V. V = view (kc \<sigma>))) (merge_accounts svc request)
    (\<lambda>_. sat winv view (\<lambda>V. V u = Some k)) (\<lambda>_. sat winv view (\<lambda>V. V u = Some k))"
  proof (cases "req_survivor_user_id request = req_duplicate_user_id request")
    case True
    then show ?thesis using assms(1) by (auto simp: merge_accounts_def hoareA_def sat_def)
  next
    case False
    have locked: "hoareA (sat winv view (\<lambda>V. V = view (kc \<sigma>))) (merge_accounts_locked svc request)
      (\<lambda>_. sat winv view (\<lambda>V. V u = Some k)) (\<lambda>_. sat winv view (\<lambda>V. V u = Some k))"
      using assms(1,2) by (intro hoare_merge_retired)
    show ?thesis
      unfolding merge_accounts_def if_not_P [OF False]
      by (rule hoare_hold [OF locked]) (simp add: assms(1))
  qed
  ultimately have "sat winv view (\<lambda>V. V u = Some k) (snd (merge_accounts svc request \<sigma>))"
    by (rule hoareA_snd [rotated])
  then show ?thesis by (simp add: sat_def)
qed

lemma run_op_retired:
  assumes "view (kc \<sigma>) u = Some k" and "retired s k" and "s \<noteq> []" and "winv (kc \<sigma>)"
  shows "winv (kc (run_op svc op \<sigma>)) \<and> view (kc (run_op svc op \<sigma>)) u = Some k"
proof -
  have frame: "winv (kc (snd (m \<sigma>))) \<and> view (kc (snd (m \<sigma>))) u = Some k"
    if "frames winv view u k m" for m :: "('w, 'k, 'l, http_response) svc_action"
    using frames_snd [OF that assms(4,1)] .
  have k: "\<not> kc_enabled k" "kc_attrs k TOMBSTONE_ATTRIBUTE_KEY = Some s"
    using assms(2) by (simp_all add: retired_def)
  show ?thesis
    by (cases op) (simp_all add: merge_keeps_retired [OF assms(1) k(1) assms(4)]
      frame frames_create frames_get frames_search frames_replace [OF k(2) assms(3)]
      frames_patch [OF k(1)] frames_delete [OF k(1)])
qed

lemma run_ops_retired:
  assumes "view (kc \<sigma>) u = Some k" and "retired s k" and "s \<noteq> []" and "winv (kc \<sigma>)"
  shows "winv (kc (fold (run_op svc) ops \<sigma>)) \<and> view (kc (fold (run_op svc) ops \<sigma>)) u = Some k"
  using assms(1,4)
proof (induction ops arbitrary: \<sigma>)
  case (Cons op ops)
  then show ?case using run_op_retired [OF Cons.prems(1) assms(2,3) Cons.prems(2), of op] by simp
qed simp

end

interpretation demo: provisioned_unification demo_service mock_view mock_inv sqlite_events_for
  sqlite_trail sqlite_sink_inv "\<lambda>db. writer db \<noteq> None"
  unfolding provisioned_unification_def unification_def
  unfolding demo_service_def service.simps
  by (intro conjI mock.keycloak_admin_axioms mock.keycloak_provisioning_axioms
      sqlite.audit_sink_axioms sqlite_lock.user_operation_locks_axioms)

end
