(* ===== verification/Merge_Theorems.thy ===== *)
theory Merge_Theorems
  imports Retirement
begin

text \<open>
  The theorems about merging, for every service whose collaborators meet their contracts, each
  applied to the repository's in-memory admin API with the SQLite sink and lock.
\<close>

abbreviation survivor_of :: "merge_request \<Rightarrow> string" where
  "survivor_of \<equiv> req_survivor_user_id"

abbreviation duplicate_of :: "merge_request \<Rightarrow> string" where
  "duplicate_of \<equiv> req_duplicate_user_id"

text \<open>Keycloak keeps at most one link per provider alias on a user.\<close>

definition one_link_per_provider :: "kc_view \<Rightarrow> string \<Rightarrow> bool" where
  "one_link_per_provider V u \<longleftrightarrow> (\<forall>k. V u = Some k \<longrightarrow> inj_on fst (kc_links k))"

lemma demo_one_link: "one_link_per_provider (mock_view (kc demo_state)) ''d''"
  by (simp add: one_link_per_provider_def demo_view demo_duplicate_def)

section \<open>What a merge does to Keycloak\<close>

text \<open>
  C1. A merge that returns has done exactly what its specification says: both users existed and the
  policy allowed the merge; the survivor has its own links, roles and groups plus the duplicate's
  (links only for providers it had no link to); the duplicate is disabled, stripped of links, roles
  and groups and stamped with the survivor's id; no other user has changed.
\<close>

theorem merge_refines_spec:
  assumes "unification svc view winv events_for trail sink_inv held"
    and "merge_accounts svc request \<sigma> = (Inr res, \<tau>)" and "winv (kc \<sigma>)"
    and "one_link_per_provider (view (kc \<sigma>)) (duplicate_of request)"
  shows "\<exists>ks kd. view (kc \<sigma>) (survivor_of request) = Some ks \<and> view (kc \<sigma>) (duplicate_of request) = Some kd \<and>
    may_merge ks kd (explicit_link request) \<and>
    view (kc \<tau>) = merge_spec (survivor_of request) (duplicate_of request) ks kd (view (kc \<sigma>))"
  using unification.merge_accounts_view [OF assms(1-3)] assms(4)
  by (simp add: one_link_per_provider_def merge_returned_def)

lemma demo_merge_returns: "\<exists>res \<tau>. merge_accounts demo_service (demo_request ''s'' ''d'' False) demo_state = (Inr res, \<tau>)"
proof -
  have "lk_acquire (locks_of demo_service) [''s'', ''d''] (lock_db demo_state) =
      (Inr 0, sample_lock_db\<lparr>writer := Some (0, ''d,s''), next_connection := 1\<rparr>)"
    by code_simp
  then show ?thesis
    using demo_may_merge
    by (intro demo.merge_accounts_returns demo_state_ok(1)) (simp_all add: demo_request_def demo_view)
qed

theorem merge_refines_spec_witness:
  "\<exists>res \<tau>. merge_accounts demo_service (demo_request ''s'' ''d'' False) demo_state = (Inr res, \<tau>) \<and>
     mock_view (kc \<tau>) = merge_spec ''s'' ''d'' demo_survivor demo_duplicate (mock_view (kc demo_state))"
proof -
  obtain res \<tau> where run: "merge_accounts demo_service (demo_request ''s'' ''d'' False) demo_state = (Inr res, \<tau>)"
    using demo_merge_returns by blast
  from merge_refines_spec [OF demo.unification_axioms run demo_state_ok(1)] demo_one_link
  show ?thesis using run by (auto simp: demo_request_def demo_view)
qed


lemma lossy_run:
  "fst (merge_accounts lossy_service (demo_request ''s'' ''d'' False) demo_state) = Inl (OtherError ''timeout'') \<and>
   mk_roles (kc (snd (merge_accounts lossy_service (demo_request ''s'' ''d'' False) demo_state))) ''d'' = [] \<and>
   map_option user_id (map_of (mk_users (kc (snd (merge_accounts lossy_service
     (demo_request ''s'' ''d'' False) demo_state)))) ''d'') = Some ''d''"
  by code_simp




text \<open>
  C4. A merge is final: once \<open>merge_accounts\<close> has returned, whatever sequence of further merges and
  SCIM requests (create, get, search, replace, patch, delete) the service runs, the duplicate stays
  exactly as the merge left it: disabled, stamped with the survivor's id, without links, roles or
  groups. In particular no SCIM replacement or patch brings it back.
\<close>

theorem merge_is_final:
  assumes "provisioned_unification svc view winv events_for trail sink_inv held"
    and "merge_accounts svc request \<sigma> = (Inr res, \<tau>)" and "winv (kc \<sigma>)"
    and "one_link_per_provider (view (kc \<sigma>)) (duplicate_of request)"
  shows "\<exists>kd. view (kc \<sigma>) (duplicate_of request) = Some kd \<and>
    view (kc (fold (run_op svc) ops \<tau>)) (duplicate_of request) = Some (tombstoned (survivor_of request) kd)"
proof -
  have u: "unification svc view winv events_for trail sink_inv held"
    using assms(1) by (simp add: provisioned_unification_def)
  from unification.merge_accounts_view [OF u assms(2,3)] assms(4) obtain ks kd
    where inv: "winv (kc \<tau>)" and kd: "view (kc \<sigma>) (duplicate_of request) = Some kd"
      and v: "view (kc \<tau>) = merge_spec (survivor_of request) (duplicate_of request) ks kd (view (kc \<sigma>))"
    by (auto simp: one_link_per_provider_def merge_returned_def)
  have "view (kc \<tau>) (duplicate_of request) = Some (tombstoned (survivor_of request) kd)"
    by (simp add: v merge_spec_def)
  moreover have "retired (survivor_of request) (tombstoned (survivor_of request) kd)"
    by (simp add: retired_def tombstoned_def)
  ultimately show ?thesis
    using provisioned_unification.run_ops_retired [OF assms(1) _ _ unification.merge_accounts_ids(1) [OF u assms(2)] inv]
      kd by blast
qed

theorem merge_is_final_witness:
  "\<exists>res \<tau>. merge_accounts demo_service (demo_request ''s'' ''d'' False) demo_state = (Inr res, \<tau>) \<and>
     mock_view (kc (run_op demo_service (OpReplace ''d'' [(''userName'', JStr ''eve''), (''active'', JBool True)]) \<tau>)) ''d''
       = Some (tombstoned ''s'' demo_duplicate)"
proof -
  obtain res \<tau> where run: "merge_accounts demo_service (demo_request ''s'' ''d'' False) demo_state = (Inr res, \<tau>)"
    using demo_merge_returns by blast
  have "one_link_per_provider (mock_view (kc demo_state)) (duplicate_of (demo_request ''s'' ''d'' False))"
    using demo_one_link by (simp add: demo_request_def)
  from merge_is_final [OF demo.provisioned_unification_axioms run demo_state_ok(1) this,
      of "[OpReplace ''d'' [(''userName'', JStr ''eve''), (''active'', JBool True)]]"]
  show ?thesis using run by (auto simp: demo_request_def demo_view)
qed

text \<open>
  C5. SCIM never touches a retired account: an account that is disabled and carries the tombstone
  attribute is left exactly as it is by every single SCIM or merge request, whichever user the
  request names and whatever its outcome.
\<close>

theorem retired_account_untouched:
  assumes "provisioned_unification svc view winv events_for trail sink_inv held"
    and "view (kc \<sigma>) u = Some k" and "retired s k" and "s \<noteq> []" and "winv (kc \<sigma>)"
  shows "view (kc (run_op svc op \<sigma>)) u = Some k"
  using provisioned_unification.run_op_retired [OF assms] by blast

definition retired_demo_kc :: mock_kc where
  "retired_demo_kc = snd (mock_deactivate_user ''d''
     (snd (mock_set_user_attribute ''d'' TOMBSTONE_ATTRIBUTE_KEY ''s'' demo_kc)))"

lemma retired_demo_view:
  "mock_view retired_demo_kc ''d'' = Some (demo_duplicate\<lparr>kc_enabled := False,
     kc_attrs := (\<lambda>_. None)(TOMBSTONE_ATTRIBUTE_KEY \<mapsto> ''s'')\<rparr>)"
  "mock_inv retired_demo_kc"
  by (auto simp: retired_demo_kc_def mock_deactivate_user_def mock_set_user_attribute_def called_def
      demo_kc_def create_test_user_def mock_user_def empty_mock_def mock_view_def mock_inv_def
      TOMBSTONE_ATTRIBUTE_KEY_def demo_duplicate_def active_states_def demo_link_def link_key_def
      demo_role_def role_key_def demo_group_def Let_def fun_eq_iff split: if_splits)

theorem retired_account_untouched_witness:
  "kc_enabled (the (mock_view (kc (run_op demo_service
     (OpReplace ''d'' [(''userName'', JStr ''eve'')]) (demo_state\<lparr>kc := retired_demo_kc\<rparr>))) ''d'')) = False"
  using retired_account_untouched [OF demo.provisioned_unification_axioms, where u = "''d''" and s = "''s''"
      and \<sigma> = "demo_state\<lparr>kc := retired_demo_kc\<rparr>" and op = "OpReplace ''d'' [(''userName'', JStr ''eve'')]"]
    retired_demo_view
  by (simp add: retired_def)

section \<open>What a merge leaves in the audit trail\<close>

text \<open>
  C8. The audit trail of a merge that returns: under the correlation id in the result, by the
  requesting actor and about these two users, it has appended \<open>merge_started\<close>, then one event per
  link, role and group it met (as many \<open>moved\<close> events as the result lists moved items and as many
  \<open>conflict\<close> events as it lists conflicts), then \<open>duplicate_tombstoned\<close> and \<open>merge_completed\<close>, and
  nothing else.
\<close>

theorem merge_audit_complete:
  assumes "unification svc view winv events_for trail sink_inv held"
    and "merge_accounts svc request \<sigma> = (Inr res, \<tau>)" and "winv (kc \<sigma>)" and "sink_inv (sink \<sigma>)"
  shows "\<exists>i es. res_audit_id res = Some i \<and> trail (sink \<tau>) = trail (sink \<sigma>) @ es \<and>
    complete_log res (map ev_event_type es) \<and>
    (\<forall>e\<in>set es. merge_event i (req_actor request) (survivor_of request) (duplicate_of request) e)"
  using unification.merge_accounts_log [OF assms] by (auto simp: logged_returned_def grown_def)

theorem merge_audit_complete_witness:
  "\<exists>res \<tau> es. merge_accounts demo_service (demo_request ''s'' ''d'' False) demo_state = (Inr res, \<tau>) \<and>
     sqlite_trail (sink \<tau>) = es \<and> complete_log res (map ev_event_type es) \<and>
     last (map ev_event_type es) = ''merge_completed''"
proof -
  let ?run = "merge_accounts demo_service (demo_request ''s'' ''d'' False) demo_state"
  obtain res \<tau> where run: "?run = (Inr res, \<tau>)" using demo_merge_returns by blast
  have "sqlite_trail (sink demo_state) = []"
    by (simp add: demo_state_def sqlite_trail_def empty_sqlite_sink_def)
  moreover obtain es where "sqlite_trail (sink \<tau>) = sqlite_trail (sink demo_state) @ es"
    "complete_log res (map ev_event_type es)"
    using merge_audit_complete [OF demo.unification_axioms run demo_state_ok(1,2)] by blast
  moreover from this have "last (map ev_event_type es) = ''merge_completed''"
    by (auto simp: complete_log_def simp del: last_map)
  ultimately show ?thesis using run by (intro exI [of _ res] exI [of _ \<tau>] exI [of _ es]) simp
qed

text \<open>
  C9. A merge that raises never claims to be complete: what it has appended to the trail, if
  anything, starts with \<open>merge_started\<close>, contains no \<open>merge_completed\<close>, and belongs to one
  correlation id, the requesting actor and these two users.
\<close>

theorem merge_audit_raised:
  assumes "unification svc view winv events_for trail sink_inv held"
    and "merge_accounts svc request \<sigma> = (Inl e, \<tau>)" and "winv (kc \<sigma>)" and "sink_inv (sink \<sigma>)"
  shows "\<exists>i es. trail (sink \<tau>) = trail (sink \<sigma>) @ es \<and> partial_log (map ev_event_type es) \<and>
    (\<forall>ev\<in>set es. merge_event i (req_actor request) (survivor_of request) (duplicate_of request) ev)"
  using unification.merge_accounts_log [OF assms]
  by (auto simp: logged_raised_def quiet_def raised_log_def grown_def partial_log_def)

theorem merge_audit_raised_witness:
  "\<exists>\<tau> es. merge_accounts lossy_service (demo_request ''s'' ''d'' False) demo_state
       = (Inl (OtherError ''timeout''), \<tau>) \<and> sqlite_trail (sink \<tau>) = es \<and>
     partial_log (map ev_event_type es)"
proof -
  let ?run = "merge_accounts lossy_service (demo_request ''s'' ''d'' False) demo_state"
  obtain \<tau> where run: "?run = (Inl (OtherError ''timeout''), \<tau>)"
    using lossy_run by (cases ?run) auto
  have "sqlite_trail (sink demo_state) = []"
    by (simp add: demo_state_def sqlite_trail_def empty_sqlite_sink_def)
  then show ?thesis
    using merge_audit_raised [OF lossy.unification_axioms run demo_state_ok(1,2)] run by auto
qed

section \<open>Locks and termination\<close>

text \<open>
  C10. Whatever the outcome, \<open>merge_accounts\<close> gives the user-operation lock back: it is held
  afterwards exactly if it was held before.
\<close>

theorem merge_releases_lock:
  assumes "unification svc view winv events_for trail sink_inv held"
    and "merge_accounts svc request \<sigma> = (r, \<tau>)"
  shows "held (lock_db \<tau>) = held (lock_db \<sigma>)"
  using unification.merge_accounts_releases [OF assms] .

theorem merge_releases_lock_witness:
  "writer (lock_db (snd (merge_accounts lossy_service (demo_request ''s'' ''d'' False) demo_state))) = None"
  using merge_releases_lock [OF lossy.unification_axioms, of "demo_request ''s'' ''d'' False" demo_state]
    demo_state_ok(3) by (metis prod.collapse)



section \<open>The guards\<close>

text \<open>
  C6. The guards of a merge, branch by branch: an inactive survivor, then an inactive duplicate, is
  refused; then a pair whose only tie is an email that is not verified on both sides, whether or
  not the operator asserts a link; then a pair with no tie; every other pair is decided by the
  matching rules.
\<close>

theorem merge_guards:
  "merge_decision a b x =
     (if state a \<notin> {''active'', ''enabled''}
      then Inl (InactiveAccountError (''user '' @ user_id a @ '' is not active ('' @ state a @ '')''))
      else if state b \<notin> {''active'', ''enabled''}
      then Inl (InactiveAccountError (''user '' @ user_id b @ '' is not active ('' @ state b @ '')''))
      else if \<not> common_link a b \<and> same_email (email a) (email b) \<and> \<not> (is_email_verified a \<and> is_email_verified b)
      then Inl (UnverifiedEmailMergeError ''refusing merge: accounts share only an UNVERIFIED email'')
      else if \<not> common_link a b \<and> \<not> same_email (email a) (email b) \<and> \<not> x
      then Inl (NoMatchError ''no exact idp subject, no matching verified email, no explicit link'')
      else Inr (decide_match a b x))"
  by (rule merge_decision_cases)

end
