(* ===== verification/Identifiers.thy ===== *)
theory Identifiers
  imports Prelude
begin

text \<open>
  Opaque path segments: \<open>app/identifiers.py\<close> (\<open>validate_path_segment\<close>) and the router
  dependencies of \<open>app/path_security.py\<close> that apply it to every decoded path parameter.
  The properties show that an accepted segment is exactly one segment of a path: it survives
  being joined into a URL path and split out again, next to any other accepted segments.
\<close>

definition max_identifier_length :: nat where
  "max_identifier_length = 255"

definition forbidden_identifier_characters :: "char list" where
  "forbidden_identifier_characters = [CHR ''/'', CHR 0x5C, CHR ''%'', CHR ''?'', CHR ''#'']"

primrec check_segment_characters :: "string \<Rightarrow> string \<Rightarrow> unit result" where
  "check_segment_characters field_name [] = Inr ()"
| "check_segment_characters field_name (character # rest) =
     (if character \<in> set forbidden_identifier_characters
      then Inl (InvalidIdentifierError (field_name @
             '' must not contain path, encoding, query, or fragment delimiters''))
      else if is_control_char character
      then Inl (InvalidIdentifierError (field_name @ '' must not contain control characters''))
      else check_segment_characters field_name rest)"

definition validate_path_segment :: "string \<Rightarrow> string \<Rightarrow> string result" where
  "validate_path_segment value field_name =
     (if value = [] then Inl (InvalidIdentifierError (field_name @ '' must be a non-empty string''))
      else if length value > max_identifier_length
      then Inl (InvalidIdentifierError (field_name @ '' is too long''))
      else if value \<in> {''.'', ''..''}
      then Inl (InvalidIdentifierError (field_name @ '' must not be a path navigation token''))
      else bindR (check_segment_characters field_name value) (\<lambda>_. Inr value))"

text \<open>
  The router dependencies: every decoded path parameter, in order; a violation is HTTP 400 on
  the admin routers and a \<open>ScimPathValidationError\<close> on the SCIM router.
\<close>

definition validate_path_parameters :: "(string \<times> string) list \<Rightarrow> unit result" where
  "validate_path_parameters path_params =
     forR path_params (\<lambda>(field_name, value).
       bindR (validate_path_segment value field_name) (\<lambda>_. Inr ()))"

definition require_safe_admin_path_parameters :: "(string \<times> string) list \<Rightarrow> unit result" where
  "require_safe_admin_path_parameters path_params =
     (case validate_path_parameters path_params of
        Inl (InvalidIdentifierError detail) \<Rightarrow> Inl (HTTPException 400 detail)
      | r \<Rightarrow> r)"

definition require_safe_scim_path_parameters :: "(string \<times> string) list \<Rightarrow> unit result" where
  "require_safe_scim_path_parameters path_params =
     (case validate_path_parameters path_params of
        Inl (InvalidIdentifierError detail) \<Rightarrow> Inl (ScimPathValidationError detail)
      | r \<Rightarrow> r)"

text \<open>What an accepted segment is, as one predicate.\<close>

definition safe_segment :: "string \<Rightarrow> bool" where
  "safe_segment s \<longleftrightarrow> s \<noteq> [] \<and> length s \<le> max_identifier_length \<and> s \<noteq> ''.'' \<and> s \<noteq> ''..'' \<and>
     list_all (\<lambda>c. c \<notin> set forbidden_identifier_characters \<and> \<not> is_control_char c) s"

lemma check_segment_characters_ok [simp]:
  "check_segment_characters f s = Inr u \<longleftrightarrow>
     list_all (\<lambda>c. c \<notin> set forbidden_identifier_characters \<and> \<not> is_control_char c) s"
  by (induction s) auto

lemma check_segment_characters_error:
  "check_segment_characters f s = Inl e \<Longrightarrow> \<exists>m. e = InvalidIdentifierError m"
  by (induction s) (auto split: if_splits)

lemma validate_path_segment_eq:
  "validate_path_segment s f = Inr v \<longleftrightarrow> safe_segment s \<and> v = s"
  by (auto simp: validate_path_segment_def safe_segment_def bindR_eq_Inr)

lemma validate_path_segment_error:
  "validate_path_segment s f = Inl e \<Longrightarrow> \<exists>m. e = InvalidIdentifierError m"
  by (auto simp: validate_path_segment_def bindR_eq_Inl split: if_splits
      dest: check_segment_characters_error)

lemma safe_segment_valid [simp]: "safe_segment s \<Longrightarrow> validate_path_segment s f = Inr s"
  by (simp add: validate_path_segment_eq)

lemma unsafe_segment_invalid:
  "\<not> safe_segment s \<Longrightarrow> \<exists>m. validate_path_segment s f = Inl (InvalidIdentifierError m)"
  using validate_path_segment_eq [of s f] validate_path_segment_error [of s f]
  by (cases "validate_path_segment s f") auto

lemma safe_segment_chars:
  assumes "safe_segment s" and "c \<in> set s"
  shows "c \<noteq> CHR ''/''" "c \<noteq> CHR 0x5C" "c \<noteq> CHR ''%''" "c \<noteq> CHR ''?''" "c \<noteq> CHR ''#''"
    "\<not> is_control_char c"
  using assms by (auto simp: safe_segment_def forbidden_identifier_characters_def list_all_iff)

lemma safe_segment_no_slash: "safe_segment s \<Longrightarrow> CHR ''/'' \<notin> set s"
  using safe_segment_chars(1) by blast

lemma validate_path_parameters_ok:
  "validate_path_parameters ps = Inr u \<longleftrightarrow> (\<forall>(f, v)\<in>set ps. safe_segment v)"
  by (auto simp: validate_path_parameters_def forR_ok okR_iff bindR_eq_Inr validate_path_segment_eq)

lemma validate_path_parameters_error:
  "validate_path_parameters ps = Inl e \<Longrightarrow> \<exists>m. e = InvalidIdentifierError m"
  unfolding validate_path_parameters_def
  by (induction ps) (auto simp: bindR_eq_Inl dest: validate_path_segment_error)

text \<open>
  A path assembled from accepted segments splits back into exactly those segments: no
  accepted identifier can add, remove or rewrite a segment of an Admin REST path.
\<close>

theorem accepted_segments_split_back:
  assumes "segments \<noteq> []"
    and "\<forall>s\<in>set segments. okR (validate_path_segment s f)"
  shows "split_char (CHR ''/'') (CHR ''/'' # join_char (CHR ''/'') segments) = [] # segments
       \<and> ''..'' \<notin> set segments \<and> ''.'' \<notin> set segments \<and> [] \<notin> set segments"
proof -
  have safe: "safe_segment s" if "s \<in> set segments" for s
    using assms(2) that by (auto simp: okR_iff validate_path_segment_eq)
  then have "split_char (CHR ''/'') (join_char (CHR ''/'') segments) = segments"
    using assms(1) safe_segment_no_slash by (intro split_join_char) auto
  then show ?thesis
    using safe by (auto simp: safe_segment_def)
qed

theorem accepted_segments_split_back_witness:
  "split_char (CHR ''/'') (CHR ''/'' # join_char (CHR ''/'') [''users'', ''a.b-1''])
     = [[], ''users'', ''a.b-1'']"
proof -
  have "\<forall>s\<in>set [''users'', ''a.b-1'']. okR (validate_path_segment s ''id'')"
    by code_simp
  from accepted_segments_split_back [OF _ this] show ?thesis by simp
qed

end
