(* ===== verification/Auth.thy ===== *)
theory Auth
  imports Identifiers
begin

text \<open>
  The operator bearer-token gate of \<open>app/auth.py\<close> and how \<open>app/main.py\<close> puts the gate, the path
  check of \<open>app/path_security.py\<close> and a handler together on every privileged router.
\<close>

section \<open>The operator token\<close>

text \<open>\<open>hmac.compare_digest\<close> on two texts: it accepts ASCII only.\<close>

definition compare_digest :: "string \<Rightarrow> string \<Rightarrow> bool result" where
  "compare_digest a b =
     (if isascii a \<and> isascii b then Inr (a = b)
      else Inl (TypeError ''comparing strings with non-ASCII characters is not supported''))"

text \<open>The bearer gate, shared in shape by the operator and the registration surface.\<close>

definition bearer_gate ::
  "string \<Rightarrow> string \<Rightarrow> string \<Rightarrow> string option \<Rightarrow> string option \<Rightarrow> unit result" where
  "bearer_gate unavailable required invalid expected authorization =
     (if \<not> truthy_text expected then Inl (HTTPException 503 unavailable)
      else if \<not> truthy_text authorization \<or> \<not> startswith (the authorization) ''Bearer ''
      then Inl (HTTPException 401 required)
      else
        let presented = strip (drop (length ''Bearer '') (the authorization)) in
        bindR (compare_digest presented (the expected)) (\<lambda>same.
        if same then Inr () else Inl (HTTPException 403 invalid)))"

definition require_operator_token :: "string option \<Rightarrow> string option \<Rightarrow> unit result" where
  "require_operator_token expected authorization =
     bearer_gate ''operator authentication unavailable'' ''operator bearer token required''
       ''invalid operator token'' expected authorization"

section \<open>The privileged routers\<close>

text \<open>Every privileged router runs the token gate, then the path check, then the handler.\<close>

definition privileged ::
  "string option \<Rightarrow> string option \<Rightarrow> (string \<times> string) list \<Rightarrow> ('s, 'a) action \<Rightarrow> ('s, 'a) action" where
  "privileged expected authorization path_params handler =
     bindA (liftA (require_operator_token expected authorization)) (\<lambda>_.
     bindA (liftA (require_safe_admin_path_parameters path_params)) (\<lambda>_. handler))"

definition scim_privileged ::
  "string option \<Rightarrow> string option \<Rightarrow> (string \<times> string) list \<Rightarrow> ('s, 'a) action \<Rightarrow> ('s, 'a) action" where
  "scim_privileged expected authorization path_params handler =
     bindA (liftA (require_operator_token expected authorization)) (\<lambda>_.
     bindA (liftA (require_safe_scim_path_parameters path_params)) (\<lambda>_. handler))"

section \<open>Properties\<close>

lemma bearer_gate_ok:
  "bearer_gate a b c expected authorization = Inr u \<longleftrightarrow>
     (\<exists>token rest. expected = Some token \<and> token \<noteq> [] \<and> authorization = Some (''Bearer '' @ rest) \<and>
        strip rest = token \<and> isascii token)"
  unfolding bearer_gate_def Let_def compare_digest_def
  by (cases expected; cases authorization)
    (auto simp: truthy_text_def startswith_def prefix_def bindR_eq_Inr split: if_splits)

text \<open>
  C11. The privileged surface is closed: a handler runs only when an operator token is configured and
  the request presents exactly that token as a bearer token, and every path parameter is one safe
  path segment; otherwise nothing is called and the state is untouched.
\<close>

theorem privileged_requires_token:
  "if (\<exists>token rest. expected = Some token \<and> token \<noteq> [] \<and> authorization = Some (''Bearer '' @ rest) \<and>
         strip rest = token \<and> isascii token) \<and> list_all (\<lambda>p. safe_segment (snd p)) params
   then privileged expected authorization params handler s = handler s
     \<and> scim_privileged expected authorization params handler s = handler s
   else (\<exists>e. privileged expected authorization params handler s = (Inl e, s) \<and>
           (e = TypeError ''comparing strings with non-ASCII characters is not supported'' \<or>
            (\<exists>status detail. e = HTTPException status detail \<and> status \<in> {400, 401, 403, 503})))
     \<and> (\<exists>e. scim_privileged expected authorization params handler s = (Inl e, s))"
proof -
  have gate: "(\<exists>token rest. expected = Some token \<and> token \<noteq> [] \<and> authorization = Some (''Bearer '' @ rest) \<and>
      strip rest = token \<and> isascii token) \<longleftrightarrow> require_operator_token expected authorization = Inr ()"
    unfolding require_operator_token_def bearer_gate_ok ..
  have path: "list_all (\<lambda>p. safe_segment (snd p)) params \<longleftrightarrow> validate_path_parameters params = Inr ()"
    by (auto simp: validate_path_parameters_ok list_all_iff)
  have gate_error: "e = TypeError ''comparing strings with non-ASCII characters is not supported'' \<or>
      (\<exists>status detail. e = HTTPException status detail \<and> status \<in> {401, 403, 503})"
    if "require_operator_token expected authorization = Inl e" for e
    using that by (auto simp: require_operator_token_def bearer_gate_def compare_digest_def Let_def split: if_splits)
  show ?thesis
  proof (cases "require_operator_token expected authorization")
    case (Inl e)
    then show ?thesis
      unfolding gate using gate_error [OF Inl] by (auto simp: privileged_def scim_privileged_def)
  next
    case (Inr u)
    then show ?thesis
      unfolding gate path
      using validate_path_parameters_error [of params]
      by (cases "validate_path_parameters params")
        (auto simp: privileged_def scim_privileged_def require_safe_admin_path_parameters_def
          require_safe_scim_path_parameters_def)
  qed
qed

end
