(* ===== verification/Routes.thy ===== *)
theory Routes
  imports Merge_Theorems Auth
begin

text \<open>
  The HTTP layer of the unification service: the four routes of \<open>app/api.py\<close> with their mapping
  from domain errors to status codes. An exception that no handler maps is what the framework
  answers with status 500.
\<close>

section \<open>Domain errors and status codes\<close>

definition not_found_404 :: "exn \<Rightarrow> exn" where
  "not_found_404 e = (case e of UserNotFoundError detail \<Rightarrow> HTTPException 404 detail | _ \<Rightarrow> e)"

definition merge_error_status :: "exn \<Rightarrow> exn" where
  "merge_error_status e = (case e of
      UserNotFoundError detail \<Rightarrow> HTTPException 404 detail
    | SameUserError detail \<Rightarrow> HTTPException 400 detail
    | UnverifiedEmailMergeError detail \<Rightarrow> HTTPException 422 detail
    | NoMatchError detail \<Rightarrow> HTTPException 409 detail
    | InactiveAccountError detail \<Rightarrow> HTTPException 409 detail
    | UserOperationLockTimeout _ \<Rightarrow>
        HTTPException 503 ''one of the requested accounts is being modified; retry''
    | _ \<Rightarrow> e)"

definition get_user_route :: "('w, 'k, 'l) service \<Rightarrow> string \<Rightarrow> ('w, 'k, 'l, user_account) svc_action" where
  "get_user_route svc uid = catchA (get_account svc uid) (\<lambda>e. raiseA (not_found_404 e))"

definition list_identities_route ::
  "('w, 'k, 'l) service \<Rightarrow> string \<Rightarrow> ('w, 'k, 'l, federated_identity list) svc_action" where
  "list_identities_route svc uid = catchA (list_identities svc uid) (\<lambda>e. raiseA (not_found_404 e))"

definition merge_route ::
  "('w, 'k, 'l) service \<Rightarrow> merge_request \<Rightarrow> ('w, 'k, 'l, merge_result) svc_action" where
  "merge_route svc body = catchA (merge_accounts svc body) (\<lambda>e. raiseA (merge_error_status e))"

text \<open>
  The audit route: the events of one correlation id, rendered as JSON objects. How a time is
  rendered (the \<open>repr\<close> of a float) is a parameter.
\<close>

definition event_json :: "(rat \<Rightarrow> json) \<Rightarrow> audit_event \<Rightarrow> dict" where
  "event_json render_time event =
     [(''audit_id'', JStr (ev_audit_id event)), (''event_type'', JStr (ev_event_type event)),
      (''actor'', JStr (ev_actor event)),
      (''survivor_user_id'', opt_str (ev_survivor_user_id event)),
      (''duplicate_user_id'', opt_str (ev_duplicate_user_id event)),
      (''payload_json'', JStr (ev_payload_json event)),
      (''created_at'', render_time (ev_created_at event))]"

definition get_merge_audit ::
  "(string \<Rightarrow> 'k \<Rightarrow> audit_event list) \<Rightarrow> (rat \<Rightarrow> json) \<Rightarrow> string \<Rightarrow> 'k \<Rightarrow> dict list result" where
  "get_merge_audit events_for render_time audit_id sink_state =
     (let events = events_for audit_id sink_state in
      if events = [] then Inl (HTTPException 404 ''no audit events for id'')
      else Inr (map (event_json render_time) events))"

section \<open>Properties\<close>

text \<open>
  C11. What a refused merge answers: with both users present, the API answering and the lock free,
  \<open>POST /merges\<close> answers 409 when one of the two accounts is inactive, 422 when they are active but
  tied by nothing but an email not verified on both sides, and 409 when nothing ties them.
\<close>

theorem merge_route_refusal_status:
  assumes "available_unification svc view winv events_for trail sink_inv held"
    and "winv (kc \<sigma>)" and "view (kc \<sigma>) (survivor_of request) = Some ks"
    and "view (kc \<sigma>) (duplicate_of request) = Some kd" and "\<not> may_merge ks kd (explicit_link request)"
    and "survivor_of request \<noteq> duplicate_of request"
    and "lk_acquire (locks_of svc) [survivor_of request, duplicate_of request] (lock_db \<sigma>) = (Inr token, l)"
  shows "\<exists>detail. fst (merge_route svc request \<sigma>) = Inl (HTTPException
    (if kc_enabled ks \<and> kc_enabled kd \<and> same_email (kc_email ks) (kc_email kd) then 422 else 409) detail)"
proof -
  from available_unification.merge_accounts_refusal [OF assms] obtain e \<tau>
    where "merge_accounts svc request \<sigma> = (Inl e, \<tau>)" and "refusal_of ks kd e" by blast
  then show ?thesis
    by (cases e) (auto simp: merge_route_def merge_error_status_def refusal_of_def)
qed

text \<open>The operator asserts a link between users that share an email only one of them has verified.\<close>

definition unverified_kc :: mock_kc where
  "unverified_kc = create_test_user ''s'' (Some ''a@x'') True [] [] []
     (create_test_user ''d'' (Some ''a@x'') False [] [] [] empty_mock)"

theorem merge_route_refusal_status_witness:
  "\<exists>detail. fst (merge_route demo_service (demo_request ''s'' ''d'' True) (demo_state\<lparr>kc := unverified_kc\<rparr>))
     = Inl (HTTPException 422 detail)"
proof -
  let ?k = "\<lambda>v. \<lparr>kc_enabled = True, kc_email = Some ''a@x'', kc_verified = v, kc_attrs = (\<lambda>_. None),
    kc_links = {}, kc_roles = {}, kc_groups = {}\<rparr>"
  have view: "mock_inv unverified_kc" "mock_view unverified_kc ''s'' = Some (?k True)"
      "mock_view unverified_kc ''d'' = Some (?k False)"
    by (auto simp: unverified_kc_def create_test_user_def mock_user_def empty_mock_def mock_view_def
        mock_inv_def active_states_def split: if_splits)
  have "normalize_email (Some ''a@x'') = Some ''a@x''" by code_simp
  then have same: "same_email (Some ''a@x'') (Some ''a@x'')" by (simp add: same_email_def)
  have "lk_acquire (locks_of demo_service) [''s'', ''d''] (lock_db demo_state) =
      (Inr 0, sample_lock_db\<lparr>writer := Some (0, ''d,s''), next_connection := 1\<rparr>)"
    by code_simp
  then show ?thesis
    using merge_route_refusal_status [OF demo.available_unification_axioms,
        of "demo_state\<lparr>kc := unverified_kc\<rparr>" "demo_request ''s'' ''d'' True" "?k True" "?k False" 0] view same
    by (simp add: demo_request_def may_merge_def)
qed

end
