(* ===== verification/Registration.thy ===== *)
theory Registration
  imports Auth KeycloakApi
begin

text \<open>
  Passwordless self-registration, \<open>app/registration.py\<close>: the bearer gate, the fixed-window rate
  limiter, the checks of the submitted data, and the handler that creates an account, asks
  Keycloak to send the enrolment email, and rolls the account back if that fails.
\<close>

definition VERIFY_EMAIL_REQUIRED_ACTION :: string where
  "VERIFY_EMAIL_REQUIRED_ACTION = ''VERIFY_EMAIL''"

definition PASSKEY_ENROLL_REQUIRED_ACTION :: string where
  "PASSKEY_ENROLL_REQUIRED_ACTION = ''webauthn-register-passwordless''"

definition EMAIL_MAX_LENGTH :: nat where
  "EMAIL_MAX_LENGTH = 254"

definition NAME_MAX_LENGTH :: nat where
  "NAME_MAX_LENGTH = 100"

definition LOCAL_ATOM_PUNCTUATION :: string where
  "LOCAL_ATOM_PUNCTUATION = ''!#$%&'' @ CHR 0x27 # ''*+-/=?^_`{|}~.''"

definition REGISTRATION_RATE_LIMIT_WINDOW_SECONDS :: rat where
  "REGISTRATION_RATE_LIMIT_WINDOW_SECONDS = 300"

definition REGISTRATION_RATE_LIMIT_MAX_ATTEMPTS :: nat where
  "REGISTRATION_RATE_LIMIT_MAX_ATTEMPTS = 30"

record registration_request =
  reg_email_address :: string
  reg_first_name :: "string option"
  reg_last_name :: "string option"

text \<open>The bounds pydantic checks before the handler runs.\<close>

definition registration_request_ok :: "registration_request \<Rightarrow> bool" where
  "registration_request_ok body \<longleftrightarrow>
     3 \<le> length (reg_email_address body) \<and> length (reg_email_address body) \<le> EMAIL_MAX_LENGTH \<and>
     (case reg_first_name body of None \<Rightarrow> True | Some n \<Rightarrow> length n \<le> NAME_MAX_LENGTH) \<and>
     (case reg_last_name body of None \<Rightarrow> True | Some n \<Rightarrow> length n \<le> NAME_MAX_LENGTH)"

record registration_result =
  account_id :: string
  result_email_address :: string

definition require_registration_token :: "string option \<Rightarrow> string option \<Rightarrow> unit result" where
  "require_registration_token expected authorization =
     bearer_gate ''registration authentication unavailable'' ''registration bearer token required''
       ''invalid registration token'' expected authorization"

section \<open>The rate limiter\<close>

type_synonym attempt_windows = "string \<Rightarrow> (rat \<times> nat) option"

definition record_registration_attempt :: "string \<Rightarrow> rat \<Rightarrow> (attempt_windows, unit) action" where
  "record_registration_attempt client_key now windows =
     (let (window_start, attempt_count) =
            (case windows client_key of None \<Rightarrow> (now, 0) | Some w \<Rightarrow> w);
          (window_start, attempt_count) =
            (if now - window_start > REGISTRATION_RATE_LIMIT_WINDOW_SECONDS then (now, 0)
             else (window_start, attempt_count));
          attempt_count = attempt_count + 1;
          windows' = windows(client_key \<mapsto> (window_start, attempt_count))
      in if attempt_count > REGISTRATION_RATE_LIMIT_MAX_ATTEMPTS
         then (Inl (HTTPException 429 ''registration temporarily rate limited''), windows')
         else (Inr (), windows'))"

definition reset_rate_limit_state :: "(attempt_windows, unit) action" where
  "reset_rate_limit_state = modifyA (\<lambda>_. Map.empty)"

lemma attempt_after_reset: "fst (bindA reset_rate_limit_state (\<lambda>_. record_registration_attempt client_key now) windows) = Inr ()"
  by (simp add: reset_rate_limit_state_def record_registration_attempt_def REGISTRATION_RATE_LIMIT_MAX_ATTEMPTS_def
      REGISTRATION_RATE_LIMIT_WINDOW_SECONDS_def)

section \<open>Checks on the submitted data\<close>

definition valid_local_part :: "string \<Rightarrow> bool" where
  "valid_local_part local_part \<longleftrightarrow>
     local_part \<noteq> [] \<and> \<not> startswith local_part ''.'' \<and> \<not> endswith local_part ''.'' \<and>
     \<not> contains ''..'' local_part \<and>
     list_all (\<lambda>c. isalnum_char c \<or> c \<in> set LOCAL_ATOM_PUNCTUATION) local_part"

definition valid_domain_label :: "string \<Rightarrow> bool" where
  "valid_domain_label label \<longleftrightarrow>
     1 \<le> length label \<and> length label \<le> 63 \<and> \<not> startswith label ''-'' \<and> \<not> endswith label ''-'' \<and>
     list_all (\<lambda>c. isalnum_char c \<or> c = CHR ''-'') label"

definition has_valid_email_shape :: "string \<Rightarrow> bool" where
  "has_valid_email_shape email_address =
     (if count_list email_address (CHR ''@'') \<noteq> 1 \<or> list_ex isspace_char email_address then False
      else
        let local_part = takeWhile (\<lambda>c. c \<noteq> CHR ''@'') email_address;
            domain_part = drop 1 (dropWhile (\<lambda>c. c \<noteq> CHR ''@'') email_address)
        in if \<not> valid_local_part local_part then False
           else if domain_part = [] \<or> CHR ''.'' \<notin> set domain_part \<or> startswith domain_part ''.'' \<or>
              endswith domain_part ''.'' \<or> contains ''..'' domain_part then False
           else list_all valid_domain_label (split_char (CHR ''.'') domain_part))"

definition validated_email :: "string \<Rightarrow> string result" where
  "validated_email raw_email =
     (let email_address = lower (strip raw_email) in
      if length email_address > EMAIL_MAX_LENGTH \<or> list_ex is_control_char email_address \<or>
         \<not> has_valid_email_shape email_address
      then Inl (HTTPException 422 ''invalid_email_address'')
      else Inr email_address)"

definition validated_name :: "string option \<Rightarrow> string option result" where
  "validated_name raw_name =
     (case raw_name of
        None \<Rightarrow> Inr None
      | Some raw \<Rightarrow>
          let candidate = strip raw in
          if candidate = [] then Inr None
          else if list_ex is_control_char candidate then Inl (HTTPException 422 ''invalid_name'')
          else Inr (Some candidate))"

section \<open>The handler\<close>

text \<open>\<open>ProductAdminApi\<close> adds two calls to the admin API.\<close>

record 'w product_api = "'w admin_api" +
  api_send_execute_actions_email :: "string \<Rightarrow> string list \<Rightarrow> string \<Rightarrow> string \<Rightarrow> int \<Rightarrow> ('w, unit) action"
  api_delete_user :: "string \<Rightarrow> ('w, unit) action"

text \<open>The registration settings in the application state.\<close>

record registration_settings =
  registration_client_id :: "string option"
  registration_redirect_uri :: "string option"
  registration_action_lifespan_seconds :: "int option"

definition registration_settings_of :: "registration_settings \<Rightarrow> (string \<times> string \<times> int) result" where
  "registration_settings_of st =
     (if \<not> truthy_text (registration_client_id st) \<or> \<not> truthy_text (registration_redirect_uri st) \<or>
         registration_action_lifespan_seconds st = None \<or>
         the (registration_action_lifespan_seconds st) \<le> 0
      then Inl (HTTPException 503 ''registration enrollment unavailable'')
      else Inr (the (registration_client_id st), the (registration_redirect_uri st),
             the (registration_action_lifespan_seconds st)))"

record 'w registration_state =
  reg_kc :: 'w
  reg_windows :: attempt_windows
  reg_env :: env

definition registration_client_key :: "string option \<Rightarrow> string" where
  "registration_client_key host = (case host of None \<Rightarrow> ''unknown-client'' | Some h \<Rightarrow> h)"

definition initialize_account ::
  "'w product_api \<Rightarrow> string \<Rightarrow> string \<Rightarrow> string \<Rightarrow> int \<Rightarrow> ('w, unit) action" where
  "initialize_account api uid client redirect_uri lifespan_seconds =
     catchA
       (api_send_execute_actions_email api uid
          [VERIFY_EMAIL_REQUIRED_ACTION, PASSKEY_ENROLL_REQUIRED_ACTION] client redirect_uri lifespan_seconds)
       (\<lambda>_.
          bindA
            (catchA (api_delete_user api uid)
               (\<lambda>_. raiseA (HTTPException 502 ''account_initialization_rollback_failed'')))
            (\<lambda>_. raiseA (HTTPException 502 ''account_initialization_failed'')))"

definition new_account :: "string \<Rightarrow> string option \<Rightarrow> string option \<Rightarrow> user_account" where
  "new_account mail first last' = \<lparr>user_id = [], user_name = Some mail, email = Some mail,
     is_email_verified = False, state = ''active'', first_name = first, last_name = last',
     external_id = None, federated_identities = []\<rparr>"

definition create_new_account ::
  "'w product_api \<Rightarrow> string \<Rightarrow> registration_request \<Rightarrow> ('w, string) action" where
  "create_new_account api mail body =
     catchA
       (bindA (liftA (validated_name (reg_first_name body))) (\<lambda>first.
        bindA (liftA (validated_name (reg_last_name body))) (\<lambda>last'.
        api_create_user api (new_account mail first last'))))
       (\<lambda>e. case e of
          HTTPStatusError code \<Rightarrow>
            if code = 409 then raiseA (HTTPException 409 ''email_already_registered'') else raiseA e
        | _ \<Rightarrow> raiseA e)"

definition register_account ::
  "'w product_api \<Rightarrow> registration_settings \<Rightarrow> string option \<Rightarrow> registration_request
     \<Rightarrow> ('w registration_state, registration_result) action" where
  "register_account api settings host body =
     bindA (liftA (registration_settings_of settings)) (\<lambda>(client, redirect_uri, lifespan_seconds).
     bindA (zoomA reg_env reg_env_update time_now) (\<lambda>now.
     bindA (zoomA reg_windows reg_windows_update
       (record_registration_attempt (registration_client_key host) now)) (\<lambda>_.
     bindA (liftA (validated_email (reg_email_address body))) (\<lambda>mail.
     bindA (zoomA reg_kc reg_kc_update (api_find_users_by_email api mail)) (\<lambda>existing.
     if existing \<noteq> [] then raiseA (HTTPException 409 ''email_already_registered'')
     else
       bindA (zoomA reg_kc reg_kc_update (create_new_account api mail body)) (\<lambda>uid.
       if uid = [] then raiseA (HTTPException 502 ''account_creation_failed'')
       else
         bindA (zoomA reg_kc reg_kc_update
           (initialize_account api uid client redirect_uri lifespan_seconds)) (\<lambda>_.
         returnA \<lparr>account_id = uid, result_email_address = mail\<rparr>)))))))"

section \<open>The rate limit\<close>

text \<open>A sequence of attempts, each by a client at a time, with whether it was let through.\<close>

primrec attempts_run :: "(string \<times> rat) list \<Rightarrow> attempt_windows \<Rightarrow> (string \<times> bool) list" where
  "attempts_run [] w = []"
| "attempts_run (a # as) w =
     (case record_registration_attempt (fst a) (snd a) w of
        (r, w') \<Rightarrow> (fst a, okR r) # attempts_run as w')"

definition accepted :: "string \<Rightarrow> (string \<times> bool) list \<Rightarrow> nat" where
  "accepted c flags = length (filter (\<lambda>f. fst f = c \<and> snd f) flags)"

definition attempt_times :: "string \<Rightarrow> (string \<times> rat) list \<Rightarrow> rat list" where
  "attempt_times c as = map snd (filter (\<lambda>a. fst a = c) as)"

lemma attempt_other:
  "c \<noteq> d \<Longrightarrow> snd (record_registration_attempt d t w) c = w c"
  by (simp add: record_registration_attempt_def Let_def split: prod.splits)

lemma attempt_in_window:
  assumes "w c = Some (t0, m)" and "t - t0 \<le> 300"
  shows "okR (fst (record_registration_attempt c t w)) \<longleftrightarrow> m < 30"
    "snd (record_registration_attempt c t w) c = Some (t0, m + 1)"
  using assms by (auto simp: record_registration_attempt_def REGISTRATION_RATE_LIMIT_WINDOW_SECONDS_def
      REGISTRATION_RATE_LIMIT_MAX_ATTEMPTS_def Let_def)

lemma attempts_in_window:
  assumes "w c = Some (t0, m)" and "\<forall>t\<in>set (attempt_times c as). t - t0 \<le> 300"
  shows "accepted c (attempts_run as w) = min (30 - m) (length (attempt_times c as))"
  using assms
proof (induction as arbitrary: w m)
  case Nil
  then show ?case by (simp add: accepted_def attempt_times_def)
next
  case (Cons a as)
  obtain r w' where run: "record_registration_attempt (fst a) (snd a) w = (r, w')"
    by (cases "record_registration_attempt (fst a) (snd a) w")
  show ?case
  proof (cases "fst a = c")
    case True
    then have here: "okR r \<longleftrightarrow> m < 30" "w' c = Some (t0, m + 1)"
      using attempt_in_window [of w c t0 m "snd a"] Cons.prems run
      by (auto simp: attempt_times_def)
    have "accepted c (attempts_run as w') = min (30 - (m + 1)) (length (attempt_times c as))"
      using Cons.prems(2) by (intro Cons.IH here(2)) (simp add: attempt_times_def)
    with here True run show ?thesis by (auto simp: accepted_def attempt_times_def min_def)
  next
    case False
    then have "w' c = Some (t0, m)"
      using attempt_other [of c "fst a" "snd a" w] run Cons.prems(1) by simp
    moreover have "\<forall>t\<in>set (attempt_times c as). t - t0 \<le> 300"
      using Cons.prems(2) False by (simp add: attempt_times_def)
    ultimately have "accepted c (attempts_run as w') = min (30 - m) (length (attempt_times c as))"
      by (rule Cons.IH)
    with False run show ?thesis by (simp add: accepted_def attempt_times_def)
  qed
qed

text \<open>
  C15. The registration limit, per caller and window: however the attempts of other callers are
  interleaved, of the attempts a caller makes within 300 seconds of its first one, exactly the
  first 30 are let through.
\<close>

theorem registration_rate_limit:
  assumes "w c = None" and "attempt_times c as = t0 # ts" and "\<forall>t\<in>set ts. t \<le> t0 + 300"
  shows "accepted c (attempts_run as w) = min 30 (length (attempt_times c as))"
  using assms(1,2)
proof (induction as arbitrary: w)
  case Nil
  then show ?case by (simp add: attempt_times_def)
next
  case (Cons a as)
  obtain r w' where run: "record_registration_attempt (fst a) (snd a) w = (r, w')"
    by (cases "record_registration_attempt (fst a) (snd a) w")
  show ?case
  proof (cases "fst a = c")
    case True
    then have "snd a = t0" and rest: "attempt_times c as = ts"
      using Cons.prems(2) by (auto simp: attempt_times_def)
    with True run Cons.prems(1) have "okR r" "w' c = Some (t0, 1)"
      by (auto simp: record_registration_attempt_def REGISTRATION_RATE_LIMIT_WINDOW_SECONDS_def
          REGISTRATION_RATE_LIMIT_MAX_ATTEMPTS_def Let_def)
    moreover have "accepted c (attempts_run as w') = min (30 - 1) (length (attempt_times c as))"
      using assms(3) rest by (intro attempts_in_window [where ?t0.0 = t0] \<open>w' c = Some (t0, 1)\<close>) (simp add: algebra_simps)
    ultimately show ?thesis using True run by (simp add: accepted_def attempt_times_def)
  next
    case False
    then have "w' c = None"
      using attempt_other [of c "fst a" "snd a" w] run Cons.prems(1) by simp
    moreover have "attempt_times c as = t0 # ts" using False Cons.prems(2) by (simp add: attempt_times_def)
    ultimately show ?thesis using Cons.IH False run by (simp add: accepted_def attempt_times_def)
  qed
qed

theorem registration_rate_limit_witness:
  "accepted ''10.0.0.1'' (attempts_run ((''10.0.0.2'', 0) # replicate 31 (''10.0.0.1'', 7)) (\<lambda>_. None)) = 30"
proof -
  have "attempt_times ''10.0.0.1'' ((''10.0.0.2'', 0) # replicate 31 (''10.0.0.1'', 7)) = replicate 31 7"
    by (simp add: attempt_times_def)
  then have times: "attempt_times ''10.0.0.1'' ((''10.0.0.2'', 0) # replicate 31 (''10.0.0.1'', 7)) = 7 # replicate 30 7"
    by (simp add: numeral_eq_Suc)
  show ?thesis
    using registration_rate_limit [of "\<lambda>_. None", OF _ times] unfolding times by simp
qed

section \<open>Email addresses\<close>

lemma split_at_sign:
  assumes "count_list s (CHR ''@'') = 1"
  shows "s = takeWhile (\<lambda>c. c \<noteq> CHR ''@'') s @ CHR ''@'' # drop 1 (dropWhile (\<lambda>c. c \<noteq> CHR ''@'') s)"
  using assms by (induction s) auto

text \<open>
  An accepted email address is in normal form and well shaped: it is the stripped, lower-cased
  input, accepting it again changes nothing, it is at most 254 characters long with neither spaces
  nor controls, and it is a local part and a domain of at least two labels around a single at sign.
\<close>

theorem validated_email_normal:
  assumes "validated_email raw = Inr e"
  shows "e = lower (strip raw) \<and> validated_email e = Inr e \<and> length e \<le> 254 \<and>
    list_all (\<lambda>c. \<not> isspace_char c \<and> \<not> is_control_char c) e \<and>
    (\<exists>local_part labels. e = local_part @ CHR ''@'' # join_char (CHR ''.'') labels \<and>
       valid_local_part local_part \<and> 2 \<le> length labels \<and> list_all valid_domain_label labels)"
proof -
  have e: "e = lower (strip raw)" and ok: "length e \<le> 254" "\<not> list_ex is_control_char e"
      "has_valid_email_shape e"
    using assms by (auto simp: validated_email_def Let_def EMAIL_MAX_LENGTH_def split: if_splits)
  have again: "lower (strip e) = e" by (simp add: e lower_strip)
  let ?l = "takeWhile (\<lambda>c. c \<noteq> CHR ''@'') e" and ?d = "drop 1 (dropWhile (\<lambda>c. c \<noteq> CHR ''@'') e)"
  have shape: "count_list e (CHR ''@'') = 1" "\<not> list_ex isspace_char e" "valid_local_part ?l"
      "CHR ''.'' \<in> set ?d" "list_all valid_domain_label (split_char (CHR ''.'') ?d)"
    using ok(3) by (auto simp: has_valid_email_shape_def Let_def split: if_splits)
  have "2 \<le> length (split_char (CHR ''.'') ?d)"
  proof (rule ccontr)
    assume "\<not> 2 \<le> length (split_char (CHR ''.'') ?d)"
    then obtain p where p: "split_char (CHR ''.'') ?d = [p]"
      by (cases "split_char (CHR ''.'') ?d" rule: list.exhaust) (auto simp: Suc_le_eq)
    then have "?d = p" using join_split_char [of "CHR ''.''" ?d] by simp
    moreover have "CHR ''.'' \<notin> set p" using p split_char_free [of p "CHR ''.''" ?d] by simp
    ultimately show False using shape(4) by simp
  qed
  moreover have "e = ?l @ CHR ''@'' # join_char (CHR ''.'') (split_char (CHR ''.'') ?d)"
    using split_at_sign [OF shape(1)] by simp
  ultimately have "\<exists>local_part labels. e = local_part @ CHR ''@'' # join_char (CHR ''.'') labels \<and>
      valid_local_part local_part \<and> 2 \<le> length labels \<and> list_all valid_domain_label labels"
    using shape(3,5) by blast
  moreover have "validated_email e = Inr e"
    using ok again by (simp add: validated_email_def EMAIL_MAX_LENGTH_def)
  moreover have "list_all (\<lambda>c. \<not> isspace_char c \<and> \<not> is_control_char c) e"
    using ok(2) shape(2) by (auto simp: list_all_iff list_ex_iff)
  ultimately show ?thesis using e ok(1) by blast
qed

theorem validated_email_normal_witness:
  "validated_email '' A.b@Example.com '' = Inr ''a.b@example.com'' \<and>
   validated_email ''a.b@example.com'' = Inr ''a.b@example.com''"
proof -
  have run: "validated_email '' A.b@Example.com '' = Inr ''a.b@example.com''" by code_simp
  with validated_email_normal [OF run] show ?thesis by blast
qed

section \<open>Accounts\<close>

definition reg_sat :: "('w \<Rightarrow> bool) \<Rightarrow> ('w \<Rightarrow> kc_view) \<Rightarrow> (kc_view \<Rightarrow> bool) \<Rightarrow> 'w registration_state \<Rightarrow> bool" where
  "reg_sat winv view P s \<longleftrightarrow> winv (reg_kc s) \<and> P (view (reg_kc s))"

text \<open>A new, enabled, unverified account under an id that was free; nothing else has changed.\<close>

definition registered :: "kc_view \<Rightarrow> string \<Rightarrow> string \<Rightarrow> kc_view \<Rightarrow> bool" where
  "registered V0 uid mail V \<longleftrightarrow> V0 uid = None \<and> (\<exists>k. kc_enabled k \<and> \<not> kc_verified k \<and>
     kc_email k = Some mail \<and> V = V0(uid \<mapsto> k))"

text \<open>
  No existing account has changed; and unless the error says that the account exists already, that
  its id is unknown or that the rollback failed, nothing has changed at all.
\<close>

definition register_failed :: "kc_view \<Rightarrow> exn \<Rightarrow> kc_view \<Rightarrow> bool" where
  "register_failed V0 e V \<longleftrightarrow> (\<forall>u. V0 u \<noteq> None \<longrightarrow> V u = V0 u) \<and>
     (case e of
        HTTPException status detail \<Rightarrow>
          detail \<in> {''email_already_registered'', ''account_creation_failed'',
            ''account_initialization_rollback_failed''} \<or> V = V0
      | _ \<Rightarrow> True)"

lemma register_failed_same: "register_failed V0 e V0"
  by (simp add: register_failed_def split: exn.splits)

text \<open>
  The contract of the two added calls: sending the email changes no user; a deletion that returns
  has removed the user, one that raises may have, and neither touches another user. The client
  raises its own errors, never the web framework's \<open>HTTPException\<close>.
\<close>

locale registration_api =
  keycloak_provisioning "admin_api.truncate api" view winv
  for api :: "'w product_api" and view winv +
  assumes send_email: "reads_only winv view (api_send_execute_actions_email api u acts c ru n) (\<lambda>_ _. True)"
    and delete_user: "winv w \<Longrightarrow> api_delete_user api u w = (r, w') \<Longrightarrow>
      winv w' \<and> (view w' = (view w)(u := None) \<or> view w' = view w \<and> \<not> okR r)"
    and create_raises: "api_create_user api a w \<noteq> (Inl (HTTPException status detail), w')"
begin

lemma api_truncate [simp]:
  "api_create_user (admin_api.truncate api) = api_create_user api"
  "api_find_users_by_email (admin_api.truncate api) = api_find_users_by_email api"
  by (simp_all add: admin_api.truncate_def)

text \<open>What is left in Keycloak after the initialisation of a new account \<open>uid\<close>.\<close>

lemma initialize_outcome:
  assumes "initialize_account api uid c ru n w = (r, w')" and "winv w"
  shows "winv w' \<and> (case r of
      Inr _ \<Rightarrow> view w' = view w
    | Inl e \<Rightarrow> e = HTTPException 502 ''account_initialization_failed'' \<and> view w' = (view w)(uid := None) \<or>
        e = HTTPException 502 ''account_initialization_rollback_failed'' \<and>
          (view w' = view w \<or> view w' = (view w)(uid := None)))"
  using assms(1) unfolding initialize_account_def
proof (cases rule: catchA_cases)
  case (ok x)
  then show ?thesis
    using reads_onlyD(1,2) [OF send_email assms(2) ok(1)] by simp
next
  case (handled e s')
  note sent = reads_onlyD(1,2) [OF send_email assms(2) handled(1)]
  obtain q w2 where del: "api_delete_user api uid s' = (q, w2)" by (cases "api_delete_user api uid s'")
  with handled(2) sent delete_user [OF sent(1) del] show ?thesis
    by (cases q) auto
qed

lemma create_outcome:
  assumes "create_new_account api mail body w = (r, w')" and "winv w"
  shows "winv w' \<and> (\<forall>u. view w u \<noteq> None \<longrightarrow> view w' u = view w u) \<and> (\<forall>uid. r = Inr uid \<longrightarrow> view w uid = None \<and>
    (\<exists>k. kc_enabled k \<and> \<not> kc_verified k \<and> kc_email k = Some mail \<and> view w' = (view w)(uid \<mapsto> k)))"
proof -
  have inner: "winv t \<and> (\<forall>u. view w u \<noteq> None \<longrightarrow> view t u = view w u) \<and> (\<forall>uid. q = Inr uid \<longrightarrow> view w uid = None \<and>
      (\<exists>k. kc_enabled k \<and> \<not> kc_verified k \<and> kc_email k = Some mail \<and> view t = (view w)(uid \<mapsto> k)))"
    if "bindA (liftA (validated_name (reg_first_name body))) (\<lambda>first.
        bindA (liftA (validated_name (reg_last_name body))) (\<lambda>last'.
        api_create_user api (new_account mail first last'))) w = (q, t)" for q t
  proof (cases "validated_name (reg_first_name body)"; cases "validated_name (reg_last_name body)")
    fix first last' assume names: "validated_name (reg_first_name body) = Inr first" "validated_name (reg_last_name body) = Inr last'"
    with that have run: "api_create_user api (new_account mail first last') w = (q, t)" by simp
    have id: "user_id (new_account mail first last') = []" by (simp add: new_account_def)
    have rep: "reports_user (new_account mail first last') k \<Longrightarrow>
        kc_enabled k \<and> \<not> kc_verified k \<and> kc_email k = Some mail" for k
      by (auto simp: reports_user_def new_account_def active_states_def)
    show ?thesis
    proof (cases q)
      case (Inl e)
      then show ?thesis using create_user_fails [OF assms(2) id, of e t] run by simp
    next
      case (Inr uid)
      then obtain k where k: "winv t" "view w uid = None" "reports_user (new_account mail first last') k"
          "view t = (view w)(uid \<mapsto> k)"
        using create_user [OF assms(2) id, of uid t] run by auto
      then show ?thesis using rep [OF k(3)] unfolding Inr by auto
    qed
  qed (use that assms(2) in auto)
  show ?thesis
    using assms(1) unfolding create_new_account_def
  proof (cases rule: catchA_cases)
    case (ok x)
    show ?thesis using inner [OF ok(1)] unfolding ok(2) .
  next
    case (handled e s')
    then have "r = Inl e \<and> w' = s' \<or> (\<exists>e'. r = Inl e' \<and> w' = s')"
      by (cases e) (auto split: if_splits)
    with inner [OF handled(1)] show ?thesis by auto
  qed
qed

lemma create_error:
  assumes "create_new_account api mail body w = (Inl (HTTPException status detail), w')"
  shows "detail = ''email_already_registered'' \<or> w' = w"
  using assms unfolding create_new_account_def
proof (cases rule: catchA_cases)
  case (handled e s')
  show ?thesis
  proof (cases "validated_name (reg_first_name body)"; cases "validated_name (reg_last_name body)")
    fix first last' assume "validated_name (reg_first_name body) = Inr first" "validated_name (reg_last_name body) = Inr last'"
    with handled(1) have "api_create_user api (new_account mail first last') w = (Inl e, s')" by simp
    with create_raises have "\<And>n d. e \<noteq> HTTPException n d" by metis
    with handled(2) show ?thesis by (cases e) (auto split: if_splits)
  qed (use handled in \<open>cases e; auto split: if_splits\<close>)+
qed simp

lemma hoare_registration_write:
  assumes "\<And>w r w'. m w = (r, w') \<Longrightarrow> winv w \<Longrightarrow> view w = V0 \<Longrightarrow> winv w' \<and>
      (case r of Inr x \<Rightarrow> Q x (view w') | Inl e \<Rightarrow> register_failed V0 e (view w'))"
  shows "hoareA (reg_sat winv view (\<lambda>V. V = V0)) (zoomA reg_kc reg_kc_update m)
    (\<lambda>x. reg_sat winv view (Q x)) (\<lambda>e. reg_sat winv view (register_failed V0 e))"
  by (intro hoareAI; elim zoomA_cases) (use assms in \<open>fastforce simp: reg_sat_def\<close>)+

lemma hoare_create_account:
  "hoareA (reg_sat winv view (\<lambda>V. V = V0)) (zoomA reg_kc reg_kc_update (create_new_account api mail body))
    (\<lambda>uid. reg_sat winv view (registered V0 uid mail)) (\<lambda>e. reg_sat winv view (register_failed V0 e))"
proof (rule hoare_registration_write)
  fix w r w' assume run: "create_new_account api mail body w = (r, w')" and w: "winv w" "view w = V0"
  show "winv w' \<and> (case r of Inr x \<Rightarrow> registered V0 x mail (view w') | Inl e \<Rightarrow> register_failed V0 e (view w'))"
  proof (cases r)
    case (Inl e)
    have "detail = ''email_already_registered'' \<or> view w' = V0" if "e = HTTPException status detail" for status detail
      using create_error [of mail body w status detail w'] run w(2) Inl that by auto
    then show ?thesis
      using create_outcome [OF run w(1)] w(2) Inl by (auto simp: register_failed_def split: exn.splits)
  next
    case (Inr uid)
    then show ?thesis
      using create_outcome [OF run w(1)] w(2) by (auto simp: registered_def)
  qed
qed

lemma hoare_initialize_account:
  "hoareA (reg_sat winv view (registered V0 uid mail))
    (zoomA reg_kc reg_kc_update (initialize_account api uid c ru n))
    (\<lambda>_. reg_sat winv view (registered V0 uid mail)) (\<lambda>e. reg_sat winv view (register_failed V0 e))"
proof (intro hoareAI; elim zoomA_cases)
  fix s t x w assume "reg_sat winv view (registered V0 uid mail) s"
    "initialize_account api uid c ru n (reg_kc s) = (Inr x, w)" "t = s\<lparr>reg_kc := w\<rparr>"
  then show "reg_sat winv view (registered V0 uid mail) t"
    using initialize_outcome [of uid c ru n "reg_kc s" "Inr x" w] by (simp add: reg_sat_def)
next
  fix s t e w assume pre: "reg_sat winv view (registered V0 uid mail) s"
    and run: "initialize_account api uid c ru n (reg_kc s) = (Inl e, w)" "t = s\<lparr>reg_kc := w\<rparr>"
  from pre have "(view (reg_kc s))(uid := None) = V0" "\<forall>u. V0 u \<noteq> None \<longrightarrow> view (reg_kc s) u = V0 u"
    by (auto simp: registered_def reg_sat_def)
  with pre run show "reg_sat winv view (register_failed V0 e) t"
    using initialize_outcome [of uid c ru n "reg_kc s" "Inl e" w]
    by (auto simp: reg_sat_def register_failed_def)
qed

lemma hoare_register:
  "hoareA (reg_sat winv view (\<lambda>V. V = V0)) (register_account api st host body)
    (\<lambda>res. reg_sat winv view (registered V0 (account_id res) (result_email_address res)))
    (\<lambda>e. reg_sat winv view (register_failed V0 e))"
proof -
  let ?P = "reg_sat winv view (\<lambda>V. V = V0)" and ?R = "\<lambda>e. reg_sat winv view (register_failed V0 e)"
  have quiet: "hoareA ?P m (\<lambda>_. ?P) ?R" if "keepsA reg_kc m" for m :: "('w registration_state, 'z) action"
    using that by (intro hoareAI) (auto simp: reg_sat_def register_failed_same dest!: keepsA_D)
  have read: "hoareA ?P (zoomA reg_kc reg_kc_update (api_find_users_by_email api mail)) (\<lambda>_. ?P) ?R" for mail
  proof (intro hoareAI; elim zoomA_cases)
    show "?P t" if "?P s" "api_find_users_by_email api mail (reg_kc s) = (Inr x, w)" "t = s\<lparr>reg_kc := w\<rparr>" for s t x w
      using that reads_onlyD(1,2) [OF find_by_email, of "reg_kc s" mail "Inr x" w] by (auto simp: reg_sat_def)
    show "?R e t" if "?P s" "api_find_users_by_email api mail (reg_kc s) = (Inl e, w)" "t = s\<lparr>reg_kc := w\<rparr>" for s t e w
      using that reads_onlyD(1,2) [OF find_by_email, of "reg_kc s" mail "Inl e" w]
      by (auto simp: reg_sat_def register_failed_same)
  qed
  have keeps: "keepsA reg_kc (zoomA reg_env reg_env_update m)" "keepsA reg_kc (zoomA reg_windows reg_windows_update m')"
    for m :: "(env, rat) action" and m' :: "(attempt_windows, unit) action"
    by (auto simp: keepsA_def elim!: zoomA_cases)
  show ?thesis
    unfolding register_account_def split_def
    by (intro hoareA_bind [OF quiet [OF keepsA_lift]] hoareA_bind [OF quiet [OF keeps(1)]]
        hoareA_bind [OF quiet [OF keeps(2)]] hoareA_bind [OF read] hoareA_if hoareA_raise
        hoareA_bind [OF hoare_create_account] hoareA_bind [OF hoare_initialize_account] hoareA_return)
      (auto simp: reg_sat_def register_failed_same register_failed_def registered_def)
qed

end

text \<open>
  C14. Registration leaves no orphans. If \<open>register_account\<close> returns, exactly one account has been
  added, under a new id, enabled, with the validated email not yet verified. Whatever it raises, no
  existing account has changed; and a failed enrolment email that could be rolled back (502
  \<open>account_initialization_failed\<close>), like every refusal before the creation (503, 429, 422), leaves
  Keycloak exactly as it was.
\<close>

theorem registration_no_orphan:
  assumes "registration_api api view winv" and "winv (reg_kc s)"
    and "register_account api settings host body s = (r, t)"
  shows "case r of
      Inr res \<Rightarrow> view (reg_kc s) (account_id res) = None \<and> (\<exists>k. kc_enabled k \<and> \<not> kc_verified k \<and>
        kc_email k = Some (result_email_address res) \<and>
        view (reg_kc t) = (view (reg_kc s))(account_id res \<mapsto> k))
    | Inl e \<Rightarrow> (\<forall>u. view (reg_kc s) u \<noteq> None \<longrightarrow> view (reg_kc t) u = view (reg_kc s) u) \<and>
        (\<forall>status detail. e = HTTPException status detail \<longrightarrow>
           detail \<in> {''email_already_registered'', ''account_creation_failed'',
             ''account_initialization_rollback_failed''} \<or> view (reg_kc t) = view (reg_kc s))"
proof -
  have start: "reg_sat winv view (\<lambda>V. V = view (reg_kc s)) s" using assms(2) by (simp add: reg_sat_def)
  note reg = registration_api.hoare_register [OF assms(1), of "view (reg_kc s)" settings host body]
  show ?thesis
  proof (cases r)
    case (Inl e)
    from hoareA_Inl [OF reg start] assms(3) Inl have "register_failed (view (reg_kc s)) e (view (reg_kc t))"
      by (simp add: reg_sat_def)
    then show ?thesis unfolding Inl by (auto simp: register_failed_def)
  next
    case (Inr res)
    from hoareA_Inr [OF reg start] assms(3) Inr
    have "registered (view (reg_kc s)) (account_id res) (result_email_address res) (view (reg_kc t))"
      by (simp add: reg_sat_def)
    then show ?thesis unfolding Inr by (simp add: registered_def)
  qed
qed

end
