(* ===== verification/Url.thy ===== *)
theory Url
  imports Prelude
begin

text \<open>
  The part of Python's \<open>urllib.parse\<close> and \<open>ipaddress\<close> that the source uses: \<open>urlsplit\<close> with
  the checks it makes on the network location, and the components \<open>hostname\<close>, \<open>port\<close>,
  \<open>username\<close> and \<open>password\<close>. (The compatibility-normalisation check of the network location
  never fires on the characters the model covers.)
\<close>

record split_result =
  url_scheme :: string
  url_netloc :: string
  url_path :: string
  url_query :: string
  url_fragment :: string

section \<open>Partitioning text\<close>

text \<open>\<open>s.partition(d)\<close> and \<open>s.rpartition(d)\<close> for one-character separators: the parts, and whether
  the separator occurs.\<close>

definition partition_char :: "char \<Rightarrow> string \<Rightarrow> string \<times> bool \<times> string" where
  "partition_char d s = (takeWhile (\<lambda>c. c \<noteq> d) s, d \<in> set s, drop 1 (dropWhile (\<lambda>c. c \<noteq> d) s))"

definition rpartition_char :: "char \<Rightarrow> string \<Rightarrow> string \<times> bool \<times> string" where
  "rpartition_char d s =
     (if d \<in> set s
      then (rev (drop 1 (dropWhile (\<lambda>c. c \<noteq> d) (rev s))), True, rev (takeWhile (\<lambda>c. c \<noteq> d) (rev s)))
      else ([], False, s))"

lemma partition_char_eq:
  "d \<in> set s \<Longrightarrow> s = fst (partition_char d s) @ d # snd (snd (partition_char d s))"
proof (induction s)
  case (Cons c s)
  then show ?case by (cases "c = d") (auto simp: partition_char_def)
qed simp

section \<open>IP addresses\<close>

definition is_hex_char :: "char \<Rightarrow> bool" where
  "is_hex_char c = (isdecimal_char c \<or> (97 \<le> ord c \<and> ord c \<le> 102) \<or> (65 \<le> ord c \<and> ord c \<le> 70))"

definition decimal_value :: "string \<Rightarrow> nat" where
  "decimal_value s = foldl (\<lambda>n c. n * 10 + (ord c - 48)) 0 s"

definition is_octet :: "string \<Rightarrow> bool" where
  "is_octet s \<longleftrightarrow> s \<noteq> [] \<and> list_all isdecimal_char s \<and> length s \<le> 3 \<and>
     (s = ''0'' \<or> hd s \<noteq> CHR ''0'') \<and> decimal_value s \<le> 255"

definition is_ipv4 :: "string \<Rightarrow> bool" where
  "is_ipv4 s = (let parts = split_char (CHR ''.'') s in length parts = 4 \<and> list_all is_octet parts)"

definition is_hextet :: "string \<Rightarrow> bool" where
  "is_hextet s \<longleftrightarrow> s \<noteq> [] \<and> length s \<le> 4 \<and> list_all is_hex_char s"

text \<open>The positions strictly inside the list at which a group is empty.\<close>

definition inner_empty :: "string list \<Rightarrow> nat list" where
  "inner_empty parts = filter (\<lambda>i. parts ! i = []) [1..<length parts - 1]"

text \<open>
  \<open>ipaddress.IPv6Address\<close> on text: an optional zone after a percent sign, at most eight groups of
  at most four hex digits, at most one double colon, and possibly a dotted quad as the last group.
\<close>

definition is_ipv6_groups :: "string list \<Rightarrow> bool" where
  "is_ipv6_groups parts =
     (if length parts < 3 \<or> length parts > 9 then False
      else case inner_empty parts of
        [] \<Rightarrow> length parts = 8 \<and> list_all is_hextet parts
      | [i] \<Rightarrow>
          (let hi = take i parts; lo = drop (i + 1) parts;
               hi_ok = (if hd parts = [] then i = 1 else True);
               lo_ok = (if last parts = [] then i = length parts - 2 else True);
               hi' = (if hd parts = [] then tl hi else hi);
               lo' = (if last parts = [] then butlast lo else lo)
           in hi_ok \<and> lo_ok \<and> length hi' + length lo' < 8 \<and> list_all is_hextet (hi' @ lo'))
      | _ \<Rightarrow> False)"

definition is_ipv6 :: "string \<Rightarrow> bool" where
  "is_ipv6 s =
     (let (address, has_zone, zone) = partition_char (CHR ''%'') s;
          parts = split_char (CHR '':'') address
      in (has_zone \<longrightarrow> zone \<noteq> [] \<and> CHR ''%'' \<notin> set zone) \<and> CHR ''/'' \<notin> set s \<and> length parts \<ge> 3 \<and>
         (if CHR ''.'' \<in> set (last parts)
          then is_ipv4 (last parts) \<and> is_ipv6_groups (butlast parts @ [''0'', ''0''])
          else is_ipv6_groups parts))"

section \<open>Splitting a URL\<close>

definition is_c0_or_space :: "char \<Rightarrow> bool" where
  "is_c0_or_space c = (ord c \<le> 32)"

definition is_scheme_char :: "char \<Rightarrow> bool" where
  "is_scheme_char c = (is_ascii_alnum c \<or> c \<in> {CHR ''+'', CHR ''-'', CHR ''.''})"

definition invalid_ipv6_url :: exn where
  "invalid_ipv6_url = ValueError ''Invalid IPv6 URL''"

definition check_bracketed_host :: "string \<Rightarrow> unit result" where
  "check_bracketed_host host =
     (if startswith host ''v''
      then (let (version, has_dot, rest) = partition_char (CHR ''.'') (drop 1 host)
            in requireR (has_dot \<and> version \<noteq> [] \<and> list_all is_hex_char version \<and> rest \<noteq> [] \<and>
                 CHR 0x0A \<notin> set rest) (ValueError ''IPvFuture address is invalid''))
      else requireR (is_ipv6 host) (ValueError ''not an IPv6 address''))"

definition check_bracketed_netloc :: "string \<Rightarrow> unit result" where
  "check_bracketed_netloc netloc =
     (let hostname_and_port = snd (snd (rpartition_char (CHR ''@'') netloc));
          (before, have_open, bracketed) = partition_char (CHR ''['') hostname_and_port
      in if have_open then
           (let (host, _, port) = partition_char (CHR '']'') bracketed
            in if before \<noteq> [] then Inl invalid_ipv6_url
               else if port \<noteq> [] \<and> \<not> startswith port '':'' then Inl invalid_ipv6_url
               else check_bracketed_host host)
         else check_bracketed_host (fst (partition_char (CHR '':'') hostname_and_port)))"

definition urlsplit :: "string \<Rightarrow> split_result result" where
  "urlsplit raw =
     (let url = filter (\<lambda>c. ord c \<notin> {9, 10, 13}) (dropWhile is_c0_or_space raw);
          (before, has_colon, after) = partition_char (CHR '':'') url;
          is_scheme = has_colon \<and> before \<noteq> [] \<and> is_ascii_alpha (hd before) \<and> list_all is_scheme_char before;
          scheme = (if is_scheme then lower before else []);
          url = (if is_scheme then after else url);
          has_netloc = startswith url ''//'';
          netloc = (if has_netloc then takeWhile (\<lambda>c. c \<notin> {CHR ''/'', CHR ''?'', CHR ''#''}) (drop 2 url) else []);
          url = (if has_netloc then dropWhile (\<lambda>c. c \<notin> {CHR ''/'', CHR ''?'', CHR ''#''}) (drop 2 url) else url);
          (url, _, fragment) = partition_char (CHR ''#'') url;
          (path, _, query) = partition_char (CHR ''?'') url
      in bindR (requireR ((CHR ''['' \<in> set netloc) = (CHR '']'' \<in> set netloc)) invalid_ipv6_url) (\<lambda>_.
         bindR (if CHR ''['' \<in> set netloc then check_bracketed_netloc netloc else Inr ()) (\<lambda>_.
         Inr \<lparr>url_scheme = scheme, url_netloc = netloc, url_path = path, url_query = query,
           url_fragment = fragment\<rparr>)))"

definition url_hostinfo :: "split_result \<Rightarrow> string \<times> string option" where
  "url_hostinfo u =
     (let hostinfo = snd (snd (rpartition_char (CHR ''@'') (url_netloc u)));
          (_, have_open, bracketed) = partition_char (CHR ''['') hostinfo;
          (host, port) =
            (if have_open then
               (let (host, _, rest) = partition_char (CHR '']'') bracketed
                in (host, snd (snd (partition_char (CHR '':'') rest))))
             else (let (host, _, port) = partition_char (CHR '':'') hostinfo in (host, port)))
      in (host, if port = [] then None else Some port))"

definition url_hostname :: "split_result \<Rightarrow> string option" where
  "url_hostname u =
     (let host = fst (url_hostinfo u) in
      if host = [] then None
      else (let (name, has_percent, zone) = partition_char (CHR ''%'') host
            in Some (lower name @ (if has_percent then CHR ''%'' # zone else []))))"

definition url_port :: "split_result \<Rightarrow> nat option result" where
  "url_port u =
     (case snd (url_hostinfo u) of
        None \<Rightarrow> Inr None
      | Some port \<Rightarrow>
          if list_all isdecimal_char port then
            (if decimal_value port \<le> 65535 then Inr (Some (decimal_value port))
             else Inl (ValueError ''Port out of range 0-65535''))
          else Inl (ValueError ''Port could not be cast to integer value''))"

definition url_username :: "split_result \<Rightarrow> string option" where
  "url_username u =
     (let (userinfo, have_info, _) = rpartition_char (CHR ''@'') (url_netloc u)
      in if have_info then Some (fst (partition_char (CHR '':'') userinfo)) else None)"

definition url_password :: "split_result \<Rightarrow> string option" where
  "url_password u =
     (let (userinfo, have_info, _) = rpartition_char (CHR ''@'') (url_netloc u);
          (_, have_password, password) = partition_char (CHR '':'') userinfo
      in if have_info \<and> have_password then Some password else None)"

end
