(* ===== verification/HttpClient.thy ===== *)
theory HttpClient
  imports KeycloakApi Json Url
begin

text \<open>
  The core Keycloak client of \<open>app/keycloak_client.py\<close>: \<open>HttpAdminApi\<close> over an httpx client. The
  httpx client is not part of the program: it is a parameter that sends a request and gives a
  reply, together with the predicate by which \<open>raise_for_status\<close> tells errors. The state is the
  network behind it and the cached access token. The methods call the four transport methods
  through the instance, so a subclass can replace them: the model passes them as a record.
\<close>

record http_request =
  rq_method :: string
  rq_url :: string
  rq_params :: "(string \<times> string) list"
  rq_form :: "(string \<times> string) list"
  rq_json :: "json option"
  rq_bearer :: "json option"

record http_reply =
  rp_status :: nat
  rp_json :: "json option"
  rp_has_content :: bool
  rp_location :: "string option"

record 'w http_config =
  hc_send :: "http_request \<Rightarrow> ('w, http_reply) action"
  hc_is_error :: "nat \<Rightarrow> bool"
  hc_server_url :: string
  hc_realm :: string
  hc_token_realm :: string
  hc_client_id :: string
  hc_client_secret :: string

record 'w client_state =
  net :: 'w
  token :: json

type_synonym ('w, 'a) http_action = "('w client_state, 'a) action"

definition plain_request :: "string \<Rightarrow> string \<Rightarrow> http_request" where
  "plain_request verb url = \<lparr>rq_method = verb, rq_url = url, rq_params = [], rq_form = [], rq_json = None,
     rq_bearer = None\<rparr>"

definition sendA :: "'w http_config \<Rightarrow> http_request \<Rightarrow> ('w, http_reply) http_action" where
  "sendA cfg req = zoomA net net_update (hc_send cfg req)"

definition raise_for_status :: "'w http_config \<Rightarrow> http_reply \<Rightarrow> unit result" where
  "raise_for_status cfg reply =
     (if hc_is_error cfg (rp_status reply) then Inl (HTTPStatusError (rp_status reply)) else Inr ())"

definition reply_json :: "http_reply \<Rightarrow> json result" where
  "reply_json reply = (case rp_json reply of None \<Rightarrow> Inl (ValueError ''response is not JSON'') | Some j \<Rightarrow> Inr j)"

section \<open>Authentication\<close>

definition authenticate :: "'w http_config \<Rightarrow> ('w, json) http_action" where
  "authenticate cfg =
     bindA (sendA cfg ((plain_request ''POST''
       (''/realms/'' @ hc_token_realm cfg @ ''/protocol/openid-connect/token''))
       \<lparr>rq_form := [(''grant_type'', ''client_credentials''), (''client_id'', hc_client_id cfg),
          (''client_secret'', hc_client_secret cfg)]\<rparr>)) (\<lambda>reply.
     bindA (liftA (raise_for_status cfg reply)) (\<lambda>_.
     bindA (liftA (bindR (reply_json reply) (\<lambda>j. json_index j ''access_token''))) (\<lambda>fresh.
     bindA (modifyA (token_update (\<lambda>_. fresh))) (\<lambda>_.
     returnA fresh))))"

definition auth_header :: "'w http_config \<Rightarrow> ('w, json) http_action" where
  "auth_header cfg =
     bindA (readA token) (\<lambda>cached. if truthy cached then returnA cached else authenticate cfg)"

text \<open>One authenticated request; the header is made before the request is sent.\<close>

definition authorized :: "'w http_config \<Rightarrow> http_request \<Rightarrow> ('w, http_reply) http_action" where
  "authorized cfg req = bindA (auth_header cfg) (\<lambda>bearer. sendA cfg (req\<lparr>rq_bearer := Some bearer\<rparr>))"

section \<open>The transport methods\<close>

record 'w transport =
  t_get :: "string \<Rightarrow> (string \<times> string) list \<Rightarrow> ('w, json) http_action"
  t_post :: "string \<Rightarrow> json \<Rightarrow> ('w, json) http_action"
  t_put :: "string \<Rightarrow> json \<Rightarrow> ('w, unit) http_action"
  t_delete :: "string \<Rightarrow> json option \<Rightarrow> ('w, unit) http_action"

definition base_get :: "'w http_config \<Rightarrow> string \<Rightarrow> (string \<times> string) list \<Rightarrow> ('w, json) http_action" where
  "base_get cfg path params =
     bindA (authorized cfg ((plain_request ''GET'' path)\<lparr>rq_params := params\<rparr>)) (\<lambda>reply.
     bindA (liftA (raise_for_status cfg reply)) (\<lambda>_. liftA (reply_json reply)))"

definition content_json :: "http_reply \<Rightarrow> json result" where
  "content_json reply = (if rp_has_content reply then reply_json reply else Inr (JObj []))"

definition base_post :: "'w http_config \<Rightarrow> string \<Rightarrow> json \<Rightarrow> ('w, json) http_action" where
  "base_post cfg path body =
     bindA (authorized cfg ((plain_request ''POST'' path)\<lparr>rq_json := Some body\<rparr>)) (\<lambda>reply.
     bindA (liftA (raise_for_status cfg reply)) (\<lambda>_. liftA (content_json reply)))"

definition base_put :: "'w http_config \<Rightarrow> string \<Rightarrow> json \<Rightarrow> ('w, unit) http_action" where
  "base_put cfg path body =
     bindA (authorized cfg ((plain_request ''PUT'' path)\<lparr>rq_json := Some body\<rparr>)) (\<lambda>reply.
     liftA (raise_for_status cfg reply))"

definition base_delete :: "'w http_config \<Rightarrow> string \<Rightarrow> json option \<Rightarrow> ('w, unit) http_action" where
  "base_delete cfg path body =
     bindA (authorized cfg ((plain_request ''DELETE'' path)\<lparr>rq_json := body\<rparr>)) (\<lambda>reply.
     liftA (raise_for_status cfg reply))"

definition base_transport :: "'w http_config \<Rightarrow> 'w transport" where
  "base_transport cfg = \<lparr>t_get = base_get cfg, t_post = base_post cfg, t_put = base_put cfg,
     t_delete = base_delete cfg\<rparr>"

section \<open>Representations\<close>

definition first_external_id :: "json \<Rightarrow> json" where
  "first_external_id external = (case external of JArr (x # _) \<Rightarrow> x | _ \<Rightarrow> JNull)"

definition parse_user :: "json \<Rightarrow> user_account result" where
  "parse_user data =
     bindR (json_get_or data ''enabled'' (JBool True)) (\<lambda>enabled.
     bindR (json_get data ''attributes'') (\<lambda>attributes.
     bindR (json_get (json_or attributes (JObj [])) ''scim_external_id'') (\<lambda>external.
     bindR (json_index data ''id'') (\<lambda>uid.
     bindR (json_get data ''username'') (\<lambda>uname.
     bindR (json_get data ''email'') (\<lambda>mail.
     bindR (json_get_or data ''emailVerified'' (JBool False)) (\<lambda>verified.
     bindR (json_get data ''firstName'') (\<lambda>first.
     bindR (json_get data ''lastName'') (\<lambda>last'.
     bindR (required_text ''user_id'' uid) (\<lambda>uid'.
     bindR (optional_text ''user_name'' uname) (\<lambda>uname'.
     bindR (optional_text ''email'' mail) (\<lambda>mail'.
     bindR (optional_text ''first_name'' first) (\<lambda>first'.
     bindR (optional_text ''last_name'' last') (\<lambda>last''.
     bindR (optional_text ''external_id'' (first_external_id external)) (\<lambda>ext.
     Inr \<lparr>user_id = uid', user_name = uname', email = mail', is_email_verified = truthy verified,
       state = (if truthy enabled then ''active'' else ''disabled''), first_name = first',
       last_name = last'', external_id = ext, federated_identities = []\<rparr>)))))))))))))))"

definition to_keycloak_user :: "user_account \<Rightarrow> dict" where
  "to_keycloak_user user =
     [(''username'', opt_str (user_name user)), (''email'', opt_str (email user)),
      (''emailVerified'', JBool (is_email_verified user)),
      (''enabled'', JBool (state user \<in> set active_states))]
     @ (case first_name user of None \<Rightarrow> [] | Some n \<Rightarrow> [(''firstName'', JStr n)])
     @ (case last_name user of None \<Rightarrow> [] | Some n \<Rightarrow> [(''lastName'', JStr n)])
     @ (case external_id user of None \<Rightarrow> []
        | Some x \<Rightarrow> [(''attributes'', JObj [(''scim_external_id'', JArr [JStr x])])])"

definition parse_identity :: "json \<Rightarrow> federated_identity result" where
  "parse_identity item =
     bindR (json_index item ''identityProvider'') (\<lambda>p.
     bindR (json_index item ''userId'') (\<lambda>x.
     bindR (json_get item ''userName'') (\<lambda>n.
     bindR (required_text ''identity_provider'' p) (\<lambda>p'.
     bindR (required_text ''external_user_id'' x) (\<lambda>x'.
     bindR (optional_text ''external_user_name'' n) (\<lambda>n'.
     Inr \<lparr>identity_provider = p', external_user_id = x', external_user_name = n'\<rparr>))))))"

definition parse_role :: "string option \<Rightarrow> json \<Rightarrow> role_mapping result" where
  "parse_role client role =
     bindR (json_index role ''id'') (\<lambda>i.
     bindR (json_index role ''name'') (\<lambda>n.
     bindR (required_text ''role_id'' i) (\<lambda>i'.
     bindR (required_text ''role_name'' n) (\<lambda>n'.
     Inr \<lparr>role_id = i', role_name = n', role_client_id = client\<rparr>))))"

definition parse_client_roles :: "string \<times> json \<Rightarrow> role_mapping list result" where
  "parse_client_roles entry =
     bindR (json_get_or (snd entry) ''id'' (JStr (fst entry))) (\<lambda>container_id.
     bindR (json_get_or (snd entry) ''mappings'' (JArr [])) (\<lambda>mappings.
     bindR (json_iter mappings) (\<lambda>roles.
     mapR (\<lambda>role. bindR (optional_text ''client_id'' container_id) (\<lambda>c. parse_role c role)) roles)))"

definition parse_role_mappings :: "json \<Rightarrow> role_mapping list result" where
  "parse_role_mappings data =
     bindR (json_get_or data ''realmMappings'' (JArr [])) (\<lambda>realm.
     bindR (json_iter realm) (\<lambda>realm_roles.
     bindR (mapR (parse_role None) realm_roles) (\<lambda>realm_mappings.
     bindR (json_get data ''clientMappings'') (\<lambda>clients.
     bindR (json_items (json_or clients (JObj []))) (\<lambda>entries.
     bindR (mapR parse_client_roles entries) (\<lambda>client_mappings.
     Inr (realm_mappings @ concat client_mappings)))))))"

definition parse_group :: "json \<Rightarrow> group_membership result" where
  "parse_group item =
     bindR (json_index item ''id'') (\<lambda>i.
     bindR (json_get_or item ''path'' i) (\<lambda>p.
     bindR (json_get item ''name'') (\<lambda>n.
     bindR (required_text ''group_id'' i) (\<lambda>i'.
     bindR (required_text ''group_path'' p) (\<lambda>p'.
     bindR (optional_text ''group_name'' n) (\<lambda>n'.
     Inr \<lparr>group_id = i', group_path = p', group_name = n'\<rparr>))))))"

definition parse_list :: "(json \<Rightarrow> 'a result) \<Rightarrow> json \<Rightarrow> 'a list result" where
  "parse_list parse data = bindR (json_iter data) (mapR parse)"

section \<open>The admin API methods\<close>

definition users_path :: "'w http_config \<Rightarrow> string" where
  "users_path cfg = ''/admin/realms/'' @ hc_realm cfg @ ''/users''"

definition user_path :: "'w http_config \<Rightarrow> string \<Rightarrow> string" where
  "user_path cfg uid = users_path cfg @ ''/'' @ uid"

definition http_get_user :: "'w http_config \<Rightarrow> 'w transport \<Rightarrow> string \<Rightarrow> ('w, user_account) http_action" where
  "http_get_user cfg tr uid = bindA (t_get tr (user_path cfg uid) []) (\<lambda>data. liftA (parse_user data))"

definition http_find_users_by_email ::
  "'w http_config \<Rightarrow> 'w transport \<Rightarrow> string \<Rightarrow> ('w, user_account list) http_action" where
  "http_find_users_by_email cfg tr mail =
     bindA (t_get tr (users_path cfg) [(''email'', mail), (''exact'', ''true'')])
       (\<lambda>data. liftA (parse_list parse_user data))"

text \<open>The loop over the candidates; a username that is not text has no \<open>lower\<close>.\<close>

primrec first_username :: "string \<Rightarrow> json list \<Rightarrow> user_account option result" where
  "first_username username [] = Inr None"
| "first_username username (item # rest) =
     bindR (json_get item ''username'') (\<lambda>candidate.
     case json_or candidate (JStr []) of
       JStr name \<Rightarrow>
         if lower name = lower username then bindR (parse_user item) (\<lambda>u. Inr (Some u))
         else first_username username rest
     | _ \<Rightarrow> Inl (AttributeError ''lower''))"

definition http_find_user_by_username ::
  "'w http_config \<Rightarrow> 'w transport \<Rightarrow> string \<Rightarrow> ('w, user_account option) http_action" where
  "http_find_user_by_username cfg tr username =
     bindA (t_get tr (users_path cfg) [(''username'', username), (''exact'', ''true'')])
       (\<lambda>data. liftA (bindR (json_iter data) (first_username username)))"

text \<open>\<open>location.rstrip("/").rsplit("/", 1)[-1]\<close>.\<close>

definition last_segment :: "string \<Rightarrow> string" where
  "last_segment location =
     snd (snd (rpartition_char (CHR ''/'') (rev (dropWhile (\<lambda>c. c = CHR ''/'') (rev location)))))"

definition http_create_user :: "'w http_config \<Rightarrow> 'w transport \<Rightarrow> user_account \<Rightarrow> ('w, string) http_action" where
  "http_create_user cfg tr user =
     bindA (authorized cfg ((plain_request ''POST'' (users_path cfg))
       \<lparr>rq_json := Some (JObj (to_keycloak_user user))\<rparr>)) (\<lambda>reply.
     bindA (liftA (raise_for_status cfg reply)) (\<lambda>_.
     if truthy_text (rp_location reply) then returnA (last_segment (the (rp_location reply)))
     else bindA (http_find_user_by_username cfg tr (text_or (user_name user) [])) (\<lambda>found.
          returnA (case found of None \<Rightarrow> [] | Some u \<Rightarrow> user_id u))))"

definition http_replace_user ::
  "'w http_config \<Rightarrow> 'w transport \<Rightarrow> string \<Rightarrow> user_account \<Rightarrow> ('w, unit) http_action" where
  "http_replace_user cfg tr uid user = t_put tr (user_path cfg uid) (JObj (to_keycloak_user user))"

definition http_list_federated_identities ::
  "'w http_config \<Rightarrow> 'w transport \<Rightarrow> string \<Rightarrow> ('w, federated_identity list) http_action" where
  "http_list_federated_identities cfg tr uid =
     bindA (t_get tr (user_path cfg uid @ ''/federated-identity'') [])
       (\<lambda>data. liftA (parse_list parse_identity data))"

definition http_list_role_mappings ::
  "'w http_config \<Rightarrow> 'w transport \<Rightarrow> string \<Rightarrow> ('w, role_mapping list) http_action" where
  "http_list_role_mappings cfg tr uid =
     bindA (t_get tr (user_path cfg uid @ ''/role-mappings'') []) (\<lambda>data. liftA (parse_role_mappings data))"

definition http_list_group_memberships ::
  "'w http_config \<Rightarrow> 'w transport \<Rightarrow> string \<Rightarrow> ('w, group_membership list) http_action" where
  "http_list_group_memberships cfg tr uid =
     bindA (t_get tr (user_path cfg uid @ ''/groups'') []) (\<lambda>data. liftA (parse_list parse_group data))"

definition identity_body :: "federated_identity \<Rightarrow> json" where
  "identity_body identity = JObj
     [(''identityProvider'', JStr (identity_provider identity)),
      (''userId'', JStr (external_user_id identity)),
      (''userName'', JStr (text_or (external_user_name identity) (external_user_id identity)))]"

definition http_add_federated_identity ::
  "'w http_config \<Rightarrow> 'w transport \<Rightarrow> string \<Rightarrow> federated_identity \<Rightarrow> ('w, unit) http_action" where
  "http_add_federated_identity cfg tr uid identity =
     bindA (t_post tr (user_path cfg uid @ ''/federated-identity/'' @ identity_provider identity)
       (identity_body identity)) (\<lambda>_. returnA ())"

definition http_remove_federated_identity ::
  "'w http_config \<Rightarrow> 'w transport \<Rightarrow> string \<Rightarrow> string \<Rightarrow> ('w, unit) http_action" where
  "http_remove_federated_identity cfg tr uid provider =
     t_delete tr (user_path cfg uid @ ''/federated-identity/'' @ provider) None"

definition role_path :: "'w http_config \<Rightarrow> string \<Rightarrow> role_mapping \<Rightarrow> string" where
  "role_path cfg uid role =
     user_path cfg uid @ ''/role-mappings/'' @
       (case role_client_id role of None \<Rightarrow> ''realm'' | Some c \<Rightarrow> ''clients/'' @ c)"

definition role_body :: "role_mapping \<Rightarrow> json" where
  "role_body role = JArr [JObj [(''id'', JStr (role_id role)), (''name'', JStr (role_name role))]]"

definition http_add_role_mapping ::
  "'w http_config \<Rightarrow> 'w transport \<Rightarrow> string \<Rightarrow> role_mapping \<Rightarrow> ('w, unit) http_action" where
  "http_add_role_mapping cfg tr uid role =
     bindA (t_post tr (role_path cfg uid role) (role_body role)) (\<lambda>_. returnA ())"

definition http_remove_role_mapping ::
  "'w http_config \<Rightarrow> 'w transport \<Rightarrow> string \<Rightarrow> role_mapping \<Rightarrow> ('w, unit) http_action" where
  "http_remove_role_mapping cfg tr uid role = t_delete tr (role_path cfg uid role) (Some (role_body role))"

definition http_add_group_membership ::
  "'w http_config \<Rightarrow> 'w transport \<Rightarrow> string \<Rightarrow> group_membership \<Rightarrow> ('w, unit) http_action" where
  "http_add_group_membership cfg tr uid g = t_put tr (user_path cfg uid @ ''/groups/'' @ group_id g) (JObj [])"

definition http_remove_group_membership ::
  "'w http_config \<Rightarrow> 'w transport \<Rightarrow> string \<Rightarrow> group_membership \<Rightarrow> ('w, unit) http_action" where
  "http_remove_group_membership cfg tr uid g = t_delete tr (user_path cfg uid @ ''/groups/'' @ group_id g) None"

definition http_deactivate_user :: "'w http_config \<Rightarrow> 'w transport \<Rightarrow> string \<Rightarrow> ('w, unit) http_action" where
  "http_deactivate_user cfg tr uid = t_put tr (user_path cfg uid) (JObj [(''enabled'', JBool False)])"

text \<open>\<open>dict(current.get("attributes") or {})\<close>.\<close>

definition attributes_dict :: "json \<Rightarrow> dict result" where
  "attributes_dict current =
     bindR (json_get current ''attributes'') (\<lambda>attributes.
     case json_or attributes (JObj []) of JObj d \<Rightarrow> Inr d | _ \<Rightarrow> Inl (TypeError ''cannot convert to dict''))"

definition http_set_user_attribute ::
  "'w http_config \<Rightarrow> 'w transport \<Rightarrow> string \<Rightarrow> string \<Rightarrow> string \<Rightarrow> ('w, unit) http_action" where
  "http_set_user_attribute cfg tr uid key x =
     bindA (t_get tr (user_path cfg uid) []) (\<lambda>current.
     bindA (liftA (attributes_dict current)) (\<lambda>attributes.
     t_put tr (user_path cfg uid)
       (JObj [(''attributes'', JObj (dict_set attributes key (JArr [JStr x])))])))"

text \<open>A value whose first element is not text is returned as it is, so the result is a JSON value.\<close>

definition attribute_value :: "json \<Rightarrow> json" where
  "attribute_value v = (case v of
      JArr [] \<Rightarrow> JNull
    | JArr (x # _) \<Rightarrow> x
    | JStr s \<Rightarrow> JStr s
    | _ \<Rightarrow> JNull)"

definition http_get_user_attribute ::
  "'w http_config \<Rightarrow> 'w transport \<Rightarrow> string \<Rightarrow> string \<Rightarrow> ('w, json) http_action" where
  "http_get_user_attribute cfg tr uid key =
     bindA (t_get tr (user_path cfg uid) []) (\<lambda>data.
     liftA (bindR (json_get data ''attributes'') (\<lambda>attributes.
       bindR (json_get (json_or attributes (JObj [])) key) (\<lambda>v. Inr (attribute_value v)))))"

section \<open>What is sent\<close>

text \<open>
  The network after a list of requests, and the actions whose whole effect on the network is a
  list of requests of a given kind. The rules follow the structure of the client's methods.
\<close>

definition run_net :: "'w http_config \<Rightarrow> http_request list \<Rightarrow> 'w \<Rightarrow> 'w" where
  "run_net cfg reqs w = foldl (\<lambda>w req. snd (hc_send cfg req w)) w reqs"

definition sends :: "'w http_config \<Rightarrow> (http_request list \<Rightarrow> bool) \<Rightarrow> ('w, 'a) http_action \<Rightarrow> bool" where
  "sends cfg K act \<longleftrightarrow> (\<forall>s. \<exists>reqs. K reqs \<and> net (snd (act s)) = run_net cfg reqs (net s))"

definition sends_only :: "'w http_config \<Rightarrow> (http_request \<Rightarrow> bool) \<Rightarrow> ('w, 'a) http_action \<Rightarrow> bool" where
  "sends_only cfg Q act = sends cfg (list_all Q) act"

lemma run_net_simps [simp]:
  "run_net cfg [] w = w"
  "run_net cfg (req # reqs) w = run_net cfg reqs (snd (hc_send cfg req w))"
  "run_net cfg (xs @ ys) w = run_net cfg ys (run_net cfg xs w)"
  by (simp_all add: run_net_def)

lemma sends_bind:
  assumes "sends cfg K m" and "\<And>x. sends cfg L (f x)"
  shows "sends cfg (\<lambda>reqs. \<exists>xs ys. reqs = xs @ ys \<and> K xs \<and> (ys = [] \<or> L ys)) (bindA m f)"
  unfolding sends_def
proof
  fix s
  obtain r t where m: "m s = (r, t)" by fastforce
  with assms(1) obtain xs where xs: "K xs" "net t = run_net cfg xs (net s)"
    unfolding sends_def by (metis snd_conv)
  show "\<exists>reqs. (\<exists>xs ys. reqs = xs @ ys \<and> K xs \<and> (ys = [] \<or> L ys)) \<and>
      net (snd (bindA m f s)) = run_net cfg reqs (net s)"
  proof (cases r)
    case (Inl e)
    with m xs show ?thesis by (intro exI [of _ xs]) auto
  next
    case (Inr x)
    from assms(2) obtain ys where "L ys" "net (snd (f x t)) = run_net cfg ys (net t)"
      unfolding sends_def by metis
    with m xs Inr show ?thesis by (intro exI [of _ "xs @ ys"]) auto
  qed
qed

lemma sends_weaken: "sends cfg K m \<Longrightarrow> (\<And>reqs. K reqs \<Longrightarrow> L reqs) \<Longrightarrow> sends cfg L m"
  unfolding sends_def by metis

named_theorems sends_rules

lemma sends_only_bind [sends_rules]:
  "sends_only cfg Q m \<Longrightarrow> (\<And>x. sends_only cfg Q (f x)) \<Longrightarrow> sends_only cfg Q (bindA m f)"
  unfolding sends_only_def by (rule sends_weaken [OF sends_bind]) auto

lemma sends_only_basic [sends_rules]:
  "sends_only cfg Q (returnA x)" "sends_only cfg Q (raiseA e)" "sends_only cfg Q (liftA r)"
  "sends_only cfg Q (readA g)"
  unfolding sends_only_def sends_def by (auto intro: exI [of _ "[]"])

lemma sends_only_token [sends_rules]: "sends_only cfg Q (modifyA (token_update g))"
  unfolding sends_only_def sends_def by (auto intro: exI [of _ "[]"])

lemma sends_only_if [sends_rules]:
  "sends_only cfg Q m \<Longrightarrow> sends_only cfg Q m' \<Longrightarrow> sends_only cfg Q (if c then m else m')"
  by simp

lemma sends_only_liftbind [sends_rules]:
  "(\<And>x. r = Inr x \<Longrightarrow> sends_only cfg Q (f x)) \<Longrightarrow> sends_only cfg Q (bindA (liftA r) f)"
  by (cases r) (auto simp: sends_only_def sends_def intro: exI [of _ "[]"])

lemma sends_sendA: "sends cfg (\<lambda>reqs. reqs = [req]) (sendA cfg req)"
  unfolding sends_def sendA_def zoomA_def by (auto split: prod.splits)

lemma sends_only_sendA [sends_rules]: "Q req \<Longrightarrow> sends_only cfg Q (sendA cfg req)"
  unfolding sends_only_def by (rule sends_weaken [OF sends_sendA]) simp

lemma sends_only_catch [sends_rules]:
  assumes "sends_only cfg Q m" and "\<And>e. sends_only cfg Q (h e)"
  shows "sends_only cfg Q (catchA m h)"
  unfolding sends_only_def sends_def
proof
  fix s
  obtain r t where m: "m s = (r, t)" by fastforce
  with assms(1) obtain xs where xs: "list_all Q xs" "net t = run_net cfg xs (net s)"
    unfolding sends_only_def sends_def by (metis snd_conv)
  show "\<exists>reqs. list_all Q reqs \<and> net (snd (catchA m h s)) = run_net cfg reqs (net s)"
  proof (cases r)
    case (Inl e)
    from assms(2) obtain ys where "list_all Q ys" "net (snd (h e t)) = run_net cfg ys (net t)"
      unfolding sends_only_def sends_def by metis
    with m xs Inl show ?thesis by (intro exI [of _ "xs @ ys"]) auto
  next
    case (Inr x)
    with m xs show ?thesis by auto
  qed
qed

text \<open>The request for a token, and what an authenticated request can send.\<close>

definition token_request :: "'w http_config \<Rightarrow> http_request" where
  "token_request cfg = (plain_request ''POST''
     (''/realms/'' @ hc_token_realm cfg @ ''/protocol/openid-connect/token''))
     \<lparr>rq_form := [(''grant_type'', ''client_credentials''), (''client_id'', hc_client_id cfg),
        (''client_secret'', hc_client_secret cfg)]\<rparr>"

lemma authenticate_request: "authenticate cfg =
   bindA (sendA cfg (token_request cfg)) (\<lambda>reply.
   bindA (liftA (raise_for_status cfg reply)) (\<lambda>_.
   bindA (liftA (bindR (reply_json reply) (\<lambda>j. json_index j ''access_token''))) (\<lambda>fresh.
   bindA (modifyA (token_update (\<lambda>_. fresh))) (\<lambda>_. returnA fresh))))"
  by (simp add: authenticate_def token_request_def)

lemma sends_only_authenticate [sends_rules]:
  "Q (token_request cfg) \<Longrightarrow> sends_only cfg Q (authenticate cfg)"
  unfolding authenticate_request by (intro sends_rules)

lemma sends_only_auth_header [sends_rules]:
  "Q (token_request cfg) \<Longrightarrow> sends_only cfg Q (auth_header cfg)"
  unfolding auth_header_def by (intro sends_rules)

lemma sends_only_authorized [sends_rules]:
  "Q (token_request cfg) \<Longrightarrow> (\<And>b. Q (req\<lparr>rq_bearer := Some b\<rparr>)) \<Longrightarrow> sends_only cfg Q (authorized cfg req)"
  unfolding authorized_def by (intro sends_rules)

section \<open>Representations read back\<close>

text \<open>
  C21. A user representation reads back as the account that was written: parsing what
  \<open>_to_keycloak_user\<close> sends, once Keycloak has put its id on it, gives the account with that id,
  its state normalised to active or disabled, and no identities (they are listed separately).
\<close>

theorem keycloak_user_roundtrip:
  "parse_user (JObj ((''id'', JStr uid) # to_keycloak_user user)) =
     Inr (user\<lparr>user_id := uid,
       state := (if state user \<in> set active_states then ''active'' else ''disabled''),
       federated_identities := []\<rparr>)"
  by (cases user)
     (simp add: parse_user_def to_keycloak_user_def json_get_def json_get_or_def json_index_def
       dict_get_def dict_get_or_def optional_text_def required_text_def opt_str_def json_or_def
       truthy_def first_external_id_def split: option.splits)

end
