(* ===== verification/ProductClient.thy ===== *)
theory ProductClient
  imports HttpClient Identifiers
begin

text \<open>
  The hardened Keycloak clients: \<open>ProductHttpAdminApi\<close> of \<open>app/product_keycloak_client.py\<close> and
  \<open>RelyingPartyHttpAdminApi\<close> of \<open>app/relying_party_admin.py\<close>. Both check every caller-controlled
  segment, guard every path against a whitelist of Admin REST routes of the configured realm, and
  retry a request once after a 401. The subclass overrides one static method, the check of the
  path suffix; the methods take it as the argument \<open>sfx\<close>, as the instance's class does.
\<close>

definition ADMIN_PATH_PATTERNS :: "string option list list" where
  "ADMIN_PATH_PATTERNS =
     [[Some ''users''],
      [Some ''users'', None],
      [Some ''users'', None, Some ''federated-identity''],
      [Some ''users'', None, Some ''federated-identity'', None],
      [Some ''users'', None, Some ''role-mappings''],
      [Some ''users'', None, Some ''role-mappings'', Some ''realm''],
      [Some ''users'', None, Some ''role-mappings'', Some ''clients'', None],
      [Some ''users'', None, Some ''groups''],
      [Some ''users'', None, Some ''groups'', None],
      [Some ''users'', None, Some ''execute-actions-email''],
      [Some ''identity-provider'', Some ''instances''],
      [Some ''identity-provider'', Some ''instances'', None],
      [Some ''components''],
      [Some ''components'', None]]"

definition DIRECTORY_COMPONENT_PROVIDER_TYPE :: string where
  "DIRECTORY_COMPONENT_PROVIDER_TYPE = ''org.keycloak.storage.UserStorageProvider''"

definition is_directory_edge :: "char \<Rightarrow> bool" where
  "is_directory_edge c \<longleftrightarrow> c \<in> set ''abcdefghijklmnopqrstuvwxyz0123456789''"

definition is_directory_char :: "char \<Rightarrow> bool" where
  "is_directory_char c \<longleftrightarrow> c \<in> set ''abcdefghijklmnopqrstuvwxyz0123456789-''"

definition validate_directory_name :: "string \<Rightarrow> string result" where
  "validate_directory_name name =
     (if name \<noteq> [] \<and> length name \<le> 63 \<and> is_directory_edge (hd name) \<and> is_directory_edge (last name) \<and>
         list_all is_directory_char name
      then Inr name else Inl (ValueError ''directory name is invalid''))"

definition component_id_alphabet :: string where
  "component_id_alphabet = ''abcdefghijklmnopqrstuvwxyzABCDEFGHIJKLMNOPQRSTUVWXYZ0123456789._~-''"

definition validate_directory_component_id :: "string \<Rightarrow> string result" where
  "validate_directory_component_id component_id =
     (if component_id \<noteq> [] \<and> length component_id \<le> 255 \<and> component_id \<noteq> ''.'' \<and> component_id \<noteq> ''..'' \<and>
         list_all (\<lambda>c. c \<in> set component_id_alphabet) component_id
      then Inr component_id else Inl (ValueError ''component_id is not a safe opaque path segment''))"

text \<open>Construction: the realms are checked before they are interpolated anywhere.\<close>

definition product_client_init ::
  "(http_request \<Rightarrow> ('w, http_reply) action) \<Rightarrow> (nat \<Rightarrow> bool) \<Rightarrow> string \<Rightarrow> string \<Rightarrow> string \<Rightarrow> string
     \<Rightarrow> string option \<Rightarrow> 'w http_config result" where
  "product_client_init send is_error server_url realm client_id client_secret token_realm =
     bindR (validate_path_segment realm ''keycloak_realm'') (\<lambda>_.
     bindR (case token_realm of None \<Rightarrow> Inr ''''
            | Some t \<Rightarrow> validate_path_segment t ''token_realm'') (\<lambda>_.
     Inr \<lparr>hc_send = send, hc_is_error = is_error,
       hc_server_url = rev (dropWhile (\<lambda>c. c = CHR ''/'') (rev server_url)),
       hc_realm = realm, hc_token_realm = text_or token_realm realm,
       hc_client_id = client_id, hc_client_secret = client_secret\<rparr>))"

definition safe_segment_of :: "string \<Rightarrow> string \<Rightarrow> string result" where
  "safe_segment_of value field_name = validate_path_segment value field_name"

text \<open>The same check on the value of a payload key, which may not be text.\<close>

definition safe_segment_json :: "json \<Rightarrow> string \<Rightarrow> string result" where
  "safe_segment_json value field_name = (case value of
      JStr s \<Rightarrow> validate_path_segment s field_name
    | _ \<Rightarrow> Inl (InvalidIdentifierError (field_name @ '' must be a non-empty string'')))"

section \<open>The path guard\<close>

definition literal_match :: "string option list \<Rightarrow> string list \<Rightarrow> bool" where
  "literal_match pattern segs \<longleftrightarrow>
     length segs = length pattern \<and>
     list_all (\<lambda>(expected, actual). expected = None \<or> expected = Some actual) (zip pattern segs)"

definition check_dynamic :: "string option list \<Rightarrow> string list \<Rightarrow> unit result" where
  "check_dynamic pattern segs =
     forR (enumerate 0 (zip pattern segs)) (\<lambda>(index, expected, actual).
       if expected = None
       then bindR (validate_path_segment actual (''admin_path_segment_'' @ show_nat index)) (\<lambda>_. Inr ())
       else Inr ())"

primrec match_patterns :: "string option list list \<Rightarrow> string list \<Rightarrow> unit result" where
  "match_patterns [] segs =
     Inl (InvalidIdentifierError ''request path is not an allowed Keycloak Admin REST route'')"
| "match_patterns (pattern # rest) segs =
     (if literal_match pattern segs then check_dynamic pattern segs else match_patterns rest segs)"

definition validate_admin_suffix :: "string list \<Rightarrow> unit result" where
  "validate_admin_suffix segs = match_patterns ADMIN_PATH_PATTERNS segs"

definition guard_path ::
  "'w http_config \<Rightarrow> (string list \<Rightarrow> unit result) \<Rightarrow> string \<Rightarrow> string result" where
  "guard_path cfg sfx path =
     (if \<not> startswith path ''/'' then Inl (InvalidIdentifierError ''request path must be absolute'')
      else if list_ex (\<lambda>c. c \<in> {CHR ''%'', CHR 0x5C, CHR ''?'', CHR ''#''}) path
      then Inl (InvalidIdentifierError ''request path must not contain encoding or URI delimiters'')
      else (let segments = split_char (CHR ''/'') path in
        if hd segments \<noteq> [] \<or> list_ex (\<lambda>s. s = []) (tl segments)
        then Inl (InvalidIdentifierError ''request path must not contain empty segments'')
        else if list_ex (list_ex (\<lambda>c. ord c < 32 \<or> ord c = 127)) segments
        then Inl (InvalidIdentifierError ''request path must not contain control characters'')
        else if take 3 (tl segments) \<noteq> [''admin'', ''realms'', hc_realm cfg]
        then Inl (InvalidIdentifierError ''request path must target the configured Keycloak realm'')
        else bindR (sfx (drop 3 (tl segments))) (\<lambda>_. Inr path)))"

section \<open>The guarded transport\<close>

definition send_with_reauth ::
  "'w http_config \<Rightarrow> ('w, http_reply) http_action \<Rightarrow> ('w, http_reply) http_action" where
  "send_with_reauth cfg make_request =
     bindA make_request (\<lambda>response.
     bindA (if rp_status response = 401
            then bindA (modifyA (token_update (\<lambda>_. JNull))) (\<lambda>_. make_request)
            else returnA response) (\<lambda>response'.
     bindA (liftA (raise_for_status cfg response')) (\<lambda>_.
     returnA response')))"

definition product_get ::
  "'w http_config \<Rightarrow> (string list \<Rightarrow> unit result) \<Rightarrow> string \<Rightarrow> (string \<times> string) list \<Rightarrow> ('w, json) http_action" where
  "product_get cfg sfx path params =
     bindA (liftA (guard_path cfg sfx path)) (\<lambda>guarded_path.
     bindA (send_with_reauth cfg (authorized cfg ((plain_request ''GET'' guarded_path)\<lparr>rq_params := params\<rparr>)))
       (\<lambda>response. liftA (reply_json response)))"

definition product_post ::
  "'w http_config \<Rightarrow> (string list \<Rightarrow> unit result) \<Rightarrow> string \<Rightarrow> json \<Rightarrow> ('w, json) http_action" where
  "product_post cfg sfx path body =
     bindA (liftA (guard_path cfg sfx path)) (\<lambda>guarded_path.
     bindA (send_with_reauth cfg (authorized cfg ((plain_request ''POST'' guarded_path)\<lparr>rq_json := Some body\<rparr>)))
       (\<lambda>response. liftA (content_json response)))"

definition product_put ::
  "'w http_config \<Rightarrow> (string list \<Rightarrow> unit result) \<Rightarrow> string \<Rightarrow> json \<Rightarrow> ('w, unit) http_action" where
  "product_put cfg sfx path body =
     bindA (liftA (guard_path cfg sfx path)) (\<lambda>guarded_path.
     bindA (send_with_reauth cfg (authorized cfg ((plain_request ''PUT'' guarded_path)\<lparr>rq_json := Some body\<rparr>)))
       (\<lambda>_. returnA ()))"

definition product_delete ::
  "'w http_config \<Rightarrow> (string list \<Rightarrow> unit result) \<Rightarrow> string \<Rightarrow> json option \<Rightarrow> ('w, unit) http_action" where
  "product_delete cfg sfx path body =
     bindA (liftA (guard_path cfg sfx path)) (\<lambda>guarded_path.
     bindA (send_with_reauth cfg (authorized cfg ((plain_request ''DELETE'' guarded_path)\<lparr>rq_json := body\<rparr>)))
       (\<lambda>_. returnA ()))"

definition product_transport :: "'w http_config \<Rightarrow> (string list \<Rightarrow> unit result) \<Rightarrow> 'w transport" where
  "product_transport cfg sfx = \<lparr>t_get = product_get cfg sfx, t_post = product_post cfg sfx,
     t_put = product_put cfg sfx, t_delete = product_delete cfg sfx\<rparr>"

section \<open>The hardened core methods\<close>

definition product_get_user where
  "product_get_user cfg sfx uid =
     bindA (liftA (safe_segment_of uid ''user_id'')) (\<lambda>uid'.
     http_get_user cfg (product_transport cfg sfx) uid')"

definition product_replace_user where
  "product_replace_user cfg sfx uid user =
     bindA (liftA (safe_segment_of uid ''user_id'')) (\<lambda>uid'.
     http_replace_user cfg (product_transport cfg sfx) uid' user)"

definition product_list_federated_identities where
  "product_list_federated_identities cfg sfx uid =
     bindA (liftA (safe_segment_of uid ''user_id'')) (\<lambda>uid'.
     http_list_federated_identities cfg (product_transport cfg sfx) uid')"

definition product_add_federated_identity where
  "product_add_federated_identity cfg sfx uid identity =
     bindA (liftA (safe_segment_of uid ''user_id'')) (\<lambda>uid'.
     bindA (liftA (safe_segment_of (identity_provider identity) ''identity_provider'')) (\<lambda>_.
     http_add_federated_identity cfg (product_transport cfg sfx) uid' identity))"

definition product_remove_federated_identity where
  "product_remove_federated_identity cfg sfx uid provider =
     bindA (liftA (safe_segment_of uid ''user_id'')) (\<lambda>uid'.
     bindA (liftA (safe_segment_of provider ''identity_provider'')) (\<lambda>provider'.
     http_remove_federated_identity cfg (product_transport cfg sfx) uid' provider'))"

definition product_list_role_mappings where
  "product_list_role_mappings cfg sfx uid =
     bindA (liftA (safe_segment_of uid ''user_id'')) (\<lambda>uid'.
     http_list_role_mappings cfg (product_transport cfg sfx) uid')"

definition safe_role_client :: "role_mapping \<Rightarrow> unit result" where
  "safe_role_client role = (case role_client_id role of None \<Rightarrow> Inr ()
     | Some c \<Rightarrow> bindR (safe_segment_of c ''client_id'') (\<lambda>_. Inr ()))"

definition product_add_role_mapping where
  "product_add_role_mapping cfg sfx uid role =
     bindA (liftA (safe_segment_of uid ''user_id'')) (\<lambda>uid'.
     bindA (liftA (safe_role_client role)) (\<lambda>_.
     http_add_role_mapping cfg (product_transport cfg sfx) uid' role))"

definition product_remove_role_mapping where
  "product_remove_role_mapping cfg sfx uid role =
     bindA (liftA (safe_segment_of uid ''user_id'')) (\<lambda>uid'.
     bindA (liftA (safe_role_client role)) (\<lambda>_.
     http_remove_role_mapping cfg (product_transport cfg sfx) uid' role))"

definition product_list_group_memberships where
  "product_list_group_memberships cfg sfx uid =
     bindA (liftA (safe_segment_of uid ''user_id'')) (\<lambda>uid'.
     http_list_group_memberships cfg (product_transport cfg sfx) uid')"

definition product_add_group_membership where
  "product_add_group_membership cfg sfx uid g =
     bindA (liftA (safe_segment_of (group_id g) ''group_id'')) (\<lambda>_.
     bindA (liftA (safe_segment_of uid ''user_id'')) (\<lambda>uid'.
     http_add_group_membership cfg (product_transport cfg sfx) uid' g))"

definition product_remove_group_membership where
  "product_remove_group_membership cfg sfx uid g =
     bindA (liftA (safe_segment_of (group_id g) ''group_id'')) (\<lambda>_.
     bindA (liftA (safe_segment_of uid ''user_id'')) (\<lambda>uid'.
     http_remove_group_membership cfg (product_transport cfg sfx) uid' g))"

definition product_deactivate_user where
  "product_deactivate_user cfg sfx uid =
     bindA (liftA (safe_segment_of uid ''user_id'')) (\<lambda>uid'.
     http_deactivate_user cfg (product_transport cfg sfx) uid')"

definition product_set_user_attribute where
  "product_set_user_attribute cfg sfx uid key x =
     bindA (liftA (safe_segment_of uid ''user_id'')) (\<lambda>uid'.
     http_set_user_attribute cfg (product_transport cfg sfx) uid' key x)"

definition product_get_user_attribute where
  "product_get_user_attribute cfg sfx uid key =
     bindA (liftA (safe_segment_of uid ''user_id'')) (\<lambda>uid'.
     http_get_user_attribute cfg (product_transport cfg sfx) uid' key)"

section \<open>Product extensions\<close>

definition product_create_user ::
  "'w http_config \<Rightarrow> (string list \<Rightarrow> unit result) \<Rightarrow> user_account \<Rightarrow> ('w, string) http_action" where
  "product_create_user cfg sfx user =
     bindA (liftA (guard_path cfg sfx (users_path cfg))) (\<lambda>path.
     bindA (send_with_reauth cfg (authorized cfg ((plain_request ''POST'' path)
       \<lparr>rq_json := Some (JObj (to_keycloak_user user))\<rparr>))) (\<lambda>response.
     if truthy_text (rp_location response)
     then liftA (validate_path_segment (last_segment (the (rp_location response))) ''created_user_id'')
     else bindA (http_find_user_by_username cfg (product_transport cfg sfx) (text_or (user_name user) []))
       (\<lambda>found. case found of None \<Rightarrow> returnA []
          | Some u \<Rightarrow> liftA (validate_path_segment (user_id u) ''created_user_id''))))"

definition check_redirect_uri :: "string \<Rightarrow> unit result" where
  "check_redirect_uri redirect_uri =
     bindR (urlsplit redirect_uri) (\<lambda>parsed.
     requireR (\<not> (url_scheme parsed \<noteq> ''https'' \<or> \<not> truthy_text (url_hostname parsed) \<or>
         url_username parsed \<noteq> None \<or> url_password parsed \<noteq> None \<or> url_fragment parsed \<noteq> []))
       (ValueError ''redirect_uri must be an absolute HTTPS URI''))"

definition check_action_aliases :: "string list \<Rightarrow> unit result" where
  "check_action_aliases action_aliases =
     requireR (\<not> (action_aliases = [] \<or>
         list_ex (\<lambda>alias. alias = [] \<or> length alias > 128 \<or> list_ex (\<lambda>c. ord c < 32) alias) action_aliases))
       (ValueError ''action_aliases must contain bounded action names'')"

definition product_send_execute_actions_email ::
  "'w http_config \<Rightarrow> (string list \<Rightarrow> unit result) \<Rightarrow> string \<Rightarrow> string list \<Rightarrow> string \<Rightarrow> string \<Rightarrow> int
     \<Rightarrow> ('w, unit) http_action" where
  "product_send_execute_actions_email cfg sfx uid action_aliases client redirect_uri lifespan_seconds =
     bindA (liftA (safe_segment_of uid ''user_id'')) (\<lambda>safe_user_id.
     bindA (liftA (safe_segment_of client ''client_id'')) (\<lambda>safe_client_id.
     bindA (liftA (check_redirect_uri redirect_uri)) (\<lambda>_.
     bindA (liftA (requireR (\<not> lifespan_seconds \<le> 0) (ValueError ''lifespan_seconds must be positive''))) (\<lambda>_.
     bindA (liftA (check_action_aliases action_aliases)) (\<lambda>_.
     bindA (liftA (guard_path cfg sfx (user_path cfg safe_user_id @ ''/execute-actions-email''))) (\<lambda>path.
     bindA (send_with_reauth cfg (authorized cfg ((plain_request ''PUT'' path)
       \<lparr>rq_params := [(''client_id'', safe_client_id), (''redirect_uri'', redirect_uri),
           (''lifespan'', show_int lifespan_seconds)],
         rq_json := Some (JArr (map JStr action_aliases))\<rparr>)))
     (\<lambda>_. returnA ())))))))"

definition product_delete_user :: "'w http_config \<Rightarrow> (string list \<Rightarrow> unit result) \<Rightarrow> string \<Rightarrow> ('w, unit) http_action" where
  "product_delete_user cfg sfx uid =
     bindA (liftA (safe_segment_of uid ''user_id'')) (\<lambda>safe_user_id.
     product_delete cfg sfx (user_path cfg safe_user_id) None)"

definition idp_path :: "'w http_config \<Rightarrow> string" where
  "idp_path cfg = ''/admin/realms/'' @ hc_realm cfg @ ''/identity-provider/instances''"

definition get_identity_provider ::
  "'w http_config \<Rightarrow> (string list \<Rightarrow> unit result) \<Rightarrow> string \<Rightarrow> ('w, dict option) http_action" where
  "get_identity_provider cfg sfx provider_alias =
     bindA (liftA (safe_segment_of provider_alias ''provider_alias'')) (\<lambda>safe_alias.
     catchA (bindA (product_get cfg sfx (idp_path cfg @ ''/'' @ safe_alias) []) (\<lambda>data.
         returnA (case data of JObj d \<Rightarrow> Some d | _ \<Rightarrow> None)))
       (\<lambda>e. case e of HTTPStatusError code \<Rightarrow> if code = 404 then returnA None else raiseA e | _ \<Rightarrow> raiseA e))"

definition create_identity_provider ::
  "'w http_config \<Rightarrow> (string list \<Rightarrow> unit result) \<Rightarrow> dict \<Rightarrow> ('w, unit) http_action" where
  "create_identity_provider cfg sfx provider_payload =
     bindA (liftA (safe_segment_json (dict_get provider_payload ''alias'') ''provider_alias'')) (\<lambda>_.
     bindA (product_post cfg sfx (idp_path cfg) (JObj provider_payload)) (\<lambda>_. returnA ()))"

definition update_identity_provider ::
  "'w http_config \<Rightarrow> (string list \<Rightarrow> unit result) \<Rightarrow> string \<Rightarrow> dict \<Rightarrow> ('w, unit) http_action" where
  "update_identity_provider cfg sfx provider_alias provider_payload =
     bindA (liftA (safe_segment_of provider_alias ''provider_alias'')) (\<lambda>safe_alias.
     product_put cfg sfx (idp_path cfg @ ''/'' @ safe_alias) (JObj provider_payload))"

definition delete_identity_provider ::
  "'w http_config \<Rightarrow> (string list \<Rightarrow> unit result) \<Rightarrow> string \<Rightarrow> ('w, unit) http_action" where
  "delete_identity_provider cfg sfx provider_alias =
     bindA (liftA (safe_segment_of provider_alias ''provider_alias'')) (\<lambda>safe_alias.
     product_delete cfg sfx (idp_path cfg @ ''/'' @ safe_alias) None)"

section \<open>User-storage components\<close>

definition absolute_admin_url ::
  "'w http_config \<Rightarrow> (string list \<Rightarrow> unit result) \<Rightarrow> string \<Rightarrow> string result" where
  "absolute_admin_url cfg sfx path =
     bindR (guard_path cfg sfx path) (\<lambda>guarded. Inr (hc_server_url cfg @ guarded))"

definition components_path :: "'w http_config \<Rightarrow> string" where
  "components_path cfg = ''/admin/realms/'' @ hc_realm cfg @ ''/components''"

text \<open>One attempt at a request to an absolute URL; the URL is built before the header.\<close>

definition absolute_request ::
  "'w http_config \<Rightarrow> (string list \<Rightarrow> unit result) \<Rightarrow> string \<Rightarrow> (string \<Rightarrow> http_request) \<Rightarrow> ('w, http_reply) http_action" where
  "absolute_request cfg sfx path build =
     bindA (liftA (absolute_admin_url cfg sfx path)) (\<lambda>url. authorized cfg (build url))"

definition dict_list :: "string \<Rightarrow> json \<Rightarrow> dict list result" where
  "dict_list message payload = (case payload of
      JArr items \<Rightarrow>
        mapR (\<lambda>item. case item of JObj d \<Rightarrow> Inr d | _ \<Rightarrow> Inl (RuntimeError message)) items
    | _ \<Rightarrow> Inl (RuntimeError message))"

definition list_user_storage_components ::
  "'w http_config \<Rightarrow> (string list \<Rightarrow> unit result) \<Rightarrow> string \<Rightarrow> ('w, dict list) http_action" where
  "list_user_storage_components cfg sfx name =
     bindA (liftA (validate_directory_name name)) (\<lambda>safe_name.
     bindA (send_with_reauth cfg (absolute_request cfg sfx (components_path cfg) (\<lambda>url.
       (plain_request ''GET'' url)
         \<lparr>rq_params := [(''name'', safe_name), (''type'', DIRECTORY_COMPONENT_PROVIDER_TYPE)]\<rparr>)))
     (\<lambda>response. liftA (bindR (reply_json response)
        (dict_list ''Keycloak component list response is invalid''))))"

definition create_user_storage_component ::
  "'w http_config \<Rightarrow> (string list \<Rightarrow> unit result) \<Rightarrow> dict \<Rightarrow> ('w, string option) http_action" where
  "create_user_storage_component cfg sfx component_payload =
     bindA (send_with_reauth cfg (absolute_request cfg sfx (components_path cfg) (\<lambda>url.
       (plain_request ''POST'' url)\<lparr>rq_json := Some (JObj component_payload)\<rparr>)))
     (\<lambda>response. if \<not> truthy_text (rp_location response) then returnA None
       else liftA (bindR (validate_directory_component_id (last_segment (the (rp_location response))))
          (\<lambda>i. Inr (Some i))))"

definition update_user_storage_component ::
  "'w http_config \<Rightarrow> (string list \<Rightarrow> unit result) \<Rightarrow> string \<Rightarrow> dict \<Rightarrow> ('w, unit) http_action" where
  "update_user_storage_component cfg sfx component_id component_payload =
     bindA (liftA (validate_directory_component_id component_id)) (\<lambda>safe_component_id.
     bindA (send_with_reauth cfg (absolute_request cfg sfx (components_path cfg @ ''/'' @ safe_component_id)
       (\<lambda>url. (plain_request ''PUT'' url)\<lparr>rq_json := Some (JObj component_payload)\<rparr>)))
     (\<lambda>_. returnA ()))"

definition delete_user_storage_component ::
  "'w http_config \<Rightarrow> (string list \<Rightarrow> unit result) \<Rightarrow> string \<Rightarrow> ('w, unit) http_action" where
  "delete_user_storage_component cfg sfx component_id =
     bindA (liftA (validate_directory_component_id component_id)) (\<lambda>safe_component_id.
     bindA (send_with_reauth cfg (absolute_request cfg sfx (components_path cfg @ ''/'' @ safe_component_id)
       (plain_request ''DELETE'')))
     (\<lambda>_. returnA ()))"

section \<open>Relying-party clients\<close>

definition rp_validate_admin_suffix :: "string list \<Rightarrow> unit result" where
  "rp_validate_admin_suffix segs =
     (if segs = [''clients''] then Inr ()
      else if length segs = 2 \<and> hd segs = ''clients''
      then bindR (validate_path_segment (segs ! 1) ''keycloak_client_uuid'') (\<lambda>_. Inr ())
      else validate_admin_suffix segs)"

definition clients_path :: "'w http_config \<Rightarrow> string" where
  "clients_path cfg = ''/admin/realms/'' @ hc_realm cfg @ ''/clients''"

definition created_client_uuid :: "'w http_config \<Rightarrow> string \<Rightarrow> string result" where
  "created_client_uuid cfg location =
     bindR (urlsplit location) (\<lambda>parsed.
     if url_scheme parsed \<notin> {''http'', ''https''} \<or> url_netloc parsed = [] \<or> url_username parsed \<noteq> None \<or>
        url_password parsed \<noteq> None \<or> url_query parsed \<noteq> [] \<or> url_fragment parsed \<noteq> []
     then Inl (InvalidIdentifierError ''Keycloak client Location must be an absolute HTTP(S) resource URI'')
     else bindR (guard_path cfg rp_validate_admin_suffix (url_path parsed)) (\<lambda>guarded_path.
       (let expected_prefix = clients_path cfg @ ''/'' in
        if \<not> startswith guarded_path expected_prefix
        then Inl (InvalidIdentifierError
          ''Keycloak client Location must target the configured realm client resource'')
        else validate_path_segment (drop (length expected_prefix) guarded_path) ''keycloak_client_uuid'')))"

definition list_relying_party_clients :: "'w http_config \<Rightarrow> string \<Rightarrow> ('w, dict list) http_action" where
  "list_relying_party_clients cfg client =
     bindA (liftA (safe_segment_of client ''client_id'')) (\<lambda>safe_client_id.
     bindA (product_get cfg rp_validate_admin_suffix (clients_path cfg)
       [(''clientId'', safe_client_id), (''search'', ''false'')]) (\<lambda>payload.
     liftA (dict_list ''Keycloak client list response is invalid'' payload)))"

definition create_relying_party_client :: "'w http_config \<Rightarrow> dict \<Rightarrow> ('w, string option) http_action" where
  "create_relying_party_client cfg client_payload =
     bindA (liftA (safe_segment_json (dict_get client_payload ''clientId'') ''client_id'')) (\<lambda>client.
     bindA (liftA (guard_path cfg rp_validate_admin_suffix (clients_path cfg))) (\<lambda>path.
     bindA (send_with_reauth cfg (authorized cfg ((plain_request ''POST'' path)
       \<lparr>rq_json := Some (JObj (dict_set client_payload ''clientId'' (JStr client)))\<rparr>))) (\<lambda>response.
     if \<not> truthy_text (rp_location response) then returnA None
     else liftA (bindR (created_client_uuid cfg (the (rp_location response))) (\<lambda>u. Inr (Some u))))))"

definition update_relying_party_client :: "'w http_config \<Rightarrow> string \<Rightarrow> dict \<Rightarrow> ('w, unit) http_action" where
  "update_relying_party_client cfg client_uuid client_payload =
     bindA (liftA (validate_path_segment client_uuid ''keycloak_client_uuid'')) (\<lambda>safe_uuid.
     product_put cfg rp_validate_admin_suffix (clients_path cfg @ ''/'' @ safe_uuid)
       (JObj (dict_set client_payload ''id'' (JStr safe_uuid))))"

definition delete_relying_party_client :: "'w http_config \<Rightarrow> string \<Rightarrow> ('w, unit) http_action" where
  "delete_relying_party_client cfg client_uuid =
     bindA (liftA (validate_path_segment client_uuid ''keycloak_client_uuid'')) (\<lambda>safe_uuid.
     product_delete cfg rp_validate_admin_suffix (clients_path cfg @ ''/'' @ safe_uuid) None)"

end
