(* ===== verification/Confinement.thy ===== *)
theory Confinement
  imports ProductClient
begin

text \<open>
  What the hardened clients can send. The path guard accepts exactly the whitelisted Admin REST
  routes of the configured realm; every method of the clients, on any arguments, sends nothing
  but the token request and authenticated requests to those routes; a request is retried once at
  most, with a fresh token.
\<close>

section \<open>The whitelist as a relation\<close>

definition fits :: "string option list \<Rightarrow> string list \<Rightarrow> bool" where
  "fits pattern segs =
     list_all2 (\<lambda>expected actual. case expected of None \<Rightarrow> safe_segment actual | Some l \<Rightarrow> actual = l) pattern segs"

definition routes :: "string option list list \<Rightarrow> string list \<Rightarrow> bool" where
  "routes patterns segs = list_ex (\<lambda>pattern. fits pattern segs) patterns"

definition compatible :: "string option list \<Rightarrow> string option list \<Rightarrow> bool" where
  "compatible p q = list_all2 (\<lambda>a b. a = None \<or> b = None \<or> a = b) p q"

lemma literal_match_alt:
  "literal_match p segs \<longleftrightarrow> list_all2 (\<lambda>e a. e = None \<or> e = Some a) p segs"
  by (auto simp: literal_match_def list_all2_iff list_all_iff)

lemma okR_check_dynamic:
  "okR (check_dynamic p segs) \<longleftrightarrow> (\<forall>(e, a)\<in>set (zip p segs). e = None \<longrightarrow> safe_segment a)"
proof -
  have "okR (validate_path_segment a f) \<longleftrightarrow> safe_segment a" for a f
    by (auto simp: okR_iff validate_path_segment_eq)
  then have "okR (check_dynamic p segs) \<longleftrightarrow>
      (\<forall>(i, e, a)\<in>set (enumerate 0 (zip p segs)). e = None \<longrightarrow> safe_segment a)"
    unfolding check_dynamic_def okR_forR by (fastforce simp: okR_bind_unit)
  also have "\<dots> \<longleftrightarrow> (\<forall>(e, a)\<in>snd ` set (enumerate 0 (zip p segs)). e = None \<longrightarrow> safe_segment a)"
    by fastforce
  also have "snd ` set (enumerate 0 (zip p segs)) = set (zip p segs)"
    by (metis list.set_map map_snd_enumerate)
  finally show ?thesis .
qed

lemma fits_iff: "fits p segs \<longleftrightarrow> literal_match p segs \<and> okR (check_dynamic p segs)"
proof -
  have "(case e of None \<Rightarrow> safe_segment a | Some l \<Rightarrow> a = l) \<longleftrightarrow>
      (e = None \<or> e = Some a) \<and> (e = None \<longrightarrow> safe_segment a)" for e :: "string option" and a
    by (cases e) auto
  then show ?thesis
    by (auto simp: fits_def literal_match_alt okR_check_dynamic list_all2_iff)
qed

lemma literal_match_compatible:
  assumes "literal_match p segs" and "literal_match q segs"
  shows "compatible p q"
  using assms unfolding literal_match_alt compatible_def list_all2_conv_all_nth by metis

text \<open>No two patterns of the whitelist can match the same segments, so the first match decides.\<close>

lemma admin_patterns_apart:
  "list_all (\<lambda>p. list_all (\<lambda>q. compatible p q \<longrightarrow> p = q) ADMIN_PATH_PATTERNS) ADMIN_PATH_PATTERNS"
  by code_simp

lemma match_patterns_iff:
  assumes "\<forall>p\<in>set ps. \<forall>q\<in>set ps. compatible p q \<longrightarrow> p = q"
  shows "okR (match_patterns ps segs) \<longleftrightarrow> routes ps segs"
  using assms
proof (induction ps)
  case (Cons p ps)
  show ?case
  proof (cases "literal_match p segs")
    case True
    have "fits p segs" if "q \<in> set ps" "fits q segs" for q
      using Cons.prems True literal_match_compatible [of p segs q] that by (auto simp: fits_iff)
    with True show ?thesis
      by (auto simp: routes_def list_ex_iff fits_iff)
  next
    case False
    with Cons show ?thesis by (auto simp: routes_def fits_iff)
  qed
qed (simp add: routes_def)

lemma validate_admin_suffix_iff: "okR (validate_admin_suffix segs) \<longleftrightarrow> routes ADMIN_PATH_PATTERNS segs"
  unfolding validate_admin_suffix_def
  by (rule match_patterns_iff) (use admin_patterns_apart in \<open>simp add: list_all_iff\<close>)

definition CLIENT_PATH_PATTERNS :: "string option list list" where
  "CLIENT_PATH_PATTERNS = [[Some ''clients''], [Some ''clients'', None]] @ ADMIN_PATH_PATTERNS"

lemma routes_append: "routes (ps @ qs) segs \<longleftrightarrow> routes ps segs \<or> routes qs segs"
  by (simp add: routes_def)

lemma no_inherited_client_route: "\<not> routes ADMIN_PATH_PATTERNS (''clients'' # rest)"
  by (auto simp: routes_def fits_def ADMIN_PATH_PATTERNS_def)

lemma rp_validate_admin_suffix_iff:
  "okR (rp_validate_admin_suffix segs) \<longleftrightarrow> routes CLIENT_PATH_PATTERNS segs"
proof -
  have seg: "okR (validate_path_segment a f) \<longleftrightarrow> safe_segment a" for a f
    by (auto simp: okR_iff validate_path_segment_eq)
  have own: "routes [[Some ''clients''], [Some ''clients'', None]] segs \<longleftrightarrow>
      segs = [''clients''] \<or> (\<exists>a. segs = [''clients'', a] \<and> safe_segment a)"
    by (auto simp: routes_def fits_def list_all2_Cons1)
  show ?thesis
  proof (cases "segs = [''clients''] \<or> length segs = 2 \<and> hd segs = ''clients''")
    case True
    then obtain rest where "segs = ''clients'' # rest"
      by (cases segs) auto
    with True show ?thesis
      unfolding CLIENT_PATH_PATTERNS_def routes_append own
      by (cases rest) (auto simp: rp_validate_admin_suffix_def no_inherited_client_route okR_bind_unit seg)
  next
    case False
    then have "\<not> routes [[Some ''clients''], [Some ''clients'', None]] segs"
      by (auto simp: own)
    moreover have "okR (rp_validate_admin_suffix segs) \<longleftrightarrow> okR (validate_admin_suffix segs)"
      using False by (auto simp: rp_validate_admin_suffix_def)
    ultimately show ?thesis
      unfolding CLIENT_PATH_PATTERNS_def routes_append validate_admin_suffix_iff by blast
  qed
qed

section \<open>The guard\<close>

definition admin_url :: "'w http_config \<Rightarrow> string list \<Rightarrow> string" where
  "admin_url cfg segs = CHR ''/'' # join_char (CHR ''/'') (''admin'' # ''realms'' # hc_realm cfg # segs)"

text \<open>
  The contract of a path policy: a check of suffixes that accepts exactly the routes of a list of
  patterns whose literal segments are safe. Both clients provide one.
\<close>

locale suffix_policy =
  fixes sfx :: "string list \<Rightarrow> unit result" and patterns :: "string option list list"
  assumes accepts_routes: "okR (sfx segs) \<longleftrightarrow> routes patterns segs"
    and literals_safe: "list_all (list_all (\<lambda>e. e = None \<or> safe_segment (the e))) patterns"
begin

lemma routes_safe: "routes patterns segs \<Longrightarrow> list_all safe_segment segs"
  using literals_safe
  by (fastforce simp: routes_def list_ex_iff fits_def list_all_iff list_all2_conv_all_nth in_set_conv_nth
      split: option.splits)

lemma guard_sound:
  assumes "guard_path cfg sfx path = Inr p"
  shows "p = path \<and> (\<exists>segs. routes patterns segs \<and> path = admin_url cfg segs)"
proof -
  let ?segments = "split_char (CHR ''/'') path"
  have hd: "hd ?segments = []" and three: "take 3 (tl ?segments) = [''admin'', ''realms'', hc_realm cfg]"
    and ok: "okR (sfx (drop 3 (tl ?segments)))" and p: "p = path"
    using assms by (auto simp: guard_path_def Let_def bindR_eq_Inr okR_iff split: if_splits)
  from hd have "?segments = [] # tl ?segments"
    by (metis list.collapse split_char_not_Nil)
  also have "tl ?segments = ''admin'' # ''realms'' # hc_realm cfg # drop 3 (tl ?segments)"
    using three append_take_drop_id [of 3 "tl ?segments"] by simp
  finally have "path = join_char (CHR ''/'') ([] # ''admin'' # ''realms'' # hc_realm cfg # drop 3 (tl ?segments))"
    by (metis join_split_char)
  then have "path = admin_url cfg (drop 3 (tl ?segments))"
    by (simp add: admin_url_def)
  with p ok show ?thesis by (auto simp: accepts_routes)
qed

lemma guard_complete:
  assumes realm: "safe_segment (hc_realm cfg)" and route: "routes patterns segs"
  shows "guard_path cfg sfx (admin_url cfg segs) = Inr (admin_url cfg segs)"
proof -
  let ?all = "''admin'' # ''realms'' # hc_realm cfg # segs"
  have safe: "list_all safe_segment ?all"
    using routes_safe [OF route] realm by (simp add: safe_segment_def) code_simp
  then have "\<forall>s\<in>set ?all. CHR ''/'' \<notin> set s"
    unfolding list_all_iff using safe_segment_no_slash by blast
  then have "split_char (CHR ''/'') (join_char (CHR ''/'') ?all) = ?all"
    by (intro split_join_char) blast+
  then have split: "split_char (CHR ''/'') (admin_url cfg segs) = [] # ?all"
    unfolding admin_url_def by (simp only: split_char.simps refl if_True)
  have chars: "c \<noteq> CHR ''%'' \<and> c \<noteq> CHR 0x5C \<and> c \<noteq> CHR ''?'' \<and> c \<noteq> CHR ''#''" if "c \<in> set (admin_url cfg segs)" for c
  proof -
    from that have "c = CHR ''/'' \<or> c \<in> set (join_char (CHR ''/'') ?all)"
      unfolding admin_url_def by (simp only: list.set insert_iff)
    then consider "c = CHR ''/''" | s where "s \<in> set ?all" "c \<in> set s"
      using set_join_char [of "CHR ''/''" ?all] by blast
    then show ?thesis
    proof cases
      case (2 s)
      with safe have "safe_segment s" unfolding list_all_iff by blast
      from safe_segment_chars [OF this 2(2)] show ?thesis by blast
    qed simp
  qed
  have "\<not> list_ex (\<lambda>s. s = []) ?all" "\<not> list_ex (list_ex (\<lambda>c. ord c < 32 \<or> ord c = 127)) ?all"
    using safe unfolding list_all_iff list_ex_iff safe_segment_def is_control_char_def by blast+
  moreover have "\<not> list_ex (\<lambda>c. c \<in> {CHR ''%'', CHR 0x5C, CHR ''?'', CHR ''#''}) (admin_url cfg segs)"
    using chars by (auto simp: list_ex_iff)
  moreover have "startswith (admin_url cfg segs) ''/''"
    by (simp add: startswith_def admin_url_def)
  moreover have "okR (sfx segs)" using route by (simp add: accepts_routes)
  ultimately show ?thesis
    using split by (auto simp: guard_path_def Let_def okR_iff)
qed

end

interpretation product_policy: suffix_policy validate_admin_suffix ADMIN_PATH_PATTERNS
  by unfold_locales (simp_all add: validate_admin_suffix_iff, code_simp)

interpretation client_policy: suffix_policy rp_validate_admin_suffix CLIENT_PATH_PATTERNS
  by unfold_locales (simp_all add: rp_validate_admin_suffix_iff, code_simp)

text \<open>
  The path guard of the product client accepts exactly the whitelisted routes: a path passes,
  unchanged, if and only if it is an Admin REST path of the configured realm whose remaining
  segments fit one of the patterns, literal segments as given and dynamic ones opaque.
\<close>

theorem guard_path_exact:
  assumes "safe_segment (hc_realm cfg)"
  shows "guard_path cfg validate_admin_suffix path = Inr p \<longleftrightarrow>
     p = path \<and> (\<exists>segs. routes ADMIN_PATH_PATTERNS segs \<and> path = admin_url cfg segs)"
  using product_policy.guard_sound product_policy.guard_complete [OF assms] by blast

section \<open>Confinement\<close>

text \<open>The requests a client may send: the token request, or an authenticated request to a route.\<close>

definition confined :: "'w http_config \<Rightarrow> string option list list \<Rightarrow> http_request \<Rightarrow> bool" where
  "confined cfg patterns req \<longleftrightarrow>
     req = token_request cfg \<or>
     rq_bearer req \<noteq> None \<and> (\<exists>segs. routes patterns segs \<and>
       rq_url req \<in> {admin_url cfg segs, hc_server_url cfg @ admin_url cfg segs})"

text \<open>One call of a public method of a client, with its arguments.\<close>

datatype client_call =
    Get_user string
  | Find_users_by_email string
  | Find_user_by_username string
  | Create_user user_account
  | Replace_user string user_account
  | List_federated_identities string
  | Add_federated_identity string federated_identity
  | Remove_federated_identity string string
  | List_role_mappings string
  | Add_role_mapping string role_mapping
  | Remove_role_mapping string role_mapping
  | List_group_memberships string
  | Add_group_membership string group_membership
  | Remove_group_membership string group_membership
  | Deactivate_user string
  | Set_user_attribute string string string
  | Get_user_attribute string string
  | Send_execute_actions_email string "string list" string string int
  | Delete_user string
  | Get_identity_provider string
  | Create_identity_provider dict
  | Update_identity_provider string dict
  | Delete_identity_provider string
  | List_user_storage_components string
  | Create_user_storage_component dict
  | Update_user_storage_component string dict
  | Delete_user_storage_component string

datatype relying_party_call =
    Inherited client_call
  | List_relying_party_clients string
  | Create_relying_party_client dict
  | Update_relying_party_client string dict
  | Delete_relying_party_client string

definition ignore :: "('s, 'a) action \<Rightarrow> ('s, unit) action" where
  "ignore m = bindA m (\<lambda>_. returnA ())"

fun run_call :: "'w http_config \<Rightarrow> (string list \<Rightarrow> unit result) \<Rightarrow> client_call \<Rightarrow> ('w, unit) http_action" where
  "run_call cfg sfx (Get_user u) = ignore (product_get_user cfg sfx u)"
| "run_call cfg sfx (Find_users_by_email m) = ignore (http_find_users_by_email cfg (product_transport cfg sfx) m)"
| "run_call cfg sfx (Find_user_by_username n) = ignore (http_find_user_by_username cfg (product_transport cfg sfx) n)"
| "run_call cfg sfx (Create_user a) = ignore (product_create_user cfg sfx a)"
| "run_call cfg sfx (Replace_user u a) = product_replace_user cfg sfx u a"
| "run_call cfg sfx (List_federated_identities u) = ignore (product_list_federated_identities cfg sfx u)"
| "run_call cfg sfx (Add_federated_identity u i) = product_add_federated_identity cfg sfx u i"
| "run_call cfg sfx (Remove_federated_identity u p) = product_remove_federated_identity cfg sfx u p"
| "run_call cfg sfx (List_role_mappings u) = ignore (product_list_role_mappings cfg sfx u)"
| "run_call cfg sfx (Add_role_mapping u r) = product_add_role_mapping cfg sfx u r"
| "run_call cfg sfx (Remove_role_mapping u r) = product_remove_role_mapping cfg sfx u r"
| "run_call cfg sfx (List_group_memberships u) = ignore (product_list_group_memberships cfg sfx u)"
| "run_call cfg sfx (Add_group_membership u g) = product_add_group_membership cfg sfx u g"
| "run_call cfg sfx (Remove_group_membership u g) = product_remove_group_membership cfg sfx u g"
| "run_call cfg sfx (Deactivate_user u) = product_deactivate_user cfg sfx u"
| "run_call cfg sfx (Set_user_attribute u k x) = product_set_user_attribute cfg sfx u k x"
| "run_call cfg sfx (Get_user_attribute u k) = ignore (product_get_user_attribute cfg sfx u k)"
| "run_call cfg sfx (Send_execute_actions_email u as c r l) =
     product_send_execute_actions_email cfg sfx u as c r l"
| "run_call cfg sfx (Delete_user u) = product_delete_user cfg sfx u"
| "run_call cfg sfx (Get_identity_provider p) = ignore (get_identity_provider cfg sfx p)"
| "run_call cfg sfx (Create_identity_provider d) = create_identity_provider cfg sfx d"
| "run_call cfg sfx (Update_identity_provider p d) = update_identity_provider cfg sfx p d"
| "run_call cfg sfx (Delete_identity_provider p) = delete_identity_provider cfg sfx p"
| "run_call cfg sfx (List_user_storage_components n) = ignore (list_user_storage_components cfg sfx n)"
| "run_call cfg sfx (Create_user_storage_component d) = ignore (create_user_storage_component cfg sfx d)"
| "run_call cfg sfx (Update_user_storage_component i d) = update_user_storage_component cfg sfx i d"
| "run_call cfg sfx (Delete_user_storage_component i) = delete_user_storage_component cfg sfx i"

fun run_relying_party_call :: "'w http_config \<Rightarrow> relying_party_call \<Rightarrow> ('w, unit) http_action" where
  "run_relying_party_call cfg (Inherited call) = run_call cfg rp_validate_admin_suffix call"
| "run_relying_party_call cfg (List_relying_party_clients c) = ignore (list_relying_party_clients cfg c)"
| "run_relying_party_call cfg (Create_relying_party_client d) = ignore (create_relying_party_client cfg d)"
| "run_relying_party_call cfg (Update_relying_party_client u d) = update_relying_party_client cfg u d"
| "run_relying_party_call cfg (Delete_relying_party_client u) = delete_relying_party_client cfg u"

lemma sends_only_ignore [sends_rules]: "sends_only cfg Q m \<Longrightarrow> sends_only cfg Q (ignore m)"
  unfolding ignore_def by (intro sends_rules)

lemma sends_only_reauth [sends_rules]: "sends_only cfg Q m \<Longrightarrow> sends_only cfg Q (send_with_reauth cfg m)"
  unfolding send_with_reauth_def by (intro sends_rules)

lemma sends_only_option [sends_rules]:
  "sends_only cfg Q m \<Longrightarrow> (\<And>x. sends_only cfg Q (f x)) \<Longrightarrow>
     sends_only cfg Q (case opt of None \<Rightarrow> m | Some x \<Rightarrow> f x)"
  by (cases opt) auto

context suffix_policy
begin

lemma confined_guarded:
  "guard_path cfg sfx path = Inr p \<Longrightarrow> rq_url req = p \<Longrightarrow> rq_bearer req \<noteq> None \<Longrightarrow> confined cfg patterns req"
  using guard_sound [of cfg path p] by (auto simp: confined_def)

lemma confined_token: "confined cfg patterns (token_request cfg)"
  by (simp add: confined_def)

lemma sends_guarded:
  assumes "\<And>p. rq_url (build p) = p" and "\<And>r. sends_only cfg (confined cfg patterns) (f r)"
  shows "sends_only cfg (confined cfg patterns)
    (bindA (liftA (guard_path cfg sfx path)) (\<lambda>p. bindA (send_with_reauth cfg (authorized cfg (build p))) f))"
  by (intro sends_only_liftbind sends_only_bind sends_only_reauth sends_only_authorized confined_token assms(2))
     (rule confined_guarded, simp_all add: assms(1))

lemma sends_absolute:
  assumes "\<And>p. rq_url (build p) = p"
  shows "sends_only cfg (confined cfg patterns) (absolute_request cfg sfx path build)"
  unfolding absolute_request_def
proof (intro sends_only_liftbind sends_only_authorized confined_token)
  fix url b assume "absolute_admin_url cfg sfx path = Inr url"
  then show "confined cfg patterns (build url\<lparr>rq_bearer := Some b\<rparr>)"
    using guard_sound [of cfg path path] assms
    by (auto simp: absolute_admin_url_def bindR_eq_Inr confined_def dest: guard_sound)
qed

lemma sends_transport:
  "sends_only cfg (confined cfg patterns) (product_get cfg sfx path params)"
  "sends_only cfg (confined cfg patterns) (product_post cfg sfx path body)"
  "sends_only cfg (confined cfg patterns) (product_put cfg sfx path body)"
  "sends_only cfg (confined cfg patterns) (product_delete cfg sfx path opt)"
  unfolding product_get_def product_post_def product_put_def product_delete_def
  by (rule sends_guarded; simp add: plain_request_def sends_only_basic)+

lemma sends_transport_record:
  "sends_only cfg (confined cfg patterns) (t_get (product_transport cfg sfx) path params)"
  "sends_only cfg (confined cfg patterns) (t_post (product_transport cfg sfx) path body)"
  "sends_only cfg (confined cfg patterns) (t_put (product_transport cfg sfx) path body)"
  "sends_only cfg (confined cfg patterns) (t_delete (product_transport cfg sfx) path opt)"
  by (simp_all add: product_transport_def sends_transport)

lemma sends_find:
  "sends_only cfg (confined cfg patterns) (http_find_user_by_username cfg (product_transport cfg sfx) n)"
  unfolding http_find_user_by_username_def by (intro sends_rules sends_transport_record)

lemma sends_create_user: "sends_only cfg (confined cfg patterns) (product_create_user cfg sfx a)"
  unfolding product_create_user_def
  by (rule sends_guarded) (simp add: plain_request_def, intro sends_rules sends_find)

lemma sends_email:
  "sends_only cfg (confined cfg patterns) (product_send_execute_actions_email cfg sfx u as c r l)"
  unfolding product_send_execute_actions_email_def
  by (rule sends_guarded | rule sends_only_liftbind | simp add: plain_request_def sends_only_basic)+

lemma sends_get_idp: "sends_only cfg (confined cfg patterns) (get_identity_provider cfg sfx p)"
  unfolding get_identity_provider_def
  by (intro sends_rules sends_transport) (auto split: exn.split intro: sends_rules)

lemma sends_components:
  "sends_only cfg (confined cfg patterns) (list_user_storage_components cfg sfx n)"
  "sends_only cfg (confined cfg patterns) (create_user_storage_component cfg sfx d)"
  "sends_only cfg (confined cfg patterns) (update_user_storage_component cfg sfx i d)"
  "sends_only cfg (confined cfg patterns) (delete_user_storage_component cfg sfx i)"
  unfolding list_user_storage_components_def create_user_storage_component_def
    update_user_storage_component_def delete_user_storage_component_def
  by (intro sends_only_liftbind sends_only_bind sends_only_reauth sends_absolute sends_only_if sends_only_basic;
      simp add: plain_request_def)+

lemmas method_defs = product_get_user_def product_replace_user_def
  product_list_federated_identities_def product_add_federated_identity_def
  product_remove_federated_identity_def product_list_role_mappings_def product_add_role_mapping_def
  product_remove_role_mapping_def product_list_group_memberships_def product_add_group_membership_def
  product_remove_group_membership_def product_deactivate_user_def product_set_user_attribute_def
  product_get_user_attribute_def product_delete_user_def create_identity_provider_def
  update_identity_provider_def delete_identity_provider_def
  http_get_user_def http_find_users_by_email_def http_replace_user_def http_list_federated_identities_def
  http_list_role_mappings_def http_list_group_memberships_def http_add_federated_identity_def
  http_remove_federated_identity_def http_add_role_mapping_def http_remove_role_mapping_def
  http_add_group_membership_def http_remove_group_membership_def http_deactivate_user_def
  http_set_user_attribute_def http_get_user_attribute_def

lemma sends_run_call: "sends_only cfg (confined cfg patterns) (run_call cfg sfx call)"
  by (cases call; simp only: run_call.simps method_defs)
     (intro sends_rules sends_transport sends_transport_record sends_find sends_create_user sends_email
       sends_get_idp sends_components)+

end

lemma sends_relying_party_call:
  "sends_only cfg (confined cfg CLIENT_PATH_PATTERNS) (run_relying_party_call cfg call)"
proof (cases call)
  case (Inherited c)
  then show ?thesis by (simp add: client_policy.sends_run_call)
next
  case (Create_relying_party_client d)
  show ?thesis
    unfolding Create_relying_party_client run_relying_party_call.simps create_relying_party_client_def
    by (rule sends_only_ignore | rule client_policy.sends_guarded | rule sends_only_liftbind |
        simp add: plain_request_def sends_only_basic)+
qed (simp_all only: run_relying_party_call.simps list_relying_party_clients_def
      update_relying_party_client_def delete_relying_party_client_def,
    (intro sends_rules client_policy.sends_transport)+)

text \<open>
  Whatever method of the product client is called, with whatever arguments, in whatever
  state, the network sees only the client-credentials token request and requests that carry a
  bearer token and go to a whitelisted Admin REST route of the configured realm.
\<close>

theorem product_client_confined:
  "\<exists>reqs. list_all (confined cfg ADMIN_PATH_PATTERNS) reqs \<and>
     net (snd (run_call cfg validate_admin_suffix call s)) = run_net cfg reqs (net s)"
  using product_policy.sends_run_call [of cfg call] unfolding sends_only_def sends_def by blast

text \<open>
  The same of the relying-party client, whose whitelist has the client collection and one
  client of it besides.
\<close>

theorem relying_party_client_confined:
  "\<exists>reqs. list_all (confined cfg CLIENT_PATH_PATTERNS) reqs \<and>
     net (snd (run_relying_party_call cfg call s)) = run_net cfg reqs (net s)"
  using sends_relying_party_call [of cfg call] unfolding sends_only_def sends_def by blast

section \<open>Retrying\<close>

text \<open>At most \<open>a\<close> copies of a request with some bearer token and at most \<open>b\<close> token requests.\<close>

definition req_budget :: "'w http_config \<Rightarrow> http_request \<Rightarrow> nat \<Rightarrow> nat \<Rightarrow> http_request list \<Rightarrow> bool" where
  "req_budget cfg req a b reqs \<longleftrightarrow>
     list_all (\<lambda>r. r = token_request cfg \<or> (\<exists>bearer. r = req\<lparr>rq_bearer := Some bearer\<rparr>)) reqs \<and>
     length (filter (\<lambda>r. rq_bearer r \<noteq> None) reqs) \<le> a \<and> length (filter (\<lambda>r. rq_bearer r = None) reqs) \<le> b"

lemma within_bind:
  assumes "sends cfg (req_budget cfg req a b) act" and "\<And>x. sends cfg (req_budget cfg req c d) (f x)"
  shows "sends cfg (req_budget cfg req (a + c) (b + d)) (bindA act f)"
  by (rule sends_weaken [OF sends_bind [OF assms]]) (auto simp: req_budget_def)

lemmas within_bind_quiet = within_bind [where c = 0 and d = 0, unfolded add_0_right]

lemma within_basic:
  "sends cfg (req_budget cfg req 0 0) (returnA x)" "sends cfg (req_budget cfg req 0 0) (liftA r)"
  "sends cfg (req_budget cfg req 0 0) (modifyA (token_update g))" "sends cfg (req_budget cfg req 0 0) (readA h)"
  unfolding sends_def req_budget_def by (auto intro: exI [of _ "[]"])

lemma within_mono:
  "sends cfg (req_budget cfg req a b) act \<Longrightarrow> a \<le> c \<Longrightarrow> b \<le> d \<Longrightarrow> sends cfg (req_budget cfg req c d) act"
  by (erule sends_weaken) (auto simp: req_budget_def)

lemma token_request_bearer [simp]: "rq_bearer (token_request cfg) = None"
  by (simp add: token_request_def plain_request_def)

lemma within_authenticate: "sends cfg (req_budget cfg req 0 1) (authenticate cfg)"
proof -
  have "sends cfg (req_budget cfg req 0 1) (sendA cfg (token_request cfg))"
    by (rule sends_weaken [OF sends_sendA]) (simp add: req_budget_def)
  then show ?thesis
    unfolding authenticate_request by (rule within_bind_quiet) (intro within_bind_quiet within_basic)
qed

lemma within_auth_header: "sends cfg (req_budget cfg req 0 1) (auth_header cfg)"
proof -
  have "sends cfg (req_budget cfg req 0 1) (if truthy cached then returnA cached else authenticate cfg)" for cached
    using within_authenticate within_mono [OF within_basic(1)] by auto
  from within_bind [OF within_basic(4) this] show ?thesis
    unfolding auth_header_def by simp
qed

lemma within_authorized: "sends cfg (req_budget cfg req 1 1) (authorized cfg req)"
proof -
  have "sends cfg (req_budget cfg req 1 0) (sendA cfg (req\<lparr>rq_bearer := Some bearer\<rparr>))" for bearer
    by (rule sends_weaken [OF sends_sendA]) (auto simp: req_budget_def)
  from within_bind [OF within_auth_header this] show ?thesis
    unfolding authorized_def by simp
qed

lemma within_reauth: "sends cfg (req_budget cfg req 2 2) (send_with_reauth cfg (authorized cfg req))"
proof -
  have again: "sends cfg (req_budget cfg req 1 1)
      (if rp_status r = 401 then bindA (modifyA (token_update (\<lambda>_. JNull))) (\<lambda>_. authorized cfg req) else returnA r)" for r
    using within_bind [OF within_basic(3) within_authorized] within_mono [OF within_basic(1)]
    by (cases "rp_status r = 401") simp_all
  have finish: "sends cfg (req_budget cfg req 0 0) (bindA (liftA (raise_for_status cfg r)) (\<lambda>_. returnA r))" for r
    using within_bind [OF within_basic(2) within_basic(1)] by simp
  from within_bind [OF within_authorized within_bind [OF again finish]] show ?thesis
    unfolding send_with_reauth_def by (simp add: numeral_2_eq_2)
qed

text \<open>
  A request is retried at most once: whatever the server answers, a guarded request reaches
  the network at most twice, with at most two token requests, and nothing else is sent.
\<close>

theorem reauth_bounded:
  "\<exists>reqs. req_budget cfg req 2 2 reqs \<and>
     net (snd (send_with_reauth cfg (authorized cfg req) s)) = run_net cfg reqs (net s)"
  using within_reauth [of cfg req] unfolding sends_def by blast

text \<open>
  When Keycloak rejects the cached token, the token is dropped, a new one is fetched, and the
  request is sent again with the new one; the second answer is final. Any other answer is final
  at once and leaves the cached token in place.
\<close>

theorem reauth_uses_fresh_token:
  assumes "truthy (token s)"
    and "hc_send cfg (req\<lparr>rq_bearer := Some (token s)\<rparr>) (net s) = (Inr reply, w)"
  shows "send_with_reauth cfg (authorized cfg req) s =
    (if rp_status reply = 401
     then bindA (authenticate cfg) (\<lambda>fresh.
            bindA (sendA cfg (req\<lparr>rq_bearer := Some fresh\<rparr>)) (\<lambda>second.
            bindA (liftA (raise_for_status cfg second)) (\<lambda>_. returnA second)))
            (s\<lparr>net := w, token := JNull\<rparr>)
     else (bindR (raise_for_status cfg reply) (\<lambda>_. Inr reply), s\<lparr>net := w\<rparr>))"
proof -
  have first: "authorized cfg req s = (Inr reply, s\<lparr>net := w\<rparr>)"
    using assms unfolding authorized_def auth_header_def bindA_def readA_def sendA_def zoomA_def
    by (simp add: fun_upd_def)
  have again: "authorized cfg req (s\<lparr>net := w, token := JNull\<rparr>) =
      bindA (authenticate cfg) (\<lambda>fresh. sendA cfg (req\<lparr>rq_bearer := Some fresh\<rparr>)) (s\<lparr>net := w, token := JNull\<rparr>)"
    unfolding authorized_def auth_header_def bindA_def readA_def by (simp add: truthy_def)
  show ?thesis
  proof (cases "rp_status reply = 401")
    case True
    then have "send_with_reauth cfg (authorized cfg req) s =
        bindA (authorized cfg req) (\<lambda>second. bindA (liftA (raise_for_status cfg second)) (\<lambda>_. returnA second))
          (s\<lparr>net := w, token := JNull\<rparr>)"
      unfolding send_with_reauth_def using first by (simp add: bindA_assoc bindA_def)
    also have "\<dots> = bindA (bindA (authenticate cfg) (\<lambda>fresh. sendA cfg (req\<lparr>rq_bearer := Some fresh\<rparr>)))
          (\<lambda>second. bindA (liftA (raise_for_status cfg second)) (\<lambda>_. returnA second)) (s\<lparr>net := w, token := JNull\<rparr>)"
      using again by (simp add: bindA_def)
    finally show ?thesis using True by (simp add: bindA_assoc)
  next
    case False
    then show ?thesis
      unfolding send_with_reauth_def using first
      by (cases "raise_for_status cfg reply") (simp_all add: bindA_def)
  qed
qed

section \<open>Identifiers that come back\<close>

lemma okR_case: "(\<And>x. r = Inr x \<Longrightarrow> P x) \<Longrightarrow> case r of Inl _ \<Rightarrow> True | Inr x \<Rightarrow> P x"
  by (cases r) auto

text \<open>
  What Keycloak answers to a creation is checked before it is used: the identifier of a new
  relying-party client is an opaque segment, and the Location it is taken from is an absolute
  HTTP(S) URL, without credentials, query or fragment, of exactly that client of the configured
  realm.
\<close>

theorem created_client_uuid_exact:
  "case created_client_uuid cfg location of
     Inl _ \<Rightarrow> True
   | Inr uuid \<Rightarrow> safe_segment uuid \<and>
      (case urlsplit location of
         Inl _ \<Rightarrow> False
       | Inr u \<Rightarrow> url_scheme u \<in> {''http'', ''https''} \<and> url_netloc u \<noteq> [] \<and> url_username u = None \<and>
           url_password u = None \<and> url_query u = [] \<and> url_fragment u = [] \<and>
           url_path u = admin_url cfg [''clients'', uuid])"
proof (rule okR_case)
  fix uuid assume "created_client_uuid cfg location = Inr uuid"
  then obtain u where u: "urlsplit location = Inr u"
    and shape: "url_scheme u \<in> {''http'', ''https''}" "url_netloc u \<noteq> []" "url_username u = None"
      "url_password u = None" "url_query u = []" "url_fragment u = []"
    and guard: "guard_path cfg rp_validate_admin_suffix (url_path u) = Inr (url_path u)"
    and prefix: "startswith (url_path u) (clients_path cfg @ ''/'')"
    and tail: "validate_path_segment (drop (length (clients_path cfg @ ''/'')) (url_path u)) ''keycloak_client_uuid'' = Inr uuid"
    using client_policy.guard_sound unfolding created_client_uuid_def
    by (fastforce simp: bindR_eq_Inr Let_def split: if_splits)
  from tail have "safe_segment uuid" "uuid = drop (length (clients_path cfg @ ''/'')) (url_path u)"
    by (auto simp: validate_path_segment_eq)
  moreover from prefix have "take (length (clients_path cfg @ ''/'')) (url_path u) = clients_path cfg @ ''/''"
    by (auto simp: startswith_def prefix_def)
  ultimately have "url_path u = (clients_path cfg @ ''/'') @ uuid"
    by (metis append_take_drop_id)
  then have "url_path u = admin_url cfg [''clients'', uuid]"
    by (simp add: admin_url_def clients_path_def)
  with \<open>safe_segment uuid\<close> u shape
  show "safe_segment uuid \<and> (case urlsplit location of Inl _ \<Rightarrow> False
       | Inr u \<Rightarrow> url_scheme u \<in> {''http'', ''https''} \<and> url_netloc u \<noteq> [] \<and> url_username u = None \<and>
           url_password u = None \<and> url_query u = [] \<and> url_fragment u = [] \<and>
           url_path u = admin_url cfg [''clients'', uuid])"
    by simp
qed

section \<open>Witnesses\<close>

text \<open>A server that knows one token and one user path, and answers 404 elsewhere.\<close>

definition demo_reply :: "nat \<Rightarrow> json \<Rightarrow> http_reply" where
  "demo_reply code j = \<lparr>rp_status = code, rp_json = Some j, rp_has_content = True, rp_location = None\<rparr>"

definition demo_send :: "http_request \<Rightarrow> (http_request list, http_reply) action" where
  "demo_send req sent =
     (Inr (if rq_bearer req = None then demo_reply 200 (JObj [(''access_token'', JStr ''fresh'')])
           else if rq_bearer req \<noteq> Some (JStr ''fresh'') then demo_reply 401 JNull
           else demo_reply 404 JNull), sent @ [req])"

definition demo_http :: "http_request list http_config" where
  "demo_http = \<lparr>hc_send = demo_send, hc_is_error = (\<lambda>code. 400 \<le> code), hc_server_url = ''https://kc'',
     hc_realm = ''cwl'', hc_token_realm = ''cwl'', hc_client_id = ''svc'', hc_client_secret = ''s''\<rparr>"

definition demo_client :: "http_request list client_state" where
  "demo_client = \<lparr>net = [], token = JStr ''stale''\<rparr>"

lemma demo_realm_safe: "safe_segment (hc_realm demo_http)"
  by code_simp

theorem guard_path_exact_witness:
  "guard_path demo_http validate_admin_suffix (admin_url demo_http [''users'', ''u1'']) =
     Inr (admin_url demo_http [''users'', ''u1''])"
proof -
  have "routes ADMIN_PATH_PATTERNS [''users'', ''u1'']" by code_simp
  with guard_path_exact [OF demo_realm_safe] show ?thesis by blast
qed

theorem reauth_uses_fresh_token_witness:
  "map (\<lambda>r. rq_bearer r)
     (net (snd (send_with_reauth demo_http (authorized demo_http (plain_request ''GET'' ''/x'')) demo_client))) =
   [Some (JStr ''stale''), None, Some (JStr ''fresh'')]"
proof -
  let ?req = "plain_request ''GET'' ''/x''"
  have "truthy (token demo_client)" by (simp add: demo_client_def truthy_def)
  moreover have "hc_send demo_http (?req\<lparr>rq_bearer := Some (token demo_client)\<rparr>) (net demo_client) =
      (Inr (demo_reply 401 JNull), [?req\<lparr>rq_bearer := Some (JStr ''stale'')\<rparr>])"
    by (simp add: demo_http_def demo_client_def demo_send_def plain_request_def)
  ultimately show ?thesis
    by (simp add: reauth_uses_fresh_token authenticate_def sendA_def zoomA_def bindA_def demo_client_def
      demo_http_def demo_send_def plain_request_def demo_reply_def raise_for_status_def reply_json_def
      json_index_def)
qed

end
