(* ===== verification/ProductService.thy ===== *)
theory ProductService
  imports Routes Registration Confinement
begin

text \<open>
  The services wired to the product client, as \<open>build_service\<close> of \<open>app/main.py\<close> does: the admin
  API the unification service, the SCIM shim and registration call is the guarded HTTP client of
  the relying-party class, which \<open>main.py\<close> binds to the name of its parent.
\<close>

text \<open>
  An attribute value whose first element is not text is handed on as it is; the only caller looks
  at its truth value, which the text form keeps.
\<close>

definition attribute_text :: "json \<Rightarrow> string option" where
  "attribute_text j = (case j of JStr s \<Rightarrow> Some s
     | _ \<Rightarrow> if truthy j then Some (json_dumps default_dumps j) else None)"

lemma json_dumps_nonempty [simp]: "json_dumps opts j \<noteq> [] \<longleftrightarrow> (\<forall>r. j = JFloat r \<longrightarrow> r \<noteq> [])"
  by (cases j) (auto simp: show_int_def json_string_def Let_def)

lemma truthy_attribute_text: "j \<noteq> JFloat [] \<Longrightarrow> truthy_text (attribute_text j) = truthy j"
  using json_dumps_nonempty [of default_dumps j]
  by (cases j) (auto simp: attribute_text_def truthy_text_def truthy_def)

definition product_admin_api ::
  "'w http_config \<Rightarrow> (string list \<Rightarrow> unit result) \<Rightarrow> 'w client_state product_api" where
  "product_admin_api cfg sfx =
     \<lparr>api_get_user = product_get_user cfg sfx,
      api_find_users_by_email = http_find_users_by_email cfg (product_transport cfg sfx),
      api_find_user_by_username = http_find_user_by_username cfg (product_transport cfg sfx),
      api_create_user = product_create_user cfg sfx,
      api_replace_user = product_replace_user cfg sfx,
      api_list_federated_identities = product_list_federated_identities cfg sfx,
      api_add_federated_identity = product_add_federated_identity cfg sfx,
      api_remove_federated_identity = product_remove_federated_identity cfg sfx,
      api_list_role_mappings = product_list_role_mappings cfg sfx,
      api_add_role_mapping = product_add_role_mapping cfg sfx,
      api_remove_role_mapping = product_remove_role_mapping cfg sfx,
      api_list_group_memberships = product_list_group_memberships cfg sfx,
      api_add_group_membership = product_add_group_membership cfg sfx,
      api_remove_group_membership = product_remove_group_membership cfg sfx,
      api_deactivate_user = product_deactivate_user cfg sfx,
      api_set_user_attribute = product_set_user_attribute cfg sfx,
      api_get_user_attribute = (\<lambda>uid key. bindA (product_get_user_attribute cfg sfx uid key)
         (\<lambda>j. returnA (attribute_text j))),
      api_send_execute_actions_email = product_send_execute_actions_email cfg sfx,
      api_delete_user = product_delete_user cfg sfx\<rparr>"

definition live_service ::
  "'w http_config \<Rightarrow> string \<Rightarrow> ('w client_state, sqlite_sink, sqlite_lock_db) service" where
  "live_service cfg policy = \<lparr>api_of = admin_api.truncate (product_admin_api cfg rp_validate_admin_suffix),
     record_of = sqlite_record, locks_of = sqlite_lock_ops, merge_conflict_policy = policy\<rparr>"

section \<open>A user Keycloak does not have\<close>

text \<open>
  C22. A user that Keycloak does not have: the client raises httpx's status error with code 404,
  which neither \<open>_load_user\<close> nor the route maps, so the route ends with that exception (the
  framework answers 500) and not with the 404 the handlers are written for.
\<close>

theorem missing_user_unmapped:
  fixes s :: "('w client_state, sqlite_sink, sqlite_lock_db) svc_state"
  assumes realm: "safe_segment (hc_realm cfg)" and uid: "safe_segment uid"
    and cached: "truthy (token (kc s))"
    and missing: "hc_send cfg ((plain_request ''GET'' (user_path cfg uid))\<lparr>rq_bearer := Some (token (kc s))\<rparr>)
        (net (kc s)) = (Inr reply, w)" "rp_status reply = 404" "hc_is_error cfg 404"
  shows "get_user_route (live_service cfg policy) uid s =
     (Inl (HTTPStatusError 404), s\<lparr>kc := (kc s)\<lparr>net := w\<rparr>\<rparr>)"
proof -
  have path: "user_path cfg uid = admin_url cfg [''users'', uid]"
    by (simp add: user_path_def users_path_def admin_url_def)
  have "routes CLIENT_PATH_PATTERNS [''users'', uid]"
    using uid by (simp add: routes_def fits_def CLIENT_PATH_PATTERNS_def ADMIN_PATH_PATTERNS_def)
  from client_policy.guard_complete [OF realm this]
  have guard: "guard_path cfg rp_validate_admin_suffix (user_path cfg uid) = Inr (user_path cfg uid)"
    by (simp add: path)
  let ?req = "plain_request ''GET'' (user_path cfg uid)\<lparr>rq_params := []\<rparr>"
  have "authorized cfg ?req (kc s) = (Inr reply, (kc s)\<lparr>net := w\<rparr>)"
    using cached missing(1) unfolding authorized_def auth_header_def bindA_def readA_def sendA_def zoomA_def
    by (simp add: plain_request_def)
  then have "send_with_reauth cfg (authorized cfg ?req) (kc s) = (Inl (HTTPStatusError 404), (kc s)\<lparr>net := w\<rparr>)"
    using missing(2,3) unfolding send_with_reauth_def by (simp add: bindA_def raise_for_status_def)
  then have "product_get_user cfg rp_validate_admin_suffix uid (kc s) =
      (Inl (HTTPStatusError 404), (kc s)\<lparr>net := w\<rparr>)"
    using guard uid unfolding product_get_user_def http_get_user_def product_transport_def product_get_def
    by (simp add: bindA_def safe_segment_of_def)
  then show ?thesis
    unfolding get_user_route_def get_account_def load_user_def kcA_def live_service_def product_admin_api_def
    by (simp add: catchA_def bindA_def zoomA_def admin_api.defs not_found_404_def)
qed

definition fresh_state :: "(http_request list client_state, sqlite_sink, sqlite_lock_db) svc_state" where
  "fresh_state = \<lparr>kc = demo_client\<lparr>token := JStr ''fresh''\<rparr>, sink = empty_sqlite_sink,
     lock_db = sample_lock_db, senv = demo_env\<rparr>"

theorem missing_user_unmapped_witness:
  "fst (get_user_route (live_service demo_http ''keep_survivor'') ''ghost'' fresh_state) = Inl (HTTPStatusError 404)"
proof -
  let ?r = "(plain_request ''GET'' (user_path demo_http ''ghost''))\<lparr>rq_bearer := Some (JStr ''fresh'')\<rparr>"
  have "safe_segment ''ghost''" by code_simp
  moreover have "hc_send demo_http ?r [] = (Inr (demo_reply 404 JNull), [?r])"
    by (simp add: demo_http_def demo_send_def plain_request_def)
  moreover have "hc_is_error demo_http 404" by (simp add: demo_http_def)
  ultimately show ?thesis
    using missing_user_unmapped [OF demo_realm_safe, of "''ghost''" fresh_state "demo_reply 404 JNull" "[?r]"]
    by (simp add: fresh_state_def demo_client_def demo_reply_def truthy_def)
qed

end
