(* ===== verification/MockProduct.thy ===== *)
theory MockProduct
  imports MockKeycloak Registration
begin

text \<open>
  The product-capable test double of \<open>tests/mock_product_keycloak.py\<close> as far as registration uses
  it: the in-memory admin API with the recorded enrolment emails beside it. It meets the contract
  of \<open>Registration\<close>; a variant whose mail server is down exercises the rollback.
\<close>

type_synonym action_email = "string list \<times> string \<times> string \<times> int"
type_synonym mock_product = "mock_kc \<times> (string \<Rightarrow> action_email option)"

definition onF :: "(mock_kc, 'a) action \<Rightarrow> (mock_product, 'a) action" where
  "onF m = zoomA fst (\<lambda>f. map_prod f id) m"

definition mock_send_execute_actions_email ::
  "string \<Rightarrow> string list \<Rightarrow> string \<Rightarrow> string \<Rightarrow> int \<Rightarrow> (mock_product, unit) action" where
  "mock_send_execute_actions_email uid acts client redirect_uri lifespan = (\<lambda>(m, emails).
     let m' = called (''send_execute_actions_email:'' @ uid) m in
     if map_of (mk_users m) uid = None then (Inl (KeyError uid), (m', emails))
     else (Inr (), (m', emails(uid \<mapsto> (acts, client, redirect_uri, lifespan)))))"

definition mock_delete_user :: "string \<Rightarrow> (mock_product, unit) action" where
  "mock_delete_user uid = (\<lambda>(m, emails).
     (Inr (), ((called (''delete_user:'' @ uid) m)
        \<lparr>mk_users := al_pop (mk_users m) uid, mk_federated := (mk_federated m)(uid := []),
         mk_roles := (mk_roles m)(uid := []), mk_groups := (mk_groups m)(uid := []),
         mk_attributes := (\<lambda>key. if fst key = uid then None else mk_attributes m key),
         mk_deactivated := filter (\<lambda>v. v \<noteq> uid) (mk_deactivated m)\<rparr>, emails(uid := None))))"

definition mock_product_api :: "mock_product product_api" where
  "mock_product_api = \<lparr>api_get_user = onF \<circ> mock_get_user,
     api_find_users_by_email = onF \<circ> mock_find_users_by_email,
     api_find_user_by_username = onF \<circ> mock_find_user_by_username,
     api_create_user = onF \<circ> mock_create_user,
     api_replace_user = (\<lambda>u a. onF (mock_replace_user u a)),
     api_list_federated_identities = onF \<circ> mock_list_federated_identities,
     api_add_federated_identity = (\<lambda>u l. onF (mock_add_federated_identity u l)),
     api_remove_federated_identity = (\<lambda>u p. onF (mock_remove_federated_identity u p)),
     api_list_role_mappings = onF \<circ> mock_list_role_mappings,
     api_add_role_mapping = (\<lambda>u r. onF (mock_add_role_mapping u r)),
     api_remove_role_mapping = (\<lambda>u r. onF (mock_remove_role_mapping u r)),
     api_list_group_memberships = onF \<circ> mock_list_group_memberships,
     api_add_group_membership = (\<lambda>u g. onF (mock_add_group_membership u g)),
     api_remove_group_membership = (\<lambda>u g. onF (mock_remove_group_membership u g)),
     api_deactivate_user = onF \<circ> mock_deactivate_user,
     api_set_user_attribute = (\<lambda>u k x. onF (mock_set_user_attribute u k x)),
     api_get_user_attribute = (\<lambda>u k. onF (mock_get_user_attribute u k)),
     api_send_execute_actions_email = mock_send_execute_actions_email,
     api_delete_user = mock_delete_user\<rparr>"

text \<open>The same, with a mail server that is down.\<close>

definition no_mail_api :: "mock_product product_api" where
  "no_mail_api = mock_product_api\<lparr>api_send_execute_actions_email :=
     (\<lambda>uid acts client redirect_uri lifespan. raiseA (HTTPStatusError 500))\<rparr>"

definition product_view :: "mock_product \<Rightarrow> kc_view" where
  "product_view p = mock_view (fst p)"

definition product_inv :: "mock_product \<Rightarrow> bool" where
  "product_inv p = mock_inv (fst p)"

lemma onF_run: "onF m p = (case m (fst p) of (r, m') \<Rightarrow> (r, (m', snd p)))"
  by (cases p) (simp add: onF_def zoomA_def split: prod.splits)

lemma reads_only_onF:
  "reads_only mock_inv mock_view act T \<Longrightarrow> reads_only product_inv product_view (onF act) T"
  by (auto simp: reads_only_def product_inv_def product_view_def onF_run split: prod.splits)

lemma changes_user_onF:
  "changes_user mock_inv mock_view act u f \<Longrightarrow> changes_user product_inv product_view (onF act) u f"
  by (fastforce simp: changes_user_def product_inv_def product_view_def onF_run split: prod.splits)

lemma mock_api_simps [simp]:
  "api_get_user mock_api = mock_get_user" "api_find_users_by_email mock_api = mock_find_users_by_email"
  "api_find_user_by_username mock_api = mock_find_user_by_username"
  "api_create_user mock_api = mock_create_user" "api_replace_user mock_api = mock_replace_user"
  "api_list_federated_identities mock_api = mock_list_federated_identities"
  "api_add_federated_identity mock_api = mock_add_federated_identity"
  "api_remove_federated_identity mock_api = mock_remove_federated_identity"
  "api_list_role_mappings mock_api = mock_list_role_mappings"
  "api_add_role_mapping mock_api = mock_add_role_mapping"
  "api_remove_role_mapping mock_api = mock_remove_role_mapping"
  "api_list_group_memberships mock_api = mock_list_group_memberships"
  "api_add_group_membership mock_api = mock_add_group_membership"
  "api_remove_group_membership mock_api = mock_remove_group_membership"
  "api_deactivate_user mock_api = mock_deactivate_user"
  "api_set_user_attribute mock_api = mock_set_user_attribute"
  "api_get_user_attribute mock_api = mock_get_user_attribute"
  by (simp_all add: mock_api_def)

lemmas mock_laws = mock.get_user mock.list_links mock.list_roles mock.list_groups mock.get_attribute
  mock.find_by_email mock.find_by_username mock.add_link mock.remove_link mock.add_role
  mock.remove_role mock.add_group mock.remove_group mock.deactivate mock.set_attribute

lemmas product_laws = mock_laws [unfolded mock_api_simps]

lemma product_admin: "keycloak_admin (admin_api.truncate mock_product_api) product_view product_inv"
  unfolding keycloak_admin_def admin_api.truncate_def mock_product_api_def
  by (simp add: reads_only_onF changes_user_onF product_laws)

lemma product_delete:
  assumes "product_inv w" and "mock_delete_user u w = (r, w')"
  shows "product_inv w' \<and> product_view w' = (product_view w)(u := None)"
  using assms by (cases w) (auto simp: mock_delete_user_def product_inv_def product_view_def called_def
      mock_inv_def mock_view_def fun_eq_iff split: if_splits)

lemma product_provisioning: "keycloak_provisioning (admin_api.truncate mock_product_api) product_view product_inv"
proof -
  have replace: "product_inv w' \<and> (product_view w' = product_view w \<and> \<not> okR r \<or>
      (\<exists>k k'. product_view w u = Some k \<and> represents a k k' \<and> product_view w' = (product_view w)(u \<mapsto> k')))"
    if "product_inv w" "onF (mock_replace_user u a) w = (r, w')" for w u a r w'
  proof -
    from that have "mock_inv (fst w)" "mock_replace_user u a (fst w) = (r, fst w')"
      by (auto simp: product_inv_def onF_run split: prod.splits)
    with mock.replace_user [of "fst w" u a r "fst w'"] show ?thesis
      unfolding product_inv_def product_view_def by simp
  qed
  have create: "product_inv w' \<and> product_view w u = None \<and>
      (\<exists>k. reports_user a k \<and> product_view w' = (product_view w)(u \<mapsto> k))"
    if "product_inv w" "user_id a = []" "onF (mock_create_user a) w = (Inr u, w')" for w a u w'
    using that mock.create_user [of "fst w" a u "fst w'"]
    by (auto simp: product_inv_def product_view_def onF_run split: prod.splits)
  have fails: "product_inv w' \<and> (\<forall>u. product_view w u \<noteq> None \<longrightarrow> product_view w' u = product_view w u)"
    if "product_inv w" "user_id a = []" "onF (mock_create_user a) w = (Inl e, w')" for w a e w'
    using that mock.create_user_fails [of "fst w" a e "fst w'"]
    by (auto simp: product_inv_def product_view_def onF_run split: prod.splits)
  have ops: "api_replace_user (admin_api.truncate mock_product_api) u a = onF (mock_replace_user u a)"
    "api_create_user (admin_api.truncate mock_product_api) a = onF (mock_create_user a)" for u a
    by (simp_all add: admin_api.truncate_def mock_product_api_def)
  show ?thesis
    by (intro keycloak_provisioning.intro product_admin keycloak_provisioning_axioms.intro, unfold ops)
      (fact replace create fails)+
qed

interpretation mock_product: registration_api mock_product_api product_view product_inv
proof (intro registration_api.intro product_provisioning registration_api_axioms.intro)
  show "reads_only product_inv product_view
      (api_send_execute_actions_email mock_product_api u acts c ru n) (\<lambda>_ _. True)" for u acts c ru n
    by (auto simp: mock_product_api_def mock_send_execute_actions_email_def reads_only_def product_inv_def
        product_view_def called_def mock_inv_def mock_view_def Let_def fun_eq_iff split: if_splits)
  show "product_inv w \<Longrightarrow> api_delete_user mock_product_api u w = (r, w') \<Longrightarrow>
      product_inv w' \<and> (product_view w' = (product_view w)(u := None) \<or> product_view w' = product_view w \<and> \<not> okR r)"
    for w u r w'
    using product_delete [of w u r w'] by (simp add: mock_product_api_def)
  show "api_create_user mock_product_api a w \<noteq> (Inl (HTTPException status detail), w')" for a w status detail w'
    by (simp add: mock_product_api_def onF_run mock_create_user_def Let_def split: prod.splits)
qed

lemma no_mail_truncate: "admin_api.truncate no_mail_api = admin_api.truncate mock_product_api"
  by (simp add: no_mail_api_def admin_api.truncate_def)

interpretation no_mail: registration_api no_mail_api product_view product_inv
proof (intro registration_api.intro registration_api_axioms.intro, unfold no_mail_truncate)
  show "keycloak_provisioning (admin_api.truncate mock_product_api) product_view product_inv"
    by (rule product_provisioning)
  show "reads_only product_inv product_view
      (api_send_execute_actions_email no_mail_api u acts c ru n) (\<lambda>_ _. True)" for u acts c ru n
    by (simp add: no_mail_api_def reads_only_def)
  show "product_inv w \<Longrightarrow> api_delete_user no_mail_api u w = (r, w') \<Longrightarrow>
      product_inv w' \<and> (product_view w' = (product_view w)(u := None) \<or> product_view w' = product_view w \<and> \<not> okR r)"
    for w u r w'
    using product_delete [of w u r w'] by (simp add: no_mail_api_def mock_product_api_def)
  show "api_create_user no_mail_api a w \<noteq> (Inl (HTTPException status detail), w')" for a w status detail w'
    by (simp add: no_mail_api_def mock_product_api_def onF_run mock_create_user_def Let_def split: prod.splits)
qed

definition demo_settings :: registration_settings where
  "demo_settings = \<lparr>registration_client_id = Some ''shop'', registration_redirect_uri = Some ''https://shop.example/done'',
     registration_action_lifespan_seconds = Some 3600\<rparr>"

definition demo_registration :: registration_request where
  "demo_registration = \<lparr>reg_email_address = ''New@x.org'', reg_first_name = None, reg_last_name = None\<rparr>"

definition demo_registration_state :: "mock_product registration_state" where
  "demo_registration_state = \<lparr>reg_kc = (demo_kc, \<lambda>_. None), reg_windows = (\<lambda>_. None), reg_env = demo_env\<rparr>"

theorem registration_no_orphan_witness:
  "\<exists>t. register_account no_mail_api demo_settings None demo_registration demo_registration_state
     = (Inl (HTTPException 502 ''account_initialization_failed''), t) \<and>
   product_view (reg_kc t) = product_view (reg_kc demo_registration_state)"
proof -
  let ?run = "register_account no_mail_api demo_settings None demo_registration demo_registration_state"
  have "fst ?run = Inl (HTTPException 502 ''account_initialization_failed'')" by code_simp
  then obtain t where run: "?run = (Inl (HTTPException 502 ''account_initialization_failed''), t)"
    by (cases ?run) auto
  have "product_inv (reg_kc demo_registration_state)"
    using demo_state_ok(1) by (simp add: product_inv_def demo_registration_state_def demo_state_def)
  from registration_no_orphan [OF no_mail.registration_api_axioms this run] run
  show ?thesis by simp
qed

end
