(* ===== verification/Text_Checks.thy ===== *)
theory Text_Checks
  imports Url
begin

text \<open>
  The lexical checks that the validators of identity providers, relying parties and directories
  share: the regular expressions of the source as executable predicates on text, the closed set of
  fields of a JSON object, and the guarded call of \<open>urlsplit\<close>.
\<close>

text \<open>A search for \<open>[\x00-\x1F\x7F]\<close>, and for one of the markers of an unresolved template.\<close>

definition has_raw_control :: "string \<Rightarrow> bool" where
  "has_raw_control s = list_ex (\<lambda>c. ord c < 32 \<or> ord c = 127) s"

definition has_template_marker :: "string \<Rightarrow> bool" where
  "has_template_marker s \<longleftrightarrow> contains ''{{'' s \<or> contains ''}}'' s"

text \<open>
  A full match of \<open>X(?:[X-]{0,61}X)?\<close> for an alphabet \<open>X\<close>: at most 63 characters of the
  alphabet or hyphens, with a character of the alphabet at both ends.
\<close>

definition is_label :: "(char \<Rightarrow> bool) \<Rightarrow> string \<Rightarrow> bool" where
  "is_label alphabet s \<longleftrightarrow> s \<noteq> [] \<and> length s \<le> 63 \<and> alphabet (hd s) \<and> alphabet (last s) \<and>
     list_all (\<lambda>c. alphabet c \<or> c = CHR ''-'') s"

definition is_slug_char :: "char \<Rightarrow> bool" where
  "is_slug_char c \<longleftrightarrow> is_ascii_lower c \<or> isdecimal_char c"

definition is_slug :: "string \<Rightarrow> bool" where
  "is_slug s = is_label is_slug_char s"

text \<open>A search for \<open>%(?![0-9A-Fa-f]{2})\<close>: a percent sign without two hex digits after it.\<close>

fun has_invalid_escape :: "string \<Rightarrow> bool" where
  "has_invalid_escape [] = False"
| "has_invalid_escape (c # rest) \<longleftrightarrow>
     c = CHR ''%'' \<and> \<not> (case rest of a # b # _ \<Rightarrow> is_hex_char a \<and> is_hex_char b | _ \<Rightarrow> False) \<or>
     has_invalid_escape rest"

text \<open>A search for \<open>%(?:0[0-9A-Fa-f]|1[0-9A-Fa-f]|2[eEfF]|5[cC]|7[fF])\<close>.\<close>

fun has_encoded_meta :: "string \<Rightarrow> bool" where
  "has_encoded_meta (a # b # c # rest) \<longleftrightarrow>
     (a = CHR ''%'' \<and>
       ((b = CHR ''0'' \<or> b = CHR ''1'') \<and> is_hex_char c \<or>
        b = CHR ''2'' \<and> c \<in> set ''eEfF'' \<or> b = CHR ''5'' \<and> c \<in> set ''cC'' \<or> b = CHR ''7'' \<and> c \<in> set ''fF'')) \<or>
     has_encoded_meta (b # c # rest)"
| "has_encoded_meta _ = False"

text \<open>The closed set of fields: no other field, and the first missing one in sorted order.\<close>

definition has_other_field :: "string list \<Rightarrow> (string \<times> 'v) list \<Rightarrow> bool" where
  "has_other_field allowed d = list_ex (\<lambda>p. fst p \<notin> set allowed) d"

definition first_missing :: "string list \<Rightarrow> (string \<times> 'v) list \<Rightarrow> string option" where
  "first_missing required d =
     (case sort (filter (\<lambda>k. map_of d k = None) required) of [] \<Rightarrow> None | k # _ \<Rightarrow> Some k)"

definition require_present :: "(string \<Rightarrow> exn) \<Rightarrow> string list \<Rightarrow> (string \<times> 'v) list \<Rightarrow> unit result" where
  "require_present err required d =
     (case first_missing required d of None \<Rightarrow> Inr () | Some k \<Rightarrow> Inl (err k))"

text \<open>\<open>urlsplit\<close> and the read of the port, either of which may raise \<open>ValueError\<close>.\<close>

definition split_url :: "string \<Rightarrow> (split_result \<times> nat option) option" where
  "split_url value =
     (case bindR (urlsplit value) (\<lambda>u. bindR (url_port u) (\<lambda>p. Inr (u, p))) of
        Inl _ \<Rightarrow> None | Inr up \<Rightarrow> Some up)"

end
