(* ===== verification/Base64.thy ===== *)
theory Base64
  imports Prelude
begin

text \<open>
  What the source uses of Python's \<open>base64\<close>: the strict decoder of signing certificates, and the
  URL-safe alphabet of token segments with its encoder. Bytes are naturals below 256. The unpadded
  URL-safe encoding and the decoding of canonical segments are inverse to each other.
\<close>

section \<open>Sextets and bytes\<close>

definition sextet :: "char \<Rightarrow> nat option" where
  "sextet c =
     (if is_ascii_upper c then Some (ord c - 65)
      else if is_ascii_lower c then Some (ord c - 71)
      else if isdecimal_char c then Some (ord c + 4)
      else if c = CHR ''+'' then Some 62
      else if c = CHR ''/'' then Some 63
      else None)"

fun sextet_bytes :: "nat list \<Rightarrow> nat list" where
  "sextet_bytes (a # b # c # d # rest) =
     [a * 4 + b div 16, (b mod 16) * 16 + c div 4, (c mod 4) * 64 + d] @ sextet_bytes rest"
| "sextet_bytes [a, b, c] = [a * 4 + b div 16, (b mod 16) * 16 + c div 4]"
| "sextet_bytes [a, b] = [a * 4 + b div 16]"
| "sextet_bytes _ = []"

fun byte_sextets :: "nat list \<Rightarrow> nat list" where
  "byte_sextets (x # y # z # rest) =
     [x div 4, (x mod 4) * 16 + y div 16, (y mod 16) * 4 + z div 64, z mod 64] @ byte_sextets rest"
| "byte_sextets [x, y] = [x div 4, (x mod 4) * 16 + y div 16, (y mod 16) * 4]"
| "byte_sextets [x] = [x div 4, (x mod 4) * 16]"
| "byte_sextets [] = []"

text \<open>Strict Base64 as \<open>b64decode(..., validate=True)\<close> takes it: alphabet only, padded to fours.\<close>

definition b64decode_strict :: "string \<Rightarrow> nat list result" where
  "b64decode_strict s =
     (let body = takeWhile (\<lambda>c. c \<noteq> CHR ''='') s; pads = dropWhile (\<lambda>c. c \<noteq> CHR ''='') s in
      if length s mod 4 \<noteq> 0 \<or> length pads > 2 \<or> \<not> list_all (\<lambda>c. c = CHR ''='') pads \<or>
         list_ex (\<lambda>c. sextet c = None) body
      then Inl (ValueError ''invalid base64'')
      else Inr (sextet_bytes (map (\<lambda>c. the (sextet c)) body)))"

section \<open>The URL-safe alphabet\<close>

definition is_base64url_char :: "char \<Rightarrow> bool" where
  "is_base64url_char c \<longleftrightarrow> is_ascii_alnum c \<or> c = CHR ''-'' \<or> c = CHR ''_''"

definition url_sextet :: "char \<Rightarrow> nat" where
  "url_sextet c =
     (if is_ascii_upper c then ord c - 65
      else if is_ascii_lower c then ord c - 71
      else if isdecimal_char c then ord c + 4
      else if c = CHR ''-'' then 62
      else 63)"

definition url_char :: "nat \<Rightarrow> char" where
  "url_char n =
     (if n < 26 then char_of (n + 65)
      else if n < 52 then char_of (n + 71)
      else if n < 62 then char_of (n - 4)
      else if n = 62 then CHR ''-''
      else CHR ''_'')"

text \<open>
  \<open>urlsafe_b64decode(s + "=" * (-len(s) % 4))\<close> on text of the alphabet: a single left-over sextet is
  an error, left-over bits are dropped. \<open>urlsafe_b64encode(raw).rstrip(b"=")\<close> is the encoder.
\<close>

definition urlsafe_decode :: "string \<Rightarrow> nat list result" where
  "urlsafe_decode s =
     (if length s mod 4 = 1
      then Inl (ValueError ''number of data characters cannot be 1 more than a multiple of 4'')
      else Inr (sextet_bytes (map url_sextet s)))"

definition urlsafe_encode :: "nat list \<Rightarrow> string" where
  "urlsafe_encode raw = map url_char (byte_sextets raw)"

section \<open>Round trips\<close>

abbreviation bytes_ok :: "nat list \<Rightarrow> bool" where
  "bytes_ok raw \<equiv> list_all (\<lambda>b. b < 256) raw"

lemma url_sextet_char: "n < 64 \<Longrightarrow> url_sextet (url_char n) = n \<and> is_base64url_char (url_char n)"
  by (auto simp: url_char_def url_sextet_def is_base64url_char_def is_ascii_alnum_def is_ascii_alpha_def
      is_ascii_upper_def is_ascii_lower_def isdecimal_char_def ord_def)

lemma byte_sextets_bound: "bytes_ok raw \<Longrightarrow> list_all (\<lambda>n. n < 64) (byte_sextets raw)"
  by (induction raw rule: byte_sextets.induct) (auto simp: less_mult_imp_div_less)

lemma sextet_byte_roundtrip: "bytes_ok raw \<Longrightarrow> sextet_bytes (byte_sextets raw) = raw"
  by (induction raw rule: byte_sextets.induct) auto

lemma length_byte_sextets: "length (byte_sextets raw) mod 4 \<noteq> 1"
proof (induction raw rule: byte_sextets.induct)
  case (1 x y z rest)
  have "length (byte_sextets (x # y # z # rest)) mod 4 = length (byte_sextets rest) mod 4"
    by simp
  with 1 show ?case by simp
qed auto

lemma urlsafe_decode_encode: "bytes_ok raw \<Longrightarrow> urlsafe_decode (urlsafe_encode raw) = Inr raw"
proof -
  assume raw: "bytes_ok raw"
  have "map url_sextet (map url_char (byte_sextets raw)) = byte_sextets raw"
    using byte_sextets_bound [OF raw] url_sextet_char by (auto simp: list_all_iff intro: map_idI)
  then show ?thesis
    using sextet_byte_roundtrip [OF raw] length_byte_sextets
    by (simp add: urlsafe_decode_def urlsafe_encode_def)
qed

lemma urlsafe_encode_alphabet: "bytes_ok raw \<Longrightarrow> list_all is_base64url_char (urlsafe_encode raw)"
  using byte_sextets_bound url_sextet_char by (fastforce simp: urlsafe_encode_def list_all_iff)

lemma sextet_bytes_bound: "list_all (\<lambda>n. n < 64) ns \<Longrightarrow> bytes_ok (sextet_bytes ns)"
  by (induction ns rule: sextet_bytes.induct) auto

lemma url_sextet_bound: "url_sextet c < 64" if "is_base64url_char c"
  using that by (auto simp: url_sextet_def is_base64url_char_def is_ascii_alnum_def is_ascii_alpha_def
      is_ascii_upper_def is_ascii_lower_def isdecimal_char_def)

lemma urlsafe_decode_bytes: "list_all is_base64url_char s \<Longrightarrow> urlsafe_decode s = Inr raw \<Longrightarrow> bytes_ok raw"
  using url_sextet_bound
  by (auto simp: urlsafe_decode_def list_all_iff split: if_splits intro!: sextet_bytes_bound [unfolded list_all_iff, rule_format])

end
