(* ===== verification/Federation.thy ===== *)
theory Federation
  imports KvStore Json Text_Checks Base64
begin

text \<open>
  The runtime federation registry of \<open>app/federation.py\<close>: validation of identity-provider
  registrations, the redacted operator view, and \<open>FederationService\<close>, which keeps the desired
  state in the key-value store and converges Keycloak to it. The X.509 parser, pydantic's JSON
  codec of registrations, the store backend and the Keycloak client are parameters, collected in
  the record \<open>fed_service\<close>. Every request is one action: the two locks of the service only
  serialise requests.
\<close>

definition FEDERATION_PROVIDER_NAMESPACE :: string where
  "FEDERATION_PROVIDER_NAMESPACE = ''federation_identity_providers''"

definition SUPPORTED_PROVIDER_IDS :: "string list" where
  "SUPPORTED_PROVIDER_IDS = [''saml'', ''oidc'', ''keycloak-oidc'']"

definition MAX_PROVIDER_ALIAS_LENGTH :: nat where "MAX_PROVIDER_ALIAS_LENGTH = 63"
definition MAX_PROVIDER_CONFIG_ENTRIES :: nat where "MAX_PROVIDER_CONFIG_ENTRIES = 64"
definition MAX_PROVIDER_CONFIG_KEY_LENGTH :: nat where "MAX_PROVIDER_CONFIG_KEY_LENGTH = 128"
definition MAX_PROVIDER_CONFIG_VALUE_LENGTH :: nat where "MAX_PROVIDER_CONFIG_VALUE_LENGTH = 16384"
definition SAML_ENTITY_ID_MAX_LENGTH :: nat where "SAML_ENTITY_ID_MAX_LENGTH = 1024"
definition REDACTED_VALUE :: string where "REDACTED_VALUE = ''<redacted>''"
definition KEYCLOAK_MASKED_VALUE :: string where "KEYCLOAK_MASKED_VALUE = ''**********''"

definition NON_OBSERVABLE_PROVIDER_CONFIG_KEYS :: "string list" where
  "NON_OBSERVABLE_PROVIDER_CONFIG_KEYS = [''clientSecret'']"

definition OIDC_CLIENT_AUTH_METHODS :: "string list" where
  "OIDC_CLIENT_AUTH_METHODS = [''client_secret_basic'', ''client_secret_post'']"

definition OIDC_FORBIDDEN_DISCOVERY_KEYS :: "string list" where
  "OIDC_FORBIDDEN_DISCOVERY_KEYS = [''fromUrl'', ''discoveryEndpoint'']"

definition EXPOSED_PROVIDER_CONFIG_KEYS :: "string list" where
  "EXPOSED_PROVIDER_CONFIG_KEYS =
     [''alias'', ''authorizationUrl'', ''backchannelSupported'', ''clientAuthMethod'', ''clientId'',
      ''defaultScope'', ''entityId'', ''guiOrder'', ''hideOnLoginPage'', ''idpEntityId'', ''issuer'',
      ''jwksUrl'', ''logoutUrl'', ''metadataDescriptorUrl'', ''pkceEnabled'', ''pkceMethod'',
      ''principalAttribute'', ''principalType'', ''signatureAlgorithm'', ''singleLogoutServiceUrl'',
      ''singleSignOnServiceUrl'', ''syncMode'', ''tokenUrl'', ''useJwksUrl'',
      ''useMetadataDescriptorUrl'', ''userInfoUrl'', ''validateSignature'']"

definition ALIAS_EDGE_ALPHABET :: string where
  "ALIAS_EDGE_ALPHABET = ''abcdefghijklmnopqrstuvwxyz0123456789''"

definition ALIAS_ALPHABET :: string where
  "ALIAS_ALPHABET = ''abcdefghijklmnopqrstuvwxyz0123456789-''"

section \<open>Registrations and views\<close>

type_synonym provider_config = "(string \<times> string) list"

record identity_provider_registration =
  reg_alias :: string
  reg_display_name :: string
  reg_provider_id :: string
  reg_enabled :: bool
  reg_trust_email :: bool
  reg_config :: provider_config

text \<open>The view has the fields of the registration, its configuration redacted.\<close>

record identity_provider_view =
  view_alias :: string
  view_display_name :: string
  view_provider_id :: string
  view_enabled :: bool
  view_trust_email :: bool
  view_config :: provider_config

record identity_provider_status =
  status_registration :: identity_provider_view
  applied_to_keycloak :: bool

definition redacted_provider_config :: "provider_config \<Rightarrow> provider_config" where
  "redacted_provider_config config =
     map (\<lambda>(k, v). (k, if k \<in> set EXPOSED_PROVIDER_CONFIG_KEYS then v else REDACTED_VALUE)) config"

definition from_registration :: "identity_provider_registration \<Rightarrow> identity_provider_view" where
  "from_registration r = \<lparr>view_alias = reg_alias r, view_display_name = reg_display_name r,
     view_provider_id = reg_provider_id r, view_enabled = reg_enabled r,
     view_trust_email = reg_trust_email r, view_config = redacted_provider_config (reg_config r)\<rparr>"

section \<open>Validation\<close>

definition config_get :: "provider_config \<Rightarrow> string \<Rightarrow> string option" where
  "config_get config field = map_of config field"

definition config_get_or :: "provider_config \<Rightarrow> string \<Rightarrow> string \<Rightarrow> string" where
  "config_get_or config field dflt = (case map_of config field of None \<Rightarrow> dflt | Some v \<Rightarrow> v)"

definition provider_config_error :: "string \<Rightarrow> string \<Rightarrow> exn" where
  "provider_config_error field_name requirement = HTTPException 400 (field_name @ '' '' @ requirement)"

definition valid_alias :: "string \<Rightarrow> bool" where
  "valid_alias a \<longleftrightarrow> 1 \<le> length a \<and> length a \<le> MAX_PROVIDER_ALIAS_LENGTH \<and>
     hd a \<in> set ALIAS_EDGE_ALPHABET \<and> last a \<in> set ALIAS_EDGE_ALPHABET \<and>
     list_all (\<lambda>c. c \<in> set ALIAS_ALPHABET) a"

definition validate_provider_alias :: "string \<Rightarrow> unit result" where
  "validate_provider_alias provider_alias = requireR (valid_alias provider_alias)
     (HTTPException 400 ''provider_alias must be an ASCII lowercase URL-safe slug'')"

definition validate_provider_boolean :: "provider_config \<Rightarrow> string \<Rightarrow> bool result" where
  "validate_provider_boolean config field_name =
     (case config_get config field_name of
        None \<Rightarrow> Inl (provider_config_error field_name ''is required and must be true or false'')
      | Some raw \<Rightarrow>
          (let normalized = lower (strip raw) in
           if normalized \<notin> {''true'', ''false''}
           then Inl (provider_config_error field_name ''must be true or false'')
           else Inr (normalized = ''true'')))"

text \<open>The search for \<open>%(?:0[0-9A-Fa-f]|1[0-9A-Fa-f]|7[Ff])\<close>.\<close>

fun has_encoded_control :: "string \<Rightarrow> bool" where
  "has_encoded_control (a # b # c # rest) \<longleftrightarrow>
     (a = CHR ''%'' \<and> ((b = CHR ''0'' \<or> b = CHR ''1'') \<and> is_hex_char c \<or>
        b = CHR ''7'' \<and> (c = CHR ''F'' \<or> c = CHR ''f''))) \<or>
     has_encoded_control (b # c # rest)"
| "has_encoded_control _ = False"

definition invalid_uri_text :: "nat \<Rightarrow> string \<Rightarrow> bool" where
  "invalid_uri_text maximum_length value \<longleftrightarrow>
     value = [] \<or> length value > maximum_length \<or> value \<noteq> strip value \<or>
     list_ex (\<lambda>c. isspace_char c \<or> ord c < 32 \<or> ord c = 127) value \<or>
     CHR 0x5C \<in> set value \<or> has_encoded_control value"

text \<open>\<open>urlsplit\<close> and the read of the port, with a \<open>ValueError\<close> of either giving no result.\<close>

definition split_with_port :: "string \<Rightarrow> split_result option" where
  "split_with_port value =
     (case urlsplit value of
        Inl _ \<Rightarrow> None
      | Inr parsed \<Rightarrow> (case url_port parsed of Inl _ \<Rightarrow> None | Inr _ \<Rightarrow> Some parsed))"

definition invalid_uri :: "split_result option \<Rightarrow> bool" where
  "invalid_uri parsed \<longleftrightarrow>
     (case parsed of
        None \<Rightarrow> True
      | Some u \<Rightarrow> url_scheme u = [] \<or> url_username u \<noteq> None \<or> url_password u \<noteq> None \<or>
          (lower (url_scheme u) \<in> {''http'', ''https''} \<and> url_hostname u = None))"

definition validate_absolute_uri :: "provider_config \<Rightarrow> string \<Rightarrow> nat \<Rightarrow> split_result result" where
  "validate_absolute_uri config field_name maximum_length =
     (let value = config_get_or config field_name []; parsed = split_with_port value in
      if invalid_uri_text maximum_length value \<or> invalid_uri parsed
      then Inl (provider_config_error field_name ''must be a bounded absolute URI'')
      else Inr (the parsed))"

definition validate_https_url :: "provider_config \<Rightarrow> string \<Rightarrow> split_result result" where
  "validate_https_url config field_name =
     bindR (validate_absolute_uri config field_name MAX_PROVIDER_CONFIG_VALUE_LENGTH) (\<lambda>parsed.
     if lower (url_scheme parsed) \<noteq> ''https'' \<or> url_hostname parsed = None \<or> url_fragment parsed \<noteq> []
     then Inl (provider_config_error field_name ''must be an absolute HTTPS URL without a fragment'')
     else Inr parsed)"

definition validate_required_provider_text :: "provider_config \<Rightarrow> string \<Rightarrow> string result" where
  "validate_required_provider_text config field_name =
     (case config_get config field_name of
        None \<Rightarrow> Inl (provider_config_error field_name ''must be a bounded non-empty control-free value'')
      | Some raw \<Rightarrow>
          if raw = [] \<or> length raw > MAX_PROVIDER_CONFIG_VALUE_LENGTH \<or> raw \<noteq> strip raw \<or> has_raw_control raw
          then Inl (provider_config_error field_name ''must be a bounded non-empty control-free value'')
          else Inr raw)"

definition validate_oidc_issuer :: "provider_config \<Rightarrow> unit result" where
  "validate_oidc_issuer config =
     bindR (validate_https_url config ''issuer'') (\<lambda>parsed.
     requireR (url_query parsed = [] \<and> url_fragment parsed = [])
       (provider_config_error ''issuer'' ''must be an HTTPS URL without a query or fragment''))"

definition is_scope_char :: "char \<Rightarrow> bool" where
  "is_scope_char c \<longleftrightarrow> ord c = 33 \<or> (35 \<le> ord c \<and> ord c \<le> 91) \<or> (93 \<le> ord c \<and> ord c \<le> 126)"

definition validate_oidc_scopes :: "provider_config \<Rightarrow> unit result" where
  "validate_oidc_scopes config =
     bindR (validate_required_provider_text config ''defaultScope'') (\<lambda>raw_scope.
     (let tokens = split_char (CHR '' '') raw_scope in
      requireR (list_all (\<lambda>t. t \<noteq> [] \<and> list_all is_scope_char t) tokens \<and> distinct tokens \<and>
          ''openid'' \<in> set tokens)
        (provider_config_error ''defaultScope'' ''must be unique RFC 6749 scope tokens including openid'')))"

definition validate_oidc_registration :: "provider_config \<Rightarrow> unit result" where
  "validate_oidc_registration config =
     bindR (forR OIDC_FORBIDDEN_DISCOVERY_KEYS (\<lambda>key.
       requireR (config_get config key = None)
         (provider_config_error key ''is not supported; render explicit pinned endpoints''))) (\<lambda>_.
     bindR (validate_oidc_issuer config) (\<lambda>_.
     bindR (forR [''authorizationUrl'', ''tokenUrl'', ''jwksUrl''] (\<lambda>field.
       bindR (validate_https_url config field) (\<lambda>_. Inr ()))) (\<lambda>_.
     bindR (forR [''userInfoUrl'', ''logoutUrl''] (\<lambda>field.
       if config_get config field \<noteq> None then bindR (validate_https_url config field) (\<lambda>_. Inr ()) else Inr ())) (\<lambda>_.
     bindR (validate_required_provider_text config ''clientId'') (\<lambda>_.
     bindR (validate_required_provider_text config ''clientSecret'') (\<lambda>_.
     bindR (validate_required_provider_text config ''clientAuthMethod'') (\<lambda>client_auth_method.
     bindR (requireR (client_auth_method \<in> set OIDC_CLIENT_AUTH_METHODS)
       (provider_config_error ''clientAuthMethod'' ''must be client_secret_basic or client_secret_post'')) (\<lambda>_.
     bindR (forR [''validateSignature'', ''useJwksUrl'', ''pkceEnabled''] (\<lambda>flag.
       bindR (validate_provider_boolean config flag) (\<lambda>b.
       requireR b (provider_config_error flag ''must be true for OIDC identity providers'')))) (\<lambda>_.
     bindR (validate_required_provider_text config ''pkceMethod'') (\<lambda>pkce_method.
     bindR (requireR (pkce_method = ''S256'') (provider_config_error ''pkceMethod'' ''must be S256'')) (\<lambda>_.
     validate_oidc_scopes config)))))))))))"

section \<open>Signing certificates\<close>

definition check_certificate :: "(nat list \<Rightarrow> unit result) \<Rightarrow> string \<Rightarrow> string \<Rightarrow> unit result" where
  "check_certificate load_der field_name certificate_body =
     (if contains ''-----BEGIN CERTIFICATE-----'' certificate_body \<or>
         contains ''-----END CERTIFICATE-----'' certificate_body
      then Inl (provider_config_error field_name ''must omit PEM certificate headers and footers'')
      else case bindR (b64decode_strict certificate_body) load_der of
        Inl e \<Rightarrow>
          (case e of
             ValueError _ \<Rightarrow>
               Inl (provider_config_error field_name ''must contain valid Base64 DER X.509 certificates'')
           | UnsupportedAlgorithm _ \<Rightarrow>
               Inl (provider_config_error field_name ''must contain valid Base64 DER X.509 certificates'')
           | _ \<Rightarrow> Inl e)
      | Inr _ \<Rightarrow> Inr ())"

definition validate_signing_certificates ::
  "(nat list \<Rightarrow> unit result) \<Rightarrow> provider_config \<Rightarrow> string \<Rightarrow> unit result" where
  "validate_signing_certificates load_der config field_name =
     (let raw_value = config_get_or config field_name [];
          bodies = map strip (split_char (CHR '','') raw_value) in
      if strip raw_value = [] \<or> list_ex (\<lambda>b. b = []) bodies
      then Inl (provider_config_error field_name ''must contain one or more Base64 DER X.509 certificates'')
      else forR bodies (check_certificate load_der field_name))"

definition validate_saml_registration :: "(nat list \<Rightarrow> unit result) \<Rightarrow> provider_config \<Rightarrow> unit result" where
  "validate_saml_registration load_der config =
     bindR (validate_absolute_uri config ''entityId'' SAML_ENTITY_ID_MAX_LENGTH) (\<lambda>_.
     bindR (validate_absolute_uri config ''idpEntityId'' SAML_ENTITY_ID_MAX_LENGTH) (\<lambda>_.
     bindR (validate_https_url config ''singleSignOnServiceUrl'') (\<lambda>_.
     bindR (validate_provider_boolean config ''validateSignature'') (\<lambda>signed.
     bindR (requireR signed
       (provider_config_error ''validateSignature'' ''must be true for SAML identity providers'')) (\<lambda>_.
     bindR (validate_provider_boolean config ''useMetadataDescriptorUrl'') (\<lambda>use_metadata.
     if use_metadata then
       bindR (validate_https_url config ''metadataDescriptorUrl'') (\<lambda>_.
       if strip (config_get_or config ''signingCertificate'' []) \<noteq> []
       then validate_signing_certificates load_der config ''signingCertificate''
       else Inr ())
     else validate_signing_certificates load_der config ''signingCertificate''))))))"

definition check_config_entry :: "string \<times> string \<Rightarrow> unit result" where
  "check_config_entry entry =
     (let config_key = fst entry; config_value = snd entry in
      if config_key = [] \<or> length config_key > MAX_PROVIDER_CONFIG_KEY_LENGTH \<or>
         length config_value > MAX_PROVIDER_CONFIG_VALUE_LENGTH
      then Inl (HTTPException 400 ''provider_config key or value exceeds allowed bounds'')
      else if has_template_marker config_value
      then Inl (HTTPException 400 ''provider_config contains unresolved template placeholders'')
      else Inr ())"

definition validate_registration ::
  "(nat list \<Rightarrow> unit result) \<Rightarrow> identity_provider_registration \<Rightarrow> unit result" where
  "validate_registration load_der r =
     bindR (validate_provider_alias (reg_alias r)) (\<lambda>_.
     bindR (requireR (reg_provider_id r \<in> set SUPPORTED_PROVIDER_IDS)
       (HTTPException 400 ''provider_id must be one of: saml, oidc, keycloak-oidc'')) (\<lambda>_.
     bindR (requireR (length (reg_config r) \<le> MAX_PROVIDER_CONFIG_ENTRIES)
       (HTTPException 400 ''provider_config contains too many entries'')) (\<lambda>_.
     bindR (forR (reg_config r) check_config_entry) (\<lambda>_.
     if reg_provider_id r = ''saml'' then validate_saml_registration load_der (reg_config r)
     else validate_oidc_registration (reg_config r)))))"

section \<open>Representations and drift\<close>

definition to_keycloak_payload :: "identity_provider_registration \<Rightarrow> dict" where
  "to_keycloak_payload r =
     [(''alias'', JStr (reg_alias r)), (''displayName'', JStr (reg_display_name r)),
      (''providerId'', JStr (reg_provider_id r)), (''enabled'', JBool (reg_enabled r)),
      (''trustEmail'', JBool (reg_trust_email r)), (''storeToken'', JBool False),
      (''addReadTokenRoleOnCreate'', JBool False), (''authenticateByDefault'', JBool False),
      (''linkOnly'', JBool False),
      (''config'', JObj (map (\<lambda>(k, v). (k, JStr v)) (reg_config r)))]"

definition provider_config_matches :: "provider_config \<Rightarrow> dict \<Rightarrow> bool" where
  "provider_config_matches desired_config observed_config =
     list_all (\<lambda>(k, v). py_eq (dict_get observed_config k) (JStr v) \<or>
        k \<in> set NON_OBSERVABLE_PROVIDER_CONFIG_KEYS \<and>
        py_eq (dict_get observed_config k) (JStr KEYCLOAK_MASKED_VALUE)) desired_config"

definition identity_provider_matches :: "identity_provider_registration \<Rightarrow> dict option \<Rightarrow> bool" where
  "identity_provider_matches r observed =
     (case observed of
        None \<Rightarrow> False
      | Some d \<Rightarrow>
          list_all (\<lambda>(k, v). py_eq (dict_get d k) v)
            (filter (\<lambda>(k, v). k \<noteq> ''config'') (to_keycloak_payload r)) \<and>
          (case dict_get d ''config'' of
             JObj observed_config \<Rightarrow> provider_config_matches (reg_config r) observed_config
           | _ \<Rightarrow> False))"

section \<open>The service\<close>

record 'w idp_api =
  idp_get :: "string \<Rightarrow> ('w, dict option) action"
  idp_create :: "dict \<Rightarrow> ('w, unit) action"
  idp_update :: "string \<Rightarrow> dict \<Rightarrow> ('w, unit) action"
  idp_delete :: "string \<Rightarrow> ('w, unit) action"

record ('st, 'w) fed_service =
  fs_kv :: "'st kv_ops"
  fs_api :: "'w idp_api"
  fs_dump_json :: "identity_provider_registration \<Rightarrow> string"
  fs_validate_json :: "string \<Rightarrow> identity_provider_registration result"
  fs_load_der :: "nat list \<Rightarrow> unit result"

record ('st, 'w) fed_state =
  fed_store :: 'st
  fed_kc :: 'w

type_synonym ('st, 'w, 'a) fed_action = "(('st, 'w) fed_state, 'a) action"

definition fed_kcA :: "('w, 'a) action \<Rightarrow> ('st, 'w, 'a) fed_action" where
  "fed_kcA m = zoomA fed_kc fed_kc_update m"

definition parse_registration ::
  "('st, 'w) fed_service \<Rightarrow> string \<Rightarrow> identity_provider_registration result" where
  "parse_registration svc raw_value =
     bindR (fs_validate_json svc raw_value) (\<lambda>r.
     bindR (validate_registration (fs_load_der svc) r) (\<lambda>_. Inr r))"

definition apply_registration ::
  "('st, 'w) fed_service \<Rightarrow> identity_provider_registration \<Rightarrow> ('w, unit) action" where
  "apply_registration svc r =
     bindA (idp_get (fs_api svc) (reg_alias r)) (\<lambda>existing.
     case existing of
       None \<Rightarrow> idp_create (fs_api svc) (to_keycloak_payload r)
     | Some _ \<Rightarrow> idp_update (fs_api svc) (reg_alias r) (to_keycloak_payload r))"

definition try_apply ::
  "('st, 'w) fed_service \<Rightarrow> identity_provider_registration \<Rightarrow> ('w, bool) action" where
  "try_apply svc r =
     catchA
       (bindA (apply_registration svc r) (\<lambda>_.
        bindA (idp_get (fs_api svc) (reg_alias r)) (\<lambda>observed.
        returnA (identity_provider_matches r observed))))
       (\<lambda>_. returnA False)"

definition mk_status :: "identity_provider_registration \<Rightarrow> bool \<Rightarrow> identity_provider_status" where
  "mk_status r applied = \<lparr>status_registration = from_registration r, applied_to_keycloak = applied\<rparr>"

definition status_for ::
  "('st, 'w) fed_service \<Rightarrow> identity_provider_registration \<Rightarrow> ('w, identity_provider_status) action" where
  "status_for svc r =
     bindA
       (catchA
          (bindA (idp_get (fs_api svc) (reg_alias r)) (\<lambda>observed.
           returnA (identity_provider_matches r observed)))
          (\<lambda>_. returnA False))
       (\<lambda>applied. returnA (mk_status r applied))"

definition status_order :: "identity_provider_status list \<Rightarrow> identity_provider_status list" where
  "status_order = sort_key (\<lambda>st. view_alias (status_registration st))"

definition stored_registrations ::
  "('st, 'w) fed_service \<Rightarrow> ('st, 'w, identity_provider_registration list) fed_action" where
  "stored_registrations svc =
     bindA (readA (\<lambda>s. map snd (kv_get_all (fs_kv svc) FEDERATION_PROVIDER_NAMESPACE (fed_store s)))) (\<lambda>raw_values.
     liftA (mapR (parse_registration svc) raw_values))"

definition fed_list_registrations ::
  "('st, 'w) fed_service \<Rightarrow> ('st, 'w, identity_provider_status list) fed_action" where
  "fed_list_registrations svc =
     bindA (stored_registrations svc) (\<lambda>registrations.
     bindA (fed_kcA (mapA (status_for svc) registrations)) (\<lambda>statuses.
     returnA (status_order statuses)))"

definition fed_get_registration ::
  "('st, 'w) fed_service \<Rightarrow> string \<Rightarrow> ('st, 'w, identity_provider_status) fed_action" where
  "fed_get_registration svc provider_alias =
     bindA (liftA (validate_provider_alias provider_alias)) (\<lambda>_.
     bindA (readA (\<lambda>s. kv_get (fs_kv svc) FEDERATION_PROVIDER_NAMESPACE provider_alias (fed_store s))) (\<lambda>raw_value.
     case raw_value of
       None \<Rightarrow> raiseA (HTTPException 404 ''identity provider not registered'')
     | Some raw \<Rightarrow> bindA (liftA (parse_registration svc raw)) (\<lambda>r. fed_kcA (status_for svc r))))"

definition fed_put_registration ::
  "('st, 'w) fed_service \<Rightarrow> string \<Rightarrow> identity_provider_registration
     \<Rightarrow> ('st, 'w, identity_provider_status) fed_action" where
  "fed_put_registration svc provider_alias r =
     (if reg_alias r \<noteq> provider_alias
      then raiseA (HTTPException 400 ''path alias and body provider_alias must match'')
      else
        bindA (liftA (validate_registration (fs_load_der svc) r)) (\<lambda>_.
        bindA (modifyA (fed_store_update
          (kv_put (fs_kv svc) FEDERATION_PROVIDER_NAMESPACE provider_alias (fs_dump_json svc r)))) (\<lambda>_.
        bindA (fed_kcA (try_apply svc r)) (\<lambda>applied.
        returnA (mk_status r applied)))))"

definition fed_delete_registration ::
  "('st, 'w) fed_service \<Rightarrow> string \<Rightarrow> ('st, 'w, unit) fed_action" where
  "fed_delete_registration svc provider_alias =
     bindA (liftA (validate_provider_alias provider_alias)) (\<lambda>_.
     bindA (readA (\<lambda>s. kv_get (fs_kv svc) FEDERATION_PROVIDER_NAMESPACE provider_alias (fed_store s))) (\<lambda>raw_value.
     if raw_value = None then raiseA (HTTPException 404 ''identity provider not registered'')
     else
       bindA (fed_kcA (idp_get (fs_api svc) provider_alias)) (\<lambda>existing.
       bindA (if existing \<noteq> None then fed_kcA (idp_delete (fs_api svc) provider_alias) else returnA ()) (\<lambda>_.
       modifyA (fed_store_update (kv_delete (fs_kv svc) FEDERATION_PROVIDER_NAMESPACE provider_alias))))))"

definition fed_apply_all ::
  "('st, 'w) fed_service \<Rightarrow> ('st, 'w, identity_provider_status list) fed_action" where
  "fed_apply_all svc =
     bindA (stored_registrations svc) (\<lambda>registrations.
     bindA (fed_kcA (mapA (\<lambda>r. bindA (try_apply svc r) (\<lambda>applied. returnA (mk_status r applied)))
       registrations)) (\<lambda>statuses.
     returnA (status_order statuses)))"

definition fed_validate_registration ::
  "('st, 'w) fed_service \<Rightarrow> identity_provider_registration \<Rightarrow> ('st, 'w, identity_provider_view) fed_action" where
  "fed_validate_registration svc r =
     bindA (liftA (validate_registration (fs_load_der svc) r)) (\<lambda>_. returnA (from_registration r))"

section \<open>The routes\<close>

datatype federation_request =
    Validate_provider identity_provider_registration
  | List_providers
  | Get_provider string
  | Put_provider string identity_provider_registration
  | Delete_provider string
  | Apply_providers

datatype federation_response =
    Validated identity_provider_view
  | Statuses "identity_provider_status list"
  | Status identity_provider_status
  | No_content

text \<open>The service is taken from the application state; without it every route answers 503.\<close>

fun federation_route ::
  "('st, 'w) fed_service option \<Rightarrow> federation_request \<Rightarrow> ('st, 'w, federation_response) fed_action" where
  "federation_route None _ = raiseA (HTTPException 503 ''federation service not ready'')"
| "federation_route (Some svc) (Validate_provider r) =
     bindA (fed_validate_registration svc r) (\<lambda>v. returnA (Validated v))"
| "federation_route (Some svc) List_providers =
     bindA (fed_list_registrations svc) (\<lambda>sts. returnA (Statuses sts))"
| "federation_route (Some svc) (Get_provider a) =
     bindA (fed_get_registration svc a) (\<lambda>st. returnA (Status st))"
| "federation_route (Some svc) (Put_provider a r) =
     bindA (fed_put_registration svc a r) (\<lambda>st. returnA (Status st))"
| "federation_route (Some svc) (Delete_provider a) =
     bindA (fed_delete_registration svc a) (\<lambda>_. returnA No_content)"
| "federation_route (Some svc) Apply_providers =
     bindA (fed_apply_all svc) (\<lambda>sts. returnA (Statuses sts))"

end
