(* ===== verification/Federation_Theorems.thy ===== *)
theory Federation_Theorems
  imports Federation "HOL-Library.Code_Target_Nat"
begin

text \<open>
  Properties of the federation registry: what an accepted registration guarantees, what the
  operator view can disclose, that the desired state survives every failure of Keycloak, that the
  store only ever holds valid registrations under their own alias, and that a Keycloak that does
  what it documents is converged.
\<close>

section \<open>Accepted registrations\<close>

definition https_field :: "provider_config \<Rightarrow> string \<Rightarrow> bool" where
  "https_field config field = (case config_get config field of
      None \<Rightarrow> False
    | Some v \<Rightarrow> (case urlsplit v of
         Inl _ \<Rightarrow> False
       | Inr u \<Rightarrow> lower (url_scheme u) = ''https'' \<and> url_hostname u \<noteq> None \<and> url_username u = None \<and>
           url_password u = None \<and> url_fragment u = []))"

definition flag_on :: "provider_config \<Rightarrow> string \<Rightarrow> bool" where
  "flag_on config field = (case config_get config field of None \<Rightarrow> False | Some v \<Rightarrow> lower (strip v) = ''true'')"

definition certified :: "(nat list \<Rightarrow> unit result) \<Rightarrow> provider_config \<Rightarrow> bool" where
  "certified load_der config =
     (case config_get config ''signingCertificate'' of
        None \<Rightarrow> False
      | Some v \<Rightarrow> list_all (\<lambda>body. okR (bindR (b64decode_strict (strip body)) load_der)) (split_char (CHR '','') v))"

text \<open>What the registry promises of a registration it accepts.\<close>

definition provider_policy :: "(nat list \<Rightarrow> unit result) \<Rightarrow> identity_provider_registration \<Rightarrow> bool" where
  "provider_policy load_der r \<longleftrightarrow>
     (if reg_provider_id r = ''saml'' then
        https_field (reg_config r) ''singleSignOnServiceUrl'' \<and> flag_on (reg_config r) ''validateSignature'' \<and>
        (flag_on (reg_config r) ''useMetadataDescriptorUrl'' \<and> https_field (reg_config r) ''metadataDescriptorUrl'' \<or>
         certified load_der (reg_config r))
      else
        list_all (https_field (reg_config r)) [''issuer'', ''authorizationUrl'', ''tokenUrl'', ''jwksUrl''] \<and>
        list_all (flag_on (reg_config r)) [''validateSignature'', ''useJwksUrl'', ''pkceEnabled''] \<and>
        config_get (reg_config r) ''pkceMethod'' = Some ''S256'' \<and>
        list_all (\<lambda>k. config_get (reg_config r) k = None) [''fromUrl'', ''discoveryEndpoint''])"

lemma absolute_uri_ok:
  assumes "validate_absolute_uri config field n = Inr u"
  shows "\<exists>v. config_get config field = Some v \<and> urlsplit v = Inr u \<and> url_username u = None \<and> url_password u = None"
proof (cases "config_get config field")
  case None
  with assms show ?thesis
    by (simp add: validate_absolute_uri_def config_get_or_def config_get_def invalid_uri_text_def Let_def)
next
  case (Some v)
  with assms show ?thesis
    by (auto simp: validate_absolute_uri_def config_get_or_def config_get_def invalid_uri_def
        split_with_port_def Let_def split: if_splits option.splits sum.splits)
qed

lemma https_url_ok: "validate_https_url config field = Inr u \<Longrightarrow> https_field config field"
  using absolute_uri_ok [of config field]
  by (fastforce simp: validate_https_url_def https_field_def bindR_eq_Inr split: if_splits)

lemma boolean_ok: "validate_provider_boolean config field = Inr True \<Longrightarrow> flag_on config field"
  by (auto simp: validate_provider_boolean_def flag_on_def Let_def split: option.splits if_splits)

lemma required_text_ok:
  "validate_required_provider_text config field = Inr v \<Longrightarrow> config_get config field = Some v"
  by (auto simp: validate_required_provider_text_def split: option.splits if_splits)

lemma certificates_ok:
  assumes "validate_signing_certificates load_der config ''signingCertificate'' = Inr u"
  shows "certified load_der config"
proof (cases "config_get config ''signingCertificate''")
  case None
  with assms show ?thesis
    by (simp add: validate_signing_certificates_def config_get_or_def config_get_def Let_def)
next
  case (Some v)
  have "check_certificate load_der f body = Inr u \<Longrightarrow> okR (bindR (b64decode_strict body) load_der)" for f body u
    by (auto simp: check_certificate_def okR_iff split: if_splits sum.splits exn.splits)
  with Some assms show ?thesis
    by (auto simp: validate_signing_certificates_def certified_def config_get_or_def config_get_def Let_def
        forR_ok okR_iff list_all_iff split: if_splits)
qed

lemma oidc_ok:
  assumes "validate_oidc_registration config = Inr u"
  shows "list_all (https_field config) [''issuer'', ''authorizationUrl'', ''tokenUrl'', ''jwksUrl'']"
    and "list_all (flag_on config) [''validateSignature'', ''useJwksUrl'', ''pkceEnabled'']"
    and "config_get config ''pkceMethod'' = Some ''S256''"
    and "list_all (\<lambda>k. config_get config k = None) [''fromUrl'', ''discoveryEndpoint'']"
proof -
  have parts: "validate_oidc_issuer config = Inr ()"
    "forR [''authorizationUrl'', ''tokenUrl'', ''jwksUrl''] (\<lambda>f. bindR (validate_https_url config f) (\<lambda>_. Inr ())) = Inr ()"
    "forR [''validateSignature'', ''useJwksUrl'', ''pkceEnabled''] (\<lambda>flag. bindR (validate_provider_boolean config flag)
       (\<lambda>b. requireR b (provider_config_error flag ''must be true for OIDC identity providers''))) = Inr ()"
    "validate_required_provider_text config ''pkceMethod'' = Inr ''S256''"
    "forR OIDC_FORBIDDEN_DISCOVERY_KEYS (\<lambda>key. requireR (config_get config key = None)
       (provider_config_error key ''is not supported; render explicit pinned endpoints'')) = Inr ()"
    using assms unfolding validate_oidc_registration_def bindR_eq_Inr by auto
  show "list_all (https_field config) [''issuer'', ''authorizationUrl'', ''tokenUrl'', ''jwksUrl'']"
    using parts(1,2) https_url_ok
    by (auto simp: validate_oidc_issuer_def bindR_eq_Inr forR_ok okR_iff)
  show "list_all (flag_on config) [''validateSignature'', ''useJwksUrl'', ''pkceEnabled'']"
    using parts(3) boolean_ok by (auto simp: forR_ok okR_iff bindR_eq_Inr)
  show "config_get config ''pkceMethod'' = Some ''S256''"
    using parts(4) by (rule required_text_ok)
  show "list_all (\<lambda>k. config_get config k = None) [''fromUrl'', ''discoveryEndpoint'']"
    using parts(5) by (auto simp: bindR_eq_Inr OIDC_FORBIDDEN_DISCOVERY_KEYS_def)
qed

lemma saml_ok:
  assumes "validate_saml_registration load_der config = Inr u"
  shows "https_field config ''singleSignOnServiceUrl'' \<and> flag_on config ''validateSignature'' \<and>
    (flag_on config ''useMetadataDescriptorUrl'' \<and> https_field config ''metadataDescriptorUrl'' \<or>
     certified load_der config)"
proof -
  from assms obtain p1 p2 sso m where
    "validate_https_url config ''singleSignOnServiceUrl'' = Inr sso"
    "validate_provider_boolean config ''validateSignature'' = Inr True"
    "validate_provider_boolean config ''useMetadataDescriptorUrl'' = Inr m"
    "m \<longrightarrow> (\<exists>x. validate_https_url config ''metadataDescriptorUrl'' = Inr x)"
    "\<not> m \<longrightarrow> validate_signing_certificates load_der config ''signingCertificate'' = Inr u"
    unfolding validate_saml_registration_def bindR_eq_Inr by (auto simp: bindR_eq_Inr split: if_splits)
  then show ?thesis
    by (cases m) (auto dest: https_url_ok boolean_ok certificates_ok)
qed

text \<open>
  C17. A registration the registry accepts enforces the federation policy: an OIDC provider has
  pinned HTTPS endpoints and no discovery, checked signatures and PKCE with S256; a SAML provider
  has an HTTPS endpoint, checked signatures, and its keys come from HTTPS metadata or from
  certificates that parse.
\<close>

theorem accepted_provider_policy:
  assumes "validate_registration load_der r = Inr ()"
  shows "provider_policy load_der r \<and> valid_alias (reg_alias r) \<and> reg_provider_id r \<in> set SUPPORTED_PROVIDER_IDS \<and>
    list_all (\<lambda>(k, v). \<not> has_template_marker v) (reg_config r)"
proof -
  have "valid_alias (reg_alias r)" "reg_provider_id r \<in> set SUPPORTED_PROVIDER_IDS"
    using assms by (auto simp: validate_registration_def bindR_eq_Inr validate_provider_alias_def)
  moreover have "list_all (\<lambda>(k, v). \<not> has_template_marker v) (reg_config r)"
    using assms by (auto simp: validate_registration_def bindR_eq_Inr forR_ok okR_iff check_config_entry_def
        Let_def list_all_iff split: if_splits)
  moreover have "provider_policy load_der r"
  proof (cases "reg_provider_id r = ''saml''")
    case True
    with assms have "validate_saml_registration load_der (reg_config r) = Inr ()"
      by (auto simp: validate_registration_def bindR_eq_Inr)
    from saml_ok [OF this] True show ?thesis by (simp add: provider_policy_def)
  next
    case False
    with assms have "validate_oidc_registration (reg_config r) = Inr ()"
      by (auto simp: validate_registration_def bindR_eq_Inr)
    from oidc_ok [OF this] False show ?thesis by (simp add: provider_policy_def)
  qed
  ultimately show ?thesis by blast
qed

section \<open>Redaction\<close>

text \<open>
  The operator view discloses nothing but the allowlisted values: replacing every other
  configuration value, the client secret among them, by anything at all gives the same view.
\<close>

theorem view_discloses_allowlist_only:
  "from_registration (r\<lparr>reg_config := map (\<lambda>(k, v).
       (k, if k \<in> set EXPOSED_PROVIDER_CONFIG_KEYS then v else replacement k v)) (reg_config r)\<rparr>)
     = from_registration r
   \<and> ''clientSecret'' \<notin> set EXPOSED_PROVIDER_CONFIG_KEYS"
  by (simp add: from_registration_def redacted_provider_config_def split_def comp_def)
     (simp add: EXPOSED_PROVIDER_CONFIG_KEYS_def)

section \<open>Desired state and Keycloak\<close>

lemma try_apply_total: "\<exists>applied w'. try_apply svc r w = (Inr applied, w')"
proof (cases "bindA (apply_registration svc r) (\<lambda>_. bindA (idp_get (fs_api svc) (reg_alias r)) (\<lambda>observed.
    returnA (identity_provider_matches r observed))) w")
  case (Pair res w')
  then show ?thesis by (cases res) (auto simp: try_apply_def catchA_def)
qed

lemma try_apply_true:
  assumes "try_apply svc r w = (Inr True, w')"
  shows "\<exists>w0 observed. idp_get (fs_api svc) (reg_alias r) w0 = (Inr observed, w') \<and> identity_provider_matches r observed"
  using assms
  by (auto simp: try_apply_def catchA_def bindA_def returnA_def split: prod.splits sum.splits)

lemma status_for_total: "\<exists>applied w'. status_for svc r w = (Inr (mk_status r applied), w')"
  by (auto simp: status_for_def catchA_def bindA_def returnA_def split: prod.splits sum.splits)

lemma put_registration_run:
  "fed_put_registration svc a r s =
     (if reg_alias r \<noteq> a then (Inl (HTTPException 400 ''path alias and body provider_alias must match''), s)
      else case validate_registration (fs_load_der svc) r of
        Inl e \<Rightarrow> (Inl e, s)
      | Inr _ \<Rightarrow>
          (case try_apply svc r (fed_kc s) of (res, w) \<Rightarrow>
             (Inr (mk_status r (res = Inr True)),
              s\<lparr>fed_store := kv_put (fs_kv svc) FEDERATION_PROVIDER_NAMESPACE a (fs_dump_json svc r) (fed_store s),
                fed_kc := w\<rparr>)))"
proof -
  obtain applied w where "try_apply svc r (fed_kc s) = (Inr applied, w)"
    using try_apply_total [of svc r "fed_kc s"] by blast
  then show ?thesis
    by (cases "validate_registration (fs_load_der svc) r"; cases applied)
       (auto simp: fed_put_registration_def bindA_def liftA_def modifyA_def fed_kcA_def zoomA_def returnA_def raiseA_def)
qed

lemma put_store:
  "fed_store (snd (fed_put_registration svc a r s)) =
     (if reg_alias r = a \<and> okR (validate_registration (fs_load_der svc) r)
      then kv_put (fs_kv svc) FEDERATION_PROVIDER_NAMESPACE a (fs_dump_json svc r) (fed_store s) else fed_store s)"
  by (simp add: put_registration_run split: sum.splits prod.splits)

text \<open>
  Putting a registration, on every branch: a mismatched alias or a registration that is not
  valid is refused without touching the store or Keycloak; otherwise the desired state is stored
  whatever Keycloak does, the request succeeds, and it reports the provider as applied only if
  Keycloak's own representation, read back last, matches.
\<close>

theorem put_registration_behaviour:
  "fed_put_registration svc a r s =
     (if reg_alias r \<noteq> a then (Inl (HTTPException 400 ''path alias and body provider_alias must match''), s)
      else case validate_registration (fs_load_der svc) r of
        Inl e \<Rightarrow> (Inl e, s)
      | Inr _ \<Rightarrow>
          (case try_apply svc r (fed_kc s) of (res, w) \<Rightarrow>
             (Inr (mk_status r (res = Inr True)),
              s\<lparr>fed_store := kv_put (fs_kv svc) FEDERATION_PROVIDER_NAMESPACE a (fs_dump_json svc r) (fed_store s),
                fed_kc := w\<rparr>)))
   \<and> (case try_apply svc r (fed_kc s) of (res, w) \<Rightarrow>
        if res = Inr True
        then \<exists>w0 observed. idp_get (fs_api svc) (reg_alias r) w0 = (Inr observed, w) \<and> identity_provider_matches r observed
        else res = Inr False)"
proof -
  obtain applied w where "try_apply svc r (fed_kc s) = (Inr applied, w)"
    using try_apply_total [of svc r "fed_kc s"] by blast
  then show ?thesis
    using try_apply_true [of svc r "fed_kc s" w] put_registration_run [of svc a r s] by (cases applied) auto
qed

section \<open>What the store holds\<close>

text \<open>Every entry is the text of a valid registration stored under its own alias.\<close>

definition registry_ok :: "('st, 'w) fed_service \<Rightarrow> 'st \<Rightarrow> bool" where
  "registry_ok svc st \<longleftrightarrow> (\<forall>k v. kv_get (fs_kv svc) FEDERATION_PROVIDER_NAMESPACE k st = Some v \<longrightarrow>
     (\<exists>r. v = fs_dump_json svc r \<and> reg_alias r = k \<and> validate_registration (fs_load_der svc) r = Inr ()))"

primrec run_federation ::
  "('st, 'w) fed_service \<Rightarrow> federation_request list \<Rightarrow> ('st, 'w) fed_state \<Rightarrow> ('st, 'w) fed_state" where
  "run_federation svc [] s = s"
| "run_federation svc (req # reqs) s = run_federation svc reqs (snd (federation_route (Some svc) req s))"

lemma fed_kcA_store: "fed_store (snd (fed_kcA m s)) = fed_store s"
  by (simp add: fed_kcA_def zoomA_def split: prod.splits)

lemma keepsA_fed_kcA [keepsA_rules]: "keepsA fed_store (fed_kcA m)"
  unfolding keepsA_def by (metis fed_kcA_store snd_conv)

lemma keepsA_option [keepsA_rules]:
  "keepsA sel m \<Longrightarrow> (\<And>x. keepsA sel (f x)) \<Longrightarrow> keepsA sel (case opt of None \<Rightarrow> m | Some x \<Rightarrow> f x)"
  by (cases opt) auto

lemma reads_keep_store:
  "keepsA fed_store (fed_list_registrations svc)" "keepsA fed_store (fed_get_registration svc a)"
  "keepsA fed_store (fed_apply_all svc)" "keepsA fed_store (fed_validate_registration svc r)"
  unfolding fed_list_registrations_def fed_get_registration_def fed_apply_all_def
    fed_validate_registration_def stored_registrations_def
  by (intro keepsA_rules)+

lemma keepsA_snd: "keepsA sel m \<Longrightarrow> sel (snd (m s)) = sel s"
  unfolding keepsA_def by (metis prod.collapse)

lemma delete_store:
  "fed_store (snd (fed_delete_registration svc a s)) \<in>
     {fed_store s, kv_delete (fs_kv svc) FEDERATION_PROVIDER_NAMESPACE a (fed_store s)}"
proof -
  have k: "fed_store t = fed_store u" if "fed_kcA m u = (x, t)" for m :: "('b, 'c) action" and u :: "('a, 'b) fed_state" and x t
    using fed_kcA_store [of m u] that by simp
  show ?thesis
    by (auto simp: fed_delete_registration_def bindA_def liftA_def readA_def modifyA_def raiseA_def returnA_def
        split: sum.splits prod.splits if_splits dest!: k)
qed

context kv_store
begin

lemma registry_put:
  assumes "fs_kv svc = kv" "kv_inv st" "registry_ok svc st" "validate_registration (fs_load_der svc) r = Inr ()"
  shows "registry_ok svc (kv_put kv FEDERATION_PROVIDER_NAMESPACE (reg_alias r) (fs_dump_json svc r) st)"
  using assms unfolding registry_ok_def by (auto simp: get_put split: if_splits)

lemma registry_delete:
  assumes "fs_kv svc = kv" "kv_inv st" "registry_ok svc st"
  shows "registry_ok svc (kv_delete kv FEDERATION_PROVIDER_NAMESPACE a st)"
  using assms unfolding registry_ok_def by (auto simp: get_delete split: if_splits)

lemma route_keeps_registry:
  fixes s :: "('st, 'w) fed_state"
  assumes svc: "fs_kv svc = kv" and ok: "kv_inv (fed_store s)" "registry_ok svc (fed_store s)"
  shows "kv_inv (fed_store (snd (federation_route (Some svc) req s))) \<and>
    registry_ok svc (fed_store (snd (federation_route (Some svc) req s)))"
proof -
  have keeps: "fed_store (snd (bindA m (\<lambda>x. returnA (f x)) s)) = fed_store (snd (m s))"
    for m :: "(('st, 'w) fed_state, 'c) action" and f :: "'c \<Rightarrow> federation_response"
    by (auto simp: bindA_def split: prod.splits sum.splits)
  show ?thesis
  proof (cases req)
    case (Put_provider a r)
    have "okR (validate_registration (fs_load_der svc) r) \<longleftrightarrow> validate_registration (fs_load_der svc) r = Inr ()"
      by (simp add: okR_iff)
    with Put_provider ok svc show ?thesis
      using registry_put [of svc "fed_store s" r] put_inv by (auto simp: keeps put_store)
  next
    case (Delete_provider a)
    with delete_store [of svc a s] ok svc show ?thesis
      using registry_delete [of svc "fed_store s" a] delete_inv by (auto simp: keeps)
  qed (use ok in \<open>simp_all add: keeps reads_keep_store [THEN keepsA_snd]\<close>)
qed

lemma run_keeps_registry:
  "fs_kv svc = kv \<Longrightarrow> kv_inv (fed_store s) \<Longrightarrow> registry_ok svc (fed_store s) \<Longrightarrow>
     kv_inv (fed_store (run_federation svc reqs s)) \<and> registry_ok svc (fed_store (run_federation svc reqs s))"
  by (induction reqs arbitrary: s) (use route_keeps_registry in auto)

end

text \<open>
  C16. Whatever sequence of requests reaches the federation routes, and whatever Keycloak answers,
  the store keeps its integrity: every entry is the text of a registration that passed validation,
  stored under its own alias.
\<close>

theorem registry_stays_valid:
  assumes "fs_kv svc = sqlite_kv_ops" and "sqlite_kv_inv (fed_store s)" and "registry_ok svc (fed_store s)"
  shows "sqlite_kv_inv (fed_store (run_federation svc reqs s)) \<and> registry_ok svc (fed_store (run_federation svc reqs s))"
  using sqlite_kv.run_keeps_registry [OF assms] .

section \<open>Reading the store back\<close>

lemma parse_dumped:
  assumes "fs_validate_json svc (fs_dump_json svc r) = Inr r" and "validate_registration (fs_load_der svc) r = Inr ()"
  shows "parse_registration svc (fs_dump_json svc r) = Inr r"
  using assms by (simp add: parse_registration_def)

lemma validated_alias:
  "validate_registration load_der r = Inr () \<Longrightarrow> validate_provider_alias (reg_alias r) = Inr ()"
  by (auto simp: validate_registration_def bindR_eq_Inr)

text \<open>
  A stored registration reads back: after a put that was accepted, a get of the alias answers
  with the view of that very registration, whatever happened in Keycloak; after a delete that
  returned, it answers 404.
\<close>

theorem put_get_delete_roundtrip:
  assumes "fs_kv svc = sqlite_kv_ops" and "sqlite_kv_inv (fed_store s)"
    and "fs_validate_json svc (fs_dump_json svc r) = Inr r"
    and "validate_registration (fs_load_der svc) r = Inr ()"
  shows "(\<exists>applied. fst (fed_get_registration svc (reg_alias r) (snd (fed_put_registration svc (reg_alias r) r s))) =
      Inr (mk_status r applied)) \<and>
    (fst (fed_delete_registration svc (reg_alias r) s) = Inr () \<longrightarrow>
      fst (fed_get_registration svc (reg_alias r) (snd (fed_delete_registration svc (reg_alias r) s))) =
        Inl (HTTPException 404 ''identity provider not registered''))"
proof (intro conjI impI)
  let ?t = "snd (fed_put_registration svc (reg_alias r) r s)"
  have "kv_get (fs_kv svc) FEDERATION_PROVIDER_NAMESPACE (reg_alias r) (fed_store ?t) = Some (fs_dump_json svc r)"
    using assms by (simp add: put_store sqlite_kv.get_put)
  moreover obtain applied w where "status_for svc r (fed_kc ?t) = (Inr (mk_status r applied), w)"
    using status_for_total [of svc r "fed_kc ?t"] by blast
  ultimately have "fst (fed_get_registration svc (reg_alias r) ?t) = Inr (mk_status r applied)"
    using parse_dumped [OF assms(3,4)] validated_alias [OF assms(4)]
    by (simp add: fed_get_registration_def bindA_def fed_kcA_def zoomA_def)
  then show "\<exists>applied. fst (fed_get_registration svc (reg_alias r) ?t) = Inr (mk_status r applied)" ..
next
  let ?t = "snd (fed_delete_registration svc (reg_alias r) s)"
  assume "fst (fed_delete_registration svc (reg_alias r) s) = Inr ()"
  then have "fed_store ?t = kv_delete (fs_kv svc) FEDERATION_PROVIDER_NAMESPACE (reg_alias r) (fed_store s)"
    by (auto simp: fed_delete_registration_def bindA_def liftA_def readA_def modifyA_def raiseA_def returnA_def
        fed_kcA_def zoomA_def split: sum.splits prod.splits if_splits)
  then show "fst (fed_get_registration svc (reg_alias r) ?t) =
      Inl (HTTPException 404 ''identity provider not registered'')"
    using assms(1,2) validated_alias [OF assms(4)]
    by (simp add: fed_get_registration_def bindA_def sqlite_kv.get_delete)
qed

section \<open>Convergence\<close>

text \<open>
  What Keycloak documents of its identity providers: a creation or an update that returns has
  stored the representation, and a read shows it, possibly with the client secret masked.
\<close>

definition mask_secret :: "dict \<Rightarrow> dict" where
  "mask_secret d = map (\<lambda>(k, v). (k, if k = ''config'' then
      (case v of JObj c \<Rightarrow> JObj (map (\<lambda>(k', v'). (k', if k' = ''clientSecret'' then JStr KEYCLOAK_MASKED_VALUE else v')) c)
       | _ \<Rightarrow> v) else v)) d"

locale idp_provider =
  fixes api :: "'w idp_api" and providers :: "'w \<Rightarrow> string \<Rightarrow> dict option" and masks :: bool
  assumes get: "\<exists>w'. idp_get api a w =
      (Inr (map_option (if masks then mask_secret else id) (providers w a)), w') \<and> providers w' = providers w"
    and create: "dict_get d ''alias'' = JStr a \<Longrightarrow>
      \<exists>w'. idp_create api d w = (Inr (), w') \<and> providers w' = (providers w)(a \<mapsto> d)"
    and update: "dict_get d ''alias'' = JStr a \<Longrightarrow>
      \<exists>w'. idp_update api a d w = (Inr (), w') \<and> providers w' = (providers w)(a \<mapsto> d)"
begin

lemma apply_run:
  assumes "fs_api svc = api"
  shows "\<exists>w'. apply_registration svc r w = (Inr (), w') \<and>
    providers w' = (providers w)(reg_alias r \<mapsto> to_keycloak_payload r)"
proof -
  obtain w1 where w1: "idp_get api (reg_alias r) w =
      (Inr (map_option (if masks then mask_secret else id) (providers w (reg_alias r))), w1)" "providers w1 = providers w"
    using get by blast
  have "dict_get (to_keycloak_payload r) ''alias'' = JStr (reg_alias r)"
    by (simp add: to_keycloak_payload_def dict_get_def)
  from create [OF this, of w1] update [OF this, of w1] show ?thesis
    using w1 assms by (cases "providers w (reg_alias r)") (auto simp: apply_registration_def bindA_def)
qed

end

lemma map_of_map_values: "map_of (map (\<lambda>(k, v). (k, f k v)) d) k = map_option (f k) (map_of d k)"
  by (induction d) auto

lemma payload_matches:
  assumes "distinct (map fst (reg_config r))"
  shows "identity_provider_matches r (Some (to_keycloak_payload r))"
    and "identity_provider_matches r (Some (mask_secret (to_keycloak_payload r)))"
proof -
  have lookup: "map_of (reg_config r) k = Some v" if "(k, v) \<in> set (reg_config r)" for k v
    using assms that by (rule map_of_is_SomeI)
  show "identity_provider_matches r (Some (to_keycloak_payload r))"
    by (auto simp: identity_provider_matches_def to_keycloak_payload_def dict_get_def provider_config_matches_def
        list_all_iff map_of_map_values lookup)
  show "identity_provider_matches r (Some (mask_secret (to_keycloak_payload r)))"
    by (auto simp: identity_provider_matches_def to_keycloak_payload_def dict_get_def provider_config_matches_def
        list_all_iff map_of_map_values lookup mask_secret_def NON_OBSERVABLE_PROVIDER_CONFIG_KEYS_def
        simp del: map_map split: if_splits)
qed

context idp_provider
begin

lemma try_apply_converges:
  assumes "fs_api svc = api" and "distinct (map fst (reg_config r))"
  shows "\<exists>w'. try_apply svc r w = (Inr True, w') \<and>
    providers w' = (providers w)(reg_alias r \<mapsto> to_keycloak_payload r)"
proof -
  obtain w1 where w1: "apply_registration svc r w = (Inr (), w1)"
    "providers w1 = (providers w)(reg_alias r \<mapsto> to_keycloak_payload r)"
    using apply_run [OF assms(1)] by blast
  obtain w2 where w2: "idp_get api (reg_alias r) w1 =
      (Inr (map_option (if masks then mask_secret else id) (providers w1 (reg_alias r))), w2)" "providers w2 = providers w1"
    using get by blast
  with w1 payload_matches [OF assms(2)] assms(1) show ?thesis
    by (auto simp: try_apply_def catchA_def bindA_def returnA_def)
qed

end

section \<open>The provider store of the test double\<close>

text \<open>
  The identity-provider part of \<open>tests/mock_product_keycloak.py\<close>, and the same behind a Keycloak
  that masks client secrets on reads.
\<close>

record mock_idps =
  mi_calls :: "string list"
  mi_providers :: "(string \<times> dict) list"

definition mi_called :: "string \<Rightarrow> mock_idps \<Rightarrow> mock_idps" where
  "mi_called call m = m\<lparr>mi_calls := mi_calls m @ [call]\<rparr>"

definition mock_get_identity_provider :: "string \<Rightarrow> (mock_idps, dict option) action" where
  "mock_get_identity_provider provider_alias m =
     (Inr (map_of (mi_providers m) provider_alias), mi_called (''get_identity_provider:'' @ provider_alias) m)"

definition mock_create_identity_provider :: "dict \<Rightarrow> (mock_idps, unit) action" where
  "mock_create_identity_provider payload m =
     (case map_of payload ''alias'' of
        Some (JStr a) \<Rightarrow> (Inr (), (mi_called (''create_identity_provider:'' @ a) m)
            \<lparr>mi_providers := al_set (mi_providers m) a payload\<rparr>)
      | _ \<Rightarrow> (Inl (KeyError ''alias''), m))"

definition mock_update_identity_provider :: "string \<Rightarrow> dict \<Rightarrow> (mock_idps, unit) action" where
  "mock_update_identity_provider provider_alias payload m =
     (Inr (), (mi_called (''update_identity_provider:'' @ provider_alias) m)
        \<lparr>mi_providers := al_set (mi_providers m) provider_alias payload\<rparr>)"

definition mock_delete_identity_provider :: "string \<Rightarrow> (mock_idps, unit) action" where
  "mock_delete_identity_provider provider_alias m =
     (Inr (), (mi_called (''delete_identity_provider:'' @ provider_alias) m)
        \<lparr>mi_providers := al_pop (mi_providers m) provider_alias\<rparr>)"

definition mock_idp_api :: "mock_idps idp_api" where
  "mock_idp_api = \<lparr>idp_get = mock_get_identity_provider, idp_create = mock_create_identity_provider,
     idp_update = mock_update_identity_provider, idp_delete = mock_delete_identity_provider\<rparr>"

definition masking_idp_api :: "mock_idps idp_api" where
  "masking_idp_api = mock_idp_api\<lparr>idp_get := (\<lambda>a m.
     case mock_get_identity_provider a m of (r, m') \<Rightarrow> (bindR r (\<lambda>d. Inr (map_option mask_secret d)), m'))\<rparr>"

definition mi_view :: "mock_idps \<Rightarrow> string \<Rightarrow> dict option" where
  "mi_view m = map_of (mi_providers m)"

lemmas mock_idp_defs = mock_idp_api_def masking_idp_api_def mi_view_def mi_called_def
  mock_get_identity_provider_def mock_create_identity_provider_def mock_update_identity_provider_def

lemma dict_get_JStr: "dict_get d k = JStr a \<Longrightarrow> map_of d k = Some (JStr a)"
  by (auto simp: dict_get_def split: option.splits)

interpretation mock_idp: idp_provider mock_idp_api mi_view False
  by unfold_locales (auto simp: mock_idp_defs option.map_id0 dest: dict_get_JStr)

interpretation masking_idp: idp_provider masking_idp_api mi_view True
  by unfold_locales (auto simp: mock_idp_defs dest: dict_get_JStr)

text \<open>
  Against a Keycloak that masks client secrets, one put of a valid registration converges: it
  reports the provider as applied, and Keycloak then holds exactly its representation, the other
  providers unchanged.
\<close>

theorem put_converges:
  assumes "fs_api svc = masking_idp_api" and "distinct (map fst (reg_config r))"
    and "validate_registration (fs_load_der svc) r = Inr ()"
  shows "fst (fed_put_registration svc (reg_alias r) r s) = Inr (mk_status r True) \<and>
    mi_view (fed_kc (snd (fed_put_registration svc (reg_alias r) r s))) =
      (mi_view (fed_kc s))(reg_alias r \<mapsto> to_keycloak_payload r)"
proof -
  obtain w where "try_apply svc r (fed_kc s) = (Inr True, w)"
    "mi_view w = (mi_view (fed_kc s))(reg_alias r \<mapsto> to_keycloak_payload r)"
    using masking_idp.try_apply_converges [OF assms(1,2)] by blast
  with assms(3) show ?thesis by (simp add: put_registration_run)
qed

section \<open>Witnesses\<close>

definition demo_oidc :: identity_provider_registration where
  "demo_oidc = \<lparr>reg_alias = ''corp-sso'', reg_display_name = ''Corp'', reg_provider_id = ''oidc'',
     reg_enabled = True, reg_trust_email = False, reg_config =
      [(''issuer'', ''https://idp.example/realm''), (''authorizationUrl'', ''https://idp.example/auth''),
       (''tokenUrl'', ''https://idp.example/token''), (''jwksUrl'', ''https://idp.example/jwks''),
       (''clientId'', ''cwl''), (''clientSecret'', ''s3cret''), (''clientAuthMethod'', ''client_secret_post''),
       (''validateSignature'', ''true''), (''useJwksUrl'', ''true''), (''pkceEnabled'', ''true''),
       (''pkceMethod'', ''S256''), (''defaultScope'', ''openid email'')]\<rparr>"

definition demo_fed :: "(sqlite_kv, mock_idps) fed_service" where
  "demo_fed = \<lparr>fs_kv = sqlite_kv_ops, fs_api = masking_idp_api, fs_dump_json = reg_alias,
     fs_validate_json = (\<lambda>s. if s = reg_alias demo_oidc then Inr demo_oidc else Inl (ValidationError s)),
     fs_load_der = (\<lambda>_. Inl (ValueError ''no certificate''))\<rparr>"

definition demo_fed_state :: "(sqlite_kv, mock_idps) fed_state" where
  "demo_fed_state = \<lparr>fed_store = [], fed_kc = \<lparr>mi_calls = [], mi_providers = []\<rparr>\<rparr>"

lemma demo_oidc_valid: "validate_registration (fs_load_der demo_fed) demo_oidc = Inr ()"
  by code_simp

lemma demo_oidc_keys: "distinct (map fst (reg_config demo_oidc))"
  by code_simp

theorem accepted_provider_policy_witness: "provider_policy (fs_load_der demo_fed) demo_oidc"
  using accepted_provider_policy [OF demo_oidc_valid] by blast

lemma demo_fed_simps:
  "fs_kv demo_fed = sqlite_kv_ops" "fs_api demo_fed = masking_idp_api" "sqlite_kv_inv (fed_store demo_fed_state)"
  "registry_ok demo_fed (fed_store demo_fed_state)"
  "fs_validate_json demo_fed (fs_dump_json demo_fed demo_oidc) = Inr demo_oidc"
  by (simp_all add: demo_fed_def demo_fed_state_def sqlite_kv_inv_def registry_ok_def sqlite_kv_ops_def sqlite_get_def)

theorem registry_stays_valid_witness:
  "registry_ok demo_fed (fed_store (run_federation demo_fed
     [Put_provider ''corp-sso'' demo_oidc, Apply_providers, Delete_provider ''corp-sso''] demo_fed_state))"
  using registry_stays_valid [OF demo_fed_simps(1,3,4)] by blast

theorem put_get_delete_roundtrip_witness:
  "\<exists>applied. fst (fed_get_registration demo_fed (reg_alias demo_oidc)
     (snd (fed_put_registration demo_fed (reg_alias demo_oidc) demo_oidc demo_fed_state))) = Inr (mk_status demo_oidc applied)"
  using put_get_delete_roundtrip [OF demo_fed_simps(1,3,5) demo_oidc_valid] by blast

theorem put_converges_witness:
  "fst (fed_put_registration demo_fed (reg_alias demo_oidc) demo_oidc demo_fed_state) = Inr (mk_status demo_oidc True)"
  using put_converges [OF demo_fed_simps(2) demo_oidc_keys demo_oidc_valid] by blast

end
