(* ===== verification/RelyingParty.thy ===== *)
theory RelyingParty
  imports Json Text_Checks
begin

text \<open>
  Preflight validation of OIDC relying parties, \<open>app/relying_party.py\<close>: the hand-written parser
  of the closed client representation and the security profile it has to meet. Validation is a
  pure function; its errors name a field and a requirement and never repeat a submitted value.
\<close>

definition MAX_CLIENT_ID_LENGTH :: nat where "MAX_CLIENT_ID_LENGTH = 63"
definition MAX_URI_LENGTH :: nat where "MAX_URI_LENGTH = 2048"
definition MAX_URI_COUNT :: nat where "MAX_URI_COUNT = 16"
definition MAX_MAPPER_COUNT :: nat where "MAX_MAPPER_COUNT = 4"
definition MAX_MAPPER_NAME_LENGTH :: nat where "MAX_MAPPER_NAME_LENGTH = 64"
definition MAX_CLAIM_VALUE_LENGTH :: nat where "MAX_CLAIM_VALUE_LENGTH = 128"

definition REQUIRED_FIELDS :: "string list" where
  "REQUIRED_FIELDS =
     [''clientId'', ''name'', ''enabled'', ''protocol'', ''publicClient'', ''clientAuthenticatorType'',
      ''standardFlowEnabled'', ''implicitFlowEnabled'', ''directAccessGrantsEnabled'',
      ''serviceAccountsEnabled'', ''redirectUris'', ''webOrigins'', ''attributes'', ''fullScopeAllowed'',
      ''defaultClientScopes'']"

definition ALLOWED_FIELDS :: "string list" where
  "ALLOWED_FIELDS = REQUIRED_FIELDS @ [''protocolMappers'']"

definition MAPPER_FIELDS :: "string list" where
  "MAPPER_FIELDS = [''name'', ''protocol'', ''protocolMapper'', ''consentRequired'', ''config'']"

definition ALLOWED_ATTRIBUTES :: "string list" where
  "ALLOWED_ATTRIBUTES =
     [''pkce.code.challenge.method'', ''post.logout.redirect.uris'', ''access.token.lifespan'',
      ''backchannel.logout.session.required'', ''require.pushed.authorization.requests'']"

definition AUDIENCE_CONFIG_FIELDS :: "string list" where
  "AUDIENCE_CONFIG_FIELDS =
     [''included.client.audience'', ''access.token.claim'', ''id.token.claim'', ''introspection.token.claim'']"

definition CLAIM_CONFIG_FIELDS :: "string list" where
  "CLAIM_CONFIG_FIELDS =
     [''claim.name'', ''claim.value'', ''jsonType.label'', ''access.token.claim'', ''id.token.claim'',
      ''userinfo.token.claim'', ''introspection.token.claim'']"

definition REQUIRED_SCOPES :: "string list" where
  "REQUIRED_SCOPES = [''basic'', ''profile'', ''email'']"

definition CLAIM_RANK :: "string \<Rightarrow> nat option" where
  "CLAIM_RANK = map_of [(''role'', 1), (''org'', 2), (''workspace'', 3)]"

definition AUDIENCE_MAPPER_NAME :: string where "AUDIENCE_MAPPER_NAME = ''keyverse-audience''"
definition AUDIENCE_MAPPER_TYPE :: string where "AUDIENCE_MAPPER_TYPE = ''oidc-audience-mapper''"
definition CLAIM_MAPPER_TYPE :: string where "CLAIM_MAPPER_TYPE = ''oidc-hardcoded-claim-mapper''"

section \<open>Registrations\<close>

record protocol_mapper =
  pm_name :: string
  pm_protocol :: string
  pm_type :: string
  pm_consent_required :: bool
  pm_config :: "(string \<times> string) list"

record relying_party =
  rp_client_id :: string
  rp_name :: string
  rp_enabled :: bool
  rp_protocol :: string
  rp_public_client :: bool
  rp_client_authenticator_type :: string
  rp_standard_flow_enabled :: bool
  rp_implicit_flow_enabled :: bool
  rp_direct_access_grants_enabled :: bool
  rp_service_accounts_enabled :: bool
  rp_redirect_uris :: "string list"
  rp_web_origins :: "string list"
  rp_attributes :: "(string \<times> string) list"
  rp_full_scope_allowed :: bool
  rp_default_client_scopes :: "string list"
  rp_protocol_mappers :: "protocol_mapper list"

section \<open>Parsing\<close>

definition client_error :: "string \<Rightarrow> string \<Rightarrow> exn" where
  "client_error field_name requirement = HTTPException 400 (field_name @ '' '' @ requirement)"

definition shape_error :: "string \<Rightarrow> string \<Rightarrow> exn" where
  "shape_error field_name requirement = HTTPException 422 (field_name @ '' '' @ requirement)"

definition require_string :: "dict \<Rightarrow> string \<Rightarrow> string result" where
  "require_string payload field_name =
     (case dict_get payload field_name of JStr s \<Rightarrow> Inr s
      | _ \<Rightarrow> Inl (shape_error field_name ''must be a string''))"

definition require_boolean :: "dict \<Rightarrow> string \<Rightarrow> bool result" where
  "require_boolean payload field_name =
     (case dict_get payload field_name of JBool b \<Rightarrow> Inr b
      | _ \<Rightarrow> Inl (shape_error field_name ''must be a boolean''))"

definition require_string_list :: "dict \<Rightarrow> string \<Rightarrow> string list result" where
  "require_string_list payload field_name =
     (case dict_get payload field_name of
        JArr items \<Rightarrow>
          mapR (\<lambda>item. case item of JStr s \<Rightarrow> Inr s
             | _ \<Rightarrow> Inl (shape_error field_name ''must be an array of strings'')) items
      | _ \<Rightarrow> Inl (shape_error field_name ''must be an array of strings''))"

definition require_string_mapping :: "json \<Rightarrow> string \<Rightarrow> (string \<times> string) list result" where
  "require_string_mapping value field_name =
     (case value of
        JObj d \<Rightarrow>
          mapR (\<lambda>(k, v). case v of JStr s \<Rightarrow> Inr (k, s)
             | _ \<Rightarrow> Inl (shape_error field_name ''must contain only string values'')) d
      | _ \<Rightarrow> Inl (shape_error field_name ''must be a JSON object''))"

definition parse_mapper :: "json \<Rightarrow> protocol_mapper result" where
  "parse_mapper item =
     (case item of
        JObj mapper \<Rightarrow>
          if has_other_field MAPPER_FIELDS mapper
          then Inl (shape_error ''protocolMappers'' ''contains unsupported mapper fields'')
          else
            bindR (require_present (\<lambda>k. shape_error (''protocolMappers.'' @ k) ''is required'') MAPPER_FIELDS mapper) (\<lambda>_.
            bindR (require_string mapper ''name'') (\<lambda>n.
            bindR (require_string mapper ''protocol'') (\<lambda>p.
            bindR (require_string mapper ''protocolMapper'') (\<lambda>t.
            bindR (require_boolean mapper ''consentRequired'') (\<lambda>c.
            bindR (require_string_mapping (dict_get mapper ''config'') ''protocolMappers.config'') (\<lambda>config.
            Inr \<lparr>pm_name = n, pm_protocol = p, pm_type = t, pm_consent_required = c, pm_config = config\<rparr>))))))
      | _ \<Rightarrow> Inl (shape_error ''protocolMappers'' ''must contain only JSON objects''))"

definition parse_protocol_mappers :: "json \<Rightarrow> protocol_mapper list result" where
  "parse_protocol_mappers value =
     (case value of
        JArr items \<Rightarrow>
          if length items > MAX_MAPPER_COUNT
          then Inl (shape_error ''protocolMappers'' ''must contain at most 4 entries'')
          else mapR parse_mapper items
      | _ \<Rightarrow> Inl (shape_error ''protocolMappers'' ''must be an array''))"

definition parse_relying_party :: "json \<Rightarrow> relying_party result" where
  "parse_relying_party payload =
     (case payload of
        JObj body \<Rightarrow>
          if has_other_field ALLOWED_FIELDS body then Inl (shape_error ''body'' ''contains unsupported fields'')
          else
            bindR (require_present (\<lambda>k. shape_error k ''is required'') REQUIRED_FIELDS body) (\<lambda>_.
            bindR (require_string body ''clientId'') (\<lambda>client_id.
            bindR (require_string body ''name'') (\<lambda>nm.
            bindR (require_boolean body ''enabled'') (\<lambda>enabled.
            bindR (require_string body ''protocol'') (\<lambda>protocol.
            bindR (require_boolean body ''publicClient'') (\<lambda>public.
            bindR (require_string body ''clientAuthenticatorType'') (\<lambda>authenticator.
            bindR (require_boolean body ''standardFlowEnabled'') (\<lambda>standard.
            bindR (require_boolean body ''implicitFlowEnabled'') (\<lambda>implicit.
            bindR (require_boolean body ''directAccessGrantsEnabled'') (\<lambda>direct.
            bindR (require_boolean body ''serviceAccountsEnabled'') (\<lambda>accounts.
            bindR (require_string_list body ''redirectUris'') (\<lambda>redirects.
            bindR (require_string_list body ''webOrigins'') (\<lambda>origins.
            bindR (require_string_mapping (dict_get body ''attributes'') ''attributes'') (\<lambda>attributes.
            bindR (require_boolean body ''fullScopeAllowed'') (\<lambda>full.
            bindR (require_string_list body ''defaultClientScopes'') (\<lambda>scopes.
            bindR (if dict_has body ''protocolMappers''
                   then parse_protocol_mappers (dict_get body ''protocolMappers'') else Inr []) (\<lambda>mappers.
            Inr \<lparr>rp_client_id = client_id, rp_name = nm, rp_enabled = enabled, rp_protocol = protocol,
              rp_public_client = public, rp_client_authenticator_type = authenticator,
              rp_standard_flow_enabled = standard, rp_implicit_flow_enabled = implicit,
              rp_direct_access_grants_enabled = direct, rp_service_accounts_enabled = accounts,
              rp_redirect_uris = redirects, rp_web_origins = origins, rp_attributes = attributes,
              rp_full_scope_allowed = full, rp_default_client_scopes = scopes,
              rp_protocol_mappers = mappers\<rparr>)))))))))))))))))
      | _ \<Rightarrow> Inl (shape_error ''body'' ''must be a JSON object''))"

section \<open>URIs\<close>

definition require_clean_text :: "string \<Rightarrow> string \<Rightarrow> nat \<Rightarrow> unit result" where
  "require_clean_text value field_name maximum =
     (if value = [] \<or> value \<noteq> strip value \<or> length value > maximum
      then Inl (client_error field_name ''must be non-empty, trimmed, and bounded'')
      else if has_raw_control value then Inl (client_error field_name ''must not contain control characters'')
      else if has_template_marker value
      then Inl (client_error field_name ''contains an unresolved template placeholder'')
      else Inr ())"

definition is_dns_label :: "string \<Rightarrow> bool" where
  "is_dns_label s = is_label is_ascii_alnum s"

definition validate_hostname :: "string \<Rightarrow> string \<Rightarrow> unit result" where
  "validate_hostname hostname field_name =
     (if endswith hostname ''.'' \<or> length hostname > 253 \<or> CHR ''%'' \<in> set hostname
      then Inl (client_error field_name ''hostname must be canonical ASCII or punycode'')
      else if is_ipv4 hostname \<or> is_ipv6 hostname then Inr ()
      else requireR (list_all is_dns_label (split_char (CHR ''.'') hostname))
        (client_error field_name ''hostname must be canonical ASCII or punycode''))"

definition parse_https_uri :: "string \<Rightarrow> string \<Rightarrow> split_result result" where
  "parse_https_uri value field_name =
     bindR (require_clean_text value field_name MAX_URI_LENGTH) (\<lambda>_.
     if CHR ''*'' \<in> set value \<or> CHR ''+'' \<in> set value \<or> CHR 0x5C \<in> set value \<or> has_invalid_escape value \<or>
        has_encoded_meta value \<or> list_ex isspace_char value
     then Inl (client_error field_name ''must be an exact HTTPS URI without wildcards'')
     else case split_url value of
       None \<Rightarrow> Inl (client_error field_name ''must be a valid absolute HTTPS URI'')
     | Some (parsed, port) \<Rightarrow>
         if lower (url_scheme parsed) \<noteq> ''https'' \<or> url_hostname parsed = None \<or> url_username parsed \<noteq> None \<or>
            url_password parsed \<noteq> None \<or> url_query parsed \<noteq> [] \<or> url_fragment parsed \<noteq> [] \<or> port = Some 0
         then Inl (client_error field_name ''must be a valid absolute HTTPS URI'')
         else if \<not> isascii (the (url_hostname parsed))
         then Inl (client_error field_name ''hostname must use ASCII or punycode'')
         else
           bindR (validate_hostname (the (url_hostname parsed)) field_name) (\<lambda>_.
           if list_ex (\<lambda>s. s = ''.'' \<or> s = ''..'') (split_char (CHR ''/'') (url_path parsed))
           then Inl (client_error field_name ''must not contain dot path segments'')
           else Inr parsed))"

text \<open>The host and the effective TLS port; the port has been read before.\<close>

definition origin_key :: "split_result \<Rightarrow> string \<times> nat" where
  "origin_key parsed =
     (lower (the (url_hostname parsed)),
      case url_port parsed of Inr (Some p) \<Rightarrow> if p = 0 then 443 else p | _ \<Rightarrow> 443)"

definition validate_uri_list :: "string list \<Rightarrow> string \<Rightarrow> bool \<Rightarrow> split_result list result" where
  "validate_uri_list values field_name origin =
     (if \<not> (1 \<le> length values \<and> length values \<le> MAX_URI_COUNT)
      then Inl (client_error field_name ''must contain between 1 and 16 values'')
      else if \<not> distinct values then Inl (client_error field_name ''must not contain duplicate values'')
      else bindR (mapR (\<lambda>value. parse_https_uri value field_name) values) (\<lambda>parsed_values.
        if origin \<and> list_ex (\<lambda>u. url_path u \<noteq> []) parsed_values
        then Inl (client_error field_name ''must contain exact HTTPS origins only'')
        else Inr parsed_values))"

section \<open>Attributes, scopes and mappers\<close>

definition attribute_of :: "(string \<times> string) list \<Rightarrow> string \<Rightarrow> string" where
  "attribute_of attributes key = (case map_of attributes key of None \<Rightarrow> [] | Some v \<Rightarrow> v)"

definition rp_validate_attributes :: "(string \<times> string) list \<Rightarrow> split_result result" where
  "rp_validate_attributes attributes =
     (if has_other_field ALLOWED_ATTRIBUTES attributes
      then Inl (client_error ''attributes'' ''contains unsupported fields'')
      else
        bindR (require_present (\<lambda>k. client_error k ''is required'') ALLOWED_ATTRIBUTES attributes) (\<lambda>_.
        bindR (forR attributes (\<lambda>(key, value). require_clean_text value key MAX_URI_LENGTH)) (\<lambda>_.
        bindR (requireR (attribute_of attributes ''pkce.code.challenge.method'' = ''S256'')
          (client_error ''pkce.code.challenge.method'' ''must be S256'')) (\<lambda>_.
        bindR (parse_https_uri (attribute_of attributes ''post.logout.redirect.uris'')
          ''post.logout.redirect.uris'') (\<lambda>logout_uri.
        (let lifespan = attribute_of attributes ''access.token.lifespan'' in
         bindR (requireR (lifespan \<noteq> [] \<and> list_all isdecimal_char lifespan)
           (client_error ''access.token.lifespan'' ''must be an unsigned decimal integer'')) (\<lambda>_.
         bindR (requireR (60 \<le> decimal_value lifespan \<and> decimal_value lifespan \<le> 900)
           (client_error ''access.token.lifespan'' ''must be between 60 and 900 seconds'')) (\<lambda>_.
         bindR (requireR (attribute_of attributes ''backchannel.logout.session.required'' = ''true'')
           (client_error ''backchannel.logout.session.required'' ''must be true'')) (\<lambda>_.
         bindR (requireR (attribute_of attributes ''require.pushed.authorization.requests'' = ''false'')
           (client_error ''require.pushed.authorization.requests'' ''must be false'')) (\<lambda>_.
         Inr logout_uri))))))))))"

definition validate_scopes :: "string list \<Rightarrow> unit result" where
  "validate_scopes scopes =
     bindR (requireR (1 \<le> length scopes \<and> length scopes \<le> 8)
       (client_error ''defaultClientScopes'' ''must contain between 1 and 8 values'')) (\<lambda>_.
     bindR (forR scopes (\<lambda>scope. require_clean_text scope ''defaultClientScopes'' 64)) (\<lambda>_.
     bindR (requireR (distinct scopes) (client_error ''defaultClientScopes'' ''must not contain duplicates'')) (\<lambda>_.
     requireR (set scopes = set REQUIRED_SCOPES)
       (client_error ''defaultClientScopes'' ''must contain exactly basic, profile, and email''))))"

definition require_exact_config :: "protocol_mapper \<Rightarrow> string list \<Rightarrow> unit result" where
  "require_exact_config mapper expected_fields =
     bindR (requireR (fst ` set (pm_config mapper) = set expected_fields)
       (client_error ''protocolMappers.config'' ''must use the exact closed field set'')) (\<lambda>_.
     forR (pm_config mapper) (\<lambda>(key, value). require_clean_text value (''protocolMappers.config.'' @ key) 128))"

definition config_flags :: "protocol_mapper \<Rightarrow> (string \<times> string) list \<Rightarrow> bool" where
  "config_flags mapper expected = list_all (\<lambda>(key, value). map_of (pm_config mapper) key = Some value) expected"

definition validate_audience_mapper :: "protocol_mapper \<Rightarrow> string \<Rightarrow> nat result" where
  "validate_audience_mapper mapper client_id =
     bindR (requireR (pm_name mapper = AUDIENCE_MAPPER_NAME)
       (client_error ''protocolMappers.name'' ''must be keyverse-audience'')) (\<lambda>_.
     bindR (require_exact_config mapper AUDIENCE_CONFIG_FIELDS) (\<lambda>_.
     bindR (requireR (map_of (pm_config mapper) ''included.client.audience'' = Some client_id)
       (client_error ''protocolMappers.config.included.client.audience'' ''must exactly match clientId'')) (\<lambda>_.
     bindR (requireR (config_flags mapper
         [(''access.token.claim'', ''true''), (''id.token.claim'', ''false''), (''introspection.token.claim'', ''true'')])
       (client_error ''protocolMappers.config'' ''must use the closed audience claim destinations'')) (\<lambda>_.
     Inr 0))))"

text \<open>The Unicode line separators this also refuses lie outside the characters of the model.\<close>

definition validate_claim_value :: "string \<Rightarrow> unit result" where
  "validate_claim_value value =
     require_clean_text value ''protocolMappers.config.claim.value'' MAX_CLAIM_VALUE_LENGTH"

definition validate_hardcoded_claim_mapper :: "protocol_mapper \<Rightarrow> (nat \<times> string) result" where
  "validate_hardcoded_claim_mapper mapper =
     bindR (require_exact_config mapper CLAIM_CONFIG_FIELDS) (\<lambda>_.
     (let claim_name = attribute_of (pm_config mapper) ''claim.name'' in
      case CLAIM_RANK claim_name of
        None \<Rightarrow> Inl (client_error ''protocolMappers.config.claim.name'' ''must be role, org, or workspace'')
      | Some rank \<Rightarrow>
          bindR (requireR (pm_name mapper = ''keyverse-claim-'' @ claim_name)
            (client_error ''protocolMappers.name'' ''must be canonical for the claim name'')) (\<lambda>_.
          bindR (validate_claim_value (attribute_of (pm_config mapper) ''claim.value'')) (\<lambda>_.
          bindR (requireR (config_flags mapper
              [(''jsonType.label'', ''String''), (''access.token.claim'', ''true''), (''id.token.claim'', ''true''),
               (''userinfo.token.claim'', ''false''), (''introspection.token.claim'', ''true'')])
            (client_error ''protocolMappers.config'' ''must use the closed session-claim destinations'')) (\<lambda>_.
          Inr (rank, claim_name))))))"

text \<open>The loop over the mappers with its ranks, audience count and claim names.\<close>

primrec check_mappers ::
  "string \<Rightarrow> protocol_mapper list \<Rightarrow> nat list \<Rightarrow> nat \<Rightarrow> string list \<Rightarrow> (nat list \<times> nat) result" where
  "check_mappers client_id [] ranks audience_count claim_names = Inr (ranks, audience_count)"
| "check_mappers client_id (mapper # rest) ranks audience_count claim_names =
     bindR (require_clean_text (pm_name mapper) ''protocolMappers.name'' MAX_MAPPER_NAME_LENGTH) (\<lambda>_.
     bindR (requireR (pm_protocol mapper = ''openid-connect'')
       (client_error ''protocolMappers.protocol'' ''must be openid-connect'')) (\<lambda>_.
     bindR (requireR (\<not> pm_consent_required mapper)
       (client_error ''protocolMappers.consentRequired'' ''must be false'')) (\<lambda>_.
     if pm_type mapper = AUDIENCE_MAPPER_TYPE then
       bindR (validate_audience_mapper mapper client_id) (\<lambda>rank.
       check_mappers client_id rest (ranks @ [rank]) (audience_count + 1) claim_names)
     else if pm_type mapper = CLAIM_MAPPER_TYPE then
       bindR (validate_hardcoded_claim_mapper mapper) (\<lambda>(rank, claim_name).
       if claim_name \<in> set claim_names
       then Inl (client_error ''protocolMappers'' ''must not duplicate claim names'')
       else check_mappers client_id rest (ranks @ [rank]) audience_count (claim_name # claim_names))
     else Inl (client_error ''protocolMappers.protocolMapper'' ''is not supported''))))"

definition validate_protocol_mappers :: "relying_party \<Rightarrow> unit result" where
  "validate_protocol_mappers registration =
     (let mappers = rp_protocol_mappers registration in
      if mappers = [] then Inr ()
      else if length mappers > MAX_MAPPER_COUNT
      then Inl (client_error ''protocolMappers'' ''must contain at most 4 entries'')
      else
        bindR (check_mappers (rp_client_id registration) mappers [] 0 []) (\<lambda>(ranks, audience_count).
        bindR (requireR (audience_count = 1)
          (client_error ''protocolMappers'' ''must contain exactly one audience mapper'')) (\<lambda>_.
        requireR (sorted ranks \<and> distinct ranks)
          (client_error ''protocolMappers'' ''must use canonical mapper order''))))"

section \<open>The profile\<close>

definition validate_relying_party_registration :: "relying_party \<Rightarrow> unit result" where
  "validate_relying_party_registration r =
     bindR (require_clean_text (rp_client_id r) ''clientId'' MAX_CLIENT_ID_LENGTH) (\<lambda>_.
     bindR (requireR (is_slug (rp_client_id r)) (client_error ''clientId'' ''must be a lowercase ASCII slug'')) (\<lambda>_.
     bindR (requireR (rp_name r = rp_client_id r) (client_error ''name'' ''must exactly match clientId'')) (\<lambda>_.
     bindR (requireR (rp_enabled r) (client_error ''enabled'' ''must be true'')) (\<lambda>_.
     bindR (requireR (rp_protocol r = ''openid-connect'') (client_error ''protocol'' ''must be openid-connect'')) (\<lambda>_.
     (let expected = (if rp_public_client r then ''none'' else ''client-secret'') in
     bindR (requireR (rp_client_authenticator_type r = expected)
       (client_error ''clientAuthenticatorType'' (''must be '' @ expected @ '' for this client type''))) (\<lambda>_.
     bindR (requireR (rp_standard_flow_enabled r) (client_error ''standardFlowEnabled'' ''must be true'')) (\<lambda>_.
     bindR (requireR (\<not> rp_implicit_flow_enabled r) (client_error ''implicitFlowEnabled'' ''must be false'')) (\<lambda>_.
     bindR (requireR (\<not> rp_direct_access_grants_enabled r)
       (client_error ''directAccessGrantsEnabled'' ''must be false'')) (\<lambda>_.
     bindR (requireR (\<not> rp_service_accounts_enabled r)
       (client_error ''serviceAccountsEnabled'' ''must be false'')) (\<lambda>_.
     bindR (requireR (\<not> rp_full_scope_allowed r) (client_error ''fullScopeAllowed'' ''must be false'')) (\<lambda>_.
     bindR (validate_uri_list (rp_redirect_uris r) ''redirectUris'' False) (\<lambda>redirect_uris.
     bindR (validate_uri_list (rp_web_origins r) ''webOrigins'' True) (\<lambda>web_origins.
     bindR (rp_validate_attributes (rp_attributes r)) (\<lambda>logout_uri.
     bindR (validate_scopes (rp_default_client_scopes r)) (\<lambda>_.
     bindR (validate_protocol_mappers r) (\<lambda>_.
     bindR (requireR (set (map origin_key redirect_uris) = set (map origin_key web_origins))
       (client_error ''webOrigins'' ''must exactly match redirect URI origins'')) (\<lambda>_.
     requireR (origin_key logout_uri \<in> set (map origin_key web_origins))
       (client_error ''post.logout.redirect.uris'' ''must use a registered web origin'')))))))))))))))))))"

definition validate_relying_party :: "json \<Rightarrow> relying_party result" where
  "validate_relying_party payload =
     bindR (parse_relying_party payload) (\<lambda>r.
     bindR (validate_relying_party_registration r) (\<lambda>_. Inr r))"

end
