(* ===== verification/Reconcile.thy ===== *)
theory Reconcile
  imports KvStore
begin

text \<open>
  What the two reconciling services (relying parties and user directories) share: the state their
  requests act on, which is the key-value store and the Keycloak behind the client, and the
  \<open>try\<close>/\<open>except Exception\<close> idiom around every call to Keycloak, with the rules for both.
\<close>

record ('st, 'w) sync_state =
  sync_store :: 'st
  sync_kc :: 'w

type_synonym ('st, 'w, 'a) sync_action = "(('st, 'w) sync_state, 'a) action"

definition remoteA :: "('w, 'a) action \<Rightarrow> ('st, 'w, 'a) sync_action" where
  "remoteA m = zoomA sync_kc sync_kc_update m"

text \<open>\<open>try: x = call() except Exception: return fallback\<close>, as one combinator.\<close>

definition or_else :: "('s, 'a) action \<Rightarrow> ('s, 'b) action \<Rightarrow> ('a \<Rightarrow> ('s, 'b) action) \<Rightarrow> ('s, 'b) action" where
  "or_else call fallback continue s =
     (case call s of (Inl _, t) \<Rightarrow> fallback t | (Inr x, t) \<Rightarrow> continue x t)"

lemma or_else_cases:
  assumes "or_else call fallback continue s = (r, t)"
  obtains e u where "call s = (Inl e, u)" "fallback u = (r, t)"
    | x u where "call s = (Inr x, u)" "continue x u = (r, t)"
  using assms unfolding or_else_def by (cases "call s"; cases "fst (call s)") auto

lemma keepsA_or_else [keepsA_rules]:
  "keepsA sel m \<Longrightarrow> keepsA sel f \<Longrightarrow> (\<And>x. keepsA sel (g x)) \<Longrightarrow> keepsA sel (or_else m f g)"
  unfolding keepsA_def by (metis or_else_cases)

lemma keepsA_list3 [keepsA_rules]:
  "keepsA sel m \<Longrightarrow> (\<And>x. keepsA sel (f x)) \<Longrightarrow> (\<And>x y zs. keepsA sel (g x y zs)) \<Longrightarrow>
     keepsA sel (case xs of [] \<Rightarrow> m | [x] \<Rightarrow> f x | x # y # zs \<Rightarrow> g x y zs)"
  by (auto split: list.split)

lemma keepsA_opt [keepsA_rules]:
  "keepsA sel m \<Longrightarrow> (\<And>x. keepsA sel (f x)) \<Longrightarrow> keepsA sel (case opt of None \<Rightarrow> m | Some x \<Rightarrow> f x)"
  by (cases opt) auto

lemma keepsA_remoteA [keepsA_rules]: "keepsA sync_store (remoteA m)"
  unfolding keepsA_def remoteA_def zoomA_def by (auto split: prod.splits)

lemma keepsA_mapA [keepsA_rules]: "(\<And>x. keepsA sel (f x)) \<Longrightarrow> keepsA sel (mapA f xs)"
  by (induction xs) (auto intro!: keepsA_rules)

lemma remoteA_run: "remoteA m s = (x, t) \<Longrightarrow> sync_store t = sync_store s"
  using keepsA_remoteA [of m] unfolding keepsA_def by blast

lemma list3_cases:
  obtains "cs = []" | client where "cs = [client]" | c c' rest where "cs = c # c' # rest"
  by (metis list.exhaust)

lemma keepsA_stable: "keepsA sel m \<Longrightarrow> hoareA (\<lambda>s. J (sel s)) m (\<lambda>_ s. J (sel s)) (\<lambda>_ s. J (sel s))"
  by (intro hoareAI) (auto dest: keepsA_D)

text \<open>
  Remote first, store last: checks and reads, an observation of Keycloak that may fail, a change of
  Keycloak, and only then the change of the store. Any failure on the way leaves the store as it was.
\<close>

lemma remote_first:
  fixes s :: "('st, 'w) sync_state"
  assumes check: "keepsA sync_store (check :: ('st, 'w, 'a) sync_action)" and read: "keepsA sync_store read"
    and observe: "\<And>r. keepsA sync_store (observe r)" and change: "\<And>r ms. keepsA sync_store (change r ms)"
  shows "case bindA check (\<lambda>_. bindA read (\<lambda>r. or_else (observe r) (raiseA e)
        (\<lambda>ms. bindA (change r ms) (\<lambda>_. modifyA (sync_store_update remove))))) s of
      (Inl _, t) \<Rightarrow> sync_store t = sync_store s
    | (Inr _, t) \<Rightarrow> sync_store t = remove (sync_store s)"
proof -
  let ?I = "\<lambda>s' :: ('st, 'w) sync_state. sync_store s' = sync_store s"
  let ?Q = "\<lambda>_ s'. sync_store s' = remove (sync_store s)"
  have quiet: "hoareA ?I m (\<lambda>_. ?I) (\<lambda>_. ?I)" if "keepsA sync_store m" for m :: "('st, 'w, 'x) sync_action"
    by (rule keepsA_stable [OF that])
  have last: "hoareA ?I (bindA (change r ms) (\<lambda>_. modifyA (sync_store_update remove))) ?Q (\<lambda>_. ?I)" for r ms
    by (rule hoareA_bind [OF quiet [OF change]], rule hoareAI) auto
  have "hoareA ?I (or_else (observe r) (raiseA e)
      (\<lambda>ms. bindA (change r ms) (\<lambda>_. modifyA (sync_store_update remove)))) ?Q (\<lambda>_. ?I)" for r
    by (intro hoareAI; elim or_else_cases)
       (auto dest!: keepsA_D [OF observe] hoareA_Inr [OF last, rotated] hoareA_Inl [OF last, rotated])
  then have "hoareA ?I (bindA check (\<lambda>_. bindA read (\<lambda>r. or_else (observe r) (raiseA e)
      (\<lambda>ms. bindA (change r ms) (\<lambda>_. modifyA (sync_store_update remove)))))) ?Q (\<lambda>_. ?I)"
    by (intro hoareA_bind [OF quiet [OF check]] hoareA_bind [OF quiet [OF read]])
  then show ?thesis
    unfolding hoareA_def by (auto split: prod.splits sum.splits)
qed

section \<open>What an action answers\<close>

text \<open>Every value the action can return satisfies the predicate, whatever Keycloak does.\<close>

definition yields :: "('a \<Rightarrow> bool) \<Rightarrow> ('s, 'a) action \<Rightarrow> bool" where
  "yields P m \<longleftrightarrow> (\<forall>s x t. m s = (Inr x, t) \<longrightarrow> P x)"

named_theorems yields_rules \<open>what actions answer\<close>

lemma yieldsD: "yields P m \<Longrightarrow> m s = (Inr x, t) \<Longrightarrow> P x"
  unfolding yields_def by blast

lemma yields_return [yields_rules]: "P x \<Longrightarrow> yields P (returnA x)"
  by (simp add: yields_def)

lemma yields_raise [yields_rules]: "yields P (raiseA e)"
  by (simp add: yields_def)

lemma yields_bind: "yields Q m \<Longrightarrow> (\<And>x. Q x \<Longrightarrow> yields P (f x)) \<Longrightarrow> yields P (bindA m f)"
  unfolding yields_def by (auto simp: bindA_def split: prod.splits sum.splits) blast+

lemma yields_bind_any [yields_rules]: "(\<And>x. yields P (f x)) \<Longrightarrow> yields P (bindA m f)"
  by (rule yields_bind [where Q = "\<lambda>_. True"]) (simp_all add: yields_def)

lemma yields_or_else [yields_rules]:
  "yields P fallback \<Longrightarrow> (\<And>x. yields P (f x)) \<Longrightarrow> yields P (or_else m fallback f)"
  unfolding yields_def by (metis or_else_cases)

lemma yields_list3 [yields_rules]:
  "yields P m \<Longrightarrow> (\<And>x. yields P (f x)) \<Longrightarrow> (\<And>x y zs. yields P (g x y zs)) \<Longrightarrow>
     yields P (case xs of [] \<Rightarrow> m | [x] \<Rightarrow> f x | x # y # zs \<Rightarrow> g x y zs)"
  by (auto split: list.split)

lemma yields_if [yields_rules]: "yields P m \<Longrightarrow> yields P m' \<Longrightarrow> yields P (if b then m else m')"
  by simp

lemma yields_mapA:
  assumes "\<And>x. yields P (f x)"
  shows "yields (list_all P) (mapA f xs)"
proof (induction xs)
  case (Cons x xs)
  show ?case
    unfolding mapA.simps
    by (rule yields_bind [OF assms], rule yields_bind [OF Cons]) (simp add: yields_return)
qed (simp add: yields_def)

lemma yields_wrap: "yields Q m \<Longrightarrow> (\<And>x. Q x \<Longrightarrow> P (g x)) \<Longrightarrow> yields P (bindA m (\<lambda>x. returnA (g x)))"
  by (rule yields_bind [where Q = Q]) (simp_all add: yields_return)

end
