(* ===== verification/Sha256.thy ===== *)
theory Sha256
  imports Json "HOL-Library.Word"
begin

text \<open>
  What the registries use of Python's \<open>hashlib\<close>: the SHA-256 digest of a UTF-8 text as a hex
  string, by the algorithm of FIPS 180-4 on 32-bit words. A digest has 64 lowercase hex digits
  whatever the text.
\<close>

unbundle bit_operations_syntax

type_synonym word32 = "32 word"

text \<open>\<open>str.encode("utf-8")\<close> on the characters of the model.\<close>

definition utf8_char :: "char \<Rightarrow> nat list" where
  "utf8_char c = (if ord c < 128 then [ord c] else [192 + ord c div 64, 128 + ord c mod 64])"

definition utf8_encode :: "string \<Rightarrow> nat list" where
  "utf8_encode s = concat (map utf8_char s)"

definition sha256_K :: "word32 list" where
  "sha256_K =
    [0x428a2f98, 0x71374491, 0xb5c0fbcf, 0xe9b5dba5, 0x3956c25b, 0x59f111f1, 0x923f82a4, 0xab1c5ed5,
     0xd807aa98, 0x12835b01, 0x243185be, 0x550c7dc3, 0x72be5d74, 0x80deb1fe, 0x9bdc06a7, 0xc19bf174,
     0xe49b69c1, 0xefbe4786, 0x0fc19dc6, 0x240ca1cc, 0x2de92c6f, 0x4a7484aa, 0x5cb0a9dc, 0x76f988da,
     0x983e5152, 0xa831c66d, 0xb00327c8, 0xbf597fc7, 0xc6e00bf3, 0xd5a79147, 0x06ca6351, 0x14292967,
     0x27b70a85, 0x2e1b2138, 0x4d2c6dfc, 0x53380d13, 0x650a7354, 0x766a0abb, 0x81c2c92e, 0x92722c85,
     0xa2bfe8a1, 0xa81a664b, 0xc24b8b70, 0xc76c51a3, 0xd192e819, 0xd6990624, 0xf40e3585, 0x106aa070,
     0x19a4c116, 0x1e376c08, 0x2748774c, 0x34b0bcb5, 0x391c0cb3, 0x4ed8aa4a, 0x5b9cca4f, 0x682e6ff3,
     0x748f82ee, 0x78a5636f, 0x84c87814, 0x8cc70208, 0x90befffa, 0xa4506ceb, 0xbef9a3f7, 0xc67178f2]"

definition sha256_init :: "word32 list" where
  "sha256_init =
    [0x6a09e667, 0xbb67ae85, 0x3c6ef372, 0xa54ff53a, 0x510e527f, 0x9b05688c, 0x1f83d9ab, 0x5be0cd19]"

definition rotr :: "nat \<Rightarrow> word32 \<Rightarrow> word32" where
  "rotr n x = (drop_bit n x) OR (push_bit (32 - n) x)"

definition sha_ch :: "word32 \<Rightarrow> word32 \<Rightarrow> word32 \<Rightarrow> word32" where
  "sha_ch x y z = (x AND y) XOR ((NOT x) AND z)"

definition sha_maj :: "word32 \<Rightarrow> word32 \<Rightarrow> word32 \<Rightarrow> word32" where
  "sha_maj x y z = (x AND y) XOR (x AND z) XOR (y AND z)"

definition big_sigma0 :: "word32 \<Rightarrow> word32" where "big_sigma0 x = rotr 2 x XOR rotr 13 x XOR rotr 22 x"
definition big_sigma1 :: "word32 \<Rightarrow> word32" where "big_sigma1 x = rotr 6 x XOR rotr 11 x XOR rotr 25 x"
definition small_sigma0 :: "word32 \<Rightarrow> word32" where "small_sigma0 x = rotr 7 x XOR rotr 18 x XOR drop_bit 3 x"
definition small_sigma1 :: "word32 \<Rightarrow> word32" where "small_sigma1 x = rotr 17 x XOR rotr 19 x XOR drop_bit 10 x"

definition be_word :: "nat list \<Rightarrow> word32" where
  "be_word bs = word_of_nat (foldl (\<lambda>n b. n * 256 + b) 0 bs)"

fun be_words :: "nat list \<Rightarrow> word32 list" where
  "be_words (a # b # c # d # rest) = be_word [a, b, c, d] # be_words rest"
| "be_words _ = []"

definition be_length :: "nat \<Rightarrow> nat list" where
  "be_length n = map (\<lambda>i. (n div 256 ^ i) mod 256) [7, 6, 5, 4, 3, 2, 1, 0]"

definition sha256_pad :: "nat list \<Rightarrow> nat list" where
  "sha256_pad msg =
     msg @ [128] @ replicate ((119 - length msg mod 64) mod 64) 0 @ be_length (8 * length msg)"

text \<open>The message schedule, newest word first, and one round.\<close>

primrec schedule :: "nat \<Rightarrow> word32 list \<Rightarrow> word32 list" where
  "schedule 0 ws = ws"
| "schedule (Suc n) ws =
     (let w = small_sigma1 (ws ! 1) + ws ! 6 + small_sigma0 (ws ! 14) + ws ! 15 in schedule n (w # ws))"

fun sha_round :: "word32 list \<Rightarrow> word32 \<times> word32 \<Rightarrow> word32 list" where
  "sha_round [a, b, c, d, e, f, g, h] (k, w) =
     (let t1 = h + big_sigma1 e + sha_ch e f g + k + w; t2 = big_sigma0 a + sha_maj a b c
      in [t1 + t2, a, b, c, d + t1, e, f, g])"
| "sha_round st _ = st"

definition compress :: "word32 list \<Rightarrow> word32 list \<Rightarrow> word32 list" where
  "compress h block =
     map2 (+) h (foldl sha_round h (zip sha256_K (rev (schedule 48 (rev block)))))"

fun sha_blocks :: "word32 list \<Rightarrow> word32 list \<Rightarrow> word32 list" where
  "sha_blocks h ws =
     (if length ws < 16 then h else sha_blocks (compress h (take 16 ws)) (drop 16 ws))"

declare sha_blocks.simps [simp del]

definition hex_word :: "word32 \<Rightarrow> string" where
  "hex_word w = map (\<lambda>i. hex_digit (unat w div 16 ^ i mod 16)) [7, 6, 5, 4, 3, 2, 1, 0]"

definition sha256_hex :: "nat list \<Rightarrow> string" where
  "sha256_hex msg = concat (map hex_word (sha_blocks sha256_init (be_words (sha256_pad msg))))"

section \<open>Shape of a digest\<close>

lemma length_sha_round [simp]: "length (sha_round st kw) = length st"
  by (induction st kw rule: sha_round.induct) (auto simp: Let_def)

lemma length_rounds [simp]: "length (foldl sha_round st kws) = length st"
  by (induction kws arbitrary: st) auto

lemma length_sha_blocks: "length (sha_blocks h ws) = length h"
proof (induction h ws rule: sha_blocks.induct)
  case (1 h ws)
  then show ?case by (subst sha_blocks.simps) (auto simp: compress_def)
qed

lemma length_sha256_hex: "length (sha256_hex msg) = 64"
proof -
  have "length (concat (map hex_word ws)) = 8 * length ws" for ws
    by (induction ws) (auto simp: hex_word_def)
  then show ?thesis
    by (simp add: sha256_hex_def length_sha_blocks sha256_init_def)
qed

definition is_lower_hex :: "char \<Rightarrow> bool" where
  "is_lower_hex c \<longleftrightarrow> isdecimal_char c \<or> (97 \<le> ord c \<and> ord c \<le> 102)"

lemma is_lower_hex_digit: "n < 16 \<Longrightarrow> is_lower_hex (hex_digit n)"
  by (auto simp: is_lower_hex_def hex_digit_def isdecimal_char_def)

lemma sha256_hex_digits: "list_all is_lower_hex (sha256_hex msg)"
proof -
  have "list_all is_lower_hex (hex_word w)" for w
    unfolding hex_word_def list_all_iff set_map by (auto intro: is_lower_hex_digit)
  then show ?thesis
    by (auto simp: sha256_hex_def list_all_iff)
qed

end
