(* ===== verification/RelyingPartyState.thy ===== *)
theory RelyingPartyState
  imports RelyingParty Identifiers Reconcile Sha256
begin

text \<open>
  Durable relying-party state, \<open>app/relying_party_state.py\<close>: validated operator intent in the
  key-value store, a digest receipt of the last verified apply beside it, and reconciliation of the
  Keycloak clients with the intent. pydantic's JSON codec, the store backend and the Keycloak
  client are parameters in the record \<open>rp_service\<close>. A request is one action on the store and the
  world behind the client; the locks of the service serialise requests and are not modelled.
\<close>

definition RELYING_PARTY_NAMESPACE :: string where
  "RELYING_PARTY_NAMESPACE = ''relying_party_sources''"

definition RELYING_PARTY_RECEIPT_NAMESPACE :: string where
  "RELYING_PARTY_RECEIPT_NAMESPACE = ''relying_party_apply_receipts''"

datatype convergence_state = IN_SYNC | DRIFTED | ABSENT | AMBIGUOUS | UNAVAILABLE | APPLY_FAILED

record rp_status =
  rs_registration :: relying_party
  rs_desired_state_stored :: bool
  rs_convergence_state :: convergence_state
  rs_client_uuid :: "string option"
  rs_last_apply_receipt_matches :: bool
  rs_last_convergence_error_code :: "string option"

definition relying_party_status ::
  "relying_party \<Rightarrow> convergence_state \<Rightarrow> string option \<Rightarrow> bool \<Rightarrow> string option \<Rightarrow> rp_status" where
  "relying_party_status registration convergence_state client_uuid receipt_matches error_code =
     \<lparr>rs_registration = registration, rs_desired_state_stored = True,
      rs_convergence_state = convergence_state, rs_client_uuid = client_uuid,
      rs_last_apply_receipt_matches = receipt_matches, rs_last_convergence_error_code = error_code\<rparr>"

section \<open>Representations\<close>

text \<open>\<open>model_dump(by_alias=True)\<close>: the fields in the order the classes declare them.\<close>

definition config_json :: "(string \<times> string) list \<Rightarrow> json" where
  "config_json config = JObj (map (\<lambda>(k, v). (k, JStr v)) config)"

definition mapper_dump :: "protocol_mapper \<Rightarrow> dict" where
  "mapper_dump m =
     [(''name'', JStr (pm_name m)), (''protocol'', JStr (pm_protocol m)), (''protocolMapper'', JStr (pm_type m)),
      (''consentRequired'', JBool (pm_consent_required m)), (''config'', config_json (pm_config m))]"

definition mappers_json :: "protocol_mapper list \<Rightarrow> json" where
  "mappers_json ms = JArr (map (\<lambda>m. JObj (mapper_dump m)) ms)"

definition relying_party_dump :: "relying_party \<Rightarrow> dict" where
  "relying_party_dump r =
     [(''clientId'', JStr (rp_client_id r)), (''name'', JStr (rp_name r)), (''enabled'', JBool (rp_enabled r)),
      (''protocol'', JStr (rp_protocol r)), (''publicClient'', JBool (rp_public_client r)),
      (''clientAuthenticatorType'', JStr (rp_client_authenticator_type r)),
      (''standardFlowEnabled'', JBool (rp_standard_flow_enabled r)),
      (''implicitFlowEnabled'', JBool (rp_implicit_flow_enabled r)),
      (''directAccessGrantsEnabled'', JBool (rp_direct_access_grants_enabled r)),
      (''serviceAccountsEnabled'', JBool (rp_service_accounts_enabled r)),
      (''redirectUris'', JArr (map JStr (rp_redirect_uris r))),
      (''webOrigins'', JArr (map JStr (rp_web_origins r))),
      (''attributes'', config_json (rp_attributes r)),
      (''fullScopeAllowed'', JBool (rp_full_scope_allowed r)),
      (''defaultClientScopes'', JArr (map JStr (rp_default_client_scopes r))),
      (''protocolMappers'', mappers_json (rp_protocol_mappers r))]"

definition desired_digest :: "relying_party \<Rightarrow> string" where
  "desired_digest r = sha256_hex (utf8_encode (json_dumps
     \<lparr>ensure_ascii = False, item_separator = '','', key_separator = '':'', sort_keys = True\<rparr>
     (JObj (relying_party_dump r))))"

definition client_uuid_of :: "dict \<Rightarrow> string result" where
  "client_uuid_of client =
     (case dict_get client ''id'' of
        JStr uuid \<Rightarrow>
          if uuid = [] then Inl (HTTPException 500 ''keycloak client omitted its identifier'')
          else (case validate_path_segment uuid ''keycloak_client_uuid'' of
                  Inl (InvalidIdentifierError _) \<Rightarrow> Inl (HTTPException 500 ''keycloak client identifier is invalid'')
                | r \<Rightarrow> r)
      | _ \<Rightarrow> Inl (HTTPException 500 ''keycloak client omitted its identifier''))"

section \<open>Observed mappers\<close>

definition all_strings :: "dict \<Rightarrow> bool" where
  "all_strings d = list_all (\<lambda>(k, v). case v of JStr _ \<Rightarrow> True | _ \<Rightarrow> False) d"

definition observed_mapper_rank :: "dict \<Rightarrow> dict \<Rightarrow> nat option" where
  "observed_mapper_rank mapper config =
     (let mapper_type = dict_get mapper ''protocolMapper'' in
      if mapper_type = JStr ''oidc-audience-mapper'' then Some 0
      else if mapper_type \<noteq> JStr ''oidc-hardcoded-claim-mapper'' then None
      else case dict_get config ''claim.name'' of
        JStr claim_name \<Rightarrow> map_of [(''role'', 1), (''org'', 2), (''workspace'', 3)] claim_name
      | _ \<Rightarrow> None)"

text \<open>One live mapper: its generated id is dropped, its shape is closed, its rank is known.\<close>

definition observed_mapper :: "json \<Rightarrow> (nat \<times> dict) option" where
  "observed_mapper raw_mapper =
     (case raw_mapper of
        JObj raw \<Rightarrow>
          (let mapper = filter (\<lambda>p. fst p \<noteq> ''id'') raw in
           if \<not> (case dict_get raw ''id'' of JNull \<Rightarrow> True | JStr s \<Rightarrow> s \<noteq> [] | _ \<Rightarrow> False) then None
           else if fst ` set mapper \<noteq> set MAPPER_FIELDS then None
           else case dict_get mapper ''config'' of
             JObj config \<Rightarrow>
               if \<not> all_strings config then None
               else map_option (\<lambda>rank. (rank, mapper)) (observed_mapper_rank mapper config)
           | _ \<Rightarrow> None)
      | _ \<Rightarrow> None)"

text \<open>\<open>model_validate\<close> of one mapper, with its strict fields.\<close>

definition mapper_of_dict :: "dict \<Rightarrow> protocol_mapper option" where
  "mapper_of_dict d =
     (case (dict_get d ''name'', dict_get d ''protocol'', dict_get d ''protocolMapper'',
            dict_get d ''consentRequired'', dict_get d ''config'') of
        (JStr n, JStr p, JStr t, JBool c, JObj config) \<Rightarrow>
          if all_strings config
          then Some \<lparr>pm_name = n, pm_protocol = p, pm_type = t, pm_consent_required = c,
                 pm_config = map (\<lambda>(k, v). (k, case v of JStr s \<Rightarrow> s | _ \<Rightarrow> [])) config\<rparr>
          else None
      | _ \<Rightarrow> None)"

definition normalized_observed_mappers :: "json \<Rightarrow> relying_party \<Rightarrow> protocol_mapper list option" where
  "normalized_observed_mappers value registration =
     (case value of
        JNull \<Rightarrow> Some []
      | JArr items \<Rightarrow>
          if length items > 4 then None
          else (case those (map observed_mapper items) of
             None \<Rightarrow> None
           | Some ranked \<Rightarrow>
               if \<not> distinct (map fst ranked) then None
               else (case those (map (\<lambda>p. mapper_of_dict (snd p)) (sort_key fst ranked)) of
                  None \<Rightarrow> None
                | Some ordered \<Rightarrow>
                    if okR (validate_relying_party_registration (registration\<lparr>rp_protocol_mappers := ordered\<rparr>))
                    then Some ordered else None))
      | _ \<Rightarrow> None)"

definition observable_client_matches :: "relying_party \<Rightarrow> dict \<Rightarrow> bool" where
  "observable_client_matches registration client =
     (case normalized_observed_mappers (dict_get client ''protocolMappers'') registration of
        None \<Rightarrow> False
      | Some observed \<Rightarrow>
          py_eq (mappers_json observed) (mappers_json (rp_protocol_mappers registration)) \<and>
          list_all (\<lambda>(key, value). key = ''protocolMappers'' \<or> py_eq (dict_get client key) value)
            (relying_party_dump registration))"

section \<open>The service\<close>

record 'w rp_api =
  rpa_list :: "string \<Rightarrow> ('w, dict list) action"
  rpa_create :: "dict \<Rightarrow> ('w, string option) action"
  rpa_update :: "string \<Rightarrow> dict \<Rightarrow> ('w, unit) action"
  rpa_delete :: "string \<Rightarrow> ('w, unit) action"

record ('st, 'w) rp_service =
  rps_kv :: "'st kv_ops"
  rps_api :: "'w rp_api"
  rps_dump_json :: "relying_party \<Rightarrow> string"
  rps_validate_json :: "string \<Rightarrow> relying_party result"

definition stored_state_invalid :: exn where
  "stored_state_invalid = HTTPException 500 ''stored_state_invalid''"

definition rp_parse_stored :: "('st, 'w) rp_service \<Rightarrow> string \<Rightarrow> relying_party result" where
  "rp_parse_stored svc raw_value =
     (case bindR (rps_validate_json svc raw_value) (\<lambda>r.
             bindR (validate_relying_party_registration r) (\<lambda>_. Inr r)) of
        Inl _ \<Rightarrow> Inl stored_state_invalid
      | Inr r \<Rightarrow> Inr r)"

definition get_stored_registration ::
  "('st, 'w) rp_service \<Rightarrow> string \<Rightarrow> ('st, 'w, relying_party) sync_action" where
  "get_stored_registration svc client_id =
     bindA (readA (\<lambda>s. kv_get (rps_kv svc) RELYING_PARTY_NAMESPACE client_id (sync_store s))) (\<lambda>raw_value.
     case raw_value of
       None \<Rightarrow> raiseA (HTTPException 404 ''relying-party desired state not found'')
     | Some raw \<Rightarrow>
         bindA (liftA (rp_parse_stored svc raw)) (\<lambda>r.
         if rp_client_id r \<noteq> client_id then raiseA stored_state_invalid else returnA r))"

definition exact_clients :: "('st, 'w) rp_service \<Rightarrow> relying_party \<Rightarrow> ('w, dict list) action" where
  "exact_clients svc r =
     bindA (rpa_list (rps_api svc) (rp_client_id r)) (\<lambda>candidates.
     returnA (filter (\<lambda>client. py_eq (dict_get client ''clientId'') (JStr (rp_client_id r))) candidates))"

definition receipt_matches :: "('st, 'w) rp_service \<Rightarrow> relying_party \<Rightarrow> 'st \<Rightarrow> bool" where
  "receipt_matches svc r st \<longleftrightarrow>
     kv_get (rps_kv svc) RELYING_PARTY_RECEIPT_NAMESPACE (rp_client_id r) st = Some (desired_digest r)"

definition record_receipt :: "('st, 'w) rp_service \<Rightarrow> relying_party \<Rightarrow> ('st, 'w, unit) sync_action" where
  "record_receipt svc r = modifyA (sync_store_update
     (kv_put (rps_kv svc) RELYING_PARTY_RECEIPT_NAMESPACE (rp_client_id r) (desired_digest r)))"

definition rp_status_for :: "('st, 'w) rp_service \<Rightarrow> relying_party \<Rightarrow> ('st, 'w, rp_status) sync_action" where
  "rp_status_for svc r =
     bindA (readA (\<lambda>s. receipt_matches svc r (sync_store s))) (\<lambda>receipt.
     or_else (remoteA (exact_clients svc r))
       (returnA (relying_party_status r UNAVAILABLE None receipt (Some ''keycloak_unavailable'')))
       (\<lambda>matches. case matches of
          [] \<Rightarrow> returnA (relying_party_status r ABSENT None receipt None)
        | [client] \<Rightarrow>
            bindA (liftA (client_uuid_of client)) (\<lambda>uuid.
            returnA (relying_party_status r
              (if observable_client_matches r client \<and> receipt then IN_SYNC else DRIFTED) (Some uuid) receipt None))
        | _ \<Rightarrow> returnA (relying_party_status r AMBIGUOUS None receipt (Some ''duplicate_clients''))))"

definition verify_mutation ::
  "('st, 'w) rp_service \<Rightarrow> relying_party \<Rightarrow> string option \<Rightarrow> ('st, 'w, rp_status) sync_action" where
  "verify_mutation svc r expected_uuid =
     or_else (remoteA (exact_clients svc r))
       (returnA (relying_party_status r APPLY_FAILED None False (Some ''post_apply_observation_failed'')))
       (\<lambda>matches. case matches of
          [] \<Rightarrow> returnA (relying_party_status r APPLY_FAILED None False (Some ''client_missing_after_apply''))
        | [client] \<Rightarrow>
            bindA (liftA (client_uuid_of client)) (\<lambda>observed_uuid.
            if expected_uuid \<noteq> None \<and> Some observed_uuid \<noteq> expected_uuid
            then returnA (relying_party_status r APPLY_FAILED (Some observed_uuid) False
              (Some ''client_identity_changed_after_apply''))
            else if \<not> observable_client_matches r client
            then returnA (relying_party_status r APPLY_FAILED (Some observed_uuid) False
              (Some ''client_state_mismatch_after_apply''))
            else
              bindA (record_receipt svc r) (\<lambda>_.
              returnA (relying_party_status r IN_SYNC (Some observed_uuid) True None)))
        | _ \<Rightarrow> returnA (relying_party_status r AMBIGUOUS None False (Some ''duplicate_clients_after_apply'')))"

definition rp_converge :: "('st, 'w) rp_service \<Rightarrow> relying_party \<Rightarrow> ('st, 'w, rp_status) sync_action" where
  "rp_converge svc r =
     bindA (readA (\<lambda>s. receipt_matches svc r (sync_store s))) (\<lambda>receipt.
     or_else (remoteA (exact_clients svc r))
       (returnA (relying_party_status r UNAVAILABLE None receipt (Some ''keycloak_unavailable'')))
       (\<lambda>matches. case matches of
          [] \<Rightarrow>
            or_else (remoteA (rpa_create (rps_api svc) (relying_party_dump r)))
              (returnA (relying_party_status r APPLY_FAILED None False (Some ''client_create_failed'')))
              (verify_mutation svc r)
        | [client] \<Rightarrow>
            bindA (liftA (client_uuid_of client)) (\<lambda>uuid.
            if observable_client_matches r client \<and> receipt
            then returnA (relying_party_status r IN_SYNC (Some uuid) True None)
            else
              or_else (remoteA (rpa_update (rps_api svc) uuid (relying_party_dump r)))
                (returnA (relying_party_status r APPLY_FAILED (Some uuid) False (Some ''client_update_failed'')))
                (\<lambda>_. verify_mutation svc r (Some uuid)))
        | _ \<Rightarrow> returnA (relying_party_status r AMBIGUOUS None receipt (Some ''duplicate_clients''))))"

text \<open>The client id of a path is checked by validating a fixed registration that carries it.\<close>

definition path_probe :: "string \<Rightarrow> dict" where
  "path_probe client_id =
     [(''clientId'', JStr client_id), (''name'', JStr client_id), (''enabled'', JBool True),
      (''protocol'', JStr ''openid-connect''), (''publicClient'', JBool True),
      (''clientAuthenticatorType'', JStr ''none''), (''standardFlowEnabled'', JBool True),
      (''implicitFlowEnabled'', JBool False), (''directAccessGrantsEnabled'', JBool False),
      (''serviceAccountsEnabled'', JBool False),
      (''redirectUris'', JArr [JStr ''https://path-validation.invalid/callback'']),
      (''webOrigins'', JArr [JStr ''https://path-validation.invalid'']),
      (''attributes'', config_json
         [(''pkce.code.challenge.method'', ''S256''),
          (''post.logout.redirect.uris'', ''https://path-validation.invalid/logout''),
          (''access.token.lifespan'', ''300''), (''backchannel.logout.session.required'', ''true''),
          (''require.pushed.authorization.requests'', ''false'')]),
      (''fullScopeAllowed'', JBool False),
      (''defaultClientScopes'', JArr [JStr ''basic'', JStr ''profile'', JStr ''email''])]"

definition validate_client_id :: "string \<Rightarrow> unit result" where
  "validate_client_id client_id =
     (case bindR (parse_relying_party (JObj (path_probe client_id))) validate_relying_party_registration of
        Inl (HTTPException _ _) \<Rightarrow> Inl (HTTPException 400 ''client_id must be a lowercase ASCII slug'')
      | r \<Rightarrow> r)"

section \<open>Operations\<close>

definition rp_parse_entry :: "('st, 'w) rp_service \<Rightarrow> string \<times> string \<Rightarrow> relying_party result" where
  "rp_parse_entry svc entry =
     bindR (rp_parse_stored svc (snd entry)) (\<lambda>r.
     if rp_client_id r \<noteq> fst entry then Inl stored_state_invalid else Inr r)"

definition rp_list_registrations :: "('st, 'w) rp_service \<Rightarrow> ('st, 'w, rp_status list) sync_action" where
  "rp_list_registrations svc =
     bindA (readA (\<lambda>s. kv_get_all (rps_kv svc) RELYING_PARTY_NAMESPACE (sync_store s))) (\<lambda>snapshot.
     bindA (liftA (mapR (rp_parse_entry svc) snapshot)) (\<lambda>registrations.
     bindA (mapA (rp_status_for svc) registrations) (\<lambda>statuses.
     returnA (sort_key (\<lambda>st. rp_client_id (rs_registration st)) statuses))))"

definition rp_get_registration ::
  "('st, 'w) rp_service \<Rightarrow> string \<Rightarrow> ('st, 'w, rp_status) sync_action" where
  "rp_get_registration svc client_id =
     bindA (liftA (validate_client_id client_id)) (\<lambda>_.
     bindA (get_stored_registration svc client_id) (rp_status_for svc))"

definition rp_put_registration ::
  "('st, 'w) rp_service \<Rightarrow> string \<Rightarrow> relying_party \<Rightarrow> ('st, 'w, rp_status) sync_action" where
  "rp_put_registration svc client_id r =
     bindA (liftA (validate_client_id client_id)) (\<lambda>_.
     bindA (liftA (requireR (rp_client_id r = client_id)
       (HTTPException 400 ''path client_id and body clientId must match''))) (\<lambda>_.
     bindA (liftA (validate_relying_party_registration r)) (\<lambda>_.
     bindA (modifyA (sync_store_update
       (kv_put (rps_kv svc) RELYING_PARTY_NAMESPACE client_id (rps_dump_json svc r)))) (\<lambda>_.
     rp_converge svc r))))"

definition rp_delete_registration :: "('st, 'w) rp_service \<Rightarrow> string \<Rightarrow> ('st, 'w, unit) sync_action" where
  "rp_delete_registration svc client_id =
     bindA (liftA (validate_client_id client_id)) (\<lambda>_.
     bindA (get_stored_registration svc client_id) (\<lambda>r.
     or_else (remoteA (exact_clients svc r))
       (raiseA (HTTPException 503 ''keycloak_unavailable''))
       (\<lambda>matches.
          bindA
            (case matches of
               [] \<Rightarrow> returnA ()
             | [client] \<Rightarrow>
                 bindA (liftA (client_uuid_of client)) (\<lambda>uuid.
                 or_else (remoteA (rpa_delete (rps_api svc) uuid))
                   (raiseA (HTTPException 502 ''client_delete_failed'')) returnA)
             | _ \<Rightarrow> raiseA (HTTPException 409 ''duplicate_clients''))
            (\<lambda>_. modifyA (sync_store_update (\<lambda>st.
               kv_delete (rps_kv svc) RELYING_PARTY_RECEIPT_NAMESPACE client_id
                 (kv_delete (rps_kv svc) RELYING_PARTY_NAMESPACE client_id st)))))))"

text \<open>One step of the reconciliation loop; an entry deleted meanwhile is skipped.\<close>

definition reconcile_one ::
  "('st, 'w) rp_service \<Rightarrow> string \<Rightarrow> rp_status list \<Rightarrow> ('st, 'w, rp_status list) sync_action" where
  "reconcile_one svc client_id statuses =
     bindA (catchA (bindA (get_stored_registration svc client_id) (\<lambda>r. returnA (Some r)))
       (\<lambda>e. case e of HTTPException code _ \<Rightarrow> if code = 404 then returnA None else raiseA e | _ \<Rightarrow> raiseA e))
     (\<lambda>found. case found of
        None \<Rightarrow> returnA statuses
      | Some r \<Rightarrow> bindA (rp_converge svc r) (\<lambda>st. returnA (statuses @ [st])))"

definition rp_reconcile_all :: "('st, 'w) rp_service \<Rightarrow> ('st, 'w, rp_status list) sync_action" where
  "rp_reconcile_all svc =
     bindA (readA (\<lambda>s. sort (map fst (kv_get_all (rps_kv svc) RELYING_PARTY_NAMESPACE (sync_store s))))) (\<lambda>client_ids.
     foldA (reconcile_one svc) client_ids [])"

section \<open>The routes\<close>

datatype rp_request =
    List_relying_parties
  | Reconcile_relying_parties
  | Get_relying_party string
  | Put_relying_party string json
  | Delete_relying_party string

datatype rp_response = Rp_statuses "rp_status list" | Rp_status rp_status | Rp_no_content

fun relying_party_route ::
  "('st, 'w) rp_service \<Rightarrow> rp_request \<Rightarrow> ('st, 'w, rp_response) sync_action" where
  "relying_party_route svc List_relying_parties =
     bindA (rp_list_registrations svc) (\<lambda>sts. returnA (Rp_statuses sts))"
| "relying_party_route svc Reconcile_relying_parties =
     bindA (rp_reconcile_all svc) (\<lambda>sts. returnA (Rp_statuses sts))"
| "relying_party_route svc (Get_relying_party client_id) =
     bindA (rp_get_registration svc client_id) (\<lambda>st. returnA (Rp_status st))"
| "relying_party_route svc (Put_relying_party client_id payload) =
     bindA (liftA (parse_relying_party payload)) (\<lambda>r.
     bindA (rp_put_registration svc client_id r) (\<lambda>st. returnA (Rp_status st)))"
| "relying_party_route svc (Delete_relying_party client_id) =
     bindA (rp_delete_registration svc client_id) (\<lambda>_. returnA Rp_no_content)"

end
