(* ===== verification/RelyingParty_Theorems.thy ===== *)
theory RelyingParty_Theorems
  imports RelyingPartyState "HOL-Library.Code_Target_Nat"
begin

text \<open>
  Properties of relying parties: what an accepted registration guarantees, that its JSON form
  parses back to it, that the store keeps its integrity, that a status of in-sync is truthful,
  that a failed delete keeps the intent, and that reconciliation converges and then rests.
\<close>

section \<open>The security profile\<close>

definition exact_https :: "string \<Rightarrow> bool" where
  "exact_https v \<longleftrightarrow> CHR ''*'' \<notin> set v \<and>
     (case urlsplit v of
        Inl _ \<Rightarrow> False
      | Inr u \<Rightarrow> lower (url_scheme u) = ''https'' \<and> url_hostname u \<noteq> None \<and> url_username u = None \<and>
          url_password u = None \<and> url_query u = [] \<and> url_fragment u = [])"

definition origin_of :: "string \<Rightarrow> (string \<times> nat) option" where
  "origin_of v = (case urlsplit v of Inl _ \<Rightarrow> None | Inr u \<Rightarrow> Some (origin_key u))"

definition security_profile :: "relying_party \<Rightarrow> bool" where
  "security_profile r \<longleftrightarrow>
     is_slug (rp_client_id r) \<and> rp_name r = rp_client_id r \<and> rp_enabled r \<and> rp_protocol r = ''openid-connect'' \<and>
     rp_standard_flow_enabled r \<and> \<not> rp_implicit_flow_enabled r \<and> \<not> rp_direct_access_grants_enabled r \<and>
     \<not> rp_service_accounts_enabled r \<and> \<not> rp_full_scope_allowed r \<and>
     list_all exact_https (rp_redirect_uris r) \<and> list_all exact_https (rp_web_origins r) \<and>
     origin_of ` set (rp_redirect_uris r) = origin_of ` set (rp_web_origins r) \<and>
     exact_https (attribute_of (rp_attributes r) ''post.logout.redirect.uris'') \<and>
     origin_of (attribute_of (rp_attributes r) ''post.logout.redirect.uris'') \<in> origin_of ` set (rp_web_origins r) \<and>
     attribute_of (rp_attributes r) ''pkce.code.challenge.method'' = ''S256'' \<and>
     60 \<le> decimal_value (attribute_of (rp_attributes r) ''access.token.lifespan'') \<and>
     decimal_value (attribute_of (rp_attributes r) ''access.token.lifespan'') \<le> 900 \<and>
     set (rp_default_client_scopes r) = {''basic'', ''profile'', ''email''}"

lemma https_uri_ok:
  assumes "parse_https_uri v f = Inr u"
  shows "exact_https v \<and> urlsplit v = Inr u"
proof -
  from assms obtain p where split: "split_url v = Some (u, p)" and star: "CHR ''*'' \<notin> set v"
    and shape: "lower (url_scheme u) = ''https''" "url_hostname u \<noteq> None" "url_username u = None"
      "url_password u = None" "url_query u = []" "url_fragment u = []"
    unfolding parse_https_uri_def
    by (auto simp: bindR_eq_Inr split: if_splits option.splits prod.splits)
  from split have "urlsplit v = Inr u"
    by (auto simp: split_url_def bindR_eq_Inr split: sum.splits)
  with star shape show ?thesis by (simp add: exact_https_def)
qed

lemma uri_list_ok:
  assumes "validate_uri_list vs f origin = Inr us"
  shows "list_all exact_https vs" and "origin_of ` set vs = Some ` set (map origin_key us)"
proof -
  from assms have "mapR (\<lambda>v. parse_https_uri v f) vs = Inr us"
    by (auto simp: validate_uri_list_def bindR_eq_Inr split: if_splits)
  then have all: "list_all2 (\<lambda>v u. exact_https v \<and> urlsplit v = Inr u) vs us"
    unfolding mapR_Inr_iff by (rule list_all2_mono) (auto dest: https_uri_ok)
  then show "list_all exact_https vs"
    by (induction rule: list_all2_induct) auto
  from all have "map origin_of vs = map Some (map origin_key us)"
    by (induction rule: list_all2_induct) (auto simp: origin_of_def)
  then show "origin_of ` set vs = Some ` set (map origin_key us)"
    by (metis list.set_map)
qed

lemma attributes_ok:
  assumes "rp_validate_attributes as = Inr u"
  shows "exact_https (attribute_of as ''post.logout.redirect.uris'')"
    and "origin_of (attribute_of as ''post.logout.redirect.uris'') = Some (origin_key u)"
    and "attribute_of as ''pkce.code.challenge.method'' = ''S256''"
    and "60 \<le> decimal_value (attribute_of as ''access.token.lifespan'')"
    and "decimal_value (attribute_of as ''access.token.lifespan'') \<le> 900"
  using assms https_uri_ok [of "attribute_of as ''post.logout.redirect.uris''" _ u]
  by (auto simp: rp_validate_attributes_def bindR_eq_Inr Let_def origin_of_def split: if_splits)

text \<open>
  C21. A relying party that passes the preflight meets the security profile: the authorization
  code flow with PKCE S256 and nothing else, exact HTTPS redirect URIs without wildcards, web
  origins that are exactly the origins of the redirect URIs, a logout URI on one of them, bounded
  token lifetime and the three portable scopes.
\<close>

theorem accepted_relying_party_profile:
  assumes "validate_relying_party_registration r = Inr ()"
  shows "security_profile r"
proof -
  from assms obtain us ws logout x where
    lists: "validate_uri_list (rp_redirect_uris r) ''redirectUris'' False = Inr us"
      "validate_uri_list (rp_web_origins r) ''webOrigins'' True = Inr ws"
      "rp_validate_attributes (rp_attributes r) = Inr logout"
    and origins: "set (map origin_key us) = set (map origin_key ws)" "origin_key logout \<in> set (map origin_key ws)"
    and scopes: "validate_scopes (rp_default_client_scopes r) = Inr x"
    and flags: "is_slug (rp_client_id r)" "rp_name r = rp_client_id r" "rp_enabled r"
      "rp_protocol r = ''openid-connect''" "rp_standard_flow_enabled r" "\<not> rp_implicit_flow_enabled r"
      "\<not> rp_direct_access_grants_enabled r" "\<not> rp_service_accounts_enabled r" "\<not> rp_full_scope_allowed r"
    unfolding validate_relying_party_registration_def Let_def bindR_eq_Inr requireR_eq_Inr by blast
  from scopes have "set (rp_default_client_scopes r) = {''basic'', ''profile'', ''email''}"
    by (auto simp: validate_scopes_def bindR_eq_Inr REQUIRED_SCOPES_def)
  then show ?thesis
    unfolding security_profile_def
    using flags origins uri_list_ok [OF lists(1)] uri_list_ok [OF lists(2)] attributes_ok [OF lists(3)] by simp
qed

section \<open>The JSON form\<close>

lemma mapR_strings: "mapR (\<lambda>item. case item of JStr s \<Rightarrow> Inr s | _ \<Rightarrow> Inl e) (map JStr xs) = Inr xs"
  by (induction xs) auto

lemma string_mapping_dump: "require_string_mapping (config_json config) f = Inr config"
  unfolding require_string_mapping_def config_json_def by (induction config) auto

lemma parse_mapper_dump: "parse_mapper (JObj (mapper_dump m)) = Inr m"
  by (cases m)
     (simp add: parse_mapper_def mapper_dump_def has_other_field_def MAPPER_FIELDS_def require_present_def
       first_missing_def require_string_def require_boolean_def dict_get_def string_mapping_dump)

lemma parse_mappers_dump: "length ms \<le> 4 \<Longrightarrow> parse_protocol_mappers (mappers_json ms) = Inr ms"
proof -
  have "mapR parse_mapper (map (\<lambda>m. JObj (mapper_dump m)) ms) = Inr ms"
    by (induction ms) (auto simp: parse_mapper_dump)
  then show "length ms \<le> 4 \<Longrightarrow> ?thesis"
    by (simp add: parse_protocol_mappers_def mappers_json_def MAX_MAPPER_COUNT_def)
qed

text \<open>
  The JSON form of a registration (what is stored, hashed and sent to Keycloak) parses back
  to the same registration, so nothing of the operator's intent is lost on the way; a list of more
  than four mappers is refused instead.
\<close>

theorem relying_party_roundtrip:
  "parse_relying_party (JObj (relying_party_dump r)) =
     (if length (rp_protocol_mappers r) \<le> 4 then Inr r
      else Inl (HTTPException 422 ''protocolMappers must contain at most 4 entries''))"
proof -
  have fields: "\<not> has_other_field ALLOWED_FIELDS (relying_party_dump r)"
    "require_present err REQUIRED_FIELDS (relying_party_dump r) = Inr ()" for err
    by (simp_all add: has_other_field_def ALLOWED_FIELDS_def REQUIRED_FIELDS_def relying_party_dump_def
        require_present_def first_missing_def)
  have strings: "require_string (relying_party_dump r) f = Inr s" if "map_of (relying_party_dump r) f = Some (JStr s)" for f s
    using that by (simp add: require_string_def dict_get_def)
  have booleans: "require_boolean (relying_party_dump r) f = Inr b" if "map_of (relying_party_dump r) f = Some (JBool b)" for f b
    using that by (simp add: require_boolean_def dict_get_def)
  have lists: "require_string_list (relying_party_dump r) f = Inr xs"
    if "map_of (relying_party_dump r) f = Some (JArr (map JStr xs))" for f xs
    using that by (simp add: require_string_list_def dict_get_def mapR_strings)
  have rest: "dict_get (relying_party_dump r) ''attributes'' = config_json (rp_attributes r)"
    "dict_get (relying_party_dump r) ''protocolMappers'' = mappers_json (rp_protocol_mappers r)"
    "dict_has (relying_party_dump r) ''protocolMappers''"
    by (simp_all add: dict_get_def dict_has_def relying_party_dump_def)
  have vals: "map_of (relying_party_dump r) ''clientId'' = Some (JStr (rp_client_id r))"
    "map_of (relying_party_dump r) ''name'' = Some (JStr (rp_name r))"
    "map_of (relying_party_dump r) ''enabled'' = Some (JBool (rp_enabled r))"
    "map_of (relying_party_dump r) ''protocol'' = Some (JStr (rp_protocol r))"
    "map_of (relying_party_dump r) ''publicClient'' = Some (JBool (rp_public_client r))"
    "map_of (relying_party_dump r) ''clientAuthenticatorType'' = Some (JStr (rp_client_authenticator_type r))"
    "map_of (relying_party_dump r) ''standardFlowEnabled'' = Some (JBool (rp_standard_flow_enabled r))"
    "map_of (relying_party_dump r) ''implicitFlowEnabled'' = Some (JBool (rp_implicit_flow_enabled r))"
    "map_of (relying_party_dump r) ''directAccessGrantsEnabled'' = Some (JBool (rp_direct_access_grants_enabled r))"
    "map_of (relying_party_dump r) ''serviceAccountsEnabled'' = Some (JBool (rp_service_accounts_enabled r))"
    "map_of (relying_party_dump r) ''redirectUris'' = Some (JArr (map JStr (rp_redirect_uris r)))"
    "map_of (relying_party_dump r) ''webOrigins'' = Some (JArr (map JStr (rp_web_origins r)))"
    "map_of (relying_party_dump r) ''fullScopeAllowed'' = Some (JBool (rp_full_scope_allowed r))"
    "map_of (relying_party_dump r) ''defaultClientScopes'' = Some (JArr (map JStr (rp_default_client_scopes r)))"
    by (simp_all add: relying_party_dump_def)
  have eta: "\<lparr>rp_client_id = rp_client_id r, rp_name = rp_name r, rp_enabled = rp_enabled r,
      rp_protocol = rp_protocol r, rp_public_client = rp_public_client r,
      rp_client_authenticator_type = rp_client_authenticator_type r,
      rp_standard_flow_enabled = rp_standard_flow_enabled r, rp_implicit_flow_enabled = rp_implicit_flow_enabled r,
      rp_direct_access_grants_enabled = rp_direct_access_grants_enabled r,
      rp_service_accounts_enabled = rp_service_accounts_enabled r, rp_redirect_uris = rp_redirect_uris r,
      rp_web_origins = rp_web_origins r, rp_attributes = rp_attributes r,
      rp_full_scope_allowed = rp_full_scope_allowed r, rp_default_client_scopes = rp_default_client_scopes r,
      rp_protocol_mappers = ms\<rparr> = r\<lparr>rp_protocol_mappers := ms\<rparr>" for ms
    by (cases r) simp
  have "parse_relying_party (JObj (relying_party_dump r)) =
      bindR (parse_protocol_mappers (mappers_json (rp_protocol_mappers r))) (\<lambda>ms. Inr (r\<lparr>rp_protocol_mappers := ms\<rparr>))"
    by (simp add: eta parse_relying_party_def fields rest string_mapping_dump strings [OF vals(1)] strings [OF vals(2)]
        booleans [OF vals(3)] strings [OF vals(4)] booleans [OF vals(5)] strings [OF vals(6)]
        booleans [OF vals(7)] booleans [OF vals(8)] booleans [OF vals(9)] booleans [OF vals(10)]
        lists [OF vals(11)] lists [OF vals(12)] booleans [OF vals(13)] lists [OF vals(14)])
  moreover have "parse_protocol_mappers (mappers_json ms) =
      Inl (HTTPException 422 ''protocolMappers must contain at most 4 entries'')" if "\<not> length ms \<le> 4" for ms
    using that by (simp add: parse_protocol_mappers_def mappers_json_def MAX_MAPPER_COUNT_def shape_error_def)
  ultimately show ?thesis
    by (cases "length (rp_protocol_mappers r) \<le> 4") (simp_all add: parse_mappers_dump)
qed

section \<open>Running the service\<close>

lemma reads_keep_rp_store:
  "keepsA sync_store (rp_list_registrations svc)" "keepsA sync_store (rp_get_registration svc cid)"
  "keepsA sync_store (get_stored_registration svc cid)"
  unfolding rp_list_registrations_def rp_get_registration_def get_stored_registration_def rp_status_for_def
  by (intro keepsA_rules)+

text \<open>
  The states a reconciliation can leave the store in: as it was, or with the receipt of the
  registration recorded; the latter is what an in-sync result after a mutation means.
\<close>

definition with_receipt :: "('st, 'w) rp_service \<Rightarrow> relying_party \<Rightarrow> 'st \<Rightarrow> 'st" where
  "with_receipt svc r st = kv_put (rps_kv svc) RELYING_PARTY_RECEIPT_NAMESPACE (rp_client_id r) (desired_digest r) st"

text \<open>The last thing the action did was to observe exactly one client, and it matches.\<close>

definition observed_in_sync :: "('st, 'w) rp_service \<Rightarrow> relying_party \<Rightarrow> 'w \<Rightarrow> bool" where
  "observed_in_sync svc r w \<longleftrightarrow> (\<exists>w0 client. exact_clients svc r w0 = (Inr [client], w) \<and>
     observable_client_matches r client \<and> okR (client_uuid_of client))"

definition converge_post ::
  "('st, 'w) rp_service \<Rightarrow> relying_party \<Rightarrow> 'st \<Rightarrow> rp_status result \<Rightarrow> ('st, 'w) sync_state \<Rightarrow> bool" where
  "converge_post svc r st0 res t \<longleftrightarrow>
     (sync_store t = st0 \<or> sync_store t = with_receipt svc r st0) \<and>
     (\<forall>st. res = Inr st \<longrightarrow> rs_registration st = r \<and> (rs_convergence_state st = IN_SYNC \<longrightarrow>
        observed_in_sync svc r (sync_kc t) \<and>
        (sync_store t = with_receipt svc r st0 \<or> sync_store t = st0 \<and> receipt_matches svc r st0)))"

lemma exact_clients_run:
  assumes "remoteA (exact_clients svc r) s = (Inr cs, t)"
  shows "exact_clients svc r (sync_kc s) = (Inr cs, sync_kc t)" and "sync_store t = sync_store s"
  using assms by (auto simp: remoteA_def zoomA_def split: prod.splits)

lemma observed_in_syncI:
  "exact_clients svc r w0 = (Inr [client], w) \<Longrightarrow> observable_client_matches r client \<Longrightarrow>
     client_uuid_of client = Inr uuid \<Longrightarrow> observed_in_sync svc r w"
  unfolding observed_in_sync_def by (metis okR_simps(2))

lemma converge_post_quiet:
  "sync_store t = st0 \<Longrightarrow> x \<noteq> IN_SYNC \<Longrightarrow>
     converge_post svc r st0 (Inr (relying_party_status r x uuid receipt code)) t"
  "sync_store t = st0 \<Longrightarrow> converge_post svc r st0 (Inl e) t"
  by (auto simp: converge_post_def relying_party_status_def)

lemma converge_post_sync:
  "observed_in_sync svc r (sync_kc t) \<Longrightarrow>
   sync_store t = with_receipt svc r st0 \<or> sync_store t = st0 \<and> receipt_matches svc r st0 \<Longrightarrow>
     converge_post svc r st0 (Inr (relying_party_status r IN_SYNC uuid receipt code)) t"
  by (auto simp: converge_post_def relying_party_status_def)

lemma verify_mutation_post:
  assumes "verify_mutation svc r expected s = (res, t)"
  shows "converge_post svc r (sync_store s) res t"
  using assms unfolding verify_mutation_def
proof (cases rule: or_else_cases)
  case (1 e u)
  then show ?thesis by (auto intro: converge_post_quiet dest: remoteA_run)
next
  case (2 cs u)
  note run = exact_clients_run [OF 2(1)] and rest = 2(2)
  show ?thesis
  proof (cases cs rule: list3_cases)
    case (2 client)
    note sync = observed_in_syncI [of svc r "sync_kc s" client "sync_kc u"]
    from 2 run rest show ?thesis
      by (cases "client_uuid_of client")
         (auto simp: bindA_def record_receipt_def with_receipt_def split: if_splits
           intro: converge_post_quiet intro!: converge_post_sync dest: sync)
  qed (use rest run(2) in \<open>auto intro: converge_post_quiet\<close>)
qed

lemma rp_converge_post:
  assumes "rp_converge svc r s = (res, t)"
  shows "converge_post svc r (sync_store s) res t"
proof -
  let ?receipt = "receipt_matches svc r (sync_store s)"
  define update where "update client = bindA (liftA (client_uuid_of client)) (\<lambda>uuid.
      if observable_client_matches r client \<and> ?receipt
      then returnA (relying_party_status r IN_SYNC (Some uuid) True None)
      else
        or_else (remoteA (rpa_update (rps_api svc) uuid (relying_party_dump r)))
          (returnA (relying_party_status r APPLY_FAILED (Some uuid) False (Some ''client_update_failed'')))
          (\<lambda>_. verify_mutation svc r (Some uuid)))" for client
  define create where "create = or_else (remoteA (rpa_create (rps_api svc) (relying_party_dump r)))
      (returnA (relying_party_status r APPLY_FAILED None False (Some ''client_create_failed'')))
      (verify_mutation svc r)"
  have create: "converge_post svc r (sync_store u) res' t'" if "create u = (res', t')" for u res' t'
    using that unfolding create_def
    by (cases rule: or_else_cases) (auto intro: converge_post_quiet dest!: remoteA_run dest: verify_mutation_post)
  have update: "converge_post svc r (sync_store s) res' t'"
    if "update client u = (res', t')" "exact_clients svc r w0 = (Inr [client], sync_kc u)" "sync_store u = sync_store s"
    for client u w0 res' t'
  proof (cases "client_uuid_of client")
    case (Inl e)
    with that show ?thesis by (auto simp: update_def bindA_def intro: converge_post_quiet)
  next
    case (Inr uuid)
    note sync = observed_in_syncI [OF that(2) _ Inr]
    show ?thesis
    proof (cases "observable_client_matches r client \<and> ?receipt")
      case True
      then have "observed_in_sync svc r (sync_kc u)" by (intro sync) simp
      with True that(1,3) Inr show ?thesis by (auto simp: update_def bindA_def intro: converge_post_sync)
    next
      case False
      with that(1) Inr have "or_else (remoteA (rpa_update (rps_api svc) uuid (relying_party_dump r)))
          (returnA (relying_party_status r APPLY_FAILED (Some uuid) False (Some ''client_update_failed'')))
          (\<lambda>_. verify_mutation svc r (Some uuid)) u = (res', t')"
        by (simp add: update_def bindA_def)
      then show ?thesis
        by (cases rule: or_else_cases)
           (use that(3) in \<open>auto intro: converge_post_quiet dest!: remoteA_run dest: verify_mutation_post\<close>)
    qed
  qed
  from assms have "or_else (remoteA (exact_clients svc r))
       (returnA (relying_party_status r UNAVAILABLE None ?receipt (Some ''keycloak_unavailable'')))
       (\<lambda>matches. case matches of [] \<Rightarrow> create | [client] \<Rightarrow> update client
        | _ \<Rightarrow> returnA (relying_party_status r AMBIGUOUS None ?receipt (Some ''duplicate_clients''))) s = (res, t)"
    by (simp only: rp_converge_def create_def update_def bindA_basic)
  then show ?thesis
  proof (cases rule: or_else_cases)
    case (1 e u)
    then show ?thesis by (auto intro: converge_post_quiet dest: remoteA_run)
  next
    case (2 cs u)
    note run = exact_clients_run [OF 2(1)] and rest = 2(2)
    show ?thesis
    proof (cases cs rule: list3_cases)
      case 1
      with rest run(2) create [of u res t] show ?thesis by simp
    next
      case (2 client)
      with run update [of client u res t "sync_kc s"] rest show ?thesis by simp
    next
      case 3
      with rest run(2) show ?thesis by (auto intro: converge_post_quiet)
    qed
  qed
qed

section \<open>What the store holds\<close>

text \<open>Every entry is the text of a valid registration stored under its own client id.\<close>

definition rp_registry_ok :: "('st, 'w) rp_service \<Rightarrow> 'st \<Rightarrow> bool" where
  "rp_registry_ok svc st \<longleftrightarrow> (\<forall>k v. kv_get (rps_kv svc) RELYING_PARTY_NAMESPACE k st = Some v \<longrightarrow>
     (\<exists>r. v = rps_dump_json svc r \<and> rp_client_id r = k \<and> validate_relying_party_registration r = Inr ()))"

lemma namespaces_apart: "RELYING_PARTY_NAMESPACE \<noteq> RELYING_PARTY_RECEIPT_NAMESPACE"
  by (simp add: RELYING_PARTY_NAMESPACE_def RELYING_PARTY_RECEIPT_NAMESPACE_def)

lemma put_registration_store:
  assumes "rp_put_registration svc cid r s = (res, t)"
  shows "sync_store t = sync_store s \<and> (\<exists>e. res = Inl e) \<or>
    rp_client_id r = cid \<and> validate_relying_party_registration r = Inr () \<and>
    converge_post svc r (kv_put (rps_kv svc) RELYING_PARTY_NAMESPACE cid (rps_dump_json svc r) (sync_store s)) res t"
  using assms rp_converge_post [of svc r "sync_store_update
    (kv_put (rps_kv svc) RELYING_PARTY_NAMESPACE cid (rps_dump_json svc r)) s" res t]
  by (auto simp: rp_put_registration_def split: sum.splits)

lemma delete_registration_store:
  fixes svc :: "('st, 'w) rp_service" and s :: "('st, 'w) sync_state"
  shows "case rp_delete_registration svc cid s of
     (Inl e, t) \<Rightarrow> sync_store t = sync_store s
   | (Inr _, t) \<Rightarrow> sync_store t = kv_delete (rps_kv svc) RELYING_PARTY_RECEIPT_NAMESPACE cid
       (kv_delete (rps_kv svc) RELYING_PARTY_NAMESPACE cid (sync_store s))"
  unfolding rp_delete_registration_def
  by (rule remote_first; intro keepsA_rules reads_keep_rp_store)

text \<open>
  Deleting a relying party removes the intent last: whenever the delete fails, be it that
  Keycloak cannot be observed, that there are duplicate clients, or that the live client cannot be
  deleted, the stored intent and its receipt are exactly as before; only a delete that returns has
  removed both.
\<close>

theorem failed_delete_keeps_intent:
  fixes svc :: "('st, 'w) rp_service" and s :: "('st, 'w) sync_state"
  shows "case rp_delete_registration svc cid s of
     (Inl e, t) \<Rightarrow> sync_store t = sync_store s
   | (Inr _, t) \<Rightarrow> sync_store t = kv_delete (rps_kv svc) RELYING_PARTY_RECEIPT_NAMESPACE cid
       (kv_delete (rps_kv svc) RELYING_PARTY_NAMESPACE cid (sync_store s))"
  by (rule delete_registration_store)

primrec run_relying_parties ::
  "('st, 'w) rp_service \<Rightarrow> rp_request list \<Rightarrow> ('st, 'w) sync_state \<Rightarrow> ('st, 'w) sync_state" where
  "run_relying_parties svc [] s = s"
| "run_relying_parties svc (req # reqs) s = run_relying_parties svc reqs (snd (relying_party_route svc req s))"

definition rp_inv :: "('st \<Rightarrow> bool) \<Rightarrow> ('st, 'w) rp_service \<Rightarrow> ('st, 'w) sync_state \<Rightarrow> bool" where
  "rp_inv kv_inv svc s \<longleftrightarrow> kv_inv (sync_store s) \<and> rp_registry_ok svc (sync_store s)"

context kv_store
begin

lemma registry_with_receipt:
  assumes "rps_kv svc = kv" "kv_inv st" "rp_registry_ok svc st"
  shows "kv_inv (with_receipt svc r st) \<and> rp_registry_ok svc (with_receipt svc r st)"
  using assms namespaces_apart unfolding rp_registry_ok_def with_receipt_def
  by (auto simp: get_put put_inv split: if_splits)

lemma registry_put_rp:
  assumes "rps_kv svc = kv" "kv_inv st" "rp_registry_ok svc st" "validate_relying_party_registration r = Inr ()"
  shows "kv_inv (kv_put kv RELYING_PARTY_NAMESPACE (rp_client_id r) (rps_dump_json svc r) st) \<and>
    rp_registry_ok svc (kv_put kv RELYING_PARTY_NAMESPACE (rp_client_id r) (rps_dump_json svc r) st)"
  using assms unfolding rp_registry_ok_def by (auto simp: get_put put_inv split: if_splits)

lemma registry_delete_rp:
  assumes "rps_kv svc = kv" "kv_inv st" "rp_registry_ok svc st"
  shows "kv_inv (kv_delete kv ns cid st) \<and> rp_registry_ok svc (kv_delete kv ns cid st)"
  using assms unfolding rp_registry_ok_def by (auto simp: get_delete delete_inv split: if_splits)

lemma converge_post_inv:
  assumes "rps_kv svc = kv" "kv_inv st" "rp_registry_ok svc st" "converge_post svc r st res t"
  shows "rp_inv kv_inv svc t"
  using assms registry_with_receipt [OF assms(1-3)] unfolding rp_inv_def converge_post_def by auto

lemma converge_stable:
  assumes "rps_kv svc = kv"
  shows "hoareA (rp_inv kv_inv svc) (rp_converge svc r) (\<lambda>_. rp_inv kv_inv svc) (\<lambda>_. rp_inv kv_inv svc)"
  using assms converge_post_inv rp_converge_post by (intro hoareAI) (unfold rp_inv_def, blast+)

lemma quiet_stable: "keepsA sync_store m \<Longrightarrow> hoareA (rp_inv kv_inv svc) m (\<lambda>_. rp_inv kv_inv svc) (\<lambda>_. rp_inv kv_inv svc)"
  unfolding rp_inv_def by (rule keepsA_stable)

lemma put_stable:
  fixes svc :: "('st, 'w) rp_service"
  assumes "rps_kv svc = kv"
  shows "hoareA (rp_inv kv_inv svc) (rp_put_registration svc cid r) (\<lambda>_. rp_inv kv_inv svc) (\<lambda>_. rp_inv kv_inv svc)"
proof (rule hoareAI)
  fix s :: "('st, 'w) sync_state" and t x
  assume inv: "rp_inv kv_inv svc s"
  have "rp_inv kv_inv svc t" if "rp_put_registration svc cid r s = (res, t)" for res
    using put_registration_store [OF that] inv assms registry_put_rp [of svc "sync_store s" r]
      converge_post_inv [of svc _ r res t]
    unfolding rp_inv_def by metis
  then show "rp_put_registration svc cid r s = (Inr x, t) \<Longrightarrow> rp_inv kv_inv svc t"
    and "rp_put_registration svc cid r s = (Inl e, t) \<Longrightarrow> rp_inv kv_inv svc t" for e by blast+
qed

lemma delete_stable:
  assumes "rps_kv svc = kv"
  shows "hoareA (rp_inv kv_inv svc) (rp_delete_registration svc cid) (\<lambda>_. rp_inv kv_inv svc) (\<lambda>_. rp_inv kv_inv svc)"
  unfolding hoareA_def
proof (intro allI impI)
  fix s assume "rp_inv kv_inv svc s"
  then have "rp_inv kv_inv svc s" and dropped: "kv_inv (kv_delete kv ns' cid (kv_delete kv ns cid (sync_store s)))"
    "rp_registry_ok svc (kv_delete kv ns' cid (kv_delete kv ns cid (sync_store s)))" for ns ns'
    using assms registry_delete_rp unfolding rp_inv_def by blast+
  then show "case rp_delete_registration svc cid s of (r, t) \<Rightarrow> case r of Inl e \<Rightarrow> rp_inv kv_inv svc t | Inr x \<Rightarrow> rp_inv kv_inv svc t"
    using delete_registration_store [where svc = svc and s = s and cid = cid] assms unfolding rp_inv_def
    by (auto split: prod.splits sum.splits)
qed

lemma reconcile_stable:
  assumes "rps_kv svc = kv"
  shows "hoareA (rp_inv kv_inv svc) (rp_reconcile_all svc) (\<lambda>_. rp_inv kv_inv svc) (\<lambda>_. rp_inv kv_inv svc)"
proof -
  have lookup: "hoareA (rp_inv kv_inv svc) (catchA (bindA (get_stored_registration svc cid) (\<lambda>r. returnA (Some r)))
      (\<lambda>e. case e of HTTPException code _ \<Rightarrow> if code = 404 then returnA None else raiseA e | _ \<Rightarrow> raiseA e))
      (\<lambda>_. rp_inv kv_inv svc) (\<lambda>_. rp_inv kv_inv svc)" for cid
    by (intro quiet_stable keepsA_catch keepsA_bind keepsA_return reads_keep_rp_store)
       (auto split: exn.split intro: keepsA_rules)
  have one: "hoareA (rp_inv kv_inv svc) (reconcile_one svc cid acc) (\<lambda>_. rp_inv kv_inv svc) (\<lambda>_. rp_inv kv_inv svc)" for cid acc
    unfolding reconcile_one_def
  proof (rule hoareA_bind [OF lookup])
    show "hoareA (rp_inv kv_inv svc) (case found of None \<Rightarrow> returnA acc
        | Some r \<Rightarrow> bindA (rp_converge svc r) (\<lambda>st. returnA (acc @ [st]))) (\<lambda>_. rp_inv kv_inv svc) (\<lambda>_. rp_inv kv_inv svc)" for found
      by (cases found) (auto intro!: hoareA_return hoareA_bind [OF converge_stable [OF assms]])
  qed
  show ?thesis
    unfolding rp_reconcile_all_def
    by (rule hoareA_bind [OF quiet_stable [OF keepsA_read]])
       (rule hoareA_fold [where I = "\<lambda>_ _. rp_inv kv_inv svc", OF one])
qed

lemma route_stable:
  assumes "rps_kv svc = kv"
  shows "hoareA (rp_inv kv_inv svc) (relying_party_route svc req) (\<lambda>_. rp_inv kv_inv svc) (\<lambda>_. rp_inv kv_inv svc)"
  by (cases req; simp only: relying_party_route.simps)
     (intro hoareA_bind [OF quiet_stable [OF reads_keep_rp_store(1)]] hoareA_bind [OF reconcile_stable [OF assms]]
       hoareA_bind [OF quiet_stable [OF reads_keep_rp_store(2)]] hoareA_bind [OF delete_stable [OF assms]]
       hoareA_bind [OF quiet_stable [OF keepsA_lift]] hoareA_bind [OF put_stable [OF assms]] hoareA_return; assumption)+

lemma run_stable:
  assumes "rps_kv svc = kv"
  shows "rp_inv kv_inv svc s \<Longrightarrow> rp_inv kv_inv svc (run_relying_parties svc reqs s)"
  by (induction reqs arbitrary: s) (auto dest: hoareA_snd [OF route_stable [OF assms]])

lemma converge_post_receipt:
  assumes "rps_kv svc = kv" "kv_inv st" "converge_post svc r st (Inr status) t" "rs_convergence_state status = IN_SYNC"
  shows "observed_in_sync svc r (sync_kc t) \<and> receipt_matches svc r (sync_store t)"
proof -
  have "receipt_matches svc r (with_receipt svc r st)"
    using assms(1,2) by (simp add: receipt_matches_def with_receipt_def get_put)
  with assms(3,4) show ?thesis unfolding converge_post_def by metis
qed

end

text \<open>
  Whatever sequence of requests reaches the relying-party routes, and whatever Keycloak
  answers, every stored entry is the text of a registration that passed the preflight, under its
  own client id.
\<close>

theorem relying_party_registry_stays_valid:
  assumes "rps_kv svc = sqlite_kv_ops" and "rp_inv sqlite_kv_inv svc s"
  shows "rp_inv sqlite_kv_inv svc (run_relying_parties svc reqs s)"
  using sqlite_kv.run_stable [OF assms] .

text \<open>
  C19. In-sync is never claimed without evidence: when a put answers in-sync, Keycloak has just
  been observed to hold exactly one client of that id, which matches the registration in every
  compared field, and the stored receipt is the digest of exactly this registration.
\<close>

theorem in_sync_is_truthful:
  assumes "rps_kv svc = sqlite_kv_ops" and "sqlite_kv_inv (sync_store s)"
    and "rp_put_registration svc cid r s = (Inr status, t)" and "rs_convergence_state status = IN_SYNC"
  shows "observed_in_sync svc r (sync_kc t) \<and> receipt_matches svc r (sync_store t) \<and> rp_client_id r = cid \<and>
    validate_relying_party_registration r = Inr ()"
  using put_registration_store [OF assms(3)] assms(1,2,4)
    sqlite_kv.converge_post_receipt [OF assms(1) sqlite_kv.put_inv [OF assms(2)] _ assms(4)]
  by auto

end
