(* ===== verification/RelyingParty_Convergence.thy ===== *)
theory RelyingParty_Convergence
  imports RelyingParty_Theorems
begin

text \<open>
  Reconciliation of relying parties against a Keycloak that does what it documents. A client that
  was written from a registration is recognised as in sync with it; hence one put converges, and a
  second one only observes. The contract of the client store is interpreted on the test double.
\<close>

section \<open>A written client is recognised\<close>

text \<open>The objects of a registration are dicts: their keys are distinct.\<close>

definition dicts_ok :: "relying_party \<Rightarrow> bool" where
  "dicts_ok r \<longleftrightarrow> distinct (map fst (rp_attributes r)) \<and>
     list_all (\<lambda>m. distinct (map fst (pm_config m))) (rp_protocol_mappers r)"

definition mapper_rank :: "protocol_mapper \<Rightarrow> nat" where
  "mapper_rank m = (if pm_type m = AUDIENCE_MAPPER_TYPE then 0
     else the (CLAIM_RANK (attribute_of (pm_config m) ''claim.name'')))"

lemma config_json_get:
  "map_of config k = Some v \<Longrightarrow> dict_get (map (\<lambda>(k, v). (k, JStr v)) config) k = JStr v"
  by (induction config) (auto simp: dict_get_def split: if_splits)

lemma all_strings_config: "all_strings (map (\<lambda>(k, v). (k, JStr v)) config)"
  by (auto simp: all_strings_def list_all_iff)

lemma mapper_of_dump: "mapper_of_dict (mapper_dump m) = Some m"
proof -
  have "map (\<lambda>(k, v). (k, case v of JStr s \<Rightarrow> s | _ \<Rightarrow> [])) (map (\<lambda>(k, v). (k, JStr v)) config) = config" for config
    by (induction config) auto
  then show ?thesis
    by (cases m) (simp add: mapper_of_dict_def mapper_dump_def dict_get_def config_json_def all_strings_config)
qed

lemma claim_mapper_name:
  assumes "validate_hardcoded_claim_mapper m = Inr (rank, name)"
  shows "map_of (pm_config m) ''claim.name'' = Some name" and "CLAIM_RANK name = Some rank"
proof -
  from assms have fields: "fst ` set (pm_config m) = set CLAIM_CONFIG_FIELDS"
    and name: "attribute_of (pm_config m) ''claim.name'' = name" and rank: "CLAIM_RANK name = Some rank"
    by (auto simp: validate_hardcoded_claim_mapper_def require_exact_config_def bindR_eq_Inr Let_def
        split: option.splits)
  from fields have "''claim.name'' \<in> fst ` set (pm_config m)"
    by (simp add: CLAIM_CONFIG_FIELDS_def)
  then have "map_of (pm_config m) ''claim.name'' \<noteq> None"
    by (metis map_of_eq_None_iff)
  with name show "map_of (pm_config m) ''claim.name'' = Some name"
    by (auto simp: attribute_of_def split: option.splits)
  show "CLAIM_RANK name = Some rank" by (rule rank)
qed

text \<open>A mapper that validates is observed with the rank validation gave it.\<close>

lemma observed_dump:
  assumes "pm_type m = AUDIENCE_MAPPER_TYPE \<or>
    pm_type m = CLAIM_MAPPER_TYPE \<and> (\<exists>rank name. validate_hardcoded_claim_mapper m = Inr (rank, name))"
  shows "observed_mapper (JObj (mapper_dump m)) = Some (mapper_rank m, mapper_dump m)"
proof -
  have rank: "observed_mapper_rank (mapper_dump m) (map (\<lambda>(k, v). (k, JStr v)) (pm_config m)) = Some (mapper_rank m)"
    using assms
  proof
    assume "pm_type m = AUDIENCE_MAPPER_TYPE"
    then show ?thesis
      by (simp add: observed_mapper_rank_def mapper_dump_def dict_get_def mapper_rank_def AUDIENCE_MAPPER_TYPE_def)
  next
    assume "pm_type m = CLAIM_MAPPER_TYPE \<and> (\<exists>rank name. validate_hardcoded_claim_mapper m = Inr (rank, name))"
    then obtain rk name where m: "pm_type m = CLAIM_MAPPER_TYPE" "validate_hardcoded_claim_mapper m = Inr (rk, name)"
      by blast
    note claim = claim_mapper_name [OF m(2)]
    have "dict_get (map (\<lambda>(k, v). (k, JStr v)) (pm_config m)) ''claim.name'' = JStr name"
      by (rule config_json_get [OF claim(1)])
    moreover have "attribute_of (pm_config m) ''claim.name'' = name"
      using claim(1) by (simp add: attribute_of_def)
    ultimately show ?thesis
      using m(1) claim(2)
      by (simp add: observed_mapper_rank_def mapper_dump_def dict_get_def mapper_rank_def AUDIENCE_MAPPER_TYPE_def
          CLAIM_MAPPER_TYPE_def CLAIM_RANK_def)
  qed
  then show ?thesis
    by (simp add: observed_mapper_def mapper_dump_def [of m] dict_get_def MAPPER_FIELDS_def config_json_def
        all_strings_config Let_def)
qed

lemma check_mappers_ranks:
  assumes "check_mappers cid ms ranks n names = Inr (ranks', n')"
  shows "ranks' = ranks @ map mapper_rank ms \<and>
    list_all (\<lambda>m. observed_mapper (JObj (mapper_dump m)) = Some (mapper_rank m, mapper_dump m)) ms"
  using assms
proof (induction ms arbitrary: ranks n names)
  case (Cons m ms)
  show ?case
  proof (cases "pm_type m = AUDIENCE_MAPPER_TYPE")
    case True
    with Cons.prems have "check_mappers cid ms (ranks @ [0]) (n + 1) names = Inr (ranks', n')"
      by (auto simp: bindR_eq_Inr validate_audience_mapper_def)
    from Cons.IH [OF this] observed_dump [of m] True show ?thesis by (simp add: mapper_rank_def)
  next
    case False
    with Cons.prems obtain rank name where m: "pm_type m = CLAIM_MAPPER_TYPE"
      "validate_hardcoded_claim_mapper m = Inr (rank, name)"
      "check_mappers cid ms (ranks @ [rank]) n (name # names) = Inr (ranks', n')"
      by (auto simp: bindR_eq_Inr split: if_splits)
    have "mapper_rank m = rank"
      using False claim_mapper_name [OF m(2)] by (simp add: mapper_rank_def attribute_of_def)
    with Cons.IH [OF m(3)] observed_dump [of m] m show ?thesis by auto
  qed
qed simp

lemma those_map: "list_all (\<lambda>x. f x = Some (g x)) xs \<Longrightarrow> those (map f xs) = Some (map g xs)"
  by (induction xs) auto

lemma validated_mappers:
  assumes "validate_relying_party_registration r = Inr ()"
  shows "length (rp_protocol_mappers r) \<le> 4" "sorted (map mapper_rank (rp_protocol_mappers r))"
    "distinct (map mapper_rank (rp_protocol_mappers r))"
    "list_all (\<lambda>m. observed_mapper (JObj (mapper_dump m)) = Some (mapper_rank m, mapper_dump m)) (rp_protocol_mappers r)"
proof -
  from assms obtain x where "validate_protocol_mappers r = Inr x"
    unfolding validate_relying_party_registration_def Let_def bindR_eq_Inr by blast
  then consider "rp_protocol_mappers r = []"
    | ranks n where "length (rp_protocol_mappers r) \<le> 4" "sorted ranks" "distinct ranks"
        "check_mappers (rp_client_id r) (rp_protocol_mappers r) [] 0 [] = Inr (ranks, n)"
    by (auto simp: validate_protocol_mappers_def Let_def bindR_eq_Inr MAX_MAPPER_COUNT_def split: if_splits)
  then have "length (rp_protocol_mappers r) \<le> 4 \<and> sorted (map mapper_rank (rp_protocol_mappers r)) \<and>
    distinct (map mapper_rank (rp_protocol_mappers r)) \<and>
    list_all (\<lambda>m. observed_mapper (JObj (mapper_dump m)) = Some (mapper_rank m, mapper_dump m)) (rp_protocol_mappers r)"
  proof cases
    case 2
    with check_mappers_ranks [OF 2(4)] show ?thesis by simp
  qed simp
  then show "length (rp_protocol_mappers r) \<le> 4" "sorted (map mapper_rank (rp_protocol_mappers r))"
    "distinct (map mapper_rank (rp_protocol_mappers r))"
    "list_all (\<lambda>m. observed_mapper (JObj (mapper_dump m)) = Some (mapper_rank m, mapper_dump m)) (rp_protocol_mappers r)"
    by blast+
qed

lemma normalized_written_mappers:
  assumes "validate_relying_party_registration r = Inr ()"
  shows "normalized_observed_mappers (mappers_json (rp_protocol_mappers r)) r = Some (rp_protocol_mappers r)"
proof -
  let ?ms = "rp_protocol_mappers r"
  let ?ranked = "map (\<lambda>m. (mapper_rank m, mapper_dump m)) ?ms"
  note v = validated_mappers [OF assms]
  have ranks: "map fst ?ranked = map mapper_rank ?ms" by simp
  have "those (map observed_mapper (map (\<lambda>m. JObj (mapper_dump m)) ?ms)) = Some ?ranked"
    using those_map [of "\<lambda>m. observed_mapper (JObj (mapper_dump m))"] v(4) by (simp add: comp_def)
  moreover have "sort_key fst ?ranked = ?ranked"
    using v(2) by (intro sort_key_id_if_sorted) (simp add: comp_def)
  moreover have "those (map (\<lambda>p. mapper_of_dict (snd p)) ?ranked) = Some ?ms"
    using those_map [of "\<lambda>m. mapper_of_dict (mapper_dump m)" "\<lambda>m. m" ?ms]
    by (simp add: mapper_of_dump comp_def list_all_iff)
  moreover have "distinct (map fst ?ranked)"
    using v(3) unfolding ranks .
  ultimately show ?thesis
    using v(1) assms by (simp add: normalized_observed_mappers_def mappers_json_def)
qed

text \<open>Python equality is reflexive on values whose dicts have distinct keys.\<close>

lemma py_eq_strings: "py_eq (JArr (map JStr xs)) (JArr (map JStr xs))"
  by (simp add: py_eq_JArr_strs del: py_eq.simps)

lemma py_eq_config:
  assumes "distinct (map fst config)"
  shows "py_eq (config_json config) (config_json config)"
proof -
  have "map_of (map (\<lambda>(k, v). (k, JStr v)) config) k = Some (JStr v)" if "(k, v) \<in> set config" for k v
    using map_of_is_SomeI [OF assms that] by (induction config) (auto split: if_splits)
  then show ?thesis
    by (auto simp: config_json_def)
qed

lemma py_eq_mapper: "distinct (map fst (pm_config m)) \<Longrightarrow> py_eq (JObj (mapper_dump m)) (JObj (mapper_dump m))"
  using py_eq_config [of "pm_config m"] by (simp add: mapper_dump_def)

lemma py_eq_mappers:
  "list_all (\<lambda>m. distinct (map fst (pm_config m))) ms \<Longrightarrow> py_eq (mappers_json ms) (mappers_json ms)"
  unfolding mappers_json_def
proof (induction ms)
  case (Cons m ms)
  then show ?case by (auto simp: py_eq_mapper simp del: py_eq.simps(10,11))
qed simp

lemma dict_get_set: "dict_get (dict_set d k v) k' = (if k' = k then v else dict_get d k')"
  by (induction d) (auto simp: dict_get_def)

lemma written_client_matches:
  assumes "validate_relying_party_registration r = Inr ()" and "dicts_ok r"
  shows "observable_client_matches r (dict_set (relying_party_dump r) ''id'' v)"
proof -
  have keys: "distinct (map fst (relying_party_dump r))" "''id'' \<notin> fst ` set (relying_party_dump r)"
    by (simp_all add: relying_party_dump_def)
  have get: "dict_get (dict_set (relying_party_dump r) ''id'' v) k = x"
    if "(k, x) \<in> set (relying_party_dump r)" for k x
  proof -
    from keys(2) that have "k \<noteq> ''id''" by (metis fst_conv imageI)
    with map_of_is_SomeI [OF keys(1) that] show ?thesis unfolding dict_get_set by (simp add: dict_get_def)
  qed
  have mappers: "dict_get (dict_set (relying_party_dump r) ''id'' v) ''protocolMappers'' = mappers_json (rp_protocol_mappers r)"
    by (rule get) (simp add: relying_party_dump_def)
  have "py_eq x x" if "(k, x) \<in> set (relying_party_dump r)" "k \<noteq> ''protocolMappers''" for k x
    using that assms(2) py_eq_strings py_eq_config
    by (auto simp: relying_party_dump_def dicts_ok_def simp del: py_eq.simps(10,11))
  moreover have "py_eq (mappers_json (rp_protocol_mappers r)) (mappers_json (rp_protocol_mappers r))"
    using assms(2) by (simp add: dicts_ok_def py_eq_mappers)
  ultimately show ?thesis
    unfolding observable_client_matches_def mappers normalized_written_mappers [OF assms(1)] list_all_iff
    using get by auto
qed

section \<open>The contract of the client store\<close>

definition with_client_id :: "string \<Rightarrow> dict list \<Rightarrow> dict list" where
  "with_client_id cid clients = filter (\<lambda>c. py_eq (dict_get c ''clientId'') (JStr cid)) clients"

text \<open>No client of the id, or one whose identifier no other client has.\<close>

definition unambiguous :: "string \<Rightarrow> dict list \<Rightarrow> bool" where
  "unambiguous cid cs \<longleftrightarrow> with_client_id cid cs = [] \<or>
     (\<exists>c uuid. with_client_id cid cs = [c] \<and> client_uuid_of c = Inr uuid \<and>
        (\<forall>c'\<in>set cs. dict_get c' ''id'' = JStr uuid \<longrightarrow> c' = c))"

locale rp_clients =
  fixes api :: "'w rp_api" and clients :: "'w \<Rightarrow> dict list" and ready :: "'w \<Rightarrow> bool"
    and can_create :: "'w \<Rightarrow> bool"
  assumes list_clients: "ready w \<Longrightarrow> \<exists>cs w'. rpa_list api cid w = (Inr cs, w') \<and>
      with_client_id cid cs = with_client_id cid (clients w) \<and> clients w' = clients w \<and> ready w' \<and>
      can_create w' = can_create w"
    and create_client: "ready w \<Longrightarrow> can_create w \<Longrightarrow> \<exists>uuid w'. rpa_create api d w = (Inr (Some uuid), w') \<and> safe_segment uuid \<and>
      clients w' = clients w @ [dict_set d ''id'' (JStr uuid)] \<and> ready w'"
    and update_client: "ready w \<Longrightarrow> c \<in> set (clients w) \<Longrightarrow> dict_get c ''id'' = JStr uuid \<Longrightarrow>
      \<exists>w'. rpa_update api uuid d w = (Inr (), w') \<and> ready w' \<and>
        clients w' = map (\<lambda>c. if dict_get c ''id'' = JStr uuid then dict_set d ''id'' (JStr uuid) else c) (clients w)"
begin

lemma exact_clients_ready:
  assumes "rps_api svc = api" "ready w"
  shows "\<exists>w'. exact_clients svc r w = (Inr (with_client_id (rp_client_id r) (clients w)), w') \<and>
    clients w' = clients w \<and> ready w' \<and> can_create w' = can_create w \<and> w' = snd (rpa_list api (rp_client_id r) w)"
  using list_clients [OF assms(2), of "rp_client_id r"] assms(1)
  by (auto simp: exact_clients_def bindA_def with_client_id_def)

text \<open>Exactly one live client of the id, and it is the written one: nothing is left to do.\<close>

lemma verify_written:
  assumes svc: "rps_api svc = api" "ready (sync_kc s)"
    and live: "with_client_id (rp_client_id r) (clients (sync_kc s)) = [dict_set (relying_party_dump r) ''id'' (JStr uuid)]"
    and r: "validate_relying_party_registration r = Inr ()" "dicts_ok r" "safe_segment uuid"
  shows "\<exists>w'. verify_mutation svc r (Some uuid) s =
      (Inr (relying_party_status r IN_SYNC (Some uuid) True None),
       \<lparr>sync_store = with_receipt svc r (sync_store s), sync_kc = w'\<rparr>) \<and>
    clients w' = clients (sync_kc s) \<and> ready w'"
proof -
  obtain w' where w': "exact_clients svc r (sync_kc s) = (Inr [dict_set (relying_party_dump r) ''id'' (JStr uuid)], w')"
    "clients w' = clients (sync_kc s)" "ready w'"
    using exact_clients_ready [OF svc, of r] live by auto
  have "client_uuid_of (dict_set (relying_party_dump r) ''id'' (JStr uuid)) = Inr uuid"
    using r(3) by (auto simp: client_uuid_of_def dict_get_set safe_segment_def)
  with w' written_client_matches [OF r(1,2)] show ?thesis
    by (cases s)
       (auto simp: verify_mutation_def or_else_def remoteA_def zoomA_def bindA_def record_receipt_def with_receipt_def)
qed

lemma converge_rests:
  assumes svc: "rps_api svc = api" "ready (sync_kc s)"
    and live: "with_client_id (rp_client_id r) (clients (sync_kc s)) = [c]" "client_uuid_of c = Inr uuid"
      "observable_client_matches r c" "receipt_matches svc r (sync_store s)"
  shows "rp_converge svc r s = (Inr (relying_party_status r IN_SYNC (Some uuid) True None),
    s\<lparr>sync_kc := snd (rpa_list api (rp_client_id r) (sync_kc s))\<rparr>)"
  using exact_clients_ready [OF svc, of r] live
  by (auto simp: rp_converge_def or_else_def remoteA_def zoomA_def)

lemma converge_once:
  assumes svc: "rps_api svc = api" "ready (sync_kc s)"
    and r: "validate_relying_party_registration r = Inr ()" "dicts_ok r"
    and live: "unambiguous (rp_client_id r) (clients (sync_kc s))" "can_create (sync_kc s)"
  shows "\<exists>uuid c t. rp_converge svc r s = (Inr (relying_party_status r IN_SYNC (Some uuid) True None), t) \<and>
    (sync_store t = with_receipt svc r (sync_store s) \<or> sync_store t = sync_store s \<and> receipt_matches svc r (sync_store s)) \<and>
    ready (sync_kc t) \<and> with_client_id (rp_client_id r) (clients (sync_kc t)) = [c] \<and> client_uuid_of c = Inr uuid \<and>
    observable_client_matches r c"
proof -
  let ?cid = "rp_client_id r"
  let ?new = "\<lambda>uuid. dict_set (relying_party_dump r) ''id'' (JStr uuid)"
  have new_id: "dict_get (?new uuid) ''clientId'' = JStr ?cid" for uuid
    by (simp add: dict_get_set dict_get_def relying_party_dump_def)
  have new_uuid: "client_uuid_of (?new uuid) = Inr uuid" if "safe_segment uuid" for uuid
    using that by (auto simp: client_uuid_of_def dict_get_set safe_segment_def)
  note new = written_client_matches [OF r]
  obtain w1 where w1: "exact_clients svc r (sync_kc s) = (Inr (with_client_id ?cid (clients (sync_kc s))), w1)"
    "clients w1 = clients (sync_kc s)" "ready w1" "w1 = snd (rpa_list api ?cid (sync_kc s))" "can_create w1"
    using exact_clients_ready [OF svc, of r] live(2) by blast
  let ?s1 = "s\<lparr>sync_kc := w1\<rparr>"
  from live(1) consider (absent) "with_client_id ?cid (clients (sync_kc s)) = []"
    | (live) c uuid where "with_client_id ?cid (clients (sync_kc s)) = [c]" "client_uuid_of c = Inr uuid"
        "\<forall>c'\<in>set (clients (sync_kc s)). dict_get c' ''id'' = JStr uuid \<longrightarrow> c' = c"
    unfolding unambiguous_def by blast
  then show ?thesis
  proof cases
    case absent
    obtain uuid w2 where w2: "rpa_create api (relying_party_dump r) w1 = (Inr (Some uuid), w2)" "safe_segment uuid"
      "clients w2 = clients w1 @ [?new uuid]" "ready w2"
      using create_client [OF w1(3,5)] by blast
    have one: "with_client_id ?cid (clients w2) = [?new uuid]"
      using absent w1(2) w2(3) new_id by (simp add: with_client_id_def)
    have "rp_converge svc r s = verify_mutation svc r (Some uuid) (?s1\<lparr>sync_kc := w2\<rparr>)"
      using absent w1(1) w2(1) svc(1) by (simp add: rp_converge_def or_else_def remoteA_def zoomA_def)
    with verify_written [of svc "?s1\<lparr>sync_kc := w2\<rparr>" r uuid] svc(1) w2(2,4) r one new new_uuid [OF w2(2)]
    show ?thesis by fastforce
  next
    case (live c uuid)
    show ?thesis
    proof (cases "observable_client_matches r c \<and> receipt_matches svc r (sync_store s)")
      case True
      with converge_rests [OF svc live(1,2)] live w1 show ?thesis by (intro exI [of _ uuid] exI [of _ c]) auto
    next
      case False
      from live(1) have "c \<in> set (with_client_id ?cid (clients (sync_kc s)))" by simp
      then have c: "c \<in> set (clients w1)" "py_eq (dict_get c ''clientId'') (JStr ?cid)"
        by (auto simp: with_client_id_def w1(2))
      from live(2) have id: "dict_get c ''id'' = JStr uuid" "safe_segment uuid"
        by (auto simp: client_uuid_of_def validate_path_segment_eq split: json.splits if_splits sum.splits exn.splits)
      let ?f = "\<lambda>c. if dict_get c ''id'' = JStr uuid then ?new uuid else c"
      obtain w2 where w2: "rpa_update api uuid (relying_party_dump r) w1 = (Inr (), w2)" "ready w2"
        "clients w2 = map ?f (clients w1)"
        using update_client [OF w1(3) c(1) id(1)] by blast
      have "filter (\<lambda>x. py_eq (dict_get (?f x) ''clientId'') (JStr ?cid)) (clients w1) =
          filter (\<lambda>x. py_eq (dict_get x ''clientId'') (JStr ?cid)) (clients w1)"
        using live(3) c(2) new_id unfolding w1(2) by (intro filter_cong) auto
      then have one: "with_client_id ?cid (clients w2) = [?new uuid]"
        using live(1) id(1) unfolding w2(3) w1(2) with_client_id_def by (simp add: filter_map comp_def)
      have "rp_converge svc r s = verify_mutation svc r (Some uuid) (?s1\<lparr>sync_kc := w2\<rparr>)"
        using live(1,2) w1(1) w2(1) svc(1) False by (auto simp: rp_converge_def or_else_def remoteA_def zoomA_def)
      with verify_written [of svc "?s1\<lparr>sync_kc := w2\<rparr>" r uuid] svc(1) w2(2) id(2) r one new new_uuid [OF id(2)]
      show ?thesis by fastforce
    qed
  qed
qed

end

section \<open>The client store of the test double\<close>

text \<open>The relying-party part of \<open>tests/mock_product_keycloak.py\<close>.\<close>

record mock_clients =
  mc_calls :: "string list"
  mc_clients :: "(string \<times> dict) list"
  mc_sequence :: nat

definition mc_called :: "string \<Rightarrow> mock_clients \<Rightarrow> mock_clients" where
  "mc_called call m = m\<lparr>mc_calls := mc_calls m @ [call]\<rparr>"

definition mock_list_clients :: "string \<Rightarrow> (mock_clients, dict list) action" where
  "mock_list_clients cid m =
     (Inr (filter (\<lambda>c. py_eq (dict_get c ''clientId'') (JStr cid)) (map snd (mc_clients m))),
      mc_called (''list_relying_party_clients:'' @ cid) m)"

definition mock_create_client :: "dict \<Rightarrow> (mock_clients, string option) action" where
  "mock_create_client payload m =
     (let n = mc_sequence m + 1; uuid = ''relying-party-'' @ show_nat n in
      (Inr (Some uuid), mc_called (''create_relying_party_client:'' @ uuid)
        (m\<lparr>mc_sequence := n, mc_clients := al_set (mc_clients m) uuid (dict_set payload ''id'' (JStr uuid))\<rparr>)))"

definition mock_update_client :: "string \<Rightarrow> dict \<Rightarrow> (mock_clients, unit) action" where
  "mock_update_client uuid payload m =
     (if map_of (mc_clients m) uuid = None then (Inl (KeyError uuid), m)
      else (Inr (), mc_called (''update_relying_party_client:'' @ uuid)
        (m\<lparr>mc_clients := al_set (mc_clients m) uuid (dict_set payload ''id'' (JStr uuid))\<rparr>)))"

definition mock_delete_client :: "string \<Rightarrow> (mock_clients, unit) action" where
  "mock_delete_client uuid m =
     (if map_of (mc_clients m) uuid = None then (Inl (KeyError uuid), m)
      else (Inr (), mc_called (''delete_relying_party_client:'' @ uuid)
        (m\<lparr>mc_clients := al_pop (mc_clients m) uuid\<rparr>)))"

definition mock_rp_api :: "mock_clients rp_api" where
  "mock_rp_api = \<lparr>rpa_list = mock_list_clients, rpa_create = mock_create_client,
     rpa_update = mock_update_client, rpa_delete = mock_delete_client\<rparr>"

definition mc_view :: "mock_clients \<Rightarrow> dict list" where
  "mc_view m = map snd (mc_clients m)"

text \<open>Clients are filed under their identifier, and later identifiers are free.\<close>

definition mc_ready :: "mock_clients \<Rightarrow> bool" where
  "mc_ready m \<longleftrightarrow> distinct (map fst (mc_clients m)) \<and>
     (\<forall>(u, c)\<in>set (mc_clients m). dict_get c ''id'' = JStr u) \<and>
     (\<forall>n > mc_sequence m. ''relying-party-'' @ show_nat n \<notin> fst ` set (mc_clients m))"

definition mc_can_create :: "mock_clients \<Rightarrow> bool" where
  "mc_can_create m \<longleftrightarrow> safe_segment (''relying-party-'' @ show_nat (Suc (mc_sequence m)))"

lemma mc_list:
  "\<exists>cs w'. mock_list_clients cid m = (Inr cs, w') \<and> with_client_id cid cs = with_client_id cid (mc_view m) \<and>
     mc_view w' = mc_view m \<and> mc_ready w' = mc_ready m \<and> mc_can_create w' = mc_can_create m"
  by (simp add: mock_list_clients_def with_client_id_def mc_view_def mc_called_def mc_ready_def mc_can_create_def)

lemma mc_create:
  assumes "mc_ready m" and "mc_can_create m"
  shows "\<exists>uuid m'. mock_create_client d m = (Inr (Some uuid), m') \<and> safe_segment uuid \<and>
    mc_view m' = mc_view m @ [dict_set d ''id'' (JStr uuid)] \<and> mc_ready m'"
proof -
  have fresh: "''relying-party-'' @ show_nat (Suc (mc_sequence m)) \<notin> fst ` set (mc_clients m)"
    using assms(1) unfolding mc_ready_def by blast
  show ?thesis
    using assms fresh al_set_new [OF fresh]
    by (auto simp: mock_create_client_def Let_def mc_view_def mc_called_def mc_ready_def mc_can_create_def dict_get_set)
qed

lemma mc_update:
  assumes ready: "mc_ready m" and c: "c \<in> set (mc_view m)" "dict_get c ''id'' = JStr uuid"
  shows "\<exists>m'. mock_update_client uuid d m = (Inr (), m') \<and> mc_ready m' \<and>
    mc_view m' = map (\<lambda>c. if dict_get c ''id'' = JStr uuid then dict_set d ''id'' (JStr uuid) else c) (mc_view m)"
proof -
  let ?new = "dict_set d ''id'' (JStr uuid)"
  have dist: "distinct (map fst (mc_clients m))" and ids: "\<forall>(u, c)\<in>set (mc_clients m). dict_get c ''id'' = JStr u"
    using ready unfolding mc_ready_def by blast+
  have known: "uuid \<in> fst ` set (mc_clients m)"
    using c ids unfolding mc_view_def by force
  have set: "al_set (mc_clients m) uuid ?new = map (\<lambda>(u, c). if u = uuid then (uuid, ?new) else (u, c)) (mc_clients m)"
    by (rule al_set_replace [OF dist known])
  have keys: "map fst (al_set (mc_clients m) uuid ?new) = map fst (mc_clients m)"
    unfolding set by (auto intro: map_cong)
  have filed: "\<forall>(u, c)\<in>set (al_set (mc_clients m) uuid ?new). dict_get c ''id'' = JStr u"
    using ids unfolding set by (auto simp: dict_get_set split: if_splits)
  have view: "map snd (al_set (mc_clients m) uuid ?new) =
      map (\<lambda>c. if dict_get c ''id'' = JStr uuid then ?new else c) (map snd (mc_clients m))"
    unfolding set using ids by auto
  have "map_of (mc_clients m) uuid \<noteq> None"
    using known by (simp add: map_of_eq_None_iff)
  then show ?thesis
    using ready filed view dist
    by (auto simp: mock_update_client_def mc_called_def mc_view_def mc_ready_def keys simp flip: set_map)
qed

interpretation mock_rp: rp_clients mock_rp_api mc_view mc_ready mc_can_create
proof
  show "\<exists>cs w'. rpa_list mock_rp_api cid w = (Inr cs, w') \<and> with_client_id cid cs = with_client_id cid (mc_view w) \<and>
      mc_view w' = mc_view w \<and> mc_ready w' \<and> mc_can_create w' = mc_can_create w" if "mc_ready w" for w cid
    using mc_list [of cid w] that by (auto simp: mock_rp_api_def)
qed (use mc_create mc_update in \<open>auto simp: mock_rp_api_def\<close>)

section \<open>The path check\<close>

text \<open>The registration that probes a path identifier passes exactly when the identifier does.\<close>

definition probe_party :: "string \<Rightarrow> relying_party" where
  "probe_party cid =
     \<lparr>rp_client_id = cid, rp_name = cid, rp_enabled = True, rp_protocol = ''openid-connect'',
      rp_public_client = True, rp_client_authenticator_type = ''none'', rp_standard_flow_enabled = True,
      rp_implicit_flow_enabled = False, rp_direct_access_grants_enabled = False, rp_service_accounts_enabled = False,
      rp_redirect_uris = [''https://path-validation.invalid/callback''],
      rp_web_origins = [''https://path-validation.invalid''],
      rp_attributes = [(''pkce.code.challenge.method'', ''S256''),
          (''post.logout.redirect.uris'', ''https://path-validation.invalid/logout''),
          (''access.token.lifespan'', ''300''), (''backchannel.logout.session.required'', ''true''),
          (''require.pushed.authorization.requests'', ''false'')],
      rp_full_scope_allowed = False, rp_default_client_scopes = [''basic'', ''profile'', ''email''],
      rp_protocol_mappers = []\<rparr>"

lemma parse_probe: "parse_relying_party (JObj (path_probe cid)) = Inr (probe_party cid)"
  by (simp add: parse_relying_party_def path_probe_def has_other_field_def ALLOWED_FIELDS_def REQUIRED_FIELDS_def
      require_present_def first_missing_def require_string_def require_boolean_def require_string_list_def
      dict_get_def dict_has_def string_mapping_dump probe_party_def)

lemma probe_uris:
  "validate_uri_list [''https://path-validation.invalid/callback''] ''redirectUris'' False =
     Inr [\<lparr>url_scheme = ''https'', url_netloc = ''path-validation.invalid'', url_path = ''/callback'', url_query = [], url_fragment = []\<rparr>]"
  "validate_uri_list [''https://path-validation.invalid''] ''webOrigins'' True =
     Inr [\<lparr>url_scheme = ''https'', url_netloc = ''path-validation.invalid'', url_path = [], url_query = [], url_fragment = []\<rparr>]"
  "rp_validate_attributes (rp_attributes (probe_party [])) =
     Inr \<lparr>url_scheme = ''https'', url_netloc = ''path-validation.invalid'', url_path = ''/logout'', url_query = [], url_fragment = []\<rparr>"
  "validate_scopes [''basic'', ''profile'', ''email''] = Inr ()"
  by code_simp+

lemma probe_origins:
  "list_all (\<lambda>p. origin_key \<lparr>url_scheme = ''https'', url_netloc = ''path-validation.invalid'', url_path = p,
     url_query = [], url_fragment = []\<rparr> = (''path-validation.invalid'', 443)) [''/callback'', [], ''/logout'']"
  by code_simp

lemma valid_path_id:
  assumes "validate_relying_party_registration r = Inr ()"
  shows "validate_client_id (rp_client_id r) = Inr ()"
proof -
  from assms have id: "require_clean_text (rp_client_id r) ''clientId'' MAX_CLIENT_ID_LENGTH = Inr ()" "is_slug (rp_client_id r)"
    unfolding validate_relying_party_registration_def Let_def bindR_eq_Inr requireR_eq_Inr by simp_all
  have attrs: "rp_attributes (probe_party cid) = rp_attributes (probe_party [])" for cid
    by (simp add: probe_party_def)
  note attrs = attrs [of "rp_client_id r"]
  have parts: "rp_redirect_uris (probe_party cid) = [''https://path-validation.invalid/callback'']"
    "rp_web_origins (probe_party cid) = [''https://path-validation.invalid'']"
    "rp_default_client_scopes (probe_party cid) = [''basic'', ''profile'', ''email'']"
    "validate_protocol_mappers (probe_party cid) = Inr ()" for cid
    by (simp_all add: probe_party_def validate_protocol_mappers_def)
  have "validate_relying_party_registration (probe_party (rp_client_id r)) = Inr ()"
    unfolding validate_relying_party_registration_def Let_def parts attrs probe_uris
    using id probe_origins by (simp add: probe_party_def)
  then show ?thesis
    by (simp add: validate_client_id_def parse_probe)
qed

section \<open>Convergence of a put\<close>

lemma put_settles:
  assumes "rp_clients api clients ready can_create" and "rps_kv svc = sqlite_kv_ops" and "rps_api svc = api"
    and "sqlite_kv_inv (sync_store s)" and "ready (sync_kc s)" and "can_create (sync_kc s)"
    and "unambiguous (rp_client_id r) (clients (sync_kc s))"
    and "validate_relying_party_registration r = Inr ()"
    and "dicts_ok r"
  shows "\<exists>uuid t. rp_put_registration svc (rp_client_id r) r s =
        (Inr (relying_party_status r IN_SYNC (Some uuid) True None), t) \<and>
      rp_converge svc r t = (Inr (relying_party_status r IN_SYNC (Some uuid) True None),
        t\<lparr>sync_kc := snd (rpa_list api (rp_client_id r) (sync_kc t))\<rparr>)"
proof -
  let ?put = "kv_put sqlite_kv_ops RELYING_PARTY_NAMESPACE (rp_client_id r) (rps_dump_json svc r)"
  let ?s = "sync_store_update ?put s"
  have inv: "sqlite_kv_inv (sync_store ?s)"
    using sqlite_kv.put_inv [OF assms(4)] by simp
  obtain uuid c t where t: "rp_converge svc r ?s = (Inr (relying_party_status r IN_SYNC (Some uuid) True None), t)"
    "ready (sync_kc t)" "with_client_id (rp_client_id r) (clients (sync_kc t)) = [c]" "client_uuid_of c = Inr uuid"
    "observable_client_matches r c"
    using rp_clients.converge_once [OF assms(1,3) _ assms(8,9), of ?s] assms(5-7) by auto
  have "receipt_matches svc r (sync_store t)"
    using sqlite_kv.converge_post_receipt [OF assms(2) inv rp_converge_post [OF t(1)]]
    by (simp add: relying_party_status_def)
  from rp_clients.converge_rests [OF assms(1,3) t(2,3,4,5) this]
  have "rp_converge svc r t = (Inr (relying_party_status r IN_SYNC (Some uuid) True None),
        t\<lparr>sync_kc := snd (rpa_list api (rp_client_id r) (sync_kc t))\<rparr>)" .
  moreover have "rp_put_registration svc (rp_client_id r) r s = rp_converge svc r ?s"
    using assms(2,8) valid_path_id [OF assms(8)] by (simp add: rp_put_registration_def)
  ultimately show ?thesis using t(1) by auto
qed


section \<open>Witnesses\<close>

definition demo_rp :: relying_party where
  "demo_rp =
     \<lparr>rp_client_id = ''workbench'', rp_name = ''workbench'', rp_enabled = True, rp_protocol = ''openid-connect'',
      rp_public_client = True, rp_client_authenticator_type = ''none'', rp_standard_flow_enabled = True,
      rp_implicit_flow_enabled = False, rp_direct_access_grants_enabled = False, rp_service_accounts_enabled = False,
      rp_redirect_uris = [''https://app.example/callback''], rp_web_origins = [''https://app.example''],
      rp_attributes = [(''pkce.code.challenge.method'', ''S256''),
        (''post.logout.redirect.uris'', ''https://app.example/logout''), (''access.token.lifespan'', ''300''),
        (''backchannel.logout.session.required'', ''true''), (''require.pushed.authorization.requests'', ''false'')],
      rp_full_scope_allowed = False, rp_default_client_scopes = [''basic'', ''profile'', ''email''],
      rp_protocol_mappers = [\<lparr>pm_name = ''keyverse-audience'', pm_protocol = ''openid-connect'',
        pm_type = ''oidc-audience-mapper'', pm_consent_required = False,
        pm_config = [(''included.client.audience'', ''workbench''), (''access.token.claim'', ''true''),
          (''id.token.claim'', ''false''), (''introspection.token.claim'', ''true'')]\<rparr>]\<rparr>"

definition demo_rp_service :: "(sqlite_kv, mock_clients) rp_service" where
  "demo_rp_service = \<lparr>rps_kv = sqlite_kv_ops, rps_api = mock_rp_api, rps_dump_json = rp_client_id,
     rps_validate_json = (\<lambda>s. if s = rp_client_id demo_rp then Inr demo_rp else Inl (ValidationError s))\<rparr>"

definition demo_rp_state :: "(sqlite_kv, mock_clients) sync_state" where
  "demo_rp_state = \<lparr>sync_store = [], sync_kc = \<lparr>mc_calls = [], mc_clients = [], mc_sequence = 0\<rparr>\<rparr>"

lemma demo_rp_valid: "validate_relying_party_registration demo_rp = Inr ()"
  by code_simp

lemma demo_rp_dicts: "dicts_ok demo_rp"
  by code_simp

lemma demo_rp_simps:
  "rps_kv demo_rp_service = sqlite_kv_ops" "rps_api demo_rp_service = mock_rp_api"
  "sqlite_kv_inv (sync_store demo_rp_state)" "rp_inv sqlite_kv_inv demo_rp_service demo_rp_state"
  "mc_ready (sync_kc demo_rp_state)" "unambiguous (rp_client_id demo_rp) (mc_view (sync_kc demo_rp_state))"
  by (simp_all add: demo_rp_service_def demo_rp_state_def sqlite_kv_inv_def rp_inv_def rp_registry_ok_def
      sqlite_kv_ops_def sqlite_get_def mc_ready_def unambiguous_def mc_view_def with_client_id_def)

lemma demo_rp_create: "mc_can_create (sync_kc demo_rp_state)"
  by code_simp

theorem accepted_relying_party_profile_witness: "security_profile demo_rp"
  using accepted_relying_party_profile [OF demo_rp_valid] .

theorem relying_party_registry_stays_valid_witness:
  "rp_inv sqlite_kv_inv demo_rp_service (run_relying_parties demo_rp_service
     [Put_relying_party ''workbench'' (JObj (relying_party_dump demo_rp)), Reconcile_relying_parties,
      Delete_relying_party ''workbench''] demo_rp_state)"
  using relying_party_registry_stays_valid [OF demo_rp_simps(1,4)] .


theorem in_sync_is_truthful_witness:
  "\<exists>status t. rp_put_registration demo_rp_service (rp_client_id demo_rp) demo_rp demo_rp_state = (Inr status, t) \<and>
     observed_in_sync demo_rp_service demo_rp (sync_kc t) \<and> receipt_matches demo_rp_service demo_rp (sync_store t)"
proof -
  obtain uuid t where put: "rp_put_registration demo_rp_service (rp_client_id demo_rp) demo_rp demo_rp_state =
      (Inr (relying_party_status demo_rp IN_SYNC (Some uuid) True None), t)"
    using put_settles [OF mock_rp.rp_clients_axioms demo_rp_simps(1,2,3,5) demo_rp_create
      demo_rp_simps(6) demo_rp_valid demo_rp_dicts] by blast
  then show ?thesis
    using in_sync_is_truthful [OF demo_rp_simps(1,3) put] by (auto simp: relying_party_status_def)
qed

end
