(* ===== verification/RelyingParty_Interleaving.thy ===== *)
theory RelyingParty_Interleaving
  imports RelyingParty_Convergence
begin

text \<open>
  A reconciliation of all relying parties among other requests. \<open>reconcile_all\<close> takes its list of client
  ids first and then, client by client and holding the lock of that client, reads the current
  intent and converges it; requests of other callers run between these turns. The step
  relation interleaves the turns with whole requests. Shown: without interference it is
  \<open>reconcile_all\<close>, and no interleaving brings a deleted relying party back.
\<close>

section \<open>Turns and requests\<close>

datatype reconcile_run =
    Not_Started
  | Turns "string list" "rp_status list"
  | Ended "rp_status list result"

inductive turn_step ::
  "('st, 'w) rp_service \<Rightarrow> (rp_request \<Rightarrow> bool) \<Rightarrow> reconcile_run \<times> ('st, 'w) sync_state \<Rightarrow>
     reconcile_run \<times> ('st, 'w) sync_state \<Rightarrow> bool"
  for svc and allowed where
  snapshot: "turn_step svc allowed (Not_Started, s)
    (Turns (sort (map fst (kv_get_all (rps_kv svc) RELYING_PARTY_NAMESPACE (sync_store s)))) [], s)"
| turn: "reconcile_one svc client_id statuses s = (Inr statuses', t) \<Longrightarrow>
    turn_step svc allowed (Turns (client_id # client_ids) statuses, s) (Turns client_ids statuses', t)"
| abort: "reconcile_one svc client_id statuses s = (Inl e, t) \<Longrightarrow>
    turn_step svc allowed (Turns (client_id # client_ids) statuses, s) (Ended (Inl e), t)"
| finish: "turn_step svc allowed (Turns [] statuses, s) (Ended (Inr statuses), s)"
| request: "allowed req \<Longrightarrow> turn_step svc allowed (run, s) (run, snd (relying_party_route svc req s))"

text \<open>Left alone, the turns are the reconciliation of the route.\<close>

lemma undisturbed_turns:
  "foldA (reconcile_one svc) client_ids statuses s = (r, t) \<Longrightarrow>
     (turn_step svc allowed)\<^sup>*\<^sup>* (Turns client_ids statuses, s) (Ended r, t)"
proof (induction client_ids arbitrary: statuses s)
  case Nil
  then show ?case by (auto intro: turn_step.finish)
next
  case (Cons c cs)
  from Cons.prems have "bindA (reconcile_one svc c statuses) (foldA (reconcile_one svc) cs) s = (r, t)" by simp
  then show ?case
  proof (cases rule: bindA_cases)
    case (fail e)
    then show ?thesis by (auto intro: turn_step.abort)
  next
    case (ok statuses' u)
    from turn_step.turn [OF ok(1)] Cons.IH [OF ok(2)] show ?thesis by (rule converse_rtranclp_into_rtranclp)
  qed
qed

lemma undisturbed_reconciliation:
  assumes "rp_reconcile_all svc s = (r, t)"
  shows "(turn_step svc allowed)\<^sup>*\<^sup>* (Not_Started, s) (Ended r, t)"
proof (rule converse_rtranclp_into_rtranclp)
  let ?ids = "sort (map fst (kv_get_all (rps_kv svc) RELYING_PARTY_NAMESPACE (sync_store s)))"
  show "turn_step svc allowed (Not_Started, s) (Turns ?ids [], s)" by (rule turn_step.snapshot)
  show "(turn_step svc allowed)\<^sup>*\<^sup>* (Turns ?ids [], s) (Ended r, t)"
    using assms by (intro undisturbed_turns) (simp add: rp_reconcile_all_def)
qed

section \<open>Stability\<close>

abbreviation stableA :: "('s \<Rightarrow> bool) \<Rightarrow> ('s, 'a) action \<Rightarrow> bool" where
  "stableA P m \<equiv> hoareA P m (\<lambda>_. P) (\<lambda>_. P)"

named_theorems stable_rules

lemma stable_pure [stable_rules]:
  "stableA P (returnA x)" "stableA P (raiseA e)" "stableA P (liftA r)" "stableA P (readA f)"
  by (auto simp: hoareA_def split: sum.splits)

lemma stable_bind [stable_rules]: "stableA P m \<Longrightarrow> (\<And>x. stableA P (f x)) \<Longrightarrow> stableA P (bindA m f)"
  by (rule hoareA_bind)

lemma stable_if [stable_rules]: "stableA P m \<Longrightarrow> stableA P m' \<Longrightarrow> stableA P (if b then m else m')"
  by simp

lemma stable_or_else [stable_rules]:
  "stableA P m \<Longrightarrow> stableA P f \<Longrightarrow> (\<And>x. stableA P (g x)) \<Longrightarrow> stableA P (or_else m f g)"
  by (intro hoareAI; elim or_else_cases) (blast dest: hoareA_Inr hoareA_Inl)+

lemma stable_list3 [stable_rules]:
  "stableA P m \<Longrightarrow> (\<And>x. stableA P (f x)) \<Longrightarrow> (\<And>x y zs. stableA P (g x y zs)) \<Longrightarrow>
     stableA P (case xs of [] \<Rightarrow> m | [x] \<Rightarrow> f x | x # y # zs \<Rightarrow> g x y zs)"
  by (auto split: list.split)

lemma stable_option [stable_rules]:
  "stableA P m \<Longrightarrow> (\<And>x. stableA P (f x)) \<Longrightarrow> stableA P (case opt of None \<Rightarrow> m | Some x \<Rightarrow> f x)"
  by (auto split: option.split)

lemma stable_mapA [stable_rules]: "(\<And>x. stableA P (f x)) \<Longrightarrow> stableA P (mapA f xs)"
  by (induction xs) (auto intro!: stable_rules)

lemma stable_modify: "(\<And>s. P s \<Longrightarrow> P (f s)) \<Longrightarrow> stableA P (modifyA f)"
  by (simp add: hoareA_def)

lemma stable_require: "(b \<Longrightarrow> stableA P m) \<Longrightarrow> stableA P (bindA (liftA (requireR b e)) (\<lambda>_. m))"
  by (cases b) (auto simp: hoareA_def)

section \<open>What Keycloak creates\<close>

text \<open>
  The contract: a client id that no live client has is taken only by a create or an update whose
  payload names it, whatever the call answers; a search that finds no client of the id means that
  there is none, and when it finds one, deleting that one leaves none.
\<close>

locale rp_directory =
  fixes api :: "'w rp_api" and present :: "string \<Rightarrow> 'w \<Rightarrow> bool" and ready :: "'w \<Rightarrow> bool"
  assumes search_exact: "ready w \<Longrightarrow> rpa_list api c w = (Inr cs, w') \<Longrightarrow> with_client_id c cs = [] \<Longrightarrow> \<not> present c w'"
    and delete_found: "ready w \<Longrightarrow> rpa_list api c w = (Inr cs, w') \<Longrightarrow> with_client_id c cs = [client] \<Longrightarrow>
      client_uuid_of client = Inr uuid \<Longrightarrow> rpa_delete api uuid w' = (Inr (), w'') \<Longrightarrow> \<not> present c w''"
    and list_absent: "\<not> present c w \<Longrightarrow> \<not> present c (snd (rpa_list api cid w))"
    and create_absent: "\<not> present c w \<Longrightarrow> dict_get d ''clientId'' \<noteq> JStr c \<Longrightarrow> \<not> present c (snd (rpa_create api d w))"
    and update_absent: "\<not> present c w \<Longrightarrow> dict_get d ''clientId'' \<noteq> JStr c \<Longrightarrow> \<not> present c (snd (rpa_update api uuid d w))"
    and delete_absent: "\<not> present c w \<Longrightarrow> \<not> present c (snd (rpa_delete api uuid w))"

text \<open>Neither an intent nor a live client of the id.\<close>

definition rp_gone :: "'st kv_ops \<Rightarrow> ('st \<Rightarrow> bool) \<Rightarrow> (string \<Rightarrow> 'w \<Rightarrow> bool) \<Rightarrow> string \<Rightarrow> ('st, 'w) sync_state \<Rightarrow> bool" where
  "rp_gone kv kv_inv present c s \<longleftrightarrow>
     kv_inv (sync_store s) \<and> kv_get kv RELYING_PARTY_NAMESPACE c (sync_store s) = None \<and> \<not> present c (sync_kc s)"

locale rp_deletion = kv_store kv kv_abs kv_inv + rp_directory api present ready
  for kv :: "'st kv_ops" and kv_abs kv_inv and api :: "'w rp_api" and present ready +
  fixes svc :: "('st, 'w) rp_service"
  assumes svc_kv: "rps_kv svc = kv" and svc_api: "rps_api svc = api"
begin

abbreviation gone :: "string \<Rightarrow> ('st, 'w) sync_state \<Rightarrow> bool" where
  "gone \<equiv> rp_gone kv kv_inv present"

lemma stable_remote:
  assumes "\<And>w. \<not> present c w \<Longrightarrow> \<not> present c (snd (m w))"
  shows "stableA (gone c) (remoteA m)"
  using assms unfolding hoareA_def rp_gone_def remoteA_def zoomA_def
  by (auto split: prod.splits sum.splits) (metis snd_conv)+

lemma snd_exact_clients: "snd (exact_clients svc r w) = snd (rpa_list api (rp_client_id r) w)"
  by (simp add: exact_clients_def svc_api bindA_def split: prod.splits sum.splits)

lemma observe_stable [stable_rules]: "stableA (gone c) (remoteA (exact_clients svc r))"
  by (rule stable_remote) (simp add: snd_exact_clients list_absent)

lemma status_stable [stable_rules]: "stableA (gone c) (rp_status_for svc r)"
  unfolding rp_status_for_def by (intro stable_rules)

lemma stored_stable [stable_rules]: "stableA (gone c) (get_stored_registration svc cid)"
  unfolding get_stored_registration_def by (intro stable_rules)

lemma receipt_stable [stable_rules]: "stableA (gone c) (record_receipt svc r)"
  unfolding record_receipt_def using namespaces_apart
  by (intro stable_modify) (auto simp: rp_gone_def svc_kv get_put put_inv)

lemma verify_stable [stable_rules]: "stableA (gone c) (verify_mutation svc r uuid)"
  unfolding verify_mutation_def by (intro stable_rules)

lemma dump_client_id: "dict_get (relying_party_dump r) ''clientId'' = JStr (rp_client_id r)"
  by (simp add: relying_party_dump_def dict_get_def)

lemma converge_other_stable:
  assumes "rp_client_id r \<noteq> c"
  shows "stableA (gone c) (rp_converge svc r)"
  unfolding rp_converge_def
  by (intro stable_rules stable_remote) (use assms in \<open>auto simp: svc_api dump_client_id create_absent update_absent\<close>)

lemma stored_registration_id:
  assumes "get_stored_registration svc cid s = (res, t)"
  shows "t = s \<and> (\<forall>r. res = Inr r \<longrightarrow> rp_client_id r = cid \<and> kv_get kv RELYING_PARTY_NAMESPACE cid (sync_store s) \<noteq> None)"
  using assms unfolding get_stored_registration_def svc_kv
  by (auto split: option.splits sum.splits if_splits)

lemma turn_stable: "stableA (gone c) (reconcile_one svc cid statuses)"
proof (intro hoareAI)
  fix s :: "('st, 'w) sync_state" and t x assume gone: "gone c s"
  have "gone c t" if run: "reconcile_one svc cid statuses s = (res, t)" for res
  proof -
    obtain q where read: "get_stored_registration svc cid s = (q, s)"
      using stored_registration_id by (metis surj_pair)
    show ?thesis
    proof (cases q)
      case (Inl e)
      with run read gone show ?thesis by (auto simp: reconcile_one_def bindA_def catchA_def split: exn.splits if_splits)
    next
      case (Inr r)
      with stored_registration_id [OF read] gone have "rp_client_id r \<noteq> c" by (auto simp: rp_gone_def)
      then have "stableA (gone c) (bindA (rp_converge svc r) (\<lambda>st. returnA (statuses @ [st])))"
        by (intro stable_rules converge_other_stable)
      moreover have "bindA (rp_converge svc r) (\<lambda>st. returnA (statuses @ [st])) s = (res, t)"
        using run read Inr by (simp add: reconcile_one_def bindA_def catchA_def)
      ultimately show ?thesis using gone hoareA_snd by (metis snd_conv)
    qed
  qed
  then show "reconcile_one svc cid statuses s = (Inr x, t) \<Longrightarrow> gone c t"
    and "reconcile_one svc cid statuses s = (Inl e, t) \<Longrightarrow> gone c t" for e by blast+
qed

text \<open>The turn of a deleted client does nothing, although its id was listed.\<close>

lemma gone_turn: "gone c s \<Longrightarrow> reconcile_one svc c statuses s = (Inr statuses, s)"
  by (simp add: rp_gone_def reconcile_one_def get_stored_registration_def svc_kv bindA_def catchA_def)

lemma reconcile_stable_gone: "stableA (gone c) (rp_reconcile_all svc)"
  unfolding rp_reconcile_all_def
  by (intro stable_bind stable_pure hoareA_fold [where I = "\<lambda>_ _. gone c"] turn_stable)

lemma delete_stable_gone: "stableA (gone c) (rp_delete_registration svc cid)"
  unfolding rp_delete_registration_def
  by (intro stable_rules stable_remote stable_modify)
    (auto simp: svc_api delete_absent rp_gone_def svc_kv get_delete delete_inv)

lemma put_other_stable:
  assumes "cid \<noteq> c"
  shows "stableA (gone c) (rp_put_registration svc cid r)"
  unfolding rp_put_registration_def
  by (intro stable_bind stable_pure stable_require converge_other_stable stable_modify)
    (use assms in \<open>auto simp: rp_gone_def svc_kv get_put put_inv\<close>)

lemma route_stable_gone:
  assumes "\<And>payload. req \<noteq> Put_relying_party c payload"
  shows "stableA (gone c) (relying_party_route svc req)"
  using assms
  by (cases req) (auto simp: rp_list_registrations_def rp_get_registration_def
    intro!: stable_rules reconcile_stable_gone delete_stable_gone put_other_stable)

lemma step_keeps_gone:
  assumes "turn_step svc (\<lambda>req. \<forall>payload. req \<noteq> Put_relying_party c payload) (run, s) (run', t)" "gone c s"
  shows "gone c t"
  using assms
proof (cases rule: turn_step.cases)
  case (request req)
  with hoareA_snd [OF route_stable_gone] assms(2) show ?thesis by auto
qed (use assms(2) turn_stable in \<open>auto dest: hoareA_Inr hoareA_Inl\<close>)

lemma steps_keep_gone:
  assumes "(turn_step svc (\<lambda>req. \<forall>payload. req \<noteq> Put_relying_party c payload))\<^sup>*\<^sup>* (run, s) (run', t)" "gone c s"
  shows "gone c t"
  using assms by (induction rule: rtranclp_induct2) (auto intro: step_keeps_gone)

text \<open>A delete that returns has removed both.\<close>

lemma search_run:
  assumes "remoteA (exact_clients svc r) s = (Inr matches, t)"
  obtains cs where "rpa_list api (rp_client_id r) (sync_kc s) = (Inr cs, sync_kc t)" "matches = with_client_id (rp_client_id r) cs"
  using assms by (auto simp: remoteA_def zoomA_def exact_clients_def svc_api bindA_Inr with_client_id_def split: prod.splits)

lemma delete_parts:
  assumes "rp_delete_registration svc c s = (Inr (), t)"
  obtains r matches v w where "get_stored_registration svc c s = (Inr r, s)" "remoteA (exact_clients svc r) s = (Inr matches, v)"
    "matches = [] \<and> w = v \<or> (\<exists>client uuid. matches = [client] \<and> client_uuid_of client = Inr uuid \<and> remoteA (rpa_delete api uuid) v = (Inr (), w))"
    "sync_kc t = sync_kc w"
proof -
  from assms obtain r u where read: "get_stored_registration svc c s = (Inr r, u)"
    and rest: "or_else (remoteA (exact_clients svc r)) (raiseA (HTTPException 503 ''keycloak_unavailable''))
       (\<lambda>matches.
          bindA
            (case matches of
               [] \<Rightarrow> returnA ()
             | [client] \<Rightarrow>
                 bindA (liftA (client_uuid_of client)) (\<lambda>uuid.
                 or_else (remoteA (rpa_delete (rps_api svc) uuid))
                   (raiseA (HTTPException 502 ''client_delete_failed'')) returnA)
             | _ \<Rightarrow> raiseA (HTTPException 409 ''duplicate_clients''))
            (\<lambda>_. modifyA (sync_store_update (\<lambda>st.
               kv_delete (rps_kv svc) RELYING_PARTY_RECEIPT_NAMESPACE c
                 (kv_delete (rps_kv svc) RELYING_PARTY_NAMESPACE c st))))) u = (Inr (), t)"
    unfolding rp_delete_registration_def by (auto simp: bindA_Inr simp del: bindA_basic(3))
  have u: "u = s" using stored_registration_id [OF read] by blast
  from rest show ?thesis
    unfolding u
  proof (cases rule: or_else_cases)
    case (2 matches v)
    then show ?thesis
      using read [unfolded u] that [of r matches v]
      by (auto simp: bindA_Inr svc_api split: list.splits elim!: or_else_cases simp del: bindA_basic(3))
  qed simp
qed

lemma deleted_is_gone:
  assumes "rp_delete_registration svc c s = (Inr (), t)" "kv_inv (sync_store s)" "ready (sync_kc s)"
  shows "gone c t"
proof -
  from assms(1) obtain r matches v w where parts: "get_stored_registration svc c s = (Inr r, s)"
    "remoteA (exact_clients svc r) s = (Inr matches, v)"
    "matches = [] \<and> w = v \<or> (\<exists>client uuid. matches = [client] \<and> client_uuid_of client = Inr uuid \<and> remoteA (rpa_delete api uuid) v = (Inr (), w))"
    "sync_kc t = sync_kc w"
    by (rule delete_parts)
  have r: "rp_client_id r = c" using stored_registration_id [OF parts(1)] by blast
  obtain cs where list: "rpa_list api c (sync_kc s) = (Inr cs, sync_kc v)" "matches = with_client_id c cs"
    using search_run [OF parts(2)] unfolding r .
  have "\<not> present c (sync_kc t)"
    using parts(3,4) list search_exact [OF assms(3) list(1)] delete_found [OF assms(3) list(1)]
    by (auto simp: remoteA_def elim!: zoomA_cases)
  moreover have "kv_inv (sync_store t) \<and> kv_get kv RELYING_PARTY_NAMESPACE c (sync_store t) = None"
    using delete_registration_store [where svc = svc and s = s and cid = c] assms(1,2)
    by (simp add: svc_kv get_delete delete_inv)
  ultimately show ?thesis by (simp add: rp_gone_def)
qed

end

section \<open>The client store of the tests\<close>

definition mc_present :: "string \<Rightarrow> mock_clients \<Rightarrow> bool" where
  "mc_present c m \<longleftrightarrow> with_client_id c (mc_view m) \<noteq> []"

lemma mc_present_iff: "mc_present c m \<longleftrightarrow> (\<exists>(u, d)\<in>set (mc_clients m). dict_get d ''clientId'' = JStr c)"
  by (force simp: mc_present_def with_client_id_def mc_view_def filter_empty_conv)

lemma client_uuid_id: "client_uuid_of client = Inr uuid \<Longrightarrow> dict_get client ''id'' = JStr uuid"
proof -
  assume uuid: "client_uuid_of client = Inr uuid"
  then obtain v where v: "dict_get client ''id'' = JStr v" by (auto simp: client_uuid_of_def split: json.splits)
  with uuid show ?thesis
    using unsafe_segment_invalid [of v "''keycloak_client_uuid''"]
    by (cases "safe_segment v") (auto simp: client_uuid_of_def split: if_splits)
qed

lemma al_set_values: "(u, d) \<in> set (al_set kvs k v) \<Longrightarrow> d = v \<or> (u, d) \<in> set kvs"
  by (induction kvs) (auto split: if_splits)

lemma al_pop_values: "(u, d) \<in> set (al_pop kvs k) \<Longrightarrow> (u, d) \<in> set kvs"
  by (auto simp: al_pop_def)

lemmas mock_call_defs = mock_rp_api_def mock_list_clients_def mock_create_client_def mock_update_client_def mock_delete_client_def
  mc_called_def Let_def

interpretation mock_directory: rp_directory mock_rp_api mc_present mc_ready
proof
  fix c w cs w' assume "rpa_list mock_rp_api c w = (Inr cs, w')" "with_client_id c cs = []"
  then show "\<not> mc_present c w'" by (auto simp: mock_call_defs mc_present_def with_client_id_def mc_view_def)
next
  fix c w cs w' client uuid w''
  assume ready: "mc_ready w" and list: "rpa_list mock_rp_api c w = (Inr cs, w')" "with_client_id c cs = [client]"
    and uuid: "client_uuid_of client = Inr uuid" and gone: "rpa_delete mock_rp_api uuid w' = (Inr (), w'')"
  have id: "dict_get client ''id'' = JStr uuid" by (rule client_uuid_id [OF uuid])
  have w': "mc_clients w' = mc_clients w" and found: "with_client_id c (mc_view w) = [client]"
    using list by (auto simp: mock_call_defs mc_view_def with_client_id_def)
  have w'': "mc_clients w'' = al_pop (mc_clients w) uuid"
    using gone w' by (auto simp: mock_call_defs split: if_splits)
  show "\<not> mc_present c w''"
  proof
    assume "mc_present c w''"
    then obtain u d where ud: "(u, d) \<in> set (al_pop (mc_clients w) uuid)" "dict_get d ''clientId'' = JStr c"
      unfolding mc_present_iff w'' by auto
    have "(u, d) \<in> set (mc_clients w)" by (rule al_pop_values [OF ud(1)])
    then have "d \<in> set (with_client_id c (mc_view w))" using ud(2) by (force simp: with_client_id_def mc_view_def py_eq_JStr)
    then have "d = client" using found by simp
    with ready \<open>(u, d) \<in> set (mc_clients w)\<close> id have "u = uuid" by (auto simp: mc_ready_def)
    with ud(1) show False by (auto simp: al_pop_def)
  qed
next
  fix c w cid assume "\<not> mc_present c w"
  then show "\<not> mc_present c (snd (rpa_list mock_rp_api cid w))" by (simp add: mc_present_iff mock_call_defs)
next
  fix c w d assume "\<not> mc_present c w" "dict_get d ''clientId'' \<noteq> JStr c"
  then show "\<not> mc_present c (snd (rpa_create mock_rp_api d w))" "\<not> mc_present c (snd (rpa_update mock_rp_api uuid d w))" for uuid
    by (auto simp: mc_present_iff mock_call_defs dict_get_set dest!: al_set_values)
next
  fix c w uuid assume "\<not> mc_present c w"
  then show "\<not> mc_present c (snd (rpa_delete mock_rp_api uuid w))"
    by (auto simp: mc_present_iff mock_call_defs dest!: al_pop_values)
qed

interpretation mock_deletion: rp_deletion sqlite_kv_ops sqlite_abs sqlite_kv_inv mock_rp_api mc_present mc_ready demo_rp_service
  by unfold_locales (simp_all add: demo_rp_simps)

text \<open>
  C20. A deleted relying party stays deleted in every interleaving: once its delete has returned, neither an intent
  nor a live client of that id appears again, however the turns of a reconciliation that had already
  listed it and any other requests are interleaved, until someone puts it again.
\<close>

theorem deleted_relying_party_stays_deleted:
  assumes "rp_directory api present ready" and "rps_kv svc = sqlite_kv_ops" "rps_api svc = api"
    and "sqlite_kv_inv (sync_store s)" "ready (sync_kc s)"
    and "rp_delete_registration svc c s = (Inr (), t)"
    and "(turn_step svc (\<lambda>req. \<forall>payload. req \<noteq> Put_relying_party c payload))\<^sup>*\<^sup>* (run, t) (run', u)"
  shows "kv_get sqlite_kv_ops RELYING_PARTY_NAMESPACE c (sync_store u) = None \<and> \<not> present c (sync_kc u)"
proof -
  have "rp_deletion sqlite_kv_ops sqlite_abs sqlite_kv_inv api present ready svc"
    using sqlite_kv.kv_store_axioms assms(1-3) by (intro rp_deletion.intro rp_deletion_axioms.intro)
  from rp_deletion.steps_keep_gone [OF this assms(7) rp_deletion.deleted_is_gone [OF this assms(6,4,5)]]
  show ?thesis by (simp add: rp_gone_def)
qed

text \<open>One stored and live relying party, which a reconciliation has listed before it is deleted.\<close>

definition demo_live_state :: "(sqlite_kv, mock_clients) sync_state" where
  "demo_live_state =
     \<lparr>sync_store = kv_put sqlite_kv_ops RELYING_PARTY_NAMESPACE ''workbench'' ''workbench'' [],
      sync_kc = \<lparr>mc_calls = [], mc_clients = [(''relying-party-1'',
        dict_set (relying_party_dump demo_rp) ''id'' (JStr ''relying-party-1''))], mc_sequence = 1\<rparr>\<rparr>"

lemma demo_live_deleted: "fst (rp_delete_registration demo_rp_service ''workbench'' demo_live_state) = Inr ()"
  by code_simp

theorem deleted_relying_party_stays_deleted_witness:
  "\<exists>t u. rp_delete_registration demo_rp_service ''workbench'' demo_live_state = (Inr (), t) \<and>
     turn_step demo_rp_service (\<lambda>req. \<forall>payload. req \<noteq> Put_relying_party ''workbench'' payload)
       (Turns [''workbench''] [], t) (Turns [] [], u) \<and>
     kv_get sqlite_kv_ops RELYING_PARTY_NAMESPACE ''workbench'' (sync_store u) = None \<and> \<not> mc_present ''workbench'' (sync_kc u)"
proof -
  let ?step = "turn_step demo_rp_service (\<lambda>req. \<forall>payload. req \<noteq> Put_relying_party ''workbench'' payload)"
  obtain t where deleted: "rp_delete_registration demo_rp_service ''workbench'' demo_live_state = (Inr (), t)"
    using demo_live_deleted by (cases "rp_delete_registration demo_rp_service ''workbench'' demo_live_state") simp
  have "sqlite_kv_inv []" using demo_rp_simps(3) by (simp add: demo_rp_state_def)
  then have store: "sqlite_kv_inv (sync_store demo_live_state)" by (simp add: demo_live_state_def sqlite_kv.put_inv)
  have "''relying-party-1'' = ''relying-party-'' @ show_nat 1" by code_simp
  then have ready: "mc_ready (sync_kc demo_live_state)"
    by (auto simp: mc_ready_def demo_live_state_def dict_get_set)
  have turn: "?step (Turns [''workbench''] [], t) (Turns [] [], t)"
    by (rule turn_step.turn, rule mock_deletion.gone_turn, rule mock_deletion.deleted_is_gone [OF deleted store ready])
  from deleted_relying_party_stays_deleted [OF mock_directory.rp_directory_axioms demo_rp_simps(1,2) store ready deleted
      r_into_rtranclp [of ?step, OF turn]] deleted turn
  show ?thesis by blast
qed

end
