(* ===== verification/DirectoryFederation.thy ===== *)
theory DirectoryFederation
  imports Json Text_Checks
begin

text \<open>
  Preflight validation of LDAP and Active Directory components, \<open>app/directory_federation.py\<close>:
  the hand-written parser of the component representation, the closed read-only profile with its
  LDAPS endpoints and RFC 4514 distinguished names, and the redacted operator view. Everything is
  a pure function of the submitted document.
\<close>

definition DIRECTORY_PROVIDER_ID :: string where "DIRECTORY_PROVIDER_ID = ''ldap''"

definition DIRECTORY_PROVIDER_TYPE :: string where
  "DIRECTORY_PROVIDER_TYPE = ''org.keycloak.storage.UserStorageProvider''"

definition DIRECTORY_REDACTED_VALUE :: string where "DIRECTORY_REDACTED_VALUE = ''<redacted>''"
definition MAX_COMPONENT_NAME_LENGTH :: nat where "MAX_COMPONENT_NAME_LENGTH = 63"
definition MAX_CONFIG_ENTRIES :: nat where "MAX_CONFIG_ENTRIES = 32"
definition MAX_CONFIG_KEY_LENGTH :: nat where "MAX_CONFIG_KEY_LENGTH = 128"
definition MAX_CONFIG_VALUE_LENGTH :: nat where "MAX_CONFIG_VALUE_LENGTH = 16384"
definition MAX_DIRECTORY_URL_LENGTH :: nat where "MAX_DIRECTORY_URL_LENGTH = 2048"
definition MAX_DN_LENGTH :: nat where "MAX_DN_LENGTH = 4096"

definition ALLOWED_VENDORS :: "string list" where
  "ALLOWED_VENDORS = [''ad'', ''other'', ''rhds'', ''tivoli'', ''edirectory'']"

definition ALLOWED_SEARCH_SCOPES :: "string list" where
  "ALLOWED_SEARCH_SCOPES = [''1'', ''2'']"

definition ALLOWED_CONFIG_KEYS :: "string list" where
  "ALLOWED_CONFIG_KEYS =
     [''allowKerberosAuthentication'', ''bindCredential'', ''bindDn'', ''connectionPooling'', ''connectionTimeout'',
      ''connectionUrl'', ''editMode'', ''enabled'', ''importEnabled'', ''priority'', ''rdnLDAPAttribute'',
      ''readTimeout'', ''searchScope'', ''syncRegistrations'', ''trustEmail'', ''useTruststoreSpi'',
      ''userObjectClasses'', ''usernameLDAPAttribute'', ''usersDn'', ''uuidLDAPAttribute'', ''vendor'']"

definition REDACTED_CONFIG_KEYS :: "string list" where
  "REDACTED_CONFIG_KEYS = [''bindCredential'', ''bindDn'']"

definition backslash :: char where "backslash = CHR 0x5C"

definition DN_RESERVED :: "char list" where
  "DN_RESERVED = [CHR '','', CHR ''+'', CHR 0x22, backslash, CHR ''<'', CHR ''>'', CHR '';'', CHR ''='']"

definition DN_ESCAPABLE :: "char list" where
  "DN_ESCAPABLE = [CHR '' '', CHR 0x22, CHR ''#'', CHR ''+'', CHR '','', CHR '';'', CHR ''<'', CHR ''='', CHR ''>'', backslash]"

section \<open>Registrations and views\<close>

type_synonym directory_config = "(string \<times> string list) list"

record directory_registration =
  dir_name :: string
  dir_provider_id :: string
  dir_provider_type :: string
  dir_config :: directory_config

record directory_view =
  dv_name :: string
  dv_provider_id :: string
  dv_provider_type :: string
  dv_config :: directory_config

record directory_validation_result =
  dvr_registration :: directory_view
  dvr_ready_to_apply :: bool

definition directory_view_of :: "directory_registration \<Rightarrow> directory_view" where
  "directory_view_of registration =
     \<lparr>dv_name = dir_name registration, dv_provider_id = dir_provider_id registration,
      dv_provider_type = dir_provider_type registration,
      dv_config = map (\<lambda>(key, items).
        (key, if key \<in> set REDACTED_CONFIG_KEYS then [DIRECTORY_REDACTED_VALUE] else items))
        (dir_config registration)\<rparr>"

definition directory_error :: "string \<Rightarrow> string \<Rightarrow> exn" where
  "directory_error field_name requirement = HTTPException 400 (field_name @ '' '' @ requirement)"

definition directory_shape_error :: "string \<Rightarrow> string \<Rightarrow> exn" where
  "directory_shape_error field_name requirement = HTTPException 422 (field_name @ '' '' @ requirement)"

section \<open>Parsing\<close>

definition DIRECTORY_FIELDS :: "string list" where
  "DIRECTORY_FIELDS = [''name'', ''providerId'', ''providerType'', ''config'']"

definition directory_string :: "dict \<Rightarrow> string \<Rightarrow> string result" where
  "directory_string payload field_name =
     (case dict_get payload field_name of JStr s \<Rightarrow> Inr s
      | _ \<Rightarrow> Inl (directory_shape_error field_name ''must be a string''))"

definition config_items :: "string \<times> json \<Rightarrow> (string \<times> string list) result" where
  "config_items entry =
     (let err = Inl (directory_shape_error (fst entry) ''must contain only string values in a JSON array'') in
      case snd entry of
        JArr items \<Rightarrow>
          if list_all (\<lambda>item. case item of JStr _ \<Rightarrow> True | _ \<Rightarrow> False) items
          then Inr (fst entry, map (\<lambda>item. case item of JStr s \<Rightarrow> s | _ \<Rightarrow> []) items)
          else err
      | _ \<Rightarrow> err)"

definition parse_directory_registration :: "json \<Rightarrow> directory_registration result" where
  "parse_directory_registration payload =
     (case payload of
        JObj body \<Rightarrow>
          if has_other_field DIRECTORY_FIELDS body
          then Inl (directory_shape_error ''body'' ''contains unsupported fields'')
          else
            bindR (require_present (\<lambda>k. directory_shape_error k ''is required'') DIRECTORY_FIELDS body) (\<lambda>_.
            bindR (directory_string body ''name'') (\<lambda>nm.
            bindR (directory_string body ''providerId'') (\<lambda>provider_id.
            bindR (directory_string body ''providerType'') (\<lambda>provider_type.
            case dict_get body ''config'' of
              JObj config_input \<Rightarrow>
                bindR (mapR config_items config_input) (\<lambda>config.
                Inr \<lparr>dir_name = nm, dir_provider_id = provider_id, dir_provider_type = provider_type,
                  dir_config = config\<rparr>)
            | _ \<Rightarrow> Inl (directory_shape_error ''config'' ''must be a JSON object'')))))
      | _ \<Rightarrow> Inl (directory_shape_error ''body'' ''must be a JSON object''))"

section \<open>The closed configuration\<close>

definition single_value :: "string \<times> string list \<Rightarrow> (string \<times> string) result" where
  "single_value entry =
     (let key = fst entry in
      if key = [] \<or> length key > MAX_CONFIG_KEY_LENGTH
      then Inl (directory_error ''config'' ''contains an invalid key'')
      else case snd entry of
        [value] \<Rightarrow>
          if length value > MAX_CONFIG_VALUE_LENGTH
          then Inl (directory_error key ''exceeds the bounded value length'')
          else if has_template_marker value
          then Inl (directory_error key ''contains an unresolved template placeholder'')
          else Inr (key, value)
      | _ \<Rightarrow> Inl (directory_error key ''must contain exactly one string value''))"

definition single_config_values :: "directory_registration \<Rightarrow> (string \<times> string) list result" where
  "single_config_values registration =
     (if length (dir_config registration) > MAX_CONFIG_ENTRIES
      then Inl (directory_error ''config'' ''contains too many entries'')
      else
        bindR (mapR single_value (dir_config registration)) (\<lambda>values.
        case sort (filter (\<lambda>k. k \<notin> set ALLOWED_CONFIG_KEYS) (map fst values)) of
          unknown # _ \<Rightarrow> Inl (directory_error unknown ''is not supported by the closed profile'')
        | [] \<Rightarrow>
            bindR (require_present (\<lambda>k. directory_error k ''is required by the closed profile'')
              ALLOWED_CONFIG_KEYS values) (\<lambda>_.
            Inr values)))"

definition require_component_identity :: "directory_registration \<Rightarrow> unit result" where
  "require_component_identity registration =
     bindR (requireR (length (dir_name registration) \<le> MAX_COMPONENT_NAME_LENGTH \<and> is_slug (dir_name registration))
       (directory_error ''name'' ''must be a lowercase ASCII alphanumeric-and-hyphen slug'')) (\<lambda>_.
     bindR (requireR (dir_provider_id registration = DIRECTORY_PROVIDER_ID)
       (directory_error ''providerId'' ''must be ldap'')) (\<lambda>_.
     requireR (dir_provider_type registration = DIRECTORY_PROVIDER_TYPE)
       (directory_error ''providerType'' ''must be org.keycloak.storage.UserStorageProvider'')))"

text \<open>\<open>config[field]\<close>; every field is present once the closed profile has been checked.\<close>

definition config_value :: "(string \<times> string) list \<Rightarrow> string \<Rightarrow> string" where
  "config_value config field_name = (case map_of config field_name of None \<Rightarrow> [] | Some v \<Rightarrow> v)"

definition require_exact_boolean :: "(string \<times> string) list \<Rightarrow> string \<Rightarrow> bool \<Rightarrow> unit result" where
  "require_exact_boolean config field_name required =
     (let value = config_value config field_name; expected = (if required then ''true'' else ''false'') in
      if value \<notin> {''true'', ''false''} then Inl (directory_error field_name ''must be true or false'')
      else requireR (value = expected) (directory_error field_name (''must be '' @ expected)))"

text \<open>
  A full match of \<open>0|[1-9][0-9]*\<close>, and Python's \<open>int\<close>, which refuses text of more than 4300 digits
  with \<open>ValueError\<close>.
\<close>

definition is_decimal_integer :: "string \<Rightarrow> bool" where
  "is_decimal_integer s \<longleftrightarrow> s \<noteq> [] \<and> list_all isdecimal_char s \<and> (s = ''0'' \<or> hd s \<noteq> CHR ''0'')"

definition MAX_INT_DIGITS :: nat where "MAX_INT_DIGITS = 4300"

definition python_int :: "string \<Rightarrow> nat result" where
  "python_int s =
     (if length s > MAX_INT_DIGITS
      then Inl (ValueError ''Exceeds the limit (4300 digits) for integer string conversion'')
      else Inr (decimal_value s))"

definition require_bounded_integer :: "(string \<times> string) list \<Rightarrow> string \<Rightarrow> nat \<Rightarrow> nat \<Rightarrow> unit result" where
  "require_bounded_integer config field_name minimum maximum =
     (let value = config_value config field_name in
      bindR (requireR (is_decimal_integer value)
        (directory_error field_name ''must be an unsigned decimal integer'')) (\<lambda>_.
      bindR (python_int value) (\<lambda>parsed.
      requireR (minimum \<le> parsed \<and> parsed \<le> maximum)
        (directory_error field_name (''must be between '' @ show_nat minimum @ '' and '' @ show_nat maximum)))))"

text \<open>Full matches of \<open>[A-Za-z][A-Za-z0-9-]*\<close> and of \<open>[0-9]+(?:\.[0-9]+)+\<close>.\<close>

definition is_ldap_descriptor :: "string \<Rightarrow> bool" where
  "is_ldap_descriptor s \<longleftrightarrow> s \<noteq> [] \<and> is_ascii_alpha (hd s) \<and>
     list_all (\<lambda>c. is_ascii_alnum c \<or> c = CHR ''-'') (tl s)"

definition is_numeric_oid :: "string \<Rightarrow> bool" where
  "is_numeric_oid s =
     (let parts = split_char (CHR ''.'') s in
      length parts \<ge> 2 \<and> list_all (\<lambda>p. p \<noteq> [] \<and> list_all isdecimal_char p) parts)"

definition is_ldap_identifier :: "string \<Rightarrow> bool" where
  "is_ldap_identifier s \<longleftrightarrow> s \<noteq> [] \<and> length s \<le> 128 \<and> \<not> has_raw_control s \<and>
     (is_ldap_descriptor s \<or> is_numeric_oid s)"

definition validate_ldap_identifier :: "string \<Rightarrow> string \<Rightarrow> unit result" where
  "validate_ldap_identifier value field_name =
     requireR (is_ldap_identifier value)
       (directory_error field_name ''must be an ASCII LDAP descriptor or numeric OID'')"

section \<open>Distinguished names\<close>

text \<open>
  The scan of \<open>_split_unescaped\<close>: the text since the last separator, whether the previous
  character was an escaping backslash, and the rest.
\<close>

primrec split_unescaped_from :: "char \<Rightarrow> string \<Rightarrow> bool \<Rightarrow> string \<Rightarrow> string list" where
  "split_unescaped_from separator part escaped [] = [part]"
| "split_unescaped_from separator part escaped (character # rest) =
     (if escaped then split_unescaped_from separator (part @ [character]) False rest
      else if character = backslash then split_unescaped_from separator (part @ [character]) True rest
      else if character = separator then part # split_unescaped_from separator [] False rest
      else split_unescaped_from separator (part @ [character]) False rest)"

definition split_unescaped :: "string \<Rightarrow> char \<Rightarrow> string list" where
  "split_unescaped value separator = split_unescaped_from separator [] False value"

primrec split_first_from :: "char \<Rightarrow> string \<Rightarrow> bool \<Rightarrow> string \<Rightarrow> (string \<times> string) option" where
  "split_first_from separator part escaped [] = None"
| "split_first_from separator part escaped (character # rest) =
     (if escaped then split_first_from separator (part @ [character]) False rest
      else if character = backslash then split_first_from separator (part @ [character]) True rest
      else if character = separator then Some (part, rest)
      else split_first_from separator (part @ [character]) False rest)"

definition split_first_unescaped :: "string \<Rightarrow> char \<Rightarrow> (string \<times> string) option" where
  "split_first_unescaped value separator = split_first_from separator [] False value"

definition trailing_backslashes :: "string \<Rightarrow> nat" where
  "trailing_backslashes s = length (takeWhile (\<lambda>c. c = backslash) (rev s))"

text \<open>The while loop over the characters: an escape takes three or two of them.\<close>

fun check_dn_characters :: "string \<Rightarrow> string \<Rightarrow> unit result" where
  "check_dn_characters field_name [] = Inr ()"
| "check_dn_characters field_name (character # rest) =
     (if character = backslash then
        (case rest of
           [] \<Rightarrow> Inl (directory_error field_name ''contains a dangling escape'')
         | escaped # following \<Rightarrow>
             if following \<noteq> [] \<and> is_hex_char escaped \<and> is_hex_char (hd following)
             then check_dn_characters field_name (tl following)
             else if escaped \<notin> set DN_ESCAPABLE
             then Inl (directory_error field_name ''contains an invalid escape'')
             else check_dn_characters field_name following)
      else if character \<in> set DN_RESERVED
      then Inl (directory_error field_name ''contains an unescaped reserved character'')
      else check_dn_characters field_name rest)"

definition validate_dn_value :: "string \<Rightarrow> string \<Rightarrow> unit result" where
  "validate_dn_value value field_name =
     (if value = [] then Inl (directory_error field_name ''contains an empty attribute value'')
      else if startswith value ''#'' then
        requireR (tl value \<noteq> [] \<and> even (length (tl value)) \<and> list_all is_hex_char (tl value))
          (directory_error field_name ''contains an invalid hexadecimal value'')
      else if startswith value '' ''
      then Inl (directory_error field_name ''contains an unescaped leading or trailing special character'')
      else if endswith value '' '' \<and> even (trailing_backslashes (butlast value))
      then Inl (directory_error field_name ''contains an unescaped leading or trailing special character'')
      else check_dn_characters field_name value)"

definition check_assertion :: "string \<Rightarrow> string \<Rightarrow> unit result" where
  "check_assertion field_name attribute =
     (case split_first_unescaped attribute (CHR ''='') of
        None \<Rightarrow> Inl (directory_error field_name ''contains an assertion without equals'')
      | Some (attribute_type, attribute_value) \<Rightarrow>
          bindR (validate_ldap_identifier attribute_type field_name) (\<lambda>_.
          validate_dn_value attribute_value field_name))"

definition check_rdn :: "string \<Rightarrow> string \<Rightarrow> unit result" where
  "check_rdn field_name rdn =
     (let attributes = split_unescaped rdn (CHR ''+'') in
      bindR (requireR (list_all (\<lambda>attribute. attribute \<noteq> []) attributes)
        (directory_error field_name ''contains an empty attribute-value assertion'')) (\<lambda>_.
      forR attributes (check_assertion field_name)))"

definition validate_distinguished_name :: "string \<Rightarrow> string \<Rightarrow> unit result" where
  "validate_distinguished_name value field_name =
     bindR (requireR (value \<noteq> [] \<and> length value \<le> MAX_DN_LENGTH \<and> \<not> has_raw_control value)
       (directory_error field_name ''must be a bounded control-free LDAP DN'')) (\<lambda>_.
     (let rdns = split_unescaped value (CHR '','') in
      bindR (requireR (list_all (\<lambda>rdn. rdn \<noteq> []) rdns)
        (directory_error field_name ''contains an empty relative distinguished name'')) (\<lambda>_.
      forR rdns (check_rdn field_name))))"

section \<open>Connection URLs and object classes\<close>

definition invalid_endpoint_text :: "string \<Rightarrow> bool" where
  "invalid_endpoint_text endpoint \<longleftrightarrow>
     length endpoint > MAX_DIRECTORY_URL_LENGTH \<or> has_raw_control endpoint \<or> list_ex isspace_char endpoint \<or>
     backslash \<in> set endpoint \<or> CHR ''%'' \<in> set endpoint"

definition invalid_endpoint_url :: "split_result \<Rightarrow> nat option \<Rightarrow> bool" where
  "invalid_endpoint_url parsed port \<longleftrightarrow>
     lower (url_scheme parsed) \<noteq> ''ldaps'' \<or> url_hostname parsed = None \<or> url_username parsed \<noteq> None \<or>
     url_password parsed \<noteq> None \<or> url_query parsed \<noteq> [] \<or> url_fragment parsed \<noteq> [] \<or>
     url_path parsed \<notin> {[], ''/''} \<or> port = Some 0"

definition endpoint_key :: "string \<Rightarrow> (string \<times> nat) result" where
  "endpoint_key endpoint =
     (let err = directory_error ''connectionUrl'' ''must contain unique absolute LDAPS authorities'' in
      case split_url endpoint of
        None \<Rightarrow> Inl err
      | Some (parsed, port) \<Rightarrow>
          if invalid_endpoint_text endpoint \<or> invalid_endpoint_url parsed port then Inl err
          else if \<not> isascii (the (url_hostname parsed))
          then Inl (directory_error ''connectionUrl'' ''hostnames must use ASCII or punycode'')
          else Inr (lower (the (url_hostname parsed)), case port of Some p \<Rightarrow> p | None \<Rightarrow> 636))"

primrec check_endpoints :: "string list \<Rightarrow> (string \<times> nat) list \<Rightarrow> unit result" where
  "check_endpoints [] normalized = Inr ()"
| "check_endpoints (endpoint # rest) normalized =
     bindR (endpoint_key endpoint) (\<lambda>key.
     if key \<in> set normalized
     then Inl (directory_error ''connectionUrl'' ''must not contain duplicate endpoints'')
     else check_endpoints rest (key # normalized))"

definition validate_connection_urls :: "string \<Rightarrow> unit result" where
  "validate_connection_urls value =
     (if value = [] \<or> value \<noteq> strip value \<or> contains ''  '' value
      then Inl (directory_error ''connectionUrl'' ''must contain LDAPS URLs separated by one ASCII space'')
      else check_endpoints (split_char (CHR '' '') value) [])"

text \<open>\<open>value.split(", ")\<close>.\<close>

fun split_comma_space :: "string \<Rightarrow> string list" where
  "split_comma_space [] = [[]]"
| "split_comma_space [c] = [[c]]"
| "split_comma_space (c # d # rest) =
     (if c = CHR '','' \<and> d = CHR '' '' then [] # split_comma_space rest
      else case split_comma_space (d # rest) of
        [] \<Rightarrow> [[c]]
      | part # parts \<Rightarrow> (c # part) # parts)"

text \<open>Object classes are compared after \<open>casefold\<close>, which is \<open>lower\<close> on the ASCII identifiers reached there.\<close>

definition validate_object_classes :: "string \<Rightarrow> unit result" where
  "validate_object_classes value =
     (let object_classes = split_comma_space value in
      if value = [] \<or> list_ex (\<lambda>c. c = [] \<or> c \<noteq> strip c \<or> CHR '','' \<in> set c) object_classes
      then Inl (directory_error ''userObjectClasses'' ''must be separated by a comma and one ASCII space'')
      else
        bindR (forR object_classes (\<lambda>c. validate_ldap_identifier c ''userObjectClasses'')) (\<lambda>_.
        requireR (distinct (map lower object_classes))
          (directory_error ''userObjectClasses'' ''must not contain duplicates'')))"

section \<open>The profile\<close>

definition DIRECTORY_BOOLEANS :: "(string \<times> bool) list" where
  "DIRECTORY_BOOLEANS =
     [(''enabled'', True), (''importEnabled'', True), (''syncRegistrations'', False), (''trustEmail'', False),
      (''connectionPooling'', True), (''allowKerberosAuthentication'', False)]"

definition validate_directory_registration :: "directory_registration \<Rightarrow> directory_validation_result result" where
  "validate_directory_registration registration =
     bindR (require_component_identity registration) (\<lambda>_.
     bindR (single_config_values registration) (\<lambda>config.
     bindR (forR DIRECTORY_BOOLEANS (\<lambda>(field_name, required). require_exact_boolean config field_name required)) (\<lambda>_.
     bindR (requireR (config_value config ''editMode'' = ''READ_ONLY'')
       (directory_error ''editMode'' ''must be READ_ONLY'')) (\<lambda>_.
     bindR (requireR (config_value config ''useTruststoreSpi'' = ''always'')
       (directory_error ''useTruststoreSpi'' ''must be always'')) (\<lambda>_.
     bindR (requireR (config_value config ''vendor'' \<in> set ALLOWED_VENDORS)
       (directory_error ''vendor'' ''is not a supported Keycloak LDAP vendor'')) (\<lambda>_.
     bindR (requireR (config_value config ''searchScope'' \<in> set ALLOWED_SEARCH_SCOPES)
       (directory_error ''searchScope'' ''must be 1 or 2'')) (\<lambda>_.
     bindR (validate_connection_urls (config_value config ''connectionUrl'')) (\<lambda>_.
     bindR (validate_distinguished_name (config_value config ''usersDn'') ''usersDn'') (\<lambda>_.
     bindR (validate_distinguished_name (config_value config ''bindDn'') ''bindDn'') (\<lambda>_.
     bindR (requireR (config_value config ''bindCredential'' \<noteq> [] \<and> \<not> has_raw_control (config_value config ''bindCredential''))
       (directory_error ''bindCredential'' ''must be a non-empty control-free private value'')) (\<lambda>_.
     bindR (forR [''usernameLDAPAttribute'', ''rdnLDAPAttribute'', ''uuidLDAPAttribute'']
       (\<lambda>field_name. validate_ldap_identifier (config_value config field_name) field_name)) (\<lambda>_.
     bindR (validate_object_classes (config_value config ''userObjectClasses'')) (\<lambda>_.
     bindR (require_bounded_integer config ''priority'' 0 1000) (\<lambda>_.
     bindR (forR [''connectionTimeout'', ''readTimeout'']
       (\<lambda>field_name. require_bounded_integer config field_name 100 30000)) (\<lambda>_.
     Inr \<lparr>dvr_registration = directory_view_of registration, dvr_ready_to_apply = True\<rparr>)))))))))))))))"

definition validate_user_directory :: "json \<Rightarrow> directory_validation_result result" where
  "validate_user_directory payload =
     bindR (parse_directory_registration payload) validate_directory_registration"

end
