(* ===== verification/Distinguished_Names.thy ===== *)
theory Distinguished_Names
  imports DirectoryFederation
begin

text \<open>
  The lexical grammar of RFC 4514 distinguished names as data, with its printing, and the proof
  that the index-based validator of \<open>app/directory_federation.py\<close> decides exactly this grammar:
  a text is accepted if and only if it has one, and then only one, reading.
\<close>

section \<open>The grammar\<close>

datatype dn_item = Plain char | Escaped char | Hex_pair char char

primrec item_text :: "dn_item \<Rightarrow> string" where
  "item_text (Plain c) = [c]"
| "item_text (Escaped c) = [backslash, c]"
| "item_text (Hex_pair a b) = [backslash, a, b]"

primrec item_ok :: "dn_item \<Rightarrow> bool" where
  "item_ok (Plain c) = (c \<notin> set DN_RESERVED)"
| "item_ok (Escaped c) = (c \<in> set DN_ESCAPABLE)"
| "item_ok (Hex_pair a b) = (is_hex_char a \<and> is_hex_char b)"

abbreviation items_text :: "dn_item list \<Rightarrow> string" where
  "items_text items \<equiv> concat (map item_text items)"

datatype dn_value = Hex_string "(char \<times> char) list" | Text "dn_item list"

primrec value_text :: "dn_value \<Rightarrow> string" where
  "value_text (Hex_string pairs) = CHR ''#'' # concat (map (\<lambda>(a, b). [a, b]) pairs)"
| "value_text (Text items) = items_text items"

text \<open>No unescaped space at either end, and no unescaped number sign at the front.\<close>

primrec value_ok :: "dn_value \<Rightarrow> bool" where
  "value_ok (Hex_string pairs) = (pairs \<noteq> [] \<and> list_all (\<lambda>(a, b). is_hex_char a \<and> is_hex_char b) pairs)"
| "value_ok (Text items) = (items \<noteq> [] \<and> list_all item_ok items \<and>
     hd items \<notin> {Plain (CHR '' ''), Plain (CHR ''#'')} \<and> last items \<noteq> Plain (CHR '' ''))"

type_synonym dn = "(string \<times> dn_value) list list"

definition assertion_text :: "string \<times> dn_value \<Rightarrow> string" where
  "assertion_text a = fst a @ CHR ''='' # value_text (snd a)"

definition rdn_text :: "(string \<times> dn_value) list \<Rightarrow> string" where
  "rdn_text rdn = join_char (CHR ''+'') (map assertion_text rdn)"

definition dn_text :: "dn \<Rightarrow> string" where
  "dn_text rdns = join_char (CHR '','') (map rdn_text rdns)"

definition assertion_ok :: "string \<times> dn_value \<Rightarrow> bool" where
  "assertion_ok a \<longleftrightarrow> is_ldap_identifier (fst a) \<and> value_ok (snd a)"

definition rdn_ok :: "(string \<times> dn_value) list \<Rightarrow> bool" where
  "rdn_ok rdn \<longleftrightarrow> rdn \<noteq> [] \<and> list_all assertion_ok rdn"

definition dn_ok :: "dn \<Rightarrow> bool" where
  "dn_ok rdns \<longleftrightarrow> rdns \<noteq> [] \<and> list_all rdn_ok rdns"

section \<open>Characters of a value\<close>

lemma backslash_reserved [simp]: "backslash \<in> set DN_RESERVED"
  by (simp add: DN_RESERVED_def)

lemma no_special_hex: "list_all (\<lambda>c. \<not> is_hex_char c) (DN_ESCAPABLE @ DN_RESERVED @ '' #'')"
  by code_simp

lemma escapable_not_hex: "c \<in> set DN_ESCAPABLE \<Longrightarrow> \<not> is_hex_char c"
  using no_special_hex by (simp add: list_all_iff)

lemma hex_char_plain: "is_hex_char c \<Longrightarrow> c \<notin> set DN_RESERVED \<and> c \<noteq> CHR '' '' \<and> c \<noteq> CHR ''#''"
  using no_special_hex by (auto simp: list_all_iff)

lemma item_text_not_Nil [simp]: "item_text i \<noteq> []"
  by (cases i) auto

lemma hd_items_text: "items \<noteq> [] \<Longrightarrow> hd (items_text items) = hd (item_text (hd items))"
  by (cases items; cases "hd items") auto

lemma check_items: "list_all item_ok items \<Longrightarrow> check_dn_characters f (items_text items) = Inr ()"
proof (induction items)
  case (Cons i items)
  then show ?case
    by (cases i) (auto simp: DN_RESERVED_def dest: escapable_not_hex)
qed simp

lemma checked_items: "check_dn_characters f s = Inr () \<Longrightarrow> \<exists>items. list_all item_ok items \<and> items_text items = s"
proof (induction f s rule: check_dn_characters.induct)
  case (2 f c rest)
  show ?case
  proof (cases "c = backslash")
    case False
    with 2 obtain items where "list_all item_ok items" "items_text items = rest" "c \<notin> set DN_RESERVED"
      by (auto split: if_splits)
    then show ?thesis by (intro exI [of _ "Plain c # items"]) simp
  next
    case True
    with 2(4) obtain e following where rest: "rest = e # following"
      by (cases rest) auto
    show ?thesis
    proof (cases "following \<noteq> [] \<and> is_hex_char e \<and> is_hex_char (hd following)")
      case hex: True
      with 2(1) [OF True rest] 2(4) True rest obtain items where
        "list_all item_ok items" "items_text items = tl following" by auto
      with True rest hex show ?thesis
        by (intro exI [of _ "Hex_pair e (hd following) # items"]) simp
    next
      case nohex: False
      with 2(4) True rest have esc: "e \<in> set DN_ESCAPABLE" by (auto split: if_splits)
      with 2(2) [OF True rest nohex] 2(4) True rest nohex obtain items where
        "list_all item_ok items" "items_text items = following" by auto
      with True rest esc show ?thesis
        by (intro exI [of _ "Escaped e # items"]) simp
    qed
  qed
qed (intro exI [of _ "[]"], simp)

lemma trailing_snoc: "trailing_backslashes (s @ [c]) = (if c = backslash then Suc (trailing_backslashes s) else 0)"
  by (simp add: trailing_backslashes_def)

lemma even_trailing: "list_all item_ok items \<Longrightarrow> even (trailing_backslashes (items_text items))"
proof (induction items rule: rev_induct)
  case (snoc i items)
  note append = trailing_snoc [of "items_text items @ [a, b]" for a b, simplified]
    trailing_snoc [of "items_text items @ [a]" for a, simplified] trailing_snoc [of "items_text items"]
  from snoc show ?case
    by (cases i) (auto simp: append dest: hex_char_plain)
qed (simp add: trailing_backslashes_def)

lemma trailing_space_iff:
  assumes "list_all item_ok items" and "items \<noteq> []"
  shows "endswith (items_text items) '' '' \<and> even (trailing_backslashes (butlast (items_text items))) \<longleftrightarrow>
    last items = Plain (CHR '' '')"
proof -
  obtain front i where items: "items = front @ [i]"
    using assms(2) by (cases items rule: rev_cases) auto
  have front: "list_all item_ok front" and i: "item_ok i"
    using assms(1) by (simp_all add: items)
  have ends: "endswith (s @ [c]) '' '' \<longleftrightarrow> c = CHR '' ''" for s c
    by (auto simp: endswith_def)
  have ends2: "endswith (s @ [b, c]) '' '' \<longleftrightarrow> c = CHR '' ''" "endswith (s @ [a, b, c]) '' '' \<longleftrightarrow> c = CHR '' ''" for s a b c
    using ends [of "s @ [b]" c] ends [of "s @ [a, b]" c] by simp_all
  show ?thesis
    using i even_trailing [OF front]
    by (cases i) (auto simp: items butlast_append ends ends2 trailing_snoc dest: hex_char_plain)
qed

lemma pairs_of_hex:
  "even (length s) \<Longrightarrow> list_all is_hex_char s \<Longrightarrow>
    \<exists>pairs. list_all (\<lambda>(a, b). is_hex_char a \<and> is_hex_char b) pairs \<and> concat (map (\<lambda>(a, b). [a, b]) pairs) = s"
proof (induction s rule: induct_list012)
  case (3 a b s)
  then obtain pairs where "list_all (\<lambda>(a, b). is_hex_char a \<and> is_hex_char b) pairs" "concat (map (\<lambda>(a, b). [a, b]) pairs) = s"
    by auto
  with 3(4) show ?case by (intro exI [of _ "(a, b) # pairs"]) simp
qed (auto intro: exI [of _ "[]"])

lemma hex_of_pairs:
  "list_all (\<lambda>(a, b). is_hex_char a \<and> is_hex_char b) pairs \<Longrightarrow>
    list_all is_hex_char (concat (map (\<lambda>(a, b). [a, b]) pairs)) \<and> even (length (concat (map (\<lambda>(a, b). [a, b]) pairs)))"
  by (induction pairs) auto

lemma dn_value_iff: "validate_dn_value v f = Inr () \<longleftrightarrow> (\<exists>x. value_ok x \<and> value_text x = v)"
proof
  assume v: "validate_dn_value v f = Inr ()"
  show "\<exists>x. value_ok x \<and> value_text x = v"
  proof (cases "startswith v ''#''")
    case True
    with v obtain s where "v = CHR ''#'' # s" "s \<noteq> []" "even (length s)" "list_all is_hex_char s"
      by (cases v) (auto simp: validate_dn_value_def startswith_def)
    with pairs_of_hex [of s] show ?thesis by (metis concat.simps(1) list.simps(8) value_ok.simps(1) value_text.simps(1))
  next
    case False
    with v have v': "v \<noteq> []" "\<not> startswith v '' ''" "\<not> (endswith v '' '' \<and> even (trailing_backslashes (butlast v)))"
      "check_dn_characters f v = Inr ()"
      by (auto simp: validate_dn_value_def split: if_splits)
    then obtain items where items: "list_all item_ok items" "items_text items = v"
      using checked_items by blast
    with v'(1) have "items \<noteq> []" by auto
    then obtain i rest where cons: "items = i # rest" by (cases items) auto
    have "hd items \<notin> {Plain (CHR '' ''), Plain (CHR ''#'')}"
      using items(2) False v'(2) by (auto simp: cons startswith_def)
    moreover have "last items \<noteq> Plain (CHR '' '')"
      using trailing_space_iff [OF items(1) \<open>items \<noteq> []\<close>] items(2) v'(3) by simp
    ultimately show ?thesis
      using items \<open>items \<noteq> []\<close> by (intro exI [of _ "Text items"]) simp
  qed
next
  assume "\<exists>x. value_ok x \<and> value_text x = v"
  then obtain x where x: "value_ok x" "value_text x = v" by blast
  show "validate_dn_value v f = Inr ()"
  proof (cases x)
    case (Hex_string pairs)
    with x hex_of_pairs [of pairs] show ?thesis
      by (cases pairs) (auto simp: validate_dn_value_def startswith_def)
  next
    case (Text items)
    with x have items: "items \<noteq> []" "list_all item_ok items" "v = items_text items"
      "hd items \<notin> {Plain (CHR '' ''), Plain (CHR ''#'')}" "last items \<noteq> Plain (CHR '' '')" by auto
    have "\<not> startswith v ''#''" "\<not> startswith v '' ''"
      using items by (cases items; cases "hd items"; auto simp: startswith_def backslash_def)+
    moreover have "\<not> (endswith v '' '' \<and> even (trailing_backslashes (butlast v)))"
      using trailing_space_iff [OF items(2,1)] items(3,5) by simp
    ultimately show ?thesis
      using items check_items [OF items(2)] by (simp add: validate_dn_value_def)
  qed
qed

section \<open>Separators\<close>

text \<open>A piece that ends outside an escape and has no unescaped separator.\<close>

fun clean :: "char \<Rightarrow> string \<Rightarrow> bool" where
  "clean d [] = True"
| "clean d (c # rest) = (if c = backslash then rest \<noteq> [] \<and> clean d (tl rest) else c \<noteq> d \<and> clean d rest)"

lemma clean_append: "clean d p \<Longrightarrow> clean d (p @ q) = clean d q"
  by (induction d p rule: clean.induct) (auto split: if_splits)

lemma clean_plain: "list_all (\<lambda>c. c \<noteq> backslash \<and> c \<noteq> d) s \<Longrightarrow> clean d s"
  by (induction s) auto

lemma split_clean:
  "clean d p \<Longrightarrow> split_unescaped_from d part False (p @ rest) = split_unescaped_from d (part @ p) False rest"
proof (induction d p arbitrary: part rule: clean.induct)
  case (2 d c p)
  show ?case
  proof (cases "c = backslash")
    case True
    with 2(3) obtain e q where p: "p = e # q" by (cases p) auto
    with 2(1) [of "part @ [c, e]"] 2(3) True show ?thesis by simp
  next
    case False
    with 2(2) [of "part @ [c]"] 2(3) show ?thesis by simp
  qed
qed simp

lemma split_first_clean:
  "clean d p \<Longrightarrow> split_first_from d part False (p @ rest) = split_first_from d (part @ p) False rest"
proof (induction d p arbitrary: part rule: clean.induct)
  case (2 d c p)
  show ?case
  proof (cases "c = backslash")
    case True
    with 2(3) obtain e q where p: "p = e # q" by (cases p) auto
    with 2(1) [of "part @ [c, e]"] 2(3) True show ?thesis by simp
  next
    case False
    with 2(2) [of "part @ [c]"] 2(3) show ?thesis by simp
  qed
qed simp

lemma split_unescaped_join:
  "ps \<noteq> [] \<Longrightarrow> list_all (clean d) ps \<Longrightarrow> d \<noteq> backslash \<Longrightarrow> split_unescaped (join_char d ps) d = ps"
  unfolding split_unescaped_def
proof (induction d ps rule: join_char.induct)
  case (2 d p)
  with split_clean [of d p "[]" "[]"] show ?case by simp
next
  case (3 d p q ps)
  with split_clean [of d p "[]" "d # join_char d (q # ps)"] show ?case by simp
qed simp

lemma split_unescaped_not_Nil: "split_unescaped_from d part esc s \<noteq> []"
  by (induction s arbitrary: part esc) auto

lemma split_unescaped_parts: "split_unescaped s d \<noteq> []"
  by (simp add: split_unescaped_def split_unescaped_not_Nil)

lemma join_split_unescaped: "join_char d (split_unescaped s d) = s"
proof -
  have cons: "ps \<noteq> [] \<Longrightarrow> join_char d (p # ps) = p @ d # join_char d ps" for p ps
    by (cases ps) auto
  have "join_char d (split_unescaped_from d part esc s) = part @ s" for part esc
    by (induction s arbitrary: part esc) (auto simp: cons split_unescaped_not_Nil)
  then show ?thesis by (simp add: split_unescaped_def)
qed

lemma split_first_eq: "split_first_unescaped s d = Some (t, v) \<Longrightarrow> s = t @ d # v"
proof -
  have "split_first_from d part esc s = Some (t, v) \<Longrightarrow> part @ s = t @ d # v" for part esc
  proof (induction s arbitrary: part esc)
    case (Cons c s)
    then show ?case using Cons.IH [of "part @ [c]"] by (auto split: if_splits)
  qed simp
  from this [of "[]" False] show "split_first_unescaped s d = Some (t, v) \<Longrightarrow> s = t @ d # v"
    by (simp add: split_first_unescaped_def)
qed

lemma identifier_chars:
  assumes "is_ldap_identifier s" and "c \<in> set s"
  shows "c \<noteq> backslash \<and> c \<noteq> CHR '','' \<and> c \<noteq> CHR ''+'' \<and> c \<noteq> CHR ''=''"
proof -
  have "c = CHR ''-'' \<or> c = CHR ''.'' \<or> is_ascii_alnum c"
  proof (cases "is_ldap_descriptor s")
    case True
    then have "is_ascii_alpha (hd s)" "list_all (\<lambda>c. is_ascii_alnum c \<or> c = CHR ''-'') (tl s)"
      by (simp_all add: is_ldap_descriptor_def)
    with assms(2) show ?thesis
      by (cases s) (auto simp: list_all_iff is_ascii_alnum_def)
  next
    case False
    with assms(1) have parts: "list_all (\<lambda>p. p \<noteq> [] \<and> list_all isdecimal_char p) (split_char (CHR ''.'') s)"
      by (simp add: is_ldap_identifier_def is_numeric_oid_def Let_def)
    have "c = CHR ''.'' \<or> (\<exists>p\<in>set (split_char (CHR ''.'') s). c \<in> set p)"
      using set_join_char [of "CHR ''.''" "split_char (CHR ''.'') s"] assms(2) by auto
    with parts show ?thesis
      by (auto simp: list_all_iff is_ascii_alnum_def)
  qed
  moreover have "list_all (\<lambda>c. \<not> (c = CHR ''-'' \<or> c = CHR ''.'' \<or> is_ascii_alnum c)) [backslash, CHR '','', CHR ''+'', CHR ''='']"
    by code_simp
  ultimately show ?thesis by (auto simp: list_all_iff)
qed

lemma identifier_clean:
  "is_ldap_identifier s \<Longrightarrow> d \<in> {CHR '','', CHR ''+'', CHR ''=''} \<Longrightarrow> clean d s"
  by (rule clean_plain) (auto simp: list_all_iff dest: identifier_chars)

lemma items_clean: "list_all item_ok items \<Longrightarrow> d \<in> set DN_RESERVED \<Longrightarrow> clean d (items_text items)"
proof (induction items)
  case (Cons i items)
  then show ?case by (cases i) (auto dest: hex_char_plain)
qed simp

lemma value_clean:
  assumes "value_ok v" and d: "d \<in> {CHR '','', CHR ''+''}"
  shows "clean d (value_text v)"
proof (cases v)
  case (Hex_string pairs)
  with assms hex_of_pairs [of pairs] have hex: "list_all is_hex_char (concat (map (\<lambda>(a, b). [a, b]) pairs))" by simp
  from d have "d \<in> set DN_RESERVED" "d \<noteq> CHR ''#''" by (auto simp: DN_RESERVED_def)
  then have "c \<noteq> backslash \<and> c \<noteq> d" if "is_hex_char c" for c
    using hex_char_plain [OF that] by auto
  with hex have "list_all (\<lambda>c. c \<noteq> backslash \<and> c \<noteq> d) (concat (map (\<lambda>(a, b). [a, b]) pairs))"
    unfolding list_all_iff by blast
  then show ?thesis
    using \<open>d \<noteq> CHR ''#''\<close> by (simp add: Hex_string clean_plain backslash_def)
next
  case (Text items)
  from d have "d \<in> set DN_RESERVED" by (auto simp: DN_RESERVED_def)
  with assms Text items_clean show ?thesis by simp
qed

lemma assertion_clean: "assertion_ok a \<Longrightarrow> d \<in> {CHR '','', CHR ''+''} \<Longrightarrow> clean d (assertion_text a)"
  by (auto simp: assertion_ok_def assertion_text_def clean_append identifier_clean value_clean backslash_def)

lemma join_clean: "list_all (clean d) ps \<Longrightarrow> e \<noteq> d \<Longrightarrow> e \<noteq> backslash \<Longrightarrow> clean d (join_char e ps)"
  by (induction e ps rule: join_char.induct) (auto simp: clean_append)

lemma rdn_clean: "rdn_ok rdn \<Longrightarrow> clean (CHR '','') (rdn_text rdn)"
  unfolding rdn_text_def
  by (rule join_clean) (auto simp: rdn_ok_def list_all_iff backslash_def intro: assertion_clean)

section \<open>Readings\<close>

lemma list_choice: "\<forall>x\<in>set xs. \<exists>a. P a \<and> f a = x \<Longrightarrow> \<exists>as. list_all P as \<and> map f as = xs"
proof (induction xs)
  case (Cons x xs)
  then obtain a as where "P a" "f a = x" "list_all P as" "map f as = xs" by auto
  then show ?case by (intro exI [of _ "a # as"]) simp
qed simp

lemma assertion_split:
  "assertion_ok a \<Longrightarrow> split_first_unescaped (assertion_text a) (CHR ''='') = Some (fst a, value_text (snd a))"
  using split_first_clean [of "CHR ''=''" "fst a" "[]"]
  by (simp add: split_first_unescaped_def assertion_text_def assertion_ok_def identifier_clean backslash_def)

lemma assertion_text_not_Nil [simp]: "assertion_text a \<noteq> []"
  by (simp add: assertion_text_def)

lemma rdn_split: "rdn_ok rdn \<Longrightarrow> split_unescaped (rdn_text rdn) (CHR ''+'') = map assertion_text rdn"
  unfolding rdn_text_def
  by (rule split_unescaped_join) (auto simp: rdn_ok_def list_all_iff backslash_def intro: assertion_clean)

lemma dn_split: "dn_ok rdns \<Longrightarrow> split_unescaped (dn_text rdns) (CHR '','') = map rdn_text rdns"
  unfolding dn_text_def
  by (rule split_unescaped_join) (auto simp: dn_ok_def list_all_iff backslash_def intro: rdn_clean)

lemma check_assertion_iff: "check_assertion f s = Inr () \<longleftrightarrow> (\<exists>a. assertion_ok a \<and> assertion_text a = s)"
proof
  assume "check_assertion f s = Inr ()"
  then obtain t v where "split_first_unescaped s (CHR ''='') = Some (t, v)" "is_ldap_identifier t"
    "validate_dn_value v f = Inr ()"
    by (auto simp: check_assertion_def validate_ldap_identifier_def bindR_eq_Inr split: option.splits)
  then show "\<exists>a. assertion_ok a \<and> assertion_text a = s"
    by (auto simp: dn_value_iff assertion_ok_def assertion_text_def dest!: split_first_eq)
next
  assume "\<exists>a. assertion_ok a \<and> assertion_text a = s"
  then obtain a where a: "assertion_ok a" "assertion_text a = s" by blast
  then have "validate_dn_value (value_text (snd a)) f = Inr ()"
    unfolding dn_value_iff assertion_ok_def by blast
  with a assertion_split [OF a(1)] show "check_assertion f s = Inr ()"
    by (simp add: check_assertion_def validate_ldap_identifier_def assertion_ok_def)
qed

lemma rdn_text_not_Nil: "rdn_ok rdn \<Longrightarrow> rdn_text rdn \<noteq> []"
  by (cases rdn; cases "tl rdn") (auto simp: rdn_ok_def rdn_text_def)

lemma check_rdn_iff: "check_rdn f s = Inr () \<longleftrightarrow> (\<exists>rdn. rdn_ok rdn \<and> rdn_text rdn = s)"
proof
  assume "check_rdn f s = Inr ()"
  then have "\<forall>x\<in>set (split_unescaped s (CHR ''+'')). \<exists>a. assertion_ok a \<and> assertion_text a = x"
    by (auto simp: check_rdn_def Let_def bindR_eq_Inr forR_ok okR_iff check_assertion_iff)
  then obtain rdn where rdn: "list_all assertion_ok rdn" "map assertion_text rdn = split_unescaped s (CHR ''+'')"
    using list_choice by blast
  moreover have "rdn \<noteq> []"
    using rdn(2) split_unescaped_parts [of s "CHR ''+''"] by auto
  ultimately show "\<exists>rdn. rdn_ok rdn \<and> rdn_text rdn = s"
    by (auto simp: rdn_ok_def rdn_text_def join_split_unescaped intro!: exI [of _ rdn])
next
  assume "\<exists>rdn. rdn_ok rdn \<and> rdn_text rdn = s"
  then obtain rdn where rdn: "rdn_ok rdn" "rdn_text rdn = s" by blast
  have "okR (check_assertion f (assertion_text a))" if "a \<in> set rdn" for a
  proof -
    from that rdn(1) have "assertion_ok a" by (simp add: rdn_ok_def list_all_iff)
    then have "check_assertion f (assertion_text a) = Inr ()" unfolding check_assertion_iff by blast
    then show ?thesis by (simp add: okR_iff)
  qed
  with rdn_split [OF rdn(1)] rdn(2) show "check_rdn f s = Inr ()"
    by (auto simp: check_rdn_def Let_def list_all_iff bindR_eq_Inr forR_ok)
qed

lemma item_text_prefix:
  assumes "item_ok i" "item_ok j" "item_text i @ s = item_text j @ t"
  shows "i = j \<and> s = t"
  using assms escapable_not_hex backslash_reserved by (cases i; cases j) auto

lemma items_text_inj:
  "list_all item_ok items \<Longrightarrow> list_all item_ok items' \<Longrightarrow> items_text items = items_text items' \<Longrightarrow> items = items'"
proof (induction items arbitrary: items')
  case Nil
  then show ?case by (cases items') auto
next
  case (Cons i items)
  from Cons.prems(3) obtain j js where js: "items' = j # js" by (cases items') auto
  with Cons.prems have "i = j \<and> items_text items = items_text js"
    using item_text_prefix [of i j "items_text items" "items_text js"] by simp
  with Cons.IH [of js] Cons.prems js show ?case by simp
qed

lemma pairs_inj: "concat (map (\<lambda>(a, b). [a, b]) ps) = concat (map (\<lambda>(a, b). [a, b]) qs) \<Longrightarrow> ps = qs"
proof (induction ps arbitrary: qs)
  case (Cons p ps)
  then show ?case by (cases p; cases qs) auto
next
  case Nil
  then show ?case by (cases qs) auto
qed

lemma value_text_inj:
  assumes "value_ok x" "value_ok y" "value_text x = value_text y"
  shows "x = y"
proof -
  have no_hash: "value_text (Text items) \<noteq> CHR ''#'' # s" if ok: "value_ok (Text items)" for items s
  proof -
    obtain i rest where "items = i # rest" using ok by (cases items) auto
    with ok show ?thesis by (cases i) (auto simp: backslash_def)
  qed
  show ?thesis
  proof (cases x)
    case (Hex_string ps)
    then obtain qs where "y = Hex_string qs"
      using assms no_hash by (cases y) (metis value_text.simps(1))+
    with Hex_string assms(3) pairs_inj show ?thesis by simp
  next
    case (Text items)
    then obtain items' where "y = Text items'"
      using assms no_hash by (cases y) (metis value_text.simps(1))+
    with Text assms items_text_inj show ?thesis by simp
  qed
qed

lemma dn_text_inj:
  assumes "dn_ok x" "dn_ok y" "dn_text x = dn_text y"
  shows "x = y"
proof -
  have a: "a = b" if "assertion_ok a" "assertion_ok b" "assertion_text a = assertion_text b" for a b
    using that assertion_split [OF that(1)] assertion_split [OF that(2)]
    by (auto simp: assertion_ok_def prod_eq_iff intro: value_text_inj)
  have r: "r = r'" if ok: "rdn_ok r" "rdn_ok r'" "rdn_text r = rdn_text r'" for r r'
  proof -
    have "map assertion_text r = map assertion_text r'" using rdn_split [OF ok(1)] rdn_split [OF ok(2)] ok(3) by simp
    moreover have "inj_on assertion_text (set r \<union> set r')"
      using ok(1,2) unfolding inj_on_def rdn_ok_def list_all_iff by (blast intro: a)
    ultimately show ?thesis by (rule map_inj_on)
  qed
  have "map rdn_text x = map rdn_text y" using dn_split [OF assms(1)] dn_split [OF assms(2)] assms(3) by simp
  moreover have "inj_on rdn_text (set x \<union> set y)"
    using assms(1,2) unfolding inj_on_def dn_ok_def list_all_iff by (blast intro: r)
  ultimately show ?thesis by (rule map_inj_on)
qed

lemma dn_validator_iff:
  "validate_distinguished_name s f = Inr () \<longleftrightarrow>
     s \<noteq> [] \<and> length s \<le> MAX_DN_LENGTH \<and> \<not> has_raw_control s \<and> (\<exists>!rdns. dn_ok rdns \<and> dn_text rdns = s)"
proof -
  have "list_all (\<lambda>rdn. rdn \<noteq> []) (split_unescaped s (CHR '','')) \<and>
      (\<forall>x\<in>set (split_unescaped s (CHR '','')). \<exists>rdn. rdn_ok rdn \<and> rdn_text rdn = x) \<longleftrightarrow>
      (\<exists>rdns. dn_ok rdns \<and> dn_text rdns = s)" (is "?L \<longleftrightarrow> ?R")
  proof
    assume ?L
    then obtain rdns where rdns: "list_all rdn_ok rdns" "map rdn_text rdns = split_unescaped s (CHR '','')"
      using list_choice by blast
    moreover have "rdns \<noteq> []"
      using rdns(2) split_unescaped_parts [of s "CHR '',''"] by auto
    ultimately show ?R
      by (auto simp: dn_ok_def dn_text_def join_split_unescaped intro!: exI [of _ rdns])
  next
    assume ?R
    then obtain rdns where rdns: "dn_ok rdns" "dn_text rdns = s" by blast
    with dn_split [OF rdns(1)] show ?L
      by (auto simp: dn_ok_def list_all_iff rdn_text_not_Nil)
  qed
  then have "validate_distinguished_name s f = Inr () \<longleftrightarrow>
      s \<noteq> [] \<and> length s \<le> MAX_DN_LENGTH \<and> \<not> has_raw_control s \<and> (\<exists>rdns. dn_ok rdns \<and> dn_text rdns = s)"
    by (auto simp: validate_distinguished_name_def Let_def bindR_eq_Inr forR_ok okR_iff check_rdn_iff)
  then show ?thesis
    using dn_text_inj by blast
qed


end
