(* ===== verification/DirectoryFederationState.thy ===== *)
theory DirectoryFederationState
  imports DirectoryFederation Reconcile Sha256
begin

text \<open>
  Durable directory state, \<open>app/directory_federation_state.py\<close>: the private component in the
  key-value store, a digest receipt of the last apply beside it, reconciliation of the Keycloak
  user-storage components with it, and redacted responses. pydantic's JSON codec, the store backend
  and the Keycloak client are parameters in the record \<open>dir_service\<close>. The convergence lock makes
  every mutating request one action; \<open>reconcile_all\<close> takes its snapshot before it acquires that
  lock, so it is split into the two actions another request can come between.
\<close>

definition DIRECTORY_FEDERATION_NAMESPACE :: string where
  "DIRECTORY_FEDERATION_NAMESPACE = ''directory_federation_sources''"

definition DIRECTORY_FEDERATION_RECEIPT_NAMESPACE :: string where
  "DIRECTORY_FEDERATION_RECEIPT_NAMESPACE = ''directory_federation_apply_receipts''"

definition SECRET_CONFIG_KEYS :: "string list" where
  "SECRET_CONFIG_KEYS = [''bindCredential'', ''bindDn'']"

datatype directory_convergence_state =
  DIR_IN_SYNC | DIR_DRIFTED | DIR_ABSENT | DIR_AMBIGUOUS | DIR_UNAVAILABLE | DIR_APPLY_FAILED

record dir_status =
  ds_registration :: directory_view
  ds_desired_state_stored :: bool
  ds_convergence_state :: directory_convergence_state
  ds_component_id :: "string option"
  ds_secret_observation :: string
  ds_last_apply_receipt_matches :: bool
  ds_last_convergence_error_code :: "string option"

definition directory_status ::
  "directory_registration \<Rightarrow> directory_convergence_state \<Rightarrow> string option \<Rightarrow> bool \<Rightarrow> string option \<Rightarrow> dir_status" where
  "directory_status registration convergence component_id receipt error_code =
     \<lparr>ds_registration = directory_view_of registration, ds_desired_state_stored = True,
      ds_convergence_state = convergence, ds_component_id = component_id,
      ds_secret_observation = ''not_observable'', ds_last_apply_receipt_matches = receipt,
      ds_last_convergence_error_code = error_code\<rparr>"

section \<open>Representations\<close>

definition directory_config_json :: "directory_config \<Rightarrow> json" where
  "directory_config_json config = JObj (map (\<lambda>(k, items). (k, JArr (map JStr items))) config)"

text \<open>\<open>model_dump(by_alias=True)\<close>.\<close>

definition directory_dump :: "directory_registration \<Rightarrow> dict" where
  "directory_dump r =
     [(''name'', JStr (dir_name r)), (''providerId'', JStr (dir_provider_id r)),
      (''providerType'', JStr (dir_provider_type r)), (''config'', directory_config_json (dir_config r))]"

definition directory_digest :: "directory_registration \<Rightarrow> string" where
  "directory_digest r = sha256_hex (utf8_encode (json_dumps
     \<lparr>ensure_ascii = False, item_separator = '','', key_separator = '':'', sort_keys = True\<rparr>
     (JObj (directory_dump r))))"

definition validate_directory_path_name :: "string \<Rightarrow> unit result" where
  "validate_directory_path_name directory_name =
     requireR (is_slug directory_name) (HTTPException 400 ''directory_name must be a lowercase ASCII slug'')"

definition component_id_of :: "dict \<Rightarrow> string result" where
  "component_id_of component =
     (case dict_get component ''id'' of
        JStr i \<Rightarrow> if i = [] then Inl (HTTPException 500 ''keycloak component omitted its identifier'') else Inr i
      | _ \<Rightarrow> Inl (HTTPException 500 ''keycloak component omitted its identifier''))"

definition observable_component_matches :: "directory_registration \<Rightarrow> dict \<Rightarrow> bool" where
  "observable_component_matches r component \<longleftrightarrow>
     py_eq (dict_get component ''name'') (JStr (dir_name r)) \<and>
     py_eq (dict_get component ''providerId'') (JStr (dir_provider_id r)) \<and>
     py_eq (dict_get component ''providerType'') (JStr (dir_provider_type r)) \<and>
     (case dict_get component ''config'' of
        JObj observed_config \<Rightarrow>
          list_all (\<lambda>(key, desired_values). key \<in> set SECRET_CONFIG_KEYS \<or>
            py_eq (dict_get observed_config key) (JArr (map JStr desired_values))) (dir_config r)
      | _ \<Rightarrow> False)"

section \<open>The service\<close>

record 'w dir_api =
  da_list :: "string \<Rightarrow> ('w, dict list) action"
  da_create :: "dict \<Rightarrow> ('w, string option) action"
  da_update :: "string \<Rightarrow> dict \<Rightarrow> ('w, unit) action"
  da_delete :: "string \<Rightarrow> ('w, unit) action"

record ('st, 'w) dir_service =
  dirs_kv :: "'st kv_ops"
  dirs_api :: "'w dir_api"
  dirs_dump_json :: "directory_registration \<Rightarrow> string"
  dirs_validate_json :: "string \<Rightarrow> directory_registration result"

definition stored_directory_invalid :: exn where
  "stored_directory_invalid = HTTPException 500 ''stored_state_invalid''"

definition dir_parse_stored :: "('st, 'w) dir_service \<Rightarrow> string \<Rightarrow> directory_registration result" where
  "dir_parse_stored svc raw_value =
     (case bindR (dirs_validate_json svc raw_value) (\<lambda>r.
             bindR (validate_directory_registration r) (\<lambda>_. Inr r)) of
        Inl _ \<Rightarrow> Inl stored_directory_invalid
      | Inr r \<Rightarrow> Inr r)"

definition get_stored_directory ::
  "('st, 'w) dir_service \<Rightarrow> string \<Rightarrow> ('st, 'w, directory_registration) sync_action" where
  "get_stored_directory svc directory_name =
     bindA (readA (\<lambda>s. kv_get (dirs_kv svc) DIRECTORY_FEDERATION_NAMESPACE directory_name (sync_store s))) (\<lambda>raw_value.
     case raw_value of
       None \<Rightarrow> raiseA (HTTPException 404 ''directory desired state not found'')
     | Some raw \<Rightarrow>
         bindA (liftA (dir_parse_stored svc raw)) (\<lambda>r.
         if dir_name r \<noteq> directory_name then raiseA stored_directory_invalid else returnA r))"

definition is_exact_component :: "directory_registration \<Rightarrow> dict \<Rightarrow> bool" where
  "is_exact_component r component \<longleftrightarrow>
     py_eq (dict_get component ''name'') (JStr (dir_name r)) \<and>
     py_eq (dict_get component ''providerId'') (JStr DIRECTORY_PROVIDER_ID) \<and>
     py_eq (dict_get component ''providerType'') (JStr DIRECTORY_PROVIDER_TYPE)"

definition exact_components :: "('st, 'w) dir_service \<Rightarrow> directory_registration \<Rightarrow> ('w, dict list) action" where
  "exact_components svc r =
     bindA (da_list (dirs_api svc) (dir_name r)) (\<lambda>candidates.
     returnA (filter (is_exact_component r) candidates))"

definition dir_receipt_matches :: "('st, 'w) dir_service \<Rightarrow> directory_registration \<Rightarrow> 'st \<Rightarrow> bool" where
  "dir_receipt_matches svc r st \<longleftrightarrow>
     kv_get (dirs_kv svc) DIRECTORY_FEDERATION_RECEIPT_NAMESPACE (dir_name r) st = Some (directory_digest r)"

definition dir_record_receipt ::
  "('st, 'w) dir_service \<Rightarrow> directory_registration \<Rightarrow> ('st, 'w, unit) sync_action" where
  "dir_record_receipt svc r = modifyA (sync_store_update
     (kv_put (dirs_kv svc) DIRECTORY_FEDERATION_RECEIPT_NAMESPACE (dir_name r) (directory_digest r)))"

definition dir_status_for ::
  "('st, 'w) dir_service \<Rightarrow> directory_registration \<Rightarrow> ('st, 'w, dir_status) sync_action" where
  "dir_status_for svc r =
     bindA (readA (\<lambda>s. dir_receipt_matches svc r (sync_store s))) (\<lambda>receipt.
     or_else (remoteA (exact_components svc r))
       (returnA (directory_status r DIR_UNAVAILABLE None receipt (Some ''keycloak_unavailable'')))
       (\<lambda>matches. case matches of
          [] \<Rightarrow> returnA (directory_status r DIR_ABSENT None receipt None)
        | [component] \<Rightarrow>
            bindA (liftA (component_id_of component)) (\<lambda>component_id.
            returnA (directory_status r
              (if observable_component_matches r component \<and> receipt then DIR_IN_SYNC else DIR_DRIFTED)
              (Some component_id) receipt None))
        | _ \<Rightarrow> returnA (directory_status r DIR_AMBIGUOUS None receipt (Some ''duplicate_components''))))"

definition dir_converge ::
  "('st, 'w) dir_service \<Rightarrow> directory_registration \<Rightarrow> ('st, 'w, dir_status) sync_action" where
  "dir_converge svc r =
     bindA (readA (\<lambda>s. dir_receipt_matches svc r (sync_store s))) (\<lambda>receipt.
     or_else (remoteA (exact_components svc r))
       (returnA (directory_status r DIR_UNAVAILABLE None receipt (Some ''keycloak_unavailable'')))
       (\<lambda>matches. case matches of
          [] \<Rightarrow>
            or_else (remoteA (da_create (dirs_api svc) (directory_dump r)))
              (returnA (directory_status r DIR_APPLY_FAILED None False (Some ''component_create_failed'')))
              (\<lambda>component_id.
                 bindA (dir_record_receipt svc r) (\<lambda>_.
                 returnA (directory_status r DIR_IN_SYNC component_id True None)))
        | [component] \<Rightarrow>
            bindA (liftA (component_id_of component)) (\<lambda>component_id.
            if observable_component_matches r component \<and> receipt
            then returnA (directory_status r DIR_IN_SYNC (Some component_id) True None)
            else
              or_else (remoteA (da_update (dirs_api svc) component_id (directory_dump r)))
                (returnA (directory_status r DIR_APPLY_FAILED (Some component_id) False (Some ''component_update_failed'')))
                (\<lambda>_.
                   bindA (dir_record_receipt svc r) (\<lambda>_.
                   returnA (directory_status r DIR_IN_SYNC (Some component_id) True None))))
        | _ \<Rightarrow> returnA (directory_status r DIR_AMBIGUOUS None receipt (Some ''duplicate_components''))))"

section \<open>Operations\<close>

definition dir_snapshot :: "('st, 'w) dir_service \<Rightarrow> ('st, 'w, directory_registration list) sync_action" where
  "dir_snapshot svc =
     bindA (readA (\<lambda>s. map snd (kv_get_all (dirs_kv svc) DIRECTORY_FEDERATION_NAMESPACE (sync_store s)))) (\<lambda>snapshot.
     liftA (mapR (dir_parse_stored svc) snapshot))"

definition by_directory_name :: "dir_status list \<Rightarrow> dir_status list" where
  "by_directory_name statuses = sort_key (\<lambda>st. dv_name (ds_registration st)) statuses"

definition dir_list_registrations :: "('st, 'w) dir_service \<Rightarrow> ('st, 'w, dir_status list) sync_action" where
  "dir_list_registrations svc =
     bindA (dir_snapshot svc) (\<lambda>registrations.
     bindA (mapA (dir_status_for svc) registrations) (\<lambda>statuses.
     returnA (by_directory_name statuses)))"

definition dir_get_registration ::
  "('st, 'w) dir_service \<Rightarrow> string \<Rightarrow> ('st, 'w, dir_status) sync_action" where
  "dir_get_registration svc directory_name =
     bindA (liftA (validate_directory_path_name directory_name)) (\<lambda>_.
     bindA (get_stored_directory svc directory_name) (dir_status_for svc))"

definition dir_put_registration ::
  "('st, 'w) dir_service \<Rightarrow> string \<Rightarrow> directory_registration \<Rightarrow> ('st, 'w, dir_status) sync_action" where
  "dir_put_registration svc directory_name r =
     bindA (liftA (validate_directory_path_name directory_name)) (\<lambda>_.
     bindA (liftA (requireR (dir_name r = directory_name)
       (HTTPException 400 ''path name and body name must match''))) (\<lambda>_.
     bindA (liftA (validate_directory_registration r)) (\<lambda>_.
     bindA (modifyA (sync_store_update
       (kv_put (dirs_kv svc) DIRECTORY_FEDERATION_NAMESPACE directory_name (dirs_dump_json svc r)))) (\<lambda>_.
     dir_converge svc r))))"

definition dir_delete_registration :: "('st, 'w) dir_service \<Rightarrow> string \<Rightarrow> ('st, 'w, unit) sync_action" where
  "dir_delete_registration svc directory_name =
     bindA (liftA (validate_directory_path_name directory_name)) (\<lambda>_.
     bindA (get_stored_directory svc directory_name) (\<lambda>r.
     or_else (remoteA (exact_components svc r))
       (raiseA (HTTPException 503 ''keycloak_unavailable''))
       (\<lambda>matches.
          bindA
            (case matches of
               [] \<Rightarrow> returnA ()
             | [component] \<Rightarrow>
                 bindA (liftA (component_id_of component)) (\<lambda>component_id.
                 or_else (remoteA (da_delete (dirs_api svc) component_id))
                   (raiseA (HTTPException 502 ''component_delete_failed'')) returnA)
             | _ \<Rightarrow> raiseA (HTTPException 409 ''duplicate_components''))
            (\<lambda>_. modifyA (sync_store_update (\<lambda>st.
               kv_delete (dirs_kv svc) DIRECTORY_FEDERATION_RECEIPT_NAMESPACE directory_name
                 (kv_delete (dirs_kv svc) DIRECTORY_FEDERATION_NAMESPACE directory_name st)))))))"

text \<open>The part of \<open>reconcile_all\<close> under the convergence lock, on the snapshot taken before.\<close>

definition dir_reconcile_snapshot ::
  "('st, 'w) dir_service \<Rightarrow> directory_registration list \<Rightarrow> ('st, 'w, dir_status list) sync_action" where
  "dir_reconcile_snapshot svc registrations =
     bindA (mapA (dir_converge svc) registrations) (\<lambda>statuses. returnA (by_directory_name statuses))"

definition dir_reconcile_all :: "('st, 'w) dir_service \<Rightarrow> ('st, 'w, dir_status list) sync_action" where
  "dir_reconcile_all svc = bindA (dir_snapshot svc) (dir_reconcile_snapshot svc)"

section \<open>The routes\<close>

text \<open>The body of a put is parsed by the framework from the typed parameter, so it arrives parsed.\<close>

datatype dir_request =
    List_user_directories
  | Reconcile_user_directories
  | Get_user_directory string
  | Put_user_directory string directory_registration
  | Delete_user_directory string

datatype dir_response = Dir_statuses "dir_status list" | Dir_status dir_status | Dir_no_content

fun directory_route ::
  "('st, 'w) dir_service \<Rightarrow> dir_request \<Rightarrow> ('st, 'w, dir_response) sync_action" where
  "directory_route svc List_user_directories =
     bindA (dir_list_registrations svc) (\<lambda>sts. returnA (Dir_statuses sts))"
| "directory_route svc Reconcile_user_directories =
     bindA (dir_reconcile_all svc) (\<lambda>sts. returnA (Dir_statuses sts))"
| "directory_route svc (Get_user_directory directory_name) =
     bindA (dir_get_registration svc directory_name) (\<lambda>st. returnA (Dir_status st))"
| "directory_route svc (Put_user_directory directory_name registration) =
     bindA (dir_put_registration svc directory_name registration) (\<lambda>st. returnA (Dir_status st))"
| "directory_route svc (Delete_user_directory directory_name) =
     bindA (dir_delete_registration svc directory_name) (\<lambda>_. returnA Dir_no_content)"

end
