(* ===== verification/Directory_Theorems.thy ===== *)
theory Directory_Theorems
  imports Distinguished_Names DirectoryFederationState "HOL-Library.Code_Target_Nat"
begin

text \<open>
  Properties of user directories: what an accepted component guarantees, that responses disclose
  neither the bind identity nor its credential, that a failed delete keeps the intent, and the two
  corners the preflight and the reconciliation leave open.
\<close>

section \<open>The closed profile\<close>

text \<open>The one value of a configuration key.\<close>

definition setting :: "directory_registration \<Rightarrow> string \<Rightarrow> string" where
  "setting r key = (case map_of (dir_config r) key of Some [v] \<Rightarrow> v | _ \<Rightarrow> [])"

definition ldaps_authority :: "string \<Rightarrow> bool" where
  "ldaps_authority v \<longleftrightarrow>
     (case urlsplit v of
        Inl _ \<Rightarrow> False
      | Inr u \<Rightarrow> lower (url_scheme u) = ''ldaps'' \<and> url_hostname u \<noteq> None \<and> url_username u = None \<and>
          url_password u = None \<and> url_query u = [] \<and> url_fragment u = [] \<and> url_path u \<in> {[], ''/''})"

definition well_formed_dn :: "string \<Rightarrow> bool" where
  "well_formed_dn s \<longleftrightarrow> (\<exists>rdns. dn_ok rdns \<and> dn_text rdns = s)"

definition directory_profile :: "directory_registration \<Rightarrow> bool" where
  "directory_profile r \<longleftrightarrow>
     is_slug (dir_name r) \<and> dir_provider_id r = ''ldap'' \<and>
     fst ` set (dir_config r) = set ALLOWED_CONFIG_KEYS \<and>
     setting r ''editMode'' = ''READ_ONLY'' \<and> setting r ''syncRegistrations'' = ''false'' \<and>
     setting r ''trustEmail'' = ''false'' \<and> setting r ''useTruststoreSpi'' = ''always'' \<and>
     list_all ldaps_authority (split_char (CHR '' '') (setting r ''connectionUrl'')) \<and>
     well_formed_dn (setting r ''usersDn'') \<and> well_formed_dn (setting r ''bindDn'') \<and>
     setting r ''bindCredential'' \<noteq> [] \<and> decimal_value (setting r ''priority'') \<le> 1000 \<and>
     (decimal_value (setting r ''connectionTimeout'') \<in> {100..30000}) \<and>
     (decimal_value (setting r ''readTimeout'') \<in> {100..30000})"

lemma single_value_ok: "single_value (k, items) = Inr p \<Longrightarrow> \<exists>v. items = [v] \<and> p = (k, v)"
  by (auto simp: single_value_def Let_def split: list.splits if_splits)

lemma single_values_setting:
  assumes "mapR single_value config = Inr vs"
  shows "config_value vs key = (case map_of config key of Some [v] \<Rightarrow> v | _ \<Rightarrow> [])"
    and "map fst vs = map fst config"
proof -
  from assms have all: "list_all2 (\<lambda>(k, items) p. \<exists>v. items = [v] \<and> p = (k, v)) config vs"
    unfolding mapR_Inr_iff by (rule list_all2_mono) (auto dest: single_value_ok)
  show "map fst vs = map fst config"
    using all by (induction rule: list_all2_induct) auto
  show "config_value vs key = (case map_of config key of Some [v] \<Rightarrow> v | _ \<Rightarrow> [])"
    using all unfolding config_value_def by (induction rule: list_all2_induct) auto
qed

lemma sort_Nil_iff [simp]: "sort xs = [] \<longleftrightarrow> xs = []"
  by (metis length_0_conv length_sort)

lemma none_left: "(case xs of [] \<Rightarrow> m | x # _ \<Rightarrow> Inl (f x)) = Inr v \<longleftrightarrow> xs = [] \<and> m = Inr v"
  by (cases xs) auto

lemma require_present_ok: "require_present err ks d = Inr u \<longleftrightarrow> (\<forall>k\<in>set ks. map_of d k \<noteq> None)"
proof -
  have "first_missing ks d = None \<longleftrightarrow> filter (\<lambda>k. map_of d k = None) ks = []"
    using sort_Nil_iff [of "filter (\<lambda>k. map_of d k = None) ks"]
    unfolding first_missing_def by (auto simp del: sort_Nil_iff split: list.splits)
  then show ?thesis
    by (auto simp: require_present_def filter_empty_conv split: option.splits)
qed

lemma single_config_values_ok:
  assumes "single_config_values r = Inr vs"
  shows "config_value vs = setting r" and "fst ` set (dir_config r) = set ALLOWED_CONFIG_KEYS"
proof -
  from assms have single: "mapR single_value (dir_config r) = Inr vs"
    and known: "\<forall>k\<in>set (map fst vs). k \<in> set ALLOWED_CONFIG_KEYS"
    and present: "\<forall>k\<in>set ALLOWED_CONFIG_KEYS. map_of vs k \<noteq> None"
    unfolding single_config_values_def
    by (auto simp: bindR_eq_Inr none_left require_present_ok filter_empty_conv split: if_splits)
  note vals = single_values_setting [OF single]
  show "config_value vs = setting r"
    using vals(1) by (auto simp: setting_def)
  have "fst ` set vs = set ALLOWED_CONFIG_KEYS"
    using known present by (auto simp: map_of_eq_None_iff)
  then show "fst ` set (dir_config r) = set ALLOWED_CONFIG_KEYS"
    using vals(2) by (metis set_map)
qed

lemma endpoints_ok: "check_endpoints es seen = Inr () \<Longrightarrow> list_all ldaps_authority es"
proof (induction es arbitrary: seen)
  case (Cons e es)
  from Cons.prems obtain key where key: "endpoint_key e = Inr key" "check_endpoints es (key # seen) = Inr ()"
    by (auto simp: bindR_eq_Inr split: if_splits)
  from key(1) obtain u p where "split_url e = Some (u, p)" "\<not> invalid_endpoint_url u p"
    by (auto simp: endpoint_key_def Let_def split: option.splits if_splits)
  then have "ldaps_authority e"
    by (auto simp: split_url_def ldaps_authority_def invalid_endpoint_url_def bindR_eq_Inr split: sum.splits)
  with Cons.IH [OF key(2)] show ?case by simp
qed simp

lemma connection_urls_ok:
  "validate_connection_urls v = Inr () \<Longrightarrow> list_all ldaps_authority (split_char (CHR '' '') v)"
  unfolding validate_connection_urls_def by (auto split: if_splits intro: endpoints_ok)

lemma bounded_integer_ok:
  "require_bounded_integer config f lo hi = Inr () \<Longrightarrow> decimal_value (config_value config f) \<in> {lo..hi}"
  by (auto simp: require_bounded_integer_def python_int_def Let_def bindR_eq_Inr split: if_splits)

lemma exact_boolean_ok:
  "require_exact_boolean config f b = Inr () \<Longrightarrow> config_value config f = (if b then ''true'' else ''false'')"
  by (auto simp: require_exact_boolean_def Let_def split: if_splits)

text \<open>
  A directory component that passes the preflight meets the closed profile: exactly the known
  settings; a read-only LDAP provider that neither writes registrations back nor trusts email;
  LDAPS authorities only, through the truststore; well-formed distinguished names for users and the
  bind identity; a bind credential; bounded priority and timeouts.
\<close>

theorem accepted_directory_profile:
  assumes "validate_directory_registration r = Inr v"
  shows "directory_profile r"
proof -
  from assms obtain cfg where identity: "require_component_identity r = Inr ()" and cfg: "single_config_values r = Inr cfg"
    and booleans: "forR DIRECTORY_BOOLEANS (\<lambda>(f, b). require_exact_boolean cfg f b) = Inr ()"
    and modes: "config_value cfg ''editMode'' = ''READ_ONLY''" "config_value cfg ''useTruststoreSpi'' = ''always''"
    and urls: "validate_connection_urls (config_value cfg ''connectionUrl'') = Inr ()"
    and dns: "validate_distinguished_name (config_value cfg ''usersDn'') ''usersDn'' = Inr ()"
      "validate_distinguished_name (config_value cfg ''bindDn'') ''bindDn'' = Inr ()"
    and credential: "config_value cfg ''bindCredential'' \<noteq> []"
    and ints: "require_bounded_integer cfg ''priority'' 0 1000 = Inr ()"
      "require_bounded_integer cfg ''connectionTimeout'' 100 30000 = Inr ()"
      "require_bounded_integer cfg ''readTimeout'' 100 30000 = Inr ()"
    unfolding validate_directory_registration_def bindR_eq_Inr requireR_eq_Inr forR.simps by auto
  have flags: "config_value cfg ''syncRegistrations'' = ''false''" "config_value cfg ''trustEmail'' = ''false''"
    using booleans unfolding DIRECTORY_BOOLEANS_def
    by (auto simp: bindR_eq_Inr dest!: exact_boolean_ok)
  have "is_slug (dir_name r)" "dir_provider_id r = ''ldap''"
    using identity by (auto simp: require_component_identity_def bindR_eq_Inr DIRECTORY_PROVIDER_ID_def)
  moreover note single_config_values_ok [OF cfg]
  moreover have "well_formed_dn (config_value cfg ''usersDn'')" "well_formed_dn (config_value cfg ''bindDn'')"
    using dns unfolding well_formed_dn_def dn_validator_iff by blast+
  ultimately show ?thesis
    using modes flags connection_urls_ok [OF urls] credential bounded_integer_ok [OF ints(1)]
      bounded_integer_ok [OF ints(2)] bounded_integer_ok [OF ints(3)]
    unfolding directory_profile_def by simp
qed

section \<open>Redaction\<close>

definition redacted_view :: "directory_view \<Rightarrow> bool" where
  "redacted_view v \<longleftrightarrow> list_all (\<lambda>(k, items). k \<notin> {''bindCredential'', ''bindDn''} \<or> items = [''<redacted>'']) (dv_config v)"

primrec statuses_of :: "dir_response \<Rightarrow> dir_status list" where
  "statuses_of (Dir_statuses sts) = sts"
| "statuses_of (Dir_status st) = [st]"
| "statuses_of Dir_no_content = []"

lemma view_redacted: "redacted_view (directory_view_of r)"
  by (auto simp: redacted_view_def directory_view_of_def REDACTED_CONFIG_KEYS_def DIRECTORY_REDACTED_VALUE_def list_all_iff)

lemma status_redacted: "redacted_view (ds_registration (directory_status r c i b e))"
  by (simp add: directory_status_def view_redacted)

lemma observing_redacted:
  "yields (\<lambda>st. redacted_view (ds_registration st)) (dir_status_for svc r)"
  "yields (\<lambda>st. redacted_view (ds_registration st)) (dir_converge svc r)"
  unfolding dir_status_for_def dir_converge_def by (intro yields_rules status_redacted)+

lemma route_redacted:
  "yields (\<lambda>resp. list_all (\<lambda>st. redacted_view (ds_registration st)) (statuses_of resp)) (directory_route svc req)"
proof -
  note one = observing_redacted [of svc]
  have many: "yields (list_all (\<lambda>st. redacted_view (ds_registration st))) (mapA (dir_status_for svc) rs)"
    "yields (list_all (\<lambda>st. redacted_view (ds_registration st))) (mapA (dir_converge svc) rs)" for rs
    by (intro yields_mapA one)+
  have sorted: "list_all P (by_directory_name sts) = list_all P sts" for P sts
    by (simp add: by_directory_name_def list_all_iff)
  have lists: "yields (list_all (\<lambda>st. redacted_view (ds_registration st))) (dir_list_registrations svc)"
    "yields (list_all (\<lambda>st. redacted_view (ds_registration st))) (dir_reconcile_all svc)"
    unfolding dir_list_registrations_def dir_reconcile_all_def dir_reconcile_snapshot_def
    by (rule yields_bind_any, rule yields_bind [OF many(1)], simp add: sorted yields_return)
       (rule yields_bind_any, rule yields_bind [OF many(2)], simp add: sorted yields_return)
  have singles: "yields (\<lambda>st. redacted_view (ds_registration st)) (dir_get_registration svc n)"
    "yields (\<lambda>st. redacted_view (ds_registration st)) (dir_put_registration svc n r)" for n r
    unfolding dir_get_registration_def dir_put_registration_def by (intro yields_bind_any one)+
  show ?thesis
    by (cases req)
       (auto intro!: yields_wrap [OF lists(1)] yields_wrap [OF lists(2)] yields_wrap [OF singles(1)]
         yields_wrap [OF singles(2)] yields_wrap [where Q = "\<lambda>_. True" and m = "dir_delete_registration svc n" for n]
         simp: yields_def [of "\<lambda>_. True"])
qed


section \<open>Deleting\<close>

lemma directory_reads_keep_store: "keepsA sync_store (get_stored_directory svc n)"
  unfolding get_stored_directory_def by (intro keepsA_rules)

text \<open>As for relying parties, a delete that fails at any point leaves the stored intent in place.\<close>

theorem failed_directory_delete_keeps_intent:
  fixes svc :: "('st, 'w) dir_service" and s :: "('st, 'w) sync_state"
  shows "case dir_delete_registration svc n s of
     (Inl e, t) \<Rightarrow> sync_store t = sync_store s
   | (Inr _, t) \<Rightarrow> sync_store t = kv_delete (dirs_kv svc) DIRECTORY_FEDERATION_RECEIPT_NAMESPACE n
       (kv_delete (dirs_kv svc) DIRECTORY_FEDERATION_NAMESPACE n (sync_store s))"
  unfolding dir_delete_registration_def
  by (rule remote_first; intro keepsA_rules directory_reads_keep_store)

section \<open>The JSON form\<close>

lemma config_items_dump: "mapR config_items (map (\<lambda>(k, items). (k, JArr (map JStr items))) config) = Inr config"
proof (induction config)
  case (Cons p config)
  have "map (\<lambda>item. case item of JStr s \<Rightarrow> s | _ \<Rightarrow> []) (map JStr items) = items" for items
    by (induction items) auto
  then have "config_items (k, JArr (map JStr items)) = Inr (k, items)" for k items
    by (simp add: config_items_def list_all_iff)
  with Cons show ?case by (cases p) simp
qed simp

text \<open>What is stored, hashed and sent to Keycloak parses back to the same component.\<close>

theorem directory_roundtrip: "parse_directory_registration (JObj (directory_dump r)) = Inr r"
  by (cases r)
     (simp add: parse_directory_registration_def directory_dump_def has_other_field_def DIRECTORY_FIELDS_def
       require_present_def first_missing_def directory_string_def dict_get_def directory_config_json_def
       config_items_dump)

end
