(* ===== verification/Directory_Convergence.thy ===== *)
theory Directory_Convergence
  imports Directory_Theorems
begin

text \<open>
  Reconciliation of user directories against a component store that keeps its contract, which lets
  Keycloak add fields to a component and hide the secret settings: one put converges and a second
  one only observes. The contract is interpreted on the test double. The same rules show what a
  reconciliation does whose snapshot is older than a delete.
\<close>

section \<open>The contract of the component store\<close>

definition has_name :: "string \<Rightarrow> dict \<Rightarrow> bool" where
  "has_name n c \<longleftrightarrow> py_eq (dict_get c ''name'') (JStr n)"

text \<open>A stored component shows its identifier, its three plain fields and every setting that is not secret.\<close>

definition shows_component :: "string \<Rightarrow> dict \<Rightarrow> dict \<Rightarrow> bool" where
  "shows_component i d c \<longleftrightarrow> dict_get c ''id'' = JStr i \<and>
     list_all (\<lambda>k. dict_get c k = dict_get d k) [''name'', ''providerId'', ''providerType''] \<and>
     (case dict_get d ''config'' of
        JObj config \<Rightarrow> (case dict_get c ''config'' of
            JObj shown \<Rightarrow> (\<forall>k. k \<in> set SECRET_CONFIG_KEYS \<or> dict_get shown k = dict_get config k)
          | _ \<Rightarrow> False)
      | _ \<Rightarrow> True)"

locale dir_components =
  fixes api :: "'w dir_api" and components :: "'w \<Rightarrow> dict list" and ready :: "'w \<Rightarrow> bool"
  assumes list_components: "ready w \<Longrightarrow> \<exists>cs w'. da_list api n w = (Inr cs, w') \<and>
      filter (has_name n) cs = filter (has_name n) (components w) \<and> components w' = components w \<and> ready w'"
    and create_component: "ready w \<Longrightarrow> \<exists>i c w'. da_create api d w = (Inr (Some i), w') \<and> i \<noteq> [] \<and>
      shows_component i d c \<and> components w' = components w @ [c] \<and> ready w'"
    and update_component: "ready w \<Longrightarrow> c0 \<in> set (components w) \<Longrightarrow> dict_get c0 ''id'' = JStr i \<Longrightarrow>
      \<exists>c w'. da_update api i d w = (Inr (), w') \<and> ready w' \<and> shows_component i d c \<and>
        components w' = map (\<lambda>x. if dict_get x ''id'' = JStr i then c else x) (components w)"

text \<open>No component of the directory, or one whose identifier no other component has.\<close>

definition single_component :: "directory_registration \<Rightarrow> dict list \<Rightarrow> bool" where
  "single_component r cs \<longleftrightarrow> filter (is_exact_component r) cs = [] \<or>
     (\<exists>c i. filter (is_exact_component r) cs = [c] \<and> component_id_of c = Inr i \<and>
        (\<forall>c'\<in>set cs. dict_get c' ''id'' = JStr i \<longrightarrow> c' = c))"

lemma exact_has_name: "is_exact_component r c \<Longrightarrow> has_name (dir_name r) c"
  by (simp add: is_exact_component_def has_name_def)

lemma exact_of_named: "filter (is_exact_component r) (filter (has_name (dir_name r)) cs) = filter (is_exact_component r) cs"
  by (auto simp: filter_filter intro!: filter_cong dest: exact_has_name)

lemma identity_of_valid:
  "validate_directory_registration r = Inr v \<Longrightarrow>
     dir_provider_id r = DIRECTORY_PROVIDER_ID \<and> dir_provider_type r = DIRECTORY_PROVIDER_TYPE \<and> is_slug (dir_name r)"
  by (auto simp: validate_directory_registration_def require_component_identity_def bindR_eq_Inr)

lemma shown_is_exact:
  assumes "validate_directory_registration r = Inr v" and "shows_component i (directory_dump r) c"
  shows "is_exact_component r c"
  using assms(2) identity_of_valid [OF assms(1)]
  by (simp add: shows_component_def is_exact_component_def directory_dump_def dict_get_def)

lemma config_json_lookup:
  "distinct (map fst config) \<Longrightarrow> (k, items) \<in> set config \<Longrightarrow>
     dict_get (map (\<lambda>(k, items). (k, JArr (map JStr items))) config) k = JArr (map JStr items)"
  by (induction config) (auto simp: dict_get_def rev_image_eqI)

lemma shown_matches:
  assumes "distinct (map fst (dir_config r))" and c: "shows_component i (directory_dump r) c"
  shows "observable_component_matches r c"
proof -
  have plain: "dict_get c ''name'' = JStr (dir_name r)" "dict_get c ''providerId'' = JStr (dir_provider_id r)"
    "dict_get c ''providerType'' = JStr (dir_provider_type r)"
    using c by (simp_all add: shows_component_def directory_dump_def dict_get_def)
  have "dict_get (directory_dump r) ''config'' = directory_config_json (dir_config r)"
    by (simp add: directory_dump_def dict_get_def)
  with c obtain shown where shown: "dict_get c ''config'' = JObj shown"
    "\<And>k. k \<notin> set SECRET_CONFIG_KEYS \<Longrightarrow>
       dict_get shown k = dict_get (map (\<lambda>(k, items). (k, JArr (map JStr items))) (dir_config r)) k"
    by (auto simp: shows_component_def directory_config_json_def split: json.splits)
  have "py_eq (dict_get shown k) (JArr (map JStr items))" if "(k, items) \<in> set (dir_config r)" "k \<notin> set SECRET_CONFIG_KEYS" for k items
    using shown(2) [OF that(2)] config_json_lookup [OF assms(1) that(1)] by (simp add: py_eq_JArr_strs del: py_eq.simps)
  with plain shown(1) show ?thesis
    by (auto simp: observable_component_matches_def list_all_iff)
qed

lemma shown_id: "shows_component i d c \<Longrightarrow> i \<noteq> [] \<Longrightarrow> component_id_of c = Inr i"
  by (simp add: shows_component_def component_id_of_def)

definition with_dir_receipt :: "('st, 'w) dir_service \<Rightarrow> directory_registration \<Rightarrow> 'st \<Rightarrow> 'st" where
  "with_dir_receipt svc r st =
     kv_put (dirs_kv svc) DIRECTORY_FEDERATION_RECEIPT_NAMESPACE (dir_name r) (directory_digest r) st"

context dir_components
begin

lemma exact_ready:
  assumes "dirs_api svc = api" "ready w"
  shows "\<exists>w'. exact_components svc r w = (Inr (filter (is_exact_component r) (components w)), w') \<and>
    components w' = components w \<and> ready w' \<and> w' = snd (da_list api (dir_name r) w)"
proof -
  obtain cs w' where w': "da_list api (dir_name r) w = (Inr cs, w')" "components w' = components w" "ready w'"
    "filter (has_name (dir_name r)) cs = filter (has_name (dir_name r)) (components w)"
    using list_components [OF assms(2), of "dir_name r"] by blast
  have "filter (is_exact_component r) cs = filter (is_exact_component r) (components w)"
    using w'(4) exact_of_named by metis
  with w' assms(1) show ?thesis by (simp add: exact_components_def bindA_def)
qed

lemma converge_rests:
  assumes svc: "dirs_api svc = api" "ready (sync_kc s)"
    and live: "filter (is_exact_component r) (components (sync_kc s)) = [c]" "component_id_of c = Inr i"
      "observable_component_matches r c" "dir_receipt_matches svc r (sync_store s)"
  shows "dir_converge svc r s = (Inr (directory_status r DIR_IN_SYNC (Some i) True None),
    s\<lparr>sync_kc := snd (da_list api (dir_name r) (sync_kc s))\<rparr>)"
  using exact_ready [OF svc, of r] live
  by (auto simp: dir_converge_def or_else_def remoteA_def zoomA_def)

lemma converge_creates:
  assumes svc: "dirs_api svc = api" "ready (sync_kc s)" and r: "validate_directory_registration r = Inr v"
    and absent: "filter (is_exact_component r) (components (sync_kc s)) = []"
  shows "\<exists>i c t. dir_converge svc r s = (Inr (directory_status r DIR_IN_SYNC (Some i) True None), t) \<and>
    sync_store t = with_dir_receipt svc r (sync_store s) \<and> ready (sync_kc t) \<and> i \<noteq> [] \<and>
    shows_component i (directory_dump r) c \<and> filter (is_exact_component r) (components (sync_kc t)) = [c]"
proof -
  obtain w1 where w1: "exact_components svc r (sync_kc s) = (Inr [], w1)" "components w1 = components (sync_kc s)" "ready w1"
    using exact_ready [OF svc, of r] absent by auto
  obtain i c w2 where w2: "da_create api (directory_dump r) w1 = (Inr (Some i), w2)" "i \<noteq> []"
    "shows_component i (directory_dump r) c" "components w2 = components w1 @ [c]" "ready w2"
    using create_component [OF w1(3)] by blast
  let ?t = "\<lparr>sync_store = with_dir_receipt svc r (sync_store s), sync_kc = w2\<rparr>"
  have "dir_converge svc r s = (Inr (directory_status r DIR_IN_SYNC (Some i) True None), ?t)"
    using w1(1) w2(1) svc(1)
    by (cases s) (simp add: dir_converge_def or_else_def remoteA_def zoomA_def dir_record_receipt_def with_dir_receipt_def)
  with w1(2) w2 absent shown_is_exact [OF r w2(3)] show ?thesis
    by (intro exI [of _ i] exI [of _ c] exI [of _ ?t]) simp
qed

lemma converge_once:
  assumes svc: "dirs_api svc = api" "ready (sync_kc s)"
    and r: "validate_directory_registration r = Inr v" "distinct (map fst (dir_config r))"
    and live: "single_component r (components (sync_kc s))"
  shows "\<exists>i c t. dir_converge svc r s = (Inr (directory_status r DIR_IN_SYNC (Some i) True None), t) \<and>
    (sync_store t = with_dir_receipt svc r (sync_store s) \<or>
     sync_store t = sync_store s \<and> dir_receipt_matches svc r (sync_store s)) \<and>
    ready (sync_kc t) \<and> filter (is_exact_component r) (components (sync_kc t)) = [c] \<and> component_id_of c = Inr i \<and>
    observable_component_matches r c"
proof -
  from live consider (absent) "filter (is_exact_component r) (components (sync_kc s)) = []"
    | (live) c i where "filter (is_exact_component r) (components (sync_kc s)) = [c]" "component_id_of c = Inr i"
        "\<forall>c'\<in>set (components (sync_kc s)). dict_get c' ''id'' = JStr i \<longrightarrow> c' = c"
    unfolding single_component_def by blast
  then show ?thesis
  proof cases
    case absent
    from converge_creates [OF svc r(1) absent] shown_matches [OF r(2)] shown_id show ?thesis by metis
  next
    case (live c i)
    obtain w1 where w1: "exact_components svc r (sync_kc s) = (Inr [c], w1)" "components w1 = components (sync_kc s)"
      "ready w1" "w1 = snd (da_list api (dir_name r) (sync_kc s))"
      using exact_ready [OF svc, of r] live(1) by auto
    show ?thesis
    proof (cases "observable_component_matches r c \<and> dir_receipt_matches svc r (sync_store s)")
      case True
      with converge_rests [OF svc live(1,2)] live w1 show ?thesis by (intro exI [of _ i] exI [of _ c]) auto
    next
      case False
      have "c \<in> set (filter (is_exact_component r) (components (sync_kc s)))" by (simp add: live(1))
      then have c: "c \<in> set (components w1)" "is_exact_component r c" by (simp_all add: w1(2))
      have id: "dict_get c ''id'' = JStr i" "i \<noteq> []"
        using live(2) by (auto simp: component_id_of_def split: json.splits if_splits)
      obtain c' w2 where w2: "da_update api i (directory_dump r) w1 = (Inr (), w2)" "ready w2"
        "shows_component i (directory_dump r) c'"
        "components w2 = map (\<lambda>x. if dict_get x ''id'' = JStr i then c' else x) (components w1)"
        using update_component [OF w1(3) c(1) id(1)] by blast
      let ?t = "\<lparr>sync_store = with_dir_receipt svc r (sync_store s), sync_kc = w2\<rparr>"
      note exact = shown_is_exact [OF r(1) w2(3)]
      let ?f = "\<lambda>x. if dict_get x ''id'' = JStr i then c' else x"
      have "filter (\<lambda>x. is_exact_component r (?f x)) (components w1) = filter (is_exact_component r) (components w1)"
        using live(3) c(2) exact unfolding w1(2) by (intro filter_cong) auto
      then have one: "filter (is_exact_component r) (components w2) = [c']"
        using live(1) id(1) unfolding w2(4) w1(2) by (simp add: filter_map comp_def)
      have "dir_converge svc r s = (Inr (directory_status r DIR_IN_SYNC (Some i) True None), ?t)"
        using live(1,2) w1(1) w2(1) svc(1) False
        by (cases s) (auto simp: dir_converge_def or_else_def remoteA_def zoomA_def dir_record_receipt_def with_dir_receipt_def)
      with one w2(2) shown_matches [OF r(2) w2(3)] shown_id [OF w2(3) id(2)] show ?thesis
        by (intro exI [of _ i] exI [of _ c'] exI [of _ ?t]) simp
    qed
  qed
qed

end

section \<open>The component store of the test double\<close>

text \<open>The directory part of \<open>tests/mock_product_keycloak.py\<close>.\<close>

record mock_components =
  mo_calls :: "string list"
  mo_components :: "(string \<times> dict) list"
  mo_sequence :: nat

definition mo_called :: "string \<Rightarrow> mock_components \<Rightarrow> mock_components" where
  "mo_called call m = m\<lparr>mo_calls := mo_calls m @ [call]\<rparr>"

definition stored_component :: "string \<Rightarrow> dict \<Rightarrow> dict" where
  "stored_component i payload =
     (let component = dict_set payload ''id'' (JStr i) in
      if dict_has component ''parentId'' then component else dict_set component ''parentId'' (JStr ''cwl''))"

definition mock_list_components :: "string \<Rightarrow> (mock_components, dict list) action" where
  "mock_list_components n m =
     (Inr (filter (\<lambda>c. py_eq (dict_get c ''name'') (JStr n)) (map snd (mo_components m))),
      mo_called (''list_user_storage_components:'' @ n) m)"

definition mock_create_component :: "dict \<Rightarrow> (mock_components, string option) action" where
  "mock_create_component payload m =
     (let n = mo_sequence m + 1; i = ''directory-component-'' @ show_nat n in
      (Inr (Some i), mo_called (''create_user_storage_component:'' @ i)
        (m\<lparr>mo_sequence := n, mo_components := al_set (mo_components m) i (stored_component i payload)\<rparr>)))"

definition mock_update_component :: "string \<Rightarrow> dict \<Rightarrow> (mock_components, unit) action" where
  "mock_update_component i payload m =
     (if map_of (mo_components m) i = None then (Inl (KeyError i), m)
      else (Inr (), mo_called (''update_user_storage_component:'' @ i)
        (m\<lparr>mo_components := al_set (mo_components m) i (stored_component i payload)\<rparr>)))"

definition mock_delete_component :: "string \<Rightarrow> (mock_components, unit) action" where
  "mock_delete_component i m =
     (if map_of (mo_components m) i = None then (Inl (KeyError i), m)
      else (Inr (), mo_called (''delete_user_storage_component:'' @ i)
        (m\<lparr>mo_components := al_pop (mo_components m) i\<rparr>)))"

definition mock_dir_api :: "mock_components dir_api" where
  "mock_dir_api = \<lparr>da_list = mock_list_components, da_create = mock_create_component,
     da_update = mock_update_component, da_delete = mock_delete_component\<rparr>"

definition mo_view :: "mock_components \<Rightarrow> dict list" where
  "mo_view m = map snd (mo_components m)"

definition mo_ready :: "mock_components \<Rightarrow> bool" where
  "mo_ready m \<longleftrightarrow> distinct (map fst (mo_components m)) \<and>
     (\<forall>(u, c)\<in>set (mo_components m). dict_get c ''id'' = JStr u) \<and>
     (\<forall>n > mo_sequence m. ''directory-component-'' @ show_nat n \<notin> fst ` set (mo_components m))"

lemma dict_get_set_other: "dict_get (dict_set d k v) k' = (if k' = k then v else dict_get d k')"
  by (induction d) (auto simp: dict_get_def)

lemma stored_component_get:
  "k \<noteq> ''parentId'' \<Longrightarrow> dict_get (stored_component i d) k = (if k = ''id'' then JStr i else dict_get d k)"
  by (simp add: stored_component_def Let_def dict_get_set_other)

lemma stored_component_shows: "shows_component i d (stored_component i d)"
  by (auto simp: shows_component_def stored_component_get split: json.split)

lemma mo_create:
  assumes "mo_ready m"
  shows "\<exists>i c m'. mock_create_component d m = (Inr (Some i), m') \<and> i \<noteq> [] \<and> shows_component i d c \<and>
    mo_view m' = mo_view m @ [c] \<and> mo_ready m'"
proof -
  let ?i = "''directory-component-'' @ show_nat (Suc (mo_sequence m))"
  have fresh: "?i \<notin> fst ` set (mo_components m)"
    using assms unfolding mo_ready_def by blast
  then show ?thesis
    using assms al_set_new [OF fresh, of "stored_component ?i d"] stored_component_shows
    by (intro exI [of _ ?i] exI [of _ "stored_component ?i d"])
       (auto simp: mock_create_component_def Let_def mo_view_def mo_called_def mo_ready_def stored_component_get)
qed

lemma mo_update:
  assumes ready: "mo_ready m" and c: "c \<in> set (mo_view m)" "dict_get c ''id'' = JStr i"
  shows "\<exists>c m'. mock_update_component i d m = (Inr (), m') \<and> mo_ready m' \<and> shows_component i d c \<and>
    mo_view m' = map (\<lambda>x. if dict_get x ''id'' = JStr i then c else x) (mo_view m)"
proof -
  let ?new = "stored_component i d"
  have dist: "distinct (map fst (mo_components m))" and ids: "\<forall>(u, c)\<in>set (mo_components m). dict_get c ''id'' = JStr u"
    using ready unfolding mo_ready_def by blast+
  have known: "i \<in> fst ` set (mo_components m)"
    using c ids unfolding mo_view_def by force
  have set: "al_set (mo_components m) i ?new = map (\<lambda>(u, c). if u = i then (i, ?new) else (u, c)) (mo_components m)"
    by (rule al_set_replace [OF dist known])
  have keys: "map fst (al_set (mo_components m) i ?new) = map fst (mo_components m)"
    unfolding set by (auto intro: map_cong)
  have filed: "\<forall>(u, c)\<in>set (al_set (mo_components m) i ?new). dict_get c ''id'' = JStr u"
    using ids unfolding set by (auto simp: stored_component_get split: if_splits)
  have view: "map snd (al_set (mo_components m) i ?new) =
      map (\<lambda>c. if dict_get c ''id'' = JStr i then ?new else c) (map snd (mo_components m))"
    unfolding set using ids by auto
  have "map_of (mo_components m) i \<noteq> None"
    using known by (simp add: map_of_eq_None_iff)
  then show ?thesis
    using ready filed view dist
    by (intro exI [of _ ?new]) (auto simp: mock_update_component_def mo_called_def mo_view_def mo_ready_def keys
      stored_component_shows simp flip: set_map)
qed

interpretation mock_dir: dir_components mock_dir_api mo_view mo_ready
proof
  show "\<exists>cs w'. da_list mock_dir_api n w = (Inr cs, w') \<and> filter (has_name n) cs = filter (has_name n) (mo_view w) \<and>
      mo_view w' = mo_view w \<and> mo_ready w'" if "mo_ready w" for w n
    using that by (auto simp: mock_dir_api_def mock_list_components_def has_name_def [abs_def] mo_view_def mo_called_def mo_ready_def)
qed (use mo_create mo_update in \<open>auto simp: mock_dir_api_def\<close>)

section \<open>Convergence of a put\<close>

context kv_store
begin

lemma dir_receipt_recorded:
  "dirs_kv svc = kv \<Longrightarrow> kv_inv st \<Longrightarrow> dir_receipt_matches svc r (with_dir_receipt svc r st)"
  by (simp add: dir_receipt_matches_def with_dir_receipt_def get_put)

end

text \<open>
  Against a component store that keeps its contract (it may add fields and hide the secret
  settings), putting a valid directory whose component is absent or unambiguous ends in sync in one
  request, and converging again is one observation: the same status, no write to Keycloak and none
  to the store.
\<close>

theorem put_directory_converges:
  assumes "dir_components api components ready" and "dirs_kv svc = sqlite_kv_ops" and "dirs_api svc = api"
    and "sqlite_kv_inv (sync_store s)" and "ready (sync_kc s)"
    and "single_component r (components (sync_kc s))"
    and "validate_directory_registration r = Inr v" and "distinct (map fst (dir_config r))"
  shows "\<exists>i t. dir_put_registration svc (dir_name r) r s = (Inr (directory_status r DIR_IN_SYNC (Some i) True None), t) \<and>
      dir_converge svc r t = (Inr (directory_status r DIR_IN_SYNC (Some i) True None),
        t\<lparr>sync_kc := snd (da_list api (dir_name r) (sync_kc t))\<rparr>)"
proof -
  let ?put = "kv_put sqlite_kv_ops DIRECTORY_FEDERATION_NAMESPACE (dir_name r) (dirs_dump_json svc r)"
  let ?s = "sync_store_update ?put s"
  have inv: "sqlite_kv_inv (sync_store ?s)"
    using sqlite_kv.put_inv [OF assms(4)] by simp
  obtain i c t where t: "dir_converge svc r ?s = (Inr (directory_status r DIR_IN_SYNC (Some i) True None), t)"
    "sync_store t = with_dir_receipt svc r (sync_store ?s) \<or>
     sync_store t = sync_store ?s \<and> dir_receipt_matches svc r (sync_store ?s)"
    "ready (sync_kc t)" "filter (is_exact_component r) (components (sync_kc t)) = [c]" "component_id_of c = Inr i"
    "observable_component_matches r c"
    using dir_components.converge_once [OF assms(1,3) _ assms(7,8), of ?s] assms(5,6) by auto
  have "dir_receipt_matches svc r (sync_store t)"
    using t(2) sqlite_kv.dir_receipt_recorded [OF assms(2) inv] by auto
  from dir_components.converge_rests [OF assms(1,3) t(3,4,5,6) this]
  have "dir_converge svc r t = (Inr (directory_status r DIR_IN_SYNC (Some i) True None),
        t\<lparr>sync_kc := snd (da_list api (dir_name r) (sync_kc t))\<rparr>)" .
  moreover have "dir_put_registration svc (dir_name r) r s = dir_converge svc r ?s"
    using assms(2,7) identity_of_valid [OF assms(7)]
    by (simp add: dir_put_registration_def validate_directory_path_name_def)
  ultimately show ?thesis using t(1) by auto
qed

section \<open>Reconciling an old snapshot\<close>

text \<open>
  C24. \<open>reconcile_all\<close> works on the snapshot it took before it acquired the convergence lock. When a
  directory of the snapshot has been deleted meanwhile, from Keycloak and from the store, the
  reconciliation creates its component again and reports it in sync, while the store holds no
  intent for it any more: the directory is live and unmanaged. (The relying-party service reads
  each entry again under its lock and skips the deleted ones.)
\<close>

theorem stale_reconcile_recreates:
  assumes "dir_components api components ready" and "dirs_kv svc = sqlite_kv_ops" and "dirs_api svc = api"
    and "sqlite_kv_inv (sync_store t)" and "ready (sync_kc t)" and "validate_directory_registration r = Inr v"
    and deleted: "filter (is_exact_component r) (components (sync_kc t)) = []"
      "kv_get sqlite_kv_ops DIRECTORY_FEDERATION_NAMESPACE (dir_name r) (sync_store t) = None"
  shows "\<exists>i c u. dir_reconcile_snapshot svc [r] t = (Inr [directory_status r DIR_IN_SYNC (Some i) True None], u) \<and>
      filter (is_exact_component r) (components (sync_kc u)) = [c] \<and>
      kv_get sqlite_kv_ops DIRECTORY_FEDERATION_NAMESPACE (dir_name r) (sync_store u) = None"
proof -
  obtain i c u where u: "dir_converge svc r t = (Inr (directory_status r DIR_IN_SYNC (Some i) True None), u)"
    "sync_store u = with_dir_receipt svc r (sync_store t)"
    "filter (is_exact_component r) (components (sync_kc u)) = [c]"
    using dir_components.converge_creates [OF assms(1,3,5,6) deleted(1)] by blast
  have "kv_get sqlite_kv_ops DIRECTORY_FEDERATION_NAMESPACE (dir_name r) (sync_store u) = None"
    using deleted(2) assms(2,4)
    by (simp add: u(2) with_dir_receipt_def sqlite_kv.get_put DIRECTORY_FEDERATION_NAMESPACE_def
        DIRECTORY_FEDERATION_RECEIPT_NAMESPACE_def)
  with u show ?thesis
    by (auto simp: dir_reconcile_snapshot_def by_directory_name_def bindA_def)
qed

section \<open>Integers beyond Python's limit\<close>

text \<open>
  The preflight lets a setting be up to 16384 characters long, and an unsigned decimal integer of
  more than 4300 digits passes its lexical check; Python's \<open>int\<close> then raises \<open>ValueError\<close>, which no
  handler of the validation maps to a client error.
\<close>

lemma contains_set: "contains p s \<Longrightarrow> set p \<subseteq> set s"
proof (induction s)
  case Nil
  then show ?case by (simp add: prefix_def split: if_splits)
next
  case (Cons c s)
  then show ?case using set_mono_prefix by (fastforce simp: startswith_def split: if_splits)
qed

theorem huge_integer_unmapped:
  assumes "4300 < n" and "n \<le> 16384"
  shows "single_value (''priority'', [replicate n (CHR ''9'')]) = Inr (''priority'', replicate n (CHR ''9'')) \<and>
    require_bounded_integer [(''priority'', replicate n (CHR ''9''))] ''priority'' 0 1000 =
      Inl (ValueError ''Exceeds the limit (4300 digits) for integer string conversion'')"
proof -
  have "isdecimal_char (CHR ''9'')" by code_simp
  moreover have "\<not> has_template_marker (replicate n (CHR ''9''))"
    by (auto simp: has_template_marker_def dest!: contains_set)
  moreover obtain k where "n = Suc k" using assms(1) by (cases n) auto
  ultimately show ?thesis
    using assms
    by (auto simp: single_value_def require_bounded_integer_def config_value_def is_decimal_integer_def python_int_def
        MAX_INT_DIGITS_def MAX_CONFIG_KEY_LENGTH_def MAX_CONFIG_VALUE_LENGTH_def Let_def list_all_iff)
qed

section \<open>Witnesses\<close>

definition demo_directory :: directory_registration where
  "demo_directory =
     \<lparr>dir_name = ''corp-ad'', dir_provider_id = ''ldap'',
      dir_provider_type = ''org.keycloak.storage.UserStorageProvider'',
      dir_config =
       [(''enabled'', [''true'']), (''importEnabled'', [''true'']), (''syncRegistrations'', [''false'']),
        (''trustEmail'', [''false'']), (''connectionPooling'', [''true'']),
        (''allowKerberosAuthentication'', [''false'']), (''editMode'', [''READ_ONLY'']),
        (''useTruststoreSpi'', [''always'']), (''vendor'', [''ad'']), (''searchScope'', [''2'']),
        (''connectionUrl'', [''ldaps://dc1.corp.example ldaps://dc2.corp.example:3269'']),
        (''usersDn'', [''ou=people,dc=corp'']), (''bindDn'', [''cn=reader+uid=7,dc=corp'']),
        (''bindCredential'', [''s3cret'']), (''usernameLDAPAttribute'', [''sAMAccountName'']),
        (''rdnLDAPAttribute'', [''cn'']), (''uuidLDAPAttribute'', [''objectGUID'']),
        (''userObjectClasses'', [''person, organizationalPerson'']), (''priority'', [''10'']),
        (''connectionTimeout'', [''5000'']), (''readTimeout'', [''5000''])]\<rparr>"

definition demo_dir_service :: "(sqlite_kv, mock_components) dir_service" where
  "demo_dir_service = \<lparr>dirs_kv = sqlite_kv_ops, dirs_api = mock_dir_api, dirs_dump_json = dir_name,
     dirs_validate_json = (\<lambda>s. if s = dir_name demo_directory then Inr demo_directory else Inl (ValidationError s))\<rparr>"

definition demo_dir_state :: "(sqlite_kv, mock_components) sync_state" where
  "demo_dir_state = \<lparr>sync_store = [], sync_kc = \<lparr>mo_calls = [], mo_components = [], mo_sequence = 0\<rparr>\<rparr>"

lemma demo_directory_ok: "okR (validate_directory_registration demo_directory)"
  by code_simp

lemma demo_directory_keys: "distinct (map fst (dir_config demo_directory))"
  by code_simp

lemma demo_dir_simps:
  "dirs_kv demo_dir_service = sqlite_kv_ops" "dirs_api demo_dir_service = mock_dir_api"
  "sqlite_kv_inv (sync_store demo_dir_state)" "mo_ready (sync_kc demo_dir_state)"
  "single_component demo_directory (mo_view (sync_kc demo_dir_state))"
  "filter (is_exact_component demo_directory) (mo_view (sync_kc demo_dir_state)) = []"
  "kv_get sqlite_kv_ops DIRECTORY_FEDERATION_NAMESPACE (dir_name demo_directory) (sync_store demo_dir_state) = None"
  by (simp_all add: demo_dir_service_def demo_dir_state_def sqlite_kv_inv_def sqlite_kv_ops_def sqlite_get_def
      mo_ready_def single_component_def mo_view_def)

theorem accepted_directory_profile_witness: "directory_profile demo_directory"
  using demo_directory_ok accepted_directory_profile unfolding okR_iff by blast

theorem put_directory_converges_witness:
  "\<exists>i t. dir_put_registration demo_dir_service (dir_name demo_directory) demo_directory demo_dir_state =
        (Inr (directory_status demo_directory DIR_IN_SYNC (Some i) True None), t) \<and>
      dir_converge demo_dir_service demo_directory t = (Inr (directory_status demo_directory DIR_IN_SYNC (Some i) True None),
        t\<lparr>sync_kc := snd (da_list mock_dir_api (dir_name demo_directory) (sync_kc t))\<rparr>)"
  using demo_directory_ok put_directory_converges [OF mock_dir.dir_components_axioms demo_dir_simps(1,2,3,4,5) _ demo_directory_keys]
  unfolding okR_iff by blast

theorem stale_reconcile_recreates_witness:
  "\<exists>i c u. dir_reconcile_snapshot demo_dir_service [demo_directory] demo_dir_state =
        (Inr [directory_status demo_directory DIR_IN_SYNC (Some i) True None], u) \<and>
      filter (is_exact_component demo_directory) (mo_view (sync_kc u)) = [c] \<and>
      kv_get sqlite_kv_ops DIRECTORY_FEDERATION_NAMESPACE (dir_name demo_directory) (sync_store u) = None"
  using demo_directory_ok stale_reconcile_recreates [OF mock_dir.dir_components_axioms demo_dir_simps(1,2,3,4) _ demo_dir_simps(6,7)]
  unfolding okR_iff by blast

end
