(* ===== verification/SubjectAssertion.thy ===== *)
theory SubjectAssertion
  imports Sha256 Base64 Url
begin

text \<open>
  Verification of subject assertions, \<open>app/subject_assertion.py\<close>: the deployment-pinned profile
  with its public keys, the checks of a compact JWS in their fixed order, and the correlation key of
  a durable subject. The internal signal \<open>_Rejected\<close> is the exception \<open>Rejected\<close>. Parameters are the
  primitives of the \<open>cryptography\<close> package and the scanner behind \<open>json.loads\<close> on UTF-8 bytes, which
  keeps repeated members of an object so that the hook of the source can refuse them. Arguments have
  the type the source checks for.
\<close>

definition CONTRACT_VERSION :: string where "CONTRACT_VERSION = ''keyverse.subject-assertion/v1''"
definition SUPPORTED_ALGORITHMS :: "string list" where "SUPPORTED_ALGORITHMS = [''ES256'', ''RS256'']"
definition SUBJECT_TYPES :: "string list" where "SUBJECT_TYPES = [''public'', ''pairwise'', ''ephemeral'']"
definition TENANT_CLAIMS :: "string list" where "TENANT_CLAIMS = [''org'']"

definition REJECTION_REASONS :: "string list" where
  "REJECTION_REASONS =
     [''malformed_token'', ''algorithm_not_allowed'', ''unsupported_header'', ''token_type_mismatch'',
      ''unknown_key'', ''invalid_signature'', ''issuer_mismatch'', ''audience_mismatch'', ''invalid_claim'',
      ''expired'', ''not_yet_valid'', ''nonce_mismatch'', ''tenant_missing'']"

definition DURABLE_SUBJECT_TYPES :: "string list" where "DURABLE_SUBJECT_TYPES = [''public'', ''pairwise'']"

definition KEY_ALGORITHM_BY_TYPE :: "(string \<times> string) list" where
  "KEY_ALGORITHM_BY_TYPE = [(''EC'', ''ES256''), (''RSA'', ''RS256'')]"

definition ALLOWED_HEADER_MEMBERS :: "string list" where "ALLOWED_HEADER_MEMBERS = [''alg'', ''typ'', ''kid'']"

definition PRIVATE_JWK_MEMBERS :: "string list" where
  "PRIVATE_JWK_MEMBERS = [''d'', ''p'', ''q'', ''dp'', ''dq'', ''qi'', ''oth'', ''k'']"

definition MAX_TOKEN_LENGTH :: nat where "MAX_TOKEN_LENGTH = 16384"
definition MAX_SUBJECT_LENGTH :: nat where "MAX_SUBJECT_LENGTH = 255"
definition MAX_TENANT_LENGTH :: nat where "MAX_TENANT_LENGTH = 128"
definition MAX_AUDIENCE_LENGTH :: nat where "MAX_AUDIENCE_LENGTH = 255"
definition MAX_LEEWAY_SECONDS :: int where "MAX_LEEWAY_SECONDS = 300"
definition MIN_RSA_BITS :: nat where "MIN_RSA_BITS = 2048"
definition MAX_RSA_BITS :: nat where "MAX_RSA_BITS = 8192"
definition MIN_RSA_EXPONENT :: nat where "MIN_RSA_EXPONENT = 65537"
definition EC_COORDINATE_LENGTH :: nat where "EC_COORDINATE_LENGTH = 32"
definition MAX_NUMERIC_DATE :: int where "MAX_NUMERIC_DATE = 2 ^ 53 - 1"
definition ES256_SIGNATURE_LENGTH :: nat where "ES256_SIGNATURE_LENGTH = 64"

record 'k crypto =
  cr_ec_key :: "nat \<Rightarrow> nat \<Rightarrow> 'k result"
  cr_rsa_key :: "nat \<Rightarrow> nat \<Rightarrow> 'k result"
  cr_verify_ecdsa :: "'k \<Rightarrow> nat \<Rightarrow> nat \<Rightarrow> nat list \<Rightarrow> bool"
  cr_verify_rsa :: "'k \<Rightarrow> nat list \<Rightarrow> nat list \<Rightarrow> bool"
  cr_scan_json :: "nat list \<Rightarrow> json option"

record 'k subject_profile =
  sp_issuer :: string
  sp_audience :: string
  sp_allowed_algorithms :: "string list"
  sp_subject_type :: string
  sp_required_tenant_claim :: "string option"
  sp_leeway_seconds :: int
  sp_trusted_additional_audiences :: "string list"
  sp_keys :: "(string \<times> (string \<times> 'k)) list"

record subject_result =
  sr_outcome :: string
  sr_reason :: "string option"
  sr_contract_version :: string
  sr_issuer :: "string option"
  sr_subject :: "string option"
  sr_audience :: "string option"
  sr_tenant :: "string option"
  sr_subject_type :: "string option"
  sr_correlation :: "string option"
  sr_correlation_key :: "string option"
  sr_key_id :: "string option"
  sr_algorithm :: "string option"
  sr_issued_at :: "int option"
  sr_expires_at :: "int option"

definition opt_entry :: "string \<Rightarrow> json option \<Rightarrow> dict" where
  "opt_entry name value = (case value of None \<Rightarrow> [] | Some v \<Rightarrow> [(name, v)])"

definition receipt :: "subject_result \<Rightarrow> dict" where
  "receipt r =
     [(''contract_version'', JStr (sr_contract_version r)), (''outcome'', JStr (sr_outcome r))] @
     opt_entry ''reason'' (map_option JStr (sr_reason r)) @ opt_entry ''issuer'' (map_option JStr (sr_issuer r)) @
     opt_entry ''subject'' (map_option JStr (sr_subject r)) @ opt_entry ''audience'' (map_option JStr (sr_audience r)) @
     opt_entry ''tenant'' (map_option JStr (sr_tenant r)) @
     opt_entry ''subject_type'' (map_option JStr (sr_subject_type r)) @
     opt_entry ''correlation'' (map_option JStr (sr_correlation r)) @
     opt_entry ''correlation_key'' (map_option JStr (sr_correlation_key r)) @
     opt_entry ''key_id'' (map_option JStr (sr_key_id r)) @ opt_entry ''algorithm'' (map_option JStr (sr_algorithm r)) @
     opt_entry ''issued_at'' (map_option JInt (sr_issued_at r)) @
     opt_entry ''expires_at'' (map_option JInt (sr_expires_at r))"

section \<open>Text\<close>

text \<open>The Unicode categories Cc, Cf, Cs, Zl and Zp among the characters of the model.\<close>

definition is_invisible :: "char \<Rightarrow> bool" where
  "is_invisible c \<longleftrightarrow> ord c < 32 \<or> 127 \<le> ord c \<and> ord c \<le> 159 \<or> ord c = 173"

definition has_invisible :: "string \<Rightarrow> bool" where
  "has_invisible s = list_ex is_invisible s"

definition is_client_identifier :: "string \<Rightarrow> bool" where
  "is_client_identifier value \<longleftrightarrow>
     0 < length value \<and> length value \<le> MAX_AUDIENCE_LENGTH \<and> value = strip value \<and> \<not> has_invisible value"

section \<open>The profile\<close>

definition validate_issuer :: "string \<Rightarrow> unit result" where
  "validate_issuer issuer =
     bindR (requireR (list_all (\<lambda>c. \<not> isspace_char c \<and> \<not> is_invisible c) issuer)
       (ValueError ''issuer must be an absolute HTTPS URL'')) (\<lambda>_.
     bindR (urlsplit issuer) (\<lambda>parts.
     bindR (case url_port parts of
              Inl _ \<Rightarrow> Inl (ValueError ''issuer must use a valid TCP port'')
            | Inr _ \<Rightarrow> Inr ()) (\<lambda>_.
     requireR (url_scheme parts = ''https'' \<and> truthy_text (url_hostname parts) \<and> url_query parts = [] \<and>
         url_fragment parts = [] \<and> CHR ''@'' \<notin> set (url_netloc parts))
       (ValueError ''issuer must be an absolute HTTPS URL without query or fragment''))))"

definition profile_b64bytes :: "json \<Rightarrow> nat list result" where
  "profile_b64bytes value =
     (case value of
        JStr s \<Rightarrow>
          if s = [] \<or> \<not> list_all is_base64url_char s
          then Inl (ValueError ''trusted_keys contains a malformed key integer'')
          else urlsafe_decode s
      | _ \<Rightarrow> Inl (ValueError ''trusted_keys contains a malformed key integer''))"

definition int_from_bytes :: "nat list \<Rightarrow> nat" where
  "int_from_bytes raw = foldl (\<lambda>n b. n * 256 + b) 0 raw"

definition profile_b64int :: "json \<Rightarrow> nat result" where
  "profile_b64int value = bindR (profile_b64bytes value) (\<lambda>raw. Inr (int_from_bytes raw))"

fun bit_length :: "nat \<Rightarrow> nat" where
  "bit_length n = (if n = 0 then 0 else Suc (bit_length (n div 2)))"

declare bit_length.simps [simp del]

definition load_public_key :: "'k crypto \<Rightarrow> dict \<Rightarrow> string \<Rightarrow> 'k result" where
  "load_public_key cr jwk algorithm =
     (if algorithm = ''ES256'' then
        bindR (requireR (py_eq (dict_get jwk ''crv'') (JStr ''P-256''))
          (ValueError ''trusted_keys EC keys must use P-256'')) (\<lambda>_.
        bindR (profile_b64bytes (dict_get jwk ''x'')) (\<lambda>x_bytes.
        bindR (profile_b64bytes (dict_get jwk ''y'')) (\<lambda>y_bytes.
        bindR (requireR (length x_bytes = EC_COORDINATE_LENGTH \<and> length y_bytes = EC_COORDINATE_LENGTH)
          (ValueError ''trusted_keys EC coordinates must be exactly 32 bytes'')) (\<lambda>_.
        cr_ec_key cr (int_from_bytes x_bytes) (int_from_bytes y_bytes)))))
      else
        bindR (profile_b64int (dict_get jwk ''e'')) (\<lambda>exponent.
        bindR (profile_b64int (dict_get jwk ''n'')) (\<lambda>modulus.
        bindR (requireR (MIN_RSA_BITS \<le> bit_length modulus \<and> bit_length modulus \<le> MAX_RSA_BITS)
          (ValueError ''trusted_keys RSA keys must have 2048 to 8192 bits'')) (\<lambda>_.
        bindR (requireR (MIN_RSA_EXPONENT \<le> exponent)
          (ValueError ''trusted_keys RSA public exponent must be at least 65537'')) (\<lambda>_.
        cr_rsa_key cr exponent modulus)))))"

text \<open>The handler around the construction of a key rewrites \<open>ValueError\<close> and nothing else.\<close>

definition as_invalid_key :: "'a result \<Rightarrow> 'a result" where
  "as_invalid_key r =
     (case r of
        Inl (ValueError m) \<Rightarrow> Inl (ValueError (''trusted_keys contains an invalid key: '' @ m))
      | _ \<Rightarrow> r)"

definition key_algorithm :: "json \<Rightarrow> string option result" where
  "key_algorithm kty =
     (case kty of
        JStr t \<Rightarrow> Inr (map_of KEY_ALGORITHM_BY_TYPE t)
      | JArr _ \<Rightarrow> Inl (TypeError ''unhashable type: list'')
      | JObj _ \<Rightarrow> Inl (TypeError ''unhashable type: dict'')
      | _ \<Rightarrow> Inr None)"

definition load_key :: "'k crypto \<Rightarrow> string list \<Rightarrow> json \<Rightarrow> (string \<times> (string \<times> 'k)) result" where
  "load_key cr allowed value =
     (case value of
        JObj jwk \<Rightarrow>
          (case dict_get jwk ''kid'' of
             JStr key_id \<Rightarrow>
               bindR (requireR (key_id \<noteq> [] \<and> \<not> list_ex is_control_char key_id)
                 (ValueError ''trusted_keys entries need a non-empty kid'')) (\<lambda>_.
               bindR (requireR (\<not> list_ex (\<lambda>p. fst p \<in> set PRIVATE_JWK_MEMBERS) jwk)
                 (ValueError ''trusted_keys must contain public keys only'')) (\<lambda>_.
               bindR (key_algorithm (dict_get jwk ''kty'')) (\<lambda>found.
               case found of
                 None \<Rightarrow> Inl (ValueError ''trusted_keys key type is not allowed by this profile'')
               | Some algorithm \<Rightarrow>
                   bindR (requireR (algorithm \<in> set allowed)
                     (ValueError ''trusted_keys key type is not allowed by this profile'')) (\<lambda>_.
                   bindR (requireR (py_eq (dict_get_or jwk ''use'' (JStr ''sig'')) (JStr ''sig'') \<and>
                       py_eq (dict_get_or jwk ''alg'' (JStr algorithm)) (JStr algorithm))
                     (ValueError ''trusted_keys key use/alg does not match a signature key'')) (\<lambda>_.
                   bindR (requireR (\<not> dict_has jwk ''key_ops'' \<or> py_eq (dict_get jwk ''key_ops'') (JArr [JStr ''verify'']))
                     (ValueError ''trusted_keys key_ops must be exactly ['verify'] when present'')) (\<lambda>_.
                   bindR (as_invalid_key (load_public_key cr jwk algorithm)) (\<lambda>public_key.
                   Inr (key_id, (algorithm, public_key)))))))))
           | _ \<Rightarrow> Inl (ValueError ''trusted_keys entries need a non-empty kid''))
      | _ \<Rightarrow> Inl (ValueError ''trusted_keys entries must be JWK objects''))"

primrec load_keys ::
  "'k crypto \<Rightarrow> string list \<Rightarrow> json list \<Rightarrow> (string \<times> (string \<times> 'k)) list \<Rightarrow> (string \<times> (string \<times> 'k)) list result" where
  "load_keys cr allowed [] loaded = Inr loaded"
| "load_keys cr allowed (jwk # rest) loaded =
     bindR (load_key cr allowed jwk) (\<lambda>(key_id, entry).
     if map_of loaded key_id \<noteq> None then Inl (ValueError ''trusted_keys contains a duplicate kid'')
     else load_keys cr allowed rest (loaded @ [(key_id, entry)]))"

definition load_key_set :: "'k crypto \<Rightarrow> string list \<Rightarrow> json \<Rightarrow> (string \<times> (string \<times> 'k)) list result" where
  "load_key_set cr allowed key_set =
     (case key_set of
        JObj d \<Rightarrow>
          (case dict_get d ''keys'' of
             JArr jwks \<Rightarrow>
               if jwks = [] then Inl (ValueError ''trusted_keys must contain at least one key'')
               else load_keys cr allowed jwks []
           | _ \<Rightarrow> Inl (ValueError ''trusted_keys must be a JWK Set object''))
      | _ \<Rightarrow> Inl (ValueError ''trusted_keys must be a JWK Set object''))"

definition make_profile ::
  "'k crypto \<Rightarrow> string \<Rightarrow> string \<Rightarrow> string list \<Rightarrow> json \<Rightarrow> string \<Rightarrow> string option \<Rightarrow> int \<Rightarrow> string list
     \<Rightarrow> 'k subject_profile result" where
  "make_profile cr issuer audience algorithms trusted_keys subject_type tenant_claim leeway extra =
     bindR (validate_issuer issuer) (\<lambda>_.
     bindR (requireR (is_client_identifier audience)
       (ValueError ''audience must be one non-empty client identifier'')) (\<lambda>_.
     bindR (requireR (algorithms \<noteq> [] \<and> set algorithms \<subseteq> set SUPPORTED_ALGORITHMS)
       (ValueError ''allowed_algorithms must be a non-empty subset of ES256/RS256'')) (\<lambda>_.
     bindR (requireR (distinct extra \<and> list_all (\<lambda>item. is_client_identifier item \<and> item \<noteq> audience) extra)
       (ValueError ''trusted_additional_audiences must be a tuple of other unique client IDs'')) (\<lambda>_.
     bindR (requireR (subject_type \<in> set SUBJECT_TYPES)
       (ValueError ''subject_type must be public, pairwise, or ephemeral'')) (\<lambda>_.
     bindR (requireR (case tenant_claim of None \<Rightarrow> True | Some c \<Rightarrow> c \<in> set TENANT_CLAIMS)
       (ValueError ''required_tenant_claim must be null or the canonical 'org' claim'')) (\<lambda>_.
     bindR (requireR (0 \<le> leeway \<and> leeway \<le> MAX_LEEWAY_SECONDS)
       (ValueError ''leeway_seconds must be an integer from 0 to 300'')) (\<lambda>_.
     bindR (load_key_set cr algorithms trusted_keys) (\<lambda>loaded.
     Inr \<lparr>sp_issuer = issuer, sp_audience = audience, sp_allowed_algorithms = algorithms,
       sp_subject_type = subject_type, sp_required_tenant_claim = tenant_claim, sp_leeway_seconds = leeway,
       sp_trusted_additional_audiences = extra, sp_keys = loaded\<rparr>))))))))"

section \<open>The token\<close>

definition malformed :: exn where "malformed = Rejected ''malformed_token''"

definition split_token :: "string \<Rightarrow> (string \<times> string \<times> string) result" where
  "split_token token =
     (if length token > MAX_TOKEN_LENGTH \<or> \<not> isascii token then Inl malformed
      else case split_char (CHR ''.'') token of
        [h, p, s] \<Rightarrow>
          if list_all (list_all is_base64url_char) [h, p, s] then Inr (h, p, s) else Inl malformed
      | _ \<Rightarrow> Inl malformed)"

definition b64decode :: "string \<Rightarrow> nat list result" where
  "b64decode segment =
     (case urlsafe_decode segment of
        Inl _ \<Rightarrow> Inl malformed
      | Inr raw \<Rightarrow> if urlsafe_encode raw \<noteq> segment then Inl malformed else Inr raw)"

text \<open>No object of the value repeats a member.\<close>

fun no_duplicate_members :: "json \<Rightarrow> bool" where
  "no_duplicate_members (JArr items) = list_all no_duplicate_members items"
| "no_duplicate_members (JObj d) = (distinct (map fst d) \<and> list_all (\<lambda>p. no_duplicate_members (snd p)) d)"
| "no_duplicate_members _ = True"

definition decode_json_object :: "'k crypto \<Rightarrow> string \<Rightarrow> dict result" where
  "decode_json_object cr segment =
     bindR (b64decode segment) (\<lambda>raw.
     case cr_scan_json cr raw of
       Some (JObj d) \<Rightarrow> if no_duplicate_members (JObj d) then Inr d else Inl malformed
     | _ \<Rightarrow> Inl malformed)"

definition verify_signature :: "'k crypto \<Rightarrow> string \<Rightarrow> 'k \<Rightarrow> nat list \<Rightarrow> nat list \<Rightarrow> unit result" where
  "verify_signature cr algorithm public_key signing_input signature =
     requireR
       (if algorithm = ''ES256''
        then length signature = ES256_SIGNATURE_LENGTH \<and>
          cr_verify_ecdsa cr public_key (int_from_bytes (take 32 signature)) (int_from_bytes (drop 32 signature)) signing_input
        else cr_verify_rsa cr public_key signature signing_input)
       (Rejected ''invalid_signature'')"

definition is_jwt_media_type :: "json \<Rightarrow> bool" where
  "is_jwt_media_type value =
     (case value of
        JStr s \<Rightarrow>
          (let lowered = lower s in
           (if CHR ''/'' \<in> set lowered then lowered else ''application/'' @ lowered) = ''application/jwt'')
      | _ \<Rightarrow> False)"

definition audiences_of :: "json \<Rightarrow> string list option" where
  "audiences_of value =
     (case value of
        JStr s \<Rightarrow> Some [s]
      | JArr items \<Rightarrow> those (map (\<lambda>item. case item of JStr s \<Rightarrow> Some s | _ \<Rightarrow> None) items)
      | _ \<Rightarrow> None)"

definition check_audience :: "dict \<Rightarrow> string \<Rightarrow> string list \<Rightarrow> unit result" where
  "check_audience claims audience trusted_additional =
     (case audiences_of (dict_get claims ''aud'') of
        None \<Rightarrow> Inl (Rejected ''audience_mismatch'')
      | Some audiences \<Rightarrow>
          (let authorized_party = dict_get claims ''azp'' in
           bindR (requireR (audience \<in> set audiences) (Rejected ''audience_mismatch'')) (\<lambda>_.
           bindR (requireR (set audiences \<subseteq> set (audience # trusted_additional)) (Rejected ''audience_mismatch'')) (\<lambda>_.
           bindR (requireR (\<not> (length audiences > 1 \<and> authorized_party = JNull)) (Rejected ''audience_mismatch'')) (\<lambda>_.
           requireR (authorized_party = JNull \<or> py_eq authorized_party (JStr audience)) (Rejected ''audience_mismatch''))))))"

definition check_subject :: "json \<Rightarrow> string result" where
  "check_subject value =
     (case value of
        JStr s \<Rightarrow>
          if s = [] \<or> length s > MAX_SUBJECT_LENGTH \<or> s \<noteq> strip s \<or> has_invisible s
          then Inl (Rejected ''invalid_claim'') else Inr s
      | _ \<Rightarrow> Inl (Rejected ''invalid_claim''))"

definition numeric_date :: "json \<Rightarrow> int result" where
  "numeric_date value =
     (case value of
        JInt n \<Rightarrow> if 0 \<le> n \<and> n \<le> MAX_NUMERIC_DATE then Inr n else Inl (Rejected ''invalid_claim'')
      | _ \<Rightarrow> Inl (Rejected ''invalid_claim''))"

definition check_times :: "dict \<Rightarrow> int \<Rightarrow> int \<Rightarrow> (int \<times> int) result" where
  "check_times claims now leeway =
     bindR (numeric_date (dict_get claims ''exp'')) (\<lambda>expires_at.
     bindR (numeric_date (dict_get claims ''iat'')) (\<lambda>issued_at.
     bindR (if dict_has claims ''nbf''
            then bindR (numeric_date (dict_get claims ''nbf'')) (\<lambda>n. Inr (Some n)) else Inr None) (\<lambda>not_before.
     bindR (requireR (\<not> expires_at < issued_at) (Rejected ''invalid_claim'')) (\<lambda>_.
     bindR (requireR (\<not> now > expires_at + leeway) (Rejected ''expired'')) (\<lambda>_.
     bindR (requireR (\<not> (now + leeway < issued_at \<or>
         (case not_before of None \<Rightarrow> False | Some n \<Rightarrow> now + leeway < n))) (Rejected ''not_yet_valid'')) (\<lambda>_.
     Inr (issued_at, expires_at)))))))"

definition check_tenant :: "json \<Rightarrow> string result" where
  "check_tenant value =
     (case value of
        JStr s \<Rightarrow>
          if strip s = [] \<or> s \<noteq> strip s \<or> length s > MAX_TENANT_LENGTH \<or> has_invisible s
          then Inl (Rejected ''tenant_missing'') else Inr s
      | _ \<Rightarrow> Inl (Rejected ''tenant_missing''))"

definition correlation_text :: "string \<Rightarrow> string \<Rightarrow> string \<Rightarrow> string option \<Rightarrow> string \<Rightarrow> string" where
  "correlation_text issuer audience subject_type tenant subject =
     json_dumps \<lparr>ensure_ascii = True, item_separator = '','', key_separator = '':'', sort_keys = False\<rparr>
       (JArr [JStr CONTRACT_VERSION, JStr issuer, JStr audience, JStr subject_type, opt_str tenant, JStr subject])"

definition correlation_key :: "string \<Rightarrow> string \<Rightarrow> string \<Rightarrow> string option \<Rightarrow> string \<Rightarrow> string" where
  "correlation_key issuer audience subject_type tenant subject =
     sha256_hex (utf8_encode (correlation_text issuer audience subject_type tenant subject))"

definition check_nonce :: "dict \<Rightarrow> string option \<Rightarrow> unit result" where
  "check_nonce claims expected_nonce =
     (case expected_nonce of
        None \<Rightarrow> Inr ()
      | Some expected \<Rightarrow>
          (case dict_get claims ''nonce'' of
             JStr nonce \<Rightarrow> requireR (utf8_encode nonce = utf8_encode expected) (Rejected ''nonce_mismatch'')
           | _ \<Rightarrow> Inl (Rejected ''nonce_mismatch'')))"

text \<open>The header: the key it selects and its algorithm, before the signature is looked at.\<close>

definition select_key :: "'k subject_profile \<Rightarrow> dict \<Rightarrow> (string \<times> string \<times> 'k) result" where
  "select_key profile header =
     (case dict_get header ''alg'' of
        JStr algorithm \<Rightarrow>
          bindR (requireR (algorithm \<in> set (sp_allowed_algorithms profile)) (Rejected ''algorithm_not_allowed'')) (\<lambda>_.
          bindR (requireR (list_all (\<lambda>p. fst p \<in> set ALLOWED_HEADER_MEMBERS) header) (Rejected ''unsupported_header'')) (\<lambda>_.
          bindR (requireR (is_jwt_media_type (dict_get_or header ''typ'' (JStr ''JWT''))) (Rejected ''token_type_mismatch'')) (\<lambda>_.
          case dict_get header ''kid'' of
            JStr key_id \<Rightarrow>
              (case map_of (sp_keys profile) key_id of
                 None \<Rightarrow> Inl (Rejected ''unknown_key'')
               | Some (key_alg, public_key) \<Rightarrow>
                   bindR (requireR (key_alg = algorithm) (Rejected ''algorithm_not_allowed'')) (\<lambda>_.
                   Inr (key_id, algorithm, public_key)))
          | _ \<Rightarrow> Inl (Rejected ''unknown_key''))))
      | _ \<Rightarrow> Inl (Rejected ''algorithm_not_allowed''))"

text \<open>The claims, once the signature is known to be valid.\<close>

definition check_claims ::
  "'k subject_profile \<Rightarrow> int \<Rightarrow> string option \<Rightarrow> string \<Rightarrow> string \<Rightarrow> dict \<Rightarrow> subject_result result" where
  "check_claims profile now expected_nonce key_id algorithm claims =
     bindR (requireR (py_eq (dict_get_or claims ''typ'' (JStr ''ID'')) (JStr ''ID'')) (Rejected ''token_type_mismatch'')) (\<lambda>_.
     bindR (requireR (py_eq (dict_get claims ''iss'') (JStr (sp_issuer profile))) (Rejected ''issuer_mismatch'')) (\<lambda>_.
     bindR (check_audience claims (sp_audience profile) (sp_trusted_additional_audiences profile)) (\<lambda>_.
     bindR (check_subject (dict_get claims ''sub'')) (\<lambda>subject.
     bindR (check_times claims now (sp_leeway_seconds profile)) (\<lambda>(issued_at, expires_at).
     bindR (check_nonce claims expected_nonce) (\<lambda>_.
     bindR (case sp_required_tenant_claim profile of
              Some claim \<Rightarrow>
                if claim = [] then Inr None
                else bindR (check_tenant (dict_get claims claim)) (\<lambda>t. Inr (Some t))
            | None \<Rightarrow> Inr None) (\<lambda>tenant.
     let durable = sp_subject_type profile \<in> set DURABLE_SUBJECT_TYPES in
     Inr \<lparr>sr_outcome = ''verified'', sr_reason = None, sr_contract_version = CONTRACT_VERSION,
       sr_issuer = Some (sp_issuer profile), sr_subject = Some subject, sr_audience = Some (sp_audience profile),
       sr_tenant = tenant, sr_subject_type = Some (sp_subject_type profile),
       sr_correlation = Some (if durable then ''durable'' else ''session_only''),
       sr_correlation_key =
         (if durable
          then Some (correlation_key (sp_issuer profile) (sp_audience profile) (sp_subject_type profile) tenant subject)
          else None),
       sr_key_id = Some key_id, sr_algorithm = Some algorithm, sr_issued_at = Some issued_at,
       sr_expires_at = Some expires_at\<rparr>)))))))"

definition verify_checked ::
  "'k crypto \<Rightarrow> string \<Rightarrow> 'k subject_profile \<Rightarrow> int \<Rightarrow> string option \<Rightarrow> subject_result result" where
  "verify_checked cr token profile now expected_nonce =
     bindR (split_token token) (\<lambda>(header_part, payload_part, signature_part).
     bindR (decode_json_object cr header_part) (\<lambda>header.
     bindR (decode_json_object cr payload_part) (\<lambda>claims.
     bindR (b64decode signature_part) (\<lambda>signature.
     bindR (select_key profile header) (\<lambda>(key_id, algorithm, public_key).
     bindR (verify_signature cr algorithm public_key (map ord (header_part @ ''.'' @ payload_part)) signature) (\<lambda>_.
     check_claims profile now expected_nonce key_id algorithm claims))))))"

definition rejected_result :: "string \<Rightarrow> subject_result" where
  "rejected_result reason =
     \<lparr>sr_outcome = ''rejected'', sr_reason = Some reason, sr_contract_version = CONTRACT_VERSION, sr_issuer = None,
      sr_subject = None, sr_audience = None, sr_tenant = None, sr_subject_type = None, sr_correlation = None,
      sr_correlation_key = None, sr_key_id = None, sr_algorithm = None, sr_issued_at = None, sr_expires_at = None\<rparr>"

definition verify_subject_assertion ::
  "'k crypto \<Rightarrow> string \<Rightarrow> 'k subject_profile \<Rightarrow> int \<Rightarrow> string option \<Rightarrow> subject_result result" where
  "verify_subject_assertion cr token profile now expected_nonce =
     (case verify_checked cr token profile now expected_nonce of
        Inl (Rejected reason) \<Rightarrow> Inr (rejected_result reason)
      | r \<Rightarrow> r)"

end
