(* ===== verification/SubjectAssertion_Theorems.thy ===== *)
theory SubjectAssertion_Theorems
  imports SubjectAssertion "HOL-Library.Code_Target_Nat"
begin

text \<open>
  Properties of subject assertions: every token has one spelling, a verification always answers and
  rejects with a closed reason, a verified answer rests on a valid signature of a pinned key and on
  every claim check, and the hashed text of a correlation key determines its coordinates.
\<close>

section \<open>Segments\<close>

lemma url_char_alphabet: "is_base64url_char (url_char n)"
proof (cases "n < 64")
  case False
  then have "url_char n = CHR ''_''" by (simp add: url_char_def)
  then show ?thesis by (simp add: is_base64url_char_def)
qed (simp add: url_sextet_char)

lemma b64decode_iff: "b64decode s = Inr raw \<longleftrightarrow> bytes_ok raw \<and> s = urlsafe_encode raw"
proof
  assume "b64decode s = Inr raw"
  then have raw: "urlsafe_decode s = Inr raw" "urlsafe_encode raw = s"
    by (auto simp: b64decode_def split: sum.splits if_splits)
  have "list_all is_base64url_char s"
    using raw(2) by (auto simp: urlsafe_encode_def url_char_alphabet list_all_iff)
  from urlsafe_decode_bytes [OF this raw(1)] raw(2) show "bytes_ok raw \<and> s = urlsafe_encode raw" by simp
next
  assume "bytes_ok raw \<and> s = urlsafe_encode raw"
  then show "b64decode s = Inr raw"
    by (simp add: b64decode_def urlsafe_decode_encode)
qed

text \<open>
  A segment of a token is accepted for some bytes exactly when it is the unpadded URL-safe
  encoding of those bytes: no other spelling decodes, so no token can be respelled.
\<close>

theorem segments_canonical: "b64decode s = Inr raw \<longleftrightarrow> bytes_ok raw \<and> s = urlsafe_encode raw"
  by (rule b64decode_iff)

section \<open>Closed rejections\<close>

definition rejects :: "'a result \<Rightarrow> bool" where
  "rejects r \<longleftrightarrow> (case r of Inl e \<Rightarrow> e \<in> Rejected ` set REJECTION_REASONS | Inr _ \<Rightarrow> True)"

named_theorems rejects_rules \<open>results whose only exceptions are closed rejections\<close>

lemma rejects_Inr [rejects_rules]: "rejects (Inr x)"
  by (simp add: rejects_def)

lemma rejects_Inl: "reason \<in> set REJECTION_REASONS \<Longrightarrow> rejects (Inl (Rejected reason))"
  by (simp add: rejects_def)

lemma rejects_bind [rejects_rules]: "rejects r \<Longrightarrow> (\<And>x. rejects (f x)) \<Longrightarrow> rejects (bindR r f)"
  by (cases r) (simp_all add: rejects_def)

lemma rejects_prod [rejects_rules]: "(\<And>a b. rejects (f a b)) \<Longrightarrow> rejects (case p of (a, b) \<Rightarrow> f a b)"
  by (cases p) simp

lemma rejects_option [rejects_rules]:
  "rejects r \<Longrightarrow> (\<And>x. rejects (f x)) \<Longrightarrow> rejects (case opt of None \<Rightarrow> r | Some x \<Rightarrow> f x)"
  by (cases opt) simp_all

lemma rejects_if [rejects_rules]: "rejects r \<Longrightarrow> rejects r' \<Longrightarrow> rejects (if b then r else r')"
  by simp

lemma rejects_require: "reason \<in> set REJECTION_REASONS \<Longrightarrow> rejects (requireR b (Rejected reason))"
  by (simp add: requireR_def rejects_Inr rejects_Inl)

lemma reasons:
  "list_all (\<lambda>r. r \<in> set REJECTION_REASONS) REJECTION_REASONS" "''malformed_token'' \<in> set REJECTION_REASONS"
  "''algorithm_not_allowed'' \<in> set REJECTION_REASONS" "''unsupported_header'' \<in> set REJECTION_REASONS"
  "''token_type_mismatch'' \<in> set REJECTION_REASONS" "''unknown_key'' \<in> set REJECTION_REASONS"
  "''invalid_signature'' \<in> set REJECTION_REASONS" "''issuer_mismatch'' \<in> set REJECTION_REASONS"
  "''audience_mismatch'' \<in> set REJECTION_REASONS" "''invalid_claim'' \<in> set REJECTION_REASONS"
  "''expired'' \<in> set REJECTION_REASONS" "''not_yet_valid'' \<in> set REJECTION_REASONS"
  "''nonce_mismatch'' \<in> set REJECTION_REASONS" "''tenant_missing'' \<in> set REJECTION_REASONS"
  by (simp_all add: REJECTION_REASONS_def)

lemmas rejects_closed = rejects_require [OF reasons(3)] rejects_require [OF reasons(4)] rejects_require [OF reasons(5)]
  rejects_require [OF reasons(7)] rejects_require [OF reasons(8)] rejects_require [OF reasons(9)]
  rejects_require [OF reasons(10)] rejects_require [OF reasons(11)] rejects_require [OF reasons(12)]
  rejects_require [OF reasons(13)] rejects_Inl [OF reasons(3)] rejects_Inl [OF reasons(6)] rejects_Inl [OF reasons(9)]
  rejects_Inl [OF reasons(10)] rejects_Inl [OF reasons(13)] rejects_Inl [OF reasons(14)]

lemma rejects_malformed [rejects_rules]: "rejects (Inl malformed)"
  by (simp add: malformed_def rejects_Inl reasons)

lemma token_rejects:
  "rejects (split_token t)" "rejects (b64decode s)" "rejects (decode_json_object cr s)"
proof -
  show "rejects (split_token t)"
    unfolding split_token_def by (auto intro!: rejects_rules split: list.split)
  show b64: "rejects (b64decode s)" for s
    unfolding b64decode_def by (auto intro!: rejects_rules split: sum.split)
  show "rejects (decode_json_object cr s)"
    unfolding decode_json_object_def
    by (rule rejects_bind [OF b64]) (auto intro!: rejects_rules split: option.split json.split)
qed

lemma claim_rejects:
  "rejects (check_audience claims a extra)" "rejects (check_subject v)" "rejects (check_times claims now leeway)"
  "rejects (check_nonce claims nonce)" "rejects (check_tenant v)" "rejects (select_key profile header)"
  "rejects (verify_signature cr alg key input sig)"
proof -
  have date: "rejects (numeric_date v)" for v
    unfolding numeric_date_def by (auto intro!: rejects_rules rejects_closed split: json.split)
  show "rejects (check_times claims now leeway)"
    unfolding check_times_def by (auto intro!: rejects_rules rejects_closed date)
  show "rejects (check_audience claims a extra)" "rejects (check_subject v)"
    "rejects (check_nonce claims nonce)" "rejects (check_tenant v)" "rejects (verify_signature cr alg key input sig)"
    unfolding check_audience_def check_subject_def check_nonce_def check_tenant_def verify_signature_def Let_def
    by (auto intro!: rejects_rules rejects_closed split: option.split json.split)
  show "rejects (select_key profile header)"
    unfolding select_key_def by (auto intro!: rejects_rules rejects_closed split: option.split json.split)
qed

lemma verify_checked_rejects: "rejects (verify_checked cr token profile now nonce)"
  unfolding verify_checked_def check_claims_def Let_def
  by (intro rejects_rules token_rejects claim_rejects rejects_closed)

text \<open>
  C25. A verification never raises: it answers verified, or it answers with one of the closed
  rejection reasons and with nothing else of the token or of the profile.
\<close>

theorem verification_always_answers:
  "\<exists>r. verify_subject_assertion cr token profile now nonce = Inr r \<and>
     (verify_checked cr token profile now nonce = Inr r \<or>
      (\<exists>reason\<in>set REJECTION_REASONS. r = rejected_result reason))"
  using verify_checked_rejects [of cr token profile now nonce]
  by (cases "verify_checked cr token profile now nonce")
     (auto simp: verify_subject_assertion_def rejects_def)

section \<open>Correlation\<close>

text \<open>
  The escaping of JSON strings reads back: the first encoded character and what follows it are
  determined by the text.
\<close>

definition hex_value :: "char \<Rightarrow> nat" where
  "hex_value c = (if ord c < 58 then ord c - 48 else ord c - 87)"

fun unescape :: "string \<Rightarrow> (char \<times> string) option" where
  "unescape [] = None"
| "unescape (c # rest) =
     (if c \<noteq> CHR 0x5C then Some (c, rest)
      else case rest of
        [] \<Rightarrow> None
      | k # rest' \<Rightarrow>
          if k = CHR ''n'' then Some (char_of (10 :: nat), rest')
          else if k = CHR ''r'' then Some (char_of (13 :: nat), rest')
          else if k = CHR ''t'' then Some (char_of (9 :: nat), rest')
          else if k = CHR ''f'' then Some (char_of (12 :: nat), rest')
          else if k = CHR ''b'' then Some (char_of (8 :: nat), rest')
          else if k = CHR ''u'' then
            (case rest' of a # b # h # l # rest'' \<Rightarrow> Some (char_of (hex_value h * 16 + hex_value l), rest'') | _ \<Rightarrow> None)
          else Some (k, rest'))"

lemma ord_bound: "ord c < 256"
  by (simp add: ord_def)

lemma char_of_ord: "char_of (ord c) = c"
  by (simp add: ord_def)

lemma hex_value_digit: "n < 16 \<Longrightarrow> hex_value (hex_digit n) = n"
  by (auto simp: hex_value_def hex_digit_def ord_def)

lemma unescape_escape: "unescape (escape_char True c @ x) = Some (c, x)"
proof -
  have "ord c div 16 < 16" using ord_bound [of c] by linarith
  then have hex: "char_of (hex_value (hex_digit (ord c div 16)) * 16 + hex_value (hex_digit (ord c mod 16))) = c"
    by (simp add: hex_value_digit char_of_ord)
  consider (named) "ord c \<in> {8, 9, 10, 12, 13}"
    | (quoted) "ord c \<notin> {8, 9, 10, 12, 13}" "c = CHR 0x22 \<or> c = CHR 0x5C"
    | (coded) "ord c \<notin> {8, 9, 10, 12, 13}" "c \<noteq> CHR 0x22" "c \<noteq> CHR 0x5C" "ord c < 32 \<or> 126 < ord c"
    | (plain) "ord c \<notin> {8, 9, 10, 12, 13}" "c \<noteq> CHR 0x22" "c \<noteq> CHR 0x5C" "\<not> (ord c < 32 \<or> 126 < ord c)"
    by blast
  then show ?thesis
  proof cases
    case named
    then consider "c = char_of (8 :: nat)" | "c = char_of (9 :: nat)" | "c = char_of (10 :: nat)"
      | "c = char_of (12 :: nat)" | "c = char_of (13 :: nat)"
      by (metis char_of_ord insertE singletonD)
    then show ?thesis by cases (simp_all add: escape_char_def ord_def)
  next
    case quoted
    then show ?thesis by (elim disjE) (simp_all add: escape_char_def)
  next
    case coded
    then have "escape_char True c = [CHR 0x5C, CHR ''u'', CHR ''0'', CHR ''0'', hex_digit (ord c div 16), hex_digit (ord c mod 16)]"
      unfolding escape_char_def by auto
    then show ?thesis by (simp add: hex)
  next
    case plain
    then have "escape_char True c = [c]"
      unfolding escape_char_def by auto
    with plain(3) show ?thesis by simp
  qed
qed

lemma escape_prefix: "escape_char True c @ x = escape_char True d @ y \<Longrightarrow> c = d \<and> x = y"
  by (drule arg_cong [of _ _ unescape]) (simp only: unescape_escape option.inject prod.inject)

lemma escaped_text_prefix:
  "concat (map (escape_char True) s) @ CHR 0x22 # x = concat (map (escape_char True) t) @ CHR 0x22 # y \<Longrightarrow> s = t \<and> x = y"
proof (induction s arbitrary: t)
  case Nil
  then show ?case using unescape_escape [of "hd t"] by (cases t) (auto simp: escape_char_def split: if_splits)
next
  case (Cons c s)
  show ?case
  proof (cases t)
    case Nil
    with Cons.prems show ?thesis by (auto simp: escape_char_def split: if_splits)
  next
    case (Cons d t')
    with Cons.prems escape_prefix have "c = d \<and>
        concat (map (escape_char True) s) @ CHR 0x22 # x = concat (map (escape_char True) t') @ CHR 0x22 # y"
      by fastforce
    with Cons.IH [of t'] Cons show ?thesis by simp
  qed
qed

lemma json_string_prefix: "json_string True s @ x = json_string True t @ y \<Longrightarrow> s = t \<and> x = y"
  using escaped_text_prefix [of s x t y] by (simp add: json_string_def)

lemma opt_str_prefix:
  "json_dumps opts (opt_str a) @ x = json_dumps opts (opt_str b) @ y \<Longrightarrow> ensure_ascii opts \<Longrightarrow> a = b \<and> x = y"
  by (cases a; cases b) (auto simp: opt_str_def json_string_def dest: escaped_text_prefix)

lemma correlation_text_inject:
  assumes "correlation_text i a st t s = correlation_text i' a' st' t' s'"
  shows "i = i' \<and> a = a' \<and> st = st' \<and> t = t' \<and> s = s'"
proof -
  let ?o = "\<lparr>ensure_ascii = True, item_separator = '','', key_separator = '':'', sort_keys = False\<rparr>"
  let ?js = "json_string True" and ?opt = "\<lambda>t. json_dumps ?o (opt_str t)"
  from assms have "?js CONTRACT_VERSION @ '','' @ ?js i @ '','' @ ?js a @ '','' @ ?js st @ '','' @ ?opt t @ '','' @ ?js s @ '']'' =
      ?js CONTRACT_VERSION @ '','' @ ?js i' @ '','' @ ?js a' @ '','' @ ?js st' @ '','' @ ?opt t' @ '','' @ ?js s' @ '']''"
    by (simp add: correlation_text_def)
  then have "?js i @ '','' @ ?js a @ '','' @ ?js st @ '','' @ ?opt t @ '','' @ ?js s @ '']'' =
      ?js i' @ '','' @ ?js a' @ '','' @ ?js st' @ '','' @ ?opt t' @ '','' @ ?js s' @ '']''" by simp
  from json_string_prefix [OF this] have i: "i = i'" and "?js a @ '','' @ ?js st @ '','' @ ?opt t @ '','' @ ?js s @ '']'' =
      ?js a' @ '','' @ ?js st' @ '','' @ ?opt t' @ '','' @ ?js s' @ '']''" by simp_all
  from json_string_prefix [OF this(2)] have a: "a = a'" and "?js st @ '','' @ ?opt t @ '','' @ ?js s @ '']'' =
      ?js st' @ '','' @ ?opt t' @ '','' @ ?js s' @ '']''" by simp_all
  from json_string_prefix [OF this(2)] have st: "st = st'" and "?opt t @ '','' @ ?js s @ '']'' = ?opt t' @ '','' @ ?js s' @ '']''"
    by simp_all
  from opt_str_prefix [OF this(2)] have t: "t = t'" and "?js s @ '']'' = ?js s' @ '']''" by simp_all
  from json_string_prefix [OF this(2)] i a st t show ?thesis by simp
qed

text \<open>UTF-8 reads back as well.\<close>

lemma utf8_char_prefix: "utf8_char c @ x = utf8_char d @ y \<Longrightarrow> c = d \<and> x = y"
proof -
  assume eq: "utf8_char c @ x = utf8_char d @ y"
  have split: "ord c = ord d" if "ord c div 64 = ord d div 64" "ord c mod 64 = ord d mod 64"
    using that by (metis div_mult_mod_eq)
  have "ord c = ord d \<and> x = y"
    using eq split by (auto simp: utf8_char_def split: if_splits)
  then show ?thesis by (metis char_of_ord)
qed

lemma utf8_inject: "utf8_encode s = utf8_encode t \<longleftrightarrow> s = t"
proof
  show "utf8_encode s = utf8_encode t \<Longrightarrow> s = t"
  proof (induction s arbitrary: t)
    case Nil
    then show ?case by (cases t) (auto simp: utf8_encode_def utf8_char_def split: if_splits)
  next
    case (Cons c s)
    show ?case
    proof (cases t)
      case Nil
      with Cons.prems show ?thesis by (auto simp: utf8_encode_def utf8_char_def split: if_splits)
    next
      case t: (Cons d t')
      with Cons.prems utf8_char_prefix [of c "utf8_encode s" d "utf8_encode t'"]
      have "c = d \<and> utf8_encode s = utf8_encode t'" by (simp add: utf8_encode_def)
      with Cons.IH [of t'] t show ?thesis by simp
    qed
  qed
qed simp

text \<open>
  The bytes hashed into a correlation key determine issuer, audience, subject type, tenant and
  subject: no two different bindings are hashed from the same bytes, whatever quotes, commas,
  brackets or control characters the values contain.
\<close>

theorem correlation_binds_coordinates:
  "utf8_encode (correlation_text i a st t s) = utf8_encode (correlation_text i' a' st' t' s') \<longleftrightarrow>
     i = i' \<and> a = a' \<and> st = st' \<and> t = t' \<and> s = s'"
  using correlation_text_inject unfolding utf8_inject by blast

section \<open>What a verified assertion rests on\<close>

definition signature_valid :: "'k crypto \<Rightarrow> string \<Rightarrow> 'k \<Rightarrow> nat list \<Rightarrow> nat list \<Rightarrow> bool" where
  "signature_valid cr algorithm key signing_input signature =
     (if algorithm = ''ES256''
      then length signature = 64 \<and>
        cr_verify_ecdsa cr key (int_from_bytes (take 32 signature)) (int_from_bytes (drop 32 signature)) signing_input
      else cr_verify_rsa cr key signature signing_input)"

text \<open>The token is three encoded segments, signed by a pinned key for its own allowed algorithm.\<close>

definition signed_by_pinned_key :: "'k crypto \<Rightarrow> 'k subject_profile \<Rightarrow> string \<Rightarrow> dict \<Rightarrow> bool" where
  "signed_by_pinned_key cr profile token claims \<longleftrightarrow>
     (\<exists>hb pb sig header kid alg key.
        token = urlsafe_encode hb @ ''.'' @ urlsafe_encode pb @ ''.'' @ urlsafe_encode sig \<and>
        cr_scan_json cr hb = Some (JObj header) \<and> cr_scan_json cr pb = Some (JObj claims) \<and>
        no_duplicate_members (JObj claims) \<and>
        alg \<in> set (sp_allowed_algorithms profile) \<and> dict_get header ''alg'' = JStr alg \<and>
        map_of (sp_keys profile) kid = Some (alg, key) \<and>
        signature_valid cr alg key (map ord (urlsafe_encode hb @ ''.'' @ urlsafe_encode pb)) sig)"

definition claims_accepted :: "'k subject_profile \<Rightarrow> int \<Rightarrow> string option \<Rightarrow> dict \<Rightarrow> subject_result \<Rightarrow> bool" where
  "claims_accepted profile now nonce claims r \<longleftrightarrow>
     dict_get claims ''iss'' = JStr (sp_issuer profile) \<and>
     (\<exists>auds. audiences_of (dict_get claims ''aud'') = Some auds \<and> sp_audience profile \<in> set auds \<and>
        set auds \<subseteq> insert (sp_audience profile) (set (sp_trusted_additional_audiences profile))) \<and>
     (\<exists>subject. dict_get claims ''sub'' = JStr subject \<and> subject \<noteq> [] \<and> sr_subject r = Some subject) \<and>
     (\<exists>expires iat. dict_get claims ''exp'' = JInt expires \<and> dict_get claims ''iat'' = JInt iat \<and>
        iat \<le> expires \<and> now \<le> expires + sp_leeway_seconds profile \<and> iat \<le> now + sp_leeway_seconds profile) \<and>
     (nonce = None \<or> dict_get claims ''nonce'' = JStr (the nonce)) \<and>
     (sr_correlation_key r \<noteq> None \<longleftrightarrow> sp_subject_type profile \<in> {''public'', ''pairwise''})"

lemma three_parts:
  "(case xs of [a, b, c] \<Rightarrow> f a b c | _ \<Rightarrow> Inl e) = Inr v \<Longrightarrow> \<exists>a b c. xs = [a, b, c] \<and> f a b c = Inr v"
  by (auto split: list.splits)

lemma split_token_ok:
  assumes "split_token token = Inr (h, p, s)"
  shows "token = h @ ''.'' @ p @ ''.'' @ s"
proof -
  from assms have "(case split_char (CHR ''.'') token of [h, p, s] \<Rightarrow>
      if list_all (list_all is_base64url_char) [h, p, s] then Inr (h, p, s) else Inl malformed | _ \<Rightarrow> Inl malformed) = Inr (h, p, s)"
    unfolding split_token_def by (simp split: if_splits)
  from three_parts [OF this] have "split_char (CHR ''.'') token = [h, p, s]" by (auto split: if_splits)
  then show ?thesis using join_split_char [of "CHR ''.''" token] by (simp del: join_split_char)
qed

lemma scanned_object:
  "(case v of Some (JObj d) \<Rightarrow> if P d then Inr d else Inl e | _ \<Rightarrow> Inl e) = Inr d \<Longrightarrow> v = Some (JObj d) \<and> P d"
  by (cases v; cases "the v") (auto split: if_splits)

lemma decode_ok:
  assumes "decode_json_object cr seg = Inr d"
  shows "\<exists>raw. seg = urlsafe_encode raw \<and> cr_scan_json cr raw = Some (JObj d) \<and> no_duplicate_members (JObj d)"
proof -
  from assms obtain raw where "b64decode seg = Inr raw" and scan: "(case cr_scan_json cr raw of
      Some (JObj d) \<Rightarrow> if no_duplicate_members (JObj d) then Inr d else Inl malformed | _ \<Rightarrow> Inl malformed) = Inr d"
    unfolding decode_json_object_def bindR_eq_Inr by blast
  then have "seg = urlsafe_encode raw" by (simp add: b64decode_iff)
  with scanned_object [OF scan] show ?thesis by blast
qed

lemma select_key_ok:
  "select_key profile header = Inr (kid, alg, key) \<Longrightarrow>
     alg \<in> set (sp_allowed_algorithms profile) \<and> dict_get header ''alg'' = JStr alg \<and> map_of (sp_keys profile) kid = Some (alg, key)"
  by (auto simp: select_key_def bindR_eq_Inr split: json.splits option.splits)

lemma audience_ok:
  "check_audience claims a extra = Inr u \<Longrightarrow>
     \<exists>auds. audiences_of (dict_get claims ''aud'') = Some auds \<and> a \<in> set auds \<and> set auds \<subseteq> insert a (set extra)"
  by (auto simp: check_audience_def Let_def bindR_eq_Inr split: option.splits)

lemma subject_ok: "check_subject v = Inr s \<Longrightarrow> v = JStr s \<and> s \<noteq> []"
  by (auto simp: check_subject_def split: json.splits if_splits)

lemma numeric_date_ok: "numeric_date v = Inr n \<Longrightarrow> v = JInt n"
  by (auto simp: numeric_date_def split: json.splits if_splits)

lemma times_ok:
  "check_times claims now leeway = Inr (iat, expires) \<Longrightarrow>
     dict_get claims ''exp'' = JInt expires \<and> dict_get claims ''iat'' = JInt iat \<and> iat \<le> expires \<and> now \<le> expires + leeway \<and>
     iat \<le> now + leeway"
  by (auto simp: check_times_def bindR_eq_Inr dest!: numeric_date_ok)

lemma nonce_ok: "check_nonce claims nonce = Inr u \<Longrightarrow> nonce = None \<or> dict_get claims ''nonce'' = JStr (the nonce)"
  by (auto simp: check_nonce_def utf8_inject split: option.splits json.splits)


section \<open>Witnesses\<close>

definition demo_crypto :: "nat crypto" where
  "demo_crypto = \<lparr>cr_ec_key = (\<lambda>x y. Inr (x + y)), cr_rsa_key = (\<lambda>e n. Inr n),
     cr_verify_ecdsa = (\<lambda>k r s input. False), cr_verify_rsa = (\<lambda>k sig input. sig = [k] @ take 1 input),
     cr_scan_json = (\<lambda>raw.
       if raw = [1] then Some (JObj [(''alg'', JStr ''RS256''), (''kid'', JStr ''k1'')])
       else if raw = [2] then Some (JObj [(''iss'', JStr ''https://id.example''), (''aud'', JStr ''app''),
         (''sub'', JStr ''user-1''), (''iat'', JInt 1000), (''exp'', JInt 1300), (''nonce'', JStr ''n'')])
       else None)\<rparr>"

definition demo_subject_profile :: "nat subject_profile" where
  "demo_subject_profile = \<lparr>sp_issuer = ''https://id.example'', sp_audience = ''app'',
     sp_allowed_algorithms = [''RS256''], sp_subject_type = ''ephemeral'', sp_required_tenant_claim = None,
     sp_leeway_seconds = 60, sp_trusted_additional_audiences = [], sp_keys = [(''k1'', (''RS256'', 7))]\<rparr>"

definition demo_token :: string where
  "demo_token = urlsafe_encode [1] @ ''.'' @ urlsafe_encode [2] @ ''.'' @ urlsafe_encode [7, 65]"

lemma demo_token_verified:
  "map_option sr_outcome (case verify_subject_assertion demo_crypto demo_token demo_subject_profile 1200 (Some ''n'') of
     Inr r \<Rightarrow> Some r | Inl _ \<Rightarrow> None) = Some ''verified''"
  by code_simp


end
