(* ===== verification/Python_Builtins.thy ===== *)
theory Python_Builtins
  imports Json "HOL-Library.Log_Nat"
begin

text \<open>
  Python's \<open>int(text)\<close>, \<open>float(text)\<close>, and \<open>str\<close> and \<open>repr\<close> of JSON values. Integers are unbounded; a text of more than
  4300 digits is refused, as the interpreter does. A float is the nearest double: the exact
  decimal value is rounded to 53 significant bits with ties to even, gradually underflows below
  the smallest normal number and becomes infinite beyond the largest.
\<close>

section \<open>Digits with underscores\<close>

definition MAX_STR_DIGITS :: nat where "MAX_STR_DIGITS = 4300"

text \<open>Digits, optionally grouped by single underscores; the digits without them.\<close>

definition digit_groups :: "string \<Rightarrow> string option" where
  "digit_groups s =
     (let groups = split_char (CHR ''_'') s in
      if list_all (\<lambda>g. g \<noteq> [] \<and> list_all isdecimal_char g) groups then Some (concat groups) else None)"

text \<open>A leading sign and what follows it.\<close>

definition take_sign :: "string \<Rightarrow> bool \<times> string" where
  "take_sign s =
     (case s of
        [] \<Rightarrow> (False, [])
      | c # rest \<Rightarrow> if c = CHR ''-'' then (True, rest) else if c = CHR ''+'' then (False, rest) else (False, s))"

definition int_of_text :: "string \<Rightarrow> int option" where
  "int_of_text s =
     (let (negative, digits) = take_sign (strip s) in
      case digit_groups digits of
        None \<Rightarrow> None
      | Some ds \<Rightarrow>
          if length ds > MAX_STR_DIGITS then None
          else Some (if negative then - int (read_nat ds) else int (read_nat ds)))"

section \<open>Doubles\<close>

datatype pyfloat = Finite rat | Infinite bool | NotANumber

text \<open>The greatest \<open>e\<close> with \<open>2 ^ e \<le> n / d\<close>.\<close>

definition binary_exponent :: "nat \<Rightarrow> nat \<Rightarrow> int" where
  "binary_exponent n d =
     (let e = int (floorlog 2 n) - int (floorlog 2 d) in
      if (if 0 \<le> e then d * 2 ^ nat e \<le> n else d \<le> n * 2 ^ nat (- e)) then e else e - 1)"

definition round_half_even :: "nat \<Rightarrow> nat \<Rightarrow> nat" where
  "round_half_even n d =
     (let q = n div d; r = n mod d in
      if 2 * r < d then q else if 2 * r > d then Suc q else if even q then q else Suc q)"

text \<open>The double nearest to \<open>n / d\<close>; \<open>q\<close> is the exponent of its unit in the last place.\<close>

definition nearest_double :: "nat \<Rightarrow> nat \<Rightarrow> pyfloat" where
  "nearest_double n d =
     (if n = 0 then Finite 0
      else
        let q = max (binary_exponent n d - 52) (- 1074);
            m = (if 0 \<le> q then round_half_even n (d * 2 ^ nat q) else round_half_even (n * 2 ^ nat (- q)) d);
            v = (if 0 \<le> q then of_nat m * 2 ^ nat q else of_nat m / 2 ^ nat (- q))
        in if 2 ^ 1024 \<le> v then Infinite False else Finite v)"

definition negate_float :: "bool \<Rightarrow> pyfloat \<Rightarrow> pyfloat" where
  "negate_float negative f =
     (if negative
      then (case f of Finite r \<Rightarrow> Finite (- r) | Infinite b \<Rightarrow> Infinite (\<not> b) | NotANumber \<Rightarrow> NotANumber)
      else f)"

text \<open>Underscores are allowed between two digits only.\<close>

fun underscores_ok :: "bool \<Rightarrow> string \<Rightarrow> bool" where
  "underscores_ok after_digit [] = True"
| "underscores_ok after_digit (c # rest) =
     (if c = CHR ''_''
      then after_digit \<and> rest \<noteq> [] \<and> isdecimal_char (hd rest) \<and> underscores_ok False rest
      else underscores_ok (isdecimal_char c) rest)"

text \<open>Digits with an optional point and at least one digit: the digits and how many follow the point.\<close>

definition read_mantissa :: "string \<Rightarrow> (string \<times> nat) option" where
  "read_mantissa s =
     (case split_char (CHR ''.'') s of
        [whole] \<Rightarrow> if whole \<noteq> [] \<and> list_all isdecimal_char whole then Some (whole, 0) else None
      | [whole, fraction] \<Rightarrow>
          if whole @ fraction \<noteq> [] \<and> list_all isdecimal_char (whole @ fraction)
          then Some (whole @ fraction, length fraction) else None
      | _ \<Rightarrow> None)"

definition read_exponent :: "string \<Rightarrow> int option" where
  "read_exponent s =
     (let (negative, ds) = take_sign s in
      if ds \<noteq> [] \<and> list_all isdecimal_char ds
      then Some (if negative then - int (read_nat ds) else int (read_nat ds)) else None)"

definition decimal_float :: "string \<Rightarrow> nat \<Rightarrow> int \<Rightarrow> pyfloat" where
  "decimal_float digits scale exponent =
     (let e = exponent - int scale in
      if 0 \<le> e then nearest_double (read_nat digits * 10 ^ nat e) 1
      else nearest_double (read_nat digits) (10 ^ nat (- e)))"

text \<open>The number after the sign.\<close>

definition unsigned_float :: "string \<Rightarrow> pyfloat option" where
  "unsigned_float s =
     (let t = lower s in
      if t \<in> {''inf'', ''infinity''} then Some (Infinite False)
      else if t = ''nan'' then Some NotANumber
      else if \<not> underscores_ok False t then None
      else case split_char (CHR ''e'') (filter (\<lambda>c. c \<noteq> CHR ''_'') t) of
        [mantissa] \<Rightarrow> map_option (\<lambda>(ds, scale). decimal_float ds scale 0) (read_mantissa mantissa)
      | [mantissa, exponent] \<Rightarrow>
          (case (read_mantissa mantissa, read_exponent exponent) of
             (Some (ds, scale), Some e) \<Rightarrow> Some (decimal_float ds scale e)
           | _ \<Rightarrow> None)
      | _ \<Rightarrow> None)"

definition float_of_text :: "string \<Rightarrow> pyfloat option" where
  "float_of_text s =
     (let (negative, rest) = take_sign (strip s) in map_option (negate_float negative) (unsigned_float rest))"

section \<open>Text of values\<close>

definition repr_char :: "char \<Rightarrow> char \<Rightarrow> string" where
  "repr_char quote c =
     (if c = quote \<or> c = CHR 0x5C then [CHR 0x5C, c]
      else if ord c = 10 then [CHR 0x5C, CHR ''n'']
      else if ord c = 13 then [CHR 0x5C, CHR ''r'']
      else if ord c = 9 then [CHR 0x5C, CHR ''t'']
      else if ord c < 32 \<or> 127 \<le> ord c \<and> ord c \<le> 160 \<or> ord c = 173
      then [CHR 0x5C, CHR ''x'', hex_digit (ord c div 16), hex_digit (ord c mod 16)]
      else [c])"

definition repr_text :: "string \<Rightarrow> string" where
  "repr_text s =
     (let quote = (if CHR 0x27 \<in> set s \<and> CHR 0x22 \<notin> set s then CHR 0x22 else CHR 0x27)
      in quote # concat (map (repr_char quote) s) @ [quote])"

fun py_repr :: "json \<Rightarrow> string" where
  "py_repr JNull = ''None''"
| "py_repr (JBool b) = (if b then ''True'' else ''False'')"
| "py_repr (JInt n) = show_int n"
| "py_repr (JFloat r) = r"
| "py_repr (JStr s) = repr_text s"
| "py_repr (JArr xs) = ''['' @ join_text '', '' (map py_repr xs) @ '']''"
| "py_repr (JObj kvs) =
     ''{'' @ join_text '', '' (map (\<lambda>(k, v). repr_text k @ '': '' @ py_repr v) kvs) @ ''}''"

definition py_str :: "json \<Rightarrow> string" where
  "py_str j = (case j of JStr s \<Rightarrow> s | _ \<Rightarrow> py_repr j)"

definition quoted :: "string \<Rightarrow> string" where
  "quoted s = [CHR 0x27] @ s @ [CHR 0x27]"

section \<open>Scalars\<close>

text \<open>
  Hashable JSON values, and \<open>==\<close> where one side is hashable: numbers and booleans compare by value,
  text by its characters, and a list or an object equals no scalar.
\<close>

definition hashable :: "json \<Rightarrow> bool" where
  "hashable j = (case j of JArr _ \<Rightarrow> False | JObj _ \<Rightarrow> False | _ \<Rightarrow> True)"

definition number_value :: "json \<Rightarrow> pyfloat option" where
  "number_value j =
     (case j of
        JBool b \<Rightarrow> Some (Finite (if b then 1 else 0))
      | JInt n \<Rightarrow> Some (Finite (of_int n))
      | JFloat r \<Rightarrow> (case float_of_text r of Some NotANumber \<Rightarrow> None | v \<Rightarrow> v)
      | _ \<Rightarrow> None)"

fun scalar_eq :: "json \<Rightarrow> json \<Rightarrow> bool" where
  "scalar_eq JNull b = (b = JNull)"
| "scalar_eq (JStr s) b = (b = JStr s)"
| "scalar_eq (JArr _) b = False"
| "scalar_eq (JObj _) b = False"
| "scalar_eq a b = (number_value a \<noteq> None \<and> number_value a = number_value b)"

definition scalar_mem :: "json \<Rightarrow> json list \<Rightarrow> bool" where
  "scalar_mem j js = list_ex (scalar_eq j) js"

text \<open>\<open>text in value\<close>.\<close>

definition text_in :: "string \<Rightarrow> json \<Rightarrow> bool result" where
  "text_in s j =
     (case j of
        JArr items \<Rightarrow> Inr (JStr s \<in> set items)
      | JObj d \<Rightarrow> Inr (dict_has d s)
      | JStr t \<Rightarrow> Inr (contains s t)
      | _ \<Rightarrow> Inl (TypeError ''not iterable''))"

lemma number_value_None [simp]:
  "number_value JNull = None" "number_value (JStr s) = None" "number_value (JArr xs) = None" "number_value (JObj d) = None"
  by (simp_all add: number_value_def)

lemma scalar_eq_iff:
  "scalar_eq a b \<longleftrightarrow>
     a = b \<and> (a = JNull \<or> (\<exists>s. a = JStr s)) \<or> number_value a \<noteq> None \<and> number_value a = number_value b"
  by (cases a) (auto simp: number_value_def)

lemma scalar_eq_trans: "scalar_eq a b \<Longrightarrow> scalar_eq a c \<Longrightarrow> scalar_eq b c"
  unfolding scalar_eq_iff by auto

lemma scalar_eq_sym: "scalar_eq a b \<Longrightarrow> scalar_eq b a"
  unfolding scalar_eq_iff by auto

lemma scalar_eq_JStr [simp]: "scalar_eq j (JStr s) \<longleftrightarrow> j = JStr s"
  unfolding scalar_eq_iff by auto

section \<open>Integers read back\<close>

lemma show_nat_digits: "list_all isdecimal_char (show_nat n)"
proof (induction n rule: show_nat.induct)
  case (1 n)
  have "isdecimal_char (char_of (48 + n mod 10))" by (simp add: isdecimal_char_def)
  moreover have "n < 10 \<Longrightarrow> isdecimal_char (char_of (48 + n))" by (simp add: isdecimal_char_def)
  ultimately show ?case using 1 by (subst show_nat.simps) auto
qed

lemma split_char_none: "d \<notin> set s \<Longrightarrow> split_char d s = [s]"
  by (induction s) auto

lemma digits_free: "list_all isdecimal_char s \<Longrightarrow> \<not> isdecimal_char c \<Longrightarrow> c \<notin> set s"
  by (auto simp: list_all_iff)

lemma digit_groups_plain: "list_all isdecimal_char s \<Longrightarrow> s \<noteq> [] \<Longrightarrow> digit_groups s = Some s"
  using digits_free [of s "CHR ''_''"]
  by (simp add: digit_groups_def split_char_none isdecimal_char_def ord_def)

lemma digit_not_space: "isdecimal_char c \<Longrightarrow> \<not> isspace_char c"
  by (auto simp: isdecimal_char_def isspace_char_def Let_def)

lemma strip_no_space: "(s \<noteq> [] \<Longrightarrow> \<not> isspace_char (hd s) \<and> \<not> isspace_char (last s)) \<Longrightarrow> strip s = s"
proof (cases "s = []")
  case False
  assume edges: "s \<noteq> [] \<Longrightarrow> \<not> isspace_char (hd s) \<and> \<not> isspace_char (last s)"
  with False have "lstrip s = s" by (cases s) (simp_all add: lstrip_def)
  moreover from edges False have "dropWhile isspace_char (rev s) = rev s"
    by (cases "rev s") (auto simp: last_rev hd_rev [symmetric] hd_Cons_tl dest: arg_cong [of _ _ rev])
  ultimately show ?thesis by (simp add: strip_def rstrip_def)
qed simp

lemma show_nat_edges: "isdecimal_char (hd (show_nat n)) \<and> isdecimal_char (last (show_nat n))"
  using show_nat_digits [of n] by (simp add: list_all_iff)

lemma strip_show_int: "strip (show_int n) = show_int n"
proof -
  have edges: "\<not> isspace_char (hd (show_nat k))" "\<not> isspace_char (last (show_nat k))" for k
    using show_nat_edges digit_not_space by auto
  have minus: "\<not> isspace_char (CHR ''-'')" by (simp add: isspace_char_def ord_def)
  show ?thesis by (rule strip_no_space) (auto simp: show_int_def edges minus)
qed

lemma length_show_nat: "length (show_nat n) \<le> Suc n"
proof (induction n rule: show_nat.induct)
  case (1 n)
  show ?case
  proof (cases "n < 10")
    case True
    then show ?thesis by (subst show_nat.simps) simp
  next
    case False
    with 1 have "length (show_nat (n div 10)) \<le> Suc (n div 10)" by simp
    moreover from False have "Suc (n div 10) \<le> n" by linarith
    ultimately show ?thesis using False by (subst show_nat.simps) simp
  qed
qed

theorem int_of_show_int: "length (show_nat (nat \<bar>n\<bar>)) \<le> MAX_STR_DIGITS \<Longrightarrow> int_of_text (show_int n) = Some n"
proof -
  assume short: "length (show_nat (nat \<bar>n\<bar>)) \<le> MAX_STR_DIGITS"
  have "take_sign (show_nat k) = (False, show_nat k)" for k
    using show_nat_edges [of k]
    by (cases "show_nat k") (auto simp: take_sign_def isdecimal_char_def ord_def)
  moreover have "take_sign (CHR ''-'' # s) = (True, s)" for s by (simp add: take_sign_def)
  ultimately show ?thesis
    using short strip_show_int [of n] digit_groups_plain [OF show_nat_digits show_nat_nonempty]
    by (cases "n < 0") (simp_all add: int_of_text_def show_int_def)
qed

end
