(* ===== verification/Config.thy ===== *)
theory Config
  imports Python_Builtins Url KvStore Registration
begin

text \<open>
  Startup configuration: the validated settings of \<open>app/config.py\<close>, the bootstrap pointer of
  \<open>app/bootstrap.py\<close> and the development seeding tool \<open>tools/seed_config_store.py\<close>. The store is any
  backend of the \<open>KvStore\<close> protocol; the YAML parser with the file it reads, and the SQLite driver that
  opens a path, are parameters.
\<close>

definition KEY_KEYCLOAK_SERVER_URL :: string where "KEY_KEYCLOAK_SERVER_URL = ''keycloak_server_url''"
definition KEY_KEYCLOAK_REALM :: string where "KEY_KEYCLOAK_REALM = ''keycloak_realm''"
definition KEY_KEYCLOAK_CLIENT_ID :: string where "KEY_KEYCLOAK_CLIENT_ID = ''keycloak_client_id''"
definition KEY_KEYCLOAK_CLIENT_SECRET :: string where "KEY_KEYCLOAK_CLIENT_SECRET = ''keycloak_client_secret''"
definition KEY_MERGE_CONFLICT_POLICY :: string where "KEY_MERGE_CONFLICT_POLICY = ''merge_conflict_policy''"
definition KEY_ALLOW_UNVERIFIED_LINK :: string where "KEY_ALLOW_UNVERIFIED_LINK = ''allow_unverified_email_link''"
definition KEY_REQUEST_TIMEOUT_SECONDS :: string where "KEY_REQUEST_TIMEOUT_SECONDS = ''request_timeout_seconds''"
definition KEY_OPERATOR_API_TOKEN :: string where "KEY_OPERATOR_API_TOKEN = ''operator_api_token''"
definition KEY_REGISTRATION_API_TOKEN :: string where "KEY_REGISTRATION_API_TOKEN = ''registration_api_token''"
definition KEY_REGISTRATION_CLIENT_ID :: string where "KEY_REGISTRATION_CLIENT_ID = ''registration_client_id''"
definition KEY_REGISTRATION_REDIRECT_URI :: string where "KEY_REGISTRATION_REDIRECT_URI = ''registration_redirect_uri''"

definition KEY_REGISTRATION_ACTION_LIFESPAN_SECONDS :: string where
  "KEY_REGISTRATION_ACTION_LIFESPAN_SECONDS = ''registration_action_lifespan_seconds''"

definition KEY_AUDIT_DATABASE_PATH :: string where "KEY_AUDIT_DATABASE_PATH = ''audit_database_path''"

definition MAX_REGISTRATION_ACTION_LIFESPAN_SECONDS :: int where
  "MAX_REGISTRATION_ACTION_LIFESPAN_SECONDS = 3600"

lemmas config_keys =
  KEY_KEYCLOAK_SERVER_URL_def KEY_KEYCLOAK_REALM_def KEY_KEYCLOAK_CLIENT_ID_def KEY_KEYCLOAK_CLIENT_SECRET_def
  KEY_MERGE_CONFLICT_POLICY_def KEY_ALLOW_UNVERIFIED_LINK_def KEY_REQUEST_TIMEOUT_SECONDS_def KEY_OPERATOR_API_TOKEN_def
  KEY_REGISTRATION_API_TOKEN_def KEY_REGISTRATION_CLIENT_ID_def KEY_REGISTRATION_REDIRECT_URI_def
  KEY_REGISTRATION_ACTION_LIFESPAN_SECONDS_def KEY_AUDIT_DATABASE_PATH_def

record service_config =
  cfg_keycloak_server_url :: string
  cfg_keycloak_realm :: string
  cfg_keycloak_client_id :: string
  cfg_keycloak_client_secret :: string
  cfg_operator_api_token :: string
  cfg_registration_api_token :: "string option"
  cfg_registration_client_id :: "string option"
  cfg_registration_redirect_uri :: "string option"
  cfg_registration_action_lifespan_seconds :: int
  cfg_audit_database_path :: string
  cfg_merge_conflict_policy :: string
  cfg_allow_unverified_email_link :: bool
  cfg_request_timeout_seconds :: pyfloat

section \<open>Typed values\<close>

definition require_entry :: "'st kv_ops \<Rightarrow> 'st \<Rightarrow> string \<Rightarrow> string \<Rightarrow> string result" where
  "require_entry kv st namespace entry_key =
     (case kv_get kv namespace entry_key st of
        None \<Rightarrow> Inl (RuntimeError (''required config '' @ quoted entry_key @
          '' missing in KV namespace '' @ quoted namespace))
      | Some value \<Rightarrow>
          if value = []
          then Inl (RuntimeError (''required config '' @ quoted entry_key @
            '' missing in KV namespace '' @ quoted namespace))
          else Inr value)"

definition config_error :: "string \<Rightarrow> string \<Rightarrow> exn" where
  "config_error entry_key problem = RuntimeError (''config '' @ quoted entry_key @ '' '' @ problem)"

definition as_bool :: "string option \<Rightarrow> bool \<Rightarrow> string \<Rightarrow> bool result" where
  "as_bool raw dflt entry_key =
     (if \<not> truthy_text raw then Inr dflt
      else
        let normalized = lower (strip (the raw)) in
        if normalized \<in> {''1'', ''true'', ''yes'', ''on''} then Inr True
        else if normalized \<in> {''0'', ''false'', ''no'', ''off''} then Inr False
        else Inl (config_error entry_key ''must be a boolean''))"

text \<open>\<open>dflt\<close> is the text \<open>str(default)\<close>.\<close>

definition as_finite_float :: "string option \<Rightarrow> string \<Rightarrow> string \<Rightarrow> bool \<Rightarrow> pyfloat result" where
  "as_finite_float raw dflt entry_key allow_zero =
     (case float_of_text (text_or raw dflt) of
        None \<Rightarrow> Inl (config_error entry_key ''must be a finite number'')
      | Some value \<Rightarrow>
          if (case value of Finite r \<Rightarrow> r < 0 \<or> (r = 0 \<and> \<not> allow_zero) | _ \<Rightarrow> True)
          then Inl (config_error entry_key (''must be a finite '' @
            (if allow_zero then ''non-negative'' else ''positive'') @ '' number''))
          else Inr value)"

definition as_positive_int :: "string option \<Rightarrow> int \<Rightarrow> string \<Rightarrow> int \<Rightarrow> int result" where
  "as_positive_int raw dflt entry_key maximum =
     (let candidate = (if \<not> truthy_text raw then show_int dflt else strip (the raw)) in
      case int_of_text candidate of
        None \<Rightarrow> Inl (config_error entry_key ''must be a positive integer'')
      | Some value \<Rightarrow>
          if show_int value \<noteq> candidate \<or> value \<le> 0 \<or> value > maximum
          then Inl (config_error entry_key (''must be a positive integer at or below '' @ show_int maximum))
          else Inr value)"

definition validated_https_uri :: "string \<Rightarrow> string \<Rightarrow> string result" where
  "validated_https_uri raw_uri entry_key =
     (let candidate = strip raw_uri in
      bindR (urlsplit candidate) (\<lambda>parsed.
      if url_scheme parsed \<noteq> ''https'' \<or> \<not> truthy_text (url_hostname parsed) \<or> url_username parsed \<noteq> None \<or>
         url_password parsed \<noteq> None \<or> url_fragment parsed \<noteq> []
      then Inl (config_error entry_key ''must be an absolute HTTPS URI without credentials or fragments'')
      else Inr candidate))"

section \<open>Loading\<close>

definition load_registration_settings ::
  "'st kv_ops \<Rightarrow> 'st \<Rightarrow> string \<Rightarrow> string option \<Rightarrow> (string option \<times> string option \<times> int) result" where
  "load_registration_settings kv st namespace registration_api_token =
     (case registration_api_token of
        None \<Rightarrow> Inr (None, None, 900)
      | Some _ \<Rightarrow>
          bindR (require_entry kv st namespace KEY_REGISTRATION_CLIENT_ID) (\<lambda>client_id.
          bindR (requireR (\<not> (length client_id > 255 \<or> list_ex (\<lambda>c. isspace_char c \<or> ord c < 32) client_id))
            (config_error KEY_REGISTRATION_CLIENT_ID ''must be one bounded client ID'')) (\<lambda>_.
          bindR (require_entry kv st namespace KEY_REGISTRATION_REDIRECT_URI) (\<lambda>raw_uri.
          bindR (validated_https_uri raw_uri KEY_REGISTRATION_REDIRECT_URI) (\<lambda>redirect_uri.
          bindR (as_positive_int (kv_get kv namespace KEY_REGISTRATION_ACTION_LIFESPAN_SECONDS st) 900
            KEY_REGISTRATION_ACTION_LIFESPAN_SECONDS MAX_REGISTRATION_ACTION_LIFESPAN_SECONDS) (\<lambda>lifespan_seconds.
          Inr (Some client_id, Some redirect_uri, lifespan_seconds)))))))"

definition load_service_config :: "'st kv_ops \<Rightarrow> 'st \<Rightarrow> string \<Rightarrow> service_config result" where
  "load_service_config kv st namespace =
     bindR (require_entry kv st namespace KEY_OPERATOR_API_TOKEN) (\<lambda>operator_api_token.
     let stored_token = kv_get kv namespace KEY_REGISTRATION_API_TOKEN st;
         registration_api_token = (if truthy_text stored_token then stored_token else None) in
     bindR (requireR (registration_api_token \<noteq> Some operator_api_token)
       (config_error KEY_REGISTRATION_API_TOKEN (''must differ from '' @ quoted ''operator_api_token''))) (\<lambda>_.
     bindR (load_registration_settings kv st namespace registration_api_token) (\<lambda>(client_id, redirect_uri, lifespan_seconds).
     bindR (as_bool (kv_get kv namespace KEY_ALLOW_UNVERIFIED_LINK st) False KEY_ALLOW_UNVERIFIED_LINK) (\<lambda>allow_unverified.
     bindR (requireR (\<not> allow_unverified) (config_error KEY_ALLOW_UNVERIFIED_LINK ''must remain false'')) (\<lambda>_.
     let policy = text_or (kv_get kv namespace KEY_MERGE_CONFLICT_POLICY st) ''survivor_wins'' in
     bindR (requireR (policy = ''survivor_wins'') (config_error KEY_MERGE_CONFLICT_POLICY (''must be '' @ quoted ''survivor_wins''))) (\<lambda>_.
     bindR (require_entry kv st namespace KEY_KEYCLOAK_SERVER_URL) (\<lambda>server_url.
     bindR (require_entry kv st namespace KEY_KEYCLOAK_REALM) (\<lambda>realm.
     bindR (require_entry kv st namespace KEY_KEYCLOAK_CLIENT_ID) (\<lambda>keycloak_client_id.
     bindR (require_entry kv st namespace KEY_KEYCLOAK_CLIENT_SECRET) (\<lambda>client_secret.
     bindR (as_finite_float (kv_get kv namespace KEY_REQUEST_TIMEOUT_SECONDS st) ''10.0''
       KEY_REQUEST_TIMEOUT_SECONDS False) (\<lambda>timeout.
     Inr \<lparr>cfg_keycloak_server_url = server_url, cfg_keycloak_realm = realm, cfg_keycloak_client_id = keycloak_client_id,
       cfg_keycloak_client_secret = client_secret, cfg_operator_api_token = operator_api_token,
       cfg_registration_api_token = registration_api_token, cfg_registration_client_id = client_id,
       cfg_registration_redirect_uri = redirect_uri, cfg_registration_action_lifespan_seconds = lifespan_seconds,
       cfg_audit_database_path =
         text_or (kv_get kv namespace KEY_AUDIT_DATABASE_PATH st) ''/var/lib/account-unification/audit.db'',
       cfg_merge_conflict_policy = policy, cfg_allow_unverified_email_link = allow_unverified,
       cfg_request_timeout_seconds = timeout\<rparr>)))))))))))"

section \<open>Bootstrap\<close>

record bootstrap_descriptor =
  bd_backend :: json
  bd_namespace :: json
  bd_sqlite_path :: json
  bd_postgres_dsn_secret_ref :: json

definition BOOTSTRAP_ENV_VAR :: string where "BOOTSTRAP_ENV_VAR = ''CWL_IDP_BOOTSTRAP''"

text \<open>\<open>read_yaml\<close> reads and parses the file of a path; \<open>bootstrap_env\<close> is the environment variable.\<close>

definition load_bootstrap_descriptor ::
  "(string \<Rightarrow> json result) \<Rightarrow> string option \<Rightarrow> string option \<Rightarrow> bootstrap_descriptor result" where
  "load_bootstrap_descriptor read_yaml bootstrap_env bootstrap_path =
     (let resolved = (if truthy_text bootstrap_path then bootstrap_path else bootstrap_env) in
      bindR (requireR (truthy_text resolved) (RuntimeError (BOOTSTRAP_ENV_VAR @
        '' is not set; it must point at the bootstrap YAML that locates the config store.''))) (\<lambda>_.
      bindR (read_yaml (the resolved)) (\<lambda>parsed.
      let document = json_or parsed (JObj []) in
      bindR (json_get_or document ''config_store'' (JObj [])) (\<lambda>store.
      bindR (json_get_or store ''backend'' (JStr ''sqlite'')) (\<lambda>backend.
      bindR (json_get_or store ''namespace'' (JStr ''account_unification'')) (\<lambda>namespace.
      bindR (json_get store ''sqlite'') (\<lambda>sqlite.
      bindR (json_get (json_or sqlite (JObj [])) ''path'') (\<lambda>sqlite_path.
      bindR (json_get store ''postgres'') (\<lambda>postgres.
      bindR (json_get (json_or postgres (JObj [])) ''dsn_secret_ref'') (\<lambda>dsn_secret_ref.
      Inr \<lparr>bd_backend = backend, bd_namespace = namespace, bd_sqlite_path = sqlite_path,
        bd_postgres_dsn_secret_ref = dsn_secret_ref\<rparr>))))))))))"

definition open_config_store :: "(json \<Rightarrow> 'st result) \<Rightarrow> bootstrap_descriptor \<Rightarrow> 'st result" where
  "open_config_store connect descriptor =
     (if py_eq (bd_backend descriptor) (JStr ''sqlite'') then
        (if \<not> truthy (bd_sqlite_path descriptor)
         then Inl (RuntimeError ''sqlite backend requires config_store.sqlite.path'')
         else connect (bd_sqlite_path descriptor))
      else Inl (RuntimeError (''config store backend '' @ quoted (py_str (bd_backend descriptor)) @
        '' is unavailable in the standalone image; use the sqlite backend or ship a PgKvStore adapter '' @
        ''with this deployment image.'')))"

section \<open>Seeding\<close>

record seed_args =
  seed_namespace :: string
  seed_server_url :: string
  seed_realm :: string
  seed_client_id :: string
  seed_client_secret :: string
  seed_operator_token :: string
  seed_registration_token :: string
  seed_registration_client_id :: string
  seed_registration_redirect_uri :: string
  seed_registration_action_lifespan_seconds :: string
  seed_audit_database_path :: string

definition seed_defaults :: seed_args where
  "seed_defaults = \<lparr>seed_namespace = ''account_unification'', seed_server_url = ''http://localhost:8080'',
     seed_realm = ''cwl'', seed_client_id = ''account-unification-svc'', seed_client_secret = ''dev-placeholder-secret'',
     seed_operator_token = ''dev-operator-token'', seed_registration_token = [],
     seed_registration_client_id = ''naruon-web'',
     seed_registration_redirect_uri = ''https://naruon.example/auth/passkey-complete'',
     seed_registration_action_lifespan_seconds = ''900'',
     seed_audit_database_path = ''../../deploy/bootstrap/account_unification_audit.sqlite3''\<rparr>"

definition registration_entries :: "seed_args \<Rightarrow> (string \<times> string) list" where
  "registration_entries args =
     (if seed_registration_token args = [] then []
      else [(KEY_REGISTRATION_API_TOKEN, seed_registration_token args),
            (KEY_REGISTRATION_CLIENT_ID, seed_registration_client_id args),
            (KEY_REGISTRATION_REDIRECT_URI, seed_registration_redirect_uri args),
            (KEY_REGISTRATION_ACTION_LIFESPAN_SECONDS, seed_registration_action_lifespan_seconds args)])"

definition seed_entries :: "seed_args \<Rightarrow> (string \<times> string) list" where
  "seed_entries args =
     [(KEY_KEYCLOAK_SERVER_URL, seed_server_url args), (KEY_KEYCLOAK_REALM, seed_realm args),
      (KEY_KEYCLOAK_CLIENT_ID, seed_client_id args), (KEY_KEYCLOAK_CLIENT_SECRET, seed_client_secret args),
      (KEY_MERGE_CONFLICT_POLICY, ''survivor_wins''), (KEY_ALLOW_UNVERIFIED_LINK, ''false''),
      (KEY_OPERATOR_API_TOKEN, seed_operator_token args), (KEY_AUDIT_DATABASE_PATH, seed_audit_database_path args)] @
     registration_entries args"

definition seed_store :: "'st kv_ops \<Rightarrow> seed_args \<Rightarrow> 'st \<Rightarrow> 'st" where
  "seed_store kv args st = fold (\<lambda>(k, v). kv_put kv (seed_namespace args) k v) (seed_entries args) st"

end
