(* ===== verification/Config_Theorems.thy ===== *)
theory Config_Theorems
  imports Config "HOL-Library.Code_Target_Nat"
begin

text \<open>
  What the configuration loader guarantees of every configuration it returns, whatever the store
  holds, and that a store written by the seeding tool is one the loader reads back.
\<close>

section \<open>Loaded configurations are safe\<close>

definition https_uri :: "string \<Rightarrow> bool" where
  "https_uri uri \<longleftrightarrow>
     (\<exists>parsed. urlsplit uri = Inr parsed \<and> url_scheme parsed = ''https'' \<and> truthy_text (url_hostname parsed) \<and>
        url_username parsed = None \<and> url_password parsed = None \<and> url_fragment parsed = [])"

definition registration_safe :: "service_config \<Rightarrow> bool" where
  "registration_safe c \<longleftrightarrow>
     (case cfg_registration_api_token c of
        None \<Rightarrow> cfg_registration_client_id c = None \<and> cfg_registration_redirect_uri c = None \<and>
          cfg_registration_action_lifespan_seconds c = 900
      | Some token \<Rightarrow> token \<noteq> [] \<and> token \<noteq> cfg_operator_api_token c \<and>
          (\<exists>client_id uri. cfg_registration_client_id c = Some client_id \<and> client_id \<noteq> [] \<and> length client_id \<le> 255 \<and>
             list_all (\<lambda>ch. \<not> isspace_char ch) client_id \<and> cfg_registration_redirect_uri c = Some uri \<and> https_uri uri) \<and>
          0 < cfg_registration_action_lifespan_seconds c \<and> cfg_registration_action_lifespan_seconds c \<le> 3600)"

definition config_safe :: "service_config \<Rightarrow> bool" where
  "config_safe c \<longleftrightarrow>
     cfg_keycloak_server_url c \<noteq> [] \<and> cfg_keycloak_realm c \<noteq> [] \<and> cfg_keycloak_client_id c \<noteq> [] \<and>
     cfg_keycloak_client_secret c \<noteq> [] \<and> cfg_operator_api_token c \<noteq> [] \<and> cfg_audit_database_path c \<noteq> [] \<and>
     cfg_merge_conflict_policy c = ''survivor_wins'' \<and> \<not> cfg_allow_unverified_email_link c \<and>
     (\<exists>r>0. cfg_request_timeout_seconds c = Finite r) \<and> registration_safe c"

lemma require_entry_ok:
  "require_entry kv st ns k = Inr v \<longleftrightarrow> kv_get kv ns k st = Some v \<and> v \<noteq> []"
  by (auto simp: require_entry_def split: option.splits)

lemma as_finite_float_ok:
  "as_finite_float raw d k False = Inr v \<Longrightarrow> \<exists>r>0. v = Finite r"
  by (auto simp: as_finite_float_def split: option.splits pyfloat.splits if_splits)

lemma as_positive_int_ok: "as_positive_int raw d k m = Inr v \<Longrightarrow> 0 < v \<and> v \<le> m"
  by (auto simp: as_positive_int_def Let_def split: option.splits if_splits)

lemma validated_https_uri_ok: "validated_https_uri raw k = Inr uri \<Longrightarrow> https_uri uri"
  by (auto simp: validated_https_uri_def https_uri_def Let_def bindR_eq_Inr split: if_splits)

lemma text_or_nonempty: "d \<noteq> [] \<Longrightarrow> text_or s d \<noteq> []"
  by (simp add: text_or_def split: option.split)

lemma registration_settings_ok:
  assumes "load_registration_settings kv st ns token = Inr (client_id, uri, lifespan)"
  shows "if token = None then client_id = None \<and> uri = None \<and> lifespan = 900
    else (\<exists>i u. client_id = Some i \<and> i \<noteq> [] \<and> length i \<le> 255 \<and> list_all (\<lambda>ch. \<not> isspace_char ch) i \<and>
        uri = Some u \<and> https_uri u) \<and> 0 < lifespan \<and> lifespan \<le> 3600"
proof (cases token)
  case None
  with assms show ?thesis by (simp add: load_registration_settings_def)
next
  case (Some t)
  with assms obtain i raw u where parts: "require_entry kv st ns KEY_REGISTRATION_CLIENT_ID = Inr i"
      "\<not> (length i > 255 \<or> list_ex (\<lambda>c. isspace_char c \<or> ord c < 32) i)"
      "validated_https_uri raw KEY_REGISTRATION_REDIRECT_URI = Inr u"
      "as_positive_int (kv_get kv ns KEY_REGISTRATION_ACTION_LIFESPAN_SECONDS st) 900
        KEY_REGISTRATION_ACTION_LIFESPAN_SECONDS MAX_REGISTRATION_ACTION_LIFESPAN_SECONDS = Inr lifespan"
    and eqs: "client_id = Some i" "uri = Some u"
    by (auto simp: load_registration_settings_def bindR_eq_Inr)
  with validated_https_uri_ok [OF parts(3)] as_positive_int_ok [OF parts(4)] Some show ?thesis
    by (auto simp: require_entry_ok MAX_REGISTRATION_ACTION_LIFESPAN_SECONDS_def list_ex_iff list_all_iff)
qed

lemma loaded_config_safe:
  assumes "load_service_config kv st ns = Inr c"
  shows "config_safe c"
proof -
  from assms obtain op token cid uri life where
    parts: "require_entry kv st ns KEY_OPERATOR_API_TOKEN = Inr op" "token \<noteq> Some op"
      "load_registration_settings kv st ns token = Inr (cid, uri, life)"
    and token: "token = (if truthy_text (kv_get kv ns KEY_REGISTRATION_API_TOKEN st)
        then kv_get kv ns KEY_REGISTRATION_API_TOKEN st else None)"
    and registration: "cfg_operator_api_token c = op" "cfg_registration_api_token c = token"
      "cfg_registration_client_id c = cid" "cfg_registration_redirect_uri c = uri"
      "cfg_registration_action_lifespan_seconds c = life"
    and rest: "cfg_merge_conflict_policy c = ''survivor_wins''" "\<not> cfg_allow_unverified_email_link c"
      "require_entry kv st ns KEY_KEYCLOAK_SERVER_URL = Inr (cfg_keycloak_server_url c)"
      "require_entry kv st ns KEY_KEYCLOAK_REALM = Inr (cfg_keycloak_realm c)"
      "require_entry kv st ns KEY_KEYCLOAK_CLIENT_ID = Inr (cfg_keycloak_client_id c)"
      "require_entry kv st ns KEY_KEYCLOAK_CLIENT_SECRET = Inr (cfg_keycloak_client_secret c)"
      "as_finite_float (kv_get kv ns KEY_REQUEST_TIMEOUT_SECONDS st) ''10.0'' KEY_REQUEST_TIMEOUT_SECONDS False =
        Inr (cfg_request_timeout_seconds c)"
      "cfg_audit_database_path c = text_or (kv_get kv ns KEY_AUDIT_DATABASE_PATH st) ''/var/lib/account-unification/audit.db''"
    unfolding load_service_config_def Let_def bindR_eq_Inr by (auto simp: bindR_eq_Inr split: prod.splits)
  have "token = Some t \<Longrightarrow> t \<noteq> []" for t
    using token by (auto simp: truthy_text_def split: if_splits)
  with parts(2) registration_settings_ok [OF parts(3)] registration have "registration_safe c"
    by (auto simp: registration_safe_def split: option.splits)
  with parts(1) rest(1-6) as_finite_float_ok [OF rest(7)] rest(8) registration(1) show ?thesis
    by (simp add: config_safe_def require_entry_ok text_or_nonempty)
qed

text \<open>
  C26. Whatever the store holds, the loader raises or returns a safe configuration: every Keycloak
  coordinate and the operator token are present; unverified-email linking is off and the only merge
  policy is survivor-wins; the request timeout is a finite positive number; and self-service
  registration is either entirely off or has its own token, different from the operator's, one
  bounded client id, an HTTPS redirect without credentials or fragment and a lifespan of at most an
  hour.
\<close>

theorem config_is_safe:
  assumes "load_service_config kv st ns = Inr c"
  shows "config_safe c"
  using assms by (rule loaded_config_safe)

section \<open>A seeded store loads\<close>

context kv_store
begin

lemma fold_put_abs:
  "kv_inv st \<Longrightarrow> kv_inv (fold (\<lambda>(k, v). kv_put kv ns k v) es st) \<and>
     kv_get kv ns k (fold (\<lambda>(k, v). kv_put kv ns k v) es st) =
       (case map_of (rev es) k of Some v \<Rightarrow> Some v | None \<Rightarrow> kv_get kv ns k st)"
proof (induction es arbitrary: st)
  case (Cons e es)
  then show ?case
    by (cases e) (auto simp: put_inv get_put map_add_def split: option.splits)
qed simp

end

definition seeded_config :: "seed_args \<Rightarrow> service_config" where
  "seeded_config args =
     (let enabled = seed_registration_token args \<noteq> [] in
      \<lparr>cfg_keycloak_server_url = seed_server_url args, cfg_keycloak_realm = seed_realm args,
       cfg_keycloak_client_id = seed_client_id args, cfg_keycloak_client_secret = seed_client_secret args,
       cfg_operator_api_token = seed_operator_token args,
       cfg_registration_api_token = (if enabled then Some (seed_registration_token args) else None),
       cfg_registration_client_id = (if enabled then Some (seed_registration_client_id args) else None),
       cfg_registration_redirect_uri = (if enabled then Some (strip (seed_registration_redirect_uri args)) else None),
       cfg_registration_action_lifespan_seconds =
         (if enabled then the (int_of_text (seed_registration_action_lifespan_seconds args)) else 900),
       cfg_audit_database_path = seed_audit_database_path args, cfg_merge_conflict_policy = ''survivor_wins'',
       cfg_allow_unverified_email_link = False, cfg_request_timeout_seconds = Finite 10\<rparr>)"

text \<open>The arguments a configuration can be made of.\<close>

definition seed_args_ok :: "seed_args \<Rightarrow> bool" where
  "seed_args_ok args \<longleftrightarrow>
     seed_server_url args \<noteq> [] \<and> seed_realm args \<noteq> [] \<and> seed_client_id args \<noteq> [] \<and> seed_client_secret args \<noteq> [] \<and>
     seed_operator_token args \<noteq> [] \<and> seed_audit_database_path args \<noteq> [] \<and>
     (seed_registration_token args \<noteq> [] \<longrightarrow>
        seed_registration_token args \<noteq> seed_operator_token args \<and> seed_registration_client_id args \<noteq> [] \<and>
        length (seed_registration_client_id args) \<le> 255 \<and>
        \<not> list_ex (\<lambda>c. isspace_char c \<or> ord c < 32) (seed_registration_client_id args) \<and>
        seed_registration_redirect_uri args \<noteq> [] \<and> https_uri (strip (seed_registration_redirect_uri args)) \<and>
        (\<exists>n. 0 < n \<and> n \<le> 3600 \<and> seed_registration_action_lifespan_seconds args = show_int n))"

lemma nearest_double_10: "nearest_double 100 10 = Finite 10"
proof -
  have "floorlog 2 100 = 7" "floorlog 2 10 = 4" by (simp_all add: compute_floorlog)
  then have "binary_exponent 100 10 = 3" by (simp add: binary_exponent_def)
  moreover have "round_half_even (100 * 2 ^ 49) 10 = 10 * 2 ^ 49" by (simp add: round_half_even_def)
  moreover have "\<not> (2 :: rat) ^ 1024 \<le> 10"
    using power_increasing [of 4 1024 "2 :: rat"] by simp
  ultimately show ?thesis by (simp add: nearest_double_def)
qed

lemma default_timeout: "float_of_text ''10.0'' = Some (Finite 10)"
proof -
  have "float_of_text ''10.0'' = Some (decimal_float ''100'' 1 0)"
    by (simp add: float_of_text_def unsigned_float_def take_sign_def read_mantissa_def lower_def lower_char_def
        strip_def lstrip_def rstrip_def text_predicate_defs negate_float_def)
  also have "decimal_float ''100'' 1 0 = Finite 10"
    by (simp add: decimal_float_def read_nat_def ord_def nearest_double_10)
  finally show ?thesis .
qed

lemma as_finite_float_default: "\<not> truthy_text raw \<Longrightarrow> as_finite_float raw ''10.0'' k False = Inr (Finite 10)"
  by (auto simp: as_finite_float_def text_or_def truthy_text_def default_timeout split: option.splits)

lemma as_bool_false: "as_bool (Some ''false'') False k = Inr False"
  by code_simp

lemma validated_uri_complete: "https_uri (strip u) \<Longrightarrow> validated_https_uri u k = Inr (strip u)"
  by (auto simp: validated_https_uri_def https_uri_def Let_def)

lemma show_int_nonempty: "show_int n \<noteq> []"
  by (simp add: show_int_def)

lemma as_positive_int_complete:
  "0 < n \<Longrightarrow> n \<le> m \<Longrightarrow> int_of_text (show_int n) = Some n \<Longrightarrow> as_positive_int (Some (show_int n)) d k m = Inr n"
  by (simp add: as_positive_int_def truthy_text_def strip_show_int show_int_nonempty)

lemma lifespan_reads_back: "n \<le> 3600 \<Longrightarrow> 0 < n \<Longrightarrow> int_of_text (show_int n) = Some n"
  using length_show_nat [of "nat \<bar>n\<bar>"] by (intro int_of_show_int) (simp add: MAX_STR_DIGITS_def)

text \<open>What the loader reads after a seeding run.\<close>

lemma seeded_lookup:
  assumes "sqlite_kv_inv st"
  shows "kv_get sqlite_kv_ops (seed_namespace args) k (seed_store sqlite_kv_ops args st) =
    (case map_of (rev (seed_entries args)) k of
       Some v \<Rightarrow> Some v | None \<Rightarrow> kv_get sqlite_kv_ops (seed_namespace args) k st)"
  unfolding seed_store_def using sqlite_kv.fold_put_abs [OF assms] by blast

lemma seeded_values:
  fixes args
  assumes inv: "sqlite_kv_inv st"
  defines "got \<equiv> \<lambda>k. kv_get sqlite_kv_ops (seed_namespace args) k (seed_store sqlite_kv_ops args st)"
  shows "got KEY_KEYCLOAK_SERVER_URL = Some (seed_server_url args)" "got KEY_KEYCLOAK_REALM = Some (seed_realm args)"
    "got KEY_KEYCLOAK_CLIENT_ID = Some (seed_client_id args)" "got KEY_KEYCLOAK_CLIENT_SECRET = Some (seed_client_secret args)"
    "got KEY_MERGE_CONFLICT_POLICY = Some ''survivor_wins''" "got KEY_ALLOW_UNVERIFIED_LINK = Some ''false''"
    "got KEY_OPERATOR_API_TOKEN = Some (seed_operator_token args)"
    "got KEY_AUDIT_DATABASE_PATH = Some (seed_audit_database_path args)"
    "got KEY_REQUEST_TIMEOUT_SECONDS = kv_get sqlite_kv_ops (seed_namespace args) KEY_REQUEST_TIMEOUT_SECONDS st"
    "got KEY_REGISTRATION_API_TOKEN = (if seed_registration_token args = []
       then kv_get sqlite_kv_ops (seed_namespace args) KEY_REGISTRATION_API_TOKEN st else Some (seed_registration_token args))"
    "seed_registration_token args \<noteq> [] \<Longrightarrow> got KEY_REGISTRATION_CLIENT_ID = Some (seed_registration_client_id args)"
    "seed_registration_token args \<noteq> [] \<Longrightarrow> got KEY_REGISTRATION_REDIRECT_URI = Some (seed_registration_redirect_uri args)"
    "seed_registration_token args \<noteq> [] \<Longrightarrow>
       got KEY_REGISTRATION_ACTION_LIFESPAN_SECONDS = Some (seed_registration_action_lifespan_seconds args)"
  unfolding got_def seeded_lookup [OF inv] seed_entries_def registration_entries_def config_keys
  by simp_all

lemma seeded_load:
  assumes inv: "sqlite_kv_inv st" and ok: "seed_args_ok args"
    and timeout: "\<not> truthy_text (kv_get sqlite_kv_ops (seed_namespace args) KEY_REQUEST_TIMEOUT_SECONDS st)"
    and token: "seed_registration_token args = [] \<Longrightarrow>
      \<not> truthy_text (kv_get sqlite_kv_ops (seed_namespace args) KEY_REGISTRATION_API_TOKEN st)"
  shows "load_service_config sqlite_kv_ops (seed_store sqlite_kv_ops args st) (seed_namespace args) = Inr (seeded_config args)"
proof (cases "seed_registration_token args = []")
  case True
  with ok token timeout show ?thesis
    unfolding load_service_config_def Let_def require_entry_def load_registration_settings_def
    by (simp add: seeded_values [OF inv] seed_args_ok_def as_bool_false as_finite_float_default text_or_def seeded_config_def)
next
  case False
  with ok obtain n where n: "0 < n" "n \<le> 3600" "seed_registration_action_lifespan_seconds args = show_int n"
    unfolding seed_args_ok_def by blast
  from False ok timeout show ?thesis
    unfolding load_service_config_def Let_def require_entry_def load_registration_settings_def
    by (simp add: seeded_values [OF inv] seed_args_ok_def as_bool_false as_finite_float_default text_or_def seeded_config_def
        truthy_text_def validated_uri_complete as_positive_int_complete MAX_REGISTRATION_ACTION_LIFESPAN_SECONDS_def n lifespan_reads_back)
qed


text \<open>
  Seeding again without a registration token does not turn registration off: the token of an earlier
  run stays in the store and is loaded.
\<close>

theorem reseed_keeps_registration:
  assumes "sqlite_kv_inv st" "seed_registration_token args = []"
    and "kv_get sqlite_kv_ops (seed_namespace args) KEY_REGISTRATION_API_TOKEN st = Some token" "token \<noteq> []"
    and "load_service_config sqlite_kv_ops (seed_store sqlite_kv_ops args st) (seed_namespace args) = Inr c"
  shows "cfg_registration_api_token c = Some token"
  using assms(2-) unfolding load_service_config_def Let_def
  by (auto simp: bindR_eq_Inr seeded_values [OF assms(1)] truthy_text_def split: prod.splits)

section \<open>Witnesses\<close>

definition registration_seed :: seed_args where
  "registration_seed = seed_defaults\<lparr>seed_registration_token := ''product-token''\<rparr>"

lemma demo_uri: "https_uri ''https://naruon.example/auth/passkey-complete''"
proof -
  have "(case urlsplit ''https://naruon.example/auth/passkey-complete'' of Inl _ \<Rightarrow> False
    | Inr p \<Rightarrow> url_scheme p = ''https'' \<and> truthy_text (url_hostname p) \<and> url_username p = None \<and>
        url_password p = None \<and> url_fragment p = [])"
    by code_simp
  then show ?thesis by (auto simp: https_uri_def split: sum.splits)
qed

lemma registration_seed_ok: "seed_args_ok registration_seed"
proof -
  have "strip ''https://naruon.example/auth/passkey-complete'' = ''https://naruon.example/auth/passkey-complete''"
    "\<not> list_ex (\<lambda>c. isspace_char c \<or> ord c < 32) ''naruon-web''" "show_int 900 = ''900''"
    by code_simp+
  then show ?thesis
    using demo_uri unfolding seed_args_ok_def registration_seed_def seed_defaults_def
    by (auto intro!: exI [of _ "900 :: int"])
qed

lemma empty_store: "sqlite_kv_inv []" "kv_get sqlite_kv_ops ns k [] = None"
  by (simp_all add: sqlite_kv_inv_def sqlite_kv_ops_def sqlite_get_def)

theorem config_is_safe_witness:
  "config_safe (seeded_config registration_seed)"
proof -
  have "load_service_config sqlite_kv_ops (seed_store sqlite_kv_ops registration_seed []) (seed_namespace registration_seed) =
     Inr (seeded_config registration_seed)"
    using registration_seed_ok by (intro seeded_load) (simp_all add: empty_store truthy_text_def)
  then show ?thesis by (rule config_is_safe)
qed


end
