(* ===== verification/Lifecycle.thy ===== *)
theory Lifecycle
  imports Config_Theorems Auth
begin

text \<open>
  The application of \<open>app/main.py\<close>: wiring of the live services at startup, release of the resources
  at shutdown, the readiness endpoint and the routers with their dependencies; and the container
  health check of \<open>app/healthcheck.py\<close>. What the operating system and the drivers answer (files,
  SQLite, the HTTP client's constructor, the YAML parser) is the parameter \<open>platform\<close>.
\<close>

section \<open>Application state\<close>

datatype resource = Config_Store | Keycloak_Api | Audit_Logger

record 'st platform =
  pf_kv :: "'st kv_ops"
  pf_bootstrap_env :: "string option"
  pf_read_yaml :: "string \<Rightarrow> json result"
  pf_connect :: "json \<Rightarrow> 'st result"
  pf_bind_text :: "json \<Rightarrow> string result"
  pf_make_parent :: "string \<Rightarrow> unit result"
  pf_open_api :: "service_config \<Rightarrow> unit result"
  pf_open_audit :: "string \<Rightarrow> unit result"
  pf_mkstemp :: "string result"
  pf_open_locks :: "string \<Rightarrow> unit result"
  pf_close :: "resource \<Rightarrow> unit result"
  pf_unlink :: "string \<Rightarrow> unit result"

text \<open>The two services that requests may create on demand are objects with an identity; startup makes object 0.\<close>

record 'st app_state =
  app_ready :: bool
  app_config_store :: "'st option"
  app_unification_service :: "service_config option"
  app_audit_logger :: "string option"
  app_keycloak_api :: "service_config option"
  app_user_operation_locks :: "string option"
  app_lock_database_path :: "string option"
  app_temporary_lock_database :: bool
  app_federation_service :: bool
  app_relying_party_service :: "nat option"
  app_directory_federation_service :: "nat option"
  app_operator_api_token :: "string option"
  app_registration_api_token :: "string option"
  app_registration :: registration_settings

text \<open>The state of the process: the application, the resources it holds open and the lock databases on disk.\<close>

record 'st world =
  w_app :: "'st app_state"
  w_open :: "resource list"
  w_files :: "string list"

definition set_app :: "('st app_state \<Rightarrow> 'st app_state) \<Rightarrow> ('st world, unit) action" where
  "set_app f = modifyA (w_app_update f)"

definition opened :: "resource \<Rightarrow> ('st world, unit) action" where
  "opened res = modifyA (w_open_update (\<lambda>rs. res # rs))"

definition created :: "string \<Rightarrow> ('st world, unit) action" where
  "created path = modifyA (w_files_update (List.insert path))"

section \<open>Startup\<close>

definition ensure_parent_directory :: "'st platform \<Rightarrow> string \<Rightarrow> unit result" where
  "ensure_parent_directory pf database_path =
     (if database_path = '':memory:'' then Inr () else pf_make_parent pf database_path)"

definition user_operation_lock_path :: "'st platform \<Rightarrow> string \<Rightarrow> ('st world, string \<times> bool) action" where
  "user_operation_lock_path pf audit_database_path =
     (if audit_database_path \<noteq> '':memory:''
      then returnA (audit_database_path @ ''.user-operation-locks.sqlite3'', False)
      else
        bindA (liftA (pf_mkstemp pf)) (\<lambda>temporary_path.
        bindA (created temporary_path) (\<lambda>_. returnA (temporary_path, True))))"

definition wired_state :: "'st \<Rightarrow> service_config \<Rightarrow> string \<Rightarrow> bool \<Rightarrow> 'st app_state \<Rightarrow> 'st app_state" where
  "wired_state store config lock_path temporary app = app\<lparr>
     app_config_store := Some store, app_unification_service := Some config,
     app_audit_logger := Some (cfg_audit_database_path config), app_keycloak_api := Some config,
     app_user_operation_locks := Some lock_path, app_lock_database_path := Some lock_path,
     app_temporary_lock_database := temporary, app_federation_service := True, app_relying_party_service := Some 0,
     app_operator_api_token := Some (cfg_operator_api_token config),
     app_registration_api_token := cfg_registration_api_token config,
     app_registration := \<lparr>registration_client_id = cfg_registration_client_id config,
       registration_redirect_uri = cfg_registration_redirect_uri config,
       registration_action_lifespan_seconds = Some (cfg_registration_action_lifespan_seconds config)\<rparr>,
     app_ready := True\<rparr>"

definition build_service :: "'st platform \<Rightarrow> ('st world, unit) action" where
  "build_service pf =
     bindA (liftA (load_bootstrap_descriptor (pf_read_yaml pf) (pf_bootstrap_env pf) None)) (\<lambda>descriptor.
     bindA (liftA (open_config_store (pf_connect pf) descriptor)) (\<lambda>store.
     bindA (opened Config_Store) (\<lambda>_.
     bindA (liftA (pf_bind_text pf (bd_namespace descriptor))) (\<lambda>namespace.
     bindA (liftA (load_service_config (pf_kv pf) store namespace)) (\<lambda>config.
     bindA (liftA (ensure_parent_directory pf (cfg_audit_database_path config))) (\<lambda>_.
     bindA (liftA (pf_open_api pf config)) (\<lambda>_.
     bindA (opened Keycloak_Api) (\<lambda>_.
     bindA (liftA (pf_open_audit pf (cfg_audit_database_path config))) (\<lambda>_.
     bindA (opened Audit_Logger) (\<lambda>_.
     bindA (user_operation_lock_path pf (cfg_audit_database_path config)) (\<lambda>(lock_path, temporary).
     bindA (liftA (pf_open_locks pf lock_path)) (\<lambda>_.
     bindA (created lock_path) (\<lambda>_.
     set_app (wired_state store config lock_path temporary))))))))))))))"

section \<open>Shutdown\<close>

definition close_resource :: "'st platform \<Rightarrow> resource \<Rightarrow> bool \<Rightarrow> ('st world, unit) action" where
  "close_resource pf res present =
     (if \<not> present then returnA ()
      else
        bindA (liftA (pf_close pf res)) (\<lambda>_.
        modifyA (w_open_update (remove1 res))))"

definition remove_temporary_lock_database :: "'st platform \<Rightarrow> ('st world, unit) action" where
  "remove_temporary_lock_database pf =
     bindA (readA w_app) (\<lambda>app.
     if \<not> app_temporary_lock_database app then returnA ()
     else if truthy_text (app_lock_database_path app) then
       bindA (liftA (pf_unlink pf (the (app_lock_database_path app)))) (\<lambda>_.
       modifyA (w_files_update (removeAll (the (app_lock_database_path app)))))
     else returnA ())"

definition shutdown :: "'st platform \<Rightarrow> ('st world, unit) action" where
  "shutdown pf =
     bindA (set_app (app_ready_update (\<lambda>_. False))) (\<lambda>_.
     bindA (readA w_app) (\<lambda>app.
     bindA (close_resource pf Keycloak_Api (app_keycloak_api app \<noteq> None)) (\<lambda>_.
     bindA (close_resource pf Audit_Logger (app_audit_logger app \<noteq> None)) (\<lambda>_.
     bindA (close_resource pf Config_Store (app_config_store app \<noteq> None)) (\<lambda>_.
     remove_temporary_lock_database pf)))))"

text \<open>\<open>try: body finally: cleanup\<close>, where the cleanup may raise: its exception replaces the body's.\<close>

definition try_finally :: "('s, 'a) action \<Rightarrow> ('s, unit) action \<Rightarrow> ('s, 'a) action" where
  "try_finally body cleanup = (\<lambda>s.
     case body s of (r, s1) \<Rightarrow> (case cleanup s1 of (Inl e, s2) \<Rightarrow> (Inl e, s2) | (Inr _, s2) \<Rightarrow> (r, s2)))"

definition lifespan :: "'st platform \<Rightarrow> ('st world, 'a) action \<Rightarrow> ('st world, 'a) action" where
  "lifespan pf serve =
     bindA (set_app (app_ready_update (\<lambda>_. False))) (\<lambda>_.
     bindA (build_service pf) (\<lambda>_.
     try_finally serve (shutdown pf)))"

section \<open>Readiness\<close>

definition healthz :: "string \<Rightarrow> 'st app_state \<Rightarrow> dict" where
  "healthz version app =
     [(''status'', JStr (if app_ready app then ''ok'' else ''starting'')), (''service'', JStr ''account-unification''),
      (''version'', JStr version)]"

definition ALLOWED_SCHEMES :: "string list" where "ALLOWED_SCHEMES = [''http'', ''https'']"

text \<open>A redirect is followed only to an HTTP(S) address; \<open>follow\<close> is the library's own handler.\<close>

definition redirect_request :: "(string \<Rightarrow> 'r option) \<Rightarrow> string \<Rightarrow> 'r option result" where
  "redirect_request follow newurl =
     bindR (urlsplit newurl) (\<lambda>parts.
     Inr (if lower (url_scheme parts) \<notin> set ALLOWED_SCHEMES then None else follow newurl))"

text \<open>\<open>fetch\<close> opens the address with the restricted opener and parses the answer.\<close>

definition healthcheck_main :: "(string \<Rightarrow> json result) \<Rightarrow> string \<Rightarrow> int result" where
  "healthcheck_main fetch url =
     bindR (urlsplit url) (\<lambda>parts.
     if lower (url_scheme parts) \<notin> set ALLOWED_SCHEMES then Inr 1
     else case fetch url of
       Inl _ \<Rightarrow> Inr 1
     | Inr body \<Rightarrow>
         bindR (json_get body ''status'') (\<lambda>status.
         Inr (if py_eq status (JStr ''ok'') then 0 else 1)))"

section \<open>Routers\<close>

datatype dependency = Operator_Auth | Admin_Path_Security | Scim_Path_Security | Registration_Auth

definition app_routers :: "(string \<times> dependency list) list" where
  "app_routers =
     [(''router'', [Operator_Auth, Admin_Path_Security]), (''scim_router'', [Operator_Auth, Scim_Path_Security]),
      (''federation_router'', [Operator_Auth, Admin_Path_Security]),
      (''directory_federation_router'', [Operator_Auth, Admin_Path_Security]),
      (''relying_party_router'', [Operator_Auth, Admin_Path_Security]),
      (''relying_party_state_router'', [Operator_Auth, Admin_Path_Security]),
      (''registration_router'', [Registration_Auth])]"

definition run_dependency ::
  "'st app_state \<Rightarrow> string option \<Rightarrow> (string \<times> string) list \<Rightarrow> dependency \<Rightarrow> unit result" where
  "run_dependency app authorization path_params dep =
     (case dep of
        Operator_Auth \<Rightarrow> require_operator_token (app_operator_api_token app) authorization
      | Admin_Path_Security \<Rightarrow> require_safe_admin_path_parameters path_params
      | Scim_Path_Security \<Rightarrow> require_safe_scim_path_parameters path_params
      | Registration_Auth \<Rightarrow> require_registration_token (app_registration_api_token app) authorization)"

definition routed ::
  "dependency list \<Rightarrow> string option \<Rightarrow> (string \<times> string) list \<Rightarrow> ('st world, 'a) action \<Rightarrow> ('st world, 'a) action" where
  "routed deps authorization path_params handler =
     bindA (readA w_app) (\<lambda>app.
     bindA (liftA (forR deps (run_dependency app authorization path_params))) (\<lambda>_. handler))"

section \<open>What startup leaves behind\<close>

text \<open>The state of a completed startup, in terms of the configuration it loaded.\<close>

definition wired_by :: "'st platform \<Rightarrow> 'st world \<Rightarrow> 'st world \<Rightarrow> 'st \<Rightarrow> string \<Rightarrow> service_config \<Rightarrow> string \<Rightarrow> bool \<Rightarrow> bool" where
  "wired_by pf s s' store ns config lock_path temporary \<longleftrightarrow>
     load_service_config (pf_kv pf) store ns = Inr config \<and>
     w_app s' = wired_state store config lock_path temporary (w_app s) \<and>
     w_open s' = [Audit_Logger, Keycloak_Api, Config_Store] @ w_open s \<and>
     (temporary \<longleftrightarrow> cfg_audit_database_path config = '':memory:'') \<and>
     (if temporary then pf_mkstemp pf = Inr lock_path
      else lock_path = cfg_audit_database_path config @ ''.user-operation-locks.sqlite3'') \<and>
     set (w_files s') = insert lock_path (set (w_files s))"

lemma build_service_ok:
  assumes "build_service pf s = (Inr (), s')"
  shows "\<exists>store ns config lock_path temporary. wired_by pf s s' store ns config lock_path temporary"
proof -
  from assms obtain store ns config where load: "load_service_config (pf_kv pf) store ns = Inr config"
    and rest: "(bindA (user_operation_lock_path pf (cfg_audit_database_path config)) (\<lambda>(lock_path, temporary).
       bindA (liftA (pf_open_locks pf lock_path)) (\<lambda>_. bindA (created lock_path) (\<lambda>_.
       set_app (wired_state store config lock_path temporary)))))
       (w_open_update (\<lambda>rs. [Audit_Logger, Keycloak_Api, Config_Store] @ rs) s) = (Inr (), s')"
    unfolding build_service_def opened_def
    by (auto simp: comp_def split: sum.splits)
  show ?thesis
  proof (cases "cfg_audit_database_path config = '':memory:''")
    case True
    with rest obtain path where "pf_mkstemp pf = Inr path" "wired_by pf s s' store ns config path True"
      by (auto simp: user_operation_lock_path_def bindA_assoc created_def set_app_def wired_by_def load comp_def
          split: sum.splits)
    then show ?thesis by blast
  next
    case False
    with rest have "wired_by pf s s' store ns config (cfg_audit_database_path config @ ''.user-operation-locks.sqlite3'') False"
      by (auto simp: user_operation_lock_path_def bindA_assoc created_def set_app_def wired_by_def load comp_def
          split: sum.splits)
    then show ?thesis by blast
  qed
qed

text \<open>
  When startup completes, the wired application is safe to serve: an operator token is set and the
  registration token is a different one; and if registration is enabled, the handler finds a client
  id, a redirect and a positive lifespan of at most an hour in the application state, so that it is
  never answered with the "unavailable" status.
\<close>

theorem wired_state_safe:
  assumes "build_service pf s = (Inr (), s')"
  shows "app_ready (w_app s') \<and>
    (\<exists>operator. app_operator_api_token (w_app s') = Some operator \<and> operator \<noteq> [] \<and>
       app_registration_api_token (w_app s') \<noteq> Some operator) \<and>
    (app_registration_api_token (w_app s') = None \<or>
      (\<exists>client_id uri lifespan. registration_settings_of (app_registration (w_app s')) = Inr (client_id, uri, lifespan) \<and>
         https_uri uri \<and> 0 < lifespan \<and> lifespan \<le> 3600))"
proof -
  from assms obtain store ns config lock_path temporary where
    load: "load_service_config (pf_kv pf) store ns = Inr config"
    and app: "w_app s' = wired_state store config lock_path temporary (w_app s)"
    using build_service_ok unfolding wired_by_def by blast
  have "https_uri [] \<Longrightarrow> False"
    by (auto simp: https_uri_def urlsplit_def Let_def partition_char_def startswith_def bindR_eq_Inr)
  with loaded_config_safe [OF load] show ?thesis
    unfolding app wired_state_def config_safe_def registration_safe_def registration_settings_of_def truthy_text_def
    by (cases "cfg_registration_api_token config") auto
qed

section \<open>Shutdown releases what startup acquired\<close>

lemma shutdown_wired:
  assumes closes: "\<And>res. pf_close pf res = Inr ()" "\<And>path. pf_unlink pf path = Inr ()"
    and wired: "wired_by pf s s1 store ns config lock_path temporary"
    and served: "w_app s2 = w_app s1" "w_open s2 = w_open s1" "w_files s2 = w_files s1"
  shows "\<exists>s3. shutdown pf s2 = (Inr (), s3) \<and> \<not> app_ready (w_app s3) \<and> w_open s3 = w_open s \<and>
    set (w_files s3) = (if temporary \<and> lock_path \<noteq> [] then set (w_files s) - {lock_path} else insert lock_path (set (w_files s)))"
  using wired unfolding shutdown_def close_resource_def remove_temporary_lock_database_def set_app_def
  by (auto simp: wired_by_def wired_state_def served closes truthy_text_def)

text \<open>
  However serving ends, by returning or by raising, shutdown gives back what startup took: the
  application is not ready, the Keycloak client, the audit log and the store are closed, the temporary
  lock database of an in-memory audit log is removed and a persistent one is kept; and the outcome of
  serving is passed on unchanged.
\<close>

theorem lifespan_releases:
  assumes closes: "\<And>res. pf_close pf res = Inr ()" "\<And>path. pf_unlink pf path = Inr ()"
    and build: "build_service pf (w_app_update (app_ready_update (\<lambda>_. False)) s) = (Inr (), s1)"
    and serve: "serve s1 = (r, s2)" "w_app s2 = w_app s1" "w_open s2 = w_open s1" "w_files s2 = w_files s1"
  shows "\<exists>s3. lifespan pf serve s = (r, s3) \<and> \<not> app_ready (w_app s3) \<and> w_open s3 = w_open s \<and>
    (\<exists>config lock_path. app_unification_service (w_app s1) = Some config \<and> app_lock_database_path (w_app s1) = Some lock_path \<and>
       (lock_path \<in> set (w_files s3) \<longleftrightarrow> cfg_audit_database_path config \<noteq> '':memory:'' \<or> lock_path = []))"
proof -
  obtain store ns config lock_path temporary where
    wired: "wired_by pf (w_app_update (app_ready_update (\<lambda>_. False)) s) s1 store ns config lock_path temporary"
    using build_service_ok [OF build] by blast
  from shutdown_wired [OF closes wired serve(2-4)] obtain s3 where s3: "shutdown pf s2 = (Inr (), s3)"
      "\<not> app_ready (w_app s3)" "w_open s3 = w_open s"
      "set (w_files s3) = (if temporary \<and> lock_path \<noteq> [] then set (w_files s) - {lock_path} else insert lock_path (set (w_files s)))"
    by auto
  have "lifespan pf serve s = (r, s3)"
    using build serve(1) s3(1) by (simp add: lifespan_def set_app_def try_finally_def)
  moreover have "app_unification_service (w_app s1) = Some config" "app_lock_database_path (w_app s1) = Some lock_path"
    "temporary \<longleftrightarrow> cfg_audit_database_path config = '':memory:''"
    using wired by (auto simp: wired_by_def wired_state_def)
  ultimately show ?thesis using s3 by auto
qed

text \<open>
  A startup that fails after the store was opened leaves it open: the wiring runs before the block
  whose cleanup closes it.
\<close>

theorem failed_startup_keeps_store_open:
  assumes "load_bootstrap_descriptor (pf_read_yaml pf) (pf_bootstrap_env pf) None = Inr d"
    and "open_config_store (pf_connect pf) d = Inr store" "pf_bind_text pf (bd_namespace d) = Inr ns"
    and "load_service_config (pf_kv pf) store ns = Inl e"
  shows "fst (lifespan pf serve s) = Inl e \<and> w_open (snd (lifespan pf serve s)) = Config_Store # w_open s"
  using assms by (simp add: lifespan_def set_app_def build_service_def opened_def)

section \<open>Routers are guarded\<close>


text \<open>
  The loader compares the two tokens as they are stored, but the gate compares with the blanks around
  the presented token removed: a registration token that is the operator token with a leading blank
  passes the loader, and presenting it runs privileged handlers.
\<close>

theorem padded_registration_token_is_operator:
  assumes "app_operator_api_token (w_app s) = Some operator" "operator \<noteq> []" "isascii operator" "strip operator = operator"
    and "(name, deps) \<in> set app_routers" "name \<noteq> ''registration_router''"
  shows "routed deps (Some (''Bearer '' @ '' '' @ operator)) [] handler s = handler s"
proof -
  have deps: "deps = [Operator_Auth, Admin_Path_Security] \<or> deps = [Operator_Auth, Scim_Path_Security]"
    using assms(5,6) by (auto simp: app_routers_def)
  have "isspace_char (CHR '' '')" by (simp add: isspace_char_def ord_def)
  then have "strip ('' '' @ operator) = operator"
    using assms(4) by (simp add: strip_def lstrip_def)
  then have "require_operator_token (app_operator_api_token (w_app s)) (Some (''Bearer '' @ '' '' @ operator)) = Inr ()"
    using assms(1-3) unfolding require_operator_token_def bearer_gate_ok by auto
  moreover have "require_safe_admin_path_parameters [] = Inr ()" "require_safe_scim_path_parameters [] = Inr ()"
    by (simp_all add: require_safe_admin_path_parameters_def require_safe_scim_path_parameters_def validate_path_parameters_def)
  ultimately show ?thesis using deps by (auto simp: routed_def run_dependency_def)
qed

section \<open>The health check\<close>

text \<open>
  The container health check tells the truth: against an application that answers on its health
  endpoint it exits with status zero exactly when that application is ready, and in every other case,
  a network failure or another URL scheme, it exits with status one.
\<close>

theorem healthcheck_truthful:
  assumes "urlsplit url = Inr parts"
  shows "healthcheck_main fetch url = Inr 0 \<longleftrightarrow>
      lower (url_scheme parts) \<in> {''http'', ''https''} \<and>
      (\<exists>d. fetch url = Inr (JObj d) \<and> dict_get d ''status'' = JStr ''ok'')"
    and "fetch url = Inr (JObj (healthz version app)) \<Longrightarrow> url_scheme parts = ''http'' \<Longrightarrow>
      healthcheck_main fetch url = Inr (if app_ready app then 0 else 1)"
    and "fetch url = Inl e \<Longrightarrow> healthcheck_main fetch url = Inr 1"
  using assms
  by (auto simp: healthcheck_main_def ALLOWED_SCHEMES_def json_get_def healthz_def dict_get_def bindR_eq_Inr
      lower_def lower_char_def text_predicate_defs split: sum.splits json.splits if_splits)

section \<open>Witnesses\<close>

definition demo_platform :: "sqlite_kv platform" where
  "demo_platform = \<lparr>pf_kv = sqlite_kv_ops, pf_bootstrap_env = Some ''bootstrap.yaml'',
     pf_read_yaml = (\<lambda>_. Inr (JObj [(''config_store'', JObj [(''sqlite'', JObj [(''path'', JStr ''kv.db'')])])])),
     pf_connect = (\<lambda>_. Inr (seed_store sqlite_kv_ops registration_seed [])),
     pf_bind_text = (\<lambda>j. case j of JStr s \<Rightarrow> Inr s | _ \<Rightarrow> Inl (TypeError ''namespace'')),
     pf_make_parent = (\<lambda>_. Inr ()), pf_open_api = (\<lambda>_. Inr ()), pf_open_audit = (\<lambda>_. Inr ()),
     pf_mkstemp = Inr ''/tmp/locks.sqlite3'', pf_open_locks = (\<lambda>_. Inr ()), pf_close = (\<lambda>_. Inr ()),
     pf_unlink = (\<lambda>_. Inr ())\<rparr>"

lemma demo_load:
  "load_service_config sqlite_kv_ops (seed_store sqlite_kv_ops registration_seed []) ''account_unification'' =
     Inr (seeded_config registration_seed)"
proof -
  have "seed_namespace registration_seed = ''account_unification''" by (simp add: registration_seed_def seed_defaults_def)
  with registration_seed_ok seeded_load [of "[]" registration_seed] show ?thesis
    by (simp add: empty_store truthy_text_def)
qed

lemma demo_build:
  "\<exists>s1. build_service demo_platform s = (Inr (), s1) \<and>
     app_registration_api_token (w_app s1) = cfg_registration_api_token (seeded_config registration_seed)"
  by (simp add: build_service_def demo_platform_def load_bootstrap_descriptor_def open_config_store_def truthy_text_def
      json_or_def truthy_def json_get_or_def json_get_def dict_get_or_def dict_get_def demo_load ensure_parent_directory_def
      user_operation_lock_path_def bindA_assoc set_app_def opened_def created_def wired_state_def split: if_splits)

definition demo_world :: "sqlite_kv world" where
  "demo_world = \<lparr>w_app = \<lparr>app_ready = False, app_config_store = None, app_unification_service = None, app_audit_logger = None,
     app_keycloak_api = None, app_user_operation_locks = None, app_lock_database_path = None,
     app_temporary_lock_database = False, app_federation_service = False, app_relying_party_service = None,
     app_directory_federation_service = None,
     app_operator_api_token = None, app_registration_api_token = None,
     app_registration = \<lparr>registration_client_id = None, registration_redirect_uri = None,
       registration_action_lifespan_seconds = None\<rparr>\<rparr>, w_open = [], w_files = []\<rparr>"

theorem wired_state_safe_witness:
  "\<exists>s'. build_service demo_platform demo_world = (Inr (), s') \<and> app_ready (w_app s')"
  using demo_build [of demo_world] wired_state_safe [of demo_platform demo_world] by blast

theorem lifespan_releases_witness:
  "\<exists>s3. lifespan demo_platform (returnA ()) demo_world = (Inr (), s3) \<and> w_open s3 = []"
proof -
  obtain s1 where build: "build_service demo_platform (w_app_update (app_ready_update (\<lambda>_. False)) demo_world) = (Inr (), s1)"
    using demo_build by blast
  have "pf_close demo_platform res = Inr ()" "pf_unlink demo_platform path = Inr ()" for res path
    by (simp_all add: demo_platform_def)
  from lifespan_releases [OF this build, of "returnA ()" "Inr ()" s1] show ?thesis by (auto simp: demo_world_def)
qed


end
