(* ===== verification/Dependencies.thy ===== *)
theory Dependencies
  imports Lifecycle
begin

text \<open>
  How requests get at the wired services: the FastAPI dependencies of \<open>app/api.py\<close>, \<open>app/scim.py\<close>,
  \<open>app/registration.py\<close>, \<open>app/federation.py\<close> and of the two state modules, which look an attribute of
  the application state up and answer 503 without it; the two that create their service on demand, also
  as interleaved steps of several requests; and the SCIM error responses.
\<close>

section \<open>Lookups\<close>

definition state_attribute :: "'a option \<Rightarrow> string \<Rightarrow> 'a result" where
  "state_attribute attr detail = (case attr of None \<Rightarrow> Inl (HTTPException 503 detail) | Some v \<Rightarrow> Inr v)"

definition get_service :: "'st app_state \<Rightarrow> service_config result" where
  "get_service app = state_attribute (app_unification_service app) ''service not initialised''"

definition get_audit :: "'st app_state \<Rightarrow> string result" where
  "get_audit app = state_attribute (app_audit_logger app) ''audit not initialised''"

definition get_provisioner :: "'st app_state \<Rightarrow> service_config result" where
  "get_provisioner app = state_attribute (app_keycloak_api app) ''keycloak provisioner not wired''"

definition get_user_operation_locks :: "'st app_state \<Rightarrow> string result" where
  "get_user_operation_locks app = state_attribute (app_user_operation_locks app) ''user operation locks not wired''"

definition get_admin_api :: "'st app_state \<Rightarrow> service_config result" where
  "get_admin_api app = state_attribute (app_keycloak_api app) ''keycloak api unavailable''"

definition get_federation_service :: "'st app_state \<Rightarrow> unit result" where
  "get_federation_service app = requireR (app_federation_service app) (HTTPException 503 ''federation service not ready'')"

text \<open>Creation on demand; \<open>fresh\<close> is the object a construction makes.\<close>

definition get_relying_party_service :: "nat \<Rightarrow> ('st app_state, nat) action" where
  "get_relying_party_service fresh =
     bindA (readA (\<lambda>app. app)) (\<lambda>app.
     case app_relying_party_service app of
       Some service \<Rightarrow> returnA service
     | None \<Rightarrow>
         if app_config_store app = None \<or> app_keycloak_api app = None
         then raiseA (HTTPException 503 ''relying-party service not ready'')
         else bindA (modifyA (app_relying_party_service_update (\<lambda>_. Some fresh))) (\<lambda>_. returnA fresh))"

definition get_directory_federation_service :: "nat \<Rightarrow> ('st app_state, nat) action" where
  "get_directory_federation_service fresh =
     bindA (readA (\<lambda>app. app)) (\<lambda>app.
     case app_directory_federation_service app of
       Some service \<Rightarrow> returnA service
     | None \<Rightarrow>
         if app_config_store app = None \<or> app_keycloak_api app = None
         then raiseA (HTTPException 503 ''directory federation service not ready'')
         else bindA (modifyA (app_directory_federation_service_update (\<lambda>_. Some fresh))) (\<lambda>_. returnA fresh))"

section \<open>Responses to SCIM errors\<close>

definition SCIM_ERROR_SCHEMA :: string where "SCIM_ERROR_SCHEMA = ''urn:ietf:params:scim:api:messages:2.0:Error''"
definition SCIM_MEDIA_TYPE :: string where "SCIM_MEDIA_TYPE = ''application/scim+json''"

record json_response =
  rs_status :: nat
  rs_media_type :: string
  rs_content :: json

definition scim_error_detail :: "nat \<Rightarrow> string \<Rightarrow> json" where
  "scim_error_detail status detail =
     JObj [(''schemas'', JArr [JStr SCIM_ERROR_SCHEMA]), (''detail'', JStr detail), (''status'', JStr (show_nat status))]"

definition scim_exception_handler :: "nat \<Rightarrow> json \<Rightarrow> json_response" where
  "scim_exception_handler status detail = \<lparr>rs_status = status, rs_media_type = SCIM_MEDIA_TYPE, rs_content = detail\<rparr>"

definition scim_path_validation_exception_handler :: "string \<Rightarrow> json_response" where
  "scim_path_validation_exception_handler message =
     \<lparr>rs_status = 400, rs_media_type = SCIM_MEDIA_TYPE,
      rs_content = JObj [(''schemas'', JArr [JStr SCIM_ERROR_SCHEMA]), (''detail'', JStr message), (''status'', JStr ''400'')]\<rparr>"

text \<open>The handlers the application registers; every other exception is left to the framework.\<close>

definition app_exception_response :: "exn \<Rightarrow> json_response option" where
  "app_exception_response e =
     (case e of
        ScimPathValidationError message \<Rightarrow> Some (scim_path_validation_exception_handler message)
      | ScimHttpException status detail \<Rightarrow> Some (scim_exception_handler status (scim_error_detail status detail))
      | _ \<Rightarrow> None)"

section \<open>Concurrent requests\<close>

text \<open>
  The dependencies run on worker threads. A request that resolves a service created on demand first
  looks; if it found none, it constructs one and stores it, whatever was stored in the meantime.
\<close>

datatype phase = Looking | Constructing | Holding nat

record resolution =
  rn_slot :: "nat option"
  rn_next :: nat
  rn_phase :: "nat \<Rightarrow> phase"

inductive resolve_step :: "resolution \<Rightarrow> resolution \<Rightarrow> bool" where
  found: "rn_phase s t = Looking \<Longrightarrow> rn_slot s = Some d \<Longrightarrow>
    resolve_step s (s\<lparr>rn_phase := (rn_phase s)(t := Holding d)\<rparr>)"
| missing: "rn_phase s t = Looking \<Longrightarrow> rn_slot s = None \<Longrightarrow>
    resolve_step s (s\<lparr>rn_phase := (rn_phase s)(t := Constructing)\<rparr>)"
| store: "rn_phase s t = Constructing \<Longrightarrow>
    resolve_step s (s\<lparr>rn_slot := Some (rn_next s), rn_next := Suc (rn_next s),
      rn_phase := (rn_phase s)(t := Holding (rn_next s))\<rparr>)"

inductive_cases resolve_stepE: "resolve_step s s'"

definition resolving :: "nat option \<Rightarrow> resolution" where
  "resolving slot = \<lparr>rn_slot = slot, rn_next = 1, rn_phase = (\<lambda>_. Looking)\<rparr>"

section \<open>After startup\<close>

lemma wired_attributes:
  assumes "build_service pf s = (Inr (), s')"
  shows "\<exists>store config lock_path. app_config_store (w_app s') = Some store \<and> app_unification_service (w_app s') = Some config \<and>
    app_audit_logger (w_app s') = Some (cfg_audit_database_path config) \<and> app_keycloak_api (w_app s') = Some config \<and>
    app_user_operation_locks (w_app s') = Some lock_path \<and> app_federation_service (w_app s') \<and>
    app_relying_party_service (w_app s') = Some 0 \<and>
    app_directory_federation_service (w_app s') = app_directory_federation_service (w_app s)"
  using build_service_ok [OF assms] by (auto simp: wired_by_def wired_state_def)

lemma directory_created_once:
  assumes "app_directory_federation_service app = None" "app_config_store app \<noteq> None" "app_keycloak_api app \<noteq> None"
  shows "\<exists>app'. get_directory_federation_service n app = (Inr n, app') \<and> get_directory_federation_service m app' = (Inr n, app')"
  using assms by (intro exI [of _ "app\<lparr>app_directory_federation_service := Some n\<rparr>"])
    (simp add: get_directory_federation_service_def)

text \<open>
  After a completed startup no request is answered "not ready": every dependency of every route
  resolves, the services share one Keycloak client and one audit database, relying-party requests get
  the service that startup made, and the directory service is created by the first request and found
  again by the second.
\<close>

theorem wired_dependencies_answer:
  assumes "build_service pf s = (Inr (), s')" and "app_directory_federation_service (w_app s) = None"
  shows "\<exists>config locks. get_service (w_app s') = Inr config \<and> get_audit (w_app s') = Inr (cfg_audit_database_path config) \<and>
    get_provisioner (w_app s') = Inr config \<and> get_admin_api (w_app s') = Inr config \<and>
    get_user_operation_locks (w_app s') = Inr locks \<and> get_federation_service (w_app s') = Inr () \<and>
    get_relying_party_service n (w_app s') = (Inr 0, w_app s') \<and>
    (\<exists>app. get_directory_federation_service n (w_app s') = (Inr n, app) \<and>
       get_directory_federation_service m app = (Inr n, app))"
  using wired_attributes [OF assms(1)] assms(2) directory_created_once [of "w_app s'" n m]
  by (auto simp: get_service_def get_audit_def get_provisioner_def get_admin_api_def get_user_operation_locks_def
      get_federation_service_def state_attribute_def get_relying_party_service_def)

theorem wired_dependencies_answer_witness:
  "\<exists>s' config. build_service demo_platform demo_world = (Inr (), s') \<and> get_service (w_app s') = Inr config \<and>
     get_relying_party_service 5 (w_app s') = (Inr 0, w_app s')"
proof -
  obtain s' where "build_service demo_platform demo_world = (Inr (), s')" using demo_build by blast
  moreover have "app_directory_federation_service (w_app demo_world) = None" by (simp add: demo_world_def)
  ultimately show ?thesis using wired_dependencies_answer [of demo_platform demo_world s' 5 6] by blast
qed

section \<open>One service or two\<close>

text \<open>A service that startup stored is the one every request holds, in every interleaving.\<close>

lemma wired_slot_shared:
  assumes "resolve_step\<^sup>*\<^sup>* (resolving (Some d)) s"
  shows "rn_slot s = Some d \<and> (\<forall>t. rn_phase s t = Looking \<or> rn_phase s t = Holding d)"
  using assms
proof (induction rule: rtranclp_induct)
  case base
  show ?case by (simp add: resolving_def)
next
  case (step s s')
  from step.IH have "rn_phase s t \<noteq> Constructing" for t by (metis phase.distinct(1) phase.distinct(5))
  with step.hyps(2) step.IH show ?case by (elim resolve_stepE) (auto split: if_splits)
qed

text \<open>
  The directory service is not among those that startup stores: two first requests that look before
  either has stored its service end up with two services, and thereby with two convergence locks.
\<close>

lemma first_requests_split:
  "\<exists>s. resolve_step\<^sup>*\<^sup>* (resolving None) s \<and> rn_phase s 0 = Holding 1 \<and> rn_phase s 1 = Holding 2"
proof -
  let ?s0 = "resolving None"
  let ?s1 = "?s0\<lparr>rn_phase := (rn_phase ?s0)(0 := Constructing)\<rparr>"
  let ?s2 = "?s1\<lparr>rn_phase := (rn_phase ?s1)(1 := Constructing)\<rparr>"
  let ?s3 = "?s2\<lparr>rn_slot := Some (rn_next ?s2), rn_next := Suc (rn_next ?s2), rn_phase := (rn_phase ?s2)(0 := Holding (rn_next ?s2))\<rparr>"
  let ?s4 = "?s3\<lparr>rn_slot := Some (rn_next ?s3), rn_next := Suc (rn_next ?s3), rn_phase := (rn_phase ?s3)(1 := Holding (rn_next ?s3))\<rparr>"
  have "resolve_step ?s0 ?s1" by (rule missing) (simp_all add: resolving_def)
  moreover have "resolve_step ?s1 ?s2" by (rule missing) (simp_all add: resolving_def)
  moreover have "resolve_step ?s2 ?s3" by (rule store) simp
  moreover have "resolve_step ?s3 ?s4" by (rule store) simp
  ultimately have "resolve_step\<^sup>*\<^sup>* ?s0 ?s4" by (meson rtranclp.rtrancl_refl rtranclp.rtrancl_into_rtrancl)
  moreover have "rn_phase ?s4 0 = Holding 1" "rn_phase ?s4 1 = Holding 2" by (simp_all add: resolving_def)
  ultimately show ?thesis by blast
qed

end
