(* ===== verification/RealmPolicy.thy ===== *)
theory RealmPolicy
  imports Python_Builtins
begin

text \<open>
  The realm policy check of \<open>scripts/validate_realm.py\<close>. A realm is an arbitrary JSON document, so
  every access is the Python one and may raise; the checks of \<open>validate\<close> are grouped, in the order of
  the source, into functions that return the violations they append. Reading the file is a parameter.
\<close>

definition DISALLOWED_CREDENTIAL_AUTHENTICATORS :: "string list" where
  "DISALLOWED_CREDENTIAL_AUTHENTICATORS = [''auth-password-form'', ''auth-username-password-form'', ''password'']"

definition PASSKEY_AUTHENTICATOR :: string where "PASSKEY_AUTHENTICATOR = ''webauthn-authenticator-passwordless''"
definition SECRET_PLACEHOLDER :: string where "SECRET_PLACEHOLDER = ''__set_from_kv__''"
definition MAX_PUBLIC_TOKEN_LIFESPAN :: int where "MAX_PUBLIC_TOKEN_LIFESPAN = 900"

section \<open>Authentication flows\<close>

primrec find_flow :: "json list \<Rightarrow> json \<Rightarrow> json result" where
  "find_flow [] alias = Inr (JArr [])"
| "find_flow (flow # flows) alias =
     bindR (json_get flow ''alias'') (\<lambda>name.
     if scalar_eq name alias then json_get_or flow ''authenticationExecutions'' (JArr [])
     else find_flow flows alias)"

definition executions :: "json \<Rightarrow> json \<Rightarrow> json result" where
  "executions realm alias =
     bindR (json_get_or realm ''authenticationFlows'' (JArr [])) (\<lambda>flows.
     bindR (json_iter flows) (\<lambda>items. find_flow items alias))"

definition unhashable :: exn where "unhashable = TypeError ''unhashable type''"

text \<open>The executions of a flow that was not visited before, and \<open>None\<close> for a visited one.\<close>

definition enter_flow :: "json \<Rightarrow> json \<Rightarrow> json list \<Rightarrow> json list option result" where
  "enter_flow realm alias seen =
     (if \<not> hashable alias then Inl unhashable
      else if scalar_mem alias seen then Inr None
      else
        bindR (executions realm alias) (\<lambda>v.
        bindR (json_iter v) (\<lambda>items. Inr (Some items))))"

definition execution_authenticator :: "json \<Rightarrow> json list result" where
  "execution_authenticator execution =
     bindR (json_get execution ''authenticator'') (\<lambda>a.
     if \<not> truthy a then Inr []
     else if hashable a then Inr [a] else Inl unhashable)"

definition execution_subflow :: "json \<Rightarrow> json option result" where
  "execution_subflow execution =
     bindR (json_get execution ''flowAlias'') (\<lambda>sub. Inr (if truthy sub then Some sub else None))"

lemma bindR_cong [fundef_cong]:
  "r = r' \<Longrightarrow> (\<And>x. r' = Inr x \<Longrightarrow> f x = g x) \<Longrightarrow> bindR r f = bindR r' g"
  by (cases r') auto

text \<open>The aliases of the flows, and how many of them a search has not visited: the search's measure.\<close>

definition flow_aliases :: "json \<Rightarrow> json list" where
  "flow_aliases realm =
     (case bindR (json_get_or realm ''authenticationFlows'' (JArr [])) json_iter of
        Inl _ \<Rightarrow> []
      | Inr flows \<Rightarrow> map (\<lambda>flow. case json_get flow ''alias'' of Inl _ \<Rightarrow> JNull | Inr a \<Rightarrow> a) flows)"

definition unvisited :: "json \<Rightarrow> json list \<Rightarrow> nat" where
  "unvisited realm seen = length (filter (\<lambda>a. \<not> scalar_mem a seen) (flow_aliases realm))"

lemma scalar_mem_Cons: "scalar_mem a (b # seen) \<longleftrightarrow> scalar_eq a b \<or> scalar_mem a seen"
  by (simp add: scalar_mem_def)

lemma scalar_mem_eq: "scalar_eq a b \<Longrightarrow> scalar_mem a seen \<longleftrightarrow> scalar_mem b seen"
  unfolding scalar_mem_def list_ex_iff by (meson scalar_eq_sym scalar_eq_trans)

lemma length_filter_le: "(\<And>x. x \<in> set xs \<Longrightarrow> P x \<Longrightarrow> Q x) \<Longrightarrow> length (filter P xs) \<le> length (filter Q xs)"
  by (induction xs) (auto simp: le_SucI)

lemma length_filter_less:
  "x \<in> set xs \<Longrightarrow> Q x \<Longrightarrow> \<not> P x \<Longrightarrow> (\<And>x. x \<in> set xs \<Longrightarrow> P x \<Longrightarrow> Q x) \<Longrightarrow>
     length (filter P xs) < length (filter Q xs)"
proof (induction xs)
  case (Cons y xs)
  then show ?case
    using length_filter_le [of xs P Q] by (cases "x = y") (auto simp: le_imp_less_Suc less_SucI)
qed simp

lemma unvisited_le: "set seen \<subseteq> set seen' \<Longrightarrow> unvisited realm seen' \<le> unvisited realm seen"
  unfolding unvisited_def scalar_mem_def list_ex_iff by (rule length_filter_le) blast

lemma find_flow_alias:
  "find_flow flows alias = Inr v \<Longrightarrow> v \<noteq> JArr [] \<Longrightarrow>
     \<exists>flow\<in>set flows. \<exists>name. json_get flow ''alias'' = Inr name \<and> scalar_eq name alias"
  by (induction flows) (auto simp: bindR_eq_Inr split: if_splits)

lemma enter_flow_less:
  assumes "enter_flow realm alias seen = Inr (Some items)" "items \<noteq> []"
  shows "unvisited realm (alias # seen) < unvisited realm seen"
proof -
  from assms obtain v where new: "\<not> scalar_mem alias seen" and v: "executions realm alias = Inr v" "json_iter v = Inr items"
    by (auto simp: enter_flow_def bindR_eq_Inr split: if_splits)
  with assms(2) have "v \<noteq> JArr []" by (auto simp: json_iter_def)
  with v obtain name where name: "name \<in> set (flow_aliases realm)" "scalar_eq name alias"
    unfolding executions_def flow_aliases_def by (fastforce simp: bindR_eq_Inr dest!: find_flow_alias split: sum.splits)
  then have "\<not> scalar_mem name seen" using new by (simp add: scalar_mem_eq)
  with name show ?thesis
    unfolding unvisited_def by (intro length_filter_less [of name]) (auto simp: scalar_mem_Cons)
qed

text \<open>
  The search over the executions of a flow: the authenticators found and the flows visited, which is
  the set \<open>seen\<close> that all the calls of the source share.
\<close>

function (sequential) walk :: "json \<Rightarrow> json list \<Rightarrow> json list \<Rightarrow> (json list \<times> json list) result" where
  "walk realm [] seen = Inr ([], seen)"
| "walk realm (execution # rest) seen =
     bindR (execution_authenticator execution) (\<lambda>own.
     bindR (execution_subflow execution) (\<lambda>sub.
     bindR (case sub of
              None \<Rightarrow> Inr ([], seen)
            | Some subflow \<Rightarrow>
                bindR (enter_flow realm subflow seen) (\<lambda>entered.
                case entered of
                  None \<Rightarrow> Inr ([], seen)
                | Some items \<Rightarrow> walk realm items (subflow # seen))) (\<lambda>p.
     bindR (walk realm rest (snd p)) (\<lambda>q. Inr (own @ fst p @ fst q, snd q)))))"
  by pat_completeness auto

lemma walk_seen:
  "walk_dom (realm, xs, seen) \<Longrightarrow> walk realm xs seen = Inr p \<Longrightarrow> set seen \<subseteq> set (snd p)"
proof (induction realm xs seen arbitrary: p rule: walk.pinduct)
  case (2 realm execution rest seen)
  from "2.prems" obtain own sub q r where steps:
      "execution_authenticator execution = Inr own" "execution_subflow execution = Inr sub"
      "(case sub of None \<Rightarrow> Inr ([], seen) | Some subflow \<Rightarrow> bindR (enter_flow realm subflow seen) (\<lambda>entered.
         case entered of None \<Rightarrow> Inr ([], seen) | Some items \<Rightarrow> walk realm items (subflow # seen))) = Inr q"
      "walk realm rest (snd q) = Inr r" and p: "p = (own @ fst q @ fst r, snd r)"
    by (auto simp: walk.psimps(2) [OF 2(1)] bindR_eq_Inr)
  have "set seen \<subseteq> set (snd q)"
  proof (cases sub)
    case None
    with steps(3) show ?thesis by auto
  next
    case sub: (Some subflow)
    with steps(3) obtain entered where entered: "enter_flow realm subflow seen = Inr entered"
      "(case entered of None \<Rightarrow> Inr ([], seen) | Some items \<Rightarrow> walk realm items (subflow # seen)) = Inr q"
      by (auto simp: bindR_eq_Inr)
    show ?thesis
    proof (cases entered)
      case None
      with entered(2) show ?thesis by auto
    next
      case (Some items)
      with entered(2) have "walk realm items (subflow # seen) = Inr q" by simp
      from "2.IH"(1) [OF steps(1,2) sub entered(1) Some this] show ?thesis by auto
    qed
  qed
  with "2.IH"(2) [OF steps(1,2,3) steps(4)] p show ?case by auto
qed (auto simp: walk.psimps)

termination walk
proof (relation "measures [\<lambda>(realm, xs, seen). unvisited realm seen, \<lambda>(realm, xs, seen). length xs]")
  fix realm execution rest seen own sub subflow entered items
  assume "enter_flow realm subflow seen = Inr entered" "entered = Some items"
  then show "((realm, items, subflow # seen), realm, execution # rest, seen) \<in>
      measures [\<lambda>(realm, xs, seen). unvisited realm seen, \<lambda>(realm, xs, seen). length xs]"
    using enter_flow_less [of realm subflow seen items] unvisited_le [of seen "subflow # seen" realm]
    by (cases "items = []") (auto simp: le_less)
next
  fix realm :: json and execution rest seen own sub p
  assume *: "(case sub of None \<Rightarrow> Inr ([], seen) | Some subflow \<Rightarrow> bindR (enter_flow realm subflow seen) (\<lambda>entered.
         case entered of None \<Rightarrow> Inr ([], seen) | Some items \<Rightarrow> walk realm items (subflow # seen))) = Inr p"
    and dom: "\<And>x2 x xa. sub = Some x2 \<Longrightarrow> enter_flow realm x2 seen = Inr x \<Longrightarrow> x = Some xa \<Longrightarrow> walk_dom (realm, xa, x2 # seen)"
  then have "set seen \<subseteq> set (snd p)"
    by (fastforce simp: bindR_eq_Inr dest: walk_seen split: option.splits)
  then show "((realm, rest, snd p), realm, execution # rest, seen) \<in>
      measures [\<lambda>(realm, xs, seen). unvisited realm seen, \<lambda>(realm, xs, seen). length xs]"
    using unvisited_le [of seen "snd p" realm] by (auto simp: le_less)
qed simp

definition all_authenticators :: "json \<Rightarrow> json \<Rightarrow> json list result" where
  "all_authenticators realm alias =
     bindR (enter_flow realm alias []) (\<lambda>entered.
     case entered of
       None \<Rightarrow> Inr []
     | Some items \<Rightarrow> bindR (walk realm items [alias]) (\<lambda>p. Inr (fst p)))"

section \<open>Values\<close>

text \<open>\<open>int(value)\<close> of a JSON value; \<open>Inr None\<close> stands for the two exceptions the source handles.\<close>

definition int_of_json :: "json \<Rightarrow> int option result" where
  "int_of_json j =
     (case j of
        JBool b \<Rightarrow> Inr (Some (if b then 1 else 0))
      | JInt n \<Rightarrow> Inr (Some n)
      | JFloat r \<Rightarrow>
          (case float_of_text r of
             Some (Finite q) \<Rightarrow> Inr (Some (if q < 0 then \<lceil>q\<rceil> else \<lfloor>q\<rfloor>))
           | Some (Infinite _) \<Rightarrow> Inl (OtherError ''OverflowError: cannot convert float infinity to integer'')
           | _ \<Rightarrow> Inr None)
      | JStr s \<Rightarrow> Inr (int_of_text s)
      | _ \<Rightarrow> Inr None)"

definition public_token_lifespan :: "json \<Rightarrow> int option result" where
  "public_token_lifespan client =
     bindR (json_get_or client ''attributes'' (JObj [])) (\<lambda>attributes.
     bindR (json_get attributes ''access.token.lifespan'') (\<lambda>raw_value.
     if raw_value = JNull then Inr None
     else
       bindR (int_of_json raw_value) (\<lambda>parsed.
       case parsed of
         None \<Rightarrow> Inr (Some (- 1))
       | Some value \<Rightarrow> Inr (Some (if show_int value = strip (py_str raw_value) then value else - 1)))))"

text \<open>\<open>{item.get(name): item for item in items}\<close>: a repeated key keeps its place and takes the later item.\<close>

primrec key_set :: "(json \<times> json) list \<Rightarrow> json \<Rightarrow> json \<Rightarrow> (json \<times> json) list" where
  "key_set [] k v = [(k, v)]"
| "key_set (p # d) k v = (if scalar_eq (fst p) k then (fst p, v) # d else p # key_set d k v)"

primrec keyed_by :: "string \<Rightarrow> json list \<Rightarrow> (json \<times> json) list \<Rightarrow> (json \<times> json) list result" where
  "keyed_by name [] d = Inr d"
| "keyed_by name (item # items) d =
     bindR (json_get item name) (\<lambda>k.
     if hashable k then keyed_by name items (key_set d k item) else Inl unhashable)"

definition key_get :: "(json \<times> json) list \<Rightarrow> string \<Rightarrow> json option" where
  "key_get d s = map_of d (JStr s)"

definition field_index :: "json \<Rightarrow> string \<Rightarrow> string \<Rightarrow> (json \<times> json) list result" where
  "field_index realm field name =
     bindR (json_get_or realm field (JArr [])) (\<lambda>v.
     bindR (json_iter v) (\<lambda>items. keyed_by name items []))"

primrec anyR :: "('a \<Rightarrow> bool result) \<Rightarrow> 'a list \<Rightarrow> bool result" where
  "anyR f [] = Inr False"
| "anyR f (x # xs) = bindR (f x) (\<lambda>b. if b then Inr True else anyR f xs)"

definition truthy_field :: "json \<Rightarrow> string \<Rightarrow> bool result" where
  "truthy_field j name = bindR (json_get j name) (\<lambda>v. Inr (truthy v))"

definition flag :: "bool \<Rightarrow> string \<Rightarrow> string list" where
  "flag b message = (if b then [message] else [])"

section \<open>The checks\<close>

definition check_identity :: "json \<Rightarrow> string list result" where
  "check_identity realm =
     bindR (json_get realm ''realm'') (\<lambda>name.
     bindR (truthy_field realm ''enabled'') (\<lambda>enabled.
     Inr (flag (\<not> py_eq name (JStr ''cwl'')) (''realm name must be '' @ quoted ''cwl'') @
       flag (\<not> enabled) ''realm must be enabled'')))"

definition check_browser_flow :: "json \<Rightarrow> string list result" where
  "check_browser_flow realm =
     bindR (json_get realm ''browserFlow'') (\<lambda>browser_flow.
     if \<not> truthy browser_flow then Inr [''browserFlow must be set'']
     else
       bindR (all_authenticators realm browser_flow) (\<lambda>authenticators.
       Inr (flag (authenticators = []) (''browserFlow '' @ quoted (py_str browser_flow) @ '' has no executions defined'') @
         flag (list_ex (\<lambda>a. JStr a \<in> set authenticators) DISALLOWED_CREDENTIAL_AUTHENTICATORS)
           ''browserFlow includes a disallowed credential-form authenticator; ecosystem policy requires passkeys'' @
         flag (JStr PASSKEY_AUTHENTICATOR \<notin> set authenticators)
           ''browserFlow must include the passkey authenticator required by ecosystem policy'')))"

definition enrolls_passkeys :: "json \<Rightarrow> bool result" where
  "enrolls_passkeys action =
     bindR (json_get action ''providerId'') (\<lambda>provider.
     if py_eq provider (JStr ''webauthn-register-passwordless'') then truthy_field action ''enabled'' else Inr False)"

definition check_registration :: "json \<Rightarrow> string list result" where
  "check_registration realm =
     bindR (truthy_field realm ''registrationAllowed'') (\<lambda>registration_allowed.
     bindR (truthy_field realm ''registrationEmailAsUsername'') (\<lambda>email_as_username.
     bindR (json_get_or realm ''requiredActions'' (JArr [])) (\<lambda>actions.
     bindR (json_iter actions) (\<lambda>items.
     bindR (anyR enrolls_passkeys items) (\<lambda>passkey_enrollment_is_available.
     bindR (truthy_field realm ''verifyEmail'') (\<lambda>verify_email.
     bindR (truthy_field realm ''smtpServer'') (\<lambda>smtp_server.
     bindR (truthy_field realm ''resetPasswordAllowed'') (\<lambda>reset_allowed.
     Inr (flag registration_allowed ''IdP-hosted registration must remain disabled; use the headless registration API'' @
       flag (\<not> email_as_username) ''registrationEmailAsUsername must remain true'' @
       flag (\<not> passkey_enrollment_is_available)
         ''passkey enrollment required action must remain enabled for action-email enrollment'' @
       flag (verify_email \<and> \<not> smtp_server) ''verifyEmail requires a realm smtpServer; configure SMTP or disable verifyEmail'' @
       flag reset_allowed ''credential reset self-service must be false'')))))))))"

definition check_federation :: "json \<Rightarrow> string list result" where
  "check_federation realm =
     bindR (truthy_field realm ''identityProviders'') (\<lambda>identity_providers.
     bindR (json_get_or realm ''components'' (JObj [])) (\<lambda>components.
     bindR (truthy_field components ''org.keycloak.storage.UserStorageProvider'') (\<lambda>user_storage.
     Inr (flag identity_providers
         ''identityProviders must not be committed; register external IdPs at runtime via the federation registry API'' @
       flag user_storage
         (''user-storage federation must not be committed; register LDAP/AD sources at runtime via the '' @
          ''federation registry API'')))))"

definition requires_pkce :: "json \<Rightarrow> bool result" where
  "requires_pkce client =
     bindR (json_get_or client ''attributes'' (JObj [])) (\<lambda>attributes.
     bindR (json_get attributes ''pkce.code.challenge.method'') (\<lambda>pkce_method. Inr (py_eq pkce_method (JStr ''S256''))))"

definition check_rp_template :: "(json \<times> json) list \<Rightarrow> string list result" where
  "check_rp_template clients =
     (case key_get clients ''ecosystem-rp-template'' of
        None \<Rightarrow> Inr [''OIDC RP client template '' @ quoted ''ecosystem-rp-template'' @ '' is missing'']
      | Some rp \<Rightarrow>
          bindR (truthy_field rp ''implicitFlowEnabled'') (\<lambda>implicit.
          bindR (requires_pkce rp) (\<lambda>pkce.
          Inr (flag implicit ''RP template must not enable the implicit flow (OAuth 2.1)'' @
            flag (\<not> pkce) ''RP template must require PKCE S256''))))"

definition check_service_client :: "(json \<times> json) list \<Rightarrow> string list result" where
  "check_service_client clients =
     (case key_get clients ''account-unification-svc'' of
        None \<Rightarrow> Inr [''service-account client '' @ quoted ''account-unification-svc'' @ '' is missing'']
      | Some service_client \<Rightarrow>
          bindR (truthy_field service_client ''serviceAccountsEnabled'') (\<lambda>enabled.
          Inr (flag (\<not> enabled) ''account-unification-svc must enable service accounts'')))"

definition check_secret :: "json \<times> json \<Rightarrow> string list result" where
  "check_secret entry =
     bindR (json_get (snd entry) ''secret'') (\<lambda>secret.
     Inr (flag (secret \<noteq> JNull \<and> \<not> py_eq secret (JStr SECRET_PLACEHOLDER))
       (''client '' @ quoted (py_str (fst entry)) @ '' commits a non-placeholder secret'')))"

function (sequential) dollar_keys :: "json \<Rightarrow> string \<Rightarrow> string list" where
  "dollar_keys (JObj d) base =
     concat (map (\<lambda>(key, value).
       let key_path = (if base \<noteq> [] then base @ ''.'' @ key else key) in
       (if startswith key ''$'' then [key_path] else []) @ dollar_keys value key_path) d)"
| "dollar_keys (JArr items) base =
     concat (map (\<lambda>(index, item). dollar_keys item (base @ ''['' @ show_nat index @ '']'')) (enumerate 0 items))"
| "dollar_keys _ base = []"
  by pat_completeness auto

lemma enumerate_item_size: "(i, x) \<in> set (enumerate n xs) \<Longrightarrow> size x < Suc (size_list size xs)"
  by (induction xs arbitrary: n) (simp, fastforce simp: less_Suc_eq_le intro: le_SucI trans_le_add2)

lemma member_value_size: "(k, x) \<in> set d \<Longrightarrow> size x < Suc (size_list (size_prod (\<lambda>_. 0) size) d)"
  by (induction d) auto

termination dollar_keys
  by (relation "measure (\<lambda>(j, base). size j)") (auto intro: enumerate_item_size member_value_size)

definition check_dollar_keys :: "json \<Rightarrow> string list" where
  "check_dollar_keys realm =
     map (\<lambda>key_path. quoted ''$'' @ ''-annotation key '' @ quoted key_path @ '' breaks Keycloak 26 realm import'')
       (dollar_keys realm [])"

definition has_sub_mapper :: "json \<Rightarrow> bool result" where
  "has_sub_mapper mapper =
     bindR (json_get mapper ''protocolMapper'') (\<lambda>m. Inr (py_eq m (JStr ''oidc-sub-mapper'')))"

definition check_scopes :: "json \<Rightarrow> string list result" where
  "check_scopes realm =
     bindR (field_index realm ''clientScopes'' ''name'') (\<lambda>scopes.
     bindR (case key_get scopes ''basic'' of
              None \<Rightarrow> Inr [''client scope '' @ quoted ''basic'' @ '' is required (sub claim source)'']
            | Some basic \<Rightarrow>
                bindR (json_get_or basic ''protocolMappers'' (JArr [])) (\<lambda>v.
                bindR (json_iter v) (\<lambda>mappers.
                bindR (anyR has_sub_mapper mappers) (\<lambda>found.
                Inr (flag (\<not> found) (''client scope '' @ quoted ''basic'' @ '' must include the oidc-sub-mapper'')))))) (\<lambda>errors.
     bindR (json_get_or realm ''defaultDefaultClientScopes'' (JArr [])) (\<lambda>defaults.
     bindR (text_in ''basic'' defaults) (\<lambda>present.
     Inr (errors @ flag (\<not> present) (quoted ''basic'' @ '' must be a realm default client scope''))))))"

definition mapper_type :: "json \<Rightarrow> json result" where
  "mapper_type mapper =
     bindR (json_get mapper ''protocolMapper'') (\<lambda>m. if hashable m then Inr m else Inl unhashable)"

definition hardcoded_claim :: "json \<Rightarrow> json list result" where
  "hardcoded_claim mapper =
     bindR (json_get mapper ''protocolMapper'') (\<lambda>m.
     if \<not> py_eq m (JStr ''oidc-hardcoded-claim-mapper'') then Inr []
     else
       bindR (json_get_or mapper ''config'' (JObj [])) (\<lambda>config.
       bindR (json_get config ''claim.name'') (\<lambda>claim. if hashable claim then Inr [claim] else Inl unhashable)))"

definition check_naruon_mappers :: "json \<Rightarrow> string list result" where
  "check_naruon_mappers naruon =
     bindR (json_get_or naruon ''protocolMappers'' (JArr [])) (\<lambda>v.
     bindR (json_iter v) (\<lambda>mappers.
     bindR (mapR mapper_type mappers) (\<lambda>naruon_mappers.
     bindR (mapR hardcoded_claim mappers) (\<lambda>claims.
     bindR (json_get_or naruon ''defaultClientScopes'' (JArr [])) (\<lambda>scopes.
     bindR (text_in ''basic'' scopes) (\<lambda>has_basic.
     Inr (flag (JStr ''oidc-audience-mapper'' \<notin> set naruon_mappers) ''naruon-web must include an audience mapper'' @
       concat (map (\<lambda>claim_name. flag (JStr claim_name \<notin> set (concat claims))
         (''naruon-web must carry the hardcoded '' @ quoted claim_name @ '' claim naruon'' @ [CHR 0x27] @
          ''s session contract requires'')) [''role'', ''org'', ''workspace'']) @
       flag (\<not> has_basic) (''naruon-web must assign the '' @ quoted ''basic'' @ '' default scope''))))))))"

definition check_naruon :: "(json \<times> json) list \<Rightarrow> string list result" where
  "check_naruon clients =
     (case key_get clients ''naruon-web'' of
        None \<Rightarrow> Inr [''concrete RP client '' @ quoted ''naruon-web'' @ '' is missing'']
      | Some naruon \<Rightarrow>
          bindR (truthy_field naruon ''publicClient'') (\<lambda>public.
          bindR (truthy_field naruon ''implicitFlowEnabled'') (\<lambda>implicit.
          bindR (requires_pkce naruon) (\<lambda>pkce.
          bindR (public_token_lifespan naruon) (\<lambda>token_lifespan.
          bindR (check_naruon_mappers naruon) (\<lambda>mapper_errors.
          Inr (flag (\<not> public) ''naruon-web must be a public (PKCE) client'' @
            flag implicit ''naruon-web must not enable the implicit flow'' @
            flag (\<not> pkce) ''naruon-web must require PKCE S256'' @
            flag (case token_lifespan of None \<Rightarrow> False | Some n \<Rightarrow> \<not> (0 < n \<and> n \<le> MAX_PUBLIC_TOKEN_LIFESPAN))
              (''naruon-web access.token.lifespan must be an integer at or below '' @
               show_int MAX_PUBLIC_TOKEN_LIFESPAN @ '' seconds'') @
            mapper_errors)))))))"

definition validate_realm :: "json \<Rightarrow> string list result" where
  "validate_realm realm =
     bindR (check_identity realm) (\<lambda>e1.
     bindR (check_browser_flow realm) (\<lambda>e2.
     bindR (check_registration realm) (\<lambda>e3.
     bindR (check_federation realm) (\<lambda>e4.
     bindR (field_index realm ''clients'' ''clientId'') (\<lambda>clients.
     bindR (check_rp_template clients) (\<lambda>e5.
     bindR (check_service_client clients) (\<lambda>e6.
     bindR (mapR check_secret clients) (\<lambda>e7.
     bindR (check_scopes realm) (\<lambda>e9.
     bindR (check_naruon clients) (\<lambda>e10.
     Inr (e1 @ e2 @ e3 @ e4 @ e5 @ e6 @ concat e7 @ check_dollar_keys realm @ e9 @ e10)))))))))))"

section \<open>The command\<close>

datatype read_outcome = Parsed json | Unreadable | Read_Raised exn

definition realm_main :: "(string \<Rightarrow> read_outcome) \<Rightarrow> string list \<Rightarrow> int result" where
  "realm_main read_realm argv =
     (let path = (if length argv > 1 then argv ! 1 else ''deploy/keycloak/realm-cwl.json'') in
      case read_realm path of
        Unreadable \<Rightarrow> Inr 1
      | Read_Raised e \<Rightarrow> Inl e
      | Parsed realm \<Rightarrow> bindR (validate_realm realm) (\<lambda>errors. Inr (if errors \<noteq> [] then 1 else 0)))"

end
