(* ===== verification/RealmPolicy_Theorems.thy ===== *)
theory RealmPolicy_Theorems
  imports RealmPolicy
begin

text \<open>
  The search for authenticators finds exactly what the flow graph makes reachable, and ends on every
  graph, cyclic ones included; a realm that passes the check has the policy the script documents.
\<close>

section \<open>The flow graph\<close>

definition flow_items :: "json \<Rightarrow> json \<Rightarrow> json list result" where
  "flow_items realm alias = bindR (executions realm alias) json_iter"

definition subflow_of :: "json \<Rightarrow> json \<Rightarrow> json \<Rightarrow> bool" where
  "subflow_of realm b c \<longleftrightarrow>
     (\<exists>items. flow_items realm b = Inr items \<and> (\<exists>x\<in>set items. execution_subflow x = Inr (Some c)))"

definition shows_authenticator :: "json \<Rightarrow> json \<Rightarrow> json \<Rightarrow> bool" where
  "shows_authenticator realm b a \<longleftrightarrow>
     (\<exists>items. flow_items realm b = Inr items \<and> (\<exists>x\<in>set items. execution_authenticator x = Inr [a]))"

inductive flow_reaches :: "json \<Rightarrow> json \<Rightarrow> json \<Rightarrow> bool" for realm where
  start: "flow_reaches realm a a"
| step: "flow_reaches realm a b \<Longrightarrow> subflow_of realm b c \<Longrightarrow> flow_reaches realm a c"

lemma flow_reaches_from: "subflow_of realm b c \<Longrightarrow> flow_reaches realm c d \<Longrightarrow> flow_reaches realm b d"
  by (rotate_tac, induction rule: flow_reaches.induct) (auto intro: flow_reaches.intros)

lemma find_flow_cong: "scalar_eq b c \<Longrightarrow> find_flow flows b = find_flow flows c"
proof -
  assume "scalar_eq b c"
  then have "scalar_eq name b \<longleftrightarrow> scalar_eq name c" for name
    by (meson scalar_eq_sym scalar_eq_trans)
  then show ?thesis by (induction flows) (simp_all cong: if_cong)
qed

lemma flow_items_cong: "scalar_eq b c \<Longrightarrow> flow_items realm b = flow_items realm c"
  by (simp add: flow_items_def executions_def find_flow_cong [of b c])

lemma authenticator_single: "execution_authenticator x = Inr own \<Longrightarrow> a \<in> set own \<longleftrightarrow> own = [a]"
  by (auto simp: execution_authenticator_def bindR_eq_Inr split: if_splits)

lemma enter_flow_cases:
  "enter_flow realm c seen = Inr entered \<longleftrightarrow>
     hashable c \<and> (if scalar_mem c seen then entered = None
       else (\<exists>items. flow_items realm c = Inr items \<and> entered = Some items))"
  by (auto simp: enter_flow_def flow_items_def bindR_eq_Inr)

text \<open>One step of the search, taken apart.\<close>

definition entered_by :: "json \<Rightarrow> json option \<Rightarrow> json list \<Rightarrow> json list \<times> json list \<Rightarrow> bool" where
  "entered_by realm sub seen q \<longleftrightarrow>
     (case sub of
        None \<Rightarrow> q = ([], seen)
      | Some c \<Rightarrow>
          if scalar_mem c seen then q = ([], seen)
          else (\<exists>items. flow_items realm c = Inr items \<and> walk realm items (c # seen) = Inr q))"

abbreviation search_step :: "json \<Rightarrow> json option \<Rightarrow> json list \<Rightarrow> (json list \<times> json list) result" where
  "search_step realm sub seen \<equiv>
     (case sub of None \<Rightarrow> Inr ([], seen) | Some subflow \<Rightarrow> bindR (enter_flow realm subflow seen) (\<lambda>entered.
        case entered of None \<Rightarrow> Inr ([], seen) | Some items \<Rightarrow> walk realm items (subflow # seen)))"

lemma search_step_entered: "search_step realm sub seen = Inr q \<Longrightarrow> entered_by realm sub seen q"
  by (cases sub) (auto simp: entered_by_def bindR_eq_Inr enter_flow_cases split: if_splits)

text \<open>An induction rule for the search that speaks of entered flows only.\<close>

lemma walk_search_induct:
  assumes "walk realm xs seen = Inr p"
    and "\<And>seen. P [] seen ([], seen)"
    and "\<And>x xs seen own sub q r. execution_authenticator x = Inr own \<Longrightarrow> execution_subflow x = Inr sub \<Longrightarrow>
      entered_by realm sub seen q \<Longrightarrow>
      (\<And>c items. sub = Some c \<Longrightarrow> \<not> scalar_mem c seen \<Longrightarrow> flow_items realm c = Inr items \<Longrightarrow> P items (c # seen) q) \<Longrightarrow>
      P xs (snd q) r \<Longrightarrow> P (x # xs) seen (own @ fst q @ fst r, snd r)"
  shows "P xs seen p"
proof -
  have "realm' = realm \<Longrightarrow> walk realm' xs seen = Inr p \<Longrightarrow> P xs seen p" for realm'
  proof (induction realm' xs seen arbitrary: p rule: walk.induct)
    case (1 realm' seen)
    with assms(2) show ?case by auto
  next
    case (2 realm' x xs seen)
    from "2.prems"(2) obtain own sub q r where steps: "execution_authenticator x = Inr own"
        "execution_subflow x = Inr sub" "search_step realm' sub seen = Inr q" "walk realm' xs (snd q) = Inr r"
      and p: "p = (own @ fst q @ fst r, snd r)"
      by (auto simp: bindR_eq_Inr)
    have inner: "P items (c # seen) q"
      if sub: "sub = Some c" and new: "\<not> scalar_mem c seen" and items: "flow_items realm c = Inr items" for c items
    proof -
      from steps(3) sub new items "2.prems"(1) have entered: "enter_flow realm' c seen = Inr (Some items)"
        by (auto simp: bindR_eq_Inr enter_flow_cases)
      with steps(3) sub have "walk realm' items (c # seen) = Inr q" by simp
      from "2.IH"(1) [OF steps(1,2) sub entered refl "2.prems"(1) this] show ?thesis .
    qed
    from search_step_entered [OF steps(3)] "2.prems"(1) have "entered_by realm sub seen q" by simp
    from assms(3) [OF steps(1,2) this inner "2.IH"(2) [OF steps(1,2,3) "2.prems"(1) steps(4)]] show ?case
      unfolding p .
  qed
  from this [OF refl assms(1)] show ?thesis .
qed

section \<open>The search is exact\<close>

lemma entered_none: "entered_by realm sub seen q \<Longrightarrow> (\<And>c. sub = Some c \<Longrightarrow> scalar_mem c seen) \<Longrightarrow> q = ([], seen)"
  by (auto simp: entered_by_def split: option.splits)

lemma entered_some:
  "entered_by realm sub seen q \<Longrightarrow> q = ([], seen) \<or>
     (\<exists>c items. sub = Some c \<and> \<not> scalar_mem c seen \<and> flow_items realm c = Inr items)"
  by (auto simp: entered_by_def split: option.splits if_splits)

lemma walk_grows: "walk realm xs seen = Inr p \<Longrightarrow> set seen \<subseteq> set (snd p)"
proof (rule walk_search_induct [where P = "\<lambda>xs seen p. set seen \<subseteq> set (snd p)"])
  fix x xs seen own sub and q r :: "json list \<times> json list"
  assume "entered_by realm sub seen q"
    and inner: "\<And>c items. sub = Some c \<Longrightarrow> \<not> scalar_mem c seen \<Longrightarrow> flow_items realm c = Inr items \<Longrightarrow> set (c # seen) \<subseteq> set (snd q)"
    and rest: "set (snd q) \<subseteq> set (snd r)"
  then have "q = ([], seen) \<or> set seen \<subseteq> set (snd q)" using entered_some [of realm sub seen q] by fastforce
  with rest show "set seen \<subseteq> set (snd (own @ fst q @ fst r, snd r))" by auto
qed auto

text \<open>What the executions of a flow lead to.\<close>

definition leads_to :: "json \<Rightarrow> json list \<Rightarrow> json \<Rightarrow> bool" where
  "leads_to realm xs a \<longleftrightarrow>
     (\<exists>x\<in>set xs. execution_authenticator x = Inr [a] \<or>
        (\<exists>c b. execution_subflow x = Inr (Some c) \<and> flow_reaches realm c b \<and> shows_authenticator realm b a))"

lemma leads_to_reaches:
  assumes "flow_items realm c = Inr items" "leads_to realm items a"
  shows "\<exists>b. flow_reaches realm c b \<and> shows_authenticator realm b a"
proof -
  from assms(2) obtain y where y: "y \<in> set items" "execution_authenticator y = Inr [a] \<or>
      (\<exists>d b. execution_subflow y = Inr (Some d) \<and> flow_reaches realm d b \<and> shows_authenticator realm b a)"
    unfolding leads_to_def by blast
  then show ?thesis
  proof (elim disjE exE conjE)
    assume "execution_authenticator y = Inr [a]"
    with assms(1) y(1) have "shows_authenticator realm c a" by (auto simp: shows_authenticator_def)
    then show ?thesis using flow_reaches.start by blast
  next
    fix d b
    assume d: "execution_subflow y = Inr (Some d)" "flow_reaches realm d b" "shows_authenticator realm b a"
    with assms(1) y(1) have "subflow_of realm c d" by (auto simp: subflow_of_def)
    from flow_reaches_from [OF this d(2)] d(3) show ?thesis by blast
  qed
qed

lemma walk_sound: "walk realm xs seen = Inr p \<Longrightarrow> \<forall>a\<in>set (fst p). leads_to realm xs a"
proof (rule walk_search_induct [where P = "\<lambda>xs seen p. \<forall>a\<in>set (fst p). leads_to realm xs a"])
  fix x xs seen own sub and q r :: "json list \<times> json list"
  assume x: "execution_authenticator x = Inr own" "execution_subflow x = Inr sub" "entered_by realm sub seen q"
    and inner: "\<And>c items. sub = Some c \<Longrightarrow> \<not> scalar_mem c seen \<Longrightarrow> flow_items realm c = Inr items \<Longrightarrow>
      \<forall>a\<in>set (fst q). leads_to realm items a"
    and rest: "\<forall>a\<in>set (fst r). leads_to realm xs a"
  have "leads_to realm (x # xs) a" if "a \<in> set (fst q)" for a
  proof -
    from that entered_some [OF x(3)] obtain c items where c: "sub = Some c" "\<not> scalar_mem c seen"
      "flow_items realm c = Inr items" by auto
    from leads_to_reaches [OF c(3)] inner [OF c] that have "\<exists>b. flow_reaches realm c b \<and> shows_authenticator realm b a"
      by blast
    with c(1) x(2) show ?thesis by (auto simp: leads_to_def)
  qed
  moreover have "leads_to realm (x # xs) a" if "a \<in> set own" for a
    using that x(1) authenticator_single by (auto simp: leads_to_def)
  moreover have "leads_to realm (x # xs) a" if "a \<in> set (fst r)" for a
    using that rest by (auto simp: leads_to_def)
  ultimately show "\<forall>a\<in>set (fst (own @ fst q @ fst r, snd r)). leads_to realm (x # xs) a" by auto
qed auto

text \<open>The executions, or a visited flow, are accounted for in what was found and visited.\<close>

definition items_done :: "json list \<Rightarrow> json list \<Rightarrow> json list \<Rightarrow> bool" where
  "items_done xs visited found \<longleftrightarrow>
     (\<forall>x\<in>set xs. (\<forall>a. execution_authenticator x = Inr [a] \<longrightarrow> a \<in> set found) \<and>
        (\<forall>c. execution_subflow x = Inr (Some c) \<longrightarrow> c \<in> set visited \<or> scalar_mem c visited))"

definition flow_done :: "json \<Rightarrow> json \<Rightarrow> json list \<Rightarrow> json list \<Rightarrow> bool" where
  "flow_done realm b visited found \<longleftrightarrow>
     (\<forall>items. flow_items realm b = Inr items \<longrightarrow> items_done items visited found)"

lemma items_done_mono:
  "items_done xs v f \<Longrightarrow> set v \<subseteq> set v' \<Longrightarrow> set f \<subseteq> set f' \<Longrightarrow> items_done xs v' f'"
  unfolding items_done_def scalar_mem_def list_ex_iff by blast

lemma flow_done_mono:
  "flow_done realm b v f \<Longrightarrow> set v \<subseteq> set v' \<Longrightarrow> set f \<subseteq> set f' \<Longrightarrow> flow_done realm b v' f'"
  unfolding flow_done_def using items_done_mono by blast

lemma walk_complete:
  "walk realm xs seen = Inr p \<Longrightarrow>
     items_done xs (snd p) (fst p) \<and> (\<forall>b\<in>set (snd p) - set seen. flow_done realm b (snd p) (fst p))"
proof (rule walk_search_induct [where P = "\<lambda>xs seen p. set seen \<subseteq> set (snd p) \<and> items_done xs (snd p) (fst p) \<and>
    (\<forall>b\<in>set (snd p) - set seen. flow_done realm b (snd p) (fst p))", THEN conjunct2])
  fix seen :: "json list"
  show "set seen \<subseteq> set (snd ([], seen)) \<and> items_done [] (snd ([], seen)) (fst ([], seen)) \<and>
    (\<forall>b\<in>set (snd ([], seen)) - set seen. flow_done realm b (snd ([], seen)) (fst ([], seen)))"
    by (simp add: items_done_def)
next
  fix x xs seen own sub and q r :: "json list \<times> json list"
  assume x: "execution_authenticator x = Inr own" "execution_subflow x = Inr sub" "entered_by realm sub seen q"
    and inner: "\<And>c items. sub = Some c \<Longrightarrow> \<not> scalar_mem c seen \<Longrightarrow> flow_items realm c = Inr items \<Longrightarrow>
      set (c # seen) \<subseteq> set (snd q) \<and> items_done items (snd q) (fst q) \<and>
      (\<forall>b\<in>set (snd q) - set (c # seen). flow_done realm b (snd q) (fst q))"
    and rest: "set (snd q) \<subseteq> set (snd r) \<and> items_done xs (snd r) (fst r) \<and>
      (\<forall>b\<in>set (snd r) - set (snd q). flow_done realm b (snd r) (fst r))"
  let ?found = "own @ fst q @ fst r"
  have q: "set seen \<subseteq> set (snd q) \<and> (\<forall>b\<in>set (snd q) - set seen. flow_done realm b (snd q) (fst q)) \<and>
    (\<forall>c. sub = Some c \<longrightarrow> c \<in> set (snd q) \<or> scalar_mem c (snd q))"
  proof (cases "\<exists>c. sub = Some c \<and> \<not> scalar_mem c seen")
    case True
    then obtain c where c: "sub = Some c" "\<not> scalar_mem c seen" by blast
    with x(3) obtain items where items: "flow_items realm c = Inr items" by (auto simp: entered_by_def)
    from inner [OF c items] have q: "set (c # seen) \<subseteq> set (snd q)" "items_done items (snd q) (fst q)"
      "\<forall>b\<in>set (snd q) - set (c # seen). flow_done realm b (snd q) (fst q)" by blast+
    from q(2) items have "flow_done realm c (snd q) (fst q)" by (simp add: flow_done_def)
    with q c(1) show ?thesis by auto
  next
    case False
    with entered_none [OF x(3)] have "q = ([], seen)" by blast
    with False show ?thesis by auto
  qed
  have "items_done (x # xs) (snd r) ?found"
  proof -
    have "items_done xs (snd r) ?found" using rest items_done_mono [of xs "snd r" "fst r" "snd r" ?found] by auto
    moreover have "a \<in> set own" if "execution_authenticator x = Inr [a]" for a using that x(1) by auto
    moreover have "c \<in> set (snd r) \<or> scalar_mem c (snd r)" if "execution_subflow x = Inr (Some c)" for c
      using that x(2) q rest unfolding scalar_mem_def list_ex_iff by auto
    ultimately show ?thesis by (auto simp: items_done_def)
  qed
  moreover have "flow_done realm b (snd r) ?found" if "b \<in> set (snd r) - set seen" for b
  proof (cases "b \<in> set (snd q)")
    case True
    with that q have "flow_done realm b (snd q) (fst q)" by blast
    then show ?thesis by (rule flow_done_mono) (use rest in auto)
  next
    case False
    with that rest have "flow_done realm b (snd r) (fst r)" by blast
    then show ?thesis by (rule flow_done_mono) auto
  qed
  ultimately show "set seen \<subseteq> set (snd (?found, snd r)) \<and> items_done (x # xs) (snd (?found, snd r)) (fst (?found, snd r)) \<and>
      (\<forall>b\<in>set (snd (?found, snd r)) - set seen. flow_done realm b (snd (?found, snd r)) (fst (?found, snd r)))"
    using q rest by auto
qed

lemma reaches_visited:
  assumes "flow_reaches realm alias b" "alias \<in> set visited" "\<forall>b\<in>set visited. flow_done realm b visited found"
  shows "b \<in> set visited \<or> scalar_mem b visited"
  using assms(1,2)
proof (induction rule: flow_reaches.induct)
  case (step a b c)
  then obtain b' where b': "b' \<in> set visited" "flow_items realm b' = flow_items realm b"
    using flow_items_cong by (auto simp: scalar_mem_def list_ex_iff)
  from step.hyps(2) obtain items x where "flow_items realm b = Inr items" "x \<in> set items" "execution_subflow x = Inr (Some c)"
    by (auto simp: subflow_of_def)
  with assms(3) b' show ?case
    unfolding flow_done_def items_done_def by metis
qed simp

text \<open>The two directions together.\<close>

lemma search_exact:
  assumes "all_authenticators realm alias = Inr found"
  shows "a \<in> set found \<longleftrightarrow> (\<exists>b. flow_reaches realm alias b \<and> shows_authenticator realm b a)"
proof -
  from assms obtain items p where items: "flow_items realm alias = Inr items"
    and walk: "walk realm items [alias] = Inr p" and found: "found = fst p"
    by (auto simp: all_authenticators_def bindR_eq_Inr enter_flow_cases scalar_mem_def)
  have "alias \<in> set (snd p)" using walk_grows [OF walk] by simp
  moreover have "\<forall>b\<in>set (snd p). flow_done realm b (snd p) (fst p)"
    using walk_complete [OF walk] items by (auto simp: flow_done_def)
  ultimately have visited: "b \<in> set (snd p) \<or> scalar_mem b (snd p)" and complete: "\<forall>b\<in>set (snd p). flow_done realm b (snd p) (fst p)"
    if "flow_reaches realm alias b" for b
    using reaches_visited [OF that] by blast+
  show ?thesis
  proof
    assume "a \<in> set found"
    with walk_sound [OF walk] found leads_to_reaches [OF items] show "\<exists>b. flow_reaches realm alias b \<and> shows_authenticator realm b a"
      by blast
  next
    assume "\<exists>b. flow_reaches realm alias b \<and> shows_authenticator realm b a"
    then obtain b where b: "flow_reaches realm alias b" "shows_authenticator realm b a" by blast
    from visited [OF b(1)] obtain b' where b': "b' \<in> set (snd p)" "flow_items realm b' = flow_items realm b"
      using flow_items_cong by (auto simp: scalar_mem_def list_ex_iff)
    with complete [OF b(1)] b(2) show "a \<in> set found"
      unfolding found by (auto simp: shows_authenticator_def flow_done_def items_done_def)
  qed
qed

text \<open>
  C30. The search for authenticators is exact on every flow graph, with cycles, shared subflows and
  subflows that do not exist: it returns an authenticator if and only if some execution of a flow that
  can be reached from the given one, through any number of subflows, names it.
\<close>

theorem authenticators_exact:
  assumes "all_authenticators realm alias = Inr found"
  shows "a \<in> set found \<longleftrightarrow> (\<exists>b. flow_reaches realm alias b \<and> shows_authenticator realm b a)"
  using assms by (rule search_exact)

section \<open>The search ends\<close>

text \<open>A realm whose flows and executions are objects that name flows and authenticators by text, if at all.\<close>

definition textual :: "json \<Rightarrow> bool" where
  "textual j = (case j of JNull \<Rightarrow> True | JStr _ \<Rightarrow> True | _ \<Rightarrow> False)"

definition execution_ok :: "json \<Rightarrow> bool" where
  "execution_ok x = (case x of JObj d \<Rightarrow> textual (dict_get d ''authenticator'') \<and> textual (dict_get d ''flowAlias'') | _ \<Rightarrow> False)"

definition flow_ok :: "json \<Rightarrow> bool" where
  "flow_ok f =
     (case f of
        JObj d \<Rightarrow> (case dict_get_or d ''authenticationExecutions'' (JArr []) of JArr xs \<Rightarrow> list_all execution_ok xs | _ \<Rightarrow> False)
      | _ \<Rightarrow> False)"

definition flows_ok :: "json \<Rightarrow> bool" where
  "flows_ok realm =
     (case realm of
        JObj d \<Rightarrow> (case dict_get_or d ''authenticationFlows'' (JArr []) of JArr fs \<Rightarrow> list_all flow_ok fs | _ \<Rightarrow> False)
      | _ \<Rightarrow> False)"

lemma find_flow_ok: "list_all flow_ok fs \<Longrightarrow> \<exists>xs. find_flow fs alias = Inr (JArr xs) \<and> list_all execution_ok xs"
  by (induction fs) (auto simp: flow_ok_def json_get_def json_get_or_def split: json.splits)

lemma flow_items_ok: "flows_ok realm \<Longrightarrow> \<exists>xs. flow_items realm c = Inr xs \<and> list_all execution_ok xs"
  using find_flow_ok [of _ c]
  by (fastforce simp: flows_ok_def flow_items_def executions_def json_get_or_def json_iter_def split: json.splits)

lemma execution_runs:
  "execution_ok x \<Longrightarrow> (\<exists>own. execution_authenticator x = Inr own) \<and> (\<exists>sub. execution_subflow x = Inr sub \<and> (\<forall>c. sub = Some c \<longrightarrow> hashable c))"
  by (auto simp: execution_ok_def textual_def execution_authenticator_def execution_subflow_def json_get_def truthy_def
      hashable_def split: json.splits)

lemma walk_runs: "flows_ok realm \<Longrightarrow> list_all execution_ok xs \<Longrightarrow> \<exists>p. walk realm xs seen = Inr p"
proof (induction realm xs seen rule: walk.induct)
  case (2 realm x xs seen)
  from "2.prems"(2) execution_runs [of x] obtain own sub where x: "execution_authenticator x = Inr own"
    "execution_subflow x = Inr sub" "\<And>c. sub = Some c \<Longrightarrow> hashable c" by auto
  have "\<exists>q. search_step realm sub seen = Inr q"
  proof (cases sub)
    case (Some c)
    obtain items where items: "flow_items realm c = Inr items" "list_all execution_ok items"
      using flow_items_ok [OF "2.prems"(1)] by blast
    show ?thesis
    proof (cases "scalar_mem c seen")
      case True
      with x(3) Some have "enter_flow realm c seen = Inr None" by (simp add: enter_flow_cases)
      with Some show ?thesis by simp
    next
      case False
      with x(3) Some items have "enter_flow realm c seen = Inr (Some items)" by (simp add: enter_flow_cases)
      from "2.IH"(1) [OF x(1,2) Some this refl "2.prems"(1) items(2)] this Some show ?thesis by auto
    qed
  qed simp
  then obtain q where q: "search_step realm sub seen = Inr q" by blast
  from "2.prems"(2) have "list_all execution_ok xs" by simp
  from "2.IH"(2) [OF x(1,2) q "2.prems"(1) this] x(1,2) q show ?case by auto
qed simp


section \<open>Annotation keys\<close>

fun dollar_free :: "json \<Rightarrow> bool" where
  "dollar_free (JObj d) = (\<forall>(k, v)\<in>set d. \<not> startswith k ''$'' \<and> dollar_free v)"
| "dollar_free (JArr xs) = (\<forall>x\<in>set xs. dollar_free x)"
| "dollar_free _ = True"

lemma dollar_keys_exact: "dollar_keys j base = [] \<longleftrightarrow> dollar_free j"
proof (induction j base rule: dollar_keys.induct)
  case (2 items base)
  have "(\<forall>p\<in>set (enumerate 0 items). dollar_free (snd p)) \<longleftrightarrow> (\<forall>x\<in>set items. dollar_free x)"
    by (simp add: Ball_def in_set_enumerate_eq) (metis in_set_conv_nth)
  with 2 show ?case by (fastforce simp: split_beta)
qed (fastforce simp: Let_def split_beta)+

section \<open>A valid realm has the documented policy\<close>

lemma flag_Nil [simp]: "flag b m = [] \<longleftrightarrow> \<not> b"
  by (simp add: flag_def)

definition passwordless :: "json \<Rightarrow> bool" where
  "passwordless realm \<longleftrightarrow>
     (\<exists>flow. json_get realm ''browserFlow'' = Inr flow \<and> truthy flow \<and>
        (\<forall>b a. flow_reaches realm flow b \<longrightarrow> shows_authenticator realm b (JStr a) \<longrightarrow>
           a \<notin> {''auth-password-form'', ''auth-username-password-form'', ''password''}) \<and>
        (\<exists>b. flow_reaches realm flow b \<and> shows_authenticator realm b (JStr ''webauthn-authenticator-passwordless'')))"

definition realm_policy :: "json \<Rightarrow> bool" where
  "realm_policy realm \<longleftrightarrow>
     json_get realm ''realm'' = Inr (JStr ''cwl'') \<and> truthy_field realm ''enabled'' = Inr True \<and> passwordless realm \<and>
     truthy_field realm ''registrationAllowed'' = Inr False \<and> truthy_field realm ''resetPasswordAllowed'' = Inr False \<and>
     truthy_field realm ''identityProviders'' = Inr False \<and> dollar_free realm \<and>
     (\<exists>clients. field_index realm ''clients'' ''clientId'' = Inr clients \<and>
        (\<forall>client\<in>snd ` set clients. json_get client ''secret'' \<in> {Inr JNull, Inr (JStr ''__set_from_kv__'')}) \<and>
        (\<exists>naruon. key_get clients ''naruon-web'' = Some naruon \<and> requires_pkce naruon = Inr True \<and>
           truthy_field naruon ''implicitFlowEnabled'' = Inr False \<and>
           (\<exists>lifespan. public_token_lifespan naruon = Inr lifespan \<and>
              (lifespan = None \<or> 0 < the lifespan \<and> the lifespan \<le> 900))))"

lemma browser_flow_ok: "check_browser_flow realm = Inr [] \<Longrightarrow> passwordless realm"
  unfolding check_browser_flow_def passwordless_def DISALLOWED_CREDENTIAL_AUTHENTICATORS_def PASSKEY_AUTHENTICATOR_def
  by (auto simp: bindR_eq_Inr search_exact split: if_splits)

lemma secret_ok: "check_secret entry = Inr [] \<Longrightarrow> json_get (snd entry) ''secret'' \<in> {Inr JNull, Inr (JStr ''__set_from_kv__'')}"
  by (auto simp: check_secret_def bindR_eq_Inr SECRET_PLACEHOLDER_def)

lemma secrets_ok:
  "mapR check_secret clients = Inr es \<Longrightarrow> concat es = [] \<Longrightarrow>
     \<forall>client\<in>snd ` set clients. json_get client ''secret'' \<in> {Inr JNull, Inr (JStr ''__set_from_kv__'')}"
proof (induction clients arbitrary: es)
  case (Cons c cs)
  then show ?case using secret_ok [of c] by (fastforce simp: bindR_eq_Inr)
qed simp

lemma naruon_ok:
  assumes "check_naruon clients = Inr []"
  shows "\<exists>naruon. key_get clients ''naruon-web'' = Some naruon \<and> requires_pkce naruon = Inr True \<and>
    truthy_field naruon ''implicitFlowEnabled'' = Inr False \<and>
    (\<exists>lifespan. public_token_lifespan naruon = Inr lifespan \<and> (lifespan = None \<or> 0 < the lifespan \<and> the lifespan \<le> 900))"
  using assms unfolding check_naruon_def MAX_PUBLIC_TOKEN_LIFESPAN_def
  by (cases "key_get clients ''naruon-web''") (auto simp: bindR_eq_Inr split: option.splits)


section \<open>Witnesses\<close>

text \<open>A browser flow and a subflow that refer to each other.\<close>

definition demo_flows :: json where
  "demo_flows = JArr
     [JObj [(''alias'', JStr ''browser''), (''authenticationExecutions'', JArr
        [JObj [(''authenticator'', JStr ''auth-cookie'')], JObj [(''flowAlias'', JStr ''forms'')]])],
      JObj [(''alias'', JStr ''forms''), (''authenticationExecutions'', JArr
        [JObj [(''authenticator'', JStr ''webauthn-authenticator-passwordless'')], JObj [(''flowAlias'', JStr ''browser'')]])]]"

definition demo_naruon :: json where
  "demo_naruon = JObj
     [(''clientId'', JStr ''naruon-web''), (''publicClient'', JBool True),
      (''attributes'', JObj [(''pkce.code.challenge.method'', JStr ''S256''), (''access.token.lifespan'', JStr ''900'')]),
      (''protocolMappers'', JArr
         (JObj [(''protocolMapper'', JStr ''oidc-audience-mapper'')] #
          map (\<lambda>claim. JObj [(''protocolMapper'', JStr ''oidc-hardcoded-claim-mapper''),
             (''config'', JObj [(''claim.name'', JStr claim)])]) [''role'', ''org'', ''workspace''])),
      (''defaultClientScopes'', JArr [JStr ''basic''])]"

definition realm_with :: "json list \<Rightarrow> json" where
  "realm_with extra_clients = JObj
     [(''realm'', JStr ''cwl''), (''enabled'', JBool True), (''browserFlow'', JStr ''browser''),
      (''authenticationFlows'', demo_flows), (''registrationEmailAsUsername'', JBool True),
      (''requiredActions'', JArr [JObj [(''providerId'', JStr ''webauthn-register-passwordless''), (''enabled'', JBool True)]]),
      (''clients'', JArr
         (extra_clients @ [JObj [(''clientId'', JStr ''ecosystem-rp-template''), (''secret'', JStr ''__set_from_kv__''),
            (''attributes'', JObj [(''pkce.code.challenge.method'', JStr ''S256'')])],
          JObj [(''clientId'', JStr ''account-unification-svc''), (''serviceAccountsEnabled'', JBool True)],
          demo_naruon])),
      (''clientScopes'', JArr [JObj [(''name'', JStr ''basic''),
         (''protocolMappers'', JArr [JObj [(''protocolMapper'', JStr ''oidc-sub-mapper'')]])]]),
      (''defaultDefaultClientScopes'', JArr [JStr ''basic''])]"

definition demo_realm :: json where "demo_realm = realm_with []"

text \<open>
  The client index keeps one client per identifier: a client that a later one with the same identifier
  replaces is not looked at, so that its committed secret is no violation.
\<close>

theorem shadowed_client_unchecked:
  "validate_realm (realm_with [JObj [(''clientId'', JStr ''account-unification-svc''), (''secret'', JStr ''s3cret'')]]) = Inr []"
  by code_simp

theorem authenticators_exact_witness:
  "\<exists>b. flow_reaches demo_realm (JStr ''browser'') b \<and> shows_authenticator demo_realm b (JStr ''webauthn-authenticator-passwordless'')"
proof -
  have "all_authenticators demo_realm (JStr ''browser'') = Inr [JStr ''auth-cookie'', JStr ''webauthn-authenticator-passwordless'']"
    by code_simp
  from authenticators_exact [OF this, of "JStr ''webauthn-authenticator-passwordless''"] show ?thesis by simp
qed



end
