(* ===== verification/Utf8.thy ===== *)
theory Utf8
  imports Prelude
begin

text \<open>
  \<open>bytes.decode("utf-8")\<close> with strict errors, and the encoder on code points. A byte is a number below
  256; decoded text is a list of code points.
\<close>

definition is_continuation :: "nat \<Rightarrow> bool" where
  "is_continuation b \<longleftrightarrow> 128 \<le> b \<and> b \<le> 191"

text \<open>Strict UTF-8: overlong forms, surrogates and code points above U+10FFFF are refused.\<close>

fun utf8_decode :: "nat list \<Rightarrow> nat list option" where
  "utf8_decode [] = Some []"
| "utf8_decode (a # rest) =
     (if a < 128 then map_option ((#) a) (utf8_decode rest)
      else if 194 \<le> a \<and> a \<le> 223 then
        (case rest of
           b # rest' \<Rightarrow>
             if is_continuation b then map_option ((#) ((a - 192) * 64 + (b - 128))) (utf8_decode rest') else None
         | _ \<Rightarrow> None)
      else if 224 \<le> a \<and> a \<le> 239 then
        (case rest of
           b # c # rest' \<Rightarrow>
             if is_continuation b \<and> is_continuation c \<and> (a = 224 \<longrightarrow> 160 \<le> b) \<and> (a = 237 \<longrightarrow> b \<le> 159)
             then map_option ((#) ((a - 224) * 4096 + (b - 128) * 64 + (c - 128))) (utf8_decode rest') else None
         | _ \<Rightarrow> None)
      else if 240 \<le> a \<and> a \<le> 244 then
        (case rest of
           b # c # d # rest' \<Rightarrow>
             if is_continuation b \<and> is_continuation c \<and> is_continuation d \<and> (a = 240 \<longrightarrow> 144 \<le> b) \<and> (a = 244 \<longrightarrow> b \<le> 143)
             then map_option ((#) ((a - 240) * 262144 + (b - 128) * 4096 + (c - 128) * 64 + (d - 128))) (utf8_decode rest')
             else None
         | _ \<Rightarrow> None)
      else None)"

definition utf8_point :: "nat \<Rightarrow> nat list" where
  "utf8_point p =
     (if p < 128 then [p]
      else if p < 2048 then [192 + p div 64, 128 + p mod 64]
      else if p < 65536 then [224 + p div 4096, 128 + p div 64 mod 64, 128 + p mod 64]
      else [240 + p div 262144, 128 + p div 4096 mod 64, 128 + p div 64 mod 64, 128 + p mod 64])"

definition utf8_points :: "nat list \<Rightarrow> nat list" where
  "utf8_points ps = concat (map utf8_point ps)"

lemma append_Cons_fun: "(@) (a # z) = (\<lambda>x. a # z @ x)"
  by auto

lemma utf8_decode_append:
  "utf8_decode xs = Some u \<Longrightarrow> utf8_decode (xs @ ys) = map_option ((@) u) (utf8_decode ys)"
proof (induction xs arbitrary: u rule: utf8_decode.induct)
  case 1
  then show ?case by (simp add: option.map_ident)
next
  case (2 a rest)
  consider (one) "a < 128" | (two) "194 \<le> a" "a \<le> 223" | (three) "224 \<le> a" "a \<le> 239" | (four) "240 \<le> a" "a \<le> 244"
    using "2.prems" by (fastforce split: if_splits)
  then show ?case
  proof cases
    case one
    with 2 show ?thesis by (auto simp: option.map_comp comp_def append_Cons_fun)
  next
    case two
    with "2.prems" obtain b rest' where rest: "rest = b # rest'" "is_continuation b" by (auto split: list.splits if_splits)
    with two "2.prems" "2.IH"(2) [OF _ _ rest] show ?thesis by (auto simp: option.map_comp comp_def append_Cons_fun)
  next
    case three
    with "2.prems" obtain b c rest' where rest: "rest = b # c # rest'" by (auto split: list.splits)
    with three "2.prems" "2.IH"(3) [OF _ _ _ rest(1) refl] show ?thesis
      by (auto simp: option.map_comp comp_def append_Cons_fun split: if_splits)
  next
    case four
    with "2.prems" obtain b c d rest' where rest: "rest = b # c # d # rest'" by (auto split: list.splits)
    with four "2.prems" "2.IH"(4) [OF _ _ _ _ rest(1) refl refl] show ?thesis
      by (auto simp: option.map_comp comp_def append_Cons_fun split: if_splits)
  qed
qed

text \<open>A byte of ASCII stands for itself wherever it occurs.\<close>

lemma utf8_decode_ascii: "utf8_decode bs = Some ps \<Longrightarrow> b < 128 \<Longrightarrow> b \<in> set bs \<longleftrightarrow> b \<in> set ps"
proof (induction bs arbitrary: ps rule: utf8_decode.induct)
  case (2 a rest)
  consider (one) "a < 128" | (two) "194 \<le> a" "a \<le> 223" | (three) "224 \<le> a" "a \<le> 239" | (four) "240 \<le> a" "a \<le> 244"
    using "2.prems" by (fastforce split: if_splits)
  then show ?case
  proof cases
    case one
    with 2 show ?thesis by auto
  next
    case two
    with "2.prems" obtain c rest' where rest: "rest = c # rest'" "is_continuation c" by (auto split: list.splits if_splits)
    from two have "\<not> (a - 192) * 64 + (c - 128) < 128" by auto
    with two rest "2.prems" "2.IH"(2) [OF _ _ rest] show ?thesis by (auto simp: is_continuation_def)
  next
    case three
    with "2.prems" obtain c d rest' where rest: "rest = c # d # rest'" by (auto split: list.splits)
    with three "2.prems" have ok: "is_continuation c" "is_continuation d" "a = 224 \<longrightarrow> 160 \<le> c" by (auto split: if_splits)
    with three have "\<not> (a - 224) * 4096 + (c - 128) * 64 + (d - 128) < 128" by (cases "a = 224") (auto simp: is_continuation_def)
    with three rest ok "2.prems" "2.IH"(3) [OF _ _ _ rest(1) refl] show ?thesis
      by (auto simp: is_continuation_def split: if_splits)
  next
    case four
    with "2.prems" obtain c d e rest' where rest: "rest = c # d # e # rest'" by (auto split: list.splits)
    with four "2.prems" have ok: "is_continuation c" "is_continuation d" "is_continuation e" "a = 240 \<longrightarrow> 144 \<le> c"
      by (auto split: if_splits)
    with four have "\<not> (a - 240) * 262144 + (c - 128) * 4096 + (d - 128) * 64 + (e - 128) < 128"
      by (cases "a = 240") (auto simp: is_continuation_def)
    with four rest ok "2.prems" "2.IH"(4) [OF _ _ _ _ rest(1) refl refl] show ?thesis
      by (auto simp: is_continuation_def split: if_splits)
  qed
qed simp

text \<open>Encoding inverts strict decoding: every accepted byte sequence is the only encoding of its text.\<close>

lemma base64_digits:
  assumes "z < (64 :: nat)"
  shows "(x * 64 + z) div 64 = x" "(x * 64 + z) mod 64 = z"
  using assms by auto

lemma two_digits: "(x * 4096 + y * 64 + z :: nat) = (x * 64 + y) * 64 + z"
  by simp

lemma three_digits: "(w * 262144 + x * 4096 + y * 64 + z :: nat) = ((w * 64 + x) * 64 + y) * 64 + z"
  by simp

lemma div_4096: "(p :: nat) div 4096 = p div 64 div 64"
  by (simp add: div_mult2_eq [symmetric])

lemma div_262144: "(p :: nat) div 262144 = p div 64 div 64 div 64"
  by (simp add: div_mult2_eq [symmetric])

lemma utf8_point_2:
  assumes "194 \<le> a" "a \<le> 223" "is_continuation b"
  shows "utf8_point ((a - 192) * 64 + (b - 128)) = [a, b]"
proof -
  from assms have z: "b - 128 < 64" and range: "128 \<le> (a - 192) * 64 + (b - 128)" "(a - 192) * 64 + (b - 128) < 2048"
    by (auto simp: is_continuation_def)
  from range show ?thesis unfolding utf8_point_def base64_digits [OF z] using assms by (auto simp: is_continuation_def)
qed

lemma utf8_point_3:
  assumes "224 \<le> a" "a \<le> 239" "is_continuation b" "is_continuation c" "a = 224 \<longrightarrow> 160 \<le> b"
  shows "utf8_point ((a - 224) * 4096 + (b - 128) * 64 + (c - 128)) = [a, b, c]"
proof -
  let ?p = "((a - 224) * 64 + (b - 128)) * 64 + (c - 128)"
  from assms have y: "b - 128 < 64" and z: "c - 128 < 64" by (auto simp: is_continuation_def)
  from assms have range: "2048 \<le> ?p" "?p < 65536" by (cases "a = 224"; auto simp: is_continuation_def)+
  have "\<not> ?p < 128" "\<not> ?p < 2048" using range by linarith+
  then show ?thesis
    unfolding two_digits utf8_point_def div_4096 base64_digits [OF z] base64_digits [OF y]
    using assms range by (simp add: is_continuation_def)
qed

lemma utf8_point_4:
  assumes "240 \<le> a" "a \<le> 244" "is_continuation b" "is_continuation c" "is_continuation d" "a = 240 \<longrightarrow> 144 \<le> b"
  shows "utf8_point ((a - 240) * 262144 + (b - 128) * 4096 + (c - 128) * 64 + (d - 128)) = [a, b, c, d]"
proof -
  let ?p = "(((a - 240) * 64 + (b - 128)) * 64 + (c - 128)) * 64 + (d - 128)"
  from assms have x: "b - 128 < 64" and y: "c - 128 < 64" and z: "d - 128 < 64" by (auto simp: is_continuation_def)
  from assms have range: "65536 \<le> ?p" by (cases "a = 240") (auto simp: is_continuation_def)
  have "\<not> ?p < 128" "\<not> ?p < 2048" "\<not> ?p < 65536" using range by linarith+
  then have "utf8_point ?p = [240 + (a - 240), 128 + (b - 128), 128 + (c - 128), 128 + (d - 128)]"
    by (simp only: utf8_point_def if_False div_4096 div_262144 base64_digits [OF z] base64_digits [OF y] base64_digits [OF x])
  with assms show ?thesis unfolding three_digits by (simp only: is_continuation_def le_add_diff_inverse)
qed

lemma utf8_points_decode: "utf8_decode bs = Some ps \<Longrightarrow> utf8_points ps = bs"
proof (induction bs arbitrary: ps rule: utf8_decode.induct)
  case (2 a rest)
  consider (one) "a < 128" | (two) "194 \<le> a" "a \<le> 223" | (three) "224 \<le> a" "a \<le> 239" | (four) "240 \<le> a" "a \<le> 244"
    using "2.prems" by (fastforce split: if_splits)
  then show ?case
  proof cases
    case one
    with 2 show ?thesis by (auto simp: utf8_points_def utf8_point_def)
  next
    case two
    with "2.prems" obtain b rest' where rest: "rest = b # rest'" "is_continuation b" by (auto split: list.splits if_splits)
    from two rest "2.prems" "2.IH"(2) [OF _ _ rest] utf8_point_2 [OF two rest(2)] show ?thesis
      by (auto simp: utf8_points_def)
  next
    case three
    with "2.prems" obtain b c rest' where rest: "rest = b # c # rest'" by (auto split: list.splits)
    with three "2.prems" have ok: "is_continuation b" "is_continuation c" "a = 224 \<longrightarrow> 160 \<le> b" "a = 237 \<longrightarrow> b \<le> 159"
      by (auto split: if_splits)
    with three rest "2.prems" "2.IH"(3) [OF _ _ _ rest(1) refl] utf8_point_3 [OF three ok(1,2,3)] show ?thesis
      by (auto simp: utf8_points_def)
  next
    case four
    with "2.prems" obtain b c d rest' where rest: "rest = b # c # d # rest'" by (auto split: list.splits)
    with four "2.prems" have ok: "is_continuation b" "is_continuation c" "is_continuation d" "a = 240 \<longrightarrow> 144 \<le> b" "a = 244 \<longrightarrow> b \<le> 143"
      by (auto split: if_splits)
    with four rest "2.prems" "2.IH"(4) [OF _ _ _ _ rest(1) refl refl] utf8_point_4 [OF four ok(1,2,3,4)] show ?thesis
      by (auto simp: utf8_points_def)
  qed
qed (simp add: utf8_points_def)

end
