(* ===== verification/NimProxy.thy ===== *)
theory NimProxy
  imports Python_Builtins Sha256 Url Utf8
begin

text \<open>
  The loopback credential broker of \<open>scripts/ci/nim_proxy.py\<close>: the check of the request target, the
  client that adds the credential and talks to one fixed host, and the request handler with its bounded
  number of concurrent upstream calls. The HTTPS connection is a parameter; bytes are numbers below 256
  and decoded text is a list of code points.
\<close>

definition UPSTREAM_HOST :: string where "UPSTREAM_HOST = ''integrate.api.nvidia.com''"
definition DEFAULT_HOST :: string where "DEFAULT_HOST = ''127.0.0.1''"
definition DEFAULT_PORT :: int where "DEFAULT_PORT = 8765"
definition MAX_REQUEST_BYTES :: nat where "MAX_REQUEST_BYTES = 16 * 1024 * 1024"
definition MAX_RESPONSE_BYTES :: nat where "MAX_RESPONSE_BYTES = 32 * 1024 * 1024"
definition MAX_PATH_CHARACTERS :: nat where "MAX_PATH_CHARACTERS = 4096"

section \<open>Header values\<close>

definition is_safe_header :: "string \<Rightarrow> bool" where
  "is_safe_header s \<longleftrightarrow> 1 \<le> length s \<and> length s \<le> 512 \<and> list_all (\<lambda>c. 32 \<le> ord c \<and> ord c \<le> 126) s"

definition safe_header :: "string option \<Rightarrow> string \<Rightarrow> string" where
  "safe_header value dflt = (case value of None \<Rightarrow> dflt | Some v \<Rightarrow> if is_safe_header v then v else dflt)"

section \<open>The request target\<close>

definition is_path_char :: "char \<Rightarrow> bool" where
  "is_path_char c \<longleftrightarrow> is_ascii_alnum c \<or> c \<in> set ''._~!$&()*+,;=:@%/?-'' \<or> c = CHR 0x27"

definition is_api_path :: "string \<Rightarrow> bool" where
  "is_api_path path \<longleftrightarrow>
     path = ''/v1'' \<or> startswith path ''/v1/'' \<and> list_all is_path_char (drop 4 path)"

text \<open>A percent sign that no two hexadecimal digits follow.\<close>

fun has_bad_escape :: "string \<Rightarrow> bool" where
  "has_bad_escape [] = False"
| "has_bad_escape (c # rest) =
     (c = CHR ''%'' \<and> \<not> (2 \<le> length rest \<and> is_hex_char (rest ! 0) \<and> is_hex_char (rest ! 1)) \<or> has_bad_escape rest)"

definition hex_digit_value :: "char \<Rightarrow> nat" where
  "hex_digit_value c = (if ord c \<le> 57 then ord c - 48 else if ord c \<le> 70 then ord c - 55 else ord c - 87)"

text \<open>\<open>unquote_to_bytes\<close> on ASCII text: a percent sign that starts no escape stays.\<close>

fun unquote_bytes :: "string \<Rightarrow> nat list" where
  "unquote_bytes [] = []"
| "unquote_bytes (c # rest) =
     (if c = CHR ''%'' then
        (case rest of
           h # l # rest' \<Rightarrow>
             if is_hex_char h \<and> is_hex_char l
             then (hex_digit_value h * 16 + hex_digit_value l) # unquote_bytes rest'
             else ord c # unquote_bytes rest
         | _ \<Rightarrow> ord c # unquote_bytes rest)
      else ord c # unquote_bytes rest)"

definition unquote_strict :: "string \<Rightarrow> nat list option" where
  "unquote_strict segment = utf8_decode (unquote_bytes segment)"

definition check_path_segment :: "string \<Rightarrow> unit result" where
  "check_path_segment segment =
     (case unquote_strict segment of
        None \<Rightarrow> Inl (ProxyConfigurationError ''request path contains invalid percent-encoded UTF-8'')
      | Some decoded \<Rightarrow>
          (let routing_segment = takeWhile (\<lambda>p. p \<noteq> 59) decoded in
           if routing_segment \<in> {[46], [46, 46]}
           then Inl (ProxyConfigurationError ''request path contains a dot segment'')
           else if 47 \<in> set decoded \<or> 92 \<in> set decoded \<or> 37 \<in> set decoded
           then Inl (ProxyConfigurationError ''request path contains an encoded separator or nested escape'')
           else if list_ex (\<lambda>p. p < 32 \<or> p = 127) decoded
           then Inl (ProxyConfigurationError ''request path contains an encoded control'')
           else Inr ()))"

definition path_component :: "string \<Rightarrow> string" where
  "path_component path = fst (partition_char (CHR ''?'') path)"

definition validate_path :: "string \<Rightarrow> string result" where
  "validate_path path =
     bindR (requireR (length path \<le> MAX_PATH_CHARACTERS \<and> is_api_path path)
       (ProxyConfigurationError ''request path is outside the NVIDIA NIM v1 API'')) (\<lambda>_.
     bindR (requireR (\<not> has_bad_escape path)
       (ProxyConfigurationError ''request path contains malformed percent encoding'')) (\<lambda>_.
     bindR (forR (split_char (CHR ''/'') (path_component path)) check_path_segment) (\<lambda>_. Inr path)))"

section \<open>The upstream client\<close>

record upstream_result =
  ur_status :: int
  ur_reason :: string
  ur_content_type :: string
  ur_cache_control :: "string option"
  ur_body :: "nat list"

record upstream_request =
  uq_host :: string
  uq_port :: int
  uq_method :: string
  uq_path :: string
  uq_body :: "nat list option"
  uq_headers :: "(string \<times> string) list"

record upstream_response =
  us_status :: int
  us_reason :: "string option"
  us_headers :: "string \<Rightarrow> string option"
  us_body :: "nat list"

text \<open>What a call over the connection ends in: a response, a network or protocol error, or another exception.\<close>

datatype upstream_reply = Replied upstream_response | Network_Failed | Call_Raised exn

definition check_api_key :: "string \<Rightarrow> string result" where
  "check_api_key api_key =
     bindR (requireR (api_key \<noteq> [] \<and> \<not> list_ex (\<lambda>c. ord c < 33 \<or> ord c = 127) api_key)
       (ProxyConfigurationError ''NIM API key is missing or contains unsafe characters'')) (\<lambda>_. Inr api_key)"

definition outgoing :: "string \<Rightarrow> string \<Rightarrow> string \<Rightarrow> nat list \<Rightarrow> (string \<times> string) list \<Rightarrow> upstream_request" where
  "outgoing api_key http_method path body request_headers =
     \<lparr>uq_host = UPSTREAM_HOST, uq_port = 443, uq_method = http_method, uq_path = path,
      uq_body = (if http_method = ''POST'' then Some body else None),
      uq_headers = [(''Accept'', safe_header (map_of request_headers ''Accept'') ''application/json''),
        (''Authorization'', ''Bearer '' @ api_key),
        (''Content-Type'', safe_header (map_of request_headers ''Content-Type'') ''application/json''),
        (''User-Agent'', ''Keyverse-NIM-Broker/1'')]\<rparr>"

definition bounded_result :: "upstream_response \<Rightarrow> upstream_result result" where
  "bounded_result response =
     (let response_body = take (MAX_RESPONSE_BYTES + 1) (us_body response) in
      if length response_body > MAX_RESPONSE_BYTES
      then Inl (UpstreamProxyError ''NIM response exceeded the proxy byte limit'')
      else Inr \<lparr>ur_status = us_status response, ur_reason = safe_header (us_reason response) ''NIM response'',
        ur_content_type = safe_header (us_headers response ''Content-Type'') ''application/json'',
        ur_cache_control =
          (case us_headers response ''Cache-Control'' of None \<Rightarrow> None | Some v \<Rightarrow> Some (safe_header (Some v) ''no-store'')),
        ur_body = response_body\<rparr>)"

definition upstream_call ::
  "(upstream_request \<Rightarrow> 'w \<Rightarrow> upstream_reply \<times> 'w) \<Rightarrow> string \<Rightarrow> string \<Rightarrow> string \<Rightarrow> nat list \<Rightarrow> (string \<times> string) list
     \<Rightarrow> ('w, upstream_result) action" where
  "upstream_call connect api_key http_method path body request_headers =
     bindA (liftA (requireR (http_method \<in> {''GET'', ''POST''})
       (ProxyConfigurationError ''only GET and POST requests are supported''))) (\<lambda>_.
     bindA (liftA (validate_path path)) (\<lambda>safe_path.
     bindA (liftA (requireR (length body \<le> MAX_REQUEST_BYTES)
       (ProxyConfigurationError ''request body exceeded the proxy byte limit''))) (\<lambda>_.
     (\<lambda>w. case connect (outgoing api_key http_method safe_path body request_headers) w of (reply, w') \<Rightarrow>
        ((case reply of
            Network_Failed \<Rightarrow> Inl (UpstreamProxyError ''NVIDIA NIM upstream request failed'')
          | Call_Raised e \<Rightarrow> Inl e
          | Replied response \<Rightarrow> bounded_result response), w')))))"

section \<open>The request handler\<close>

record incoming =
  in_command :: string
  in_path :: string
  in_headers :: "(string \<times> string) list"
  in_stream :: "nat list"

record proxy_response =
  pr_status :: int
  pr_reason :: "string option"
  pr_content_type :: string
  pr_content_length :: nat
  pr_cache_control :: string
  pr_body :: "nat list"

text \<open>The server: its credential, the free slots of its semaphore and what lies beyond the connection.\<close>

record 'w proxy_state =
  px_slots :: nat
  px_world :: 'w

text \<open>A command the handler has no method for is answered by the library.\<close>

text \<open>\<open>headers.get\<close> ignores case and takes the first; the dict of all headers does neither.\<close>

definition message_get :: "(string \<times> string) list \<Rightarrow> string \<Rightarrow> string option" where
  "message_get headers name = map_option snd (find (\<lambda>p. lower (fst p) = lower name) headers)"

definition header_dict :: "(string \<times> string) list \<Rightarrow> (string \<times> string) list" where
  "header_dict headers = rev headers"

definition send_local :: "incoming \<Rightarrow> int \<Rightarrow> nat list \<Rightarrow> string \<Rightarrow> proxy_response" where
  "send_local req status body content_type =
     \<lparr>pr_status = status, pr_reason = None, pr_content_type = content_type, pr_content_length = length body,
      pr_cache_control = ''no-store'', pr_body = (if in_command req \<noteq> ''HEAD'' then body else [])\<rparr>"

definition send_error_json :: "incoming \<Rightarrow> int \<Rightarrow> string \<Rightarrow> proxy_response" where
  "send_error_json req status message =
     send_local req status
       (utf8_encode (json_dumps \<lparr>ensure_ascii = True, item_separator = '','', key_separator = '':'', sort_keys = False\<rparr>
          (JObj [(''error'', JStr message)]))) ''application/json''"

definition read_body :: "incoming \<Rightarrow> nat list result" where
  "read_body req =
     (if message_get (in_headers req) ''Transfer-Encoding'' \<noteq> None
      then Inl (ProxyConfigurationError ''chunked request bodies are not accepted'')
      else case message_get (in_headers req) ''Content-Length'' of
        None \<Rightarrow>
          if in_command req = ''GET'' then Inr [] else Inl (ProxyConfigurationError ''Content-Length is required'')
      | Some raw_length \<Rightarrow>
          (case int_of_text raw_length of
             None \<Rightarrow> Inl (ProxyConfigurationError ''Content-Length is invalid'')
           | Some len \<Rightarrow>
               if len < 0 \<or> len > int MAX_REQUEST_BYTES
               then Inl (ProxyConfigurationError ''request body exceeded the proxy byte limit'')
               else let body = take (nat len) (in_stream req) in
                 if length body \<noteq> nat len
                 then Inl (ProxyConfigurationError ''request body ended before Content-Length'')
                 else Inr body))"

definition relay :: "upstream_result \<Rightarrow> proxy_response" where
  "relay result =
     \<lparr>pr_status = ur_status result, pr_reason = Some (ur_reason result), pr_content_type = ur_content_type result,
      pr_content_length = length (ur_body result), pr_cache_control = text_or (ur_cache_control result) ''no-store'',
      pr_body = ur_body result\<rparr>"

definition acquire_slot :: "'w proxy_state \<Rightarrow> 'w proxy_state option" where
  "acquire_slot s = (if px_slots s = 0 then None else Some (s\<lparr>px_slots := px_slots s - 1\<rparr>))"

definition release_slot :: "'w proxy_state \<Rightarrow> 'w proxy_state" where
  "release_slot s = s\<lparr>px_slots := Suc (px_slots s)\<rparr>"

definition forward_request ::
  "(upstream_request \<Rightarrow> 'w \<Rightarrow> upstream_reply \<times> 'w) \<Rightarrow> string \<Rightarrow> incoming \<Rightarrow> ('w proxy_state, proxy_response) action" where
  "forward_request connect api_key req s =
     (case bindR (validate_path (in_path req)) (\<lambda>path. bindR (read_body req) (\<lambda>body. Inr (path, body))) of
        Inl (ProxyConfigurationError message) \<Rightarrow> (Inr (send_error_json req 400 message), s)
      | Inl e \<Rightarrow> (Inl e, s)
      | Inr (path, body) \<Rightarrow>
          (case acquire_slot s of
             None \<Rightarrow> (Inr (send_error_json req 429 ''NIM broker concurrency limit reached''), s)
           | Some s1 \<Rightarrow>
            finallyA
              (catchA
                (bindA (zoomA px_world px_world_update
                    (upstream_call connect api_key (in_command req) path body (header_dict (in_headers req)))) (\<lambda>result.
                 returnA (relay result)))
                (\<lambda>e. case e of
                   ProxyConfigurationError _ \<Rightarrow> returnA (send_error_json req 502 ''NVIDIA NIM upstream request failed'')
                 | UpstreamProxyError _ \<Rightarrow> returnA (send_error_json req 502 ''NVIDIA NIM upstream request failed'')
                 | _ \<Rightarrow> raiseA e))
              release_slot s1))"

definition health_body :: "nat list" where "health_body = utf8_encode (''ok'' @ [char_of (10 :: nat)])"

definition handle ::
  "(upstream_request \<Rightarrow> 'w \<Rightarrow> upstream_reply \<times> 'w) \<Rightarrow> string \<Rightarrow> incoming \<Rightarrow> ('w proxy_state, proxy_response) action" where
  "handle connect api_key req =
     (if in_command req = ''GET'' then
        (if in_path req = ''/healthz'' then returnA (send_local req 200 health_body ''text/plain; charset=utf-8'')
         else forward_request connect api_key req)
      else if in_command req = ''POST'' then forward_request connect api_key req
      else if in_command req = ''HEAD'' then
        (if in_path req = ''/healthz'' then returnA (send_local req 200 health_body ''text/plain; charset=utf-8'')
         else returnA (send_error_json req 405 ''method not allowed''))
      else if in_command req \<in> {''PUT'', ''PATCH'', ''DELETE'', ''OPTIONS''}
      then returnA (send_error_json req 405 ''method not allowed'')
      else raiseA (OtherError ''unsupported method''))"

section \<open>The server\<close>

definition new_server :: "string \<Rightarrow> int \<Rightarrow> 'w \<Rightarrow> 'w proxy_state result" where
  "new_server host max_concurrency w =
     bindR (requireR (host = DEFAULT_HOST) (ProxyConfigurationError ''NIM broker must bind to IPv4 loopback'')) (\<lambda>_.
     bindR (requireR (0 < max_concurrency) (ProxyConfigurationError ''max_concurrency must be a positive integer'')) (\<lambda>_.
     Inr \<lparr>px_slots = nat max_concurrency, px_world = w\<rparr>))"

definition create_server :: "string \<Rightarrow> string \<Rightarrow> int \<Rightarrow> int \<Rightarrow> 'w \<Rightarrow> (string \<times> 'w proxy_state) result" where
  "create_server api_key host port max_concurrency w =
     bindR (requireR (0 \<le> port \<and> port \<le> 65535) (ProxyConfigurationError ''port must be an integer from 0 through 65535'')) (\<lambda>_.
     bindR (check_api_key api_key) (\<lambda>key.
     bindR (new_server host max_concurrency w) (\<lambda>server. Inr (key, server))))"

section \<open>The command\<close>

text \<open>
  The parsed arguments, and what happens to the listening socket. Binding it and serving on it are
  library code and parameters: each returns or raises.
\<close>

record nim_args =
  na_host :: string
  na_port :: int
  na_api_key_env :: string
  na_check :: bool

datatype nim_event = Bound | Served | Closed

definition nim_main ::
  "(string \<Rightarrow> int \<Rightarrow> unit result) \<Rightarrow> (string \<times> 'w proxy_state \<Rightarrow> unit result) \<Rightarrow> (string \<Rightarrow> string option) \<Rightarrow> nim_args \<Rightarrow> 'w
     \<Rightarrow> int result \<times> nim_event list" where
  "nim_main bind_socket serve_forever environ args w =
     (let api_key = (case environ (na_api_key_env args) of None \<Rightarrow> [] | Some key \<Rightarrow> key) in
      case bindR (create_server api_key (na_host args) (na_port args) 4 w) (\<lambda>server.
             bindR (bind_socket (na_host args) (na_port args)) (\<lambda>_. Inr server)) of
        Inl (ProxyConfigurationError _) \<Rightarrow> (Inr 2, [])
      | Inl e \<Rightarrow> if e = OtherError ''OSError'' then (Inr 2, []) else (Inl e, [])
      | Inr server \<Rightarrow>
          if na_check args then (Inr 0, [Bound, Closed])
          else (case serve_forever server of
                  Inl e \<Rightarrow> (if e = OtherError ''KeyboardInterrupt'' then Inr 0 else Inl e, [Bound, Served, Closed])
                | Inr _ \<Rightarrow> (Inr 0, [Bound, Served, Closed])))"

end
