(* ===== verification/NimProxy_Theorems.thy ===== *)
theory NimProxy_Theorems
  imports NimProxy
begin

text \<open>
  The broker's boundary: an accepted request target means the same to every decoder, the credential
  goes to one host only, and the number of concurrent upstream calls never exceeds the configured one.
\<close>

section \<open>Decoding\<close>

lemma hex_not_slash: "\<not> is_hex_char (CHR ''/'')" "\<not> is_hex_char (CHR ''?'')"
  by (simp_all add: is_hex_char_def isdecimal_char_def ord_def)

text \<open>Without broken escapes, a separator is never part of an escape.\<close>

lemma unquote_bytes_split:
  "\<not> has_bad_escape (s @ CHR ''/'' # t) \<Longrightarrow> unquote_bytes (s @ CHR ''/'' # t) = unquote_bytes s @ 47 # unquote_bytes t"
proof (induction "length s" arbitrary: s rule: less_induct)
  case less
  show ?case
  proof (cases s)
    case Nil
    then show ?thesis by (simp add: ord_def)
  next
    case s: (Cons c rest)
    show ?thesis
    proof (cases "c = CHR ''%''")
      case True
      with less.prems s have hex: "is_hex_char ((rest @ CHR ''/'' # t) ! 0)" "is_hex_char ((rest @ CHR ''/'' # t) ! 1)"
        "2 \<le> length (rest @ CHR ''/'' # t)" and ok: "\<not> has_bad_escape (rest @ CHR ''/'' # t)" by auto
      from hex obtain h rest1 where "rest = h # rest1" using hex_not_slash by (cases rest) auto
      with hex obtain l rest2 where rest: "rest = h # l # rest2" using hex_not_slash by (cases rest1) auto
      with ok have "\<not> has_bad_escape (rest2 @ CHR ''/'' # t)" by simp
      with less.hyps [of rest2] hex rest True s show ?thesis by simp
    next
      case False
      with less.hyps [of rest] less.prems s show ?thesis by simp
    qed
  qed
qed

lemma no_bad_escape_prefix:
  "\<not> has_bad_escape (s @ t) \<Longrightarrow> t = [] \<or> \<not> is_hex_char (hd t) \<Longrightarrow> \<not> has_bad_escape s"
proof (induction s)
  case (Cons c s)
  then have "\<not> has_bad_escape s" by simp
  moreover have "2 \<le> length s \<and> is_hex_char (s ! 0) \<and> is_hex_char (s ! 1)" if "c = CHR ''%''"
  proof -
    from that Cons.prems(1) have hex: "2 \<le> length (s @ t)" "is_hex_char ((s @ t) ! 0)" "is_hex_char ((s @ t) ! 1)" by auto
    show ?thesis
    proof (cases s)
      case Nil
      with hex Cons.prems(2) show ?thesis by (cases t) auto
    next
      case (Cons d s')
      with hex \<open>t = [] \<or> _\<close> show ?thesis by (cases s'; cases t) auto
    qed
  qed
  ultimately show ?case by auto
qed simp

lemma no_bad_escape_suffix: "\<not> has_bad_escape (s @ t) \<Longrightarrow> \<not> has_bad_escape t"
  by (induction s) auto

section \<open>Accepted targets\<close>

text \<open>Splitting a list at a separator.\<close>

fun split_points :: "nat \<Rightarrow> nat list \<Rightarrow> nat list list" where
  "split_points d [] = [[]]"
| "split_points d (p # ps) =
     (if p = d then [] # split_points d ps else (p # hd (split_points d ps)) # tl (split_points d ps))"

lemma split_points_append: "d \<notin> set xs \<Longrightarrow> split_points d (xs @ d # ys) = xs # split_points d ys"
  by (induction xs) auto

lemma split_points_none: "d \<notin> set xs \<Longrightarrow> split_points d xs = [xs]"
  by (induction xs) auto

definition plain_segment :: "string \<Rightarrow> bool" where
  "plain_segment s \<longleftrightarrow>
     (\<exists>d. unquote_strict s = Some d \<and> takeWhile (\<lambda>p. p \<noteq> 59) d \<notin> {[46], [46, 46]} \<and>
        set d \<inter> {37, 47, 92} = {} \<and> list_all (\<lambda>p. 32 \<le> p \<and> p \<noteq> 127) d)"

lemma visible_points: "list_all (\<lambda>p. 32 \<le> p \<and> p \<noteq> 127) d \<longleftrightarrow> \<not> list_ex (\<lambda>p. p < 32 \<or> p = (127 :: nat)) d"
  by (induction d) auto

lemma check_path_segment_ok: "okR (check_path_segment s) \<longleftrightarrow> plain_segment s"
  by (auto simp: check_path_segment_def plain_segment_def Let_def visible_points split: option.splits)

lemma segments_decode:
  "segs \<noteq> [] \<Longrightarrow> list_all plain_segment segs \<Longrightarrow> \<not> has_bad_escape (join_char (CHR ''/'') segs) \<Longrightarrow>
     \<exists>whole. unquote_strict (join_char (CHR ''/'') segs) = Some whole \<and>
       split_points 47 whole = map (\<lambda>s. the (unquote_strict s)) segs \<and> set whole \<inter> {37, 92} = {} \<and>
       list_all (\<lambda>p. 32 \<le> p \<and> p \<noteq> 127) whole"
proof (induction "CHR ''/''" segs rule: join_char.induct)
  case (2 s)
  then obtain d where "unquote_strict s = Some d" "set d \<inter> {37, 47, 92} = {}" "list_all (\<lambda>p. 32 \<le> p \<and> p \<noteq> 127) d"
    by (auto simp: plain_segment_def)
  moreover from this(2) have "split_points 47 d = [d]" by (intro split_points_none) auto
  ultimately show ?case by auto
next
  case (3 s s' segs)
  let ?rest = "join_char (CHR ''/'') (s' # segs)"
  from "3.prems"(3) have ok: "\<not> has_bad_escape (s @ CHR ''/'' # ?rest)" by simp
  then have "\<not> has_bad_escape ?rest" using no_bad_escape_suffix [of s "CHR ''/'' # ?rest"] by simp
  with "3.prems"(2) "3.hyps" obtain whole where whole: "unquote_strict ?rest = Some whole"
      "split_points 47 whole = map (\<lambda>s. the (unquote_strict s)) (s' # segs)" "set whole \<inter> {37, 92} = {}"
      "list_all (\<lambda>p. 32 \<le> p \<and> p \<noteq> 127) whole"
    by auto
  from "3.prems"(2) obtain d where d: "unquote_strict s = Some d" "set d \<inter> {37, 47, 92} = {}" "list_all (\<lambda>p. 32 \<le> p \<and> p \<noteq> 127) d"
    by (auto simp: plain_segment_def)
  have "unquote_strict (s @ CHR ''/'' # ?rest) = Some (d @ 47 # whole)"
    using d(1) whole(1) unfolding unquote_strict_def unquote_bytes_split [OF ok]
    by (simp add: utf8_decode_append)
  moreover have "split_points 47 (d @ 47 # whole) = map (\<lambda>s. the (unquote_strict s)) (s # s' # segs)"
    using d whole(2) by (subst split_points_append) auto
  ultimately show ?case using d whole by auto
qed simp

text \<open>
  C32. An accepted request target is unambiguous. It lies under the API root; decoding its path as a
  whole and splitting it gives the same segments as splitting it and decoding each, so no hidden
  separator changes its structure; no segment is a dot segment, with or without parameters; and what
  is decoded holds no further escape, backslash or control character, so decoding again changes
  nothing.
\<close>

theorem nim_path_unambiguous:
  assumes "validate_path path = Inr accepted"
  shows "accepted = path \<and> length path \<le> 4096 \<and> (path = ''/v1'' \<or> startswith path ''/v1/'') \<and>
    (\<exists>whole. unquote_strict (path_component path) = Some whole \<and>
       split_points 47 whole = map (\<lambda>s. the (unquote_strict s)) (split_char (CHR ''/'') (path_component path)) \<and>
       list_all (\<lambda>segment. takeWhile (\<lambda>p. p \<noteq> 59) segment \<notin> {[46], [46, 46]}) (split_points 47 whole) \<and>
       set whole \<inter> {37, 92} = {} \<and> list_all (\<lambda>p. 32 \<le> p \<and> p \<noteq> 127) whole)"
proof -
  let ?component = "path_component path" and ?segs = "split_char (CHR ''/'') (path_component path)"
  from assms have path: "accepted = path" "length path \<le> 4096" "path = ''/v1'' \<or> startswith path ''/v1/''"
      "\<not> has_bad_escape path" "okR (forR ?segs check_path_segment)"
    by (auto simp: validate_path_def bindR_eq_Inr is_api_path_def MAX_PATH_CHARACTERS_def okR_iff)
  have plain: "list_all plain_segment ?segs"
    using path(5) by (simp add: okR_forR check_path_segment_ok list_all_iff)
  let ?query = "dropWhile (\<lambda>c. c \<noteq> CHR ''?'') path"
  have "path = ?component @ ?query" by (simp add: path_component_def partition_char_def)
  moreover have "?query = [] \<or> \<not> is_hex_char (hd ?query)"
    using hd_dropWhile [of "\<lambda>c. c \<noteq> CHR ''?''" path] hex_not_slash(2) by auto
  ultimately have "\<not> has_bad_escape ?component"
    using path(4) no_bad_escape_prefix [of ?component ?query] by simp
  moreover have "join_char (CHR ''/'') ?segs = ?component" by simp
  moreover have "?segs \<noteq> []" by (cases ?component) auto
  ultimately obtain whole where whole: "unquote_strict ?component = Some whole"
      "split_points 47 whole = map (\<lambda>s. the (unquote_strict s)) ?segs" "set whole \<inter> {37, 92} = {}"
      "list_all (\<lambda>p. 32 \<le> p \<and> p \<noteq> 127) whole"
    using segments_decode [OF _ plain] by auto
  moreover have "list_all (\<lambda>segment. takeWhile (\<lambda>p. p \<noteq> 59) segment \<notin> {[46], [46, 46]}) (split_points 47 whole)"
    unfolding whole(2) using plain by (auto simp: list_all_iff plain_segment_def)
  ultimately show ?thesis using path(1-3) by blast
qed

section \<open>The fixed upstream\<close>

definition brokered :: "string \<Rightarrow> upstream_request \<Rightarrow> bool" where
  "brokered api_key q \<longleftrightarrow>
     uq_host q = ''integrate.api.nvidia.com'' \<and> uq_port q = 443 \<and> uq_method q \<in> {''GET'', ''POST''} \<and>
     validate_path (uq_path q) = Inr (uq_path q) \<and>
     (case uq_body q of None \<Rightarrow> True | Some body \<Rightarrow> length body \<le> MAX_REQUEST_BYTES) \<and>
     filter (\<lambda>h. fst h = ''Authorization'') (uq_headers q) = [(''Authorization'', ''Bearer '' @ api_key)] \<and>
     list_all (\<lambda>h. fst h = ''Authorization'' \<or> is_safe_header (snd h)) (uq_headers q)"

lemma safe_header_safe: "is_safe_header d \<Longrightarrow> is_safe_header (safe_header v d)"
  by (simp add: safe_header_def split: option.split)

lemma validate_path_same: "validate_path path = Inr p \<Longrightarrow> p = path"
  by (auto simp: validate_path_def bindR_eq_Inr)

lemma outgoing_brokered:
  assumes "http_method \<in> {''GET'', ''POST''}" "validate_path path = Inr path" "length body \<le> MAX_REQUEST_BYTES"
  shows "brokered api_key (outgoing api_key http_method path body headers)"
proof -
  have "is_safe_header ''application/json''" "is_safe_header ''Keyverse-NIM-Broker/1''"
    by (simp_all add: is_safe_header_def ord_def)
  with assms show ?thesis
    by (simp add: brokered_def outgoing_def UPSTREAM_HOST_def safe_header_safe)
qed

lemma upstream_call_world:
  "snd (upstream_call connect key m path body headers w) = w \<or>
     (\<exists>q. brokered key q \<and> snd (upstream_call connect key m path body headers w) = snd (connect q w))"
proof (cases "m \<in> {''GET'', ''POST''} \<and> okR (validate_path path) \<and> length body \<le> MAX_REQUEST_BYTES")
  case True
  then have path: "validate_path path = Inr path" using validate_path_same by (auto simp: okR_iff)
  with True have "snd (upstream_call connect key m path body headers w) = snd (connect (outgoing key m path body headers) w)"
    by (simp add: upstream_call_def split: prod.split)
  with outgoing_brokered [of m path body key headers] True path show ?thesis by blast
next
  case False
  then have "snd (upstream_call connect key m path body headers w) = w"
    by (cases "validate_path path") (auto simp: upstream_call_def requireR_def)
  then show ?thesis by blast
qed

lemma forward_world:
  "px_slots (snd (forward_request connect key req s)) = px_slots s \<and>
     (px_world (snd (forward_request connect key req s)) = px_world s \<or>
      (\<exists>q. brokered key q \<and> px_world (snd (forward_request connect key req s)) = snd (connect q (px_world s))))"
proof (cases "bindR (validate_path (in_path req)) (\<lambda>path. bindR (read_body req) (\<lambda>body. Inr (path, body)))")
  case (Inl e)
  then show ?thesis by (cases e) (simp_all add: forward_request_def)
next
  case (Inr p)
  obtain path body where p: "p = (path, body)" by (cases p)
  show ?thesis
  proof (cases "px_slots s = 0")
    case True
    with Inr p show ?thesis by (simp add: forward_request_def acquire_slot_def)
  next
    case False
    obtain r w where call: "upstream_call connect key (in_command req) path body (header_dict (in_headers req)) (px_world s) = (r, w)"
      by (cases "upstream_call connect key (in_command req) path body (header_dict (in_headers req)) (px_world s)")
    have "snd (forward_request connect key req s) = s\<lparr>px_world := w\<rparr>"
      using Inr p False call
      by (cases r) (auto simp: forward_request_def acquire_slot_def release_slot_def finallyA_def catchA_def bindA_def zoomA_def
          returnA_def raiseA_def split: exn.splits)
    with upstream_call_world [of connect key "in_command req" path body "header_dict (in_headers req)" "px_world s"] call
    show ?thesis by simp
  qed
qed

text \<open>
  C33. Whatever the local caller sends, the handler makes at most one upstream call, and that call goes
  to the one fixed host over port 443 with an accepted target, a bounded body, visible header values
  and exactly one authorization header, the broker's own: authorization the caller supplies is never
  forwarded.
\<close>

theorem nim_fixed_upstream:
  "px_world (snd (handle connect api_key req s)) = px_world s \<or>
     (\<exists>q. brokered api_key q \<and> px_world (snd (handle connect api_key req s)) = snd (connect q (px_world s)))"
  using forward_world [of connect api_key req s] unfolding handle_def by simp

lemma handler_returns_slot: "px_slots (snd (handle connect api_key req s)) = px_slots s"
  using forward_world [of connect api_key req s] unfolding handle_def by simp

text \<open>
  Header names of the caller are looked up in a dict of the raw names: a lower-case \<open>accept\<close> is ignored
  and the upstream is asked for JSON instead.
\<close>

lemma lower_case_accept_ignored:
  "map_of (uq_headers (outgoing key m path body (header_dict [(''accept'', ''text/event-stream'')]))) ''Accept'' =
     Some ''application/json''"
  by (simp add: outgoing_def header_dict_def safe_header_def)

section \<open>Bounded concurrency\<close>

text \<open>
  Handler threads on one server: a thread takes a slot, talks to the upstream, and gives the slot back
  on every exit; a thread that finds no slot is refused.
\<close>

inductive nim_step :: "'w proxy_state \<times> nat set \<Rightarrow> 'w proxy_state \<times> nat set \<Rightarrow> bool" where
  acquire: "acquire_slot s = Some s' \<Longrightarrow> t \<notin> calling \<Longrightarrow> nim_step (s, calling) (s', insert t calling)"
| refuse: "acquire_slot s = None \<Longrightarrow> nim_step (s, calling) (s, calling)"
| upstream: "t \<in> calling \<Longrightarrow> nim_step (s, calling) (s\<lparr>px_world := w\<rparr>, calling)"
| finish: "t \<in> calling \<Longrightarrow> nim_step (s, calling) (release_slot s, calling - {t})"

lemma nim_step_conserves:
  "nim_step x y \<Longrightarrow> finite (snd x) \<and> card (snd x) + px_slots (fst x) = n \<Longrightarrow> finite (snd y) \<and> card (snd y) + px_slots (fst y) = n"
proof (induction rule: nim_step.induct)
  case (finish t calling s)
  then have "card calling > 0" by (auto simp: card_gt_0_iff)
  with finish show ?case by (simp add: release_slot_def card_Diff_singleton)
qed (auto simp: acquire_slot_def split: if_splits)


text \<open>
  The command serves on loopback with a usable key only, and whatever ends the serving, the socket it
  bound is closed last.
\<close>

lemma nim_main_closes:
  assumes "nim_main bind_socket serve_forever environ args w = (status, events)" and "events \<noteq> []"
  shows "hd events = Bound \<and> last events = Closed \<and> na_host args = DEFAULT_HOST \<and>
    (\<exists>key. environ (na_api_key_env args) = Some key \<and> key \<noteq> [] \<and> check_api_key key = Inr key)"
proof -
  let ?key = "case environ (na_api_key_env args) of None \<Rightarrow> [] | Some key \<Rightarrow> key"
  have "okR (create_server ?key (na_host args) (na_port args) 4 w)"
    using assms by (auto simp: nim_main_def Let_def okR_iff bindR_eq_Inr split: sum.splits exn.splits if_splits)
  then have "na_host args = DEFAULT_HOST" "check_api_key ?key = Inr ?key" "?key \<noteq> []"
    by (auto simp: okR_iff create_server_def new_server_def check_api_key_def bindR_eq_Inr)
  moreover have "hd events = Bound \<and> last events = Closed"
    using assms by (auto simp: nim_main_def Let_def split: sum.splits exn.splits if_splits)
  ultimately show ?thesis by (auto split: option.splits)
qed

section \<open>Witnesses\<close>

theorem nim_path_unambiguous_witness:
  "\<exists>whole. unquote_strict (path_component ''/v1/chat%20x?q=1'') = Some whole \<and> 37 \<notin> set whole"
proof -
  have "validate_path ''/v1/chat%20x?q=1'' = Inr ''/v1/chat%20x?q=1''" by code_simp
  from nim_path_unambiguous [OF this] show ?thesis by auto
qed


end
