(* ===== verification/PatchGuard.thy ===== *)
theory PatchGuard
  imports Python_Builtins Sha256 Base64 Utf8
begin

text \<open>
  The patch boundary of \<open>scripts/ci/hourly_product_guard.py\<close>: the path policy, the scan for protected
  credentials, the proposal, the checks of a patch text and of the sealed envelope. The commands
  themselves, with what they run and write, are in \<open>PatchGuard_Commands\<close>. Text that is read
  from files is a list of code points, data a list of bytes.
\<close>

type_synonym points = "nat list"
type_synonym bytes = "nat list"

definition points :: "string \<Rightarrow> points" where "points s = map ord s"

definition ALLOWED_ROOTS :: "string list" where
  "ALLOWED_ROOTS =
     [''services/account_unification/app/'', ''services/account_unification/tests/'', ''services/account_unification/tools/'',
      ''deploy/templates/'', ''docs/'']"

definition ALLOWED_FILES :: "string list" where "ALLOWED_FILES = [''README.md'', ''CHANGELOG.md'']"

definition PRODUCTION_ROOTS :: "string list" where
  "PRODUCTION_ROOTS =
     [''services/account_unification/app/'', ''services/account_unification/tools/'', ''deploy/templates/'']"

definition TEST_ROOT :: string where "TEST_ROOT = ''services/account_unification/tests/''"
definition PROPOSAL_FILENAME :: string where "PROPOSAL_FILENAME = ''PR_MESSAGE.md''"
definition MAX_FILES :: nat where "MAX_FILES = 12"
definition MAX_FILE_BYTES :: nat where "MAX_FILE_BYTES = 524288"
definition MAX_TOTAL_BYTES :: nat where "MAX_TOTAL_BYTES = 2000000"
definition MAX_PATCH_BYTES :: nat where "MAX_PATCH_BYTES = 2000000"
definition MAX_CHANGED_LINES :: int where "MAX_CHANGED_LINES = 1500"
definition MAX_TITLE_CHARACTERS :: nat where "MAX_TITLE_CHARACTERS = 120"
definition MAX_BODY_BYTES :: nat where "MAX_BODY_BYTES = 65536"

section \<open>Text\<close>

text \<open>\<open>str.split\<close> and \<open>str.join\<close> with a separator of one code point, and \<open>sub in text\<close>.\<close>

primrec split_at :: "nat \<Rightarrow> points \<Rightarrow> points list" where
  "split_at d [] = [[]]"
| "split_at d (p # ps) =
     (case split_at d ps of
        [] \<Rightarrow> [[]]
      | segment # rest \<Rightarrow> if p = d then [] # segment # rest else (p # segment) # rest)"

fun join_with :: "nat \<Rightarrow> points list \<Rightarrow> points" where
  "join_with d [] = []"
| "join_with d [p] = p"
| "join_with d (p # q # ps) = p @ d # join_with d (q # ps)"

primrec occurs_in :: "points \<Rightarrow> points \<Rightarrow> bool" where
  "occurs_in sub [] = (sub = [])"
| "occurs_in sub (p # ps) = (prefix sub (p # ps) \<or> occurs_in sub ps)"

text \<open>The code points of \<open>str.isspace\<close>.\<close>

definition is_space_point :: "nat \<Rightarrow> bool" where
  "is_space_point p \<longleftrightarrow>
     9 \<le> p \<and> p \<le> 13 \<or> 28 \<le> p \<and> p \<le> 32 \<or> p \<in> {133, 160, 5760, 8232, 8233, 8239, 8287, 12288} \<or> 8192 \<le> p \<and> p \<le> 8202"

definition strip_points :: "points \<Rightarrow> points" where
  "strip_points ps = rev (dropWhile is_space_point (rev (dropWhile is_space_point ps)))"

definition is_safe_point :: "nat \<Rightarrow> bool" where
  "is_safe_point p \<longleftrightarrow>
     65 \<le> p \<and> p \<le> 90 \<or> 97 \<le> p \<and> p \<le> 122 \<or> 48 \<le> p \<and> p \<le> 57 \<or> p \<in> {46, 95, 45}"

section \<open>The path policy\<close>

text \<open>\<open>SAFE_PATH.fullmatch\<close>: non-empty segments of safe characters.\<close>

definition safe_path :: "points \<Rightarrow> bool" where
  "safe_path path = list_all (\<lambda>segment. segment \<noteq> [] \<and> list_all is_safe_point segment) (split_at 47 path)"

text \<open>\<open>PurePosixPath(path).parts\<close> of a relative path: empty segments and single dots disappear.\<close>

definition pure_parts :: "points \<Rightarrow> points list" where
  "pure_parts path = filter (\<lambda>part. part \<noteq> [] \<and> part \<noteq> [46]) (split_at 47 path)"

definition starts_with_any :: "points \<Rightarrow> string list \<Rightarrow> bool" where
  "starts_with_any path roots = list_ex (\<lambda>root. prefix (points root) path) roots"

definition path_allowed :: "points \<Rightarrow> bool" where
  "path_allowed path \<longleftrightarrow>
     safe_path path \<and> \<not> prefix [47] path \<and> list_all (\<lambda>part. part \<notin> {[], [46], [46, 46]}) (pure_parts path) \<and>
     (path \<in> set (map points ALLOWED_FILES) \<or> starts_with_any path ALLOWED_ROOTS)"

definition require_product_vertical :: "points list \<Rightarrow> unit result" where
  "require_product_vertical paths =
     bindR (requireR (list_ex (\<lambda>path. starts_with_any path PRODUCTION_ROOTS) paths)
       (BoundaryError ''Autonomous proposal contained no production code'')) (\<lambda>_.
     bindR (requireR (list_ex (\<lambda>path. prefix (points TEST_ROOT) path) paths)
       (BoundaryError ''Autonomous proposal contained no changed tests'')) (\<lambda>_.
     requireR (points ''CHANGELOG.md'' \<in> set paths) (BoundaryError ''Autonomous proposal did not update CHANGELOG.md'')))"

section \<open>Protected credentials\<close>

text \<open>The environment variables: the two the scan reads, and the file for the outputs of the job.\<close>

record guard_env =
  ge_secret :: bytes
  ge_fingerprints :: string
  ge_output :: string

definition std_char :: "nat \<Rightarrow> char" where
  "std_char n = (if n = 62 then CHR ''+'' else if n = 63 then CHR ''/'' else url_char n)"

definition padding :: "bytes \<Rightarrow> bytes" where
  "padding raw = replicate ((3 - length raw mod 3) mod 3) 61"

definition b64encode :: "bytes \<Rightarrow> bytes" where
  "b64encode raw = map (\<lambda>n. ord (std_char n)) (byte_sextets raw) @ padding raw"

definition urlsafe_b64encode :: "bytes \<Rightarrow> bytes" where
  "urlsafe_b64encode raw = map (\<lambda>n. ord (url_char n)) (byte_sextets raw) @ padding raw"

definition hex_bytes :: "bytes \<Rightarrow> bytes" where
  "hex_bytes raw = concat (map (\<lambda>b. [ord (hex_digit (b div 16)), ord (hex_digit (b mod 16))]) raw)"

definition forbidden_tokens :: "guard_env \<Rightarrow> bytes list" where
  "forbidden_tokens env =
     (let secret = ge_secret env in
      if secret = [] then [] else [secret, b64encode secret, urlsafe_b64encode secret, hex_bytes secret])"

text \<open>\<open>str.isdigit\<close> on the characters of the model; the superscripts count, but \<open>int\<close> refuses them.\<close>

definition isdigit_char :: "char \<Rightarrow> bool" where
  "isdigit_char c \<longleftrightarrow> isdecimal_char c \<or> ord c \<in> {178, 179, 185}"

definition parse_fingerprint :: "string \<Rightarrow> (nat \<times> string) result" where
  "parse_fingerprint item =
     (case split_char (CHR '':'') item of
        [digits, digest] \<Rightarrow>
          bindR (requireR (digits \<noteq> [] \<and> list_all isdigit_char digits \<and> length digest = 64 \<and> list_all is_lower_hex digest)
            (BoundaryError ''Malformed protected-credential fingerprint'')) (\<lambda>_.
          case int_of_text digits of
            None \<Rightarrow> Inl (ValueError ''invalid literal for int()'')
          | Some n \<Rightarrow>
              bindR (requireR (\<not> (n < 1 \<or> n > int MAX_FILE_BYTES))
                (BoundaryError ''Protected-credential fingerprint length is unsafe'')) (\<lambda>_.
              Inr (nat n, digest)))
      | _ \<Rightarrow> Inl (BoundaryError ''Malformed protected-credential fingerprint''))"

definition forbidden_fingerprints :: "guard_env \<Rightarrow> (nat \<times> string) list result" where
  "forbidden_fingerprints env =
     (if ge_fingerprints env = [] then Inr []
      else mapR parse_fingerprint (split_char (CHR '','') (ge_fingerprints env)))"

text \<open>\<open>bytes.split()\<close>: the runs between ASCII whitespace.\<close>

definition is_space_byte :: "nat \<Rightarrow> bool" where
  "is_space_byte b \<longleftrightarrow> b \<in> {9, 10, 11, 12, 13, 32}"

primrec chunks_from :: "bytes \<Rightarrow> bytes \<Rightarrow> bytes list" where
  "chunks_from current [] = (if current = [] then [] else [current])"
| "chunks_from current (b # rest) =
     (if is_space_byte b
      then (if current = [] then chunks_from [] rest else current # chunks_from [] rest)
      else chunks_from (current @ [b]) rest)"

definition byte_chunks :: "bytes \<Rightarrow> bytes list" where
  "byte_chunks data = chunks_from [] data"

definition chunk_has_token :: "nat \<Rightarrow> string \<Rightarrow> bytes \<Rightarrow> bool" where
  "chunk_has_token n digest chunk \<longleftrightarrow>
     n \<le> length chunk \<and> list_ex (\<lambda>offset. sha256_hex (take n (drop offset chunk)) = digest) [0..<length chunk - n + 1]"

definition contains_fingerprinted_token :: "bytes \<Rightarrow> nat \<times> string \<Rightarrow> bool" where
  "contains_fingerprinted_token data fingerprint =
     list_ex (chunk_has_token (fst fingerprint) (snd fingerprint)) (byte_chunks data)"

definition reject_forbidden_tokens :: "guard_env \<Rightarrow> bytes \<Rightarrow> string \<Rightarrow> unit result" where
  "reject_forbidden_tokens env data label =
     (let exposed = BoundaryError (''Autonomous proposal exposed a protected credential in '' @ label) in
      bindR (requireR (\<not> list_ex (\<lambda>token. occurs_in token data) (forbidden_tokens env)) exposed) (\<lambda>_.
      bindR (forbidden_fingerprints env) (\<lambda>fingerprints.
      requireR (\<not> list_ex (contains_fingerprinted_token data) fingerprints) exposed)))"

section \<open>The proposal\<close>

text \<open>What \<open>lstat\<close> tells of a path.\<close>

record file_stat =
  fs_regular :: bool
  fs_links :: nat
  fs_executable :: bool
  fs_size :: nat

definition default_title :: points where "default_title = points ''Keyverse autonomous product increment''"

definition default_body :: points where
  "default_body = points (''Autonomous NVIDIA NIM increment; see the bounded diff, tests, and '' @ ''CHANGELOG.md for evidence.'')"

text \<open>\<open>text.replace("\r\n", "\n").replace("\r", "\n")\<close>.\<close>

fun normalize_newlines :: "points \<Rightarrow> points" where
  "normalize_newlines (p # q # ps) =
     (if p = 13 \<and> q = 10 then 10 # normalize_newlines ps
      else (if p = 13 then 10 else p) # normalize_newlines (q # ps))"
| "normalize_newlines [p] = [if p = 13 then 10 else p]"
| "normalize_newlines [] = []"

definition or_points :: "points \<Rightarrow> points \<Rightarrow> points" where
  "or_points ps dflt = (if ps = [] then dflt else ps)"

definition proposal_title :: "points list \<Rightarrow> points result" where
  "proposal_title lines =
     (let candidate = (case lines of [] \<Rightarrow> [] | first # _ \<Rightarrow> strip_points (dropWhile (\<lambda>p. p = 35) first));
          title = or_points candidate default_title in
      bindR (requireR (length title \<le> MAX_TITLE_CHARACTERS) (BoundaryError ''Pull-request title exceeded the character limit'')) (\<lambda>_.
      bindR (requireR (\<not> list_ex (\<lambda>p. p < 32 \<or> p = 127) title)
        (BoundaryError ''Pull-request title contained an ASCII control character'')) (\<lambda>_. Inr title)))"

definition proposal_body :: "guard_env \<Rightarrow> points list \<Rightarrow> points result" where
  "proposal_body env lines =
     (let body = or_points (strip_points (join_with 10 (drop 1 lines))) default_body; body_bytes = utf8_points body in
      bindR (requireR (length body_bytes \<le> MAX_BODY_BYTES) (BoundaryError ''Pull-request body exceeded the byte limit'')) (\<lambda>_.
      bindR (requireR (\<not> list_ex (\<lambda>p. p < 32 \<and> p \<notin> {10, 9}) body)
        (BoundaryError ''Pull-request body contained an unsafe control character'')) (\<lambda>_.
      bindR (reject_forbidden_tokens env body_bytes ''proposal body'') (\<lambda>_. Inr body))))"

section \<open>The patch text\<close>

text \<open>
  The pattern \<open>^diff --git a/([^\n]+) b/([^\n]+)$\<close> on one line: the first group is greedy, so the
  line is cut at the last \<open> b/\<close> that leaves text on both sides.
\<close>

primrec last_cut :: "points \<Rightarrow> points \<Rightarrow> points \<Rightarrow> (points \<times> points) option" where
  "last_cut sep before [] = None"
| "last_cut sep before (p # ps) =
     (case last_cut sep (before @ [p]) ps of
        Some found \<Rightarrow> Some found
      | None \<Rightarrow>
          if before \<noteq> [] \<and> prefix sep (p # ps) \<and> length sep < length (p # ps)
          then Some (before, drop (length sep) (p # ps)) else None)"

definition diff_header :: "points \<Rightarrow> (points \<times> points) list" where
  "diff_header line =
     (let start = points ''diff --git a/'' in
      if prefix start line
      then (case last_cut (points '' b/'') [] (drop (length start) line) of None \<Rightarrow> [] | Some found \<Rightarrow> [found])
      else [])"

definition file_marker :: "points \<Rightarrow> (bool \<times> points) list" where
  "file_marker line =
     (if prefix (points ''--- '') line \<and> length line > 4 then [(True, drop 4 line)]
      else if prefix (points ''+++ '') line \<and> length line > 4 then [(False, drop 4 line)]
      else [])"

definition new_file_mode :: "points \<Rightarrow> points list" where
  "new_file_mode line =
     (let start = points ''new file mode '' in
      if prefix start line \<and> length line = length start + 6 \<and> list_all (\<lambda>p. 48 \<le> p \<and> p \<le> 55) (drop (length start) line)
      then [drop (length start) line] else [])"

definition FORBIDDEN_DIRECTIVES :: "string list" where
  "FORBIDDEN_DIRECTIVES =
     [''deleted file mode '', ''old mode '', ''new mode '', ''rename from '', ''rename to '', ''copy from '', ''copy to '',
      ''GIT binary patch'', ''Binary files '', ''new file mode 120000'']"

primrec check_headers :: "(points \<times> points) list \<Rightarrow> points list \<Rightarrow> points list result" where
  "check_headers [] seen = Inr seen"
| "check_headers (header # rest) seen =
     (if fst header \<noteq> snd header \<or> \<not> path_allowed (fst header) \<or> fst header \<in> set seen
      then Inl (BoundaryError ''Patch contains an unsafe or duplicate path'')
      else check_headers rest (fst header # seen))"

definition check_marker :: "points list \<Rightarrow> bool \<times> points \<Rightarrow> unit result" where
  "check_marker seen marker =
     (let path = snd marker; start = points (if fst marker then ''a/'' else ''b/'') in
      if path = points ''/dev/null'' then Inr ()
      else requireR (prefix start path \<and> drop 2 path \<in> set seen) (BoundaryError ''Patch contains an unsafe file marker''))"

definition validate_patch_text :: "guard_env \<Rightarrow> bytes \<Rightarrow> points list result" where
  "validate_patch_text env raw =
     bindR (requireR (length raw \<le> MAX_PATCH_BYTES) (BoundaryError ''Patch exceeded the byte limit'')) (\<lambda>_.
     bindR (reject_forbidden_tokens env raw ''patch'') (\<lambda>_.
     case utf8_decode raw of
       None \<Rightarrow> Inl (BoundaryError ''Patch must be strict UTF-8 text'')
     | Some patch \<Rightarrow>
         (let lines = split_at 10 patch; headers = concat (map diff_header lines) in
          bindR (requireR (headers \<noteq> []) (BoundaryError ''Patch has no reviewable diff headers'')) (\<lambda>_.
          bindR (requireR (length headers \<le> MAX_FILES) (BoundaryError ''Patch touched too many files'')) (\<lambda>_.
          bindR (check_headers headers []) (\<lambda>seen.
          bindR (forR (concat (map file_marker lines)) (check_marker seen)) (\<lambda>_.
          bindR (requireR (\<not> list_ex (\<lambda>token. occurs_in (points token) patch) FORBIDDEN_DIRECTIVES)
            (BoundaryError ''Patch contains a forbidden deletion, rename, mode, link, or binary directive'')) (\<lambda>_.
          bindR (requireR (list_all (\<lambda>mode. mode = points ''100644'') (concat (map new_file_mode lines)))
            (BoundaryError ''Patch contains a forbidden new-file mode'')) (\<lambda>_.
          let paths = sort seen in
          bindR (require_product_vertical paths) (\<lambda>_. Inr paths))))))))))"

section \<open>Line counts\<close>

text \<open>\<open>int(bytes)\<close>, and \<open>record.split(b"\t", 2)\<close> unpacked into three.\<close>

definition int_of_bytes :: "bytes \<Rightarrow> int result" where
  "int_of_bytes bs =
     (case (if list_all (\<lambda>b. b < 128 \<and> \<not> (28 \<le> b \<and> b \<le> 31)) bs then int_of_text (map char_of bs) else None) of
        None \<Rightarrow> Inl (ValueError ''invalid literal for int()'')
      | Some n \<Rightarrow> Inr n)"

definition changed_in_record :: "bytes \<Rightarrow> int result" where
  "changed_in_record rec =
     (case split_at 9 rec of
        additions # deletions # _ # _ \<Rightarrow>
          bindR (requireR (additions \<noteq> [45] \<and> deletions \<noteq> [45])
            (BoundaryError ''Autonomous development produced a binary diff'')) (\<lambda>_.
          bindR (int_of_bytes additions) (\<lambda>a. bindR (int_of_bytes deletions) (\<lambda>d. Inr (a + d))))
      | _ \<Rightarrow> Inl (ValueError ''not enough values to unpack''))"

section \<open>The sealed proposal\<close>

record proposal =
  pp_base_sha :: string
  pp_body :: points
  pp_changed_paths :: "points list"
  pp_patch_sha256 :: string
  pp_title :: points

definition is_commit_sha :: "string \<Rightarrow> bool" where
  "is_commit_sha s \<longleftrightarrow> length s = 40 \<and> list_all is_lower_hex s"

text \<open>What is appended to the outputs of the job.\<close>

definition write_outputs :: "guard_env \<Rightarrow> (string \<times> string) list \<Rightarrow> string" where
  "write_outputs env outputs =
     (if ge_output env = [] then [] else concat (map (\<lambda>(key, val). key @ ''='' @ val @ [CHR 0x0A]) outputs))"

text \<open>The envelope file that carries the proposal to the next job.\<close>

definition proposal_json :: "proposal \<Rightarrow> json" where
  "proposal_json proposal =
     JObj [(''base_sha'', JStr (pp_base_sha proposal)), (''body'', JStr (map char_of (pp_body proposal))),
       (''changed_paths'', JArr (map (\<lambda>path. JStr (map char_of path)) (pp_changed_paths proposal))),
       (''patch_sha256'', JStr (pp_patch_sha256 proposal)), (''title'', JStr (map char_of (pp_title proposal)))]"

text \<open>
  Its text: \<open>json.dumps\<close> with \<open>ensure_ascii=False\<close> and sorted keys, and a final newline. Quotes,
  backslashes and control characters are escaped, everything else stays.
\<close>

definition escape_point :: "nat \<Rightarrow> points" where
  "escape_point p =
     (if p = 34 \<or> p = 92 then [92, p]
      else case map_of [(10, 110), (13, 114), (9, 116), (8, 98), (12, 102)] p of
        Some letter \<Rightarrow> [92, letter]
      | None \<Rightarrow> if p < 32 then points [CHR 0x5C, CHR ''u'', CHR ''0'', CHR ''0'', hex_digit (p div 16), hex_digit (p mod 16)] else [p])"

definition quoted_points :: "points \<Rightarrow> points" where
  "quoted_points ps = 34 # concat (map escape_point ps) @ [34]"

fun join_points :: "points list \<Rightarrow> points" where
  "join_points [] = []"
| "join_points [ps] = ps"
| "join_points (ps # qs # rest) = ps @ points '', '' @ join_points (qs # rest)"

definition envelope_text :: "proposal \<Rightarrow> points" where
  "envelope_text proposal =
     (let member = (\<lambda>key val. quoted_points (points key) @ points '': '' @ val) in
      points ''{'' @ join_points
        [member ''base_sha'' (quoted_points (points (pp_base_sha proposal))),
         member ''body'' (quoted_points (pp_body proposal)),
         member ''changed_paths'' (points ''['' @ join_points (map quoted_points (pp_changed_paths proposal)) @ points '']''),
         member ''patch_sha256'' (quoted_points (points (pp_patch_sha256 proposal))),
         member ''title'' (quoted_points (pp_title proposal))] @ points ''}'' @ [10])"

definition PROPOSAL_MEMBERS :: "string list" where
  "PROPOSAL_MEMBERS = [''base_sha'', ''body'', ''changed_paths'', ''patch_sha256'', ''title'']"

definition text_items :: "json list \<Rightarrow> string list option" where
  "text_items items = those (map (\<lambda>item. case item of JStr s \<Rightarrow> Some s | _ \<Rightarrow> None) items)"

definition bounded_title :: "json \<Rightarrow> string result" where
  "bounded_title j =
     (case j of
        JStr s \<Rightarrow> if s = [] \<or> length s > MAX_TITLE_CHARACTERS then Inl (BoundaryError ''Proposal title is invalid'') else Inr s
      | _ \<Rightarrow> Inl (BoundaryError ''Proposal title is invalid''))"

definition bounded_body :: "json \<Rightarrow> string result" where
  "bounded_body j =
     (case j of
        JStr s \<Rightarrow> if length (utf8_encode s) > MAX_BODY_BYTES then Inl (BoundaryError ''Proposal body is invalid'') else Inr s
      | _ \<Rightarrow> Inl (BoundaryError ''Proposal body is invalid''))"

definition changed_path_list :: "json \<Rightarrow> points list result" where
  "changed_path_list j =
     (let invalid = Inl (BoundaryError ''Proposal changed-path inventory is invalid'') in
      case j of
        JArr items \<Rightarrow>
          (case text_items items of
             None \<Rightarrow> invalid
           | Some texts \<Rightarrow>
               (let paths = map points texts in
                if paths = [] \<or> \<not> list_all path_allowed paths \<or> \<not> (sorted paths \<and> distinct paths) then invalid else Inr paths))
      | _ \<Rightarrow> invalid)"

definition hex_text :: "nat \<Rightarrow> string \<Rightarrow> json \<Rightarrow> string result" where
  "hex_text n message j =
     (case j of
        JStr s \<Rightarrow> if length s = n \<and> list_all is_lower_hex s then Inr s else Inl (BoundaryError message)
      | _ \<Rightarrow> Inl (BoundaryError message))"

text \<open>The envelope file: its size and what the JSON parser makes of it.\<close>

definition load_proposal :: "guard_env \<Rightarrow> nat \<Rightarrow> json option \<Rightarrow> proposal result" where
  "load_proposal env byte_size parsed =
     bindR (requireR (byte_size \<le> MAX_BODY_BYTES + 4096) (BoundaryError ''Proposal envelope exceeded the byte limit'')) (\<lambda>_.
     case parsed of
       None \<Rightarrow> Inl (BoundaryError ''Proposal envelope must be strict UTF-8 JSON'')
     | Some (JObj d) \<Rightarrow>
         bindR (requireR (set (map fst d) = set PROPOSAL_MEMBERS) (BoundaryError ''Proposal envelope has an unexpected schema'')) (\<lambda>_.
         bindR (hex_text 40 ''Proposal base SHA is invalid'' (dict_get d ''base_sha'')) (\<lambda>base_sha.
         bindR (hex_text 64 ''Proposal patch digest is invalid'' (dict_get d ''patch_sha256'')) (\<lambda>patch_sha.
         bindR (bounded_title (dict_get d ''title'')) (\<lambda>title.
         bindR (bounded_body (dict_get d ''body'')) (\<lambda>body.
         bindR (changed_path_list (dict_get d ''changed_paths'')) (\<lambda>paths.
         bindR (require_product_vertical paths) (\<lambda>_.
         bindR (reject_forbidden_tokens env (utf8_encode title) ''proposal title'') (\<lambda>_.
         bindR (reject_forbidden_tokens env (utf8_encode body) ''proposal body'') (\<lambda>_.
         Inr \<lparr>pp_base_sha = base_sha, pp_body = points body, pp_changed_paths = paths, pp_patch_sha256 = patch_sha,
           pp_title = points title\<rparr>)))))))))
     | Some _ \<Rightarrow> Inl (BoundaryError ''Proposal envelope has an unexpected schema''))"

end
