(* ===== verification/PatchGuard_Commands.thy ===== *)
theory PatchGuard_Commands
  imports PatchGuard
begin

text \<open>
  The commands of \<open>scripts/ci/hourly_product_guard.py\<close>: reading the proposal, preparing the alternate Git
  index, validating a materialised worktree, \<open>capture\<close> and \<open>apply\<close>. Git, the file system and the JSON
  parser are the parameter \<open>machine\<close>; every process that is run and every file that is written or removed
  is recorded as an event, in order.
\<close>

section \<open>Processes and files\<close>

record invocation =
  iv_args :: "string list"
  iv_cwd :: "string option"
  iv_index :: "string option"

record 'w machine =
  mc_run :: "invocation \<Rightarrow> 'w \<Rightarrow> (int \<times> bytes) \<times> 'w"
  mc_exists :: "string \<Rightarrow> 'w \<Rightarrow> bool"
  mc_stat :: "string \<Rightarrow> 'w \<Rightarrow> file_stat result"
  mc_read :: "string \<Rightarrow> 'w \<Rightarrow> bytes result"
  mc_write :: "string \<Rightarrow> bytes \<Rightarrow> 'w \<Rightarrow> 'w"
  mc_remove :: "string \<Rightarrow> 'w \<Rightarrow> 'w"
  mc_mkdir :: "string \<Rightarrow> 'w \<Rightarrow> 'w"
  mc_rename :: "string \<Rightarrow> string \<Rightarrow> 'w \<Rightarrow> 'w"
  mc_tempdir :: "'w \<Rightarrow> string \<times> 'w"
  mc_json :: "bytes \<Rightarrow> json option"

datatype event =
    Ran invocation
  | Wrote string bytes
  | Removed string
  | Made string
  | Renamed string string
  | Sealed string proposal

record 'w guarded =
  gd_world :: 'w
  gd_events :: "event list"

definition lookA :: "('w \<Rightarrow> 'a result) \<Rightarrow> ('w guarded, 'a) action" where
  "lookA f = (\<lambda>s. (f (gd_world s), s))"

definition effectA :: "event \<Rightarrow> ('w \<Rightarrow> 'w) \<Rightarrow> ('w guarded, unit) action" where
  "effectA ev f = modifyA (\<lambda>s. s\<lparr>gd_world := f (gd_world s), gd_events := gd_events s @ [ev]\<rparr>)"

definition write_file :: "'w machine \<Rightarrow> string \<Rightarrow> bytes \<Rightarrow> ('w guarded, unit) action" where
  "write_file m path data = effectA (Wrote path data) (mc_write m path data)"

definition remove_file :: "'w machine \<Rightarrow> string \<Rightarrow> ('w guarded, unit) action" where
  "remove_file m path = effectA (Removed path) (mc_remove m path)"

definition run_process :: "'w machine \<Rightarrow> invocation \<Rightarrow> ('w guarded, int \<times> bytes) action" where
  "run_process m iv = (\<lambda>s.
     case mc_run m iv (gd_world s) of (answer, w) \<Rightarrow>
       (Inr answer, s\<lparr>gd_world := w, gd_events := gd_events s @ [Ran iv]\<rparr>))"

text \<open>With \<open>check=True\<close> a non-zero status raises; with \<open>text=True\<close> the output is decoded, newlines made uniform.\<close>

definition run_checked :: "'w machine \<Rightarrow> invocation \<Rightarrow> ('w guarded, bytes) action" where
  "run_checked m iv =
     bindA (run_process m iv) (\<lambda>(returncode, out).
     if returncode = 0 then returnA out else raiseA (OtherError ''CalledProcessError''))"

definition decode_text :: "bytes \<Rightarrow> points result" where
  "decode_text raw =
     (case utf8_decode raw of None \<Rightarrow> Inl (ValueError ''invalid utf-8'') | Some t \<Rightarrow> Inr (normalize_newlines t))"

definition run_text :: "'w machine \<Rightarrow> invocation \<Rightarrow> ('w guarded, points) action" where
  "run_text m iv = bindA (run_checked m iv) (\<lambda>out. liftA (decode_text out))"

definition DIFF_SAFETY :: "string list" where
  "DIFF_SAFETY = [''--no-ext-diff'', ''--no-textconv'', ''--no-renames'']"

definition git_command :: "string \<Rightarrow> string \<Rightarrow> string list" where
  "git_command git_dir work_tree =
     [''git'', ''--literal-pathspecs'', ''--git-dir='' @ git_dir, ''--work-tree='' @ work_tree]"

text \<open>A Git command on the alternate index.\<close>

definition indexed :: "string list \<Rightarrow> string list \<Rightarrow> string \<Rightarrow> invocation" where
  "indexed git args index_file = \<lparr>iv_args = git @ args, iv_cwd = None, iv_index = Some index_file\<rparr>"

text \<open>\<open>Path.with_suffix\<close>: the last suffix of the final component is replaced.\<close>

definition with_suffix :: "string \<Rightarrow> string \<Rightarrow> string" where
  "with_suffix path suffix' =
     (let comps = split_char (CHR ''/'') path; name = last comps; parts = split_char (CHR ''.'') name;
          stem = (if 1 < length parts \<and> join_char (CHR ''.'') (butlast parts) \<noteq> [] \<and> last parts \<noteq> []
                  then join_char (CHR ''.'') (butlast parts) else name)
      in join_char (CHR ''/'') (butlast comps @ [stem @ suffix']))"

definition in_workspace :: "string \<Rightarrow> points \<Rightarrow> string" where
  "in_workspace workspace name = workspace @ ''/'' @ map char_of name"

section \<open>The proposal file\<close>

definition read_proposal :: "'w machine \<Rightarrow> guard_env \<Rightarrow> string \<Rightarrow> ('w guarded, points \<times> points) action" where
  "read_proposal m env workspace =
     (let proposal_path = workspace @ ''/'' @ PROPOSAL_FILENAME in
      bindA (readA (\<lambda>s. mc_exists m proposal_path (gd_world s))) (\<lambda>present.
      if \<not> present then returnA (default_title, default_body)
      else
        bindA (lookA (mc_stat m proposal_path)) (\<lambda>st.
        bindA (liftA (requireR (fs_regular st \<and> fs_links st = 1)
          (BoundaryError ''PR_MESSAGE.md must be one regular, non-linked file''))) (\<lambda>_.
        bindA (liftA (requireR (fs_size st \<le> MAX_BODY_BYTES + 1024)
          (BoundaryError ''PR_MESSAGE.md exceeded the metadata byte limit''))) (\<lambda>_.
        bindA (lookA (mc_read m proposal_path)) (\<lambda>raw.
        bindA (liftA (reject_forbidden_tokens env raw PROPOSAL_FILENAME)) (\<lambda>_.
        bindA (liftA (case utf8_decode raw of
            None \<Rightarrow> Inl (BoundaryError ''PR_MESSAGE.md must be strict UTF-8'') | Some t \<Rightarrow> Inr t)) (\<lambda>content.
        bindA (remove_file m proposal_path) (\<lambda>_.
        let lines = split_at 10 (normalize_newlines content) in
        bindA (liftA (proposal_title lines)) (\<lambda>title.
        bindA (liftA (proposal_body env lines)) (\<lambda>body. returnA (title, body))))))))))))"

section \<open>The worktree\<close>

definition decode_names :: "bytes \<Rightarrow> points list result" where
  "decode_names raw =
     mapR (\<lambda>part. case utf8_decode part of None \<Rightarrow> Inl (ValueError ''invalid utf-8'') | Some name \<Rightarrow> Inr name)
       (filter (\<lambda>part. part \<noteq> []) (split_at 0 raw))"

definition nul_names :: "'w machine \<Rightarrow> string list \<Rightarrow> string list \<Rightarrow> string \<Rightarrow> ('w guarded, points list) action" where
  "nul_names m git args index_file =
     bindA (run_checked m (indexed git (args @ [''-z'']) index_file)) (\<lambda>raw. liftA (decode_names raw))"

definition prepare_diff_index :: "'w machine \<Rightarrow> string list \<Rightarrow> string \<Rightarrow> string \<Rightarrow> ('w guarded, unit) action" where
  "prepare_diff_index m git head index_file =
     bindA (remove_file m index_file) (\<lambda>_.
     bindA (run_checked m (indexed git [''read-tree'', head] index_file)) (\<lambda>_.
     bindA (run_checked m (indexed git [''ls-files'', ''--others'', ''--exclude-standard'', ''-z''] index_file)) (\<lambda>untracked.
     if untracked = [] then returnA ()
     else
       let pathspec = with_suffix index_file ''.pathspec'' in
       bindA (write_file m pathspec untracked) (\<lambda>_.
       bindA (run_checked m (indexed git
         [''add'', ''-N'', ''--pathspec-from-file='' @ pathspec, ''--pathspec-file-nul''] index_file)) (\<lambda>_. returnA ())))))"

definition changed_paths ::
  "'w machine \<Rightarrow> string list \<Rightarrow> string \<Rightarrow> ('w guarded, points list \<times> points list) action" where
  "changed_paths m git index_file =
     bindA (nul_names m git ([''diff''] @ DIFF_SAFETY @ [''--name-only'', ''--diff-filter=ACMRTUXB'']) index_file) (\<lambda>changed.
     bindA (nul_names m git ([''diff''] @ DIFF_SAFETY @ [''--name-only'', ''--diff-filter=D'']) index_file) (\<lambda>deleted.
     returnA (changed, deleted)))"

definition check_file :: "'w machine \<Rightarrow> guard_env \<Rightarrow> string \<Rightarrow> points \<Rightarrow> ('w guarded, nat) action" where
  "check_file m env workspace name =
     bindA (liftA (requireR (path_allowed name) (BoundaryError ''Autonomous development crossed its path boundary''))) (\<lambda>_.
     let path = in_workspace workspace name in
     bindA (lookA (mc_stat m path)) (\<lambda>st.
     bindA (liftA (requireR (fs_regular st) (BoundaryError ''Autonomous development created a non-regular file''))) (\<lambda>_.
     bindA (liftA (requireR (fs_links st = 1) (BoundaryError ''Autonomous development created a hard link''))) (\<lambda>_.
     bindA (liftA (requireR (\<not> fs_executable st) (BoundaryError ''Autonomous development created an executable file''))) (\<lambda>_.
     bindA (liftA (requireR (fs_size st \<le> MAX_FILE_BYTES)
       (BoundaryError ''Autonomous development exceeded the per-file limit''))) (\<lambda>_.
     bindA (lookA (mc_read m path)) (\<lambda>data.
     bindA (liftA (requireR (0 \<notin> set data) (BoundaryError ''Autonomous development created a binary file''))) (\<lambda>_.
     bindA (liftA (reject_forbidden_tokens env data (map char_of name))) (\<lambda>_. returnA (length data))))))))))"

definition validate_worktree_diff ::
  "'w machine \<Rightarrow> guard_env \<Rightarrow> string \<Rightarrow> string list \<Rightarrow> string \<Rightarrow> ('w guarded, points list) action" where
  "validate_worktree_diff m env workspace git index_file =
     bindA (changed_paths m git index_file) (\<lambda>(names, deleted).
     bindA (liftA (requireR (deleted = []) (BoundaryError ''Autonomous development must not delete files''))) (\<lambda>_.
     bindA (liftA (requireR (names \<noteq> []) (BoundaryError ''A dirty tree contained no reviewable text changes''))) (\<lambda>_.
     bindA (liftA (requireR (length names \<le> MAX_FILES) (BoundaryError ''Autonomous development touched too many files''))) (\<lambda>_.
     bindA (mapA (check_file m env workspace) names) (\<lambda>sizes.
     bindA (liftA (requireR (sum_list sizes \<le> MAX_TOTAL_BYTES)
       (BoundaryError ''Autonomous development exceeded the changed-file byte limit''))) (\<lambda>_.
     bindA (liftA (require_product_vertical names)) (\<lambda>_.
     bindA (run_text m (indexed git ([''diff''] @ DIFF_SAFETY @ [''--summary'']) index_file)) (\<lambda>summary.
     bindA (liftA (requireR (\<not> occurs_in (points '' mode change '') summary)
       (BoundaryError ''Autonomous development must not change file modes''))) (\<lambda>_.
     bindA (run_checked m (indexed git ([''diff''] @ DIFF_SAFETY @ [''--numstat'', ''-z'']) index_file)) (\<lambda>numstat.
     bindA (liftA (mapR changed_in_record (filter (\<lambda>part. part \<noteq> []) (split_at 0 numstat)))) (\<lambda>counts.
     bindA (liftA (requireR (sum_list counts \<le> MAX_CHANGED_LINES)
       (BoundaryError ''Autonomous development exceeded the changed-line budget''))) (\<lambda>_.
     bindA (run_checked m (indexed git [''diff'', ''--no-ext-diff'', ''--no-textconv'', ''--check''] index_file)) (\<lambda>_.
     returnA names)))))))))))))"

section \<open>Capture\<close>

text \<open>Writing the envelope is an event of its own, which keeps the proposal it carries.\<close>

definition write_proposal :: "'w machine \<Rightarrow> string \<Rightarrow> proposal \<Rightarrow> ('w guarded, unit) action" where
  "write_proposal m path proposal = effectA (Sealed path proposal) (mc_write m path (utf8_points (envelope_text proposal)))"

record capture_args =
  ca_workspace :: string
  ca_baseline :: string
  ca_base_sha_file :: string
  ca_patch_file :: string
  ca_stat_file :: string
  ca_proposal_file :: string

definition baseline_head :: "capture_args \<Rightarrow> invocation" where
  "baseline_head a =
     \<lparr>iv_args = [''git'', ''--git-dir='' @ ca_baseline a @ ''/.git'', ''rev-parse'', ''HEAD''], iv_cwd = None, iv_index = None\<rparr>"

definition capture_git :: "capture_args \<Rightarrow> string list" where
  "capture_git a = git_command (ca_baseline a @ ''/.git'') (ca_workspace a)"

definition capture :: "'w machine \<Rightarrow> guard_env \<Rightarrow> capture_args \<Rightarrow> ('w guarded, string) action" where
  "capture m env a =
     bindA (lookA (\<lambda>w. bindR (mc_read m (ca_base_sha_file a) w) decode_text)) (\<lambda>recorded.
     let base = strip_points recorded; expected_head = map char_of base in
     bindA (liftA (requireR (list_all (\<lambda>p. p < 128) base \<and> is_commit_sha expected_head)
       (BoundaryError ''Base SHA file did not contain one lowercase commit SHA''))) (\<lambda>_.
     bindA (run_text m (baseline_head a)) (\<lambda>head.
     bindA (liftA (requireR (strip_points head = base)
       (BoundaryError ''The immutable diff baseline changed during model execution''))) (\<lambda>_.
     bindA (read_proposal m env (ca_workspace a)) (\<lambda>(title, body).
     let index_file = with_suffix (ca_patch_file a) ''.index''; git = capture_git a in
     bindA (prepare_diff_index m git expected_head index_file) (\<lambda>_.
     bindA (run_process m (indexed git [''diff'', ''--no-ext-diff'', ''--no-textconv'', ''--quiet''] index_file)) (\<lambda>quiet.
     if fst quiet = 0
     then returnA (write_outputs env [(''changed'', ''false''), (''base_sha'', expected_head)])
     else
       bindA (liftA (requireR (fst quiet = 1)
         (BoundaryError ''Git could not determine whether the model changed the workspace''))) (\<lambda>_.
       bindA (validate_worktree_diff m env (ca_workspace a) git index_file) (\<lambda>names.
       bindA (run_checked m (indexed git ([''diff''] @ DIFF_SAFETY @ [''--binary'']) index_file)) (\<lambda>patch.
       bindA (run_text m (indexed git ([''diff''] @ DIFF_SAFETY @ [''--stat'']) index_file)) (\<lambda>stat_text.
       bindA (liftA (requireR (length patch \<le> MAX_PATCH_BYTES)
         (BoundaryError ''Autonomous development exceeded the patch byte limit''))) (\<lambda>_.
       bindA (liftA (reject_forbidden_tokens env patch ''patch'')) (\<lambda>_.
       bindA (write_file m (ca_patch_file a) patch) (\<lambda>_.
       bindA (write_file m (ca_stat_file a) (utf8_points stat_text)) (\<lambda>_.
       let patch_sha256 = sha256_hex patch in
       bindA (write_proposal m (ca_proposal_file a)
         \<lparr>pp_base_sha = expected_head, pp_body = body, pp_changed_paths = sort names,
          pp_patch_sha256 = patch_sha256, pp_title = title\<rparr>) (\<lambda>_.
       returnA (write_outputs env
         [(''changed'', ''true''), (''base_sha'', expected_head), (''patch_sha256'', patch_sha256)])))))))))))))))))"

section \<open>Apply\<close>

record apply_args =
  aa_workspace :: string
  aa_patch_file :: string
  aa_proposal_file :: string

definition in_checkout :: "apply_args \<Rightarrow> string list \<Rightarrow> invocation" where
  "in_checkout a args = \<lparr>iv_args = ''git'' # args, iv_cwd = Some (aa_workspace a), iv_index = None\<rparr>"

definition checkout_head :: "apply_args \<Rightarrow> invocation" where
  "checkout_head a = in_checkout a [''rev-parse'', ''HEAD'']"

definition apply_check :: "apply_args \<Rightarrow> invocation" where
  "apply_check a = in_checkout a [''apply'', ''--check'', aa_patch_file a]"

definition apply_write :: "apply_args \<Rightarrow> invocation" where
  "apply_write a = in_checkout a [''apply'', aa_patch_file a]"

definition apply_patch :: "'w machine \<Rightarrow> guard_env \<Rightarrow> apply_args \<Rightarrow> ('w guarded, string) action" where
  "apply_patch m env a =
     bindA (lookA (mc_read m (aa_proposal_file a))) (\<lambda>envelope.
     bindA (liftA (load_proposal env (length envelope) (mc_json m envelope))) (\<lambda>proposal.
     bindA (lookA (mc_read m (aa_patch_file a))) (\<lambda>patch_bytes.
     let observed_digest = sha256_hex patch_bytes in
     bindA (liftA (requireR (observed_digest = pp_patch_sha256 proposal)
       (BoundaryError ''Patch digest did not match the proposal envelope''))) (\<lambda>_.
     bindA (run_text m (checkout_head a)) (\<lambda>head.
     let current_head = strip_points head in
     bindA (liftA (requireR (current_head = points (pp_base_sha proposal))
       (BoundaryError ''Protected branch moved after the proposal was captured''))) (\<lambda>_.
     bindA (lookA (mc_read m (aa_patch_file a))) (\<lambda>raw.
     bindA (liftA (validate_patch_text env raw)) (\<lambda>patch_paths.
     bindA (liftA (requireR (patch_paths = pp_changed_paths proposal)
       (BoundaryError ''Patch paths did not match the proposal envelope''))) (\<lambda>_.
     bindA (run_checked m (apply_check a)) (\<lambda>_.
     bindA (run_checked m (apply_write a)) (\<lambda>_.
     let git = git_command (aa_workspace a @ ''/.git'') (aa_workspace a);
         index_file = with_suffix (aa_proposal_file a) ''.apply.index'' in
     bindA (prepare_diff_index m git (map char_of current_head) index_file) (\<lambda>_.
     bindA (validate_worktree_diff m env (aa_workspace a) git index_file) (\<lambda>names.
     bindA (liftA (requireR (sort names = patch_paths)
       (BoundaryError ''Materialized paths did not match the sealed patch''))) (\<lambda>_.
     returnA (write_outputs env
       [(''base_sha'', map char_of current_head), (''patch_sha256'', observed_digest), (''publish'', ''true'')])))))))))))))))"

section \<open>The self-test\<close>

text \<open>\<open>tmp / name\<close>, which drops a final slash.\<close>

definition path_join :: "string \<Rightarrow> string \<Rightarrow> string" where
  "path_join tmp name = tmp @ ''/'' @ (if name \<noteq> [] \<and> last name = CHR ''/'' then butlast name else name)"

definition write_text :: "'w machine \<Rightarrow> string \<Rightarrow> string list \<Rightarrow> ('w guarded, unit) action" where
  "write_text m path lines = write_file m path (concat (map (\<lambda>line. points line @ [10]) lines))"

definition make_dir :: "'w machine \<Rightarrow> string \<Rightarrow> ('w guarded, unit) action" where
  "make_dir m path = effectA (Made path) (mc_mkdir m path)"

definition git_in :: "'w machine \<Rightarrow> string option \<Rightarrow> string list \<Rightarrow> ('w guarded, bytes) action" where
  "git_in m cwd args = run_checked m \<lparr>iv_args = ''git'' # args, iv_cwd = cwd, iv_index = None\<rparr>"

definition local_clone :: "'w machine \<Rightarrow> string \<Rightarrow> string \<Rightarrow> ('w guarded, bytes) action" where
  "local_clone m source target = git_in m None [''clone'', ''-q'', ''--local'', ''--no-hardlinks'', source, target]"

definition sample_module :: string where "sample_module = PRODUCTION_ROOTS ! 0 @ ''sample.py''"
definition sample_test :: string where "sample_test = TEST_ROOT @ ''test_sample.py''"

text \<open>A committed base repository with two clones, one of them without its Git directory.\<close>

definition self_test_base :: "'w machine \<Rightarrow> string \<Rightarrow> ('w guarded, unit) action" where
  "self_test_base m tmp =
     (let source = path_join tmp ''source''; workspace = path_join tmp ''workspace'' in
      bindA (make_dir m source) (\<lambda>_.
      bindA (git_in m (Some source) [''init'', ''-q'']) (\<lambda>_.
      bindA (git_in m (Some source) [''config'', ''user.name'', ''Guard Test'']) (\<lambda>_.
      bindA (git_in m (Some source) [''config'', ''user.email'', ''guard@example.invalid'']) (\<lambda>_.
      bindA (write_text m (path_join source ''README.md'') [''before'']) (\<lambda>_.
      bindA (write_text m (path_join source ''CHANGELOG.md'') [''base'']) (\<lambda>_.
      bindA (make_dir m (path_join source TEST_ROOT)) (\<lambda>_.
      bindA (write_text m (path_join source sample_test) [''assert True'']) (\<lambda>_.
      bindA (make_dir m (path_join source (PRODUCTION_ROOTS ! 0))) (\<lambda>_.
      bindA (write_text m (path_join source sample_module) [[CHR 0x22, CHR 0x22, CHR 0x22] @ ''Sample.'' @ [CHR 0x22, CHR 0x22, CHR 0x22]]) (\<lambda>_.
      bindA (git_in m (Some source) [''add'', ''.'']) (\<lambda>_.
      bindA (git_in m (Some source) [''commit'', ''-qm'', ''base'']) (\<lambda>_.
      bindA (local_clone m source (path_join tmp ''baseline'')) (\<lambda>_.
      bindA (local_clone m source workspace) (\<lambda>_.
      effectA (Renamed (path_join workspace ''.git'') (path_join tmp ''discarded-git''))
        (mc_rename m (path_join workspace ''.git'') (path_join tmp ''discarded-git'')))))))))))))))))"

text \<open>A valid change with its message, captured and applied to a third clone.\<close>

definition self_test_round_trip :: "'w machine \<Rightarrow> guard_env \<Rightarrow> string \<Rightarrow> ('w guarded, unit) action" where
  "self_test_round_trip m env tmp =
     (let source = path_join tmp ''source''; workspace = path_join tmp ''workspace''; target = path_join tmp ''apply-target'';
          base_file = path_join tmp ''base-sha''; patch_file = path_join tmp ''change.patch'';
          stat_file = path_join tmp ''change.stat''; proposal_file = path_join tmp ''proposal.json'' in
      bindA (write_text m (path_join workspace sample_module)
        [[CHR 0x22, CHR 0x22, CHR 0x22] @ ''Sample.'' @ [CHR 0x22, CHR 0x22, CHR 0x22], ''VALUE = 1'']) (\<lambda>_.
      bindA (write_text m (path_join workspace sample_test) [''assert 1 == 1'']) (\<lambda>_.
      bindA (write_text m (path_join workspace ''CHANGELOG.md'') [''base'', ''changed'']) (\<lambda>_.
      bindA (write_text m (path_join workspace PROPOSAL_FILENAME) [''Improve sample'', [], ''Verified product change.'']) (\<lambda>_.
      bindA (run_text m \<lparr>iv_args = [''git'', ''rev-parse'', ''HEAD''], iv_cwd = Some source, iv_index = None\<rparr>) (\<lambda>head.
      bindA (write_file m base_file (utf8_points (strip_points head @ [10]))) (\<lambda>_.
      bindA (capture m env \<lparr>ca_workspace = workspace, ca_baseline = path_join tmp ''baseline'', ca_base_sha_file = base_file,
        ca_patch_file = patch_file, ca_stat_file = stat_file, ca_proposal_file = proposal_file\<rparr>) (\<lambda>_.
      bindA (local_clone m source target) (\<lambda>_.
      bindA (apply_patch m env \<lparr>aa_workspace = target, aa_patch_file = patch_file, aa_proposal_file = proposal_file\<rparr>) (\<lambda>_.
      bindA (lookA (\<lambda>w. bindR (mc_read m (path_join target sample_module) w) decode_text)) (\<lambda>applied.
      liftA (requireR (occurs_in (points ''VALUE = 1'') applied) (OtherError ''AssertionError'')))))))))))))"

text \<open>A patch outside the boundary must be refused.\<close>

definition unsafe_patch :: "string list" where
  "unsafe_patch =
     [''diff --git a/.github/workflows/ci.yml b/.github/workflows/ci.yml'', ''--- a/.github/workflows/ci.yml'',
      ''+++ b/.github/workflows/ci.yml'', ''@@ -1 +1 @@'', ''-a'', ''+b'']"

definition self_test_unsafe :: "'w machine \<Rightarrow> guard_env \<Rightarrow> string \<Rightarrow> ('w guarded, unit) action" where
  "self_test_unsafe m env tmp =
     (let unsafe = path_join tmp ''unsafe.patch'' in
      bindA (write_text m unsafe unsafe_patch) (\<lambda>_.
      bindA (lookA (mc_read m unsafe)) (\<lambda>raw.
      case validate_patch_text env raw of
        Inl (BoundaryError _) \<Rightarrow> returnA ()
      | Inl e \<Rightarrow> raiseA e
      | Inr _ \<Rightarrow> raiseA (OtherError ''Unsafe workflow patch was accepted''))))"

text \<open>All of it in a temporary directory, which is removed in the end in any case.\<close>

definition self_test :: "'w machine \<Rightarrow> guard_env \<Rightarrow> ('w guarded, unit) action" where
  "self_test m env = (\<lambda>s.
     case mc_tempdir m (gd_world s) of (tmp, w) \<Rightarrow>
       (case bindA (self_test_base m tmp) (\<lambda>_. bindA (self_test_round_trip m env tmp) (\<lambda>_. self_test_unsafe m env tmp))
           (s\<lparr>gd_world := w, gd_events := gd_events s @ [Made tmp]\<rparr>) of
          (r, t) \<Rightarrow> (r, snd (remove_file m tmp t))))"

section \<open>The entry point\<close>

text \<open>One of the three commands, with its parsed arguments.\<close>

datatype guard_command = Capture capture_args | Apply apply_args | Self_Test

definition run_handler :: "'w machine \<Rightarrow> guard_env \<Rightarrow> guard_command \<Rightarrow> ('w guarded, int) action" where
  "run_handler m env command =
     (case command of
        Capture a \<Rightarrow> bindA (capture m env a) (\<lambda>_. returnA 0)
      | Apply a \<Rightarrow> bindA (apply_patch m env a) (\<lambda>_. returnA 0)
      | Self_Test \<Rightarrow> bindA (self_test m env) (\<lambda>_. returnA 0))"

definition guard_main :: "'w machine \<Rightarrow> guard_env \<Rightarrow> guard_command \<Rightarrow> ('w guarded, int) action" where
  "guard_main m env command =
     catchA (run_handler m env command) (\<lambda>e. case e of BoundaryError _ \<Rightarrow> returnA 2 | _ \<Rightarrow> raiseA e)"

end
