(* ===== verification/PatchGuard_Theorems.thy ===== *)
theory PatchGuard_Theorems
  imports PatchGuard_Commands
begin

text \<open>
  The boundary holds: an allowed path stays inside an allowed root, the fingerprint scan finds exactly
  the protected tokens, and an accepted patch names allowed files only.
\<close>

section \<open>Allowed paths\<close>

lemma split_at_nonempty [simp]: "split_at d ps \<noteq> []"
  by (cases ps) (auto split: list.splits)

lemma split_at_Cons [simp]:
  "split_at d (p # ps) = (if p = d then [] # split_at d ps else (p # hd (split_at d ps)) # tl (split_at d ps))"
  by (cases "split_at d ps") auto

text \<open>Proofs use this form, evaluation the defining equation, which does not repeat the recursive call.\<close>

declare split_at.simps(2) [simp del]

lemma hd_tl_split: "hd (split_at d ps) # tl (split_at d ps) = split_at d ps"
  by simp

lemma join_split_at: "join_with d (split_at d ps) = ps"
proof (induction ps)
  case (Cons p ps)
  show ?case
  proof (cases "p = d")
    case True
    have "join_with d ([] # split_at d ps) = d # join_with d (split_at d ps)"
      by (cases "split_at d ps") auto
    with True Cons show ?thesis by simp
  next
    case False
    have "join_with d ((p # hd xs) # tl xs) = p # join_with d xs" if "xs \<noteq> []" for xs
      using that by (cases xs; cases "tl xs") auto
    with False Cons show ?thesis by simp
  qed
qed simp

lemma split_at_append: "split_at d (xs @ d # ys) = split_at d xs @ split_at d ys"
  by (induction xs) auto

definition inside_root :: "points \<Rightarrow> bool" where
  "inside_root path \<longleftrightarrow>
     (\<exists>folder rest. points folder @ rest = path \<and> folder \<in> set ALLOWED_ROOTS \<and> rest \<noteq> [] \<and>
        list_all (\<lambda>segment. segment \<noteq> [] \<and> segment \<noteq> [46, 46] \<and> list_all is_safe_point segment) (split_at 47 rest))"

lemma root_ends: "folder \<in> set ALLOWED_ROOTS \<Longrightarrow> \<exists>base. points folder = base @ [47]"
  by (auto simp: ALLOWED_ROOTS_def points_def ord_def)

lemma allowed_path_inside:
  assumes "path_allowed path"
  shows "path \<in> {points ''README.md'', points ''CHANGELOG.md''} \<or> inside_root path"
proof -
  from assms have safe: "safe_path path" and parts: "[46, 46] \<notin> set (split_at 47 path)"
    by (auto simp: path_allowed_def pure_parts_def list_all_iff)
  from assms consider "path \<in> {points ''README.md'', points ''CHANGELOG.md''}"
    | folder rest where "folder \<in> set ALLOWED_ROOTS" "path = points folder @ rest"
    by (auto simp: path_allowed_def ALLOWED_FILES_def starts_with_any_def list_ex_iff prefix_def)
  then show ?thesis
  proof cases
    case 2
    from root_ends [OF 2(1)] obtain base where "points folder = base @ [47]" by blast
    with 2(2) have "set (split_at 47 rest) \<subseteq> set (split_at 47 path)"
      by (simp add: split_at_append)
    with safe parts have segs: "list_all (\<lambda>segment. segment \<noteq> [] \<and> segment \<noteq> [46, 46] \<and> list_all is_safe_point segment) (split_at 47 rest)"
      unfolding safe_path_def list_all_iff by blast
    moreover from segs have "rest \<noteq> []" by auto
    ultimately show ?thesis using 2 unfolding inside_root_def by blast
  qed blast
qed

text \<open>
  A single dot is not refused, although the policy lists it: the path object drops it before the check.
\<close>

lemma dot_segment_allowed: "path_allowed (points ''docs/./notes.md'')"
  by code_simp

section \<open>The fingerprint scan\<close>

lemma sublist_around: "b \<notin> set tok \<Longrightarrow> sublist tok (xs @ b # ys) \<longleftrightarrow> sublist tok xs \<or> sublist tok ys"
proof
  assume b: "b \<notin> set tok" and "sublist tok (xs @ b # ys)"
  then obtain pre post where eq: "xs @ b # ys = pre @ tok @ post" by (auto simp: sublist_def)
  show "sublist tok xs \<or> sublist tok ys"
  proof (cases "length pre + length tok \<le> length xs")
    case True
    from eq have "take (length pre + length tok) (xs @ b # ys) = pre @ tok" by simp
    with True have "xs = pre @ tok @ drop (length pre + length tok) xs"
      using append_take_drop_id [of "length pre + length tok" xs] by simp
    then have "sublist tok xs" unfolding sublist_def by blast
    then show ?thesis ..
  next
    case False
    have "length xs < length pre"
    proof (rule ccontr)
      assume "\<not> length xs < length pre"
      with False have "length xs - length pre < length tok" "length pre \<le> length xs" by auto
      then have "(pre @ tok @ post) ! length xs = tok ! (length xs - length pre)" by (simp add: nth_append)
      moreover have "(pre @ tok @ post) ! length xs = b" unfolding eq [symmetric] by simp
      ultimately show False using b \<open>length xs - length pre < length tok\<close> by (metis nth_mem)
    qed
    then have "drop (Suc (length xs)) (pre @ tok @ post) = drop (Suc (length xs)) pre @ tok @ post" by simp
    moreover have "drop (Suc (length xs)) (pre @ tok @ post) = ys" unfolding eq [symmetric] by simp
    ultimately show ?thesis by (auto simp: sublist_def)
  qed
next
  assume "sublist tok xs \<or> sublist tok ys"
  then show "sublist tok (xs @ b # ys)"
  proof
    assume "sublist tok xs"
    then obtain pre post where "xs = pre @ tok @ post" by (auto simp: sublist_def)
    then have "xs @ b # ys = pre @ tok @ (post @ b # ys)" by simp
    then show ?thesis unfolding sublist_def by blast
  next
    assume "sublist tok ys"
    then obtain pre post where "ys = pre @ tok @ post" by (auto simp: sublist_def)
    then have "xs @ b # ys = (xs @ b # pre) @ tok @ post" by simp
    then show ?thesis unfolding sublist_def by blast
  qed
qed

lemma chunks_spaceless:
  "list_all (\<lambda>b. \<not> is_space_byte b) current \<Longrightarrow> chunk \<in> set (chunks_from current data) \<Longrightarrow> list_all (\<lambda>b. \<not> is_space_byte b) chunk"
proof (induction data arbitrary: current)
  case (Cons b data)
  from Cons.IH [of "[]"] Cons.IH [of "current @ [b]"] Cons.prems show ?case by (auto split: if_splits)
qed (auto split: if_splits)

lemma sublist_chunks:
  assumes "tok \<noteq> []" "list_all (\<lambda>b. \<not> is_space_byte b) tok"
  shows "(\<exists>chunk\<in>set (chunks_from current data). sublist tok chunk) \<longleftrightarrow> sublist tok (current @ data)"
proof (induction data arbitrary: current)
  case Nil
  show ?case using assms(1) by auto
next
  case (Cons b data)
  show ?case
  proof (cases "is_space_byte b")
    case True
    with assms(2) have "b \<notin> set tok" by (auto simp: list_all_iff)
    with True Cons.IH [of "[]"] assms(1) show ?thesis by (auto simp: sublist_around)
  next
    case False
    with Cons.IH [of "current @ [b]"] show ?thesis by simp
  qed
qed

lemma chunk_has_token_iff:
  "chunk_has_token n digest chunk \<longleftrightarrow> (\<exists>tok. sublist tok chunk \<and> length tok = n \<and> sha256_hex tok = digest)"
proof
  assume "chunk_has_token n digest chunk"
  then obtain k where "n \<le> length chunk" "k \<in> set [0..<length chunk - n + 1]" "sha256_hex (take n (drop k chunk)) = digest"
    unfolding chunk_has_token_def list_ex_iff by blast
  then have k: "n \<le> length chunk" "k \<le> length chunk - n" "sha256_hex (take n (drop k chunk)) = digest" by auto
  have "chunk = take k chunk @ take n (drop k chunk) @ drop n (drop k chunk)" by (simp only: append_take_drop_id)
  then have "sublist (take n (drop k chunk)) chunk" unfolding sublist_def by blast
  moreover from k have "length (take n (drop k chunk)) = n" by simp
  ultimately show "\<exists>tok. sublist tok chunk \<and> length tok = n \<and> sha256_hex tok = digest" using k(3) by blast
next
  assume "\<exists>tok. sublist tok chunk \<and> length tok = n \<and> sha256_hex tok = digest"
  then obtain tok pre post where tok: "chunk = pre @ tok @ post" "length tok = n" "sha256_hex tok = digest"
    by (auto simp: sublist_def)
  then have "take n (drop (length pre) chunk) = tok" "length pre \<in> set [0..<length chunk - n + 1]" "n \<le> length chunk" by auto
  with tok(3) show "chunk_has_token n digest chunk" unfolding chunk_has_token_def list_ex_iff by metis
qed

lemma fingerprint_scan:
  assumes "0 < n"
  shows "contains_fingerprinted_token data (n, digest) \<longleftrightarrow>
    (\<exists>tok. sublist tok data \<and> length tok = n \<and> list_all (\<lambda>b. \<not> is_space_byte b) tok \<and> sha256_hex tok = digest)"
proof -
  have "sublist tok chunk \<Longrightarrow> chunk \<in> set (byte_chunks data) \<Longrightarrow> list_all (\<lambda>b. \<not> is_space_byte b) tok" for tok chunk
    using chunks_spaceless [of "[]" chunk data] by (auto simp: byte_chunks_def sublist_def)
  then show ?thesis
    using assms sublist_chunks [of _ "[]" data]
    unfolding contains_fingerprinted_token_def list_ex_iff chunk_has_token_iff byte_chunks_def fst_conv snd_conv
    by (metis append_Nil length_greater_0_conv)
qed

text \<open>
  C39. The scan for a protected credential is exact: with only the length and the digest of the
  credential, it reports a hit if and only if somewhere in the data there is a run of that many bytes
  without whitespace whose digest is the given one, at whatever offset and inside whatever longer word.
\<close>

theorem fingerprint_scan_exact:
  assumes "0 < n"
  shows "contains_fingerprinted_token data (n, digest) \<longleftrightarrow>
    (\<exists>tok. sublist tok data \<and> length tok = n \<and> list_all (\<lambda>b. \<not> is_space_byte b) tok \<and> sha256_hex tok = digest)"
  using assms by (rule fingerprint_scan)

theorem fingerprint_scan_exact_witness:
  "0 < (2 :: nat) \<and>
   (contains_fingerprinted_token (points ''a b'') (2, sha256_hex (points ''ab'')) \<longleftrightarrow>
     (\<exists>tok. sublist tok (points ''a b'') \<and> length tok = 2 \<and> list_all (\<lambda>b. \<not> is_space_byte b) tok \<and>
        sha256_hex tok = sha256_hex (points ''ab'')))"
  using fingerprint_scan_exact [of 2 "points ''a b''" "sha256_hex (points ''ab'')"] by simp

section \<open>Accepted patches\<close>

lemma distinct_empty: "distinct []"
  by simp

lemma check_headers_ok:
  "check_headers headers seen = Inr paths \<Longrightarrow> distinct seen \<Longrightarrow>
     set paths = set seen \<union> fst ` set headers \<and> distinct paths \<and>
     (\<forall>h\<in>set headers. fst h = snd h \<and> path_allowed (fst h))"
proof (induction headers arbitrary: seen)
  case (Cons h headers)
  then have "check_headers headers (fst h # seen) = Inr paths" "fst h \<notin> set seen" "fst h = snd h" "path_allowed (fst h)"
    by (auto split: if_splits)
  with Cons.IH [of "fst h # seen"] Cons.prems(2) show ?case by auto
qed simp

text \<open>The lines of a patch stay within the paths: every header and every file marker names one of them.\<close>

definition patch_within :: "points list \<Rightarrow> points \<Rightarrow> bool" where
  "patch_within paths patch \<longleftrightarrow>
     (\<forall>line\<in>set (split_at 10 patch).
        (\<forall>(left, right)\<in>set (diff_header line). left = right \<and> left \<in> set paths) \<and>
        (\<forall>(old, path)\<in>set (file_marker line). path = points ''/dev/null'' \<or>
           (\<exists>p\<in>set paths. path = points (if old then ''a/'' else ''b/'') @ p)))"

lemma marker_ok:
  assumes "okR (check_marker seen marker)"
  shows "snd marker = points ''/dev/null'' \<or> (\<exists>p\<in>set seen. snd marker = points (if fst marker then ''a/'' else ''b/'') @ p)"
proof -
  let ?start = "points (if fst marker then ''a/'' else ''b/'')"
  have "length ?start = 2" by (simp add: points_def)
  with assms show ?thesis
    by (auto simp: check_marker_def Let_def prefix_def split: if_splits)
qed

lemma accepted_patch:
  assumes "validate_patch_text env raw = Inr paths"
  shows "\<exists>patch. utf8_decode raw = Some patch \<and> patch_within paths patch \<and> sorted paths \<and> distinct paths \<and>
    paths \<noteq> [] \<and> length paths \<le> 12 \<and> list_all path_allowed paths \<and>
    \<not> list_ex (\<lambda>token. occurs_in (points token) patch) FORBIDDEN_DIRECTIVES"
proof -
  from assms obtain patch where patch: "utf8_decode raw = Some patch"
    unfolding validate_patch_text_def bindR_eq_Inr by (auto split: option.splits)
  let ?headers = "concat (map diff_header (split_at 10 patch))"
  from assms patch obtain seen where parts: "?headers \<noteq> []" "length ?headers \<le> MAX_FILES" "check_headers ?headers [] = Inr seen"
      "okR (forR (concat (map file_marker (split_at 10 patch))) (check_marker seen))"
      "\<not> list_ex (\<lambda>token. occurs_in (points token) patch) FORBIDDEN_DIRECTIVES" "paths = sort seen"
    unfolding validate_patch_text_def by (auto simp: bindR_eq_Inr Let_def okR_iff)
  have headers: "set seen = fst ` set ?headers" "distinct seen"
    "\<forall>h\<in>set ?headers. fst h = snd h \<and> path_allowed (fst h)"
    using check_headers_ok [OF parts(3) distinct_empty] unfolding list.set(1) Un_empty_left by blast+
  have "length seen \<le> length ?headers"
    using headers(1,2) by (metis card_image_le card_length distinct_card le_trans List.finite_set)
  then have "length paths \<le> 12" using parts(2,6) by (simp add: MAX_FILES_def)
  moreover have "patch_within paths patch"
    unfolding patch_within_def
  proof (intro ballI conjI)
    fix line assume line: "line \<in> set (split_at 10 patch)"
    show "case h of (left, right) \<Rightarrow> left = right \<and> left \<in> set paths" if "h \<in> set (diff_header line)" for h
    proof -
      from that line have h: "h \<in> set ?headers" by auto
      then have "fst h \<in> set paths" unfolding parts(6) set_sort headers(1) by (rule imageI)
      moreover from h headers(3) have "fst h = snd h" by blast
      ultimately show ?thesis by (simp add: split_beta)
    qed
    show "case m of (old, path) \<Rightarrow> path = points ''/dev/null'' \<or>
        (\<exists>p\<in>set paths. path = points (if old then ''a/'' else ''b/'') @ p)" if "m \<in> set (file_marker line)" for m
      using that line parts(4,6) marker_ok [of seen m] by (auto simp: okR_forR split: prod.split)
  qed
  moreover have "seen \<noteq> []" using headers(1) parts(1) by (metis image_is_empty set_empty)
  then have "paths \<noteq> []" using parts(6) by (metis length_0_conv length_sort)
  moreover have "list_all path_allowed paths"
    unfolding list_all_iff parts(6) set_sort headers(1) using headers(3) by (metis imageE)
  ultimately show ?thesis using patch parts(5,6) headers(2) by auto
qed


text \<open>A small patch of three files, in an environment without a protected credential.\<close>

definition plain_env :: guard_env where "plain_env = \<lparr>ge_secret = [], ge_fingerprints = [], ge_output = []\<rparr>"

definition sample_paths :: "points list" where
  "sample_paths = map points [''CHANGELOG.md'', ''deploy/templates/a'', ''services/account_unification/tests/t'']"

definition sample_patch :: bytes where
  "sample_patch = concat (map (\<lambda>path. points ''diff --git a/'' @ path @ points '' b/'' @ path @ [10]) sample_paths)"

lemma plain_scan [simp]: "reject_forbidden_tokens plain_env data label = Inr ()"
  by (simp add: reject_forbidden_tokens_def forbidden_tokens_def forbidden_fingerprints_def plain_env_def Let_def)

lemmas sample_paths_eval = sample_paths_def points_def ord_def split_at.simps(2)

lemmas sample_patch_eval = sample_patch_def sample_paths_eval

lemma sample_paths_allowed: "list_all path_allowed sample_paths"
  by (simp add: sample_paths_eval path_allowed_def safe_path_def is_safe_point_def pure_parts_def starts_with_any_def
      ALLOWED_ROOTS_def ALLOWED_FILES_def del: split_at_Cons)

lemma sample_paths_vertical: "require_product_vertical sample_paths = Inr ()"
  by (simp add: sample_paths_eval require_product_vertical_def starts_with_any_def PRODUCTION_ROOTS_def TEST_ROOT_def)

lemma sample_paths_sorted: "sort sample_paths = sample_paths" "sort (rev sample_paths) = sample_paths" "distinct sample_paths"
  by (simp_all add: sample_paths_eval)

lemma sample_headers: "concat (map diff_header (split_at 10 sample_patch)) = map (\<lambda>p. (p, p)) sample_paths"
  by (simp add: sample_patch_eval diff_header_def del: split_at_Cons)

lemma sample_checked: "check_headers (map (\<lambda>p. (p, p)) sample_paths) [] = Inr (rev sample_paths)"
  using sample_paths_allowed sample_paths_sorted(3) by (auto simp: sample_paths_def)

lemma sample_markers:
  "concat (map file_marker (split_at 10 sample_patch)) = []" "concat (map new_file_mode (split_at 10 sample_patch)) = []"
  by (simp_all add: sample_patch_eval file_marker_def new_file_mode_def Let_def del: split_at_Cons)

lemma sample_directives: "\<not> list_ex (\<lambda>token. occurs_in (points token) sample_patch) FORBIDDEN_DIRECTIVES"
  by (simp add: sample_patch_eval FORBIDDEN_DIRECTIVES_def)

lemma utf8_decode_plain: "list_all (\<lambda>b. b < 128) bs \<Longrightarrow> utf8_decode bs = Some bs"
  by (induction bs) auto

lemma sample_plain: "length sample_patch \<le> MAX_PATCH_BYTES" "utf8_decode sample_patch = Some sample_patch"
  by (simp_all add: sample_patch_eval MAX_PATCH_BYTES_def utf8_decode_plain)

lemma sample_accepted: "validate_patch_text plain_env sample_patch = Inr sample_paths"
  by (simp add: validate_patch_text_def sample_plain sample_headers sample_markers sample_directives sample_checked
      sample_paths_sorted sample_paths_vertical Let_def MAX_FILES_def del: concat_eq_Nil_conv)
    (simp add: sample_paths_def)


text \<open>
  A header whose names are quoted, as Git writes and reads them, is no header for these checks: it may
  stand in an accepted patch, and only the check of the materialised worktree meets its path.
\<close>

lemma quoted_header_unseen: "diff_header (points ''diff --git '' @ 34 # rest) = [] \<and> file_marker (points ''diff --git '' @ 34 # rest) = []"
  by (simp add: diff_header_def file_marker_def points_def ord_def)

end
