(* ===== verification/PatchGuard_Events.thy ===== *)
theory PatchGuard_Events
  imports PatchGuard_Theorems
begin

text \<open>
  What the guard's commands do to the outside: every process is one of a closed list that can neither run
  a program of the untrusted workspace nor touch its own index, and a patch is written to a checkout
  only after digest, base commit and paths of the sealed proposal have been matched.
\<close>

section \<open>Events of an action\<close>

text \<open>All events that an action adds, whether it returns or raises, satisfy a predicate.\<close>

definition emits :: "(event \<Rightarrow> bool) \<Rightarrow> ('w guarded, 'a) action \<Rightarrow> bool" where
  "emits P m \<longleftrightarrow> (\<forall>s. \<exists>evs. gd_events (snd (m s)) = gd_events s @ evs \<and> list_all P evs)"

named_theorems emits_rules

lemma emits_quiet: "(\<And>s. gd_events (snd (m s)) = gd_events s) \<Longrightarrow> emits P m"
  unfolding emits_def by (metis append_Nil2 list.pred_inject(1))

lemma emits_pure [emits_rules]:
  "emits P (returnA x)" "emits P (raiseA e)" "emits P (liftA r)" "emits P (lookA f)" "emits P (readA g)"
  by (auto intro!: emits_quiet simp: lookA_def)

lemma emits_bind [emits_rules]:
  assumes "emits P m" "\<And>x. emits P (f x)"
  shows "emits P (bindA m f)"
  unfolding emits_def
proof
  fix s
  from assms(1) obtain evs where evs: "gd_events (snd (m s)) = gd_events s @ evs" "list_all P evs" unfolding emits_def by blast
  obtain r t where ms: "m s = (r, t)" by (cases "m s")
  show "\<exists>evs. gd_events (snd (bindA m f s)) = gd_events s @ evs \<and> list_all P evs"
  proof (cases r)
    case (Inl e)
    with ms evs show ?thesis by auto
  next
    case (Inr x)
    from assms(2) obtain evs' where "gd_events (snd (f x t)) = gd_events t @ evs'" "list_all P evs'" unfolding emits_def by blast
    with ms evs Inr show ?thesis by (intro exI [of _ "evs @ evs'"]) simp
  qed
qed

lemma emits_effect: "P ev \<Longrightarrow> emits P (effectA ev f)"
  unfolding emits_def effectA_def by auto

lemma emits_run: "P (Ran iv) \<Longrightarrow> emits P (run_process m iv)"
  unfolding emits_def run_process_def by (auto split: prod.splits)

lemma emits_if [emits_rules]: "emits P a \<Longrightarrow> emits P b \<Longrightarrow> emits P (if c then a else b)"
  by simp

lemma emits_prod [emits_rules]: "(\<And>a b. emits P (f a b)) \<Longrightarrow> emits P (case p of (a, b) \<Rightarrow> f a b)"
  by (cases p) simp

lemma emits_map [emits_rules]: "(\<And>x. emits P (f x)) \<Longrightarrow> emits P (mapA f xs)"
  by (induction xs) (auto intro!: emits_rules)

lemma emits_checked: "P (Ran iv) \<Longrightarrow> emits P (run_checked m iv)"
  unfolding run_checked_def by (intro emits_rules emits_run)

lemma emits_text: "P (Ran iv) \<Longrightarrow> emits P (run_text m iv)"
  unfolding run_text_def by (intro emits_rules emits_checked)

lemma emits_mono: "emits P m \<Longrightarrow> (\<And>ev. P ev \<Longrightarrow> Q ev) \<Longrightarrow> emits Q m"
  unfolding emits_def by (metis list.pred_mono_strong)

lemma emits_run_events:
  assumes "emits P m" "m s = (r, s')"
  obtains evs where "gd_events s' = gd_events s @ evs" "list_all P evs"
  using assms unfolding emits_def by (metis snd_conv)

section \<open>What is run\<close>

text \<open>
  A Git command on the alternate index that only reads the workspace: it fills that index, or it is a
  diff that runs neither an external diff program nor a text conversion.
\<close>

definition safe_args :: "string list \<Rightarrow> bool" where
  "safe_args args \<longleftrightarrow>
     take 1 args \<in> {[''read-tree''], [''ls-files'']} \<or> take 2 args = [''add'', ''-N''] \<or>
     take 1 args = [''diff''] \<and> ''--no-ext-diff'' \<in> set args \<and> ''--no-textconv'' \<in> set args"

definition safe_git :: "string list \<Rightarrow> string \<Rightarrow> event \<Rightarrow> bool" where
  "safe_git git index_file ev \<longleftrightarrow>
     (case ev of
        Ran iv \<Rightarrow> \<exists>args. iv = indexed git args index_file \<and> safe_args args
      | Wrote path _ \<Rightarrow> path = with_suffix index_file ''.pathspec''
      | Removed path \<Rightarrow> path = index_file
      | _ \<Rightarrow> False)"

lemma safe_git_indexed: "safe_args args \<Longrightarrow> safe_git git index_file (Ran (indexed git args index_file))"
  by (auto simp: safe_git_def)

lemma emits_prepare: "emits (safe_git git index_file) (prepare_diff_index m git head index_file)"
  unfolding prepare_diff_index_def remove_file_def write_file_def Let_def
  by (intro emits_rules emits_checked emits_effect safe_git_indexed) (simp_all add: safe_git_def safe_args_def)

lemma emits_check_file: "emits P (check_file m env workspace name)"
  unfolding check_file_def Let_def by (intro emits_rules)

lemma emits_validate: "emits (safe_git git index_file) (validate_worktree_diff m env workspace git index_file)"
  unfolding validate_worktree_diff_def changed_paths_def nul_names_def
  by (intro emits_rules emits_checked emits_text emits_check_file safe_git_indexed) (simp_all add: safe_args_def DIFF_SAFETY_def)

lemma emits_any: "emits (\<lambda>_. True) (prepare_diff_index m git head index_file)"
    "emits (\<lambda>_. True) (validate_worktree_diff m env workspace git index_file)"
  using emits_prepare emits_validate by (blast intro: emits_mono)+

text \<open>Everything a capture does to the outside.\<close>

definition capture_event :: "capture_args \<Rightarrow> event \<Rightarrow> bool" where
  "capture_event a ev \<longleftrightarrow>
     safe_git (capture_git a) (with_suffix (ca_patch_file a) ''.index'') ev \<or> ev = Ran (baseline_head a) \<or>
     ev = Removed (ca_workspace a @ ''/PR_MESSAGE.md'') \<or>
     (\<exists>data. ev = Wrote (ca_patch_file a) data \<or> ev = Wrote (ca_stat_file a) data) \<or> (\<exists>p. ev = Sealed (ca_proposal_file a) p)"

lemma emits_read_proposal: "P (Removed (workspace @ ''/PR_MESSAGE.md'')) \<Longrightarrow> emits P (read_proposal m env workspace)"
  unfolding read_proposal_def remove_file_def Let_def PROPOSAL_FILENAME_def by (intro emits_rules emits_effect) simp

lemma emits_capture: "emits (capture_event a) (capture m env a)"
proof -
  let ?git = "capture_git a" and ?index = "with_suffix (ca_patch_file a) ''.index''"
  have git: "emits (safe_git ?git ?index) act \<Longrightarrow> emits (capture_event a) act" for act :: "('w guarded, 'x) action"
    by (erule emits_mono) (simp add: capture_event_def)
  have run: "safe_args args \<Longrightarrow> capture_event a (Ran (indexed ?git args ?index))" for args
    by (simp add: capture_event_def safe_git_indexed)
  show ?thesis
    unfolding capture_def write_file_def write_proposal_def Let_def
    by (intro emits_rules emits_text emits_checked emits_run emits_effect emits_read_proposal git [OF emits_prepare] git [OF emits_validate] run)
      (auto simp: capture_event_def safe_args_def DIFF_SAFETY_def)
qed


section \<open>Sealed application\<close>

text \<open>A run in which an event is still missing at the start and there in the end.\<close>

definition reaches :: "event \<Rightarrow> ('w guarded, 'a) action \<Rightarrow> 'w guarded \<Rightarrow> 'a result \<Rightarrow> 'w guarded \<Rightarrow> bool" where
  "reaches ev act s r s' \<longleftrightarrow> act s = (r, s') \<and> ev \<notin> set (gd_events s) \<and> ev \<in> set (gd_events s')"

text \<open>Steps that do not emit the event must have succeeded.\<close>

lemma reaches_look:
  assumes "reaches ev (bindA (lookA f) g) s r s'"
  obtains x where "f (gd_world s) = Inr x" "reaches ev (g x) s r s'"
  using assms unfolding reaches_def by (cases "f (gd_world s)") (auto simp: lookA_def bindA_def)

lemma reaches_lift:
  assumes "reaches ev (bindA (liftA q) g) s r s'"
  obtains x where "q = Inr x" "reaches ev (g x) s r s'"
  using assms unfolding reaches_def by (cases q) auto

lemma run_checked_cases:
  "run_checked m iv s =
     (if fst (fst (mc_run m iv (gd_world s))) = 0 then Inr (snd (fst (mc_run m iv (gd_world s)))) else Inl (OtherError ''CalledProcessError''),
      s\<lparr>gd_world := snd (mc_run m iv (gd_world s)), gd_events := gd_events s @ [Ran iv]\<rparr>)"
  by (cases "mc_run m iv (gd_world s)") (auto simp: run_checked_def run_process_def bindA_def)

lemma reaches_checked:
  assumes "reaches ev (bindA (run_checked m iv) g) s r s'" "Ran iv \<noteq> ev"
  obtains out t where "out = snd (fst (mc_run m iv (gd_world s)))" "gd_world t = snd (mc_run m iv (gd_world s))"
    "gd_events t = gd_events s @ [Ran iv]" "reaches ev (g out) t r s'"
proof (rule that)
  let ?t = "s\<lparr>gd_world := snd (mc_run m iv (gd_world s)), gd_events := gd_events s @ [Ran iv]\<rparr>"
  show "snd (fst (mc_run m iv (gd_world s))) = snd (fst (mc_run m iv (gd_world s)))" ..
  show "gd_world ?t = snd (mc_run m iv (gd_world s))" "gd_events ?t = gd_events s @ [Ran iv]" by simp_all
  show "reaches ev (g (snd (fst (mc_run m iv (gd_world s))))) ?t r s'"
    using assms unfolding reaches_def by (auto simp: bindA_def run_checked_cases split: if_splits)
qed

lemma reaches_text:
  assumes "reaches ev (bindA (run_text m iv) g) s r s'" "Ran iv \<noteq> ev"
  obtains x t where "decode_text (snd (fst (mc_run m iv (gd_world s)))) = Inr x"
    "gd_world t = snd (mc_run m iv (gd_world s))" "gd_events t = gd_events s @ [Ran iv]" "reaches ev (g x) t r s'"
proof -
  from assms(1) have "reaches ev (bindA (run_checked m iv) (\<lambda>out. bindA (liftA (decode_text out)) g)) s r s'"
    by (simp add: run_text_def bindA_assoc)
  from reaches_checked [OF this assms(2)] obtain out t where t: "out = snd (fst (mc_run m iv (gd_world s)))"
      "gd_world t = snd (mc_run m iv (gd_world s))" "gd_events t = gd_events s @ [Ran iv]"
      "reaches ev (bindA (liftA (decode_text out)) g) t r s'" .
  from reaches_lift [OF t(4)] obtain x where "decode_text out = Inr x" "reaches ev (g x) t r s'" .
  with t that show ?thesis by blast
qed

text \<open>The step that emits it leaves it right after what was there before.\<close>

lemma reaches_here:
  assumes "reaches ev (bindA (run_checked m iv) g) s r s'" "\<And>x. emits (\<lambda>_. True) (g x)"
  shows "\<exists>rest. gd_events s' = gd_events s @ Ran iv # rest"
proof -
  let ?t = "s\<lparr>gd_world := snd (mc_run m iv (gd_world s)), gd_events := gd_events s @ [Ran iv]\<rparr>"
  from assms(1) consider "s' = ?t" | x where "g x ?t = (r, s')"
    unfolding reaches_def by (auto simp: bindA_def run_checked_cases split: if_splits)
  then show ?thesis
  proof cases
    case 2
    from emits_run_events [OF assms(2) 2] show ?thesis by auto
  qed simp
qed

lemma invocations_differ: "checkout_head a \<noteq> apply_write a" "apply_check a \<noteq> apply_write a"
  by (simp_all add: checkout_head_def apply_check_def apply_write_def in_checkout_def)

text \<open>The two queries before the patch is written leave its file alone.\<close>

definition quiet_queries :: "'w machine \<Rightarrow> apply_args \<Rightarrow> bool" where
  "quiet_queries m a \<longleftrightarrow>
     (\<forall>iv\<in>{checkout_head a, apply_check a}. \<forall>w. mc_read m (aa_patch_file a) (snd (mc_run m iv w)) = mc_read m (aa_patch_file a) w)"

text \<open>What was established when the patch is about to be written in the state \<open>t\<close>.\<close>

definition sealed_before :: "'w machine \<Rightarrow> guard_env \<Rightarrow> apply_args \<Rightarrow> 'w guarded \<Rightarrow> 'w guarded \<Rightarrow> bool" where
  "sealed_before m env a s t \<longleftrightarrow>
     (\<exists>envelope proposal patch head.
        mc_read m (aa_proposal_file a) (gd_world s) = Inr envelope \<and>
        load_proposal env (length envelope) (mc_json m envelope) = Inr proposal \<and>
        mc_read m (aa_patch_file a) (gd_world t) = Inr patch \<and> sha256_hex patch = pp_patch_sha256 proposal \<and>
        decode_text (snd (fst (mc_run m (checkout_head a) (gd_world s)))) = Inr head \<and>
        strip_points head = points (pp_base_sha proposal) \<and>
        validate_patch_text env patch = Inr (pp_changed_paths proposal) \<and>
        gd_events t = gd_events s @ [Ran (checkout_head a), Ran (apply_check a)])"

lemma sealed_beforeI:
  assumes "quiet_queries m a" and "mc_read m (aa_proposal_file a) (gd_world s) = Inr envelope"
    "load_proposal env (length envelope) (mc_json m envelope) = Inr proposal"
    "mc_read m (aa_patch_file a) (gd_world s) = Inr patch" "requireR (sha256_hex patch = pp_patch_sha256 proposal) e1 = Inr u1"
    and "decode_text (snd (fst (mc_run m (checkout_head a) (gd_world s)))) = Inr head"
    "gd_world t1 = snd (mc_run m (checkout_head a) (gd_world s))" "gd_events t1 = gd_events s @ [Ran (checkout_head a)]"
    and "requireR (strip_points head = points (pp_base_sha proposal)) e2 = Inr u2"
    "mc_read m (aa_patch_file a) (gd_world t1) = Inr raw" "validate_patch_text env raw = Inr paths"
    "requireR (paths = pp_changed_paths proposal) e3 = Inr u3"
    and "gd_world t = snd (mc_run m (apply_check a) (gd_world t1))" "gd_events t = gd_events t1 @ [Ran (apply_check a)]"
  shows "sealed_before m env a s t"
proof -
  have "mc_read m (aa_patch_file a) (gd_world t) = Inr patch" "raw = patch"
    using assms(1,4,7,10,13) unfolding quiet_queries_def by auto
  with assms show ?thesis unfolding sealed_before_def by auto
qed

lemma apply_reaches_write:
  assumes run: "reaches (Ran (apply_write a)) (apply_patch m env a) s r s'" and quiet: "quiet_queries m a"
  shows "\<exists>t. sealed_before m env a s t \<and> (\<exists>rest. gd_events s' = gd_events t @ Ran (apply_write a) # rest)"
proof -
  have differ: "Ran (checkout_head a) \<noteq> Ran (apply_write a)" "Ran (apply_check a) \<noteq> Ran (apply_write a)"
    using invocations_differ by simp_all
  show ?thesis
    using run unfolding apply_patch_def Let_def
    apply (elim reaches_look reaches_lift reaches_text [OF _ differ(1)] reaches_checked [OF _ differ(2)])
    apply (drule reaches_here)
     apply (intro emits_rules emits_any)
    apply (rule exI, rule conjI)
     apply (rule sealed_beforeI [OF quiet]; assumption)
    by assumption
qed

end
