(* ===== verification/PatchGuard_Envelope.thy ===== *)
theory PatchGuard_Envelope
  imports PatchGuard_Events
begin

text \<open>
  From the capturing job to the applying one: what is scanned as a whole is scanned in each of its
  parts, the envelope that \<open>capture\<close> writes is one that \<open>_load_proposal\<close> accepts and reads back, and a patch
  is applied only as it was sealed. Sample runs of both commands and the self-test close the theory.
\<close>

section \<open>Scans of parts\<close>

lemma occurs_in_sublist: "occurs_in tok data \<longleftrightarrow> sublist tok data"
  by (induction data) (auto simp: sublist_Cons_right)

lemma fingerprint_positive:
  assumes "forbidden_fingerprints env = Inr fps" "fp \<in> set fps"
  shows "0 < fst fp"
proof -
  have parsed: "0 < fst fp" if "parse_fingerprint item = Inr fp" for item
    using that by (auto simp: parse_fingerprint_def bindR_eq_Inr split: list.splits option.splits)
  from assms have "\<exists>items. mapR parse_fingerprint items = Inr fps"
    by (auto simp: forbidden_fingerprints_def split: if_splits intro: exI [of _ "[]"])
  with assms(2) parsed show ?thesis by (auto simp: mapR_Inr_iff list_all2_conv_all_nth in_set_conv_nth)
qed

lemma scan_part:
  assumes "okR (reject_forbidden_tokens env data label)" "sublist part data"
  shows "okR (reject_forbidden_tokens env part label')"
proof -
  from assms(1) obtain fps where fps: "forbidden_fingerprints env = Inr fps"
    and clean: "\<not> list_ex (\<lambda>token. occurs_in token data) (forbidden_tokens env)" "\<not> list_ex (contains_fingerprinted_token data) fps"
    by (auto simp: reject_forbidden_tokens_def Let_def okR_bindR)
  have pos: "0 < fst fp" if "fp \<in> set fps" for fp
    using fps that by (rule fingerprint_positive)
  have "\<not> list_ex (contains_fingerprinted_token part) fps"
  proof
    assume "list_ex (contains_fingerprinted_token part) fps"
    then obtain fp where fp: "fp \<in> set fps" "contains_fingerprinted_token part fp" by (auto simp: list_ex_iff)
    with pos fingerprint_scan [of "fst fp" part "snd fp"] fingerprint_scan [of "fst fp" data "snd fp"] assms(2)
    have "contains_fingerprinted_token data fp" by (metis prod.collapse sublist_order.order_trans)
    with fp(1) clean(2) show False by (auto simp: list_ex_iff)
  qed
  moreover have "\<not> list_ex (\<lambda>token. occurs_in token part) (forbidden_tokens env)"
    using clean(1) assms(2) by (auto simp: list_ex_iff occurs_in_sublist dest: sublist_order.order_trans)
  ultimately show ?thesis using fps by (simp add: reject_forbidden_tokens_def okR_bindR)
qed

section \<open>The title and the body\<close>

lemma utf8_points_sublist: "sublist ps qs \<Longrightarrow> sublist (utf8_points ps) (utf8_points qs)"
proof -
  assume "sublist ps qs"
  then obtain us vs where "qs = us @ ps @ vs" by (auto simp: sublist_def)
  then have "utf8_points qs = utf8_points us @ utf8_points ps @ utf8_points vs" by (simp add: utf8_points_def)
  then show ?thesis by simp
qed

lemma strip_points_sublist: "sublist (strip_points ps) ps"
proof -
  have drop: "sublist (dropWhile P qs) qs" for P and qs :: points
    by (rule suffix_imp_sublist) (rule suffix_dropWhile)
  have "sublist (strip_points ps) (dropWhile is_space_point ps)"
    unfolding strip_points_def using drop [of is_space_point "rev (dropWhile is_space_point ps)"] by (metis rev_rev_ident sublist_rev)
  then show ?thesis using drop by (rule sublist_order.order_trans)
qed

lemma hd_split_at: "hd (split_at d ps) = takeWhile (\<lambda>p. p \<noteq> d) ps"
  by (induction ps) auto

lemma first_line: "takeWhile (\<lambda>p. p \<noteq> 10) (normalize_newlines ps) = takeWhile (\<lambda>p. p \<noteq> 10 \<and> p \<noteq> 13) ps"
  by (induction ps rule: normalize_newlines.induct) auto

text \<open>The candidate for the title is a contiguous part of the file.\<close>

lemma candidate_sublist:
  "sublist (strip_points (dropWhile (\<lambda>p. p = 35) (hd (split_at 10 (normalize_newlines text))))) text"
proof -
  let ?first = "hd (split_at 10 (normalize_newlines text))"
  have "sublist ?first text"
    unfolding hd_split_at first_line by (rule prefix_imp_sublist) (rule takeWhile_is_prefix)
  moreover have "sublist (dropWhile (\<lambda>p. p = 35) ?first) ?first"
    by (rule suffix_imp_sublist) (rule suffix_dropWhile)
  ultimately show ?thesis using strip_points_sublist by (metis sublist_order.order_trans)
qed

text \<open>What a captured title and body promise, given a scan of the two default texts.\<close>

definition proposal_text_ok :: "guard_env \<Rightarrow> points \<Rightarrow> points \<Rightarrow> bool" where
  "proposal_text_ok env title body \<longleftrightarrow>
     title \<noteq> [] \<and> length title \<le> MAX_TITLE_CHARACTERS \<and> length (utf8_points body) \<le> MAX_BODY_BYTES \<and>
     (\<forall>label. okR (reject_forbidden_tokens env (utf8_points title) label) \<and> okR (reject_forbidden_tokens env (utf8_points body) label))"

definition defaults_clean :: "guard_env \<Rightarrow> bool" where
  "defaults_clean env \<longleftrightarrow>
     okR (reject_forbidden_tokens env (utf8_points default_title) []) \<and> okR (reject_forbidden_tokens env (utf8_points default_body) [])"

lemma length_utf8_points: "length (utf8_points ps) \<le> 4 * length ps"
  by (induction ps) (auto simp: utf8_points_def utf8_point_def)

lemma default_texts_ok: "defaults_clean env \<Longrightarrow> proposal_text_ok env default_title default_body"
proof -
  assume "defaults_clean env"
  moreover have "default_title \<noteq> []" "length default_title \<le> MAX_TITLE_CHARACTERS" "length (utf8_points default_body) \<le> MAX_BODY_BYTES"
    using length_utf8_points [of default_body]
    by (simp_all add: default_title_def default_body_def points_def MAX_TITLE_CHARACTERS_def MAX_BODY_BYTES_def)
  ultimately show ?thesis
    unfolding proposal_text_ok_def defaults_clean_def using scan_part [OF _ sublist_order.order_refl] by blast
qed

lemma read_proposal_ok:
  assumes "read_proposal m env workspace s = (Inr (title, body), s')" "defaults_clean env"
  shows "proposal_text_ok env title body"
proof (cases "mc_exists m (workspace @ ''/'' @ PROPOSAL_FILENAME) (gd_world s)")
  case False
  with assms show ?thesis by (simp add: read_proposal_def Let_def default_texts_ok)
next
  case True
  with assms(1) obtain raw content where parts: "okR (reject_forbidden_tokens env raw PROPOSAL_FILENAME)"
      "utf8_decode raw = Some content"
      "proposal_title (split_at 10 (normalize_newlines content)) = Inr title"
      "proposal_body env (split_at 10 (normalize_newlines content)) = Inr body"
    by (auto simp: read_proposal_def bindA_Inr Let_def okR_iff lookA_def split: option.splits if_splits simp del: bindA_basic(3))
  have scanned: "okR (reject_forbidden_tokens env (utf8_points part) label)" if "sublist part content" for part label
    using scan_part [OF parts(1) utf8_points_sublist [OF that, unfolded utf8_points_decode [OF parts(2)]]] .
  obtain first rest where lines: "split_at 10 (normalize_newlines content) = first # rest"
    by (metis hd_tl_split)
  let ?candidate = "strip_points (dropWhile (\<lambda>p. p = 35) first)"
  have "sublist ?candidate content" using candidate_sublist [of content] by (simp add: lines)
  moreover from parts(3) have "title = or_points ?candidate default_title" "length title \<le> MAX_TITLE_CHARACTERS"
    unfolding proposal_title_def lines by (auto simp: Let_def bindR_eq_Inr)
  moreover from parts(4) have "length (utf8_points body) \<le> MAX_BODY_BYTES"
      "okR (reject_forbidden_tokens env (utf8_points body) ''proposal body'')"
    unfolding proposal_body_def by (auto simp: Let_def bindR_eq_Inr okR_iff)
  ultimately show ?thesis
    using scanned default_texts_ok [OF assms(2)] scan_part [OF _ sublist_order.order_refl]
    unfolding proposal_text_ok_def or_points_def by (auto split: if_splits)
qed

section \<open>The envelope\<close>

lemma mapA_Inr_allowed:
  "mapA (check_file m env workspace) names s = (Inr sizes, s') \<Longrightarrow> list_all path_allowed names"
proof (induction names arbitrary: s sizes)
  case (Cons name names)
  then obtain n t ns where one: "check_file m env workspace name s = (Inr n, t)"
    and rest: "mapA (check_file m env workspace) names t = (Inr ns, s')"
    by (auto simp: bindA_Inr)
  from one have "path_allowed name" by (auto simp: check_file_def bindA_Inr simp del: bindA_basic(3))
  with Cons.IH [OF rest] show ?case by simp
qed simp

lemma worktree_ok:
  assumes "validate_worktree_diff m env workspace git index_file s = (Inr names, s')"
  shows "names \<noteq> [] \<and> length names \<le> MAX_FILES \<and> list_all path_allowed names \<and> okR (require_product_vertical names)"
proof -
  from assms obtain sizes t t' where "names \<noteq> []" "length names \<le> MAX_FILES"
      "mapA (check_file m env workspace) names t = (Inr sizes, t')" "okR (require_product_vertical names)"
    unfolding validate_worktree_diff_def by (auto simp: bindA_Inr okR_iff split: prod.splits simp del: bindA_basic(3))
  with mapA_Inr_allowed show ?thesis by blast
qed

lemma points_char: "list_all (\<lambda>p. p < 256) ps \<Longrightarrow> points (map char_of ps) = ps"
  by (induction ps) (auto simp: points_def)

lemma utf8_encode_char: "list_all (\<lambda>p. p < 256) ps \<Longrightarrow> utf8_encode (map char_of ps) = utf8_points ps"
  by (induction ps) (auto simp: utf8_encode_def utf8_points_def utf8_char_def utf8_point_def)

lemma allowed_small:
  assumes "path_allowed path"
  shows "list_all (\<lambda>p. p < 256) path"
proof -
  have "set path \<subseteq> {d} \<union> \<Union> (set ` set (split_at d path))" for d
  proof (induction path)
    case (Cons p ps)
    then show ?case by (cases "split_at d ps") auto
  qed simp
  from this [of 47] assms have "p = 47 \<or> is_safe_point p" if "p \<in> set path" for p
    using that by (auto simp: path_allowed_def safe_path_def list_all_iff)
  then show ?thesis by (force simp: list_all_iff is_safe_point_def)
qed

lemma vertical_set: "set ps = set qs \<Longrightarrow> require_product_vertical ps = require_product_vertical qs"
  by (simp add: require_product_vertical_def list_ex_iff)

lemma envelope_loads:
  assumes "is_commit_sha (pp_base_sha proposal)" "pp_patch_sha256 proposal = sha256_hex patch"
    and texts: "proposal_text_ok env (pp_title proposal) (pp_body proposal)"
    and paths: "pp_changed_paths proposal \<noteq> []" "list_all path_allowed (pp_changed_paths proposal)"
      "sorted (pp_changed_paths proposal)" "distinct (pp_changed_paths proposal)"
      "okR (require_product_vertical (pp_changed_paths proposal))"
    and small: "list_all (\<lambda>p. p < 256) (pp_title proposal)" "list_all (\<lambda>p. p < 256) (pp_body proposal)"
    and bound: "byte_size \<le> MAX_BODY_BYTES + 4096"
  shows "load_proposal env byte_size (Some (proposal_json proposal)) = Inr proposal"
proof -
  have items: "text_items (map (\<lambda>path. JStr (map char_of path)) ps) = Some (map (map char_of) ps)" for ps :: "points list"
    by (induction ps) (auto simp: text_items_def)
  have again: "map points (map (map char_of) (pp_changed_paths proposal)) = pp_changed_paths proposal"
    using paths(2) by (simp add: list_all_iff map_idI points_char [OF allowed_small])
  have "changed_path_list (JArr (map (\<lambda>path. JStr (map char_of path)) (pp_changed_paths proposal))) = Inr (pp_changed_paths proposal)"
    unfolding changed_path_list_def using paths by (simp add: items again Let_def del: map_map)
  moreover have "bounded_title (JStr (map char_of (pp_title proposal))) = Inr (map char_of (pp_title proposal))"
    using texts by (simp add: bounded_title_def proposal_text_ok_def)
  moreover have "bounded_body (JStr (map char_of (pp_body proposal))) = Inr (map char_of (pp_body proposal))"
    using texts small by (simp add: bounded_body_def proposal_text_ok_def utf8_encode_char)
  moreover have "hex_text 40 m (JStr (pp_base_sha proposal)) = Inr (pp_base_sha proposal)"
    "hex_text 64 m (JStr (pp_patch_sha256 proposal)) = Inr (pp_patch_sha256 proposal)" for m
    using assms(1,2) by (simp_all add: hex_text_def is_commit_sha_def length_sha256_hex sha256_hex_digits)
  moreover obtain u v w where "require_product_vertical (pp_changed_paths proposal) = Inr u"
      "reject_forbidden_tokens env (utf8_points (pp_title proposal)) ''proposal title'' = Inr v"
      "reject_forbidden_tokens env (utf8_points (pp_body proposal)) ''proposal body'' = Inr w"
    using paths(5) texts unfolding proposal_text_ok_def okR_iff by blast
  ultimately show ?thesis
    using bound small
    by (simp add: load_proposal_def proposal_json_def PROPOSAL_MEMBERS_def dict_get_def utf8_encode_char points_char)
qed

section \<open>From the capture to the envelope\<close>

text \<open>A step that does not emit the event must have succeeded, with the event still to come.\<close>

lemma emits_avoids:
  assumes "emits (\<lambda>e. e \<noteq> ev) act" "act s = (r, s')"
  shows "ev \<in> set (gd_events s') \<longleftrightarrow> ev \<in> set (gd_events s)"
  by (rule emits_run_events [OF assms]) (auto simp: list_all_iff)

lemma reaches_other:
  assumes "reaches ev (bindA act g) s r s'" "emits (\<lambda>e. e \<noteq> ev) act"
  obtains x t where "act s = (Inr x, t)" "reaches ev (g x) t r s'"
proof (cases "act s")
  case (Pair q t)
  with emits_avoids [OF assms(2) Pair] assms(1) that show ?thesis
    unfolding reaches_def by (cases q) (auto simp: bindA_def)
qed

lemma reaches_effect:
  assumes "reaches ev (bindA (effectA ev' f) g) s r s'" "\<And>x. emits (\<lambda>e. e \<noteq> ev) (g x)"
  shows "ev = ev'"
proof (rule ccontr)
  assume "ev \<noteq> ev'"
  then have "emits (\<lambda>e. e \<noteq> ev) (bindA (effectA ev' f) g)"
    using assms(2) by (intro emits_rules emits_effect) simp_all
  from emits_avoids [OF this] assms(1) show False unfolding reaches_def by blast
qed

lemma reaches_grows:
  assumes "reaches ev act s r s'" "emits (\<lambda>_. True) act" "e \<in> set (gd_events s)"
  shows "e \<in> set (gd_events s')"
  using assms unfolding reaches_def by (metis Un_iff emits_run_events set_append)

lemma not_sealed:
  "emits (\<lambda>e. e \<noteq> Sealed path p) (run_text m iv)" "emits (\<lambda>e. e \<noteq> Sealed path p) (run_checked m iv)"
  "emits (\<lambda>e. e \<noteq> Sealed path p) (run_process m iv)" "emits (\<lambda>e. e \<noteq> Sealed path p) (write_file m name data)"
  "emits (\<lambda>e. e \<noteq> Sealed path p) (read_proposal m env workspace)"
  "emits (\<lambda>e. e \<noteq> Sealed path p) (prepare_diff_index m git head index_file)"
  "emits (\<lambda>e. e \<noteq> Sealed path p) (validate_worktree_diff m env workspace git index_file)"
proof -
  have "safe_git git index_file ev \<Longrightarrow> ev \<noteq> Sealed path p" for git index_file ev by (auto simp: safe_git_def)
  then show "emits (\<lambda>e. e \<noteq> Sealed path p) (prepare_diff_index m git head index_file)"
    "emits (\<lambda>e. e \<noteq> Sealed path p) (validate_worktree_diff m env workspace git index_file)"
    by (blast intro: emits_mono [OF emits_prepare] emits_mono [OF emits_validate])+
qed (simp_all add: emits_text emits_checked emits_run emits_effect emits_read_proposal write_file_def)

lemma reaches_prod:
  assumes "reaches ev (case p of (x, y) \<Rightarrow> f x y) s r s'"
  obtains x y where "p = (x, y)" "reaches ev (f x y) s r s'"
  using assms by (cases p) simp

lemma reaches_unless:
  assumes "reaches ev (if c then returnA x else act) s r s'"
  obtains "reaches ev act s r s'"
  using assms by (cases c) (auto simp: reaches_def)

lemmas reaches_sealed = reaches_look reaches_lift reaches_prod reaches_unless not_sealed [THEN [2] reaches_other]

text \<open>What a capture has established when it seals a proposal.\<close>

definition sealed_capture :: "'w machine \<Rightarrow> guard_env \<Rightarrow> capture_args \<Rightarrow> proposal \<Rightarrow> 'w guarded \<Rightarrow> bool" where
  "sealed_capture m env a proposal s' \<longleftrightarrow>
     is_commit_sha (pp_base_sha proposal) \<and> proposal_text_ok env (pp_title proposal) (pp_body proposal) \<and>
     (\<exists>names t t'. pp_changed_paths proposal = sort names \<and>
        validate_worktree_diff m env (ca_workspace a) (capture_git a) (with_suffix (ca_patch_file a) ''.index'') t = (Inr names, t')) \<and>
     (\<exists>patch. Wrote (ca_patch_file a) patch \<in> set (gd_events s') \<and> pp_patch_sha256 proposal = sha256_hex patch)"

lemma sealed_captureI:
  assumes "requireR (c \<and> is_commit_sha base) e = Inr u" "defaults_clean env"
    and "read_proposal m env workspace t1 = (Inr p, t2)" "p = (title, body)"
    and "validate_worktree_diff m env (ca_workspace a) (capture_git a) (with_suffix (ca_patch_file a) ''.index'') t3 = (Inr names, t4)"
    and "write_file m (ca_patch_file a) patch t5 = (Inr v, t6)" "write_file m (ca_stat_file a) stat_text t6 = (Inr w, t7)"
    and "reaches ev (bindA (effectA ev' f) (\<lambda>_. returnA out)) t7 r s'"
    and "Sealed path proposal = Sealed path' \<lparr>pp_base_sha = base, pp_body = body, pp_changed_paths = sort names,
      pp_patch_sha256 = sha256_hex patch, pp_title = title\<rparr>"
  shows "sealed_capture m env a proposal s' \<and> path = path'"
proof -
  have "Wrote (ca_patch_file a) patch \<in> set (gd_events t7)"
    using assms(6,7) by (auto simp: write_file_def effectA_def)
  with assms(8) have "Wrote (ca_patch_file a) patch \<in> set (gd_events s')"
    by (auto simp: reaches_def effectA_def)
  with assms(1,3-5,9) read_proposal_ok [OF _ assms(2)] show ?thesis unfolding sealed_capture_def by auto
qed

lemma capture_ok:
  assumes "reaches (Sealed path proposal) (capture m env a) s r s'" and clean: "defaults_clean env"
  shows "sealed_capture m env a proposal s' \<and> path = ca_proposal_file a"
  using assms(1) unfolding capture_def write_proposal_def Let_def
  apply (elim reaches_sealed)
  apply (frule reaches_effect)
   apply (intro emits_rules)
  apply (rule sealed_captureI [OF _ clean]; assumption)
  done

section \<open>The size of the envelope\<close>

lemma length_escape_point: "0 < length (escape_point p)" "length (escape_point p) \<le> 6"
  by (auto simp: escape_point_def points_def split: option.splits)

lemma length_quoted_points: "length (quoted_points ps) \<le> 6 * length ps + 2"
proof -
  have "length (concat (map escape_point ps)) \<le> 6 * length ps"
  proof (induction ps)
    case (Cons p ps)
    with length_escape_point(2) [of p] show ?case by simp
  qed simp
  then show ?thesis by (simp add: quoted_points_def)
qed

lemma utf8_points_longer: "length ps \<le> length (utf8_points ps)"
proof (induction ps)
  case (Cons p ps)
  have "1 \<le> length (utf8_point p)" by (simp add: utf8_point_def)
  with Cons show ?case by (simp add: utf8_points_def)
qed (simp add: utf8_points_def)

lemma envelope_holds_body: "length (quoted_points (pp_body proposal)) \<le> length (envelope_text proposal)"
  by (simp add: envelope_text_def Let_def)

text \<open>
  The limit of the reader is on the envelope, the limit of the writer on the body before it is escaped: a
  body of as many quotation marks as the writer allows is captured and then refused by the next job.
\<close>

lemma envelope_limit_mismatch:
  "proposal_body plain_env [points ''Title'', replicate 65536 34] = Inr (replicate 65536 34)"
  "pp_body proposal = replicate 65536 34 \<Longrightarrow>
     load_proposal env (length (utf8_points (envelope_text proposal))) parsed =
       Inl (BoundaryError ''Proposal envelope exceeded the byte limit'')"
proof -
  have quotes: "utf8_points (replicate n 34) = replicate n 34" for n
    by (induction n) (simp_all add: utf8_points_def utf8_point_def)
  have "strip_points (replicate 65536 34) = replicate 65536 34"
    by (simp add: strip_points_def is_space_point_def)
  then show "proposal_body plain_env [points ''Title'', replicate 65536 34] = Inr (replicate 65536 34)"
    by (simp add: proposal_body_def Let_def or_points_def quotes MAX_BODY_BYTES_def list_ex_iff)
  assume body: "pp_body proposal = replicate 65536 34"
  have "length (concat (map escape_point (replicate n 34))) = 2 * n" for n
    by (induction n) (simp_all add: escape_point_def)
  with body have "131072 \<le> length (quoted_points (pp_body proposal))" by (simp add: quoted_points_def)
  with envelope_holds_body [of proposal] utf8_points_longer [of "envelope_text proposal"]
  have "\<not> length (utf8_points (envelope_text proposal)) \<le> MAX_BODY_BYTES + 4096" by (simp add: MAX_BODY_BYTES_def)
  then show "load_proposal env (length (utf8_points (envelope_text proposal))) parsed =
      Inl (BoundaryError ''Proposal envelope exceeded the byte limit'')"
    by (simp add: load_proposal_def requireR_def)
qed


section \<open>Sealed application\<close>

text \<open>
  C36. A patch is written to the checkout only after it was sealed: if the command that writes runs at all,
  then just before it the file held exactly the bytes whose digest the validated proposal carries, the
  checkout was at the commit the proposal was captured from, these bytes passed the check of the patch
  text with exactly the proposal's paths, and Git had been asked for nothing but its head and a dry run.
  This rests on the two queries leaving the patch file alone.
\<close>

theorem applied_only_if_sealed:
  assumes "apply_patch m env a s = (r, s')" and "quiet_queries m a"
    and "Ran (apply_write a) \<notin> set (gd_events s)" "Ran (apply_write a) \<in> set (gd_events s')"
  shows "\<exists>t. sealed_before m env a s t \<and> (\<exists>rest. gd_events s' = gd_events t @ Ran (apply_write a) # rest)"
proof -
  from assms(1,3,4) have "reaches (Ran (apply_write a)) (apply_patch m env a) s r s'" by (simp add: reaches_def)
  from apply_reaches_write [OF this assms(2)] show ?thesis .
qed

section \<open>Sample runs\<close>

text \<open>A machine on which the sample patch is sealed and applied: Git answers every command with success.\<close>

definition sample_envelope :: "proposal" where
  "sample_envelope =
     \<lparr>pp_base_sha = replicate 40 (CHR ''a''), pp_body = default_body, pp_changed_paths = sample_paths,
      pp_patch_sha256 = sha256_hex sample_patch, pp_title = default_title\<rparr>"

definition apply_machine :: "unit machine" where
  "apply_machine =
     \<lparr>mc_run = (\<lambda>iv w. ((0, if ''HEAD'' \<in> set (iv_args iv) then replicate 40 97 else []), w)),
      mc_exists = (\<lambda>_ _. False), mc_stat = (\<lambda>_ _. Inl (OtherError ''FileNotFoundError'')),
      mc_read = (\<lambda>path _. Inr (if path = ''patch'' then sample_patch else [])),
      mc_write = (\<lambda>_ _ w. w), mc_remove = (\<lambda>_ w. w), mc_mkdir = (\<lambda>_ w. w),
      mc_rename = (\<lambda>_ _ w. w), mc_tempdir = (\<lambda>w. ([], w)), mc_json = (\<lambda>_. Some (proposal_json sample_envelope))\<rparr>"

definition sample_apply_args :: apply_args where
  "sample_apply_args = \<lparr>aa_workspace = ''ws'', aa_patch_file = ''patch'', aa_proposal_file = ''proposal.json''\<rparr>"

text \<open>A machine on which the sample patch is captured: every file is there with one byte, Git reports the sample paths.\<close>

definition sample_answer :: "string list \<Rightarrow> int \<times> bytes" where
  "sample_answer args =
     (if ''--quiet'' \<in> set args then (1, [])
      else (0, if ''HEAD'' \<in> set args then replicate 40 97
               else if ''--diff-filter=ACMRTUXB'' \<in> set args then concat (map (\<lambda>path. path @ [0]) sample_paths)
               else if ''--binary'' \<in> set args then sample_patch else []))"

definition capture_machine :: "unit machine" where
  "capture_machine =
     \<lparr>mc_run = (\<lambda>iv w. (sample_answer (iv_args iv), w)), mc_exists = (\<lambda>_ _. False),
      mc_stat = (\<lambda>_ _. Inr \<lparr>fs_regular = True, fs_links = 1, fs_executable = False, fs_size = 1\<rparr>),
      mc_read = (\<lambda>path _. Inr (if path = ''base'' then replicate 40 97 else [97])),
      mc_write = (\<lambda>_ _ w. w), mc_remove = (\<lambda>_ w. w), mc_mkdir = (\<lambda>_ w. w),
      mc_rename = (\<lambda>_ _ w. w), mc_tempdir = (\<lambda>w. ([], w)), mc_json = (\<lambda>_. None)\<rparr>"

definition sample_capture_args :: capture_args where
  "sample_capture_args =
     \<lparr>ca_workspace = ''ws'', ca_baseline = ''bl'', ca_base_sha_file = ''base'', ca_patch_file = ''out'',
      ca_stat_file = ''stat'', ca_proposal_file = ''proposal.json''\<rparr>"

definition sample_start :: "unit guarded" where
  "sample_start = \<lparr>gd_world = (), gd_events = []\<rparr>"

lemma newlines_plain: "13 \<notin> set ps \<Longrightarrow> normalize_newlines ps = ps"
  by (induction ps rule: normalize_newlines.induct) auto

lemma not_replicate: "c \<noteq> d \<Longrightarrow> c # cs \<noteq> replicate n d"
  by (cases n) auto

lemma sample_head: "decode_text (replicate 40 97) = Inr (replicate 40 97)" "strip_points (replicate 40 97) = replicate 40 97"
    "char_of (97::nat) = CHR ''a''" "is_commit_sha (replicate 40 (CHR ''a''))"
proof -
  show "decode_text (replicate 40 97) = Inr (replicate 40 97)"
    by (simp add: decode_text_def utf8_decode_plain list_all_iff newlines_plain)
  show "strip_points (replicate 40 97) = replicate 40 97"
    by (simp add: strip_points_def is_space_point_def dropWhile_replicate)
  show "char_of (97::nat) = CHR ''a''" by code_simp
  show "is_commit_sha (replicate 40 (CHR ''a''))" by code_simp
qed

lemma unit_world [simp]: "s\<lparr>gd_world := (), gd_events := evs\<rparr> = s\<lparr>gd_events := evs\<rparr>" for s :: "unit guarded"
  by (cases s) simp

lemma sample_names: "decode_names (concat (map (\<lambda>path. path @ [0]) sample_paths)) = Inr sample_paths" "decode_names [] = Inr []"
  by (simp_all add: decode_names_def sample_paths_eval utf8_decode_plain del: split_at_Cons)

text \<open>An action that returns whatever the events so far were, and only adds events.\<close>

definition returns :: "(unit guarded, 'a) action \<Rightarrow> 'a \<Rightarrow> bool" where
  "returns act x \<longleftrightarrow> (\<forall>s. \<exists>evs. act s = (Inr x, s\<lparr>gd_events := gd_events s @ evs\<rparr>))"

lemma returns_run: "returns act x \<Longrightarrow> (\<And>evs. act s = (Inr x, s\<lparr>gd_events := gd_events s @ evs\<rparr>) \<Longrightarrow> thesis) \<Longrightarrow> thesis"
  by (auto simp: returns_def)

lemma sample_git: "sample_answer (iv_args (indexed (capture_git sample_capture_args) args index_file)) = sample_answer args"
  by (simp add: sample_answer_def indexed_def capture_git_def git_command_def sample_capture_args_def)

text \<open>One command of the sample run.\<close>

lemma sample_run: "mc_run capture_machine iv w = (sample_answer (iv_args iv), ())"
  by (simp add: capture_machine_def)

lemma sample_run_checked:
  "bindA (run_checked capture_machine (indexed (capture_git sample_capture_args) args index_file)) f s =
     (let t = s\<lparr>gd_events := gd_events s @ [Ran (indexed (capture_git sample_capture_args) args index_file)]\<rparr> in
      if fst (sample_answer args) = 0 then f (snd (sample_answer args)) t else (Inl (OtherError ''CalledProcessError''), t))"
  by (simp add: bindA_def run_checked_cases sample_run sample_git)

lemma sample_run_text:
  "bindA (run_text capture_machine iv) f s =
     (let t = s\<lparr>gd_events := gd_events s @ [Ran iv]\<rparr> in
      if fst (sample_answer (iv_args iv)) = 0
      then bindA (liftA (decode_text (snd (sample_answer (iv_args iv))))) f t else (Inl (OtherError ''CalledProcessError''), t))"
  by (simp add: bindA_def run_text_def run_checked_cases sample_run Let_def)

lemma sample_run_process:
  "bindA (run_process capture_machine (indexed (capture_git sample_capture_args) args index_file)) f s =
     f (sample_answer args) (s\<lparr>gd_events := gd_events s @ [Ran (indexed (capture_git sample_capture_args) args index_file)]\<rparr>)"
  by (simp add: bindA_def run_process_def sample_run sample_git)

lemmas sample_runs = sample_run_checked sample_run_text sample_run_process

lemma sample_prepared:
  "returns (prepare_diff_index capture_machine (capture_git sample_capture_args) (replicate 40 (CHR ''a'')) index_file) ()"
  unfolding returns_def prepare_diff_index_def remove_file_def effectA_def
  by (simp add: sample_runs Let_def) (auto simp: sample_answer_def not_replicate)

lemma sample_diffs:
  "sample_answer [''diff'', ''--no-ext-diff'', ''--no-textconv'', ''--no-renames'', ''--name-only'', ''--diff-filter=ACMRTUXB'', ''-z''] =
     (0, concat (map (\<lambda>path. path @ [0]) sample_paths))"
  "sample_answer [''diff'', ''--no-ext-diff'', ''--no-textconv'', ''--no-renames'', ''--name-only'', ''--diff-filter=D'', ''-z''] = (0, [])"
  "sample_answer [''diff'', ''--no-ext-diff'', ''--no-textconv'', ''--no-renames'', ''--summary''] = (0, [])"
  "sample_answer [''diff'', ''--no-ext-diff'', ''--no-textconv'', ''--no-renames'', ''--numstat'', ''-z''] = (0, [])"
  "sample_answer [''diff'', ''--no-ext-diff'', ''--no-textconv'', ''--check''] = (0, [])"
  "sample_answer [''diff'', ''--no-ext-diff'', ''--no-textconv'', ''--quiet''] = (1, [])"
  "sample_answer [''diff'', ''--no-ext-diff'', ''--no-textconv'', ''--no-renames'', ''--binary''] = (0, sample_patch)"
  "sample_answer [''diff'', ''--no-ext-diff'', ''--no-textconv'', ''--no-renames'', ''--stat''] = (0, [])"
  by (simp_all add: sample_answer_def)

lemma sample_files: "mapA (check_file capture_machine plain_env ''ws'') sample_paths s = (Inr [1, 1, 1], s)"
  using sample_paths_allowed
  by (simp add: sample_paths_def check_file_def lookA_def capture_machine_def in_workspace_def MAX_FILE_BYTES_def bindA_def)

lemma sample_worktree_ok:
  "returns (validate_worktree_diff capture_machine plain_env ''ws'' (capture_git sample_capture_args) index_file) sample_paths"
proof -
  have "sample_paths \<noteq> []" "length sample_paths \<le> MAX_FILES" by (simp_all add: sample_paths_def MAX_FILES_def)
  then show ?thesis
    unfolding returns_def validate_worktree_diff_def changed_paths_def nul_names_def DIFF_SAFETY_def
    by (simp add: sample_runs sample_git sample_diffs bindA_assoc Let_def sample_names sample_files
        sample_paths_vertical decode_text_def points_def MAX_TOTAL_BYTES_def MAX_CHANGED_LINES_def) (intro allI exI, rule refl)
qed

lemma sample_captured:
  "\<exists>r s'. capture capture_machine plain_env sample_capture_args sample_start = (r, s') \<and>
     Sealed ''proposal.json'' sample_envelope \<in> set (gd_events s')"
proof -
  let ?git = "capture_git sample_capture_args" and ?index = "with_suffix ''out'' ''.index''"
  have args: "ca_workspace sample_capture_args = ''ws''" "ca_patch_file sample_capture_args = ''out''"
      "ca_base_sha_file sample_capture_args = ''base''" "ca_proposal_file sample_capture_args = ''proposal.json''"
    by (simp_all add: sample_capture_args_def)
  have base: "mc_read capture_machine ''base'' w = Inr (replicate 40 97)" for w by (simp add: capture_machine_def)
  have message: "read_proposal capture_machine plain_env ''ws'' s = (Inr (default_title, default_body), s)" for s
    by (simp add: read_proposal_def capture_machine_def Let_def)
  have head: "sample_answer (iv_args (baseline_head sample_capture_args)) = (0, replicate 40 97)"
    by (simp add: sample_answer_def baseline_head_def sample_capture_args_def)
  let ?s1 = "sample_start\<lparr>gd_events := gd_events sample_start @ [Ran (baseline_head sample_capture_args)]\<rparr>"
  obtain evs where prepared: "prepare_diff_index capture_machine ?git (replicate 40 (CHR ''a'')) ?index ?s1 =
      (Inr (), ?s1\<lparr>gd_events := gd_events ?s1 @ evs\<rparr>)"
    by (rule returns_run [OF sample_prepared])
  let ?s2 = "?s1\<lparr>gd_events := gd_events ?s1 @ evs @ [Ran (indexed ?git [''diff'', ''--no-ext-diff'', ''--no-textconv'', ''--quiet''] ?index)]\<rparr>"
  obtain evs' where checked: "validate_worktree_diff capture_machine plain_env ''ws'' ?git ?index ?s2 =
      (Inr sample_paths, ?s2\<lparr>gd_events := gd_events ?s2 @ evs'\<rparr>)"
    by (rule returns_run [OF sample_worktree_ok])
  have "bindR (mc_read capture_machine ''base'' w) decode_text = Inr (replicate 40 97)" for w
    by (simp add: base sample_head)
  moreover have "decode_text [] = Inr []" by (simp add: decode_text_def)
  moreover have "list_all (\<lambda>p. p < 128) (replicate 40 (97::nat))" by (simp add: list_all_iff)
  ultimately show ?thesis
    unfolding capture_def args
    using prepared checked
    by (simp add: sample_runs sample_git sample_diffs sample_head head message lookA_def Let_def DIFF_SAFETY_def
      write_file_def write_proposal_def effectA_def sample_plain(1) sample_paths_sorted(1) sample_envelope_def)
qed

lemma sample_envelope_short: "length (utf8_points (envelope_text sample_envelope)) \<le> 69632"
proof -
  have lengths: "length default_title = 37" "length default_body = 92" "length (pp_base_sha sample_envelope) = 40"
      "length (pp_patch_sha256 sample_envelope) = 64" "map length sample_paths = [12, 18, 36]"
    by (simp_all add: sample_envelope_def default_title_def default_body_def points_def length_sha256_hex sample_paths_def)
  have "\<exists>x y z. sample_paths = [x, y, z] \<and> length x = 12 \<and> length y = 18 \<and> length z = 36"
    using lengths(5) by (auto simp: map_eq_Cons_conv)
  then obtain x y z where paths: "sample_paths = [x, y, z]" "length x = 12" "length y = 18" "length z = 36" by blast
  have "length (envelope_text sample_envelope) \<le> 17408"
    using length_quoted_points [of "points ''base_sha''"] length_quoted_points [of "points ''body''"]
      length_quoted_points [of "points ''changed_paths''"] length_quoted_points [of "points ''patch_sha256''"]
      length_quoted_points [of "points ''title''"] length_quoted_points [of "points (pp_base_sha sample_envelope)"]
      length_quoted_points [of "points (pp_patch_sha256 sample_envelope)"] length_quoted_points [of default_body]
      length_quoted_points [of default_title] length_quoted_points [of x] length_quoted_points [of y]
      length_quoted_points [of z] lengths paths(2-4)
    by (simp add: envelope_text_def Let_def paths(1) sample_envelope_def points_def)
  with length_utf8_points [of "envelope_text sample_envelope"] show ?thesis by simp
qed


text \<open>The captured envelope is accepted on the machine that applies it.\<close>

lemma sample_envelope_loads: "byte_size \<le> 69632 \<Longrightarrow> load_proposal plain_env byte_size (Some (proposal_json sample_envelope)) = Inr sample_envelope"
  by (rule envelope_loads [of _ sample_patch])
    (use sample_paths_allowed sample_paths_vertical sample_paths_sorted sample_head(4) default_texts_ok [of plain_env] in
      \<open>simp_all add: sample_envelope_def defaults_clean_def sample_paths_def default_title_def default_body_def points_def ord_def
        MAX_BODY_BYTES_def\<close>)

lemma ran_at_once:
  assumes "\<And>x. emits (\<lambda>_. True) (g x)"
  shows "Ran iv \<in> set (gd_events (snd (bindA (run_checked m iv) g s)))"
proof -
  obtain q t where t: "run_checked m iv s = (q, t)" "Ran iv \<in> set (gd_events t)" by (simp add: run_checked_cases)
  show ?thesis
  proof (cases q)
    case (Inr x)
    from assms [of x] have "\<exists>evs. gd_events (snd (g x t)) = gd_events t @ evs" unfolding emits_def by blast
    with t Inr show ?thesis by auto
  qed (use t in simp)
qed

lemma sample_applied:
  "Ran (apply_write sample_apply_args) \<in> set (gd_events (snd (apply_patch apply_machine plain_env sample_apply_args sample_start)))"
proof -
  have reads: "mc_read apply_machine (aa_proposal_file sample_apply_args) w = Inr []"
      "mc_read apply_machine (aa_patch_file sample_apply_args) w = Inr sample_patch" for w
    by (simp_all add: apply_machine_def sample_apply_args_def)
  have loads: "load_proposal plain_env 0 (mc_json apply_machine []) = Inr sample_envelope"
    by (simp add: apply_machine_def sample_envelope_loads)
  have head: "run_text apply_machine (checkout_head sample_apply_args) s =
      (Inr (replicate 40 97), s\<lparr>gd_events := gd_events s @ [Ran (checkout_head sample_apply_args)]\<rparr>)" for s
    by (simp add: run_text_def bindA_def run_checked_cases apply_machine_def checkout_head_def in_checkout_def sample_head)
  have dry: "run_checked apply_machine (apply_check sample_apply_args) s =
      (Inr [], s\<lparr>gd_events := gd_events s @ [Ran (apply_check sample_apply_args)]\<rparr>)" for s
    by (simp add: run_checked_cases apply_machine_def apply_check_def in_checkout_def sample_apply_args_def)
  have fields: "pp_patch_sha256 sample_envelope = sha256_hex sample_patch" "pp_changed_paths sample_envelope = sample_paths"
      "points (pp_base_sha sample_envelope) = replicate 40 97"
    by (simp_all add: sample_envelope_def points_def ord_def)
  show ?thesis
    unfolding apply_patch_def Let_def
    by (simp add: reads loads head dry fields lookA_def sample_head sample_accepted)
      (intro ran_at_once emits_rules emits_any)
qed

theorem applied_only_if_sealed_witness:
  "\<exists>r s' t rest. apply_patch apply_machine plain_env sample_apply_args sample_start = (r, s') \<and>
     sealed_before apply_machine plain_env sample_apply_args sample_start t \<and>
     gd_events s' = gd_events t @ Ran (apply_write sample_apply_args) # rest"
proof -
  obtain r s' where run: "apply_patch apply_machine plain_env sample_apply_args sample_start = (r, s')"
    by (cases "apply_patch apply_machine plain_env sample_apply_args sample_start")
  have quiet: "quiet_queries apply_machine sample_apply_args" by (simp add: quiet_queries_def apply_machine_def)
  have start: "Ran (apply_write sample_apply_args) \<notin> set (gd_events sample_start)" by (simp add: sample_start_def)
  have ran: "Ran (apply_write sample_apply_args) \<in> set (gd_events s')" using sample_applied run by simp
  show ?thesis using applied_only_if_sealed [OF run quiet start ran] run by blast
qed

section \<open>The self-test\<close>

text \<open>The patch of the self-test is refused for its path, or for a protected credential, whatever the environment.\<close>

lemma unsafe_patch_refused:
  assumes "okR (forbidden_fingerprints env)"
  shows "\<exists>msg. validate_patch_text env (concat (map (\<lambda>line. points line @ [10]) unsafe_patch)) = Inl (BoundaryError msg)"
proof -
  let ?raw = "concat (map (\<lambda>line. points line @ [10]) unsafe_patch)" and ?path = "points ''.github/workflows/ci.yml''"
  obtain fps where fps: "forbidden_fingerprints env = Inr fps" using assms by (auto simp: okR_iff)
  have plain: "length ?raw \<le> MAX_PATCH_BYTES" "utf8_decode ?raw = Some ?raw"
    by (simp_all add: unsafe_patch_def points_def ord_def MAX_PATCH_BYTES_def utf8_decode_plain)
  have headers: "concat (map diff_header (split_at 10 ?raw)) = [(?path, ?path)]"
    by (simp add: unsafe_patch_def points_def ord_def diff_header_def split_at.simps(2) del: split_at_Cons)
  have "\<not> path_allowed ?path"
    by (simp add: path_allowed_def points_def ord_def starts_with_any_def ALLOWED_ROOTS_def ALLOWED_FILES_def)
  then have "check_headers [(?path, ?path)] [] = Inl (BoundaryError ''Patch contains an unsafe or duplicate path'')" by simp
  with plain headers show ?thesis
    by (simp add: validate_patch_text_def reject_forbidden_tokens_def fps Let_def MAX_FILES_def requireR_def del: concat_eq_Nil_conv)
qed

text \<open>So that step of the self-test passes on every file system that reads back what was written.\<close>

lemma self_test_unsafe_passes:
  assumes "\<And>path data w. mc_read m path (mc_write m path data w) = Inr data" "okR (forbidden_fingerprints env)"
  shows "fst (self_test_unsafe m env tmp s) = Inr ()"
proof -
  obtain msg where "validate_patch_text env (concat (map (\<lambda>line. points line @ [10]) unsafe_patch)) = Inl (BoundaryError msg)"
    using unsafe_patch_refused [OF assms(2)] by blast
  then show ?thesis
    by (simp add: self_test_unsafe_def write_text_def write_file_def effectA_def lookA_def assms(1) Let_def)
qed

end
