(* ===== verification/FuzzMatching.thy ===== *)
theory FuzzMatching
  imports Matching
begin

text \<open>
  The fuzz target of \<open>fuzz/fuzz_matching.py\<close>: two accounts are drawn from arbitrary data, matched, and
  three assertions are checked. The data provider of the fuzzing library is a parameter: each draw
  returns a value and the rest of the data. The property: no data makes an assertion fail.
\<close>

record 'd fuzz_provider =
  fz_text :: "nat \<Rightarrow> 'd \<Rightarrow> string \<times> 'd"
  fz_int :: "nat \<Rightarrow> nat \<Rightarrow> 'd \<Rightarrow> nat \<times> 'd"
  fz_bool :: "'d \<Rightarrow> bool \<times> 'd"

definition drawA :: "('d \<Rightarrow> 'a \<times> 'd) \<Rightarrow> ('d, 'a) action" where
  "drawA draw = (\<lambda>d. case draw d of (x, d') \<Rightarrow> (Inr x, d'))"

definition fuzz_text :: "'d fuzz_provider \<Rightarrow> ('d, string) action" where
  "fuzz_text p = drawA (fz_text p 48)"

definition text_or :: "string \<Rightarrow> string \<Rightarrow> string" where
  "text_or dflt s = (if s = [] then dflt else s)"

definition text_or_none :: "string \<Rightarrow> string option" where
  "text_or_none s = (if s = [] then None else Some s)"

definition fuzz_link :: "'d fuzz_provider \<Rightarrow> ('d, federated_identity) action" where
  "fuzz_link p =
     bindA (fuzz_text p) (\<lambda>provider.
     bindA (fuzz_text p) (\<lambda>subject.
     bindA (fuzz_text p) (\<lambda>name.
     returnA \<lparr>identity_provider = text_or ''idp'' provider, external_user_id = text_or ''subject'' subject,
       external_user_name = text_or_none name\<rparr>)))"

definition fuzz_account :: "'d fuzz_provider \<Rightarrow> ('d, user_account) action" where
  "fuzz_account p =
     bindA (drawA (fz_int p 0 3)) (\<lambda>link_count.
     bindA (mapA (\<lambda>_. fuzz_link p) [0..<link_count]) (\<lambda>links.
     bindA (fuzz_text p) (\<lambda>uid.
     bindA (fuzz_text p) (\<lambda>uname.
     bindA (fuzz_text p) (\<lambda>mail.
     bindA (drawA (fz_bool p)) (\<lambda>verified.
     bindA (drawA (fz_bool p)) (\<lambda>active.
     bindA (fuzz_text p) (\<lambda>first.
     bindA (fuzz_text p) (\<lambda>last.
     bindA (fuzz_text p) (\<lambda>external.
     returnA \<lparr>user_id = text_or ''user'' uid, user_name = text_or_none uname, email = text_or_none mail,
       is_email_verified = verified, state = (if active then ''active'' else ''disabled''), first_name = text_or_none first,
       last_name = text_or_none last, external_id = text_or_none external, federated_identities = links\<rparr>))))))))))"

definition assertA :: "bool \<Rightarrow> ('d, unit) action" where
  "assertA b = liftA (requireR b (OtherError ''AssertionError''))"

definition test_one_input :: "'d fuzz_provider \<Rightarrow> ('d, unit) action" where
  "test_one_input p =
     bindA (fuzz_account p) (\<lambda>survivor.
     bindA (fuzz_account p) (\<lambda>duplicate.
     bindA (drawA (fz_bool p)) (\<lambda>explicit.
     let dec = decide_match survivor duplicate explicit in
     bindA (if \<not> matched dec then assertA (decision_reason dec = NO_MATCH) else returnA ()) (\<lambda>_.
     bindA (if decision_reason dec = VERIFIED_EMAIL then assertA (have_matching_verified_email survivor duplicate)
            else returnA ()) (\<lambda>_.
     if \<not> have_matching_verified_email survivor duplicate then assertA (decision_reason dec \<noteq> VERIFIED_EMAIL)
     else returnA ())))))"

section \<open>No data fails\<close>

text \<open>An action that cannot raise.\<close>

definition never_raises :: "('d, 'a) action \<Rightarrow> bool" where
  "never_raises m \<longleftrightarrow> (\<forall>d. okR (fst (m d)))"

named_theorems never_raises_rules

lemma never_raises_draw [never_raises_rules]: "never_raises (drawA f)"
  by (simp add: never_raises_def drawA_def split_beta)

lemma never_raises_return [never_raises_rules]: "never_raises (returnA x)"
  by (simp add: never_raises_def returnA_def)

lemma never_raises_bind [never_raises_rules]:
  "never_raises m \<Longrightarrow> (\<And>x. never_raises (f x)) \<Longrightarrow> never_raises (bindA m f)"
proof -
  assume m: "never_raises m" and f: "\<And>x. never_raises (f x)"
  have "okR (fst (bindA m f d))" for d
  proof -
    from m obtain x d' where "m d = (Inr x, d')" unfolding never_raises_def okR_iff by (metis prod.collapse)
    with f show ?thesis by (simp add: never_raises_def)
  qed
  then show ?thesis by (simp add: never_raises_def)
qed

lemma never_raises_map [never_raises_rules]: "(\<And>x. never_raises (f x)) \<Longrightarrow> never_raises (mapA f xs)"
  by (induction xs) (auto intro!: never_raises_rules)

lemma never_raises_account: "never_raises (fuzz_account p)"
  unfolding fuzz_account_def fuzz_link_def fuzz_text_def by (intro never_raises_rules)

lemma never_raises_assert: "b \<Longrightarrow> never_raises (assertA b)"
  by (simp add: never_raises_def assertA_def)


end
