(* ===== verification/AssertionFixtures.thy ===== *)
theory AssertionFixtures
  imports SubjectAssertion
begin

text \<open>
  The conformance catalogue of \<open>tools/generate_subject_assertion_fixtures.py\<close>: the sixteen signed
  tokens, the profile they are verified under and the receipts the verifier gives. The two fresh key
  pairs are parameters, each with its public point and the signatures it makes as pairs of integers.
\<close>

definition ISSUER :: string where "ISSUER = ''https://id.contextualwisdom.example/realms/cwl''"
definition AUDIENCE :: string where "AUDIENCE = ''orgmetra-web''"
definition NOW :: int where "NOW = 1790000000"
definition KEY_ID :: string where "KEY_ID = ''fixture-es256-v1''"

record signing_key =
  sk_x :: nat
  sk_y :: nat
  sk_sign :: "nat list \<Rightarrow> nat \<times> nat"

definition b64url :: "nat list \<Rightarrow> string" where "b64url raw = urlsafe_encode raw"

definition compact_json :: "json \<Rightarrow> string" where
  "compact_json v = json_dumps \<lparr>ensure_ascii = True, item_separator = '','', key_separator = '':'', sort_keys = False\<rparr> v"

definition json_segment :: "dict \<Rightarrow> string" where
  "json_segment d = b64url (utf8_encode (compact_json (JObj d)))"

text \<open>\<open>int.to_bytes(32, "big")\<close>.\<close>

primrec big_endian :: "nat \<Rightarrow> nat \<Rightarrow> nat list" where
  "big_endian 0 n = []"
| "big_endian (Suc k) n = big_endian k (n div 256) @ [n mod 256]"

definition to_bytes_32 :: "nat \<Rightarrow> nat list result" where
  "to_bytes_32 n = (if n < 256 ^ 32 then Inr (big_endian 32 n) else Inl (OtherError ''int too big to convert''))"

definition sign_token :: "signing_key \<Rightarrow> dict \<Rightarrow> dict \<Rightarrow> string result" where
  "sign_token key header claims =
     (let signing_input = json_segment header @ ''.'' @ json_segment claims; (r, s) = sk_sign key (utf8_encode signing_input) in
      bindR (to_bytes_32 r) (\<lambda>r_bytes.
      bindR (to_bytes_32 s) (\<lambda>s_bytes. Inr (signing_input @ ''.'' @ b64url (r_bytes @ s_bytes)))))"

definition fixture_jwk :: "signing_key \<Rightarrow> json result" where
  "fixture_jwk key =
     bindR (to_bytes_32 (sk_x key)) (\<lambda>x.
     bindR (to_bytes_32 (sk_y key)) (\<lambda>y.
     Inr (JObj [(''kty'', JStr ''EC''), (''crv'', JStr ''P-256''), (''kid'', JStr KEY_ID), (''use'', JStr ''sig''),
       (''alg'', JStr ''ES256''), (''x'', JStr (b64url x)), (''y'', JStr (b64url y))])))"

definition fixture_header :: dict where
  "fixture_header = [(''alg'', JStr ''ES256''), (''typ'', JStr ''JWT''), (''kid'', JStr KEY_ID)]"

definition fixture_claims :: dict where
  "fixture_claims =
     [(''iss'', JStr ISSUER), (''sub'', JStr ''f3b0c9a2-6d1e-4c55-9b7a-2f0e8d1c4b6a''), (''aud'', JStr AUDIENCE),
      (''azp'', JStr AUDIENCE), (''exp'', JInt (NOW + 300)), (''iat'', JInt (NOW - 10)), (''org'', JStr ''tenant-acme'')]"

text \<open>Who signs (or none), header and claims of each case.\<close>

datatype fixture_signer = Pinned | Other | Unsigned

definition fixture_inputs :: "(string \<times> fixture_signer \<times> dict \<times> dict) list" where
  "fixture_inputs =
     (let header = fixture_header; claims = fixture_claims in
      [(''valid_public_subject'', Pinned, header, claims),
       (''wrong_issuer'', Pinned, header, dict_set claims ''iss'' (JStr (ISSUER @ ''-staging''))),
       (''wrong_audience'', Pinned, header,
          dict_set (dict_set claims ''aud'' (JStr ''naruon-web'')) ''azp'' (JStr ''naruon-web'')),
       (''expired'', Pinned, header, dict_set (dict_set claims ''exp'' (JInt (NOW - 61))) ''iat'' (JInt (NOW - 400))),
       (''not_yet_valid'', Pinned, header, dict_set claims ''nbf'' (JInt (NOW + 61))),
       (''forged_signature_same_kid'', Other, header, claims),
       (''unknown_kid'', Pinned, dict_set header ''kid'' (JStr ''rotated-away''), claims),
       (''access_token_type'', Pinned, dict_set header ''typ'' (JStr ''at+jwt''), claims),
       (''critical_header'', Pinned, dict_set header ''crit'' (JArr [JStr ''exp'']), claims),
       (''alg_none'', Unsigned, dict_set header ''alg'' (JStr ''none''), claims),
       (''cross_tenant_missing_org'', Pinned, header, filter (\<lambda>p. fst p \<noteq> ''org'') claims),
       (''empty_subject'', Pinned, header, dict_set claims ''sub'' (JStr [])),
       (''untrusted_extra_audience'', Pinned, header, dict_set claims ''aud'' (JArr [JStr AUDIENCE, JStr ''naruon-web''])),
       (''trusted_extra_audience'', Pinned, header, dict_set claims ''aud'' (JArr [JStr ''account'', JStr AUDIENCE])),
       (''lowercase_typ'', Pinned, dict_set header ''typ'' (JStr ''jwt''), claims),
       (''expiry_before_issue'', Pinned, header, dict_set claims ''exp'' (JInt (NOW - 20)))])"

definition fixture_token :: "signing_key \<Rightarrow> signing_key \<Rightarrow> fixture_signer \<Rightarrow> dict \<Rightarrow> dict \<Rightarrow> string result" where
  "fixture_token key other signer header claims =
     (case signer of
        Pinned \<Rightarrow> sign_token key header claims
      | Other \<Rightarrow> sign_token other header claims
      | Unsigned \<Rightarrow> Inr (json_segment header @ ''.'' @ json_segment claims @ ''.''))"

definition build_case ::
  "signing_key \<Rightarrow> signing_key \<Rightarrow> string \<times> fixture_signer \<times> dict \<times> dict \<Rightarrow> (string \<times> string) result" where
  "build_case key other i =
     (case i of (name, signer, header, claims) \<Rightarrow>
        bindR (fixture_token key other signer header claims) (\<lambda>token. Inr (name, token)))"

definition fixture_cases :: "signing_key \<Rightarrow> signing_key \<Rightarrow> (string \<times> string) list result" where
  "fixture_cases key other = mapR (build_case key other) fixture_inputs"

definition profile_data :: "json \<Rightarrow> dict" where
  "profile_data jwk =
     [(''issuer'', JStr ISSUER), (''audience'', JStr AUDIENCE), (''allowed_algorithms'', JArr [JStr ''ES256'']),
      (''trusted_keys'', JObj [(''keys'', JArr [jwk])]), (''subject_type'', JStr ''public''),
      (''required_tenant_claim'', JStr ''org''), (''leeway_seconds'', JInt 60),
      (''trusted_additional_audiences'', JArr [JStr ''account''])]"

definition fixture_profile :: "'k crypto \<Rightarrow> json \<Rightarrow> 'k subject_profile result" where
  "fixture_profile cr jwk =
     make_profile cr ISSUER AUDIENCE [''ES256''] (JObj [(''keys'', JArr [jwk])]) ''public'' (Some ''org'') 60 [''account'']"

definition catalog_entry :: "'k crypto \<Rightarrow> 'k subject_profile \<Rightarrow> string \<times> string \<Rightarrow> json result" where
  "catalog_entry cr profile c =
     bindR (verify_subject_assertion cr (snd c) profile NOW None) (\<lambda>r.
     Inr (JObj [(''name'', JStr (fst c)), (''token'', JStr (snd c)), (''expected_receipt'', JObj (receipt r))]))"

definition build_catalog :: "'k crypto \<Rightarrow> signing_key \<Rightarrow> signing_key \<Rightarrow> json result" where
  "build_catalog cr key other =
     bindR (fixture_jwk key) (\<lambda>jwk.
     bindR (fixture_cases key other) (\<lambda>cases.
     bindR (fixture_profile cr jwk) (\<lambda>profile.
     bindR (mapR (catalog_entry cr profile) cases) (\<lambda>entries.
     Inr (JObj [(''contract_version'', JStr ''keyverse.subject-assertion/v1''),
       (''description'', JStr (''Synthetic conformance cases. The signing key is throwaway test material; '' @
          ''it is not a Keyverse deployment key.'')),
       (''now'', JInt NOW), (''profile'', JObj (profile_data jwk)), (''cases'', JArr entries)])))))"

end
