(* ===== verification/AssertionFixtures_Theorems.thy ===== *)
theory AssertionFixtures_Theorems
  imports AssertionFixtures SubjectAssertion_Theorems
begin

text \<open>
  The conformance catalogue is what its case names say: with working keys, each of its tokens passes
  through the whole verifier and gets exactly the published decision.
\<close>

section \<open>Encodings\<close>

lemma int_from_bytes_snoc: "int_from_bytes (xs @ [b]) = int_from_bytes xs * 256 + b"
  by (simp add: int_from_bytes_def)

lemma int_from_big_endian: "n < 256 ^ k \<Longrightarrow> int_from_bytes (big_endian k n) = n"
proof (induction k arbitrary: n)
  case (Suc k)
  then have "n div 256 < 256 ^ k" by (simp add: less_mult_imp_div_less mult.commute)
  with Suc.IH [of "n div 256"] show ?case by (simp add: int_from_bytes_snoc)
qed (simp add: int_from_bytes_def)

lemma big_endian_bytes: "length (big_endian k n) = k" "bytes_ok (big_endian k n)"
  by (induction k arbitrary: n) auto

lemma utf8_encode_bytes: "bytes_ok (utf8_encode s)"
proof (induction s)
  case (Cons c s)
  have "ord c div 64 < 4" using ord_bound [of c] by (simp add: less_mult_imp_div_less)
  with Cons show ?case using ord_bound [of c] by (auto simp: utf8_encode_def utf8_char_def)
qed (simp add: utf8_encode_def)

lemma utf8_encode_ascii: "isascii s \<Longrightarrow> utf8_encode s = map ord s"
  by (induction s) (auto simp: utf8_encode_def utf8_char_def isascii_def isascii_char_def)

lemma length_utf8_encode: "length (utf8_encode s) \<le> 2 * length s"
  by (induction s) (auto simp: utf8_encode_def utf8_char_def)

lemma length_urlsafe_encode: "length (urlsafe_encode raw) \<le> 2 * length raw"
proof -
  have "length (byte_sextets raw) \<le> 2 * length raw" by (induction raw rule: byte_sextets.induct) auto
  then show ?thesis by (simp add: urlsafe_encode_def)
qed

lemma base64url_plain: "is_base64url_char c \<Longrightarrow> c \<noteq> CHR ''.'' \<and> ord c < 128"
  by (auto simp: is_base64url_char_def is_ascii_alnum_def is_ascii_alpha_def is_ascii_upper_def is_ascii_lower_def
      isdecimal_char_def ord_def)

lemma b64decode_b64url: "bytes_ok raw \<Longrightarrow> b64decode (b64url raw) = Inr raw"
  by (simp add: b64url_def b64decode_iff)

lemma segment_alphabet: "list_all is_base64url_char (json_segment d)"
  by (simp add: json_segment_def b64url_def urlsafe_encode_alphabet utf8_encode_bytes)

lemma length_segment: "length (json_segment d) \<le> 4 * length (compact_json (JObj d))"
  using length_urlsafe_encode [of "utf8_encode (compact_json (JObj d))"] length_utf8_encode [of "compact_json (JObj d)"]
  by (simp add: json_segment_def b64url_def)

section \<open>Parts of a token\<close>

lemma split_three:
  assumes "list_all is_base64url_char h" "list_all is_base64url_char p" "list_all is_base64url_char s"
    and "length h + length p + length s + 2 \<le> MAX_TOKEN_LENGTH"
  shows "split_token (h @ ''.'' @ p @ ''.'' @ s) = Inr (h, p, s)"
proof -
  have "ord (CHR ''.'') < 128" by (simp add: ord_def)
  then have "isascii (h @ ''.'' @ p @ ''.'' @ s)"
    using assms(1-3) base64url_plain by (auto simp: isascii_def isascii_char_def list_all_iff)
  moreover have "split_char (CHR ''.'') (h @ ''.'' @ p @ ''.'' @ s) = [h, p, s]"
  proof -
    have "CHR ''.'' \<notin> set h" "CHR ''.'' \<notin> set p" "CHR ''.'' \<notin> set s"
      using assms(1-3) base64url_plain by (auto simp: list_all_iff)
    then show ?thesis by (simp add: split_char_append_sep split_char_no_sep)
  qed
  ultimately show ?thesis using assms by (simp add: split_token_def)
qed

section \<open>Working keys\<close>

definition fixture_objects :: "dict list" where
  "fixture_objects = concat (map (\<lambda>(_, _, header, claims). [header, claims]) fixture_inputs)"

text \<open>
  What the catalogue relies on: the public point is one, signatures are pairs of 256-bit numbers, the
  pinned key's signatures verify, the other key's signature of the same token does not, and the JSON
  scanner reads what \<open>json.dumps\<close> wrote.
\<close>

definition sound_signer :: "signing_key \<Rightarrow> bool" where
  "sound_signer key \<longleftrightarrow> (\<forall>msg. fst (sk_sign key msg) < 256 ^ 32 \<and> snd (sk_sign key msg) < 256 ^ 32)"

definition verifies :: "'k crypto \<Rightarrow> 'k \<Rightarrow> signing_key \<Rightarrow> nat list \<Rightarrow> bool" where
  "verifies cr pk key msg \<longleftrightarrow> cr_verify_ecdsa cr pk (fst (sk_sign key msg)) (snd (sk_sign key msg)) msg"

definition working_keys :: "'k crypto \<Rightarrow> signing_key \<Rightarrow> signing_key \<Rightarrow> 'k \<Rightarrow> bool" where
  "working_keys cr key other pk \<longleftrightarrow>
     sk_x key < 256 ^ 32 \<and> sk_y key < 256 ^ 32 \<and> cr_ec_key cr (sk_x key) (sk_y key) = Inr pk \<and>
     sound_signer key \<and> sound_signer other \<and> (\<forall>msg. verifies cr pk key msg) \<and>
     \<not> verifies cr pk other (map ord (json_segment fixture_header @ ''.'' @ json_segment fixture_claims))"

definition reads_back :: "'k crypto \<Rightarrow> dict \<Rightarrow> bool" where
  "reads_back cr d \<longleftrightarrow> cr_scan_json cr (utf8_encode (compact_json (JObj d))) = Some (JObj d)"

text \<open>A bound for the printed length, from the lengths of the texts alone.\<close>

fun json_weight :: "json \<Rightarrow> nat" where
  "json_weight (JInt n) = length (show_int n)"
| "json_weight (JStr s) = 6 * length s + 2"
| "json_weight (JFloat r) = length r"
| "json_weight (JArr xs) = 2 + sum_list (map (\<lambda>x. json_weight x + 1) xs)"
| "json_weight (JObj kvs) = 2 + sum_list (map (\<lambda>p. 6 * length (fst p) + 4 + json_weight (snd p)) kvs)"
| "json_weight _ = 5"

lemma length_json_string: "length (json_string b s) \<le> 6 * length s + 2"
proof -
  have "length (concat (map (escape_char b) s)) \<le> 6 * length s" by (induction s) (auto simp: escape_char_def)
  then show ?thesis by (simp add: json_string_def)
qed

lemma length_join_text: "length (join_text [c] ps) \<le> sum_list (map (\<lambda>p. length p + 1) ps)"
  by (induction "[c]" ps rule: join_text.induct) auto

lemma sum_list_bound: "(\<And>x. x \<in> set xs \<Longrightarrow> f x \<le> g x) \<Longrightarrow> sum_list (map f xs) \<le> (sum_list (map g xs) :: nat)"
  by (induction xs) (auto intro!: add_mono)

lemma length_compact_json: "length (compact_json v) \<le> json_weight v"
proof (induction v rule: json_weight.induct)
  case (4 xs)
  have "sum_list (map (\<lambda>x. length (compact_json x) + 1) xs) \<le> sum_list (map (\<lambda>x. json_weight x + 1) xs)"
    by (rule sum_list_bound) (use 4 in auto)
  with length_join_text [of "CHR '',''" "map compact_json xs"] show ?case
    by (simp add: compact_json_def [abs_def] comp_def)
next
  case (5 kvs)
  let ?item = "\<lambda>p. json_string True (fst p) @ '':'' @ compact_json (snd p)"
  have "sum_list (map (\<lambda>p. length (?item p) + 1) kvs) \<le> sum_list (map (\<lambda>p. 6 * length (fst p) + 4 + json_weight (snd p)) kvs)"
  proof (rule sum_list_bound)
    fix p assume "p \<in> set kvs"
    with 5 have "length (compact_json (snd p)) \<le> json_weight (snd p)" by (cases p) auto
    then show "length (?item p) + 1 \<le> 6 * length (fst p) + 4 + json_weight (snd p)"
      using length_json_string [of True "fst p"] by simp
  qed
  with length_join_text [of "CHR '',''" "map ?item kvs"] show ?case
    by (simp add: compact_json_def comp_def Let_def split_beta)
qed (auto simp: compact_json_def length_json_string [simplified])

lemma show_nat_bound: "n < 10 ^ Suc k \<Longrightarrow> length (show_nat n) \<le> Suc k"
proof (induction k arbitrary: n)
  case (Suc k)
  then have "n div 10 < 10 ^ Suc k" by (simp add: less_mult_imp_div_less)
  with Suc.IH [of "n div 10"] show ?case by (subst show_nat.simps) simp
qed (subst show_nat.simps, simp)

lemma show_int_bound: "0 \<le> n \<Longrightarrow> n < 10 ^ 10 \<Longrightarrow> length (show_int n) \<le> 10"
  using show_nat_bound [of "nat n" 9] by (simp add: show_int_def)

lemma objects_distinct: "list_all (\<lambda>d. no_duplicate_members (JObj d)) fixture_objects"
  by (simp add: fixture_objects_def fixture_inputs_def fixture_header_def fixture_claims_def Let_def)

lemma fixture_times: "length (show_int (NOW + 300)) \<le> 10" "length (show_int (NOW - 10)) \<le> 10" "length (show_int (NOW - 61)) \<le> 10"
    "length (show_int (NOW - 400)) \<le> 10" "length (show_int (NOW + 61)) \<le> 10" "length (show_int (NOW - 20)) \<le> 10"
  by (rule show_int_bound; simp add: NOW_def)+

lemma objects_short: "list_all (\<lambda>d. json_weight (JObj d) \<le> 2000) fixture_objects"
  using fixture_times
  by (simp add: fixture_objects_def fixture_inputs_def fixture_header_def fixture_claims_def ISSUER_def AUDIENCE_def KEY_ID_def Let_def)

lemma signature_length: "length (urlsafe_encode raw) \<le> 128" if "length raw \<le> 64"
  using length_urlsafe_encode [of raw] that by linarith

lemma token_parts:
  assumes "reads_back cr h" "reads_back cr c" "h \<in> set fixture_objects" "c \<in> set fixture_objects"
    and "bytes_ok sig" "length sig \<le> 64"
  shows "verify_checked cr (json_segment h @ ''.'' @ json_segment c @ ''.'' @ b64url sig) profile now nonce =
    bindR (select_key profile h) (\<lambda>(key_id, algorithm, public_key).
    bindR (verify_signature cr algorithm public_key (map ord (json_segment h @ ''.'' @ json_segment c)) sig) (\<lambda>_.
    check_claims profile now nonce key_id algorithm c))"
proof -
  have short: "length (compact_json (JObj d)) \<le> 2000" if "d \<in> set fixture_objects" for d
    using that objects_short length_compact_json [of "JObj d"] unfolding list_all_iff by (meson le_trans)
  from objects_distinct assms(3,4) short have fine: "length (compact_json (JObj h)) \<le> 2000" "length (compact_json (JObj c)) \<le> 2000"
      "no_duplicate_members (JObj h)" "no_duplicate_members (JObj c)"
    unfolding list_all_iff by blast+
  have "decode_json_object cr (json_segment d) = Inr d" if "reads_back cr d" "no_duplicate_members (JObj d)" for d
    using that utf8_encode_bytes b64decode_b64url
    by (simp add: decode_json_object_def json_segment_def reads_back_def del: no_duplicate_members.simps)
  moreover have "split_token (json_segment h @ ''.'' @ json_segment c @ ''.'' @ b64url sig) = Inr (json_segment h, json_segment c, b64url sig)"
  proof (rule split_three)
    show "length (json_segment h) + length (json_segment c) + length (b64url sig) + 2 \<le> MAX_TOKEN_LENGTH"
      using length_segment [of h] length_segment [of c] fine signature_length [OF assms(6)]
      by (simp add: MAX_TOKEN_LENGTH_def b64url_def)
    show "list_all is_base64url_char (b64url sig)" using assms(5) by (simp add: b64url_def urlsafe_encode_alphabet)
  qed (rule segment_alphabet)+
  ultimately show ?thesis
    using assms(1,2) fine(3,4) b64decode_b64url [OF assms(5)] by (simp add: verify_checked_def)
qed

section \<open>The profile\<close>

definition pinned_profile :: "'k \<Rightarrow> 'k subject_profile" where
  "pinned_profile pk =
     \<lparr>sp_issuer = ISSUER, sp_audience = AUDIENCE, sp_allowed_algorithms = [''ES256''], sp_subject_type = ''public'',
      sp_required_tenant_claim = Some ''org'', sp_leeway_seconds = 60, sp_trusted_additional_audiences = [''account''],
      sp_keys = [(KEY_ID, (''ES256'', pk))]\<rparr>"

lemma coordinate_loads:
  assumes "n < 256 ^ 32"
  shows "to_bytes_32 n = Inr (big_endian 32 n)" "profile_b64bytes (JStr (b64url (big_endian 32 n))) = Inr (big_endian 32 n)"
    "int_from_bytes (big_endian 32 n) = n"
proof -
  have "urlsafe_encode (big_endian 32 n) \<noteq> []"
  proof
    assume "urlsafe_encode (big_endian 32 n) = []"
    moreover have "urlsafe_decode [] = Inr []" by (simp add: urlsafe_decode_def)
    ultimately have "big_endian 32 n = []"
      using urlsafe_decode_encode [OF big_endian_bytes(2) [of 32 n]] by simp
    with big_endian_bytes(1) [of 32 n] show False by simp
  qed
  then show "profile_b64bytes (JStr (b64url (big_endian 32 n))) = Inr (big_endian 32 n)"
    using big_endian_bytes(2) urlsafe_encode_alphabet urlsafe_decode_encode by (simp add: profile_b64bytes_def b64url_def)
  show "to_bytes_32 n = Inr (big_endian 32 n)" using assms by (simp only: to_bytes_32_def if_True)
  show "int_from_bytes (big_endian 32 n) = n" using assms by (rule int_from_big_endian)
qed

lemma issuer_valid: "validate_issuer ISSUER = Inr ()" "is_client_identifier AUDIENCE" "is_client_identifier ''account''"
  by code_simp+

lemma key_loads:
  assumes "working_keys cr key other pk"
  shows "\<exists>jwk. fixture_jwk key = Inr jwk \<and> fixture_profile cr jwk = Inr (pinned_profile pk)"
proof -
  from assms have xy: "sk_x key < 256 ^ 32" "sk_y key < 256 ^ 32" and pk: "cr_ec_key cr (sk_x key) (sk_y key) = Inr pk"
    unfolding working_keys_def by blast+
  note x = coordinate_loads [OF xy(1)] and y = coordinate_loads [OF xy(2)]
  let ?jwk = "JObj [(''kty'', JStr ''EC''), (''crv'', JStr ''P-256''), (''kid'', JStr KEY_ID), (''use'', JStr ''sig''),
       (''alg'', JStr ''ES256''), (''x'', JStr (b64url (big_endian 32 (sk_x key)))), (''y'', JStr (b64url (big_endian 32 (sk_y key))))]"
  have "\<not> list_ex is_control_char KEY_ID" "KEY_ID \<noteq> []" by code_simp+
  then have "load_key cr [''ES256''] ?jwk = Inr (KEY_ID, (''ES256'', pk))"
    using x y pk big_endian_bytes(1)
    by (simp add: load_key_def dict_get_def dict_get_or_def dict_has_def PRIVATE_JWK_MEMBERS_def key_algorithm_def
        KEY_ALGORITHM_BY_TYPE_def load_public_key_def EC_COORDINATE_LENGTH_def as_invalid_key_def)
  then have "fixture_profile cr ?jwk = Inr (pinned_profile pk)"
    using issuer_valid
    by (simp add: fixture_profile_def make_profile_def load_key_set_def dict_get_def SUPPORTED_ALGORITHMS_def
        SUBJECT_TYPES_def TENANT_CLAIMS_def MAX_LEEWAY_SECONDS_def pinned_profile_def AUDIENCE_def)
  moreover have "fixture_jwk key = Inr ?jwk" using x(1) y(1) by (simp add: fixture_jwk_def)
  ultimately show ?thesis by blast
qed

section \<open>Decisions\<close>

definition decision :: "subject_result \<Rightarrow> string" where
  "decision r = (case sr_reason r of None \<Rightarrow> sr_outcome r | Some reason \<Rightarrow> reason)"

text \<open>The checks of a token whose signature is valid or not, without its encoding.\<close>

definition decoded_checks :: "bool \<Rightarrow> 'k \<Rightarrow> dict \<Rightarrow> dict \<Rightarrow> subject_result result" where
  "decoded_checks genuine pk header claims =
     bindR (select_key (pinned_profile pk) header) (\<lambda>(key_id, algorithm, _).
     bindR (requireR genuine (Rejected ''invalid_signature'')) (\<lambda>_.
     check_claims (pinned_profile pk) NOW None key_id algorithm claims))"

lemma pinned_key_selected:
  "select_key (pinned_profile pk) h = Inr (kid, alg, key) \<Longrightarrow> alg = ''ES256'' \<and> key = pk"
  by (auto simp: select_key_def pinned_profile_def bindR_eq_Inr split: json.splits if_splits)

lemma decoded_token:
  assumes "reads_back cr h" "reads_back cr c" "h \<in> set fixture_objects" "c \<in> set fixture_objects"
    and "bytes_ok sig" "length sig \<le> 64"
    and "genuine \<longleftrightarrow> length sig = 64 \<and> cr_verify_ecdsa cr pk (int_from_bytes (take 32 sig)) (int_from_bytes (drop 32 sig))
      (map ord (json_segment h @ ''.'' @ json_segment c))"
  shows "verify_checked cr (json_segment h @ ''.'' @ json_segment c @ ''.'' @ b64url sig) (pinned_profile pk) NOW None =
    decoded_checks genuine pk h c"
proof (cases "select_key (pinned_profile pk) h")
  case (Inl e)
  then show ?thesis unfolding token_parts [OF assms(1-6)] decoded_checks_def by simp
next
  case (Inr selected)
  obtain kid alg k where "selected = (kid, alg, k)" by (cases selected)
  with Inr pinned_key_selected [of pk h kid alg k] show ?thesis
    unfolding token_parts [OF assms(1-6)] decoded_checks_def
    by (simp add: verify_signature_def ES256_SIGNATURE_LENGTH_def assms(7))
qed

lemma signed_token:
  assumes "sound_signer g"
  shows "\<exists>sig. sign_token g h c = Inr (json_segment h @ ''.'' @ json_segment c @ ''.'' @ b64url sig) \<and> bytes_ok sig \<and> length sig = 64 \<and>
    (cr_verify_ecdsa cr pk (int_from_bytes (take 32 sig)) (int_from_bytes (drop 32 sig)) (map ord (json_segment h @ ''.'' @ json_segment c))
       \<longleftrightarrow> verifies cr pk g (map ord (json_segment h @ ''.'' @ json_segment c)))"
proof -
  let ?msg = "map ord (json_segment h @ ''.'' @ json_segment c)"
  have "ord (CHR ''.'') < 128" by (simp add: ord_def)
  then have "isascii (json_segment h @ ''.'' @ json_segment c)"
    using segment_alphabet base64url_plain by (auto simp: isascii_def isascii_char_def list_all_iff)
  then have msg: "utf8_encode (json_segment h @ ''.'' @ json_segment c) = ?msg" by (rule utf8_encode_ascii)
  obtain r s where rs: "sk_sign g ?msg = (r, s)" by (cases "sk_sign g ?msg")
  with assms have "r < 256 ^ 32" "s < 256 ^ 32" unfolding sound_signer_def by (metis fst_conv snd_conv)+
  note r = coordinate_loads [OF this(1)] and s = coordinate_loads [OF this(2)]
  let ?sig = "big_endian 32 r @ big_endian 32 s"
  have "sign_token g h c = Inr (json_segment h @ ''.'' @ json_segment c @ ''.'' @ b64url ?sig)"
    unfolding sign_token_def Let_def msg rs using r(1) s(1) by simp
  moreover have "take 32 ?sig = big_endian 32 r" "drop 32 ?sig = big_endian 32 s" "bytes_ok ?sig" "length ?sig = 64"
    using big_endian_bytes by simp_all
  ultimately show ?thesis using r(3) s(3) rs unfolding verifies_def by (metis fst_conv snd_conv)
qed

lemma inputs_are_objects: "(name, signer, h, c) \<in> set fixture_inputs \<Longrightarrow> h \<in> set fixture_objects \<and> c \<in> set fixture_objects"
  unfolding fixture_objects_def by force

lemma only_one_forged:
  "(name, Other, h, c) \<in> set fixture_inputs \<Longrightarrow> h = fixture_header \<and> c = fixture_claims"
  by (auto simp: fixture_inputs_def Let_def)

lemma token_decided:
  assumes "working_keys cr key other pk" "list_all (reads_back cr) fixture_objects"
    and "(name, signer, h, c) \<in> set fixture_inputs"
  shows "\<exists>token. fixture_token key other signer h c = Inr token \<and>
    verify_checked cr token (pinned_profile pk) NOW None = decoded_checks (signer = Pinned) pk h c"
proof -
  from inputs_are_objects [OF assms(3)] have objects: "h \<in> set fixture_objects" "c \<in> set fixture_objects" by blast+
  with assms(2) have reads: "reads_back cr h" "reads_back cr c" by (simp_all add: list_all_iff)
  note decoded = decoded_token [OF reads objects]
  show ?thesis
  proof (cases signer)
    case Pinned
    from assms(1) have "sound_signer key" "\<forall>msg. verifies cr pk key msg" unfolding working_keys_def by blast+
    with signed_token [of key h c cr pk] obtain sig where
        sig: "sign_token key h c = Inr (json_segment h @ ''.'' @ json_segment c @ ''.'' @ b64url sig)" "bytes_ok sig" "length sig = 64"
          "cr_verify_ecdsa cr pk (int_from_bytes (take 32 sig)) (int_from_bytes (drop 32 sig)) (map ord (json_segment h @ ''.'' @ json_segment c))"
      by blast
    with decoded [of sig True pk] Pinned show ?thesis by (auto simp: fixture_token_def)
  next
    case Other
    with assms(1) only_one_forged assms(3) have "sound_signer other"
        "\<not> verifies cr pk other (map ord (json_segment h @ ''.'' @ json_segment c))"
      unfolding working_keys_def by blast+
    with signed_token [of other h c cr pk] obtain sig where
        sig: "sign_token other h c = Inr (json_segment h @ ''.'' @ json_segment c @ ''.'' @ b64url sig)" "bytes_ok sig" "length sig = 64"
          "\<not> cr_verify_ecdsa cr pk (int_from_bytes (take 32 sig)) (int_from_bytes (drop 32 sig)) (map ord (json_segment h @ ''.'' @ json_segment c))"
      by blast
    with decoded [of sig False pk] Other show ?thesis by (auto simp: fixture_token_def)
  next
    case Unsigned
    have "b64url [] = []" by (simp add: b64url_def urlsafe_encode_def)
    with Unsigned decoded [of "[]" False pk] show ?thesis by (simp add: fixture_token_def)
  qed
qed

text \<open>The published decisions.\<close>

definition FIXTURE_DECISIONS :: "(string \<times> string) list" where
  "FIXTURE_DECISIONS =
     [(''valid_public_subject'', ''verified''), (''wrong_issuer'', ''issuer_mismatch''),
      (''wrong_audience'', ''audience_mismatch''), (''expired'', ''expired''), (''not_yet_valid'', ''not_yet_valid''),
      (''forged_signature_same_kid'', ''invalid_signature''), (''unknown_kid'', ''unknown_key''),
      (''access_token_type'', ''token_type_mismatch''), (''critical_header'', ''unsupported_header''),
      (''alg_none'', ''algorithm_not_allowed''), (''cross_tenant_missing_org'', ''tenant_missing''),
      (''empty_subject'', ''invalid_claim''), (''untrusted_extra_audience'', ''audience_mismatch''),
      (''trusted_extra_audience'', ''verified''), (''lowercase_typ'', ''verified''), (''expiry_before_issue'', ''invalid_claim'')]"

definition decides :: "subject_result result \<Rightarrow> string \<Rightarrow> bool" where
  "decides checked d =
     (case checked of
        Inr r \<Rightarrow> sr_reason r = None \<and> sr_outcome r = d
      | Inl (Rejected reason) \<Rightarrow> reason = d
      | _ \<Rightarrow> False)"

lemma subject_fine: "check_subject (JStr ''f3b0c9a2-6d1e-4c55-9b7a-2f0e8d1c4b6a'') = Inr ''f3b0c9a2-6d1e-4c55-9b7a-2f0e8d1c4b6a''"
    "check_tenant (JStr ''tenant-acme'') = Inr ''tenant-acme''" "check_tenant JNull = Inl (Rejected ''tenant_missing'')"
    "check_subject (JStr []) = Inl (Rejected ''invalid_claim'')" 
  by code_simp+

lemma media_types: "is_jwt_media_type (JStr ''JWT'')" "is_jwt_media_type (JStr ''jwt'')" "\<not> is_jwt_media_type (JStr ''at+jwt'')"
  by code_simp+

definition input_decided :: "'k \<Rightarrow> string \<times> fixture_signer \<times> dict \<times> dict \<Rightarrow> string \<times> string \<Rightarrow> bool" where
  "input_decided pk i nd =
     (case i of (name, signer, h, c) \<Rightarrow>
        name = fst nd \<and> decides (decoded_checks (signer = Pinned) pk h c) (snd nd))"

lemma inputs_decided: "list_all2 (input_decided pk) fixture_inputs FIXTURE_DECISIONS"
  by (simp add: input_decided_def fixture_inputs_def FIXTURE_DECISIONS_def fixture_header_def fixture_claims_def Let_def decides_def decoded_checks_def
      select_key_def pinned_profile_def dict_get_def dict_get_or_def dict_has_def ALLOWED_HEADER_MEMBERS_def media_types
      check_claims_def check_audience_def audiences_of_def check_times_def numeric_date_def MAX_NUMERIC_DATE_def check_nonce_def
      subject_fine NOW_def ISSUER_def AUDIENCE_def KEY_ID_def)

section \<open>The catalogue\<close>

text \<open>The name and the decision of each case, as the JSON of the catalogue has them.\<close>

definition entry_decision :: "json \<Rightarrow> string \<times> string" where
  "entry_decision entry =
     (case entry of
        JObj e \<Rightarrow>
          (case (dict_get e ''name'', dict_get e ''expected_receipt'') of
             (JStr name, JObj rc) \<Rightarrow>
               (name, case dict_get_or rc ''reason'' (dict_get rc ''outcome'') of JStr d \<Rightarrow> d | _ \<Rightarrow> [])
           | _ \<Rightarrow> ([], []))
      | _ \<Rightarrow> ([], []))"

definition catalog_decisions :: "json \<Rightarrow> (string \<times> string) list" where
  "catalog_decisions catalog =
     (case catalog of
        JObj d \<Rightarrow> (case dict_get d ''cases'' of JArr entries \<Rightarrow> map entry_decision entries | _ \<Rightarrow> [])
      | _ \<Rightarrow> [])"

lemma map_of_opt_entry: "map_of (opt_entry n v @ rest) k = (if k = n \<and> v \<noteq> None then v else map_of rest k)"
  by (cases v) (auto simp: opt_entry_def)

lemma map_of_opt_last: "map_of (opt_entry n v) k = (if k = n then v else None)"
  by (cases v) (auto simp: opt_entry_def)

lemma receipt_entries: "dict_get_or (receipt r) ''reason'' (dict_get (receipt r) ''outcome'') = JStr (decision r)"
  by (cases "sr_reason r")
    (simp_all add: receipt_def dict_get_or_def dict_get_def decision_def map_of_opt_entry map_of_opt_last del: map_of_append)

lemma entry_built:
  assumes "decides (verify_checked cr token profile NOW None) d"
  shows "\<exists>entry. catalog_entry cr profile (name, token) = Inr entry \<and> entry_decision entry = (name, d)"
proof -
  from assms obtain r where "verify_subject_assertion cr token profile NOW None = Inr r" "decision r = d"
    by (auto simp: verify_subject_assertion_def decides_def decision_def rejected_result_def split: sum.splits exn.splits)
  then show ?thesis
    by (simp add: catalog_entry_def entry_decision_def dict_get_def receipt_entries [unfolded dict_get_def])
qed

lemma mapR_relates:
  "list_all2 (\<lambda>x y. \<exists>z. f x = Inr z \<and> P z y) xs ys \<Longrightarrow> \<exists>zs. mapR f xs = Inr zs \<and> list_all2 P zs ys"
  by (induction rule: list_all2_induct) auto

lemma mapR_list_all2:
  "list_all2 (\<lambda>x y. \<exists>z. f x = Inr z \<and> g z = y) xs ys \<Longrightarrow> \<exists>zs. mapR f xs = Inr zs \<and> map g zs = ys"
  by (induction rule: list_all2_induct) auto

lemma case_built:
  assumes "working_keys cr key other pk" "list_all (reads_back cr) fixture_objects"
    and "i \<in> set fixture_inputs" "input_decided pk i nd"
  shows "\<exists>c. build_case key other i = Inr c \<and> fst c = fst nd \<and>
    decides (verify_checked cr (snd c) (pinned_profile pk) NOW None) (snd nd)"
proof -
  obtain name signer h c where i: "i = (name, signer, h, c)" by (cases i)
  with token_decided [OF assms(1,2)] assms(3) obtain token where "fixture_token key other signer h c = Inr token"
      "verify_checked cr token (pinned_profile pk) NOW None = decoded_checks (signer = Pinned) pk h c"
    by blast
  with i assms(4) show ?thesis by (simp add: build_case_def input_decided_def)
qed

text \<open>
  C40. The conformance catalogue says what its case names say: whenever the generated keys work and the
  JSON scanner reads back what was printed, the catalogue is built, and its sixteen tokens, each taken
  through the whole verifier, carry exactly the published decisions: three are verified, and each of the
  others is refused for its own reason.
\<close>

theorem catalog_decides:
  assumes "working_keys cr key other pk" "list_all (reads_back cr) fixture_objects"
  shows "\<exists>catalog. build_catalog cr key other = Inr catalog \<and> catalog_decisions catalog = FIXTURE_DECISIONS"
proof -
  from key_loads [OF assms(1)] obtain jwk where jwk: "fixture_jwk key = Inr jwk" "fixture_profile cr jwk = Inr (pinned_profile pk)"
    by blast
  let ?ok = "\<lambda>c nd. fst c = fst nd \<and> decides (verify_checked cr (snd c) (pinned_profile pk) NOW None) (snd nd)"
  have "list_all2 (\<lambda>i nd. \<exists>c. build_case key other i = Inr c \<and> ?ok c nd) fixture_inputs FIXTURE_DECISIONS"
    using inputs_decided [of pk] case_built [OF assms] by (auto simp: list_all2_conv_all_nth)
  from mapR_relates [of "build_case key other" ?ok, OF this]
  obtain cases where cases: "fixture_cases key other = Inr cases" "list_all2 ?ok cases FIXTURE_DECISIONS"
    unfolding fixture_cases_def by blast
  have "list_all2 (\<lambda>c nd. \<exists>entry. catalog_entry cr (pinned_profile pk) c = Inr entry \<and> entry_decision entry = nd) cases FIXTURE_DECISIONS"
    using cases(2)
  proof (rule list_all2_mono)
    fix c nd :: "string \<times> string" assume "?ok c nd"
    with entry_built [of cr "snd c" "pinned_profile pk" "snd nd" "fst c"]
    show "\<exists>entry. catalog_entry cr (pinned_profile pk) c = Inr entry \<and> entry_decision entry = nd"
      by (metis prod.collapse)
  qed
  then obtain entries where "mapR (catalog_entry cr (pinned_profile pk)) cases = Inr entries" "map entry_decision entries = FIXTURE_DECISIONS"
    using mapR_list_all2 by blast
  with jwk cases(1) show ?thesis by (simp add: build_catalog_def catalog_decisions_def dict_get_def)
qed

text \<open>
  Keys that work: the pinned key signs with a pair of numbers that only it makes, and the scanner looks
  its input up among the printed objects.
\<close>

definition lookup_scan :: "dict list \<Rightarrow> nat list \<Rightarrow> json option" where
  "lookup_scan objects raw = map_option JObj (find (\<lambda>d. utf8_encode (compact_json (JObj d)) = raw) objects)"

definition toy_crypto :: "nat crypto" where
  "toy_crypto =
     \<lparr>cr_ec_key = (\<lambda>x y. Inr (x + y)), cr_rsa_key = (\<lambda>_ _. Inl (ValueError [])), cr_verify_ecdsa = (\<lambda>pk r s _. r = pk \<and> s = 7),
      cr_verify_rsa = (\<lambda>_ _ _. False), cr_scan_json = lookup_scan fixture_objects\<rparr>"

definition toy_key :: "nat \<Rightarrow> signing_key" where
  "toy_key n = \<lparr>sk_x = n, sk_y = 1, sk_sign = (\<lambda>_. (n + 1, 7))\<rparr>"

lemma toy_keys_work: "working_keys toy_crypto (toy_key 1) (toy_key 2) 2"
  by (simp add: working_keys_def sound_signer_def verifies_def toy_crypto_def toy_key_def)

text \<open>The printed objects differ from each other, so the lookup finds the right one.\<close>

definition plain_char :: "char \<Rightarrow> bool" where
  "plain_char c \<longleftrightarrow> c \<noteq> CHR 0x22 \<and> c \<noteq> CHR 0x5C \<and> 32 \<le> ord c \<and> ord c \<le> 126"

lemma json_string_plain: "list_all plain_char s \<Longrightarrow> json_string b s = CHR 0x22 # s @ [CHR 0x22]"
proof -
  assume "list_all plain_char s"
  then have "concat (map (escape_char b) s) = s" by (induction s) (auto simp: escape_char_def plain_char_def)
  then show ?thesis by (simp add: json_string_def)
qed

lemma plain_char_bits:
  "plain_char (Char b0 b1 b2 b3 b4 b5 b6 False) =
     (Char b0 b1 b2 b3 b4 b5 b6 False \<noteq> CHR 0x22 \<and> Char b0 b1 b2 b3 b4 b5 b6 False \<noteq> CHR 0x5C \<and>
      (b5 \<or> b6) \<and> \<not> (b0 \<and> b1 \<and> b2 \<and> b3 \<and> b4 \<and> b5 \<and> b6))"
  by (auto simp: plain_char_def ord_def)

lemma printed_times:
  "show_int 1790000300 = ''1790000300''" "show_int 1789999990 = ''1789999990''" "show_int 1789999939 = ''1789999939''"
  "show_int 1789999600 = ''1789999600''" "show_int 1790000061 = ''1790000061''" "show_int 1789999980 = ''1789999980''"
  by code_simp+

lemma printed_objects_differ: "distinct (map (\<lambda>d. compact_json (JObj d)) (remdups fixture_objects))"
  by (simp add: fixture_objects_def fixture_inputs_def fixture_header_def fixture_claims_def Let_def compact_json_def
      json_string_plain plain_char_bits printed_times NOW_def ISSUER_def AUDIENCE_def KEY_ID_def)

lemma toy_reads_back: "list_all (reads_back toy_crypto) fixture_objects"
proof -
  have inj: "inj_on (\<lambda>d. compact_json (JObj d)) (set fixture_objects)"
    using printed_objects_differ by (simp add: distinct_map)
  have "find (\<lambda>e. utf8_encode (compact_json (JObj e)) = utf8_encode (compact_json (JObj d))) fixture_objects = Some d"
    if d: "d \<in> set fixture_objects" for d
  proof -
    have "\<exists>e. find (\<lambda>e. utf8_encode (compact_json (JObj e)) = utf8_encode (compact_json (JObj d))) fixture_objects = Some e"
      using d by (auto simp: find_None_iff2 not_None_eq [symmetric] find_None_iff)
    then obtain e where e: "find (\<lambda>e. utf8_encode (compact_json (JObj e)) = utf8_encode (compact_json (JObj d))) fixture_objects = Some e" ..
    then have "e \<in> set fixture_objects" "compact_json (JObj e) = compact_json (JObj d)"
      by (auto simp: find_Some_iff utf8_inject)
    with inj d have "e = d" by (auto dest: inj_onD)
    with e show ?thesis by simp
  qed
  then show ?thesis by (simp add: list_all_iff reads_back_def toy_crypto_def lookup_scan_def)
qed

theorem catalog_decides_witness:
  "\<exists>catalog. build_catalog toy_crypto (toy_key 1) (toy_key 2) = Inr catalog \<and> catalog_decisions catalog = FIXTURE_DECISIONS"
  using catalog_decides [OF toy_keys_work toy_reads_back] .

end
