(* ===== verification/Spec2Isabelle.thy ===== *)
theory Spec2Isabelle
  imports Lock_Protocol ProductService MockProduct Federation_Theorems RelyingParty_Interleaving Directory_Convergence
    SubjectAssertion_Theorems Dependencies RealmPolicy_Theorems NimProxy_Theorems PatchGuard_Envelope FuzzMatching AssertionFixtures_Theorems
begin

text \<open>
  A verification library for Keyverse, an identity service around Keycloak. The program has three parts:
  the account-unification service (\<open>services/account_unification/app\<close>), its tools
  (\<open>services/account_unification/tools\<close>) and the scripts that guard the repository's own automation
  (\<open>scripts\<close>, \<open>scripts/ci\<close>).

  \<^bold>\<open>How the parts interact.\<close> At startup \<open>main.py\<close> opens the key-value store named by the bootstrap file, loads the
  configuration from it and wires the Keycloak client, the audit log, the user-operation locks and the
  services into the application state. Requests pass a bearer gate and a path check, resolve their service from
  the application state and call it; the services act on Keycloak through the admin client, on the store and
  on the audit trail. The seeding tool writes the store that startup reads; the fixture tool publishes signed
  tokens with the answers of the subject-assertion verifier. The scripts check the committed realm, hold
  the credential of the model endpoint and bound what an automated change may touch.

  \<^bold>\<open>Conventions.\<close> \<open>Prelude\<close> has the exceptions of the program as one datatype \<open>exn\<close>, results \<open>exn + 'a\<close> with \<open>bindR\<close>,
  \<open>requireR\<close>, \<open>forR\<close>, \<open>mapR\<close>, and stateful code as \<open>('s, 'a) action\<close>, which returns a result together with the new
  state also when it raises. \<open>hoareA\<close> and \<open>keepsA\<close> are the rules for it, collected in named theorems. Definitions
  keep the source's names and the order of its checks. \<open>Json\<close> has JSON values as Python sees them, with \<open>json.dumps\<close>;
  \<open>Python_Builtins\<close> has \<open>int\<close>, \<open>float\<close>, \<open>repr\<close> of texts and values; \<open>Url\<close>, \<open>Base64\<close>, \<open>Sha256\<close>, \<open>Utf8\<close> and \<open>Text_Checks\<close> have
  what the source uses of \<open>urllib\<close>, \<open>base64\<close>, \<open>hashlib\<close>, \<open>str.encode\<close>, \<open>bytes.decode\<close> and \<open>re\<close>.

  \<^bold>\<open>Theories and sources.\<close>
  \<^item> \<open>Models\<close>, \<open>Matching\<close>, \<open>FuzzMatching\<close>, \<open>Identifiers\<close>: \<open>models.py\<close>, \<open>matching.py\<close>, \<open>fuzz_matching.py\<close>, \<open>identifiers.py\<close>,
    \<open>path_security.py\<close>. Shown: the precedence of the match reasons, that no input makes the fuzz target fail,
    and which path segments are accepted.
  \<^item> \<open>Audit_Trail\<close>, \<open>KvStore\<close>, \<open>UserLocks\<close>, \<open>Lock_Protocol\<close>: \<open>audit.py\<close>, \<open>kv_store.py\<close>, \<open>user_locks.py\<close>. The contracts are the
    locales \<open>audit_sink\<close>, \<open>kv_store\<close> and \<open>user_operation_locks\<close>, interpreted on the in-memory and the SQLite
    implementations; the threads of the keyed locks are an inductive step relation with mutual exclusion
    and freedom from deadlock by rule induction.
  \<^item> \<open>KeycloakApi\<close>, \<open>HttpClient\<close>, \<open>ProductClient\<close>, \<open>Confinement\<close>: the admin protocol and the HTTP clients of \<open>keycloak_client.py\<close>,
    \<open>product_keycloak_client.py\<close>, \<open>relying_party_admin.py\<close>. The contract is the locale \<open>keycloak_admin\<close> with its
    extensions; the clients send nothing but the token request and whitelisted routes (\<open>suffix_policy\<close>).
  \<^item> \<open>Service\<close>, \<open>Merge\<close>, \<open>Merge_Audit\<close>, \<open>Merge_Total\<close>, \<open>Merge_Theorems\<close>, \<open>Scim\<close>, \<open>Retirement\<close>, \<open>Routes\<close>, \<open>ProductService\<close>:
    \<open>service.py\<close>, \<open>scim.py\<close>, \<open>api.py\<close>. The locale \<open>unification\<close> assembles the contracts; a merge refines the
    abstract merge of two identities, loses nothing when it raises, is refused without effect, finishes
    when its collaborators answer, is audited completely, and its result is never undone.
  \<^item> \<open>Auth\<close>, \<open>Registration\<close>: \<open>auth.py\<close>, \<open>registration.py\<close>. The gate, the rate limit and the absence of orphans.
  \<^item> \<open>Federation\<close>, \<open>RelyingParty\<close>, \<open>RelyingPartyState\<close>, \<open>DirectoryFederation\<close>, \<open>DirectoryFederationState\<close>, \<open>Reconcile\<close> with their
    theorem theories: \<open>federation.py\<close>, \<open>relying_party.py\<close>, \<open>relying_party_state.py\<close>, \<open>directory_federation.py\<close>,
    \<open>directory_federation_state.py\<close>. What an accepted registration guarantees, that distinguished names are
    decided as the grammar \<open>Distinguished_Names\<close> says, redaction, integrity of the store, truthful status, and
    convergence against a Keycloak that keeps its contract (\<open>idp_provider\<close>, \<open>rp_clients\<close>, \<open>dir_components\<close>).
    \<open>RelyingParty_Interleaving\<close> interleaves the turns of a reconciliation with whole requests as a step
    relation: a deleted relying party stays deleted (\<open>rp_directory\<close>); for user directories, whose
    reconciliation works on a snapshot of values, \<open>Directory_Convergence\<close> shows the opposite.
  \<^item> \<open>SubjectAssertion\<close>, \<open>AssertionFixtures\<close>: \<open>subject_assertion.py\<close>, \<open>generate_subject_assertion_fixtures.py\<close>. A verified
    assertion was signed by a pinned key of the named algorithm and carries the expected claims; a
    verification never raises; the sixteen published tokens get the published decisions.
  \<^item> \<open>Config\<close>, \<open>Lifecycle\<close>, \<open>Dependencies\<close>: \<open>config.py\<close>, \<open>bootstrap.py\<close>, \<open>seed_config_store.py\<close>, \<open>main.py\<close>, \<open>healthcheck.py\<close> and the
    dependency functions of the routers. Every loaded configuration is safe, a seeded store loads as it was
    seeded, shutdown releases what startup took, the registration token opens no operator route, and
    no dependency of a started application is missing.
  \<^item> \<open>RealmPolicy\<close>: \<open>validate_realm.py\<close>. A realm without violations has the documented policy; the search for
    authenticators ends and is exactly reachability in the flow graph.
  \<^item> \<open>NimProxy\<close>: \<open>nim_proxy.py\<close>. Accepted targets decode unambiguously, the credential goes to one host, the
    calls in flight are bounded in every interleaving, and the command closes the socket it bound.
  \<^item> \<open>PatchGuard\<close>, \<open>PatchGuard_Theorems\<close>: the checks of \<open>hourly_product_guard.py\<close>. An accepted patch stays inside the
    boundary, and the scan for a fingerprinted credential is exact.
  \<^item> \<open>PatchGuard_Commands\<close>, \<open>PatchGuard_Events\<close>, \<open>PatchGuard_Envelope\<close>: its commands, self-test and exit status, over a
    \<open>machine\<close> (Git, files, JSON parser) that records every process and every written file as an event. A
    capture runs nothing that could execute code of the workspace and writes only its own files, the
    writing Git command runs only on the sealed bytes, and a captured proposal is read back unchanged.
  \<^item> \<open>MockKeycloak\<close>, \<open>MockProduct\<close>: the test doubles of \<open>tests\<close>, on which the contracts are interpreted.

  \<^bold>\<open>Parameters.\<close> Code that is not in the repository is an argument of the definitions: the HTTP transport, the
  SQLite and YAML drivers, the pydantic JSON codec, the JSON scanner, the \<open>cryptography\<close> package, Git and the file
  system. What a theorem relies on of them is a hypothesis or a locale assumption, and each such theorem
  has a witness with a concrete instance.

  \<^bold>\<open>Loops and bounds.\<close> No definition uses fuel. Loops are structural recursions over what they consume, except the
  flow search of the realm check (its measure counts the flows not yet entered), the decoders and the
  printing of numbers. Integers are unbounded as in Python; words of 32 bits are used inside SHA-256 only.
  Floating-point texts are rounded to doubles exactly. Text is a list of characters U+0000 to U+00FF; the
  proxy and the patch guard, which decode UTF-8 themselves, work on lists of code points.

  \<^bold>\<open>Not modelled.\<close> Argument parsing (\<open>argparse\<close>; the commands take parsed arguments), the loops of the server and
  of the fuzzing library, log messages, timeouts and certificates of the transport, the interpreter's
  recursion limit, read-only and deep copies (values are immutable here), and the text of error messages
  where the source interpolates values that no other code reads. The request validation of FastAPI and
  pydantic appears only where the source repeats or relies on it. The deployment (shell scripts,
  charts, workflow files) configures third-party software. The turns of a reconciliation are
  atomic, which the per-client lock gives for requests on the same client; single calls to Keycloak
  for different clients are not interleaved.
\<close>

end
